(* ===== verification/GoIO.thy ===== *)
theory GoIO
  imports Prelude
begin

text \<open>
  Interaction programs: how the development models code that talks to services it cannot
  see (the Inventory, Kubernetes, Keycloak, a gRPC stream, the container runtime, the
  operating system). A program of type \<open>('c, 'a) io\<close> runs on the list of calls made so
  far, and returns an outcome and that list extended by the calls it made itself. The reply
  to a call is a parameter: a function of the calls made before it and of its arguments, so
  that the model covers every deterministic behaviour of the services, stateful ones
  included, and time. A Go panic (a nil dereference, an index out of range) is the outcome
  \<open>Panic\<close>; it skips the rest of the program, except for deferred functions.

  The second half states properties of programs: \<open>emits P m\<close> says that every call \<open>m\<close> can
  make, panicking or not, satisfies \<open>P\<close>; \<open>calls_of\<close> and \<open>result_of\<close> read a run off.
\<close>

section \<open>Programs\<close>

datatype 'a outcome = Ret 'a | Panic

datatype ('c, 'a) io = IO (run_io: "'c list \<Rightarrow> 'a outcome \<times> 'c list")

definition ret :: "'a \<Rightarrow> ('c, 'a) io" where
  "ret x = IO (\<lambda>l. (Ret x, l))"

definition panic :: "('c, 'a) io" where
  "panic = IO (\<lambda>l. (Panic, l))"

text \<open>\<open>ask\<close> reads something off the history (the clock) without adding to it, \<open>call\<close> makes a
  call and takes its reply.\<close>

definition ask :: "('c list \<Rightarrow> 'a) \<Rightarrow> ('c, 'a) io" where
  "ask r = IO (\<lambda>l. (Ret (r l), l))"

definition call :: "'c \<Rightarrow> ('c list \<Rightarrow> 'a) \<Rightarrow> ('c, 'a) io" where
  "call c r = IO (\<lambda>l. (Ret (r l), l @ [c]))"

definition bnd :: "('c, 'a) io \<Rightarrow> ('a \<Rightarrow> ('c, 'b) io) \<Rightarrow> ('c, 'b) io" where
  "bnd m f = IO (\<lambda>l. case run_io m l of
      (Ret x, l') \<Rightarrow> run_io (f x) l'
    | (Panic, l') \<Rightarrow> (Panic, l'))"

text \<open>\<open>with_defer m d\<close> is \<open>defer d()\<close> around \<open>m\<close>: \<open>d\<close> gets what \<open>m\<close> returned (\<open>Panic\<close> when
  \<open>m\<close> panicked) and runs in either case; a panic of either one is a panic of the whole.\<close>

definition with_defer :: "('c, 'a) io \<Rightarrow> ('a outcome \<Rightarrow> ('c, unit) io) \<Rightarrow> ('c, 'a) io" where
  "with_defer m d = IO (\<lambda>l. case run_io m l of (r, l') \<Rightarrow>
     (case run_io (d r) l' of
        (Ret _, l'') \<Rightarrow> (r, l'')
      | (Panic, l'') \<Rightarrow> (Panic, l'')))"

definition of_outcome :: "'a outcome \<Rightarrow> ('c, 'a) io" where
  "of_outcome r = IO (\<lambda>l. (r, l))"

text \<open>Reading through a pointer: a nil one panics.\<close>

definition deref :: "'a option \<Rightarrow> ('c, 'a) io" where
  "deref p = (case p of None \<Rightarrow> panic | Some x \<Rightarrow> ret x)"

definition calls_of :: "('c, 'a) io \<Rightarrow> 'c list" where
  "calls_of m = snd (run_io m [])"

definition result_of :: "('c, 'a) io \<Rightarrow> 'a outcome" where
  "result_of m = fst (run_io m [])"

text \<open>The two ways in which the code goes on after a fallible call: \<open>if err != nil\<close> returns the
  error, otherwise the value (or nothing) goes to the rest.\<close>

definition if_ok :: "('c, 'e + 'a) io \<Rightarrow> ('a \<Rightarrow> ('c, 'e + 'b) io) \<Rightarrow> ('c, 'e + 'b) io" where
  "if_ok m f = bnd m (\<lambda>r. case r of Inl e \<Rightarrow> ret (Inl e) | Inr x \<Rightarrow> f x)"

definition if_nil :: "('c, 'e option) io \<Rightarrow> ('c, 'e option) io \<Rightarrow> ('c, 'e option) io" where
  "if_nil m n = bnd m (\<lambda>r. case r of Some e \<Rightarrow> ret (Some e) | None \<Rightarrow> n)"

text \<open>\<open>if_got m f\<close>: the same when the rest returns only an error.\<close>

definition if_got :: "('c, 'e + 'a) io \<Rightarrow> ('a \<Rightarrow> ('c, 'e option) io) \<Rightarrow> ('c, 'e option) io" where
  "if_got m f = bnd m (\<lambda>r. case r of Inl e \<Rightarrow> ret (Some e) | Inr x \<Rightarrow> f x)"

lemma run_ret [simp, io_run]: "run_io (ret x) l = (Ret x, l)"
  by (simp add: ret_def)

lemma run_panic [simp, io_run]: "run_io panic l = (Panic, l)"
  by (simp add: panic_def)

lemma run_ask [simp, io_run]: "run_io (ask r) l = (Ret (r l), l)"
  by (simp add: ask_def)

lemma run_call [simp, io_run]: "run_io (call c r) l = (Ret (r l), l @ [c])"
  by (simp add: call_def)

lemma run_bnd [simp, io_run]:
  "run_io (bnd m f) l = (case run_io m l of
      (Ret x, l') \<Rightarrow> run_io (f x) l'
    | (Panic, l') \<Rightarrow> (Panic, l'))"
  by (simp add: bnd_def)

lemma run_with_defer [simp, io_run]:
  "run_io (with_defer m d) l = (case run_io m l of (r, l') \<Rightarrow>
     (case run_io (d r) l' of
        (Ret _, l'') \<Rightarrow> (r, l'')
      | (Panic, l'') \<Rightarrow> (Panic, l'')))"
  by (simp add: with_defer_def)

lemma run_of_outcome [simp, io_run]: "run_io (of_outcome r) l = (r, l)"
  by (simp add: of_outcome_def)

lemma run_if_ok [simp, io_run]:
  "run_io (if_ok m f) l = (case run_io m l of
      (Ret (Inl e), l') \<Rightarrow> (Ret (Inl e), l')
    | (Ret (Inr x), l') \<Rightarrow> run_io (f x) l'
    | (Panic, l') \<Rightarrow> (Panic, l'))"
  by (auto simp: if_ok_def split: prod.splits outcome.splits sum.splits)

lemma run_if_nil [simp, io_run]:
  "run_io (if_nil m n) l = (case run_io m l of
      (Ret (Some e), l') \<Rightarrow> (Ret (Some e), l')
    | (Ret None, l') \<Rightarrow> run_io n l'
    | (Panic, l') \<Rightarrow> (Panic, l'))"
  by (auto simp: if_nil_def split: prod.splits outcome.splits option.splits)

lemma run_if_got [simp, io_run]:
  "run_io (if_got m f) l = (case run_io m l of
      (Ret (Inl e), l') \<Rightarrow> (Ret (Some e), l')
    | (Ret (Inr x), l') \<Rightarrow> run_io (f x) l'
    | (Panic, l') \<Rightarrow> (Panic, l'))"
  by (auto simp: if_got_def split: prod.splits outcome.splits sum.splits)

lemma deref_simps [simp]: "deref None = panic" "deref (Some x) = ret x"
  by (simp_all add: deref_def)

lemma of_outcome_simps [simp]: "of_outcome Panic = panic" "of_outcome (Ret x) = ret x"
  by (simp_all add: of_outcome_def panic_def ret_def)

lemma io_eqI: "(\<And>l. run_io m l = run_io n l) \<Longrightarrow> m = n"
  by (cases m; cases n) auto

lemma bnd_ret [simp]: "bnd (ret x) f = f x"
  by (rule io_eqI) simp

lemma bnd_ret_right [simp]: "bnd m ret = m"
  by (rule io_eqI) (auto split: prod.splits outcome.splits)

lemma bnd_panic [simp]: "bnd panic f = panic"
  by (rule io_eqI) simp

lemma bnd_assoc [simp]: "bnd (bnd m f) g = bnd m (\<lambda>x. bnd (f x) g)"
  by (rule io_eqI) (auto split: prod.splits outcome.splits)

text \<open>How a run that ends without an error went through its parts.\<close>

lemma run_bnd_Ret:
  "run_io (bnd m f) l = (Ret y, l') \<Longrightarrow> \<exists>x l1. run_io m l = (Ret x, l1) \<and> run_io (f x) l1 = (Ret y, l')"
  by (auto split: prod.splits outcome.splits)

lemma run_if_nil_ok:
  "run_io (if_nil m n) l = (Ret None, l') \<Longrightarrow> \<exists>l1. run_io m l = (Ret None, l1) \<and> run_io n l1 = (Ret None, l')"
  by (auto split: prod.splits outcome.splits option.splits)

lemma if_nil_assoc: "if_nil (if_nil a b) c = if_nil a (if_nil b c)"
  by (rule io_eqI) (simp split: prod.splits outcome.splits option.splits)

lemma bnd_if_nil: "bnd m (\<lambda>x. if_nil (a x) b) = if_nil (bnd m a) b"
  by (rule io_eqI) (simp split: prod.splits outcome.splits option.splits)

section \<open>Which calls a program makes\<close>

definition emits :: "('c \<Rightarrow> bool) \<Rightarrow> ('c, 'a) io \<Rightarrow> bool" where
  "emits P m \<longleftrightarrow> (\<forall>l. \<exists>cs. snd (run_io m l) = l @ cs \<and> list_all P cs)"

lemma emitsD: "emits P m \<Longrightarrow> run_io m l = (r, l') \<Longrightarrow> \<exists>cs. l' = l @ cs \<and> list_all P cs"
  unfolding emits_def by (metis snd_conv)

lemma emits_ret [emits_intro]: "emits P (ret x)"
  by (simp add: emits_def)

lemma emits_panic [emits_intro]: "emits P panic"
  by (simp add: emits_def)

lemma emits_ask [emits_intro]: "emits P (ask r)"
  by (simp add: emits_def)

lemma emits_of_outcome [emits_intro]: "emits P (of_outcome r)"
  by (simp add: emits_def)

lemma emits_deref [emits_intro]: "emits P (deref p)"
  by (cases p) (simp_all add: emits_ret emits_panic)

lemma emits_call [emits_intro]: "P c \<Longrightarrow> emits P (call c r)"
  by (simp add: emits_def)

lemma emits_bnd [emits_intro]:
  assumes "emits P m" and "\<And>x. emits P (f x)"
  shows "emits P (bnd m f)"
  unfolding emits_def
proof
  fix l
  obtain r l1 where m: "run_io m l = (r, l1)" by fastforce
  with assms(1) obtain cs where cs: "l1 = l @ cs" "list_all P cs" by (blast dest: emitsD)
  show "\<exists>cs. snd (run_io (bnd m f) l) = l @ cs \<and> list_all P cs"
  proof (cases r)
    case Panic
    with m cs show ?thesis by simp
  next
    case (Ret x)
    obtain r2 l2 where f: "run_io (f x) l1 = (r2, l2)" by fastforce
    with assms(2) obtain ds where "l2 = l1 @ ds" "list_all P ds" by (blast dest: emitsD)
    with m f cs Ret show ?thesis by (auto intro!: exI [of _ "cs @ ds"])
  qed
qed

lemma emits_with_defer [emits_intro]:
  assumes "emits P m" and "\<And>r. emits P (d r)"
  shows "emits P (with_defer m d)"
  unfolding emits_def
proof
  fix l
  obtain r l1 where m: "run_io m l = (r, l1)" by fastforce
  with assms(1) obtain cs where cs: "l1 = l @ cs" "list_all P cs" by (blast dest: emitsD)
  obtain r2 l2 where f: "run_io (d r) l1 = (r2, l2)" by fastforce
  with assms(2) obtain ds where "l2 = l1 @ ds" "list_all P ds" by (blast dest: emitsD)
  with m f cs show "\<exists>cs. snd (run_io (with_defer m d) l) = l @ cs \<and> list_all P cs"
    by (auto split: outcome.splits intro!: exI [of _ "cs @ ds"])
qed

lemma emits_mono: "emits P m \<Longrightarrow> (\<And>c. P c \<Longrightarrow> Q c) \<Longrightarrow> emits Q m"
  unfolding emits_def by (metis list.pred_mono_strong)

lemma emits_if [emits_intro]:
  "(b \<Longrightarrow> emits P m) \<Longrightarrow> (\<not> b \<Longrightarrow> emits P n) \<Longrightarrow> emits P (if b then m else n)"
  by simp

lemma emits_let [emits_intro]: "(\<And>x. x = t \<Longrightarrow> emits P (f x)) \<Longrightarrow> emits P (let x = t in f x)"
  by simp

lemma emits_case_option [emits_intro]:
  "(x = None \<Longrightarrow> emits P m) \<Longrightarrow> (\<And>y. x = Some y \<Longrightarrow> emits P (f y)) \<Longrightarrow>
   emits P (case x of None \<Rightarrow> m | Some y \<Rightarrow> f y)"
  by (cases x) auto

lemma emits_case_sum [emits_intro]:
  "(\<And>y. x = Inl y \<Longrightarrow> emits P (f y)) \<Longrightarrow> (\<And>y. x = Inr y \<Longrightarrow> emits P (g y)) \<Longrightarrow>
   emits P (case x of Inl y \<Rightarrow> f y | Inr y \<Rightarrow> g y)"
  by (cases x) auto

lemma emits_case_prod [emits_intro]:
  "(\<And>a b. x = (a, b) \<Longrightarrow> emits P (f a b)) \<Longrightarrow> emits P (case x of (a, b) \<Rightarrow> f a b)"
  by (cases x) auto

lemma emits_case_list [emits_intro]:
  "(xs = [] \<Longrightarrow> emits P m) \<Longrightarrow> (\<And>y ys. xs = y # ys \<Longrightarrow> emits P (f y ys)) \<Longrightarrow>
   emits P (case xs of [] \<Rightarrow> m | y # ys \<Rightarrow> f y ys)"
  by (cases xs) auto

lemma emits_if_ok [emits_intro]:
  "emits P m \<Longrightarrow> (\<And>x. emits P (f x)) \<Longrightarrow> emits P (if_ok m f)"
  unfolding if_ok_def by (auto intro!: emits_bnd emits_case_sum emits_ret)

lemma emits_if_nil [emits_intro]: "emits P m \<Longrightarrow> emits P n \<Longrightarrow> emits P (if_nil m n)"
  unfolding if_nil_def by (auto intro!: emits_bnd emits_case_option emits_ret)

lemma emits_if_got [emits_intro]:
  "emits P m \<Longrightarrow> (\<And>x. emits P (f x)) \<Longrightarrow> emits P (if_got m f)"
  unfolding if_got_def by (auto intro!: emits_bnd emits_case_sum emits_ret)

lemma emits_calls_of: "emits P m \<Longrightarrow> list_all P (calls_of m)"
  unfolding emits_def calls_of_def by (metis append_Nil)

text \<open>Only the values that \<open>m\<close> can return matter for the rest.\<close>

lemma emits_bnd_run:
  assumes "emits P m" and "\<And>l x l'. run_io m l = (Ret x, l') \<Longrightarrow> emits P (f x)"
  shows "emits P (bnd m f)"
  unfolding emits_def
proof
  fix l
  obtain r l1 where run: "run_io m l = (r, l1)" by fastforce
  from emitsD [OF assms(1) run] obtain cs where cs: "l1 = l @ cs" "list_all P cs" by blast
  show "\<exists>cs. snd (run_io (bnd m f) l) = l @ cs \<and> list_all P cs"
  proof (cases r)
    case Panic
    with run cs show ?thesis by simp
  next
    case (Ret x)
    obtain r2 l2 where f: "run_io (f x) l1 = (r2, l2)" by fastforce
    from emitsD [OF assms(2) f] run Ret obtain ds where "l2 = l1 @ ds" "list_all P ds" by blast
    with run cs Ret f show ?thesis by auto
  qed
qed

lemma emits_if_got_run:
  "emits P m \<Longrightarrow> (\<And>l x l'. run_io m l = (Ret (Inr x), l') \<Longrightarrow> emits P (f x)) \<Longrightarrow> emits P (if_got m f)"
  unfolding if_got_def by (rule emits_bnd_run) (auto intro: emits_ret split: sum.split)

text \<open>After a call, only the replies it can give matter.\<close>

lemma emits_bnd_call: "P c \<Longrightarrow> (\<And>l. emits P (f (r l))) \<Longrightarrow> emits P (bnd (call c r) f)"
  unfolding emits_def by simp (metis append.assoc append_Cons append_Nil list.pred_inject(2))

section \<open>Programs that never panic\<close>

definition returns :: "('c, 'a) io \<Rightarrow> bool" where
  "returns m \<longleftrightarrow> (\<forall>l. fst (run_io m l) \<noteq> Panic)"

lemma returnsD: "returns m \<Longrightarrow> \<exists>x l'. run_io m l = (Ret x, l')"
  unfolding returns_def by (metis outcome.exhaust prod.collapse)

lemma returns_basic [returns_intro]:
  "returns (ret x)" "returns (ask r)" "returns (call c s)"
  "p \<noteq> None \<Longrightarrow> returns (deref p)" "out \<noteq> Panic \<Longrightarrow> returns (of_outcome out)"
  by (auto simp: returns_def deref_def)

lemma returns_bnd [returns_intro]: "returns m \<Longrightarrow> (\<And>x. returns (f x)) \<Longrightarrow> returns (bnd m f)"
  unfolding returns_def by (auto split: prod.splits outcome.splits) (metis fst_conv)+

lemma returns_with_defer [returns_intro]:
  "returns m \<Longrightarrow> (\<And>x. returns (d (Ret x))) \<Longrightarrow> returns (with_defer m d)"
  unfolding returns_def
  by (auto split: prod.splits outcome.splits) (metis fst_conv outcome.exhaust)+

lemma returns_if_ok [returns_intro]: "returns m \<Longrightarrow> (\<And>x. returns (f x)) \<Longrightarrow> returns (if_ok m f)"
  unfolding if_ok_def by (auto intro!: returns_intro split: sum.split)

lemma returns_if_nil [returns_intro]: "returns m \<Longrightarrow> returns n \<Longrightarrow> returns (if_nil m n)"
  unfolding if_nil_def by (auto intro!: returns_intro split: option.split)

lemma returns_if_got [returns_intro]: "returns m \<Longrightarrow> (\<And>x. returns (f x)) \<Longrightarrow> returns (if_got m f)"
  unfolding if_got_def by (auto intro!: returns_intro split: sum.split)

lemma returns_if [returns_intro]:
  "(b \<Longrightarrow> returns m) \<Longrightarrow> (\<not> b \<Longrightarrow> returns n) \<Longrightarrow> returns (if b then m else n)"
  by simp

lemma returns_case_sum [returns_intro]:
  "(\<And>y. x = Inl y \<Longrightarrow> returns (f y)) \<Longrightarrow> (\<And>y. x = Inr y \<Longrightarrow> returns (g y)) \<Longrightarrow>
   returns (case x of Inl y \<Rightarrow> f y | Inr y \<Rightarrow> g y)"
  by (cases x) auto

lemma returns_case_option [returns_intro]:
  "(x = None \<Longrightarrow> returns m) \<Longrightarrow> (\<And>y. x = Some y \<Longrightarrow> returns (f y)) \<Longrightarrow>
   returns (case x of None \<Rightarrow> m | Some y \<Rightarrow> f y)"
  by (cases x) auto

lemma returns_case_prod [returns_intro]:
  "(\<And>a b. x = (a, b) \<Longrightarrow> returns (f a b)) \<Longrightarrow> returns (case x of (a, b) \<Rightarrow> f a b)"
  by (cases x) auto

section \<open>Calls of the runs with a certain result\<close>

text \<open>\<open>emits_on R P m\<close>: the runs of \<open>m\<close> that return a value in \<open>R\<close> make only calls in \<open>P\<close>.\<close>

definition emits_on :: "('a \<Rightarrow> bool) \<Rightarrow> ('c \<Rightarrow> bool) \<Rightarrow> ('c, 'a) io \<Rightarrow> bool" where
  "emits_on R P m \<longleftrightarrow>
     (\<forall>l x l'. run_io m l = (Ret x, l') \<and> R x \<longrightarrow> (\<exists>cs. l' = l @ cs \<and> list_all P cs))"

lemma emits_onD:
  "emits_on R P m \<Longrightarrow> run_io m l = (Ret x, l') \<Longrightarrow> R x \<Longrightarrow> \<exists>cs. l' = l @ cs \<and> list_all P cs"
  by (auto simp: emits_on_def)

lemma emits_on_emits: "emits P m \<Longrightarrow> emits_on R P m"
  by (auto simp: emits_on_def dest: emitsD)

lemma emits_on_never: "(\<And>l x l'. run_io m l = (Ret x, l') \<Longrightarrow> \<not> R x) \<Longrightarrow> emits_on R P m"
  by (auto simp: emits_on_def)

lemma emits_on_bnd:
  assumes "emits P m" and "\<And>x. emits_on R P (f x)"
  shows "emits_on R P (bnd m f)"
  unfolding emits_on_def
proof safe
  fix l y l'
  assume run: "run_io (bnd m f) l = (Ret y, l')" and "R y"
  from run_bnd_Ret [OF run] obtain x l1 where m: "run_io m l = (Ret x, l1)" and f: "run_io (f x) l1 = (Ret y, l')"
    by blast
  from emitsD [OF assms(1) m] emits_onD [OF assms(2) f \<open>R y\<close>]
  show "\<exists>cs. l' = l @ cs \<and> list_all P cs" by fastforce
qed

lemma emits_on_case_sum:
  "(\<And>y. x = Inl y \<Longrightarrow> emits_on R P (f y)) \<Longrightarrow> (\<And>y. x = Inr y \<Longrightarrow> emits_on R P (g y)) \<Longrightarrow>
   emits_on R P (case x of Inl y \<Rightarrow> f y | Inr y \<Rightarrow> g y)"
  by (cases x) auto

section \<open>What a run without an error has called\<close>

text \<open>\<open>ok_trace p m cs\<close>: whenever \<open>m\<close> returns without an error, the calls it made that
  satisfy \<open>p\<close> are exactly \<open>cs\<close>, in this order.\<close>

definition ok_trace :: "('c \<Rightarrow> bool) \<Rightarrow> ('c, 'e option) io \<Rightarrow> 'c list \<Rightarrow> bool" where
  "ok_trace p m cs \<longleftrightarrow>
     (\<forall>l l'. run_io m l = (Ret None, l') \<longrightarrow> (\<exists>ds. l' = l @ ds \<and> filter p ds = cs))"

lemma ok_traceD:
  "ok_trace p m cs \<Longrightarrow> run_io m l = (Ret None, l') \<Longrightarrow> \<exists>ds. l' = l @ ds \<and> filter p ds = cs"
  by (auto simp: ok_trace_def)

lemma ok_trace_ret [ok_trace_intro]: "ok_trace p (ret e) []"
  by (simp add: ok_trace_def)

lemma ok_trace_call [ok_trace_intro]: "p c \<Longrightarrow> ok_trace p (call c r) [c]"
  by (simp add: ok_trace_def)

lemma ok_trace_skip: "emits (\<lambda>c. \<not> p c) m \<Longrightarrow> ok_trace p m []"
  unfolding ok_trace_def
proof safe
  fix l l'
  assume "emits (\<lambda>c. \<not> p c) m" and "run_io m l = (Ret None, l')"
  from emitsD [OF this] show "\<exists>ds. l' = l @ ds \<and> filter p ds = []"
    by (auto simp: list_all_iff filter_empty_conv)
qed

lemma ok_trace_if_nil [ok_trace_intro]:
  assumes "ok_trace p m as" and "ok_trace p n bs"
  shows "ok_trace p (if_nil m n) (as @ bs)"
  unfolding ok_trace_def
proof safe
  fix l l'
  assume "run_io (if_nil m n) l = (Ret None, l')"
  then obtain l1 where "run_io m l = (Ret None, l1)" and "run_io n l1 = (Ret None, l')"
    by (auto split: prod.splits outcome.splits option.splits)
  then show "\<exists>ds. l' = l @ ds \<and> filter p ds = as @ bs"
    using ok_traceD [OF assms(1)] ok_traceD [OF assms(2)] by fastforce
qed

lemma ok_trace_bnd_skip:
  assumes "emits (\<lambda>c. \<not> p c) m" and "\<And>x. ok_trace p (f x) cs"
  shows "ok_trace p (bnd m f) cs"
  unfolding ok_trace_def
proof safe
  fix l l'
  assume "run_io (bnd m f) l = (Ret None, l')"
  then obtain x l1 where m: "run_io m l = (Ret x, l1)" and f: "run_io (f x) l1 = (Ret None, l')"
    by (auto split: prod.splits outcome.splits)
  from emitsD [OF assms(1) m] obtain as where "l1 = l @ as" "filter p as = []"
    by (auto simp: list_all_iff filter_empty_conv)
  with ok_traceD [OF assms(2) f] show "\<exists>ds. l' = l @ ds \<and> filter p ds = cs" by auto
qed

lemma ok_trace_if_got_skip:
  assumes "emits (\<lambda>c. \<not> p c) m" and "\<And>x. ok_trace p (f x) cs"
  shows "ok_trace p (if_got m f) cs"
  unfolding if_got_def
  by (rule ok_trace_bnd_skip [OF assms(1)]) (auto simp: ok_trace_def assms(2)[unfolded ok_trace_def] split: sum.splits)

lemma ok_trace_if [ok_trace_intro]:
  "(b \<Longrightarrow> ok_trace p m as) \<Longrightarrow> (\<not> b \<Longrightarrow> ok_trace p n bs) \<Longrightarrow>
   ok_trace p (if b then m else n) (if b then as else bs)"
  by simp

section \<open>Loops that stop at the first error\<close>

text \<open>
  A dozen loops of the program have the same contract: run the body on each element in
  order and return the first error. Each is modelled as the code has it and is shown to be
  an instance of this locale, which proves what all of them do.
\<close>

locale stop_on_error =
  fixes body :: "'r \<Rightarrow> ('c, 'e option) io"
    and loop :: "'r list \<Rightarrow> ('c, 'e option) io"
  assumes loop_Nil: "loop [] = ret None"
    and loop_Cons: "loop (r # rs) = if_nil (body r) (loop rs)"
begin

lemma loop_emits: "(\<And>r. r \<in> set rs \<Longrightarrow> emits P (body r)) \<Longrightarrow> emits P (loop rs)"
  by (induction rs) (auto simp: loop_Nil loop_Cons intro!: emits_intro)

lemma loop_append: "loop (xs @ ys) = if_nil (loop xs) (loop ys)"
proof (induction xs)
  case Nil
  show ?case by (rule io_eqI) (simp add: loop_Nil)
next
  case (Cons x xs)
  show ?case
    by (rule io_eqI) (simp add: loop_Cons Cons split: prod.splits outcome.splits option.splits)
qed

lemma loop_ok_trace:
  "(\<And>r. r \<in> set rs \<Longrightarrow> ok_trace p (body r) (f r)) \<Longrightarrow> ok_trace p (loop rs) (concat (map f rs))"
  by (induction rs) (auto simp: loop_Nil loop_Cons intro!: ok_trace_intro)

lemma loop_returns: "(\<And>r. r \<in> set rs \<Longrightarrow> returns (body r)) \<Longrightarrow> returns (loop rs)"
  by (induction rs) (auto simp: loop_Nil loop_Cons intro!: returns_intro)

text \<open>When the body makes exactly one call per element, a run without an error has made
  the calls of all elements in order, and an error leaves the calls of a prefix.\<close>

lemma loop_calls:
  assumes one: "\<And>r l. run_io (body r) l = (Ret (rep l r), l @ [c r])"
  shows "run_io (loop rs) l = (res, l') \<Longrightarrow>
    (\<exists>n \<le> length rs. l' = l @ map c (take n rs) \<and>
      (res = Ret None \<and> n = length rs \<or> (\<exists>e. res = Ret (Some e))))"
proof (induction rs arbitrary: l)
  case Nil
  then show ?case by (simp add: loop_Nil)
next
  case (Cons r rs)
  show ?case
  proof (cases "rep l r")
    case None
    with Cons.prems have "run_io (loop rs) (l @ [c r]) = (res, l')"
      by (simp add: loop_Cons one)
    from Cons.IH [OF this] obtain n where "n \<le> length rs"
      and "l' = (l @ [c r]) @ map c (take n rs)"
      and "res = Ret None \<and> n = length rs \<or> (\<exists>e. res = Ret (Some e))"
      by blast
    then show ?thesis by (intro exI [of _ "Suc n"]) auto
  next
    case (Some e)
    with Cons.prems show ?thesis by (intro exI [of _ 1]) (auto simp: loop_Cons one)
  qed
qed

end

end
