(* ===== verification/GoErrors.thy ===== *)
theory GoErrors
  imports GoIO
begin

text \<open>
  Go errors. An \<open>error\<close> is \<open>goerr option\<close> with \<open>None\<close> for \<open>nil\<close>; the constructors of
  \<open>goerr\<close> are the ways the code makes one. How the libraries classify an error
  (\<open>grpc_status.FromError\<close>, \<open>grpc_status.Convert(err).Code()\<close>, the predicates of
  \<open>inv_errors\<close>, \<open>errors.IsNotFound\<close> of the Kubernetes API machinery) is code outside this
  repository: the record \<open>errlib\<close> holds these functions as parameters, and \<open>errlib_laws\<close>
  names what their documentation promises and the code relies on.
\<close>

section \<open>Error values\<close>

datatype code =
    OK | Canceled | Unknown | InvalidArgument | DeadlineExceeded | NotFound | AlreadyExists
  | PermissionDenied | ResourceExhausted | FailedPrecondition | Aborted | OutOfRange
  | Unimplemented | Internal | Unavailable | DataLoss | Unauthenticated

text \<open>The numbers of the gRPC status codes, sent on the wire as \<open>int32(code)\<close>.\<close>

fun code_num :: "code \<Rightarrow> int" where
  "code_num OK = 0"
| "code_num Canceled = 1"
| "code_num Unknown = 2"
| "code_num InvalidArgument = 3"
| "code_num DeadlineExceeded = 4"
| "code_num NotFound = 5"
| "code_num AlreadyExists = 6"
| "code_num PermissionDenied = 7"
| "code_num ResourceExhausted = 8"
| "code_num FailedPrecondition = 9"
| "code_num Aborted = 10"
| "code_num OutOfRange = 11"
| "code_num Unimplemented = 12"
| "code_num Internal = 13"
| "code_num Unavailable = 14"
| "code_num DataLoss = 15"
| "code_num Unauthenticated = 16"

lemma code_num_inj: "code_num c = code_num d \<Longrightarrow> c = d"
  by (cases c; cases d) simp_all

datatype reason = OperationInProgress | OtherReason string

datatype goerr =
    Errorf string                  \<comment> \<open>\<open>inv_errors.Errorf\<close>\<close>
  | Errorfc code string            \<comment> \<open>\<open>inv_errors.Errorfc\<close>\<close>
  | Errorfr reason string          \<comment> \<open>\<open>inv_errors.Errorfr\<close>\<close>
  | InvWrap goerr                  \<comment> \<open>\<open>inv_errors.Wrap\<close>\<close>
  | FmtErrorf string "goerr option"  \<comment> \<open>\<open>fmt.Errorf\<close>, with what \<open>%w\<close> wraps\<close>
  | PkgWrap goerr string           \<comment> \<open>\<open>errors.Wrap\<close> of pkg/errors\<close>
  | ForeignErr string nat          \<comment> \<open>an error made by a service or a library\<close>

type_synonym error = "goerr option"

section \<open>Classification by the libraries\<close>

record errlib =
  from_error_ok :: "error \<Rightarrow> bool"
  convert_code :: "error \<Rightarrow> code"
  is_not_found :: "error \<Rightarrow> bool"
  is_already_exists :: "error \<Rightarrow> bool"
  is_unauthenticated :: "error \<Rightarrow> bool"
  is_permission_denied :: "error \<Rightarrow> bool"
  is_operation_in_progress :: "error \<Rightarrow> bool"
  k8s_is_not_found :: "error \<Rightarrow> bool"
  k8s_is_already_exists :: "error \<Rightarrow> bool"

text \<open>
  \<open>FromError\<close> accepts \<open>nil\<close> and every error that carries a gRPC status, which the errors of
  \<open>inv_errors\<close> do; the code of \<open>nil\<close> is \<open>OK\<close> and that of \<open>Errorfc c\<close> is \<open>c\<close>; the predicates
  are false on \<open>nil\<close>, test the code, and \<open>IsOperationInProgress\<close> tests the reason.
\<close>

definition errlib_laws :: "errlib \<Rightarrow> bool" where
  "errlib_laws L \<longleftrightarrow>
     from_error_ok L None \<and> convert_code L None = OK \<and>
     \<not> is_not_found L None \<and> \<not> is_already_exists L None \<and>
     \<not> is_unauthenticated L None \<and> \<not> is_permission_denied L None \<and>
     \<not> is_operation_in_progress L None \<and>
     \<not> k8s_is_not_found L None \<and> \<not> k8s_is_already_exists L None \<and>
     (\<forall>c m. from_error_ok L (Some (Errorfc c m)) \<and> convert_code L (Some (Errorfc c m)) = c \<and>
        is_not_found L (Some (Errorfc c m)) = (c = NotFound) \<and>
        is_already_exists L (Some (Errorfc c m)) = (c = AlreadyExists) \<and>
        is_unauthenticated L (Some (Errorfc c m)) = (c = Unauthenticated) \<and>
        is_permission_denied L (Some (Errorfc c m)) = (c = PermissionDenied) \<and>
        \<not> is_operation_in_progress L (Some (Errorfc c m))) \<and>
     (\<forall>r m. from_error_ok L (Some (Errorfr r m)) \<and>
        is_operation_in_progress L (Some (Errorfr r m)) = (r = OperationInProgress) \<and>
        convert_code L (Some (Errorfr r m)) \<noteq> Aborted \<and>
        \<not> is_not_found L (Some (Errorfr r m))) \<and>
     (\<forall>m. from_error_ok L (Some (Errorf m)) \<and>
        \<not> is_operation_in_progress L (Some (Errorf m)) \<and>
        convert_code L (Some (Errorf m)) \<noteq> Aborted \<and>
        \<not> is_not_found L (Some (Errorf m)) \<and> \<not> is_already_exists L (Some (Errorf m)) \<and>
        \<not> is_unauthenticated L (Some (Errorf m)) \<and> \<not> is_permission_denied L (Some (Errorf m)))"

lemma errlib_lawsD [simp]:
  assumes "errlib_laws L"
  shows "from_error_ok L None" "convert_code L None = OK"
    "\<not> is_not_found L None" "\<not> is_already_exists L None"
    "\<not> is_unauthenticated L None" "\<not> is_permission_denied L None"
    "\<not> is_operation_in_progress L None"
    "\<not> k8s_is_not_found L None" "\<not> k8s_is_already_exists L None"
    "from_error_ok L (Some (Errorfc c m))" "convert_code L (Some (Errorfc c m)) = c"
    "is_not_found L (Some (Errorfc c m)) = (c = NotFound)"
    "is_already_exists L (Some (Errorfc c m)) = (c = AlreadyExists)"
    "is_unauthenticated L (Some (Errorfc c m)) = (c = Unauthenticated)"
    "is_permission_denied L (Some (Errorfc c m)) = (c = PermissionDenied)"
    "\<not> is_operation_in_progress L (Some (Errorfc c m))"
    "from_error_ok L (Some (Errorfr r m))"
    "is_operation_in_progress L (Some (Errorfr r m)) = (r = OperationInProgress)"
    "convert_code L (Some (Errorfr r m)) \<noteq> Aborted"
    "\<not> is_not_found L (Some (Errorfr r m))"
    "from_error_ok L (Some (Errorf m))"
    "\<not> is_operation_in_progress L (Some (Errorf m))"
    "convert_code L (Some (Errorf m)) \<noteq> Aborted"
    "\<not> is_not_found L (Some (Errorf m))" "\<not> is_already_exists L (Some (Errorf m))"
    "\<not> is_unauthenticated L (Some (Errorf m))" "\<not> is_permission_denied L (Some (Errorf m))"
  using assms by (simp_all add: errlib_laws_def)

text \<open>
  An instance with these laws: \<open>InvWrap\<close> keeps the status it wraps, errors of \<open>fmt\<close> and
  pkg/errors have none, and \<open>ForeignErr\<close> is a plain error except that the Kubernetes API
  machinery tells number 404 (not found) and 409 (already exists).
\<close>

fun status_code :: "goerr \<Rightarrow> code option" where
  "status_code (Errorf m) = Some Internal"
| "status_code (Errorfc c m) = Some c"
| "status_code (Errorfr r m) = Some Unknown"
| "status_code (InvWrap e) = status_code e"
| "status_code (FmtErrorf m e) = None"
| "status_code (PkgWrap e m) = None"
| "status_code (ForeignErr m n) = None"

definition code_of :: "error \<Rightarrow> code" where
  "code_of e = (case e of None \<Rightarrow> OK | Some x \<Rightarrow>
     (case status_code x of None \<Rightarrow> Unknown | Some c \<Rightarrow> c))"

definition std_errlib :: errlib where
  "std_errlib = \<lparr>
     from_error_ok = (\<lambda>e. case e of None \<Rightarrow> True | Some x \<Rightarrow> status_code x \<noteq> None),
     convert_code = code_of,
     is_not_found = (\<lambda>e. code_of e = NotFound),
     is_already_exists = (\<lambda>e. code_of e = AlreadyExists),
     is_unauthenticated = (\<lambda>e. code_of e = Unauthenticated),
     is_permission_denied = (\<lambda>e. code_of e = PermissionDenied),
     is_operation_in_progress = (\<lambda>e. case e of
        Some (Errorfr r m) \<Rightarrow> r = OperationInProgress | _ \<Rightarrow> False),
     k8s_is_not_found = (\<lambda>e. case e of Some (ForeignErr m n) \<Rightarrow> n = 404 | _ \<Rightarrow> False),
     k8s_is_already_exists = (\<lambda>e. case e of Some (ForeignErr m n) \<Rightarrow> n = 409 | _ \<Rightarrow> False) \<rparr>"

lemma std_errlib_laws: "errlib_laws std_errlib"
  by (simp add: errlib_laws_def std_errlib_def code_of_def)

lemma std_errlib_simps [simp]:
  "from_error_ok std_errlib e = (case e of None \<Rightarrow> True | Some x \<Rightarrow> status_code x \<noteq> None)"
  "convert_code std_errlib = code_of"
  "is_not_found std_errlib = (\<lambda>e. code_of e = NotFound)"
  "is_already_exists std_errlib = (\<lambda>e. code_of e = AlreadyExists)"
  "is_unauthenticated std_errlib = (\<lambda>e. code_of e = Unauthenticated)"
  "is_permission_denied std_errlib = (\<lambda>e. code_of e = PermissionDenied)"
  by (simp_all add: std_errlib_def)

lemma code_of_simps [simp]:
  "code_of None = OK" "code_of (Some (Errorfc c m)) = c" "code_of (Some (Errorf m)) = Internal"
  "code_of (Some (Errorfr r m)) = Unknown" "code_of (Some (ForeignErr m n)) = Unknown"
  "code_of (Some (FmtErrorf m e')) = Unknown"
  by (simp_all add: code_of_def)

end
