(* ===== verification/Status.thy ===== *)
theory Status
  imports GoErrors
begin

text \<open>
  \<open>onboarding-manager/pkg/status/status.go\<close>: the statuses the Onboarding Manager writes. A
  status is a text and an indication (\<open>inv_status.ResourceStatus\<close>); the functions with
  details append \<open>": <details>"\<close> to the text and keep the indication.
\<close>

datatype indication = IND_UNSPECIFIED | IND_ERROR | IND_IN_PROGRESS | IND_IDLE

record status =
  st_Status :: string
  st_Indicator :: indication

definition mk_status :: "string \<Rightarrow> indication \<Rightarrow> status" where
  "mk_status t i = \<lparr>st_Status = t, st_Indicator = i\<rparr>"

lemma mk_status_sel [simp]: "st_Status (mk_status t i) = t" "st_Indicator (mk_status t i) = i"
  by (simp_all add: mk_status_def)

lemma mk_status_inject [simp]: "mk_status t i = mk_status t' i' \<longleftrightarrow> t = t' \<and> i = i'"
  by (simp add: mk_status_def)

definition InstanceStatusUnknown :: status where
  "InstanceStatusUnknown = mk_status ''Unknown'' IND_UNSPECIFIED"

definition ProvisioningStatusUnknown :: status where
  "ProvisioningStatusUnknown = mk_status ''Unknown'' IND_UNSPECIFIED"

definition ProvisioningStatusInProgress :: status where
  "ProvisioningStatusInProgress = mk_status ''Provisioning In Progress'' IND_IN_PROGRESS"

definition ProvisioningStatusFailed :: status where
  "ProvisioningStatusFailed = mk_status ''Provisioning Failed'' IND_ERROR"

definition ProvisioningStatusDone :: status where
  "ProvisioningStatusDone = mk_status ''Provisioned'' IND_IDLE"

definition UpdateStatusUnknown :: status where
  "UpdateStatusUnknown = mk_status ''Unknown'' IND_UNSPECIFIED"

definition TrustedAttestationStatusUnknown :: status where
  "TrustedAttestationStatusUnknown = mk_status ''Unknown'' IND_UNSPECIFIED"

definition OnboardingStatusUnknown :: status where
  "OnboardingStatusUnknown = mk_status ''Unknown'' IND_UNSPECIFIED"

definition OnboardingStatusDone :: status where
  "OnboardingStatusDone = mk_status ''Onboarded'' IND_IDLE"

definition AuthorizationStatusInvalidated :: status where
  "AuthorizationStatusInvalidated = mk_status ''Invalidated'' IND_IDLE"

definition HostRegistrationUnknown :: status where
  "HostRegistrationUnknown = mk_status ''Unknown'' IND_UNSPECIFIED"

definition HostRegistrationDone :: status where
  "HostRegistrationDone = mk_status ''Host is Registered'' IND_IDLE"

definition HostStatusRebooting :: status where
  "HostStatusRebooting = mk_status ''Rebooting'' IND_IN_PROGRESS"

definition DeletingStatus :: status where
  "DeletingStatus = mk_status ''Deleting'' IND_IN_PROGRESS"

definition LegacyHostStatusDeleting :: string where
  "LegacyHostStatusDeleting = ''Deleting''"

definition WithDetails :: "status \<Rightarrow> string \<Rightarrow> status" where
  "WithDetails s d = mk_status (st_Status s @ '': '' @ d) (st_Indicator s)"

definition LegacyHostStatusDeletingWithDetails :: "string \<Rightarrow> string" where
  "LegacyHostStatusDeletingWithDetails d = LegacyHostStatusDeleting @ '': '' @ d"

definition ModernHostStatusDeletingWithDetails :: "string \<Rightarrow> status" where
  "ModernHostStatusDeletingWithDetails d =
     mk_status (LegacyHostStatusDeletingWithDetails d) IND_IN_PROGRESS"

definition NewStatusWithDetails :: "status \<Rightarrow> string \<Rightarrow> status" where
  "NewStatusWithDetails base d =
     (if d = '''' then base
      else mk_status (st_Status base @ '': '' @ d) (st_Indicator base))"

definition NewHostRegistrationUUIDFailed :: status where
  "NewHostRegistrationUUIDFailed =
     mk_status ''Host Registration Failed due to mismatch of UUID, Reported UUID is'' IND_ERROR"

definition NewHostRegistrationSerialNumFailed :: status where
  "NewHostRegistrationSerialNumFailed =
     mk_status ''Host Registration Failed due to mismatch of Serial Number, Reported Serial Number is''
       IND_ERROR"

definition HostRegistrationUUIDFailedWithDetails :: "string \<Rightarrow> status" where
  "HostRegistrationUUIDFailedWithDetails d =
     mk_status (st_Status NewHostRegistrationUUIDFailed @ '': '' @ d) IND_ERROR"

definition HostRegistrationSerialNumFailedWithDetails :: "string \<Rightarrow> status" where
  "HostRegistrationSerialNumFailedWithDetails d =
     mk_status (st_Status NewHostRegistrationSerialNumFailed @ '': '' @ d) IND_ERROR"

lemmas status_defs = InstanceStatusUnknown_def ProvisioningStatusUnknown_def
  ProvisioningStatusInProgress_def ProvisioningStatusFailed_def ProvisioningStatusDone_def
  UpdateStatusUnknown_def TrustedAttestationStatusUnknown_def OnboardingStatusUnknown_def
  OnboardingStatusDone_def AuthorizationStatusInvalidated_def HostRegistrationUnknown_def
  HostRegistrationDone_def HostStatusRebooting_def DeletingStatus_def

lemma NewStatusWithDetails_indicator [simp]:
  "st_Indicator (NewStatusWithDetails s d) = st_Indicator s"
  by (simp add: NewStatusWithDetails_def)

lemma NewStatusWithDetails_prefix: "has_prefix (st_Status (NewStatusWithDetails s d)) (st_Status s)"
  by (auto simp: NewStatusWithDetails_def has_prefix_iff)

lemma registration_failed_is_error [simp]:
  "st_Indicator (HostRegistrationUUIDFailedWithDetails d) = IND_ERROR"
  "st_Indicator (HostRegistrationSerialNumFailedWithDetails d) = IND_ERROR"
  by (simp_all add: HostRegistrationUUIDFailedWithDetails_def
      HostRegistrationSerialNumFailedWithDetails_def)

end
