(* ===== verification/GoNet.thy ===== *)
theory GoNet
  imports Prelude
begin

text \<open>
  The parts of Go's \<open>net\<close> package that the code relies on: which texts \<open>net.ParseIP\<close> accepts.
  IPv4 is four decimal fields of at most 255 without leading zeros; IPv6 is sixteen-bit
  hexadecimal groups with at most one ellipsis and, possibly, an IPv4 address at the end; a
  zone (\<open>%eth0\<close>) is refused.
\<close>

definition is_digit :: "char \<Rightarrow> bool" where
  "is_digit c \<longleftrightarrow> 48 \<le> (of_char c :: nat) \<and> (of_char c :: nat) \<le> 57"

definition is_hex :: "char \<Rightarrow> bool" where
  "is_hex c \<longleftrightarrow> is_digit c \<or> (97 \<le> (of_char c :: nat) \<and> (of_char c :: nat) \<le> 102)
     \<or> (65 \<le> (of_char c :: nat) \<and> (of_char c :: nat) \<le> 70)"

definition dec_val :: "string \<Rightarrow> nat" where
  "dec_val s = foldl (\<lambda>v c. v * 10 + ((of_char c :: nat) - 48)) 0 s"

definition ipv4_field_ok :: "string \<Rightarrow> bool" where
  "ipv4_field_ok s \<longleftrightarrow> s \<noteq> [] \<and> list_all is_digit s \<and> (length s > 1 \<longrightarrow> hd s \<noteq> CHR ''0'') \<and>
     dec_val s \<le> 255"

definition parse_ipv4_ok :: "string \<Rightarrow> bool" where
  "parse_ipv4_ok s \<longleftrightarrow> (let fs = split_char CHR ''.'' s in
     length fs = 4 \<and> list_all ipv4_field_ok fs)"

text \<open>The loop of the IPv6 parser: \<open>i\<close> bytes are filled, \<open>ell\<close> says whether the ellipsis was
  seen; the fuel is one more than the most groups there can be.\<close>

fun ipv6_groups :: "nat \<Rightarrow> nat \<Rightarrow> bool \<Rightarrow> string \<Rightarrow> bool" where
  "ipv6_groups 0 i ell s = False"
| "ipv6_groups (Suc n) i ell s =
     (if 16 \<le> i then s = [] \<and> \<not> ell
      else let g = takeWhile is_hex s; rest = dropWhile is_hex s in
        if g = [] \<or> length g > 4 then False
        else if rest \<noteq> [] \<and> hd rest = CHR ''.'' then
          (ell \<or> i = 12) \<and> i + 4 \<le> 16 \<and> parse_ipv4_ok s \<and> (if i + 4 < 16 then ell else \<not> ell)
        else if rest = [] then (if i + 2 < 16 then ell else \<not> ell)
        else if hd rest \<noteq> CHR '':'' \<or> length rest = 1 then False
        else if hd (tl rest) = CHR '':'' then
          \<not> ell \<and> (if length rest = 2 then i + 2 < 16 else ipv6_groups n (i + 2) True (drop 2 rest))
        else ipv6_groups n (i + 2) ell (tl rest))"

definition parse_ipv6_ok :: "string \<Rightarrow> bool" where
  "parse_ipv6_ok s \<longleftrightarrow>
     CHR ''%'' \<notin> set s \<and>
     (if has_prefix s ''::'' then length s = 2 \<or> ipv6_groups 9 0 True (drop 2 s)
      else ipv6_groups 9 0 False s)"

text \<open>\<open>net.ParseIP(s) != nil\<close>: the first dot, colon or percent sign selects the format.\<close>

definition parse_ip_ok :: "string \<Rightarrow> bool" where
  "parse_ip_ok s \<longleftrightarrow>
     (case dropWhile (\<lambda>c. c \<notin> {CHR ''.'', CHR '':'', CHR ''%''}) s of
        [] \<Rightarrow> False
      | c # _ \<Rightarrow> if c = CHR ''.'' then parse_ipv4_ok s
               else if c = CHR '':'' then parse_ipv6_ok s else False)"

end
