(* ===== verification/Curation.thy ===== *)
theory Curation
  imports GoErrors GoNet
begin

text \<open>
  \<open>dkam/pkg/config\<close> and \<open>dkam/pkg/curation\<close>: the shared infrastructure configuration, the
  template variables that are derived from it for a cloud-init, and the firewall commands. The
  process state that this code reads (the configuration in force, the environment, the
  certificate files) is the record \<open>host_view\<close>, as are JSON parsing and the template engine;
  reading them changes nothing, so the functions are plain functions of that view.
\<close>

section \<open>Configuration\<close>

text \<open>\<open>osv1.OsType\<close>, of the Inventory API.\<close>

datatype os_type = OS_TYPE_UNSPECIFIED | OS_TYPE_MUTABLE | OS_TYPE_IMMUTABLE

record agents_version =
  av_Name :: string
  av_Version :: string

record en_manifest =
  em_Codename :: string
  em_Component :: string
  em_Packages :: "agents_version list"

record infra_config =
  cfg_ENDebianPackagesRepo :: string
  cfg_ENFilesRsRoot :: string
  cfg_ENManifestRepo :: string
  cfg_ENAgentManifestTag :: string
  cfg_InfraURL :: string
  cfg_ClusterURL :: string
  cfg_UpdateURL :: string
  cfg_ReleaseServiceURL :: string
  cfg_LogsObservabilityURL :: string
  cfg_MetricsObservabilityURL :: string
  cfg_ManageabilityURL :: string
  cfg_RPSAddress :: string
  cfg_KeycloakURL :: string
  cfg_TelemetryURL :: string
  cfg_RegistryURL :: string
  cfg_FileServerURL :: string
  cfg_RSType :: string
  cfg_ENServiceClients :: "string list"
  cfg_ENOutboundClients :: "string list"
  cfg_ENMetricsEnabled :: string
  cfg_ENTokenClients :: "string list"
  cfg_ProvisioningService :: string
  cfg_ProvisioningServerURL :: string
  cfg_TinkServerURL :: string
  cfg_OnboardingURL :: string
  cfg_OnboardingStreamURL :: string
  cfg_CDN :: string
  cfg_FsInotifyMaxUserInstances :: "32 word"
  cfg_VmOverCommitMemory :: "32 word"
  cfg_KernelPanicOnOops :: "32 word"
  cfg_KernelPanic :: "32 word"
  cfg_ENProxyHTTP :: string
  cfg_ENProxyHTTPS :: string
  cfg_ENProxyFTP :: string
  cfg_ENProxyNoProxy :: string
  cfg_ENProxySocks :: string
  cfg_NetIP :: string
  cfg_NTPServers :: "string list"
  cfg_DNSServers :: "string list"
  cfg_FirewallReqAllow :: string
  cfg_FirewallCfgAllow :: string
  cfg_ENManifest :: en_manifest
  cfg_EMBImageURL :: string
  cfg_DisableCOProfile :: bool
  cfg_DisableO11YProfile :: bool
  cfg_SkipOSProvisioning :: bool

text \<open>A firewall rule as the JSON of the configuration has it.\<close>

record firewall_rule =
  fw_SourceIP :: string
  fw_Ports :: string
  fw_IPVer :: string
  fw_Protocol :: string

text \<open>Values of template variables.\<close>

datatype tval = TStr string | TBool bool | TNum "32 word" | TStrs "string list"

type_synonym tvars = "string \<Rightarrow> tval option"

datatype stat_result = StatOk | StatNotExist | StatErr

record host_view =
  hv_config :: infra_config
  hv_getenv :: "string \<Rightarrow> string"
  hv_stat :: "string \<Rightarrow> stat_result"
  hv_read_file :: "string \<Rightarrow> goerr + string"
  hv_parse_rules :: "string \<Rightarrow> goerr + firewall_rule list"
  hv_template_ok :: "string \<Rightarrow> bool"
  hv_render :: "string \<Rightarrow> tvars \<Rightarrow> string option"
  hv_cloud_init_template :: string
  hv_installer :: string

section \<open>Firewall commands\<close>

definition resolveIP :: "string \<Rightarrow> string" where
  "resolveIP sourceIP =
     (if \<not> parse_ip_ok sourceIP then ''$(dig +short '' @ sourceIP @ '' | tail -n1)'' else sourceIP)"

definition GenerateUFWCommands :: "firewall_rule \<Rightarrow> string list" where
  "GenerateUFWCommands rule =
     (if fw_SourceIP rule \<noteq> '''' then
        (let ipAddr = (if \<not> parse_ip_ok (fw_SourceIP rule)
                       then ''$(dig +short '' @ fw_SourceIP rule @ '' | tail -n1)''
                       else fw_SourceIP rule)
         in if fw_Protocol rule \<noteq> '''' then
              (if fw_Ports rule \<noteq> '''' then
                 [''ufw allow from '' @ ipAddr @ '' to any port '' @ fw_Ports rule @ '' proto '' @ fw_Protocol rule]
               else [''ufw allow from '' @ ipAddr @ '' proto '' @ fw_Protocol rule])
            else
              (if fw_Ports rule \<noteq> '''' then
                 [''ufw allow from '' @ ipAddr @ '' to any port '' @ fw_Ports rule]
               else [''ufw allow from '' @ ipAddr]))
      else
        (if fw_Protocol rule \<noteq> '''' then
           (if fw_Ports rule \<noteq> '''' then
              [''ufw allow in to any port '' @ fw_Ports rule @ '' proto '' @ fw_Protocol rule]
            else [])
         else
           (if fw_Ports rule \<noteq> '''' then [''ufw allow in to any port '' @ fw_Ports rule] else [])))"

definition generateIptablesForProtocol :: "string \<Rightarrow> string \<Rightarrow> string \<Rightarrow> string" where
  "generateIptablesForProtocol protocol ipAddr port =
     (if ipAddr \<noteq> ''''
      then ''iptables -A INPUT -p '' @ protocol @ '' -s '' @ ipAddr @ '' --dport '' @ port @ '' -j ACCEPT''
      else ''iptables -A INPUT -p '' @ protocol @ '' --dport '' @ port @ '' -j ACCEPT'')"

fun generateIptablesForPorts :: "string list \<Rightarrow> string \<Rightarrow> string list" where
  "generateIptablesForPorts [] ipAddr = []"
| "generateIptablesForPorts (p # portsList) ipAddr =
     (let port = trim_space p in
      if ipAddr \<noteq> '''' then
        [''iptables -A INPUT -p tcp -s '' @ ipAddr @ '' --dport '' @ port @ '' -j ACCEPT'',
         ''iptables -A INPUT -p udp -s '' @ ipAddr @ '' --dport '' @ port @ '' -j ACCEPT'']
      else
        [''iptables -A INPUT -p tcp --dport '' @ port @ '' -j ACCEPT'',
         ''iptables -A INPUT -p udp --dport '' @ port @ '' -j ACCEPT''])
     @ generateIptablesForPorts portsList ipAddr"

definition GenerateIptablesCommands :: "firewall_rule \<Rightarrow> string list" where
  "GenerateIptablesCommands rule =
     (let ipAddr = (if fw_SourceIP rule \<noteq> '''' then resolveIP (fw_SourceIP rule) else '''');
          portsList = split_char CHR '','' (fw_Ports rule);
          with_ports = (case portsList of [] \<Rightarrow> False | p # _ \<Rightarrow> p \<noteq> '''')
      in if fw_Protocol rule \<noteq> '''' then
           (if with_ports then
              map (\<lambda>port. generateIptablesForProtocol (fw_Protocol rule) ipAddr (trim_space port)) portsList
            else if ipAddr \<noteq> '''' then
              [''iptables -A INPUT -p '' @ fw_Protocol rule @ '' -s '' @ ipAddr @ '' -j ACCEPT'']
            else [''iptables -A INPUT -p '' @ fw_Protocol rule @ '' -j ACCEPT''])
         else
           (if with_ports then generateIptablesForPorts portsList ipAddr
            else if ipAddr \<noteq> '''' then
              [''iptables -A INPUT -p tcp -s '' @ ipAddr
                @ '' -j ACCEPT && iptables -A INPUT -p udp -s '' @ ipAddr @ '' -j ACCEPT'']
            else []))"

definition ParseJSONFirewallRules :: "host_view \<Rightarrow> string \<Rightarrow> goerr + firewall_rule list" where
  "ParseJSONFirewallRules V rulesStr = (if rulesStr = '''' then Inr [] else hv_parse_rules V rulesStr)"

definition getCustomFirewallRules :: "host_view \<Rightarrow> bool \<Rightarrow> goerr + string list" where
  "getCustomFirewallRules V ufw =
     (case ParseJSONFirewallRules V (cfg_FirewallReqAllow (hv_config V)) of
        Inl e \<Rightarrow> Inl e
      | Inr reqRules \<Rightarrow> (case ParseJSONFirewallRules V (cfg_FirewallCfgAllow (hv_config V)) of
          Inl e \<Rightarrow> Inl e
        | Inr cfgRules \<Rightarrow> Inr (concat (map
            (\<lambda>rule. if ufw then GenerateUFWCommands rule else GenerateIptablesCommands rule)
            (reqRules @ cfgRules)))))"

section \<open>Template variables\<close>

definition OrchCACertificateFile :: string where
  "OrchCACertificateFile = ''/etc/ssl/orch-ca-cert/ca.crt''"

definition BootsCaCertificateFile :: string where
  "BootsCaCertificateFile = ''/etc/ssl/boots-ca-cert/ca.crt''"

definition pathExists :: "host_view \<Rightarrow> string \<Rightarrow> bool \<times> error" where
  "pathExists V path = (case hv_stat V path of
     StatOk \<Rightarrow> (True, None)
   | StatNotExist \<Rightarrow> (False, None)
   | StatErr \<Rightarrow> (False, Some (ForeignErr ''stat'' 0)))"

definition getCaCert :: "host_view \<Rightarrow> goerr + string" where
  "getCaCert V = (case pathExists V OrchCACertificateFile of (caexists, err) \<Rightarrow>
     if err \<noteq> None then Inl (Errorf ''Failed to check if CA certificate path exists'')
     else if \<not> caexists then Inl (Errorf ''Cannot find CA certificate under given path'')
     else (case hv_read_file V OrchCACertificateFile of
       Inl e \<Rightarrow> Inl (Errorf ''Failed to read CA certificate file'')
     | Inr caContent \<Rightarrow> Inr caContent))"

definition getCombinedCaPEM :: "host_view \<Rightarrow> goerr + string" where
  "getCombinedCaPEM V = (case hv_read_file V OrchCACertificateFile of
     Inl e \<Rightarrow> Inl (FmtErrorf ''failed to read orch-ca-cert'' (Some e))
   | Inr orchCa \<Rightarrow> (case hv_read_file V BootsCaCertificateFile of
       Inl e \<Rightarrow> Inl (FmtErrorf ''failed to read boots-ca-cert'' (Some e))
     | Inr bootsCa \<Rightarrow> Inr (orchCa @ [CHR 0x0A] @ bootsCa)))"

text \<open>\<open>GetBMAgentsInfo\<close> never fails; without packages the variables are a nil map and the (nil)
  error, so \<open>APT_DISTRO\<close> is missing too.\<close>

definition GetBMAgentsInfo :: "host_view \<Rightarrow> agents_version list \<times> string \<times> error" where
  "GetBMAgentsInfo V =
     (let configs = cfg_ENManifest (hv_config V) in (em_Packages configs, em_Codename configs, None))"

definition getAgentsListTemplateVariables :: "host_view \<Rightarrow> tvars \<times> error" where
  "getAgentsListTemplateVariables V = (case GetBMAgentsInfo V of (agentsList, distro, err) \<Rightarrow>
     if agentsList = [] then ((\<lambda>_. None), err)
     else ((foldl (\<lambda>m agent. m(av_Name agent @ ''-VERSION'' \<mapsto> TStr (av_Version agent)))
             (\<lambda>_. None) agentsList)(''APT_DISTRO'' \<mapsto> TStr distro), None))"

definition setOSSpecificVariables :: "host_view \<Rightarrow> tvars \<Rightarrow> os_type \<Rightarrow> tvars \<times> error" where
  "setOSSpecificVariables V vars osType =
     (let vars1 = (case osType of
            OS_TYPE_MUTABLE \<Rightarrow> vars(''FIREWALL_PROVIDER'' \<mapsto> TStr ''ufw'')
          | OS_TYPE_IMMUTABLE \<Rightarrow> vars(''FIREWALL_PROVIDER'' \<mapsto> TStr ''iptables'')
          | OS_TYPE_UNSPECIFIED \<Rightarrow> vars)
      in if osType = OS_TYPE_MUTABLE then
           (case getAgentsListTemplateVariables V of (agentVars, err) \<Rightarrow>
              if err \<noteq> None then (vars1, err) else (vars1 ++ agentVars, None))
         else (vars1, None))"

text \<open>\<open>strings.Split(s, ":")[1]\<close> panics on a text without a colon.\<close>

definition host_of :: "string \<Rightarrow> string" where
  "host_of s = hd (split_char CHR '':'' s)"

definition port_of :: "string \<Rightarrow> string option" where
  "port_of s = (case split_char CHR '':'' s of _ # p # _ \<Rightarrow> Some p | _ \<Rightarrow> None)"

definition common_variables ::
  "host_view \<Rightarrow> infra_config \<Rightarrow> os_type \<Rightarrow> string \<Rightarrow> string list \<Rightarrow> tvars outcome" where
  "common_variables V c osType caCert rules =
     (case (port_of (cfg_LogsObservabilityURL c), port_of (cfg_MetricsObservabilityURL c),
            port_of (cfg_TelemetryURL c), port_of (cfg_FileServerURL c),
            port_of (cfg_RegistryURL c), port_of (cfg_ManageabilityURL c)) of
        (Some logs, Some metrics, Some telemetry, Some apt, Some img, Some dm) \<Rightarrow> Ret (map_of [
          (''MODE'', TStr (hv_getenv V ''MODE'')),
          (''CA_CERT'', TStr caCert),
          (''ORCH_CLUSTER'', TStr (cfg_ClusterURL c)),
          (''ORCH_INFRA'', TStr (cfg_InfraURL c)),
          (''ORCH_UPDATE'', TStr (cfg_UpdateURL c)),
          (''ORCH_PLATFORM_OBS_HOST'', TStr (host_of (cfg_LogsObservabilityURL c))),
          (''ORCH_PLATFORM_OBS_PORT'', TStr logs),
          (''ORCH_PLATFORM_OBS_METRICS_HOST'', TStr (host_of (cfg_MetricsObservabilityURL c))),
          (''ORCH_PLATFORM_OBS_METRICS_PORT'', TStr metrics),
          (''ORCH_TELEMETRY_HOST'', TStr (host_of (cfg_TelemetryURL c))),
          (''ORCH_TELEMETRY_PORT'', TStr telemetry),
          (''KEYCLOAK_URL'', TStr (cfg_KeycloakURL c)),
          (''KEYCLOAK_FQDN'', TStr (host_of (cfg_KeycloakURL c))),
          (''RELEASE_FQDN'', TStr (host_of (cfg_ReleaseServiceURL c))),
          (''RELEASE_TOKEN_URL'', TStr (cfg_ReleaseServiceURL c)),
          (''ORCH_APT_PORT'', TStr apt),
          (''ORCH_IMG_PORT'', TStr img),
          (''FILE_SERVER'', TStr (host_of (cfg_FileServerURL c))),
          (''IMG_REGISTRY_URL'', TStr (host_of (cfg_RegistryURL c))),
          (''NTP_SERVERS'', TStr (join_with '','' (cfg_NTPServers c))),
          (''DEB_PACKAGES_REPO'', TStr (cfg_ENDebianPackagesRepo c)),
          (''FILE_RS_ROOT'', TStr (cfg_ENFilesRsRoot c)),
          (''RS_TYPE'', TStr (cfg_RSType c)),
          (''ORCH_PLATFORM_MANAGEABILITY_HOST'', TStr (host_of (cfg_ManageabilityURL c))),
          (''ORCH_PLATFORM_MANAGEABILITY_PORT'', TStr dm),
          (''RPS_ADDRESS'', TStr (host_of (cfg_RPSAddress c))),
          (''SERVICE_CLIENTS'', TStr (join_with '','' (cfg_ENServiceClients c))),
          (''OUTBOUND_CLIENTS'', TStr (join_with '','' (cfg_ENOutboundClients c))),
          (''METRICS_ENABLED'', TStr (cfg_ENMetricsEnabled c)),
          (''TOKEN_CLIENTS'', TStr (join_with '','' (cfg_ENTokenClients c))),
          (''EN_HTTP_PROXY'', TStr (cfg_ENProxyHTTP c)),
          (''EN_HTTPS_PROXY'', TStr (cfg_ENProxyHTTPS c)),
          (''EN_NO_PROXY'', TStr (cfg_ENProxyNoProxy c)),
          (''EN_FTP_PROXY'', TStr (cfg_ENProxyFTP c)),
          (''EN_SOCKS_PROXY'', TStr (cfg_ENProxySocks c)),
          (''KERNEL_CONFIG_OVER_COMMIT_MEMORY'', TNum (cfg_VmOverCommitMemory c)),
          (''KERNEL_CONFIG_PANIC_ON_OOPS'', TNum (cfg_KernelPanicOnOops c)),
          (''KERNEL_CONFIG_KERNEL_PANIC'', TNum (cfg_KernelPanic c)),
          (''KERNEL_CONFIG_MAX_USER_INSTANCE'', TNum (cfg_FsInotifyMaxUserInstances c)),
          (''NETIP'', TStr (cfg_NetIP c)),
          (''FIREWALL_RULES'', TStrs rules),
          (''IS_MICROVISOR'', TBool (osType = OS_TYPE_IMMUTABLE)),
          (''DISABLE_CO_PROFILE'', TBool (cfg_DisableCOProfile c)),
          (''DISABLE_O11Y_PROFILE'', TBool (cfg_DisableO11YProfile c)),
          (''SKIP_OS_PROVISIONING'', TBool (cfg_SkipOSProvisioning c)),
          (''ONBOARDING_SVC_URL'', TStr (cfg_OnboardingURL c)),
          (''ONBOARDING_STREAM_SVC_URL'', TStr (cfg_OnboardingStreamURL c))])
      | _ \<Rightarrow> Panic)"

definition GetCommonInfraTemplateVariables ::
  "host_view \<Rightarrow> infra_config \<Rightarrow> os_type \<Rightarrow> (goerr + tvars) outcome" where
  "GetCommonInfraTemplateVariables V c osType =
     (case getCaCert V of
        Inl e \<Rightarrow> Ret (Inl e)
      | Inr caCert \<Rightarrow> (case getCustomFirewallRules V (osType = OS_TYPE_MUTABLE) of
          Inl e \<Rightarrow> Ret (Inl e)
        | Inr rules \<Rightarrow> (case common_variables V c osType caCert rules of
            Panic \<Rightarrow> Panic
          | Ret vars \<Rightarrow>
              (case (if cfg_SkipOSProvisioning (hv_config V) then
                       (case getCombinedCaPEM V of
                          Inl e \<Rightarrow> Inl e
                        | Inr caPem \<Rightarrow> Inr (vars(''CA_PEM'' \<mapsto> TStr caPem)))
                     else Inr vars) of
                 Inl e \<Rightarrow> Ret (Inl e)
               | Inr vars1 \<Rightarrow> (case setOSSpecificVariables V vars1 osType of (vars2, err) \<Rightarrow>
                   (case err of Some e \<Rightarrow> Ret (Inl e) | None \<Rightarrow> Ret (Inr vars2)))))))"

definition CurateFromTemplate :: "host_view \<Rightarrow> string \<Rightarrow> tvars \<Rightarrow> goerr + string" where
  "CurateFromTemplate V tmpl vars =
     (if \<not> hv_template_ok V tmpl then Inl (Errorf ''Failed to parse installation script template'')
      else (case hv_render V tmpl vars of
        None \<Rightarrow> Inl (Errorf ''Failed to render installation script'')
      | Some s \<Rightarrow> Inr s))"

section \<open>What the firewall commands open\<close>

text \<open>An ACCEPT entry of the filter: a protocol, a source (empty for all) and a port (none for all);
  \<open>accept_cmd\<close> is the command that appends it.\<close>

type_synonym accept = "string \<times> string \<times> string option"

fun accept_cmd :: "accept \<Rightarrow> string" where
  "accept_cmd (proto, src, port) =
     ''iptables -A INPUT -p '' @ proto
       @ (if src \<noteq> '''' then '' -s '' @ src else '''')
       @ (case port of None \<Rightarrow> '''' | Some p \<Rightarrow> '' --dport '' @ p) @ '' -j ACCEPT''"

lemma resolveIP_nonempty [simp]: "s \<noteq> '''' \<Longrightarrow> resolveIP s \<noteq> ''''"
  by (simp add: resolveIP_def)

lemma generateIptablesForProtocol_accept:
  "generateIptablesForProtocol proto src p = accept_cmd (proto, src, Some p)"
  by (simp add: generateIptablesForProtocol_def)

lemma generateIptablesForPorts_accept:
  "generateIptablesForPorts ps src =
     map accept_cmd (concat (map (\<lambda>p. [(''tcp'', src, Some (trim_space p)), (''udp'', src, Some (trim_space p))]) ps))"
  by (induction ps) (auto simp: Let_def)

lemma iptables_prefix: "c \<in> set (GenerateIptablesCommands rule) \<Longrightarrow> has_prefix c ''iptables ''"
proof -
  have ap: "has_prefix (accept_cmd a) ''iptables ''" for a
    by (cases a) (simp add: has_prefix_def)
  show "c \<in> set (GenerateIptablesCommands rule) \<Longrightarrow> has_prefix c ''iptables ''"
    by (auto simp: GenerateIptablesCommands_def Let_def generateIptablesForProtocol_accept ap
        generateIptablesForPorts_accept simp del: accept_cmd.simps split: if_splits list.splits)
      (simp_all add: has_prefix_def)
qed

lemma ufw_prefix: "c \<in> set (GenerateUFWCommands rule) \<Longrightarrow> has_prefix c ''ufw ''"
  by (auto simp: GenerateUFWCommands_def Let_def has_prefix_def split: if_splits)

lemma ufw_at_most_one:
  "length (GenerateUFWCommands rule) =
     (if fw_SourceIP rule = '''' \<and> fw_Ports rule = '''' then 0 else 1)"
  by (simp add: GenerateUFWCommands_def Let_def)

lemma custom_rules_provider:
  "getCustomFirewallRules V ufw = Inr rules \<Longrightarrow>
   list_all (\<lambda>c. has_prefix c (if ufw then ''ufw '' else ''iptables '')) rules"
  by (auto simp: getCustomFirewallRules_def list_all_iff dest: ufw_prefix iptables_prefix
      split: sum.splits)

section \<open>What the variables hold\<close>

lemma port_of_None: "port_of s = None \<longleftrightarrow> CHR '':'' \<notin> set s"
proof -
  have "CHR '':'' \<notin> set s \<longleftrightarrow> length (split_char CHR '':'' s) = 1"
    by (auto simp: length_split_char filter_empty_conv)
  then show ?thesis by (auto simp: port_of_def split: list.splits)
qed

lemma agent_keys:
  assumes "fst (getAgentsListTemplateVariables V) k \<noteq> None"
  shows "k = ''APT_DISTRO'' \<or> has_suffix k ''-VERSION''"
proof -
  have fold: "foldl (\<lambda>m agent. m(av_Name agent @ ''-VERSION'' \<mapsto> TStr (av_Version agent))) m as k \<noteq> None
      \<Longrightarrow> m k \<noteq> None \<or> has_suffix k ''-VERSION''" for m :: tvars and as
    by (induction as arbitrary: m) (fastforce simp: has_suffix_iff split: if_splits)+
  show ?thesis
    using assms fold [of "\<lambda>_. None" "em_Packages (cfg_ENManifest (hv_config V))"]
    by (auto simp: getAgentsListTemplateVariables_def GetBMAgentsInfo_def Let_def split: if_splits)
qed

lemma setOSSpecific_frame:
  assumes "setOSSpecificVariables V vars osType = (vars', err)"
    and "k \<noteq> ''APT_DISTRO''" and "\<not> has_suffix k ''-VERSION''" and "k \<noteq> ''FIREWALL_PROVIDER''"
  shows "vars' k = vars k"
proof -
  have none: "fst (getAgentsListTemplateVariables V) k = None" using agent_keys assms(2,3) by blast
  with assms show ?thesis
    by (cases osType)
      (auto simp: setOSSpecificVariables_def Let_def map_add_def
        split: prod.splits if_splits option.splits)
qed

lemma setOSSpecific_provider:
  assumes "setOSSpecificVariables V vars osType = (vars', None)"
  shows "vars' ''FIREWALL_PROVIDER'' = (case osType of
     OS_TYPE_MUTABLE \<Rightarrow> Some (TStr ''ufw'') | OS_TYPE_IMMUTABLE \<Rightarrow> Some (TStr ''iptables'')
   | OS_TYPE_UNSPECIFIED \<Rightarrow> vars ''FIREWALL_PROVIDER'')"
proof -
  have "fst (getAgentsListTemplateVariables V) ''FIREWALL_PROVIDER'' = None"
    using agent_keys [of V "''FIREWALL_PROVIDER''"]
    by (force simp: has_suffix_def has_prefix_def)
  with assms show ?thesis
    by (cases osType)
      (auto simp: setOSSpecificVariables_def Let_def map_add_def
        split: prod.splits if_splits option.splits)
qed

end
