(* ===== verification/Inventory.thy ===== *)
theory Inventory
  imports Status Curation
begin

text \<open>
  The data the Onboarding Manager works on, the calls it makes and the replies it gets.
  The resources of the Inventory, the Tinkerbell workflow and the messages of the onboarding
  stream are protobuf and CRD types of other repositories: the records hold the fields this
  code reads or writes, under their Go names. A nil pointer is \<open>None\<close>, and
  \<open>empty_host\<close>, \<open>empty_inst\<close> are the zero values that struct literals start from.
  \<open>om_call\<close> has one constructor per call the manager makes to the outside, \<open>om_env\<close> the
  replies as functions of the calls made before.
\<close>

section \<open>Inventory resources\<close>

datatype host_state = HOST_STATE_UNSPECIFIED | HOST_STATE_DELETED | HOST_STATE_ONBOARDED
  | HOST_STATE_UNTRUSTED | HOST_STATE_REGISTERED | HOST_STATE_OTHER nat

datatype instance_state = INSTANCE_STATE_UNSPECIFIED | INSTANCE_STATE_RUNNING
  | INSTANCE_STATE_DELETED | INSTANCE_STATE_UNTRUSTED | INSTANCE_STATE_OTHER nat

datatype os_provider_kind = OS_PROVIDER_KIND_UNSPECIFIED | OS_PROVIDER_KIND_INFRA
  | OS_PROVIDER_KIND_OTHER nat

datatype security_feature = SECURITY_FEATURE_UNSPECIFIED | SECURITY_FEATURE_NONE
  | SECURITY_FEATURE_SECURE_BOOT_AND_FULL_DISK_ENCRYPTION

datatype bmc_kind = BMC_KIND_UNSPECIFIED | BMC_KIND_PDU | BMC_KIND_OTHER nat

datatype ip_state = IP_STATE_UNSPECIFIED | IP_STATE_DELETED | IP_STATE_OTHER nat

record subres =
  sub_TenantId :: string
  sub_ResourceId :: string

record ip_address =
  ip_TenantId :: string
  ip_ResourceId :: string
  ip_CurrentState :: ip_state

text \<open>The Instance as it hangs off a host: the fields read through \<open>host.GetInstance()\<close>.\<close>

record inst_ref =
  ref_ResourceId :: string
  ref_CurrentState :: instance_state

record os_res =
  os_ResourceId :: string
  os_Type :: os_type
  os_Provider :: os_provider_kind
  os_ImageUrl :: string
  os_Sha256 :: string
  os_Metadata :: string
  os_PlatformBundle :: string
  os_TlsCaCert :: string
  os_SecurityFeature :: security_feature

record local_account =
  la_ResourceId :: string
  la_Username :: string
  la_SshKey :: string

record provider =
  prov_Name :: string
  prov_Config :: string

record host =
  h_ResourceId :: string
  h_TenantId :: string
  h_Uuid :: string
  h_SerialNumber :: string
  h_PxeMac :: string
  h_BmcIp :: string
  h_BmcKind :: bmc_kind
  h_UserLvmSize :: "32 word"
  h_CurrentState :: host_state
  h_DesiredState :: host_state
  h_HostStatus :: string
  h_HostStatusIndicator :: indication
  h_HostStatusTimestamp :: "64 word"
  h_OnboardingStatus :: string
  h_OnboardingStatusIndicator :: indication
  h_OnboardingStatusTimestamp :: "64 word"
  h_RegistrationStatus :: string
  h_RegistrationStatusIndicator :: indication
  h_RegistrationStatusTimestamp :: "64 word"
  h_Provider :: "provider option"
  h_Instance :: "inst_ref option"
  h_HostNics :: "subres list"
  h_HostStorages :: "subres list"
  h_HostUsbs :: "subres list"
  h_HostGpus :: "subres list"

record inst =
  i_ResourceId :: string
  i_TenantId :: string
  i_KindMetal :: bool
  i_DesiredState :: instance_state
  i_CurrentState :: instance_state
  i_Host :: "host option"
  i_Os :: "os_res option"
  i_InstanceStatus :: string
  i_InstanceStatusIndicator :: indication
  i_InstanceStatusTimestamp :: "64 word"
  i_InstanceStatusDetail :: string
  i_ProvisioningStatus :: string
  i_ProvisioningStatusIndicator :: indication
  i_ProvisioningStatusTimestamp :: "64 word"
  i_UpdateStatus :: string
  i_UpdateStatusIndicator :: indication
  i_UpdateStatusTimestamp :: "64 word"
  i_TrustedAttestationStatus :: string
  i_TrustedAttestationStatusIndicator :: indication
  i_TrustedAttestationStatusTimestamp :: "64 word"
  i_SecurityFeature :: security_feature
  i_Localaccount :: "local_account option"
  i_CustomConfig :: "(string \<times> string) list"

definition empty_host :: host where
  "empty_host = \<lparr>
     h_ResourceId = '''', h_TenantId = '''', h_Uuid = '''', h_SerialNumber = '''',
     h_PxeMac = '''', h_BmcIp = '''', h_BmcKind = BMC_KIND_UNSPECIFIED, h_UserLvmSize = 0,
     h_CurrentState = HOST_STATE_UNSPECIFIED, h_DesiredState = HOST_STATE_UNSPECIFIED,
     h_HostStatus = '''', h_HostStatusIndicator = IND_UNSPECIFIED, h_HostStatusTimestamp = 0,
     h_OnboardingStatus = '''', h_OnboardingStatusIndicator = IND_UNSPECIFIED,
     h_OnboardingStatusTimestamp = 0,
     h_RegistrationStatus = '''', h_RegistrationStatusIndicator = IND_UNSPECIFIED,
     h_RegistrationStatusTimestamp = 0,
     h_Provider = None, h_Instance = None,
     h_HostNics = [], h_HostStorages = [], h_HostUsbs = [], h_HostGpus = [] \<rparr>"

definition empty_inst :: inst where
  "empty_inst = \<lparr>
     i_ResourceId = '''', i_TenantId = '''', i_KindMetal = False,
     i_DesiredState = INSTANCE_STATE_UNSPECIFIED, i_CurrentState = INSTANCE_STATE_UNSPECIFIED,
     i_Host = None, i_Os = None,
     i_InstanceStatus = '''', i_InstanceStatusIndicator = IND_UNSPECIFIED,
     i_InstanceStatusTimestamp = 0, i_InstanceStatusDetail = '''',
     i_ProvisioningStatus = '''', i_ProvisioningStatusIndicator = IND_UNSPECIFIED,
     i_ProvisioningStatusTimestamp = 0,
     i_UpdateStatus = '''', i_UpdateStatusIndicator = IND_UNSPECIFIED, i_UpdateStatusTimestamp = 0,
     i_TrustedAttestationStatus = '''', i_TrustedAttestationStatusIndicator = IND_UNSPECIFIED,
     i_TrustedAttestationStatusTimestamp = 0,
     i_SecurityFeature = SECURITY_FEATURE_UNSPECIFIED, i_Localaccount = None, i_CustomConfig = [] \<rparr>"

definition empty_os :: os_res where
  "empty_os = \<lparr> os_ResourceId = '''', os_Type = OS_TYPE_UNSPECIFIED,
     os_Provider = OS_PROVIDER_KIND_UNSPECIFIED, os_ImageUrl = '''', os_Sha256 = '''',
     os_Metadata = '''', os_PlatformBundle = '''', os_TlsCaCert = '''',
     os_SecurityFeature = SECURITY_FEATURE_UNSPECIFIED \<rparr>"

text \<open>The \<open>oneof\<close> of \<open>inventory.v1.Resource\<close>, and the kinds.\<close>

datatype resource =
    ResHost host | ResHoststorage subres | ResHostnic subres | ResHostusb subres
  | ResHostgpu subres | ResIpaddress ip_address | ResInstance inst | ResOs os_res
  | ResProvider provider | ResLocalAccount local_account | ResOther string

datatype res_kind = KIND_HOST | KIND_HOSTNIC | KIND_IPADDRESS | KIND_INSTANCE | KIND_OS
  | KIND_PROVIDER | KIND_OTHER string

fun get_host :: "resource option \<Rightarrow> host option" where
  "get_host (Some (ResHost h)) = Some h"
| "get_host _ = None"

fun get_instance :: "resource option \<Rightarrow> inst option" where
  "get_instance (Some (ResInstance i)) = Some i"
| "get_instance _ = None"

fun get_os :: "resource option \<Rightarrow> os_res option" where
  "get_os (Some (ResOs x)) = Some x"
| "get_os _ = None"

fun get_local_account :: "resource option \<Rightarrow> local_account option" where
  "get_local_account (Some (ResLocalAccount a)) = Some a"
| "get_local_account _ = None"

fun get_provider :: "resource option \<Rightarrow> provider option" where
  "get_provider (Some (ResProvider p)) = Some p"
| "get_provider _ = None"

fun get_ip :: "resource option \<Rightarrow> ip_address option" where
  "get_ip (Some (ResIpaddress p)) = Some p"
| "get_ip _ = None"

text \<open>The field names that the update masks use.\<close>

datatype field =
    F_kind | F_name | F_serial_number | F_current_state | F_desired_state | F_mgmt_ip
  | F_bmc_kind | F_bmc_ip | F_bmc_username | F_bmc_password | F_pxe_mac | F_hostname | F_uuid
  | F_host_status | F_host_status_indicator | F_host_status_timestamp
  | F_onboarding_status | F_onboarding_status_indicator | F_onboarding_status_timestamp
  | F_registration_status | F_registration_status_indicator | F_registration_status_timestamp
  | F_instance_status | F_instance_status_indicator | F_instance_status_timestamp
  | F_instance_status_detail
  | F_provisioning_status | F_provisioning_status_indicator | F_provisioning_status_timestamp
  | F_update_status | F_update_status_indicator | F_update_status_timestamp
  | F_trusted_attestation_status | F_trusted_attestation_status_indicator
  | F_trusted_attestation_status_timestamp | F_os

text \<open>The filters of the list calls, by the comparisons that their text spells.\<close>

datatype inv_filter =
    NoFilter
  | FilterUuid string
  | FilterSerialNumber string
  | FilterTenantUuid string string
  | FilterTenantName string string
  | FilterNicOfIp string
  | FilterBmcNicOfHost string

record provider_config =
  pc_AutoProvision :: bool
  pc_DefaultOs :: string
  pc_DefaultLocalAccount :: string
  pc_OSSecurityFeatureEnable :: bool

section \<open>Tinkerbell workflows\<close>

datatype wf_state = WF_EMPTY | WF_PENDING | WF_RUNNING | WF_SUCCESS | WF_FAILED | WF_TIMEOUT
  | WF_OTHER string

record tink_action =
  a_Name :: string
  a_Status :: wf_state
  a_Message :: string
  a_Seconds :: int

record workflow =
  wf_Name :: string
  wf_Namespace :: string
  wf_HardwareRef :: string
  wf_TemplateRef :: string
  wf_HardwareMap :: "string \<Rightarrow> string option"
  wf_State :: wf_state
  wf_Tasks :: "tink_action list list"

datatype k8s_obj =
    ObjWorkflow workflow
  | ObjTemplate string string string   \<comment> \<open>namespace, name, data\<close>
  | ObjHardware string string          \<comment> \<open>namespace, name\<close>

datatype k8s_kind = KindTemplate | KindHardware

section \<open>Messages of the onboarding services\<close>

datatype node_state = NODE_STATE_UNSPECIFIED | NODE_STATE_REGISTERED | NODE_STATE_ONBOARDED

record stream_req =
  rq_Uuid :: string
  rq_Serialnum :: string
  rq_MacId :: string
  rq_HostIp :: string

record stream_resp =
  rs_Code :: code
  rs_Message :: string
  rs_NodeState :: node_state
  rs_ClientId :: string
  rs_ClientSecret :: string
  rs_ProjectId :: string

section \<open>Calls and replies\<close>

text \<open>The manager holds two Inventory clients: the resource manager's and the API's.\<close>

datatype client = CliRM | CliAPI

datatype http_proxy = NoProxy | ProxyURL string | ProxyFromEnvironment

datatype om_call =
    InvGet client string string
  | InvList client res_kind inv_filter
  | InvFindAll client res_kind
  | InvCreate client string resource
  | InvUpdate client string string "field list" resource
  | InvDelete client string string
  | AuthFactory
  | AuthGetCredentials string string
  | AuthCreateCredentials string string
  | AuthLogout
  | AuthRevoke string string
  | K8sClient
  | K8sGetWorkflow string string
  | K8sCreate k8s_obj
  | K8sDeleteWorkflow string string
  | K8sDeleteAllOf k8s_kind string
  | StreamRecv
  | StreamSend stream_resp
  | InternalEvent string string
  | CtrlReconcile res_kind string
  | DownloadArtifacts string string
  | HttpGetHeader string http_proxy
  | CacheStore string string

type_synonym 'a om = "(om_call, 'a) io"

record om_env =
  lib :: errlib
  unix_now :: "om_call list \<Rightarrow> int"
  inv_get :: "om_call list \<Rightarrow> client \<Rightarrow> string \<Rightarrow> string \<Rightarrow> goerr + resource option"
  inv_list :: "om_call list \<Rightarrow> client \<Rightarrow> res_kind \<Rightarrow> inv_filter \<Rightarrow> resource option list option \<times> error"
  inv_find_all :: "om_call list \<Rightarrow> client \<Rightarrow> res_kind \<Rightarrow> goerr + (string \<times> string) list"
  inv_create :: "om_call list \<Rightarrow> client \<Rightarrow> string \<Rightarrow> resource \<Rightarrow> goerr + resource"
  inv_update :: "om_call list \<Rightarrow> client \<Rightarrow> string \<Rightarrow> string \<Rightarrow> field list \<Rightarrow> resource \<Rightarrow> error"
  inv_delete :: "om_call list \<Rightarrow> client \<Rightarrow> string \<Rightarrow> string \<Rightarrow> error"
  validate_message :: "resource option \<Rightarrow> error"
  fieldmask_new :: "resource \<Rightarrow> field list \<Rightarrow> error"
  validate_mask :: "resource \<Rightarrow> field list \<Rightarrow> goerr + resource"
  resource_key :: "resource \<Rightarrow> goerr + (string \<times> string)"
  kind_of_id :: "string \<Rightarrow> goerr + res_kind"
  check_singular :: "resource list \<Rightarrow> error"
  resource_from_kind :: "res_kind \<Rightarrow> error"
  specific_list :: "res_kind \<Rightarrow> resource list \<Rightarrow> goerr + resource list"
  uuid_parse_ok :: "string \<Rightarrow> bool"
  parse_provider_config :: "string \<Rightarrow> goerr + provider_config"
  parse_json_map :: "string \<Rightarrow> (string \<times> string) list option"
  parse_request_uri_ok :: "string \<Rightarrow> bool"
  auth_factory :: "om_call list \<Rightarrow> error"
  auth_get :: "om_call list \<Rightarrow> string \<Rightarrow> string \<Rightarrow> string \<times> string \<times> error"
  auth_create :: "om_call list \<Rightarrow> string \<Rightarrow> string \<Rightarrow> string \<times> string \<times> error"
  auth_revoke :: "om_call list \<Rightarrow> string \<Rightarrow> string \<Rightarrow> error"
  k8s_client :: "om_call list \<Rightarrow> error"
  k8s_get_workflow :: "om_call list \<Rightarrow> string \<Rightarrow> string \<Rightarrow> goerr + workflow"
  k8s_create :: "om_call list \<Rightarrow> k8s_obj \<Rightarrow> error"
  k8s_delete_workflow :: "om_call list \<Rightarrow> string \<Rightarrow> string \<Rightarrow> error"
  k8s_delete_all_of :: "om_call list \<Rightarrow> k8s_kind \<Rightarrow> string \<Rightarrow> error"
  stream_recv :: "om_call list \<Rightarrow> goerr + stream_req option"
  stream_send :: "om_call list \<Rightarrow> stream_resp \<Rightarrow> error"
  internal_ready :: "om_call list \<Rightarrow> bool"
  ctrl_reconcile :: "om_call list \<Rightarrow> res_kind \<Rightarrow> string \<Rightarrow> error"
  download_artifacts :: "om_call list \<Rightarrow> string \<Rightarrow> string \<Rightarrow> goerr + string list option"
  parse_manifest :: "string \<Rightarrow> goerr + string \<times> string"
  url_parse_ok :: "string \<Rightarrow> bool"
  new_request_ok :: "string \<Rightarrow> bool"
  http_get_header :: "om_call list \<Rightarrow> string \<Rightarrow> http_proxy \<Rightarrow> goerr + int \<times> string"
  concat_values_sorted :: "(string \<times> string) list \<Rightarrow> string \<Rightarrow> string"
  quote :: "string \<Rightarrow> string"
  k8s_namespace :: string
  tinker_action_version :: string
  tinker_artifact_name :: string
  en_dkam_mode :: string
  en_user_name :: string
  en_pass_word :: string
  host_view_at :: "om_call list \<Rightarrow> host_view"

text \<open>\<open>uint64(time.Now().Unix())\<close>.\<close>

definition timestamp :: "om_env \<Rightarrow> (64 word) om" where
  "timestamp E = ask (\<lambda>l. word_of_int (unix_now E l))"

lemma run_timestamp [simp, io_run]:
  "run_io (timestamp E) l = (Ret (word_of_int (unix_now E l)), l)"
  by (simp add: timestamp_def)

lemma emits_timestamp [emits_intro]: "emits P (timestamp E)"
  by (simp add: timestamp_def emits_ask)

end
