(* ===== verification/Populate.thy ===== *)
theory Populate
  imports Inventory
begin

text \<open>
  \<open>onboarding-manager/internal/util/util.go\<close>: the setters that write a status into an
  Instance or its eager-loaded host, the comparisons that decide whether the Inventory has to
  be told, and \<open>IsStandalone\<close>. The Go setters assign through the pointer; here they return
  the updated Instance. Assigning through a nil host panics.
\<close>

section \<open>Comparisons\<close>

fun IsSameHostStatus :: "host option \<Rightarrow> host option \<Rightarrow> bool outcome" where
  "IsSameHostStatus (Some a) (Some b) =
     Ret (h_HostStatusIndicator a = h_HostStatusIndicator b \<and> h_HostStatus a = h_HostStatus b)"
| "IsSameHostStatus _ _ = Panic"

fun IsSameOnboardingStatus :: "host option \<Rightarrow> host option \<Rightarrow> bool outcome" where
  "IsSameOnboardingStatus (Some a) (Some b) =
     Ret (h_OnboardingStatusIndicator a = h_OnboardingStatusIndicator b \<and>
          h_OnboardingStatus a = h_OnboardingStatus b)"
| "IsSameOnboardingStatus _ _ = Panic"

definition IsSameInstanceStatusAndState :: "inst \<Rightarrow> inst \<Rightarrow> bool" where
  "IsSameInstanceStatusAndState a b \<longleftrightarrow>
     i_CurrentState a = i_CurrentState b \<and>
     i_ProvisioningStatus a = i_ProvisioningStatus b \<and>
     i_ProvisioningStatusIndicator a = i_ProvisioningStatusIndicator b"

section \<open>Setters\<close>

definition PopulateHostStatus :: "inst \<Rightarrow> status \<Rightarrow> inst outcome" where
  "PopulateHostStatus i s = (case i_Host i of
     None \<Rightarrow> Panic
   | Some h \<Rightarrow> Ret (i\<lparr>i_Host := Some (h\<lparr>h_HostStatus := st_Status s,
                       h_HostStatusIndicator := st_Indicator s\<rparr>)\<rparr>))"

definition PopulateHostOnboardingStatus :: "inst \<Rightarrow> status \<Rightarrow> inst outcome" where
  "PopulateHostOnboardingStatus i s = (case i_Host i of
     None \<Rightarrow> Panic
   | Some h \<Rightarrow> Ret (i\<lparr>i_Host := Some (h\<lparr>h_OnboardingStatus := st_Status s,
                       h_OnboardingStatusIndicator := st_Indicator s\<rparr>)\<rparr>))"

definition PopulateInstanceProvisioningStatus :: "inst \<Rightarrow> status \<Rightarrow> inst" where
  "PopulateInstanceProvisioningStatus i s =
     i\<lparr>i_ProvisioningStatus := st_Status s, i_ProvisioningStatusIndicator := st_Indicator s\<rparr>"

definition PopulateInstanceStatusAndCurrentState :: "inst \<Rightarrow> instance_state \<Rightarrow> status \<Rightarrow> inst" where
  "PopulateInstanceStatusAndCurrentState i c s =
     i\<lparr>i_CurrentState := c, i_ProvisioningStatus := st_Status s,
       i_ProvisioningStatusIndicator := st_Indicator s\<rparr>"

definition PopulateInstanceStatus :: "inst \<Rightarrow> status \<Rightarrow> inst" where
  "PopulateInstanceStatus i s =
     i\<lparr>i_InstanceStatus := st_Status s, i_InstanceStatusIndicator := st_Indicator s,
       i_InstanceStatusDetail := ''''\<rparr>"

definition PopulateInstanceUpdateStatus :: "inst \<Rightarrow> status \<Rightarrow> inst" where
  "PopulateInstanceUpdateStatus i s =
     i\<lparr>i_UpdateStatus := st_Status s, i_UpdateStatusIndicator := st_Indicator s\<rparr>"

definition PopulateInstanceTrustedAttestationStatus :: "inst \<Rightarrow> status \<Rightarrow> inst" where
  "PopulateInstanceTrustedAttestationStatus i s =
     i\<lparr>i_TrustedAttestationStatus := st_Status s,
       i_TrustedAttestationStatusIndicator := st_Indicator s\<rparr>"

definition PopulateInstanceIdleStatus :: "inst \<Rightarrow> inst" where
  "PopulateInstanceIdleStatus i =
     (let i1 = PopulateInstanceStatus i InstanceStatusUnknown;
          i2 = PopulateInstanceProvisioningStatus i1 ProvisioningStatusUnknown;
          i3 = PopulateInstanceUpdateStatus i2 UpdateStatusUnknown
      in PopulateInstanceTrustedAttestationStatus i3 TrustedAttestationStatusUnknown)"

section \<open>Standalone nodes\<close>

definition IsStandaloneMetadataKey :: string where
  "IsStandaloneMetadataKey = ''standalone-node''"

definition IsStandalone :: "om_env \<Rightarrow> inst \<Rightarrow> goerr + bool" where
  "IsStandalone E i = (case i_Os i of
     None \<Rightarrow> Inr False
   | Some os \<Rightarrow>
       if os_Type os = OS_TYPE_MUTABLE then Inr False
       else if os_Metadata os = '''' then Inr False
       else (case parse_json_map E (os_Metadata os) of
           None \<Rightarrow> Inl (Errorfc InvalidArgument ''Failed to parse JSON map'')
         | Some m \<Rightarrow> (case map_of m IsStandaloneMetadataKey of
             None \<Rightarrow> Inr False
           | Some v \<Rightarrow> Inr (v = ''true''))))"

section \<open>A status slot\<close>

text \<open>
  The contract of the setters of an Instance: what was put is read back, and a second put
  forgets the first. Two independent slots can be filled in either order.
\<close>

locale status_slot =
  fixes put :: "'r \<Rightarrow> status \<Rightarrow> 'r"
    and got :: "'r \<Rightarrow> status"
  assumes got_put: "got (put r s) = s"
    and put_put: "put (put r s) t = put r t"
begin

lemma put_idem: "put (put r s) s = put r s"
  by (rule put_put)

lemma put_inj: "put r s = put r t \<Longrightarrow> s = t"
  by (metis got_put)

end

locale independent_slots =
  a: status_slot put1 got1 + b: status_slot put2 got2
  for put1 :: "'r \<Rightarrow> status \<Rightarrow> 'r" and got1 and put2 :: "'r \<Rightarrow> status \<Rightarrow> 'r" and got2 +
  assumes put_comm: "put1 (put2 r t) s = put2 (put1 r s) t"
begin

lemma got_both: "got1 (put2 (put1 r s) t) = s" "got2 (put2 (put1 r s) t) = t"
  by (metis put_comm a.got_put) (rule b.got_put)

lemma refill: "put1 (put2 (put1 (put2 r t) s) t') s' = put2 (put1 r s') t'"
  by (simp add: put_comm a.put_put b.put_put)

end

definition slot_provisioning :: "inst \<Rightarrow> status" where
  "slot_provisioning i = mk_status (i_ProvisioningStatus i) (i_ProvisioningStatusIndicator i)"

definition slot_instance :: "inst \<Rightarrow> status" where
  "slot_instance i = mk_status (i_InstanceStatus i) (i_InstanceStatusIndicator i)"

definition slot_update :: "inst \<Rightarrow> status" where
  "slot_update i = mk_status (i_UpdateStatus i) (i_UpdateStatusIndicator i)"

definition slot_attestation :: "inst \<Rightarrow> status" where
  "slot_attestation i =
     mk_status (i_TrustedAttestationStatus i) (i_TrustedAttestationStatusIndicator i)"

lemmas slot_defs = slot_provisioning_def slot_instance_def slot_update_def slot_attestation_def
  PopulateInstanceProvisioningStatus_def PopulateInstanceStatus_def
  PopulateInstanceUpdateStatus_def PopulateInstanceTrustedAttestationStatus_def mk_status_def

interpretation prov_slot: status_slot PopulateInstanceProvisioningStatus slot_provisioning
  by unfold_locales (simp_all add: slot_defs)

interpretation att_slot:
  independent_slots PopulateInstanceUpdateStatus slot_update
    PopulateInstanceTrustedAttestationStatus slot_attestation
  by unfold_locales (simp_all add: slot_defs)

interpretation inst_slot:
  independent_slots PopulateInstanceStatus slot_instance
    PopulateInstanceProvisioningStatus slot_provisioning
  by unfold_locales (simp_all add: slot_defs)

lemma idle_slots [simp]:
  "slot_instance (PopulateInstanceIdleStatus i) = InstanceStatusUnknown"
  "slot_provisioning (PopulateInstanceIdleStatus i) = ProvisioningStatusUnknown"
  "slot_update (PopulateInstanceIdleStatus i) = UpdateStatusUnknown"
  "slot_attestation (PopulateInstanceIdleStatus i) = TrustedAttestationStatusUnknown"
  by (simp_all add: PopulateInstanceIdleStatus_def slot_defs)

lemma idle_frame [simp]:
  "i_CurrentState (PopulateInstanceIdleStatus i) = i_CurrentState i"
  "i_DesiredState (PopulateInstanceIdleStatus i) = i_DesiredState i"
  "i_Host (PopulateInstanceIdleStatus i) = i_Host i"
  "i_Os (PopulateInstanceIdleStatus i) = i_Os i"
  "i_ResourceId (PopulateInstanceIdleStatus i) = i_ResourceId i"
  "i_TenantId (PopulateInstanceIdleStatus i) = i_TenantId i"
  by (simp_all add: PopulateInstanceIdleStatus_def slot_defs)

end
