(* ===== verification/InvClient.thy ===== *)
theory InvClient
  imports Populate
begin

text \<open>
  \<open>onboarding-manager/internal/invclient\<close>: the Inventory client of the Onboarding Manager.
  Every operation takes the environment and the client it runs on. Reads validate what they
  get; writes go through \<open>UpdateInvResourceFields\<close>, which sends the fields of a mask. The
  locale \<open>masked_writer\<close> is the contract of the writes: at most one call, with the mask the
  operation stands for, and the reply to it as the result.
\<close>

section \<open>Typed resources\<close>

fun setInventoryResourceAndID :: "resource \<Rightarrow> goerr + string" where
  "setInventoryResourceAndID (ResHost h) = Inr (h_ResourceId h)"
| "setInventoryResourceAndID (ResHoststorage s) = Inr (sub_ResourceId s)"
| "setInventoryResourceAndID (ResHostnic s) = Inr (sub_ResourceId s)"
| "setInventoryResourceAndID (ResHostusb s) = Inr (sub_ResourceId s)"
| "setInventoryResourceAndID (ResHostgpu s) = Inr (sub_ResourceId s)"
| "setInventoryResourceAndID (ResIpaddress a) = Inr (ip_ResourceId a)"
| "setInventoryResourceAndID (ResInstance i) = Inr (i_ResourceId i)"
| "setInventoryResourceAndID (ResOs os) = Inr (os_ResourceId os)"
| "setInventoryResourceAndID _ = Inl (Errorfc InvalidArgument ''unsupported resource type'')"

fun getInventoryResourceAndID :: "resource option \<Rightarrow> goerr + resource \<times> string" where
  "getInventoryResourceAndID None = Inl (Errorfc InvalidArgument ''no resource provided'')"
| "getInventoryResourceAndID (Some r) = (case setInventoryResourceAndID r of
     Inl e \<Rightarrow> Inl e
   | Inr rid \<Rightarrow> Inr (r, rid))"

section \<open>Reading\<close>

text \<open>The loop of \<open>listAllResources\<close>: empty responses are skipped, the first resource that
  fails validation ends it.\<close>

fun collect_valid :: "om_env \<Rightarrow> resource option list \<Rightarrow> goerr + resource list" where
  "collect_valid E [] = Inr []"
| "collect_valid E (None # vs) = collect_valid E vs"
| "collect_valid E (Some r # vs) = (case validate_message E (Some r) of
     Some e \<Rightarrow> Inl (InvWrap e)
   | None \<Rightarrow> (case collect_valid E vs of Inl e \<Rightarrow> Inl e | Inr rs \<Rightarrow> Inr (r # rs)))"

definition listAllResources ::
  "om_env \<Rightarrow> client \<Rightarrow> res_kind \<Rightarrow> inv_filter \<Rightarrow> (goerr + resource list) om" where
  "listAllResources E c k flt =
     bnd (call (InvList c k flt) (\<lambda>l. inv_list E l c k flt)) (\<lambda>(objs, err).
       case err of
         Some e \<Rightarrow>
           if \<not> is_not_found (lib E) err then ret (Inl e)
           else bnd (deref objs) (\<lambda>vs. ret (collect_valid E vs))
       | None \<Rightarrow> bnd (deref objs) (\<lambda>vs. ret (collect_valid E vs)))"

definition getResourceByID :: "om_env \<Rightarrow> client \<Rightarrow> string \<Rightarrow> string \<Rightarrow> (goerr + resource option) om" where
  "getResourceByID E c tid rid = call (InvGet c tid rid) (\<lambda>l. inv_get E l c tid rid)"

definition createResource :: "om_env \<Rightarrow> client \<Rightarrow> string \<Rightarrow> resource \<Rightarrow> (goerr + string) om" where
  "createResource E c tid r =
     if_ok (call (InvCreate c tid r) (\<lambda>l. inv_create E l c tid r)) (\<lambda>res.
       case resource_key E res of
         Inl e \<Rightarrow> ret (Inl e)
       | Inr (_, rid) \<Rightarrow> ret (Inr rid))"

definition listAndReturnHost :: "om_env \<Rightarrow> client \<Rightarrow> inv_filter \<Rightarrow> (goerr + host) om" where
  "listAndReturnHost E c flt =
     if_ok (listAllResources E c KIND_HOST flt) (\<lambda>resources.
       case check_singular E resources of
         Some e \<Rightarrow> ret (Inl e)
       | None \<Rightarrow> (case resources of
           [] \<Rightarrow> panic
         | r # _ \<Rightarrow> (case get_host (Some r) of
             None \<Rightarrow> ret (Inl (Errorfc Internal ''Empty Host resource''))
           | Some h \<Rightarrow> ret (Inr h))))"

definition listAndReturnProvider :: "om_env \<Rightarrow> client \<Rightarrow> inv_filter \<Rightarrow> (goerr + provider) om" where
  "listAndReturnProvider E c flt =
     if_ok (listAllResources E c KIND_PROVIDER flt) (\<lambda>resources.
       case check_singular E resources of
         Some e \<Rightarrow> ret (Inl e)
       | None \<Rightarrow> (case resources of
           [] \<Rightarrow> panic
         | r # _ \<Rightarrow> (case get_provider (Some r) of
             None \<Rightarrow> ret (Inl (Errorfc Internal ''Empty provider resource''))
           | Some p \<Rightarrow> ret (Inr p))))"

text \<open>\<open>util.GetSpecificResourceList[T]\<close> is a parameter; Go's types make every element of its
  result a \<open>T\<close>, so the projection by the getter reads all of them.\<close>

definition specific ::
  "om_env \<Rightarrow> res_kind \<Rightarrow> (resource option \<Rightarrow> 'a option) \<Rightarrow> resource list \<Rightarrow> (goerr + 'a list) om" where
  "specific E k g rs = (case specific_list E k rs of
     Inl e \<Rightarrow> ret (Inl e)
   | Inr xs \<Rightarrow> ret (Inr (List.map_filter (\<lambda>x. g (Some x)) xs)))"

definition GetHostResources :: "om_env \<Rightarrow> client \<Rightarrow> (goerr + host list) om" where
  "GetHostResources E c =
     if_ok (listAllResources E c KIND_HOST NoFilter) (specific E KIND_HOST get_host)"

definition GetInstanceResources :: "om_env \<Rightarrow> client \<Rightarrow> (goerr + inst list) om" where
  "GetInstanceResources E c =
     if_ok (listAllResources E c KIND_INSTANCE NoFilter) (specific E KIND_INSTANCE get_instance)"

definition GetOSResources :: "om_env \<Rightarrow> client \<Rightarrow> (goerr + os_res list) om" where
  "GetOSResources E c =
     if_ok (listAllResources E c KIND_OS NoFilter) (specific E KIND_OS get_os)"

definition GetProviderResources :: "om_env \<Rightarrow> client \<Rightarrow> (goerr + provider list) om" where
  "GetProviderResources E c =
     if_ok (listAllResources E c KIND_PROVIDER NoFilter) (specific E KIND_PROVIDER get_provider)"

definition ListIPAddresses :: "om_env \<Rightarrow> client \<Rightarrow> subres \<Rightarrow> (goerr + ip_address list) om" where
  "ListIPAddresses E c nic =
     if_ok (listAllResources E c KIND_IPADDRESS (FilterNicOfIp (sub_ResourceId nic)))
       (specific E KIND_IPADDRESS get_ip)"

fun get_hostnic :: "resource option \<Rightarrow> subres option" where
  "get_hostnic (Some (ResHostnic n)) = Some n"
| "get_hostnic _ = None"

definition GetHostBmcNic :: "om_env \<Rightarrow> client \<Rightarrow> host \<Rightarrow> (goerr + subres) om" where
  "GetHostBmcNic E c h =
     if_ok (listAllResources E c KIND_HOSTNIC (FilterBmcNicOfHost (h_ResourceId h))) (\<lambda>rs.
     if_ok (specific E KIND_HOSTNIC get_hostnic rs) (\<lambda>nics.
       case nics of
         [] \<Rightarrow> ret (Inl (Errorfc NotFound ''No BMC interfaces found for Host''))
       | n # _ \<Rightarrow> ret (Inr n)))"

text \<open>The four \<open>Get...ByResourceID\<close>: the getter of the kind, then validation of what it gave
  (possibly nil).\<close>

definition get_validated ::
  "om_env \<Rightarrow> client \<Rightarrow> (resource option \<Rightarrow> 'a option) \<Rightarrow> ('a \<Rightarrow> resource) \<Rightarrow> string \<Rightarrow> string \<Rightarrow>
   (goerr + 'a option) om" where
  "get_validated E c g mk tid rid =
     if_ok (getResourceByID E c tid rid) (\<lambda>resp.
       case validate_message E (map_option mk (g resp)) of
         Some e \<Rightarrow> ret (Inl (InvWrap e))
       | None \<Rightarrow> ret (Inr (g resp)))"

definition GetHostResourceByResourceID ::
  "om_env \<Rightarrow> client \<Rightarrow> string \<Rightarrow> string \<Rightarrow> (goerr + host option) om" where
  "GetHostResourceByResourceID E c = get_validated E c get_host ResHost"

definition GetInstanceResourceByResourceID ::
  "om_env \<Rightarrow> client \<Rightarrow> string \<Rightarrow> string \<Rightarrow> (goerr + inst option) om" where
  "GetInstanceResourceByResourceID E c = get_validated E c get_instance ResInstance"

definition GetOSResourceByResourceID ::
  "om_env \<Rightarrow> client \<Rightarrow> string \<Rightarrow> string \<Rightarrow> (goerr + os_res option) om" where
  "GetOSResourceByResourceID E c = get_validated E c get_os ResOs"

definition GetLocalAccountResourceByResourceID ::
  "om_env \<Rightarrow> client \<Rightarrow> string \<Rightarrow> string \<Rightarrow> (goerr + local_account option) om" where
  "GetLocalAccountResourceByResourceID E c = get_validated E c get_local_account ResLocalAccount"

definition GetHostResourceByUUID :: "om_env \<Rightarrow> client \<Rightarrow> string \<Rightarrow> string \<Rightarrow> (goerr + host) om" where
  "GetHostResourceByUUID E c tid uuid =
     (if \<not> uuid_parse_ok E uuid \<or> length uuid \<noteq> 36
      then ret (Inl (Errorfc InvalidArgument ''invalid UUID''))
      else listAndReturnHost E c (FilterTenantUuid tid uuid))"

definition GetHostResource :: "om_env \<Rightarrow> client \<Rightarrow> field \<Rightarrow> string \<Rightarrow> (goerr + host) om" where
  "GetHostResource E c filterType v =
     (if filterType = F_uuid then listAndReturnHost E c (FilterUuid v)
      else if filterType = F_serial_number then listAndReturnHost E c (FilterSerialNumber v)
      else ret (Inl (Errorfc InvalidArgument ''invalid filter type'')))"

fun FindAllResources :: "om_env \<Rightarrow> client \<Rightarrow> res_kind list \<Rightarrow> (goerr + (string \<times> string) list) om" where
  "FindAllResources E c [] = ret (Inr [])"
| "FindAllResources E c (k # ks) = (case resource_from_kind E k of
     Some e \<Rightarrow> ret (Inl e)
   | None \<Rightarrow>
       if_ok (call (InvFindAll c k) (\<lambda>l. inv_find_all E l c k)) (\<lambda>rs.
       if_ok (FindAllResources E c ks) (\<lambda>rest. ret (Inr (rs @ rest)))))"

definition FindAllInstances :: "om_env \<Rightarrow> client \<Rightarrow> (goerr + (string \<times> string) list) om" where
  "FindAllInstances E c = FindAllResources E c [KIND_INSTANCE]"

definition GetProviderResourceByName :: "om_env \<Rightarrow> client \<Rightarrow> string \<Rightarrow> string \<Rightarrow> (goerr + provider) om" where
  "GetProviderResourceByName E c tid name =
     (if name = '''' then ret (Inl (Errorfc InvalidArgument ''Empty provider name''))
      else listAndReturnProvider E c (FilterTenantName tid name))"

definition GetProviderConfig :: "om_env \<Rightarrow> client \<Rightarrow> string \<Rightarrow> string \<Rightarrow> (goerr + provider_config) om" where
  "GetProviderConfig E c tid name =
     if_ok (GetProviderResourceByName E c tid name) (\<lambda>p.
       case parse_provider_config E (prov_Config p) of
         Inl e \<Rightarrow> ret (Inl (InvWrap e))
       | Inr pc \<Rightarrow> ret (Inr pc))"

section \<open>Writing\<close>

definition UpdateInvResourceFields ::
  "om_env \<Rightarrow> client \<Rightarrow> string \<Rightarrow> resource option \<Rightarrow> field list \<Rightarrow> error om" where
  "UpdateInvResourceFields E c tid resource flds =
     (if resource = None then ret (Some (Errorfc InvalidArgument ''no resource provided''))
      else if flds = [] then ret None
      else (case getInventoryResourceAndID resource of
        Inl e \<Rightarrow> ret (Some e)
      | Inr (r, rid) \<Rightarrow> (case fieldmask_new E r flds of
          Some e \<Rightarrow> ret (Some (InvWrap e))
        | None \<Rightarrow> (case validate_mask E r flds of
            Inl e \<Rightarrow> ret (Some e)
          | Inr r' \<Rightarrow> call (InvUpdate c tid rid flds r') (\<lambda>l. inv_update E l c tid rid flds r')))))"

definition host_resource_fields :: "field list" where
  "host_resource_fields = [F_kind, F_name, F_serial_number, F_current_state, F_mgmt_ip, F_bmc_kind,
     F_bmc_ip, F_bmc_username, F_bmc_password, F_pxe_mac, F_hostname, F_uuid]"

definition UpdateHostResource :: "om_env \<Rightarrow> client \<Rightarrow> string \<Rightarrow> host \<Rightarrow> error om" where
  "UpdateHostResource E c tid h =
     UpdateInvResourceFields E c tid (Some (ResHost h)) host_resource_fields"

definition runtime_status_fields :: "field list" where
  "runtime_status_fields = [F_current_state, F_host_status, F_host_status_indicator,
     F_host_status_timestamp, F_onboarding_status, F_onboarding_status_indicator,
     F_registration_status, F_registration_status_indicator]"

definition UpdateHostStateAndRuntimeStatus :: "om_env \<Rightarrow> client \<Rightarrow> string \<Rightarrow> host \<Rightarrow> error om" where
  "UpdateHostStateAndRuntimeStatus E c tid h =
     (if h_HostStatus h = '''' \<or> h_HostStatusTimestamp h = 0 \<or>
         h_HostStatusIndicator h = IND_UNSPECIFIED
      then ret (Some (Errorfc InvalidArgument
             ''Missing mandatory host status fields during host status update''))
      else UpdateInvResourceFields E c tid (Some (ResHost h)) runtime_status_fields)"

definition updateHostCurrentState :: "om_env \<Rightarrow> client \<Rightarrow> string \<Rightarrow> host \<Rightarrow> error om" where
  "updateHostCurrentState E c tid h =
     UpdateInvResourceFields E c tid (Some (ResHost h)) [F_current_state]"

definition SetHostStatus :: "om_env \<Rightarrow> client \<Rightarrow> string \<Rightarrow> string \<Rightarrow> status \<Rightarrow> error om" where
  "SetHostStatus E c tid hostID s =
     bnd (timestamp E) (\<lambda>t.
       UpdateInvResourceFields E c tid
         (Some (ResHost (empty_host\<lparr>h_ResourceId := hostID, h_HostStatus := st_Status s,
            h_HostStatusIndicator := st_Indicator s, h_HostStatusTimestamp := t\<rparr>)))
         [F_host_status, F_host_status_indicator, F_host_status_timestamp])"

definition onboarding_status_fields :: "field list" where
  "onboarding_status_fields =
     [F_onboarding_status, F_onboarding_status_indicator, F_onboarding_status_timestamp]"

definition SetHostOnboardingStatus :: "om_env \<Rightarrow> client \<Rightarrow> string \<Rightarrow> string \<Rightarrow> status \<Rightarrow> error om" where
  "SetHostOnboardingStatus E c tid hostID s =
     bnd (timestamp E) (\<lambda>t.
       UpdateInvResourceFields E c tid
         (Some (ResHost (empty_host\<lparr>h_ResourceId := hostID, h_OnboardingStatus := st_Status s,
            h_OnboardingStatusIndicator := st_Indicator s, h_OnboardingStatusTimestamp := t\<rparr>)))
         onboarding_status_fields)"

definition SetHostStatusDetail :: "om_env \<Rightarrow> client \<Rightarrow> string \<Rightarrow> string \<Rightarrow> status \<Rightarrow> error om" where
  "SetHostStatusDetail E c tid hostID s =
     bnd (timestamp E) (\<lambda>t.
       UpdateInvResourceFields E c tid
         (Some (ResHost (empty_host\<lparr>h_ResourceId := hostID, h_OnboardingStatus := st_Status s,
            h_OnboardingStatusIndicator := st_Indicator s, h_OnboardingStatusTimestamp := t\<rparr>)))
         onboarding_status_fields)"

definition DeleteHostResource :: "om_env \<Rightarrow> client \<Rightarrow> string \<Rightarrow> string \<Rightarrow> error om" where
  "DeleteHostResource E c tid rid =
     updateHostCurrentState E c tid
       (empty_host\<lparr>h_ResourceId := rid, h_CurrentState := HOST_STATE_DELETED\<rparr>)"

definition UpdateInstanceCurrentState :: "om_env \<Rightarrow> client \<Rightarrow> string \<Rightarrow> inst \<Rightarrow> error om" where
  "UpdateInstanceCurrentState E c tid i =
     UpdateInvResourceFields E c tid (Some (ResInstance i)) [F_current_state]"

definition SetInstanceProvisioningStatus ::
  "om_env \<Rightarrow> client \<Rightarrow> string \<Rightarrow> string \<Rightarrow> status \<Rightarrow> error om" where
  "SetInstanceProvisioningStatus E c tid instanceID s =
     bnd (timestamp E) (\<lambda>t.
       UpdateInvResourceFields E c tid
         (Some (ResInstance (empty_inst\<lparr>i_ResourceId := instanceID,
            i_ProvisioningStatus := st_Status s, i_ProvisioningStatusIndicator := st_Indicator s,
            i_ProvisioningStatusTimestamp := t\<rparr>)))
         [F_provisioning_status, F_provisioning_status_indicator, F_provisioning_status_timestamp])"

definition instance_statuses_fields :: "field list" where
  "instance_statuses_fields =
     [F_instance_status, F_instance_status_indicator, F_instance_status_timestamp,
      F_provisioning_status, F_provisioning_status_indicator, F_provisioning_status_timestamp,
      F_update_status, F_update_status_indicator, F_update_status_timestamp,
      F_trusted_attestation_status, F_trusted_attestation_status_indicator,
      F_trusted_attestation_status_timestamp, F_instance_status_detail]"

definition UpdateInstanceStatuses ::
  "om_env \<Rightarrow> client \<Rightarrow> string \<Rightarrow> string \<Rightarrow> status \<Rightarrow> string \<Rightarrow> status \<Rightarrow> status \<Rightarrow> status \<Rightarrow> error om" where
  "UpdateInstanceStatuses E c tid instanceID ist detail prov upd att =
     bnd (timestamp E) (\<lambda>t1. bnd (timestamp E) (\<lambda>t2.
     bnd (timestamp E) (\<lambda>t3. bnd (timestamp E) (\<lambda>t4.
       UpdateInvResourceFields E c tid
         (Some (ResInstance (empty_inst\<lparr>i_ResourceId := instanceID,
            i_InstanceStatus := st_Status ist, i_InstanceStatusIndicator := st_Indicator ist,
            i_InstanceStatusTimestamp := t1,
            i_ProvisioningStatus := st_Status prov, i_ProvisioningStatusIndicator := st_Indicator prov,
            i_ProvisioningStatusTimestamp := t2,
            i_UpdateStatus := st_Status upd, i_UpdateStatusIndicator := st_Indicator upd,
            i_UpdateStatusTimestamp := t3,
            i_TrustedAttestationStatus := st_Status att,
            i_TrustedAttestationStatusIndicator := st_Indicator att,
            i_TrustedAttestationStatusTimestamp := t4,
            i_InstanceStatusDetail := detail\<rparr>)))
         instance_statuses_fields))))"

definition update_instance_fields :: "field list" where
  "update_instance_fields = [F_current_state, F_provisioning_status,
     F_provisioning_status_indicator, F_provisioning_status_timestamp, F_os]"

definition UpdateInstance ::
  "om_env \<Rightarrow> client \<Rightarrow> string \<Rightarrow> string \<Rightarrow> instance_state \<Rightarrow> status \<Rightarrow> os_res option \<Rightarrow> error om" where
  "UpdateInstance E c tid instanceID cur prov os =
     bnd (timestamp E) (\<lambda>t.
       UpdateInvResourceFields E c tid
         (Some (ResInstance (empty_inst\<lparr>i_ResourceId := instanceID, i_CurrentState := cur,
            i_ProvisioningStatus := st_Status prov, i_ProvisioningStatusIndicator := st_Indicator prov,
            i_ProvisioningStatusTimestamp := t, i_Os := os\<rparr>)))
         update_instance_fields)"

definition DeleteInstanceResource :: "om_env \<Rightarrow> client \<Rightarrow> string \<Rightarrow> string \<Rightarrow> error om" where
  "DeleteInstanceResource E c tid rid =
     UpdateInstanceCurrentState E c tid
       (empty_inst\<lparr>i_ResourceId := rid, i_CurrentState := INSTANCE_STATE_DELETED\<rparr>)"

text \<open>\<open>DeleteResource\<close> and \<open>DeleteIPAddress\<close> treat a missing resource as deleted.\<close>

definition drop_not_found :: "om_env \<Rightarrow> error om \<Rightarrow> error om" where
  "drop_not_found E m = bnd m (\<lambda>err. if is_not_found (lib E) err then ret None else ret err)"

definition DeleteResource :: "om_env \<Rightarrow> client \<Rightarrow> string \<Rightarrow> string \<Rightarrow> error om" where
  "DeleteResource E c tid rid =
     drop_not_found E (call (InvDelete c tid rid) (\<lambda>l. inv_delete E l c tid rid))"

definition DeleteIPAddress :: "om_env \<Rightarrow> client \<Rightarrow> string \<Rightarrow> string \<Rightarrow> error om" where
  "DeleteIPAddress E c tid rid =
     drop_not_found E (UpdateInvResourceFields E c tid
       (Some (ResIpaddress \<lparr>ip_TenantId = '''', ip_ResourceId = rid, ip_CurrentState = IP_STATE_DELETED\<rparr>))
       [F_current_state])"

definition host_reg_state_fields :: "field list" where
  "host_reg_state_fields = [F_current_state, F_bmc_ip, F_pxe_mac, F_registration_status,
     F_registration_status_indicator, F_registration_status_timestamp]"

definition UpdateHostRegState ::
  "om_env \<Rightarrow> client \<Rightarrow> string \<Rightarrow> string \<Rightarrow> host_state \<Rightarrow> string \<Rightarrow> string \<Rightarrow> status \<Rightarrow> error om" where
  "UpdateHostRegState E c tid rid cur hostIP macid s =
     bnd (timestamp E) (\<lambda>t.
       UpdateInvResourceFields E c tid
         (Some (ResHost (empty_host\<lparr>h_ResourceId := rid, h_CurrentState := cur, h_BmcIp := hostIP,
            h_PxeMac := macid, h_RegistrationStatus := st_Status s,
            h_RegistrationStatusIndicator := st_Indicator s, h_RegistrationStatusTimestamp := t\<rparr>)))
         host_reg_state_fields)"

definition onboard_state_fields :: "field list" where
  "onboard_state_fields = [F_current_state, F_bmc_ip, F_pxe_mac, F_onboarding_status,
     F_onboarding_status_indicator, F_onboarding_status_timestamp]"

definition UpdateHostCurrentStateNOnboardStatus ::
  "om_env \<Rightarrow> client \<Rightarrow> string \<Rightarrow> string \<Rightarrow> string \<Rightarrow> string \<Rightarrow> host_state \<Rightarrow> status \<Rightarrow> error om" where
  "UpdateHostCurrentStateNOnboardStatus E c tid rid hostIP macid cur s =
     bnd (timestamp E) (\<lambda>t.
       UpdateInvResourceFields E c tid
         (Some (ResHost (empty_host\<lparr>h_ResourceId := rid, h_CurrentState := cur, h_BmcIp := hostIP,
            h_PxeMac := macid, h_OnboardingStatus := st_Status s,
            h_OnboardingStatusIndicator := st_Indicator s, h_OnboardingStatusTimestamp := t\<rparr>)))
         onboard_state_fields)"

definition host_resource_status_fields :: "field list" where
  "host_resource_status_fields = [F_serial_number, F_bmc_ip, F_pxe_mac, F_current_state,
     F_onboarding_status, F_onboarding_status_indicator, F_onboarding_status_timestamp,
     F_registration_status, F_registration_status_indicator, F_registration_status_timestamp]"

definition UpdateHostResourceStatus ::
  "om_env \<Rightarrow> client \<Rightarrow> string \<Rightarrow> string \<Rightarrow> host \<Rightarrow> status \<Rightarrow> status \<Rightarrow> error om" where
  "UpdateHostResourceStatus E c tid rid h onb reg =
     bnd (timestamp E) (\<lambda>t1. bnd (timestamp E) (\<lambda>t2.
       UpdateInvResourceFields E c tid
         (Some (ResHost (empty_host\<lparr>h_ResourceId := rid, h_SerialNumber := h_SerialNumber h,
            h_BmcIp := h_BmcIp h, h_PxeMac := h_PxeMac h, h_CurrentState := h_CurrentState h,
            h_OnboardingStatus := st_Status onb, h_OnboardingStatusIndicator := st_Indicator onb,
            h_OnboardingStatusTimestamp := t1,
            h_RegistrationStatus := st_Status reg, h_RegistrationStatusIndicator := st_Indicator reg,
            h_RegistrationStatusTimestamp := t2\<rparr>)))
         host_resource_status_fields))"

definition CreateHostResource :: "om_env \<Rightarrow> client \<Rightarrow> string \<Rightarrow> host \<Rightarrow> (goerr + string) om" where
  "CreateHostResource E c tid h = createResource E c tid (ResHost h)"

definition CreateInstanceResource :: "om_env \<Rightarrow> client \<Rightarrow> string \<Rightarrow> inst \<Rightarrow> (goerr + string) om" where
  "CreateInstanceResource E c tid i = createResource E c tid (ResInstance i)"

definition CreateOSResource :: "om_env \<Rightarrow> client \<Rightarrow> string \<Rightarrow> os_res \<Rightarrow> (goerr + string) om" where
  "CreateOSResource E c tid os = createResource E c tid (ResOs os)"

text \<open>The send of the \<open>select\<close> happens when the channel takes the event, otherwise nothing does.\<close>

definition SendInternalEvent :: "om_env \<Rightarrow> string \<Rightarrow> string \<Rightarrow> unit om" where
  "SendInternalEvent E tid rid =
     bnd (ask (internal_ready E)) (\<lambda>ready.
       if ready then call (InternalEvent tid rid) (\<lambda>l. ()) else ret ())"

section \<open>The contract of the writes\<close>

text \<open>
  \<open>writes_once E c tid i fs m\<close>: the program \<open>m\<close> either fails before calling, or makes one
  call, which writes the fields \<open>fs\<close> of resource \<open>i\<close>, and returns the reply. The locale
  \<open>masked_writer\<close> is an operation with this contract on arguments \<open>a\<close>.
\<close>

definition writes_once ::
  "om_env \<Rightarrow> client \<Rightarrow> string \<Rightarrow> string \<Rightarrow> field list \<Rightarrow> error om \<Rightarrow> bool" where
  "writes_once E c tid i fs m \<longleftrightarrow>
     (\<forall>l. (\<exists>e. run_io m l = (Ret (Some e), l)) \<or>
          (\<exists>r. run_io m l = (Ret (inv_update E l c tid i fs r), l @ [InvUpdate c tid i fs r])))"

lemma writes_once_update:
  assumes "setInventoryResourceAndID r = Inr i" and "flds \<noteq> []"
  shows "writes_once E c tid i flds (UpdateInvResourceFields E c tid (Some r) flds)"
  using assms by (simp add: writes_once_def UpdateInvResourceFields_def split: option.splits sum.splits)

lemma writes_once_timestamp:
  "(\<And>t. writes_once E c tid i flds (f t)) \<Longrightarrow> writes_once E c tid i flds (bnd (timestamp E) f)"
  by (simp add: writes_once_def)

lemma writes_once_fail: "writes_once E c tid i flds (ret (Some e))"
  by (simp add: writes_once_def)

lemma writes_once_if:
  "writes_once E c tid i flds m \<Longrightarrow> writes_once E c tid i flds n \<Longrightarrow>
   writes_once E c tid i flds (if b then m else n)"
  by simp

lemmas writes_once_intros = writes_once_update writes_once_timestamp writes_once_fail writes_once_if

locale masked_writer =
  fixes op :: "om_env \<Rightarrow> client \<Rightarrow> string \<Rightarrow> 'a \<Rightarrow> error om"
    and rid :: "'a \<Rightarrow> string"
    and mask :: "field list"
  assumes runs: "writes_once E c tid (rid a) mask (op E c tid a)"
begin

lemma run_cases:
  obtains e where "run_io (op E c tid a) l = (Ret (Some e), l)"
    | r where "run_io (op E c tid a) l =
        (Ret (inv_update E l c tid (rid a) mask r), l @ [InvUpdate c tid (rid a) mask r])"
  using runs [of E c tid a] unfolding writes_once_def by blast

lemma no_panic: "fst (run_io (op E c tid a) l) \<noteq> Panic"
  by (rule run_cases [of E c tid a l]) simp_all

lemma op_returns: "returns (op E c tid a)"
  unfolding returns_def by (auto intro!: no_panic)

lemma writes_only:
  assumes "\<And>r. P (InvUpdate c tid (rid a) mask r)"
  shows "emits P (op E c tid a)"
  unfolding emits_def
proof
  fix l
  show "\<exists>cs. snd (run_io (op E c tid a) l) = l @ cs \<and> list_all P cs"
    by (rule run_cases [of E c tid a l]) (simp_all add: assms)
qed

lemma success_wrote:
  "run_io (op E c tid a) l = (Ret None, l') \<Longrightarrow>
   \<exists>r. l' = l @ [InvUpdate c tid (rid a) mask r] \<and> inv_update E l c tid (rid a) mask r = None"
  by (rule run_cases [of E c tid a l]) (auto intro: sym)

end

lemmas mask_defs = host_resource_fields_def runtime_status_fields_def onboarding_status_fields_def
  instance_statuses_fields_def update_instance_fields_def host_reg_state_fields_def
  onboard_state_fields_def host_resource_status_fields_def

interpretation op_SetHostStatus: masked_writer
  "\<lambda>E c t (hid, s). SetHostStatus E c t hid s" "fst" "[F_host_status, F_host_status_indicator, F_host_status_timestamp]"
  by unfold_locales
    (auto simp: SetHostStatus_def mask_defs  intro!: writes_once_intros)

interpretation op_SetHostOnboardingStatus: masked_writer
  "\<lambda>E c t (hid, s). SetHostOnboardingStatus E c t hid s" "fst" "onboarding_status_fields"
  by unfold_locales
    (auto simp: SetHostOnboardingStatus_def mask_defs  intro!: writes_once_intros)

interpretation op_SetHostStatusDetail: masked_writer
  "\<lambda>E c t (hid, s). SetHostStatusDetail E c t hid s" "fst" "onboarding_status_fields"
  by unfold_locales
    (auto simp: SetHostStatusDetail_def mask_defs  intro!: writes_once_intros)

interpretation op_UpdateHostResource: masked_writer
  "\<lambda>E c t h. UpdateHostResource E c t h" "h_ResourceId" "host_resource_fields"
  by unfold_locales
    (auto simp: UpdateHostResource_def mask_defs  intro!: writes_once_intros)

interpretation op_UpdateHostStateAndRuntimeStatus: masked_writer
  "\<lambda>E c t h. UpdateHostStateAndRuntimeStatus E c t h" "h_ResourceId" "runtime_status_fields"
  by unfold_locales
    (auto simp: UpdateHostStateAndRuntimeStatus_def mask_defs  intro!: writes_once_intros)

interpretation op_DeleteHostResource: masked_writer
  "\<lambda>E c t rid. DeleteHostResource E c t rid" "\<lambda>rid. rid" "[F_current_state]"
  by unfold_locales
    (auto simp: DeleteHostResource_def mask_defs updateHostCurrentState_def empty_host_def intro!: writes_once_intros)

interpretation op_DeleteInstanceResource: masked_writer
  "\<lambda>E c t rid. DeleteInstanceResource E c t rid" "\<lambda>rid. rid" "[F_current_state]"
  by unfold_locales
    (auto simp: DeleteInstanceResource_def mask_defs UpdateInstanceCurrentState_def empty_inst_def intro!: writes_once_intros)

interpretation op_UpdateInstanceCurrentState: masked_writer
  "\<lambda>E c t i. UpdateInstanceCurrentState E c t i" "i_ResourceId" "[F_current_state]"
  by unfold_locales
    (auto simp: UpdateInstanceCurrentState_def mask_defs  intro!: writes_once_intros)

interpretation op_SetInstanceProvisioningStatus: masked_writer
  "\<lambda>E c t (iid, s). SetInstanceProvisioningStatus E c t iid s" "fst" "[F_provisioning_status, F_provisioning_status_indicator, F_provisioning_status_timestamp]"
  by unfold_locales
    (auto simp: SetInstanceProvisioningStatus_def mask_defs  intro!: writes_once_intros)

interpretation op_UpdateInstanceStatuses: masked_writer
  "\<lambda>E c t (iid, a, d, p, u, at). UpdateInstanceStatuses E c t iid a d p u at" "fst" "instance_statuses_fields"
  by unfold_locales
    (auto simp: UpdateInstanceStatuses_def mask_defs  intro!: writes_once_intros)

interpretation op_UpdateInstance: masked_writer
  "\<lambda>E c t (iid, s, p, os). UpdateInstance E c t iid s p os" "fst" "update_instance_fields"
  by unfold_locales
    (auto simp: UpdateInstance_def mask_defs  intro!: writes_once_intros)

interpretation op_UpdateHostRegState: masked_writer
  "\<lambda>E c t (hid, cur, ip, mac, s). UpdateHostRegState E c t hid cur ip mac s" "fst" "host_reg_state_fields"
  by unfold_locales
    (auto simp: UpdateHostRegState_def mask_defs  intro!: writes_once_intros)

interpretation op_UpdateHostCurrentStateNOnboardStatus: masked_writer
  "\<lambda>E c t (hid, ip, mac, cur, s). UpdateHostCurrentStateNOnboardStatus E c t hid ip mac cur s" "fst" "onboard_state_fields"
  by unfold_locales
    (auto simp: UpdateHostCurrentStateNOnboardStatus_def mask_defs  intro!: writes_once_intros)

interpretation op_UpdateHostResourceStatus: masked_writer
  "\<lambda>E c t (hid, h, ob, re). UpdateHostResourceStatus E c t hid h ob re" "fst" "host_resource_status_fields"
  by unfold_locales
    (auto simp: UpdateHostResourceStatus_def mask_defs  intro!: writes_once_intros)

section \<open>Which calls the operations make\<close>

lemma emits_listAllResources [emits_intro]:
  "P (InvList c k flt) \<Longrightarrow> emits P (listAllResources E c k flt)"
  unfolding listAllResources_def by (auto intro!: emits_intro)

lemma emits_getResourceByID [emits_intro]:
  "P (InvGet c tid rid) \<Longrightarrow> emits P (getResourceByID E c tid rid)"
  unfolding getResourceByID_def by (auto intro!: emits_intro)

lemma emits_createResource [emits_intro]:
  "P (InvCreate c tid r) \<Longrightarrow> emits P (createResource E c tid r)"
  unfolding createResource_def by (auto intro!: emits_intro)

lemma emits_specific [emits_intro]: "emits P (specific E k g rs)"
  unfolding specific_def by (auto intro!: emits_intro)

lemma emits_listAndReturn [emits_intro]:
  "P (InvList c KIND_HOST flt) \<Longrightarrow> emits P (listAndReturnHost E c flt)"
  "P (InvList c KIND_PROVIDER flt) \<Longrightarrow> emits P (listAndReturnProvider E c flt)"
  unfolding listAndReturnHost_def listAndReturnProvider_def by (auto intro!: emits_intro)

lemma emits_get_validated [emits_intro]:
  "P (InvGet c tid rid) \<Longrightarrow> emits P (get_validated E c g mk tid rid)"
  unfolding get_validated_def by (auto intro!: emits_intro)

lemma emits_by_id [emits_intro]:
  "P (InvGet c tid rid) \<Longrightarrow> emits P (GetHostResourceByResourceID E c tid rid)"
  "P (InvGet c tid rid) \<Longrightarrow> emits P (GetInstanceResourceByResourceID E c tid rid)"
  "P (InvGet c tid rid) \<Longrightarrow> emits P (GetOSResourceByResourceID E c tid rid)"
  "P (InvGet c tid rid) \<Longrightarrow> emits P (GetLocalAccountResourceByResourceID E c tid rid)"
  unfolding GetHostResourceByResourceID_def GetInstanceResourceByResourceID_def
    GetOSResourceByResourceID_def GetLocalAccountResourceByResourceID_def
  by (auto intro!: emits_intro)

lemma emits_lists [emits_intro]:
  "P (InvList c KIND_HOST NoFilter) \<Longrightarrow> emits P (GetHostResources E c)"
  "P (InvList c KIND_INSTANCE NoFilter) \<Longrightarrow> emits P (GetInstanceResources E c)"
  "P (InvList c KIND_OS NoFilter) \<Longrightarrow> emits P (GetOSResources E c)"
  "P (InvList c KIND_PROVIDER NoFilter) \<Longrightarrow> emits P (GetProviderResources E c)"
  "P (InvList c KIND_IPADDRESS (FilterNicOfIp (sub_ResourceId nic))) \<Longrightarrow>
     emits P (ListIPAddresses E c nic)"
  "P (InvList c KIND_HOSTNIC (FilterBmcNicOfHost (h_ResourceId h))) \<Longrightarrow>
     emits P (GetHostBmcNic E c h)"
  unfolding GetHostResources_def GetInstanceResources_def GetOSResources_def
    GetProviderResources_def ListIPAddresses_def GetHostBmcNic_def
  by (auto intro!: emits_intro)

lemma emits_host_lookups [emits_intro]:
  "P (InvList c KIND_HOST (FilterTenantUuid tid u)) \<Longrightarrow> emits P (GetHostResourceByUUID E c tid u)"
  "(\<And>flt. P (InvList c KIND_HOST flt)) \<Longrightarrow> emits P (GetHostResource E c f v)"
  unfolding GetHostResourceByUUID_def GetHostResource_def by (auto intro!: emits_intro)

lemma emits_provider_lookups [emits_intro]:
  "(\<And>flt. P (InvList c KIND_PROVIDER flt)) \<Longrightarrow> emits P (GetProviderResourceByName E c tid n)"
  "(\<And>flt. P (InvList c KIND_PROVIDER flt)) \<Longrightarrow> emits P (GetProviderConfig E c tid n)"
  unfolding GetProviderConfig_def GetProviderResourceByName_def by (auto intro!: emits_intro)

lemma emits_FindAllResources [emits_intro]:
  "(\<And>k. k \<in> set ks \<Longrightarrow> P (InvFindAll c k)) \<Longrightarrow> emits P (FindAllResources E c ks)"
  by (induction ks) (auto intro!: emits_intro)

lemma emits_deletes [emits_intro]:
  "P (InvDelete c tid rid) \<Longrightarrow> emits P (DeleteResource E c tid rid)"
  unfolding DeleteResource_def drop_not_found_def by (auto intro!: emits_intro)

lemma emits_UpdateInvResourceFields [emits_intro]:
  assumes "\<And>rid r'. (\<exists>r0. r = Some r0 \<and> setInventoryResourceAndID r0 = Inr rid) \<Longrightarrow>
    P (InvUpdate c tid rid flds r')"
  shows "emits P (UpdateInvResourceFields E c tid r flds)"
  using assms unfolding UpdateInvResourceFields_def
  by (cases r) (auto intro!: emits_intro split: sum.splits)

lemma emits_DeleteIPAddress [emits_intro]:
  "(\<And>r. P (InvUpdate c tid rid [F_current_state] r)) \<Longrightarrow> emits P (DeleteIPAddress E c tid rid)"
  unfolding DeleteIPAddress_def drop_not_found_def by (auto intro!: emits_intro)

lemma emits_creates [emits_intro]:
  "P (InvCreate c tid (ResHost h)) \<Longrightarrow> emits P (CreateHostResource E c tid h)"
  "P (InvCreate c tid (ResInstance i)) \<Longrightarrow> emits P (CreateInstanceResource E c tid i)"
  unfolding CreateHostResource_def CreateInstanceResource_def by (auto intro!: emits_intro)

lemma emits_SendInternalEvent [emits_intro]:
  "P (InternalEvent tid rid) \<Longrightarrow> emits P (SendInternalEvent E tid rid)"
  unfolding SendInternalEvent_def by (auto intro!: emits_intro)

lemma emits_writers [emits_intro]:
  "(\<And>r. P (InvUpdate c tid hid [F_host_status, F_host_status_indicator, F_host_status_timestamp] r)) \<Longrightarrow>
     emits P (SetHostStatus E c tid hid s)"
  "(\<And>r. P (InvUpdate c tid hid onboarding_status_fields r)) \<Longrightarrow>
     emits P (SetHostOnboardingStatus E c tid hid s)"
  "(\<And>r. P (InvUpdate c tid hid onboarding_status_fields r)) \<Longrightarrow>
     emits P (SetHostStatusDetail E c tid hid s)"
  "(\<And>r. P (InvUpdate c tid (h_ResourceId h) host_resource_fields r)) \<Longrightarrow>
     emits P (UpdateHostResource E c tid h)"
  "(\<And>r. P (InvUpdate c tid (h_ResourceId h) runtime_status_fields r)) \<Longrightarrow>
     emits P (UpdateHostStateAndRuntimeStatus E c tid h)"
  "(\<And>r. P (InvUpdate c tid hid [F_current_state] r)) \<Longrightarrow>
     emits P (DeleteHostResource E c tid hid)"
  "(\<And>r. P (InvUpdate c tid hid [F_current_state] r)) \<Longrightarrow>
     emits P (DeleteInstanceResource E c tid hid)"
  "(\<And>r. P (InvUpdate c tid (i_ResourceId i) [F_current_state] r)) \<Longrightarrow>
     emits P (UpdateInstanceCurrentState E c tid i)"
  "(\<And>r. P (InvUpdate c tid hid [F_provisioning_status, F_provisioning_status_indicator, F_provisioning_status_timestamp] r)) \<Longrightarrow>
     emits P (SetInstanceProvisioningStatus E c tid hid s)"
  "(\<And>r. P (InvUpdate c tid hid instance_statuses_fields r)) \<Longrightarrow>
     emits P (UpdateInstanceStatuses E c tid hid a d p u at)"
  "(\<And>r. P (InvUpdate c tid hid update_instance_fields r)) \<Longrightarrow>
     emits P (UpdateInstance E c tid hid st p os)"
  "(\<And>r. P (InvUpdate c tid hid host_reg_state_fields r)) \<Longrightarrow>
     emits P (UpdateHostRegState E c tid hid cur ip mac s)"
  "(\<And>r. P (InvUpdate c tid hid onboard_state_fields r)) \<Longrightarrow>
     emits P (UpdateHostCurrentStateNOnboardStatus E c tid hid ip mac cur s)"
  "(\<And>r. P (InvUpdate c tid hid host_resource_status_fields r)) \<Longrightarrow>
     emits P (UpdateHostResourceStatus E c tid hid h ob re)"
  using op_SetHostStatus.writes_only [where a = "(hid, s)" and P = P and c = c and tid = tid and E = E]
    op_SetHostOnboardingStatus.writes_only [where a = "(hid, s)" and P = P and c = c and tid = tid and E = E]
    op_SetHostStatusDetail.writes_only [where a = "(hid, s)" and P = P and c = c and tid = tid and E = E]
    op_UpdateHostResource.writes_only [where a = "h" and P = P and c = c and tid = tid and E = E]
    op_UpdateHostStateAndRuntimeStatus.writes_only [where a = "h" and P = P and c = c and tid = tid and E = E]
    op_DeleteHostResource.writes_only [where a = "hid" and P = P and c = c and tid = tid and E = E]
    op_DeleteInstanceResource.writes_only [where a = "hid" and P = P and c = c and tid = tid and E = E]
    op_UpdateInstanceCurrentState.writes_only [where a = "i" and P = P and c = c and tid = tid and E = E]
    op_SetInstanceProvisioningStatus.writes_only [where a = "(hid, s)" and P = P and c = c and tid = tid and E = E]
    op_UpdateInstanceStatuses.writes_only [where a = "(hid, a, d, p, u, at)" and P = P and c = c and tid = tid and E = E]
    op_UpdateInstance.writes_only [where a = "(hid, st, p, os)" and P = P and c = c and tid = tid and E = E]
    op_UpdateHostRegState.writes_only [where a = "(hid, cur, ip, mac, s)" and P = P and c = c and tid = tid and E = E]
    op_UpdateHostCurrentStateNOnboardStatus.writes_only [where a = "(hid, ip, mac, cur, s)" and P = P and c = c and tid = tid and E = E]
    op_UpdateHostResourceStatus.writes_only [where a = "(hid, h, ob, re)" and P = P and c = c and tid = tid and E = E]
  by simp_all

lemma returns_writers [returns_intro]:
  "returns (SetHostStatus E c tid hid s)"
  "returns (SetHostOnboardingStatus E c tid hid s)"
  "returns (SetHostStatusDetail E c tid hid s)"
  "returns (UpdateHostResource E c tid h)"
  "returns (UpdateHostStateAndRuntimeStatus E c tid h)"
  "returns (DeleteHostResource E c tid hid)"
  "returns (DeleteInstanceResource E c tid hid)"
  "returns (UpdateInstanceCurrentState E c tid i)"
  "returns (SetInstanceProvisioningStatus E c tid hid s)"
  "returns (UpdateInstanceStatuses E c tid hid a d p u at)"
  "returns (UpdateInstance E c tid hid st p os)"
  "returns (UpdateHostRegState E c tid hid cur ip mac s)"
  "returns (UpdateHostCurrentStateNOnboardStatus E c tid hid ip mac cur s)"
  "returns (UpdateHostResourceStatus E c tid hid h ob re)"
  using op_SetHostStatus.op_returns [where a = "(hid, s)" and c = c and tid = tid and E = E]
    op_SetHostOnboardingStatus.op_returns [where a = "(hid, s)" and c = c and tid = tid and E = E]
    op_SetHostStatusDetail.op_returns [where a = "(hid, s)" and c = c and tid = tid and E = E]
    op_UpdateHostResource.op_returns [where a = "h" and c = c and tid = tid and E = E]
    op_UpdateHostStateAndRuntimeStatus.op_returns [where a = "h" and c = c and tid = tid and E = E]
    op_DeleteHostResource.op_returns [where a = "hid" and c = c and tid = tid and E = E]
    op_DeleteInstanceResource.op_returns [where a = "hid" and c = c and tid = tid and E = E]
    op_UpdateInstanceCurrentState.op_returns [where a = "i" and c = c and tid = tid and E = E]
    op_SetInstanceProvisioningStatus.op_returns [where a = "(hid, s)" and c = c and tid = tid and E = E]
    op_UpdateInstanceStatuses.op_returns [where a = "(hid, a, d, p, u, at)" and c = c and tid = tid and E = E]
    op_UpdateInstance.op_returns [where a = "(hid, st, p, os)" and c = c and tid = tid and E = E]
    op_UpdateHostRegState.op_returns [where a = "(hid, cur, ip, mac, s)" and c = c and tid = tid and E = E]
    op_UpdateHostCurrentStateNOnboardStatus.op_returns [where a = "(hid, ip, mac, cur, s)" and c = c and tid = tid and E = E]
    op_UpdateHostResourceStatus.op_returns [where a = "(hid, h, ob, re)" and c = c and tid = tid and E = E]
  by simp_all

end
