(* ===== verification/Reconciler.thy ===== *)
theory Reconciler
  imports InvClient
begin

text \<open>
  \<open>onboarding-manager/internal/handlers/controller/reconcilers/reconciler.go\<close>: request ids,
  and the directives a reconciliation ends with. A directive of the controller library is
  acknowledge, retry (with an exponential backoff between the given seconds) or fail; the Go
  nil directive is \<open>None\<close> and means that the reconciliation goes on.
\<close>

section \<open>Request ids\<close>

definition NewReconcilerID :: "string \<Rightarrow> string \<Rightarrow> string" where
  "NewReconcilerID tenantID resourceID = tenantID @ ''_'' @ resourceID"

definition GetTenantID :: "string \<Rightarrow> string" where
  "GetTenantID rid = hd (split_char CHR ''_'' rid)"

text \<open>Index 1 of the pieces: an id without the separator panics.\<close>

definition GetResourceID :: "string \<Rightarrow> string outcome" where
  "GetResourceID rid = (case split_char CHR ''_'' rid of _ # r # _ \<Rightarrow> Ret r | _ \<Rightarrow> Panic)"

lemma GetTenantID_New: "CHR ''_'' \<notin> set t \<Longrightarrow> GetTenantID (NewReconcilerID t r) = t"
  by (simp add: GetTenantID_def NewReconcilerID_def split_char_sep)

lemma GetTenantID_no_sep: "CHR ''_'' \<notin> set (GetTenantID rid)"
  unfolding GetTenantID_def by (meson list.set_sel(1) split_char_not_Nil split_char_pieces)

lemma GetResourceID_no_sep: "GetResourceID rid = Ret r \<Longrightarrow> CHR ''_'' \<notin> set r"
  unfolding GetResourceID_def
  by (auto split: list.splits dest: split_char_pieces [of _ "CHR ''_''" rid, rotated])
    (metis list.set_intros(1,2) split_char_pieces)

lemma GetResourceID_New:
  "CHR ''_'' \<notin> set t \<Longrightarrow> CHR ''_'' \<notin> set r \<Longrightarrow> GetResourceID (NewReconcilerID t r) = Ret r"
  by (simp add: GetResourceID_def NewReconcilerID_def split_char_sep split_char_no_sep)

lemma GetResourceID_Panic: "GetResourceID rid = Panic \<longleftrightarrow> CHR ''_'' \<notin> set rid"
proof -
  have "CHR ''_'' \<notin> set rid \<longleftrightarrow> length (split_char CHR ''_'' rid) = 1"
    by (auto simp: length_split_char filter_empty_conv)
  then show ?thesis by (auto simp: GetResourceID_def split: list.splits)
qed

section \<open>Directives\<close>

datatype directive = Ack | Retry error nat nat | Fail error

definition minDelay :: nat where "minDelay = 1"
definition maxDelay :: nat where "maxDelay = 60"

definition HandleInventoryError :: "errlib \<Rightarrow> error \<Rightarrow> directive option" where
  "HandleInventoryError L err =
     (if \<not> from_error_ok L err then Some Ack
      else if is_not_found L err \<or> is_already_exists L err \<or> is_unauthenticated L err
              \<or> is_permission_denied L err then Some Ack
      else if err \<noteq> None then Some (Retry err minDelay maxDelay)
      else None)"

definition HandleProvisioningError :: "errlib \<Rightarrow> error \<Rightarrow> directive option" where
  "HandleProvisioningError L err =
     (if \<not> from_error_ok L err then Some Ack
      else if is_operation_in_progress L err then Some (Retry err minDelay maxDelay)
      else if convert_code L err = Aborted then Some (Fail err)
      else if err \<noteq> None then Some (Retry err minDelay maxDelay)
      else None)"

text \<open>\<open>if directive := ...; directive != nil { return directive }\<close>.\<close>

definition or_go_on :: "directive option \<Rightarrow> directive om \<Rightarrow> directive om" where
  "or_go_on d m = (case d of Some x \<Rightarrow> ret x | None \<Rightarrow> m)"

lemma or_go_on_simps [simp]: "or_go_on (Some x) m = ret x" "or_go_on None m = m"
  by (simp_all add: or_go_on_def)

lemma emits_or_go_on [emits_intro]: "emits P m \<Longrightarrow> emits P (or_go_on d m)"
  by (cases d) (simp_all add: emits_ret)

lemma HandleInventoryError_None [simp]: "errlib_laws L \<Longrightarrow> HandleInventoryError L None = None"
  by (simp add: HandleInventoryError_def)

lemma HandleInventoryError_Some: "HandleInventoryError L (Some e) \<noteq> None"
  by (simp add: HandleInventoryError_def)

lemma HandleProvisioningError_None [simp]: "errlib_laws L \<Longrightarrow> HandleProvisioningError L None = None"
  by (simp add: HandleProvisioningError_def)

lemma HandleProvisioningError_Some: "HandleProvisioningError L (Some e) \<noteq> None"
  by (simp add: HandleProvisioningError_def)

lemma HandleProvisioningError_in_progress [simp]:
  "errlib_laws L \<Longrightarrow> HandleProvisioningError L (Some (Errorfr OperationInProgress m)) =
     Some (Retry (Some (Errorfr OperationInProgress m)) minDelay maxDelay)"
  by (simp add: HandleProvisioningError_def)

lemma HandleProvisioningError_aborted [simp]:
  "errlib_laws L \<Longrightarrow> HandleProvisioningError L (Some (Errorfc Aborted m)) = Some (Fail (Some (Errorfc Aborted m)))"
  by (simp add: HandleProvisioningError_def)

end
