(* ===== verification/HostRec.thy ===== *)
theory HostRec
  imports Reconciler
begin

text \<open>
  \<open>onboarding-manager/internal/handlers/controller/reconcilers/host.go\<close>: the host reconciler,
  which deletes hosts and invalidates untrusted ones. \<open>c\<close> is the Inventory client and
  \<open>skip\<close> the reconciler's \<open>skipOSProvisioning\<close>.
\<close>

section \<open>Deleting what hangs off a host\<close>

fun delete_all_ips :: "om_env \<Rightarrow> client \<Rightarrow> ip_address list \<Rightarrow> error om" where
  "delete_all_ips E c [] = ret None"
| "delete_all_ips E c (p # ps) =
     if_nil (DeleteIPAddress E c (ip_TenantId p) (ip_ResourceId p)) (delete_all_ips E c ps)"

definition deleteIPsByHostNic :: "om_env \<Rightarrow> client \<Rightarrow> subres \<Rightarrow> error om" where
  "deleteIPsByHostNic E c nic = if_got (ListIPAddresses E c nic) (delete_all_ips E c)"

definition delete_nic :: "om_env \<Rightarrow> client \<Rightarrow> subres \<Rightarrow> error om" where
  "delete_nic E c nic =
     if_nil (deleteIPsByHostNic E c nic) (DeleteResource E c (sub_TenantId nic) (sub_ResourceId nic))"

fun delete_all_nics :: "om_env \<Rightarrow> client \<Rightarrow> subres list \<Rightarrow> error om" where
  "delete_all_nics E c [] = ret None"
| "delete_all_nics E c (nic # nics) = if_nil (delete_nic E c nic) (delete_all_nics E c nics)"

definition deleteHostNicByHost :: "om_env \<Rightarrow> client \<Rightarrow> host \<Rightarrow> error om" where
  "deleteHostNicByHost E c h = delete_all_nics E c (h_HostNics h)"

fun delete_all_subres :: "om_env \<Rightarrow> client \<Rightarrow> subres list \<Rightarrow> error om" where
  "delete_all_subres E c [] = ret None"
| "delete_all_subres E c (s # ss) =
     if_nil (DeleteResource E c (sub_TenantId s) (sub_ResourceId s)) (delete_all_subres E c ss)"

definition deleteHostStorageByHost :: "om_env \<Rightarrow> client \<Rightarrow> host \<Rightarrow> error om" where
  "deleteHostStorageByHost E c h = delete_all_subres E c (h_HostStorages h)"

definition deleteHostUsbByHost :: "om_env \<Rightarrow> client \<Rightarrow> host \<Rightarrow> error om" where
  "deleteHostUsbByHost E c h = delete_all_subres E c (h_HostUsbs h)"

definition deleteHostGpuByHost :: "om_env \<Rightarrow> client \<Rightarrow> host \<Rightarrow> error om" where
  "deleteHostGpuByHost E c h = delete_all_subres E c (h_HostGpus h)"

interpretation ips_loop: stop_on_error
  "\<lambda>p. DeleteIPAddress E c (ip_TenantId p) (ip_ResourceId p)" "delete_all_ips E c" for E c
  by unfold_locales simp_all

interpretation nics_loop: stop_on_error "delete_nic E c" "delete_all_nics E c" for E c
  by unfold_locales simp_all

interpretation subres_loop: stop_on_error
  "\<lambda>s. DeleteResource E c (sub_TenantId s) (sub_ResourceId s)" "delete_all_subres E c" for E c
  by unfold_locales simp_all

section \<open>Host operations\<close>

definition RevokeHostCredentials :: "om_env \<Rightarrow> string \<Rightarrow> string \<Rightarrow> error om" where
  "RevokeHostCredentials E tid uuid = call (AuthRevoke tid uuid) (\<lambda>l. auth_revoke E l tid uuid)"

definition checkIfInstanceIsAssociated :: "om_env \<Rightarrow> client \<Rightarrow> host \<Rightarrow> error om" where
  "checkIfInstanceIsAssociated E c h =
     (case h_Instance h of
        Some i \<Rightarrow>
          bnd (SetHostStatusDetail E c (h_TenantId h) (h_ResourceId h)
                 (ModernHostStatusDeletingWithDetails (''waiting on '' @ ref_ResourceId i @ '' deletion'')))
              (\<lambda>_. ret (Some (Errorf
                 ''Instance is still assigned to host, waiting for Instance to be deleted first'')))
      | None \<Rightarrow> ret None)"

definition deleteHost :: "om_env \<Rightarrow> client \<Rightarrow> bool \<Rightarrow> host \<Rightarrow> error om" where
  "deleteHost E c skip h =
     if_nil (if \<not> skip then checkIfInstanceIsAssociated E c h else ret None)
    (bnd (SetHostStatusDetail E c (h_TenantId h) (h_ResourceId h) DeletingStatus) (\<lambda>_.
     if_nil (if h_CurrentState h \<noteq> HOST_STATE_UNTRUSTED
             then RevokeHostCredentials E (h_TenantId h) (h_Uuid h) else ret None)
    (if_nil (deleteHostNicByHost E c h)
    (if_nil (deleteHostStorageByHost E c h)
    (if_nil (deleteHostUsbByHost E c h)
    (if_nil (deleteHostGpuByHost E c h)
       (DeleteHostResource E c (h_TenantId h) (h_ResourceId h))))))))"

definition invalidateHost :: "om_env \<Rightarrow> client \<Rightarrow> host \<Rightarrow> error om" where
  "invalidateHost E c h =
     if_nil (RevokeHostCredentials E (h_TenantId h) (h_Uuid h))
    (bnd (timestamp E) (\<lambda>t.
       UpdateHostStateAndRuntimeStatus E c (h_TenantId h) (empty_host\<lparr>
         h_ResourceId := h_ResourceId h,
         h_CurrentState := HOST_STATE_UNTRUSTED,
         h_HostStatus := st_Status AuthorizationStatusInvalidated,
         h_HostStatusIndicator := st_Indicator AuthorizationStatusInvalidated,
         h_HostStatusTimestamp := t,
         h_OnboardingStatus := st_Status OnboardingStatusUnknown,
         h_OnboardingStatusIndicator := st_Indicator OnboardingStatusUnknown,
         h_RegistrationStatus := st_Status HostRegistrationUnknown,
         h_RegistrationStatusIndicator := st_Indicator HostRegistrationUnknown\<rparr>)))"

section \<open>Reconciling\<close>

definition reconcileHost :: "om_env \<Rightarrow> client \<Rightarrow> bool \<Rightarrow> host \<Rightarrow> directive om" where
  "reconcileHost E c skip h =
     (if h_DesiredState h = HOST_STATE_DELETED then
        bnd (deleteHost E c skip h) (\<lambda>err. or_go_on (HandleInventoryError (lib E) err) (ret Ack))
      else if h_DesiredState h = HOST_STATE_UNTRUSTED then
        bnd (invalidateHost E c h) (\<lambda>err. or_go_on (HandleInventoryError (lib E) err) (ret Ack))
      else ret Ack)"

text \<open>A nil host without an error panics at \<open>host.DesiredState\<close>.\<close>

definition HostReconcile :: "om_env \<Rightarrow> client \<Rightarrow> bool \<Rightarrow> string \<Rightarrow> directive om" where
  "HostReconcile E c skip rid =
     bnd (of_outcome (GetResourceID rid)) (\<lambda>resourceID.
     bnd (GetHostResourceByResourceID E c (GetTenantID rid) resourceID) (\<lambda>r.
       case r of
         Inl e \<Rightarrow> or_go_on (HandleInventoryError (lib E) (Some e)) panic
       | Inr hopt \<Rightarrow> or_go_on (HandleInventoryError (lib E) None)
          (bnd (deref hopt) (\<lambda>h.
             if h_Provider h \<noteq> None then ret Ack
             else if h_DesiredState h = h_CurrentState h then ret Ack
             else reconcileHost E c skip h))))"

section \<open>Facts\<close>

lemma emits_delete_loops [emits_intro]:
  "(\<And>p r. p \<in> set ps \<Longrightarrow> P (InvUpdate c (ip_TenantId p) (ip_ResourceId p) [F_current_state] r)) \<Longrightarrow>
     emits P (delete_all_ips E c ps)"
  "(\<And>s. s \<in> set ss \<Longrightarrow> P (InvDelete c (sub_TenantId s) (sub_ResourceId s))) \<Longrightarrow>
     emits P (delete_all_subres E c ss)"
  by (auto intro!: ips_loop.loop_emits subres_loop.loop_emits emits_intro)

lemma emits_delete_nics [emits_intro]:
  assumes "\<And>flt. P (InvList c KIND_IPADDRESS flt)"
    and "\<And>t i r. P (InvUpdate c t i [F_current_state] r)"
    and "\<And>s. s \<in> set nics \<Longrightarrow> P (InvDelete c (sub_TenantId s) (sub_ResourceId s))"
  shows "emits P (delete_all_nics E c nics)"
  unfolding deleteIPsByHostNic_def delete_nic_def
  by (rule nics_loop.loop_emits)
    (auto simp: delete_nic_def deleteIPsByHostNic_def intro!: emits_intro assms)

lemma emits_Revoke [emits_intro]: "P (AuthRevoke t u) \<Longrightarrow> emits P (RevokeHostCredentials E t u)"
  unfolding RevokeHostCredentials_def by (auto intro!: emits_intro)

lemma emits_checkInstance [emits_intro]:
  "(\<And>r. P (InvUpdate c (h_TenantId h) (h_ResourceId h) onboarding_status_fields r)) \<Longrightarrow>
   emits P (checkIfInstanceIsAssociated E c h)"
  unfolding checkIfInstanceIsAssociated_def by (auto intro!: emits_intro)

text \<open>The calls that a host reconciliation can make: reads, revocation of credentials, deletion
  of the resources that hang off a host, and writes of these masks.\<close>

definition host_rec_masks :: "field list set" where
  "host_rec_masks = {onboarding_status_fields, [F_current_state], runtime_status_fields}"

fun host_rec_call :: "client \<Rightarrow> om_call \<Rightarrow> bool" where
  "host_rec_call c (InvGet c' t i) = (c' = c)"
| "host_rec_call c (InvList c' k f) = (c' = c \<and> k = KIND_IPADDRESS)"
| "host_rec_call c (InvUpdate c' t i fs r) = (c' = c \<and> fs \<in> host_rec_masks)"
| "host_rec_call c (InvDelete c' t i) = (c' = c)"
| "host_rec_call c (AuthRevoke t u) = True"
| "host_rec_call c _ = False"

lemma emits_deleteHost: "emits (host_rec_call c) (deleteHost E c skip h)"
  unfolding deleteHost_def deleteHostNicByHost_def deleteHostStorageByHost_def
    deleteHostUsbByHost_def deleteHostGpuByHost_def
  by (auto simp: host_rec_masks_def intro!: emits_intro)

lemma emits_invalidateHost: "emits (host_rec_call c) (invalidateHost E c h)"
  unfolding invalidateHost_def by (auto simp: host_rec_masks_def intro!: emits_intro)

lemma emits_HostReconcile: "emits (host_rec_call c) (HostReconcile E c skip rid)"
  unfolding HostReconcile_def reconcileHost_def
  by (auto intro!: emits_intro emits_deleteHost emits_invalidateHost)

section \<open>Order of a deletion\<close>

definition del_call :: "client \<Rightarrow> subres \<Rightarrow> om_call" where
  "del_call c s = InvDelete c (sub_TenantId s) (sub_ResourceId s)"

fun revoke_or_delete :: "om_call \<Rightarrow> bool" where
  "revoke_or_delete (AuthRevoke t u) = True"
| "revoke_or_delete (InvDelete c t i) = True"
| "revoke_or_delete _ = False"

lemma trace_DeleteResource [ok_trace_intro]:
  "ok_trace revoke_or_delete (DeleteResource E c t i) [InvDelete c t i]"
  by (auto simp: ok_trace_def DeleteResource_def drop_not_found_def)

lemma trace_subres:
  "ok_trace revoke_or_delete (delete_all_subres E c ss) (map (del_call c) ss)"
  using subres_loop.loop_ok_trace [of ss revoke_or_delete E c "\<lambda>s. [del_call c s]"]
  by (simp add: trace_DeleteResource del_call_def [abs_def])

lemma trace_nics: "ok_trace revoke_or_delete (delete_all_nics E c nics) (map (del_call c) nics)"
proof -
  have ips: "ok_trace revoke_or_delete (deleteIPsByHostNic E c nic) []" for nic
    unfolding deleteIPsByHostNic_def by (rule ok_trace_skip) (auto intro!: emits_intro)
  have "ok_trace revoke_or_delete (delete_nic E c nic) [del_call c nic]" for nic
    unfolding delete_nic_def del_call_def
    using ok_trace_if_nil [OF ips [of nic] trace_DeleteResource] by simp
  then show ?thesis using nics_loop.loop_ok_trace [of nics revoke_or_delete E c "\<lambda>s. [del_call c s]"] by simp
qed

text \<open>Everything of a deletion but the last write.\<close>

definition delete_front :: "om_env \<Rightarrow> client \<Rightarrow> bool \<Rightarrow> host \<Rightarrow> error om" where
  "delete_front E c skip h =
     if_nil (if \<not> skip then checkIfInstanceIsAssociated E c h else ret None)
    (bnd (SetHostStatusDetail E c (h_TenantId h) (h_ResourceId h) DeletingStatus) (\<lambda>_.
     if_nil (if h_CurrentState h \<noteq> HOST_STATE_UNTRUSTED
             then RevokeHostCredentials E (h_TenantId h) (h_Uuid h) else ret None)
    (if_nil (deleteHostNicByHost E c h)
    (if_nil (deleteHostStorageByHost E c h)
    (if_nil (deleteHostUsbByHost E c h)
       (deleteHostGpuByHost E c h))))))"

lemma deleteHost_split:
  "deleteHost E c skip h =
     if_nil (delete_front E c skip h) (DeleteHostResource E c (h_TenantId h) (h_ResourceId h))"
  by (simp add: deleteHost_def delete_front_def bnd_if_nil if_nil_assoc)

lemma trace_delete_front:
  "ok_trace revoke_or_delete (delete_front E c skip h)
     ((if h_CurrentState h \<noteq> HOST_STATE_UNTRUSTED then [AuthRevoke (h_TenantId h) (h_Uuid h)] else [])
      @ map (del_call c) (h_HostNics h @ h_HostStorages h @ h_HostUsbs h @ h_HostGpus h))"
proof -
  let ?rev = "if h_CurrentState h \<noteq> HOST_STATE_UNTRUSTED
    then RevokeHostCredentials E (h_TenantId h) (h_Uuid h) else ret None"
  have revoke: "ok_trace revoke_or_delete ?rev
      (if h_CurrentState h \<noteq> HOST_STATE_UNTRUSTED then [AuthRevoke (h_TenantId h) (h_Uuid h)] else [])"
    unfolding RevokeHostCredentials_def by (auto intro!: ok_trace_intro)
  have check: "ok_trace revoke_or_delete (if \<not> skip then checkIfInstanceIsAssociated E c h else ret None) []"
    by (rule ok_trace_skip) (auto intro!: emits_intro)
  have detail: "emits (\<lambda>x. \<not> revoke_or_delete x) (SetHostStatusDetail E c (h_TenantId h) (h_ResourceId h) s)" for s
    by (auto intro!: emits_intro)
  show ?thesis
    unfolding delete_front_def deleteHostNicByHost_def deleteHostStorageByHost_def
      deleteHostUsbByHost_def deleteHostGpuByHost_def
    using ok_trace_if_nil [OF check ok_trace_bnd_skip [OF detail
            ok_trace_if_nil [OF revoke ok_trace_if_nil [OF trace_nics ok_trace_if_nil [OF trace_subres
              ok_trace_if_nil [OF trace_subres trace_subres]]]]]]
    by simp
qed

section \<open>No state change without revocation\<close>

fun keeps_state :: "om_call \<Rightarrow> bool" where
  "keeps_state (InvDelete c t i) = False"
| "keeps_state (InvUpdate c t i fs r) = (F_current_state \<notin> set fs)"
| "keeps_state (InvCreate c t r) = False"
| "keeps_state _ = True"

lemma emits_if_nil_stops:
  assumes "emits P m" and "\<And>l l'. run_io m l \<noteq> (Ret None, l')"
  shows "emits P (if_nil m n)"
  unfolding emits_def
proof
  fix l
  obtain r l1 where m: "run_io m l = (r, l1)" by fastforce
  from emitsD [OF assms(1) m] m assms(2) [of l] show "\<exists>cs. snd (run_io (if_nil m n) l) = l @ cs \<and> list_all P cs"
    by (auto split: outcome.splits option.splits)
qed

lemma revocation_stops:
  assumes "\<And>l. auth_revoke E l t u \<noteq> None"
  shows "run_io (RevokeHostCredentials E t u) l \<noteq> (Ret None, l')"
  using assms by (simp add: RevokeHostCredentials_def)

lemma deleteHost_needs_revocation:
  assumes "\<And>l. auth_revoke E l (h_TenantId h) (h_Uuid h) \<noteq> None"
    and "h_CurrentState h \<noteq> HOST_STATE_UNTRUSTED"
  shows "emits keeps_state (deleteHost E c skip h)"
proof -
  have rest: "emits keeps_state (if_nil (if h_CurrentState h \<noteq> HOST_STATE_UNTRUSTED
      then RevokeHostCredentials E (h_TenantId h) (h_Uuid h) else ret None) n)" for n
    using assms by (intro emits_if_nil_stops) (auto intro!: emits_intro revocation_stops)
  show ?thesis
    unfolding deleteHost_def
    by (intro emits_if_nil emits_bnd rest)
      (auto simp: onboarding_status_fields_def intro!: emits_intro)
qed

lemma invalidateHost_needs_revocation:
  assumes "\<And>l. auth_revoke E l (h_TenantId h) (h_Uuid h) \<noteq> None"
  shows "emits keeps_state (invalidateHost E c h)"
  unfolding invalidateHost_def
  by (auto intro!: emits_intro emits_if_nil_stops revocation_stops assms)

text \<open>While an Instance is assigned, a deletion ends with an error and has written nothing but the
  onboarding status of the host.\<close>

lemma deleteHost_waits_for_instance:
  assumes "h_Instance h = Some i"
  shows "emits (\<lambda>x. \<exists>r. x = InvUpdate c (h_TenantId h) (h_ResourceId h) onboarding_status_fields r)
           (deleteHost E c False h)"
    and "\<exists>l'. run_io (deleteHost E c False h) l = (Ret (Some (Errorf
           ''Instance is still assigned to host, waiting for Instance to be deleted first'')), l')"
proof -
  let ?m = "\<lambda>s. SetHostStatusDetail E c (h_TenantId h) (h_ResourceId h) s"
  have total: "\<exists>e l'. run_io (?m s) l = (Ret e, l')" for s l
    by (rule op_SetHostStatusDetail.run_cases [of E c "h_TenantId h" "(h_ResourceId h, s)" l]) auto
  have check: "\<exists>l'. run_io (checkIfInstanceIsAssociated E c h) l = (Ret (Some (Errorf
      ''Instance is still assigned to host, waiting for Instance to be deleted first'')), l')" for l
    using total [of "ModernHostStatusDeletingWithDetails (''waiting on '' @ ref_ResourceId i @ '' deletion'')" l] assms
    by (auto simp: checkIfInstanceIsAssociated_def)
  from check [of l] obtain l1 where l1: "run_io (checkIfInstanceIsAssociated E c h) l = (Ret (Some (Errorf
      ''Instance is still assigned to host, waiting for Instance to be deleted first'')), l1)" by blast
  show "\<exists>l'. run_io (deleteHost E c False h) l = (Ret (Some (Errorf
           ''Instance is still assigned to host, waiting for Instance to be deleted first'')), l')"
    unfolding deleteHost_def by (simp add: l1 del: run_bnd)
  have stop: "run_io (if \<not> False then checkIfInstanceIsAssociated E c h else ret None) l \<noteq> (Ret None, l')" for l l'
    using check [of l] by auto
  show "emits (\<lambda>x. \<exists>r. x = InvUpdate c (h_TenantId h) (h_ResourceId h) onboarding_status_fields r)
           (deleteHost E c False h)"
    unfolding deleteHost_def
    by (rule emits_if_nil_stops [OF _ stop]) (auto intro!: emits_intro)
qed

end
