(* ===== verification/TinkClient.thy ===== *)
theory TinkClient
  imports Inventory
begin

text \<open>
  \<open>onboarding-manager/internal/tinkerbell/client.go\<close> and \<open>bootstrap.go\<close>: the Tinkerbell
  objects in Kubernetes. Creations tolerate an object that exists, the deletion of a workflow
  one that does not; all other failures come back as plain errors of this package.
\<close>

definition K8sClientFactory :: "om_env \<Rightarrow> error om" where
  "K8sClientFactory E = call K8sClient (\<lambda>l. k8s_client E l)"

definition k8s_Create :: "om_env \<Rightarrow> k8s_obj \<Rightarrow> error om" where
  "k8s_Create E ob = call (K8sCreate ob) (\<lambda>l. k8s_create E l ob)"

definition NewWorkflow ::
  "string \<Rightarrow> string \<Rightarrow> string \<Rightarrow> string \<Rightarrow> (string \<Rightarrow> string option) \<Rightarrow> workflow" where
  "NewWorkflow name ns hardwareRef templateRef hardwareMap = \<lparr>
     wf_Name = name, wf_Namespace = ns, wf_HardwareRef = hardwareRef, wf_TemplateRef = templateRef,
     wf_HardwareMap = hardwareMap, wf_State = WF_EMPTY, wf_Tasks = [] \<rparr>"

definition CreateTemplate :: "om_env \<Rightarrow> string \<Rightarrow> string \<Rightarrow> string \<Rightarrow> error om" where
  "CreateTemplate E ns name rawTemplateData =
     if_nil (K8sClientFactory E)
       (bnd (k8s_Create E (ObjTemplate ns name rawTemplateData)) (\<lambda>createErr.
          if createErr \<noteq> None then ret (Some (Errorf ''Failed to create Tinkerbell template''))
          else ret None))"

definition CreateHardwareIfNotExists :: "om_env \<Rightarrow> string \<Rightarrow> string \<Rightarrow> error om" where
  "CreateHardwareIfNotExists E ns hwName =
     if_nil (K8sClientFactory E)
       (bnd (k8s_Create E (ObjHardware ns hwName)) (\<lambda>createErr.
          if createErr \<noteq> None \<and> \<not> k8s_is_already_exists (lib E) createErr
          then ret (Some (Errorf ''Failed to create Tinkerbell hardware''))
          else ret None))"

definition delete_kind :: "om_env \<Rightarrow> string \<Rightarrow> k8s_kind \<Rightarrow> error om" where
  "delete_kind E namespace kind =
     bnd (call (K8sDeleteAllOf kind namespace) (\<lambda>l. k8s_delete_all_of E l kind namespace)) (\<lambda>err.
       if err \<noteq> None then ret (Some (Errorf ''Failed to delete Tinkerbell template'')) else ret None)"

fun delete_kinds :: "om_env \<Rightarrow> string \<Rightarrow> k8s_kind list \<Rightarrow> error om" where
  "delete_kinds E namespace [] = ret None"
| "delete_kinds E namespace (kind # kinds) =
     if_nil (delete_kind E namespace kind) (delete_kinds E namespace kinds)"

definition deleteAllK8sResourcesOfKind :: "om_env \<Rightarrow> string \<Rightarrow> k8s_kind list \<Rightarrow> error om" where
  "deleteAllK8sResourcesOfKind E namespace kinds =
     if_nil (K8sClientFactory E) (delete_kinds E namespace kinds)"

definition DeletePredefinedTinkerbellResources :: "om_env \<Rightarrow> error om" where
  "DeletePredefinedTinkerbellResources E =
     deleteAllK8sResourcesOfKind E (k8s_namespace E) [KindTemplate, KindHardware]"

definition CreateWorkflowIfNotExists :: "om_env \<Rightarrow> workflow \<Rightarrow> error om" where
  "CreateWorkflowIfNotExists E workflow =
     bnd (k8s_Create E (ObjWorkflow workflow)) (\<lambda>createErr.
       if createErr \<noteq> None \<and> \<not> k8s_is_already_exists (lib E) createErr
       then ret (Some (Errorf ''Failed to create Tinkerbell workflow''))
       else ret None)"

definition DeleteWorkflowIfExists :: "om_env \<Rightarrow> string \<Rightarrow> string \<Rightarrow> error om" where
  "DeleteWorkflowIfExists E ns workflowName =
     if_nil (K8sClientFactory E)
       (bnd (call (K8sDeleteWorkflow ns workflowName) (\<lambda>l. k8s_delete_workflow E l ns workflowName)) (\<lambda>err.
          if err \<noteq> None \<and> \<not> k8s_is_not_found (lib E) err
          then ret (Some (Errorf ''Failed to delete Tinkerbell Workflow''))
          else ret None))"

section \<open>Bootstrap\<close>

definition DummyHardwareName :: string where
  "DummyHardwareName = ''eim-dummy-tink-hardware''"

definition MicrovisorName :: string where
  "MicrovisorName = ''microvisor''"

definition UbuntuTemplateName :: string where
  "UbuntuTemplateName = ''ubuntu''"

fun OSTypeToTemplateName :: "os_type \<Rightarrow> string option" where
  "OSTypeToTemplateName OS_TYPE_MUTABLE = Some UbuntuTemplateName"
| "OSTypeToTemplateName OS_TYPE_IMMUTABLE = Some MicrovisorName"
| "OSTypeToTemplateName OS_TYPE_UNSPECIFIED = None"

text \<open>The order in which Go ranges over \<open>TemplatesMap\<close> is any: the templates (name and embedded
  data) are an argument in the order of the range.\<close>

fun createTemplates :: "om_env \<Rightarrow> (string \<times> string) list \<Rightarrow> error om" where
  "createTemplates E [] = ret None"
| "createTemplates E (t # ts) =
     if_nil (CreateTemplate E (k8s_namespace E) (fst t) (snd t)) (createTemplates E ts)"

definition createDummyHardware :: "om_env \<Rightarrow> error om" where
  "createDummyHardware E = CreateHardwareIfNotExists E (k8s_namespace E) DummyHardwareName"

definition Bootstrap :: "om_env \<Rightarrow> (string \<times> string) list \<Rightarrow> error om" where
  "Bootstrap E templates =
     if_nil (DeletePredefinedTinkerbellResources E)
       (if_nil (createTemplates E templates) (createDummyHardware E))"

interpretation kinds_loop: stop_on_error "delete_kind E ns" "delete_kinds E ns" for E ns
  by unfold_locales simp_all

interpretation templates_loop: stop_on_error
  "\<lambda>t. CreateTemplate E (k8s_namespace E) (fst t) (snd t)" "createTemplates E" for E
  by unfold_locales simp_all

section \<open>Facts\<close>

lemma emits_k8s [emits_intro]:
  "P K8sClient \<Longrightarrow> emits P (K8sClientFactory E)"
  "P (K8sCreate ob) \<Longrightarrow> emits P (k8s_Create E ob)"
  unfolding K8sClientFactory_def k8s_Create_def by (auto intro!: emits_intro)

lemma emits_tink [emits_intro]:
  "P K8sClient \<Longrightarrow> P (K8sCreate (ObjTemplate ns n d)) \<Longrightarrow> emits P (CreateTemplate E ns n d)"
  "P K8sClient \<Longrightarrow> P (K8sCreate (ObjHardware ns n)) \<Longrightarrow> emits P (CreateHardwareIfNotExists E ns n)"
  "P (K8sDeleteAllOf k ns) \<Longrightarrow> emits P (delete_kind E ns k)"
  "P (K8sCreate (ObjWorkflow w)) \<Longrightarrow> emits P (CreateWorkflowIfNotExists E w)"
  "P K8sClient \<Longrightarrow> P (K8sDeleteWorkflow ns n) \<Longrightarrow> emits P (DeleteWorkflowIfExists E ns n)"
  unfolding CreateTemplate_def CreateHardwareIfNotExists_def delete_kind_def
    CreateWorkflowIfNotExists_def DeleteWorkflowIfExists_def
  by (auto intro!: emits_intro)

lemma emits_Bootstrap:
  assumes "P K8sClient" and "\<And>k. P (K8sDeleteAllOf k (k8s_namespace E))"
    and "\<And>ob. (case ob of ObjTemplate ns n d \<Rightarrow> ns = k8s_namespace E \<and> (n, d) \<in> set ts
                 | ObjHardware ns n \<Rightarrow> ns = k8s_namespace E \<and> n = DummyHardwareName
                 | ObjWorkflow w \<Rightarrow> False) \<Longrightarrow> P (K8sCreate ob)"
  shows "emits P (Bootstrap E ts)"
  unfolding Bootstrap_def DeletePredefinedTinkerbellResources_def deleteAllK8sResourcesOfKind_def
    createDummyHardware_def
  by (intro emits_if_nil kinds_loop.loop_emits templates_loop.loop_emits emits_k8s emits_tink)
    (auto simp: assms)

text \<open>What a bootstrap without an error has called, in order.\<close>

lemma CreateTemplate_run:
  "run_io (CreateTemplate E ns n d) l = (Ret None, l') \<Longrightarrow>
   l' = l @ [K8sClient, K8sCreate (ObjTemplate ns n d)]"
  by (auto simp: CreateTemplate_def K8sClientFactory_def k8s_Create_def split: option.splits if_splits)

lemma createTemplates_run:
  "run_io (createTemplates E ts) l = (Ret None, l') \<Longrightarrow>
   l' = l @ concat (map (\<lambda>(n, d). [K8sClient, K8sCreate (ObjTemplate (k8s_namespace E) n d)]) ts)"
proof (induction ts arbitrary: l)
  case Nil
  then show ?case by simp
next
  case (Cons t ts)
  obtain n d where t: "t = (n, d)" by fastforce
  from Cons.prems obtain l1 where c: "run_io (CreateTemplate E (k8s_namespace E) n d) l = (Ret None, l1)"
    and r: "run_io (createTemplates E ts) l1 = (Ret None, l')"
    by (auto simp: t split: prod.splits outcome.splits option.splits)
  from Cons.IH [OF r] CreateTemplate_run [OF c] t show ?case by simp
qed

lemma Bootstrap_run:
  assumes "run_io (Bootstrap E ts) l = (Ret None, l')"
  shows "l' = l @ [K8sClient, K8sDeleteAllOf KindTemplate (k8s_namespace E),
                   K8sDeleteAllOf KindHardware (k8s_namespace E)]
      @ concat (map (\<lambda>(n, d). [K8sClient, K8sCreate (ObjTemplate (k8s_namespace E) n d)]) ts)
      @ [K8sClient, K8sCreate (ObjHardware (k8s_namespace E) DummyHardwareName)]"
proof -
  let ?l1 = "l @ [K8sClient, K8sDeleteAllOf KindTemplate (k8s_namespace E),
                   K8sDeleteAllOf KindHardware (k8s_namespace E)]"
  from assms obtain l2 where t: "run_io (createTemplates E ts) ?l1 = (Ret None, l2)"
    and h: "run_io (createDummyHardware E) l2 = (Ret None, l')"
    by (auto simp: Bootstrap_def DeletePredefinedTinkerbellResources_def
        deleteAllK8sResourcesOfKind_def delete_kind_def K8sClientFactory_def
        split: prod.splits outcome.splits option.splits if_splits)
  from h have "l' = l2 @ [K8sClient, K8sCreate (ObjHardware (k8s_namespace E) DummyHardwareName)]"
    by (auto simp: createDummyHardware_def CreateHardwareIfNotExists_def K8sClientFactory_def
        k8s_Create_def split: option.splits if_splits)
  with createTemplates_run [OF t] show ?thesis by simp
qed

end
