(* ===== verification/Bundle.thy ===== *)
theory Bundle
  imports Inventory
begin

text \<open>
  \<open>onboarding-manager/pkg/platformbundle\<close>: the scripts of a platform bundle, fetched from the
  registry and kept in a process-wide \<open>sync.Map\<close>. A store into the cache is a call of the
  history (\<open>CacheStore\<close>), and a load reads the last store of the key off the history, so the
  cache needs no further state.
\<close>

section \<open>The cache\<close>

fun cached :: "om_call list \<Rightarrow> string \<Rightarrow> string option" where
  "cached [] key = None"
| "cached (c # l) key = (case cached l key of
     Some v \<Rightarrow> Some v
   | None \<Rightarrow> (case c of CacheStore k v \<Rightarrow> if k = key then Some v else None | _ \<Rightarrow> None))"

lemma cached_snoc_store [simp]: "cached (l @ [CacheStore k v]) k' = (if k = k' then Some v else cached l k')"
  by (induction l) (auto split: option.splits om_call.splits)

lemma cached_append:
  "cached (l @ l') key = (case cached l' key of Some v \<Rightarrow> Some v | None \<Rightarrow> cached l key)"
  by (induction l) (auto split: option.splits om_call.splits)

definition cache_Load :: "string \<Rightarrow> string option om" where
  "cache_Load key = ask (\<lambda>l. cached l key)"

definition cache_Store :: "string \<Rightarrow> string \<Rightarrow> unit om" where
  "cache_Store key content = call (CacheStore key content) (\<lambda>l. ())"

section \<open>Fetching\<close>

definition validateAndParseArtifactURL :: "string \<Rightarrow> goerr + string \<times> string" where
  "validateAndParseArtifactURL artifact =
     (case split_char CHR '':'' artifact of
        [repo, tag] \<Rightarrow>
          if repo = '''' \<or> tag = '''' then Inl (Errorfc InvalidArgument ''Invalid artifact format'')
          else Inr (repo, tag)
      | _ \<Rightarrow> Inl (Errorfc InvalidArgument ''Invalid artifact format''))"

definition DownloadPlatformBundle :: "om_env \<Rightarrow> string \<Rightarrow> string \<Rightarrow> (goerr + string) om" where
  "DownloadPlatformBundle E repo tag =
     (if repo = '''' \<or> tag = '''' then ret (Inl (Errorfc InvalidArgument ''Repo or tag is empty''))
      else bnd (call (DownloadArtifacts repo tag) (\<lambda>l. download_artifacts E l repo tag)) (\<lambda>r.
        case r of
          Inl e \<Rightarrow> ret (Inl (Errorfc Unavailable ''PlatfromBundle not found''))
        | Inr artifacts \<Rightarrow> (case artifacts of
            None \<Rightarrow> ret (Inl (Errorfc Unavailable ''Empty artifact data''))
          | Some as \<Rightarrow> (case as of
              [] \<Rightarrow> ret (Inl (Errorfc Unavailable ''Empty artifact data''))
            | scriptContent # _ \<Rightarrow> ret (Inr scriptContent)))))"

definition FetchPlatformBundleData :: "om_env \<Rightarrow> string \<Rightarrow> (goerr + string) om" where
  "FetchPlatformBundleData E artifact =
     (case validateAndParseArtifactURL artifact of
        Inl e \<Rightarrow> ret (Inl e)
      | Inr (repo, tag) \<Rightarrow>
          bnd (cache_Load artifact) (\<lambda>found.
            case found of
              Some content \<Rightarrow> ret (Inr content)
            | None \<Rightarrow>
                if_ok (DownloadPlatformBundle E repo tag) (\<lambda>content.
                bnd (cache_Store artifact content) (\<lambda>_. ret (Inr content)))))"

record bundle_data =
  pb_CloudInitTemplate :: string
  pb_InstallerScript :: string

definition fetch_if_named :: "om_env \<Rightarrow> string \<Rightarrow> (goerr + string) om" where
  "fetch_if_named E artifact =
     (if artifact \<noteq> '''' then FetchPlatformBundleData E artifact else ret (Inr ''''))"

text \<open>On an error the Go function returns the scripts fetched so far beside it; its only caller
  drops them, so the error alone is returned.\<close>

definition FetchPlatformBundleScripts :: "om_env \<Rightarrow> string \<Rightarrow> (goerr + bundle_data) om" where
  "FetchPlatformBundleScripts E platformBundle =
     (if platformBundle = ''null'' \<or> platformBundle = ''''
      then ret (Inr \<lparr>pb_CloudInitTemplate = '''', pb_InstallerScript = ''''\<rparr>)
      else (case parse_manifest E platformBundle of
        Inl e \<Rightarrow> ret (Inl e)
      | Inr (cloudInitScript, installerScript) \<Rightarrow>
          if_ok (fetch_if_named E cloudInitScript) (\<lambda>cloudInitContent.
          if_ok (fetch_if_named E installerScript) (\<lambda>installerContent.
            ret (Inr \<lparr>pb_CloudInitTemplate = cloudInitContent,
                      pb_InstallerScript = installerContent\<rparr>)))))"

section \<open>Facts\<close>

lemma emits_bundle [emits_intro]:
  assumes "\<And>r t. P (DownloadArtifacts r t)" and "\<And>k v. P (CacheStore k v)"
  shows "emits P (FetchPlatformBundleData E a)" and "emits P (FetchPlatformBundleScripts E b)"
  using assms unfolding FetchPlatformBundleScripts_def fetch_if_named_def FetchPlatformBundleData_def
    DownloadPlatformBundle_def cache_Load_def cache_Store_def
  by (auto intro!: emits_intro)

lemma artifact_url_ok:
  "validateAndParseArtifactURL a = Inr (repo, tag) \<longleftrightarrow>
     a = repo @ '':'' @ tag \<and> repo \<noteq> '''' \<and> tag \<noteq> '''' \<and> CHR '':'' \<notin> set repo \<and> CHR '':'' \<notin> set tag"
proof
  assume ok: "validateAndParseArtifactURL a = Inr (repo, tag)"
  then have s: "split_char CHR '':'' a = [repo, tag]" and ne: "repo \<noteq> ''''" "tag \<noteq> ''''"
    by (auto simp: validateAndParseArtifactURL_def split: list.splits if_splits)
  then have "CHR '':'' \<notin> set repo" "CHR '':'' \<notin> set tag"
    using split_char_pieces [of _ "CHR '':''" a] by auto
  moreover have "a = repo @ '':'' @ tag" using join_split_char [of "CHR '':''" a] s by simp
  ultimately show "a = repo @ '':'' @ tag \<and> repo \<noteq> '''' \<and> tag \<noteq> '''' \<and>
      CHR '':'' \<notin> set repo \<and> CHR '':'' \<notin> set tag"
    using ne by simp
next
  assume "a = repo @ '':'' @ tag \<and> repo \<noteq> '''' \<and> tag \<noteq> '''' \<and>
    CHR '':'' \<notin> set repo \<and> CHR '':'' \<notin> set tag"
  then show "validateAndParseArtifactURL a = Inr (repo, tag)"
    by (simp add: validateAndParseArtifactURL_def split_char_sep split_char_no_sep)
qed

text \<open>After a successful fetch the content is in the cache, and stays what it is.\<close>

lemma fetch_caches:
  assumes "run_io (FetchPlatformBundleData E a) l = (Ret (Inr content), l')"
  shows "cached l' a = Some content"
  using assms unfolding FetchPlatformBundleData_def DownloadPlatformBundle_def cache_Load_def cache_Store_def
  by (auto simp: cached_append split: sum.splits prod.splits option.splits list.splits if_splits)

lemma fetch_cached:
  assumes "cached l a = Some content" and "validateAndParseArtifactURL a = Inr rt"
  shows "run_io (FetchPlatformBundleData E a) l = (Ret (Inr content), l)"
  using assms by (simp add: FetchPlatformBundleData_def cache_Load_def split: prod.splits)

lemma fetch_failure_keeps_cache:
  assumes "run_io (FetchPlatformBundleData E a) l = (Ret (Inl e), l')"
  shows "cached l' k = cached l k"
  using assms unfolding FetchPlatformBundleData_def DownloadPlatformBundle_def cache_Load_def cache_Store_def
  by (auto simp: cached_append split: sum.splits prod.splits option.splits list.splits if_splits)

end
