(* ===== verification/CloudInit.thy ===== *)
theory CloudInit
  imports Curation
begin

text \<open>
  \<open>onboarding-manager/pkg/cloudinit\<close>: the options of a cloud-init, their validation, and the
  generation of the file from the shared configuration, the options and a template. The
  built-in template (\<open>99_infra.cfg\<close>) is \<open>hv_cloud_init_template\<close>.
\<close>

section \<open>Options\<close>

record ci_options =
  ci_OsType :: os_type
  ci_RunAsStandalone :: bool
  ci_useDevMode :: bool
  ci_devUsername :: string
  ci_devUserPasswd :: string
  ci_tenantID :: string
  ci_hostname :: string
  ci_clientID :: string
  ci_clientSecret :: string
  ci_hostMAC :: string
  ci_preserveIP :: bool
  ci_staticHostIP :: string
  ci_staticDNS :: "string list"
  ci_useLocalAccount :: bool
  ci_localAccountUserName :: string
  ci_sshKey :: string

type_synonym ci_option = "ci_options \<Rightarrow> ci_options"

definition defaultCloudInitOptions :: ci_options where
  "defaultCloudInitOptions = \<lparr>
     ci_OsType = OS_TYPE_UNSPECIFIED, ci_RunAsStandalone = False, ci_useDevMode = False,
     ci_devUsername = '''', ci_devUserPasswd = '''', ci_tenantID = '''', ci_hostname = '''',
     ci_clientID = '''', ci_clientSecret = '''', ci_hostMAC = '''', ci_preserveIP = False,
     ci_staticHostIP = '''', ci_staticDNS = [], ci_useLocalAccount = False,
     ci_localAccountUserName = '''', ci_sshKey = '''' \<rparr>"

definition WithRunAsStandalone :: ci_option where
  "WithRunAsStandalone o1 = o1\<lparr>ci_RunAsStandalone := True\<rparr>"

definition WithDevMode :: "string \<Rightarrow> string \<Rightarrow> ci_option" where
  "WithDevMode username password o1 =
     o1\<lparr>ci_useDevMode := True, ci_devUsername := username, ci_devUserPasswd := password\<rparr>"

definition WithOSType :: "os_type \<Rightarrow> ci_option" where
  "WithOSType osType o1 = o1\<lparr>ci_OsType := osType\<rparr>"

definition WithTenantID :: "string \<Rightarrow> ci_option" where
  "WithTenantID tenantID o1 = o1\<lparr>ci_tenantID := tenantID\<rparr>"

definition WithHostname :: "string \<Rightarrow> ci_option" where
  "WithHostname hostname o1 = o1\<lparr>ci_hostname := hostname\<rparr>"

definition WithClientCredentials :: "string \<Rightarrow> string \<Rightarrow> ci_option" where
  "WithClientCredentials clientID clientSecret o1 =
     o1\<lparr>ci_clientID := clientID, ci_clientSecret := clientSecret\<rparr>"

definition WithLocalAccount :: "string \<Rightarrow> string \<Rightarrow> ci_option" where
  "WithLocalAccount userName sshKey o1 =
     o1\<lparr>ci_useLocalAccount := True, ci_localAccountUserName := userName, ci_sshKey := sshKey\<rparr>"

definition WithHostMACAddress :: "string \<Rightarrow> ci_option" where
  "WithHostMACAddress mac o1 = o1\<lparr>ci_hostMAC := mac\<rparr>"

definition WithPreserveIP :: "string \<Rightarrow> string list \<Rightarrow> ci_option" where
  "WithPreserveIP hostIP dnsServers o1 =
     o1\<lparr>ci_preserveIP := True, ci_staticHostIP := hostIP, ci_staticDNS := dnsServers\<rparr>"

section \<open>Validation\<close>

definition validateNonStandaloneOptions :: "ci_options \<Rightarrow> error" where
  "validateNonStandaloneOptions opts =
     (if ci_tenantID opts = '''' then Some (Errorfc InvalidArgument ''Tenant ID must be provided'')
      else if ci_clientID opts = '''' \<or> ci_clientSecret opts = ''''
        then Some (Errorfc InvalidArgument ''Client credentials must be provided'')
      else None)"

definition validate_options :: "ci_options \<Rightarrow> error" where
  "validate_options opts =
     (if ci_OsType opts = OS_TYPE_UNSPECIFIED
        then Some (Errorfc InvalidArgument ''Unsupported OS type'')
      else if ci_hostname opts = ''''
        then Some (Errorfc InvalidArgument ''Hostname must be provided'')
      else if ci_hostMAC opts = ''''
        then Some (Errorfc InvalidArgument (''Host'' @ [CHR 0x27] @ ''s MAC address must be provided''))
      else if ci_useDevMode opts \<and> (ci_devUsername opts = '''' \<or> ci_devUserPasswd opts = '''')
        then Some (Errorfc InvalidArgument ''Username and password must be provided if dev mode is enabled'')
      else if ci_useLocalAccount opts \<and> (ci_localAccountUserName opts = '''' \<or> ci_sshKey opts = '''')
        then Some (Errorfc InvalidArgument
          ''Username and SSH key must be provided if local account is enabled is there for an instance'')
      else if ci_preserveIP opts \<and> (ci_staticHostIP opts = '''' \<or> ci_staticDNS opts = [])
        then Some (Errorfc InvalidArgument ''IP address to set must be provided if static IP enabled'')
      else if \<not> ci_RunAsStandalone opts then validateNonStandaloneOptions opts
      else None)"

section \<open>Generation\<close>

definition templateVariablesFromOptions :: "ci_options \<Rightarrow> tvars" where
  "templateVariablesFromOptions options =
     (let v0 = [''RUN_AS_STANDALONE'' \<mapsto> TBool (ci_RunAsStandalone options),
                ''DEV_MODE'' \<mapsto> TBool False, ''LOCAL_ACCOUNT_ENABLED'' \<mapsto> TBool False];
          v1 = (if ci_useDevMode options then v0(''DEV_MODE'' \<mapsto> TBool True,
                  ''DEV_USER'' \<mapsto> TStr (ci_devUsername options),
                  ''DEV_USER_PASSWD'' \<mapsto> TStr (ci_devUserPasswd options)) else v0);
          v2 = (if ci_useLocalAccount options then v1(''LOCAL_ACCOUNT_ENABLED'' \<mapsto> TBool True,
                  ''LOCAL_ACCOUNT_USERNAME'' \<mapsto> TStr (ci_localAccountUserName options),
                  ''LOCAL_USER_SSH_KEY'' \<mapsto> TStr (ci_sshKey options)) else v1);
          v3 = v2(''WITH_PRESERVE_IP'' \<mapsto> TBool False);
          v4 = (if ci_preserveIP options then v3(''WITH_PRESERVE_IP'' \<mapsto> TBool True,
                  ''HOST_IP'' \<mapsto> TStr (ci_staticHostIP options)) else v3)
      in v4(''TENANT_ID'' \<mapsto> TStr (ci_tenantID options),
            ''HOSTNAME'' \<mapsto> TStr (ci_hostname options),
            ''HOST_MAC'' \<mapsto> TStr (ci_hostMAC options),
            ''CLIENT_ID'' \<mapsto> TStr (ci_clientID options),
            ''CLIENT_SECRET'' \<mapsto> TStr (ci_clientSecret options)))"

definition apply_options :: "ci_option list \<Rightarrow> ci_options" where
  "apply_options opts = fold (\<lambda>opt o1. opt o1) opts defaultCloudInitOptions"

definition GenerateFromInfraConfig ::
  "host_view \<Rightarrow> string \<Rightarrow> infra_config \<Rightarrow> ci_option list \<Rightarrow> (goerr + string) outcome" where
  "GenerateFromInfraConfig V tmpl infraConfig opts =
     (let options = apply_options opts in
      case validate_options options of
        Some e \<Rightarrow> Ret (Inl e)
      | None \<Rightarrow> (case GetCommonInfraTemplateVariables V infraConfig (ci_OsType options) of
          Panic \<Rightarrow> Panic
        | Ret (Inl e) \<Rightarrow> Ret (Inl e)
        | Ret (Inr tmplVariables) \<Rightarrow>
            (let vars = tmplVariables(''DNS_SERVERS'' \<mapsto> TStr (join_with '' '' (cfg_DNSServers infraConfig)));
                 vars' = vars ++ templateVariablesFromOptions options
             in if tmpl \<noteq> '''' then Ret (CurateFromTemplate V tmpl vars')
                else Ret (CurateFromTemplate V (hv_cloud_init_template V) vars'))))"

section \<open>What a generated file is rendered with\<close>

text \<open>Options that are complete, as a condition on their fields.\<close>

definition complete_options :: "ci_options \<Rightarrow> bool" where
  "complete_options opts \<longleftrightarrow>
     ci_OsType opts \<noteq> OS_TYPE_UNSPECIFIED \<and> ci_hostname opts \<noteq> '''' \<and> ci_hostMAC opts \<noteq> '''' \<and>
     (ci_useDevMode opts \<longrightarrow> ci_devUsername opts \<noteq> '''' \<and> ci_devUserPasswd opts \<noteq> '''') \<and>
     (ci_useLocalAccount opts \<longrightarrow> ci_localAccountUserName opts \<noteq> '''' \<and> ci_sshKey opts \<noteq> '''') \<and>
     (ci_preserveIP opts \<longrightarrow> ci_staticHostIP opts \<noteq> '''' \<and> ci_staticDNS opts \<noteq> []) \<and>
     (\<not> ci_RunAsStandalone opts \<longrightarrow>
        ci_tenantID opts \<noteq> '''' \<and> ci_clientID opts \<noteq> '''' \<and> ci_clientSecret opts \<noteq> '''')"

lemma validate_iff_complete: "validate_options opts = None \<longleftrightarrow> complete_options opts"
  by (auto simp: validate_options_def validateNonStandaloneOptions_def complete_options_def)

lemma validate_error_code:
  "validate_options opts = Some e \<Longrightarrow> \<exists>m. e = Errorfc InvalidArgument m"
  by (auto simp: validate_options_def validateNonStandaloneOptions_def split: if_splits)

lemma option_vars [simp]:
  "templateVariablesFromOptions o1 ''HOSTNAME'' = Some (TStr (ci_hostname o1))"
  "templateVariablesFromOptions o1 ''HOST_MAC'' = Some (TStr (ci_hostMAC o1))"
  "templateVariablesFromOptions o1 ''TENANT_ID'' = Some (TStr (ci_tenantID o1))"
  "templateVariablesFromOptions o1 ''CLIENT_ID'' = Some (TStr (ci_clientID o1))"
  "templateVariablesFromOptions o1 ''CLIENT_SECRET'' = Some (TStr (ci_clientSecret o1))"
  "templateVariablesFromOptions o1 ''RUN_AS_STANDALONE'' = Some (TBool (ci_RunAsStandalone o1))"
  "templateVariablesFromOptions o1 ''WITH_PRESERVE_IP'' = Some (TBool (ci_preserveIP o1))"
  "templateVariablesFromOptions o1 ''HOST_IP'' =
     (if ci_preserveIP o1 then Some (TStr (ci_staticHostIP o1)) else None)"
  "templateVariablesFromOptions o1 ''DEV_MODE'' = Some (TBool (ci_useDevMode o1))"
  "templateVariablesFromOptions o1 ''LOCAL_ACCOUNT_ENABLED'' = Some (TBool (ci_useLocalAccount o1))"
  "templateVariablesFromOptions o1 ''FIREWALL_PROVIDER'' = None"
  "templateVariablesFromOptions o1 ''FIREWALL_RULES'' = None"
  by (simp_all add: templateVariablesFromOptions_def Let_def)

lemma generated_from_complete:
  assumes "GenerateFromInfraConfig V tmpl c opts = Ret (Inr s)"
  obtains vars where "complete_options (apply_options opts)"
    and "hv_render V (if tmpl \<noteq> '''' then tmpl else hv_cloud_init_template V) vars = Some s"
    and "\<And>k. templateVariablesFromOptions (apply_options opts) k \<noteq> None \<Longrightarrow>
           vars k = templateVariablesFromOptions (apply_options opts) k"
    and "\<And>common k. GetCommonInfraTemplateVariables V c (ci_OsType (apply_options opts)) = Ret (Inr common)
           \<Longrightarrow> k \<noteq> ''DNS_SERVERS'' \<Longrightarrow> templateVariablesFromOptions (apply_options opts) k = None
           \<Longrightarrow> vars k = common k"
proof -
  from assms obtain common where valid: "validate_options (apply_options opts) = None"
    and common: "GetCommonInfraTemplateVariables V c (ci_OsType (apply_options opts)) = Ret (Inr common)"
    by (auto simp: GenerateFromInfraConfig_def Let_def
        split: option.splits outcome.splits sum.splits if_splits)
  let ?vars = "common(''DNS_SERVERS'' \<mapsto> TStr (join_with '' '' (cfg_DNSServers c)))
                 ++ templateVariablesFromOptions (apply_options opts)"
  from assms valid common have
    "hv_render V (if tmpl \<noteq> '''' then tmpl else hv_cloud_init_template V) ?vars = Some s"
    by (auto simp: GenerateFromInfraConfig_def Let_def CurateFromTemplate_def
        split: option.splits if_splits)
  then show thesis
    by (rule that [OF valid [unfolded validate_iff_complete]])
      (auto simp: map_add_def common split: option.splits)
qed

lemma generate_panics_only_in_variables:
  "GenerateFromInfraConfig V tmpl c opts = Panic \<Longrightarrow>
   GetCommonInfraTemplateVariables V c (ci_OsType (apply_options opts)) = Panic"
  by (auto simp: GenerateFromInfraConfig_def Let_def
      split: option.splits outcome.splits sum.splits if_splits)

end
