(* ===== verification/TinkStatus.thy ===== *)
theory TinkStatus
  imports Inventory
begin

text \<open>
  \<open>onboarding-manager/internal/tinkerbell/status.go\<close>: the one-line progress text that is
  derived from a Tinkerbell workflow and appended to the provisioning status. The names of the
  actions are those of \<open>template_data.go\<close>.
\<close>

section \<open>Action names\<close>

definition ActionEraseNonRemovableDisk :: string where
  "ActionEraseNonRemovableDisk = ''erase-non-removable-disk''"
definition ActionSecureBootStatusFlagRead :: string where
  "ActionSecureBootStatusFlagRead = ''secure-boot-status-flag-read''"
definition ActionInstallScriptDownload :: string where
  "ActionInstallScriptDownload = ''profile-pkg-and-node-agents-install-script-download''"
definition ActionStreamOSImage :: string where
  "ActionStreamOSImage = ''stream-os-image''"
definition ActionCloudInitInstall :: string where
  "ActionCloudInitInstall = ''install-cloud-init''"
definition ActionSystemConfiguration :: string where
  "ActionSystemConfiguration = ''system-configuration''"
definition ActionCustomConfigInstall :: string where
  "ActionCustomConfigInstall = ''custom-configs''"
definition ActionCustomConfigSplit :: string where
  "ActionCustomConfigSplit = ''custom-configs-split''"
definition ActionInstallScript :: string where
  "ActionInstallScript = ''service-script-for-profile-pkg-and-node-agents-install''"
definition ActionEfibootset :: string where
  "ActionEfibootset = ''efibootset-for-diskboot''"
definition ActionFdeEncryption :: string where
  "ActionFdeEncryption = ''fde-encryption''"
definition ActionSecurityFeatures :: string where
  "ActionSecurityFeatures = ''enable-security-features''"
definition ActionKernelupgrade :: string where
  "ActionKernelupgrade = ''kernel-upgrade''"
definition ActionReboot :: string where
  "ActionReboot = ''reboot''"
definition ActionAddAptProxy :: string where
  "ActionAddAptProxy = ''add-apt-proxy''"
definition ActionCloudinitDsidentity :: string where
  "ActionCloudinitDsidentity = ''cloud-init-ds-identity''"

lemmas action_defs = ActionEraseNonRemovableDisk_def ActionSecureBootStatusFlagRead_def
  ActionInstallScriptDownload_def ActionStreamOSImage_def ActionCloudInitInstall_def
  ActionSystemConfiguration_def ActionCustomConfigInstall_def ActionCustomConfigSplit_def
  ActionInstallScript_def ActionEfibootset_def ActionFdeEncryption_def ActionSecurityFeatures_def
  ActionKernelupgrade_def ActionReboot_def ActionAddAptProxy_def ActionCloudinitDsidentity_def

definition WorkflowStepToStatusDetail :: "(string \<times> string) list" where
  "WorkflowStepToStatusDetail =
    [(ActionEraseNonRemovableDisk, ''Erasing data from all non-removable disks''),
     (ActionSecureBootStatusFlagRead, ''Verifying Secure Boot settings''),
     (ActionInstallScriptDownload, ''Downloading installation scripts''),
     (ActionStreamOSImage, ''Streaming OS image''),
     (ActionInstallScript, ''Installing packages''),
     (ActionEfibootset, ''Setting boot option''),
     (ActionFdeEncryption, ''Setting FDE encryption''),
     (ActionSecurityFeatures, ''Enabling OS security features''),
     (ActionReboot, ''Rebooting''),
     (ActionAddAptProxy, ''Configuring APT proxy settings''),
     (ActionSystemConfiguration, ''Applying system configuration''),
     (ActionKernelupgrade, ''Upgrading kernel''),
     (ActionCloudInitInstall, ''Installing cloud-init''),
     (ActionCustomConfigInstall, ''Copying custom cloud-init configs''),
     (ActionCustomConfigSplit, ''Installing custom cloud-init configs''),
     (ActionCloudinitDsidentity, ''Setting up cloud-init'')]"

section \<open>The status detail\<close>

definition action_message :: "tink_action \<Rightarrow> string" where
  "action_message a =
     (let statusDetail = (case map_of WorkflowStepToStatusDetail (a_Name a) of
            None \<Rightarrow> a_Name a | Some d \<Rightarrow> d);
          message = (if a_Status a = WF_FAILED
            then statusDetail @ '' failed'' @ (if a_Message a \<noteq> '''' then '': '' @ a_Message a else '''')
            else statusDetail)
      in if a_Status a = WF_TIMEOUT then statusDetail @ '' timeout'' else message)"

text \<open>The loop over the actions: \<open>i\<close> is the index of the head, \<open>n\<close> the number of actions. A
  nameless action returns the empty text (\<open>None\<close>), a break returns the action's number and
  message; a loop that ends without a break keeps number 1 and the empty message.\<close>

fun status_loop :: "nat \<Rightarrow> nat \<Rightarrow> tink_action list \<Rightarrow> (nat \<times> string) option" where
  "status_loop i n [] = Some (1, '''')"
| "status_loop i n (a # as) =
     (if a_Name a = '''' then None
      else if a_Status a = WF_SUCCESS \<and> i \<noteq> n - 1 then status_loop (Suc i) n as
      else Some (i + 1, action_message a))"

definition prepareStatusDetails :: "nat \<Rightarrow> tink_action list \<Rightarrow> string" where
  "prepareStatusDetails totalActions actions =
     (case status_loop 0 (length actions) actions of
        None \<Rightarrow> ''''
      | Some (k, message) \<Rightarrow> show_nat k @ ''/'' @ show_nat totalActions @ '': '' @ message)"

definition GenerateStatusDetailFromWorkflowState :: "workflow option \<Rightarrow> string" where
  "GenerateStatusDetailFromWorkflowState workflow =
     (case workflow of
        None \<Rightarrow> ''''
      | Some w \<Rightarrow>
          if wf_State w = WF_SUCCESS then ''''
          else (case wf_Tasks w of
            [] \<Rightarrow> ''''
          | actions # _ \<Rightarrow>
              if actions = [] then '''' else prepareStatusDetails (length actions) actions))"

section \<open>What the loop computes\<close>

text \<open>The current action: the first one that is not a success, or else the last one.\<close>

definition current_index :: "tink_action list \<Rightarrow> nat" where
  "current_index as = (let k = length (takeWhile (\<lambda>a. a_Status a = WF_SUCCESS) as) in
     if k = length as then length as - 1 else k)"

lemma current_index_less: "as \<noteq> [] \<Longrightarrow> current_index as < length as"
  using length_takeWhile_le [of "\<lambda>a. a_Status a = WF_SUCCESS" as]
  by (auto simp: current_index_def Let_def)

lemma current_index_Cons:
  "current_index (a # as) =
     (if a_Status a = WF_SUCCESS \<and> as \<noteq> [] then Suc (current_index as) else 0)"
  by (cases as) (auto simp: current_index_def Let_def)

lemma status_loop_spec:
  assumes "as \<noteq> []" and "n = i + length as"
  shows "status_loop i n as =
    (if \<exists>j \<le> current_index as. a_Name (as ! j) = '''' then None
     else Some (i + current_index as + 1, action_message (as ! current_index as)))"
  using assms
proof (induction as arbitrary: i)
  case Nil
  then show ?case by simp
next
  case (Cons a as)
  show ?case
  proof (cases "a_Name a = ''''")
    case True
    then show ?thesis by (auto intro!: exI [of _ 0])
  next
    case False
    show ?thesis
    proof (cases "a_Status a = WF_SUCCESS \<and> as \<noteq> []")
      case True
      with Cons.prems have "i \<noteq> n - 1" by (cases as) auto
      moreover have "(\<exists>j \<le> Suc k. a_Name ((a # as) ! j) = '''') \<longleftrightarrow> (\<exists>j \<le> k. a_Name (as ! j) = '''')" for k
        using \<open>a_Name a \<noteq> ''''\<close> by (metis Suc_le_mono nat.exhaust nth_Cons_0 nth_Cons_Suc)
      ultimately show ?thesis
        using True False Cons.IH [of "Suc i"] Cons.prems by (simp add: current_index_Cons)
    next
      case False
      then have "\<not> (a_Status a = WF_SUCCESS \<and> i \<noteq> n - 1)" using Cons.prems by auto
      with False \<open>a_Name a \<noteq> ''''\<close> show ?thesis by (auto simp: current_index_Cons)
    qed
  qed
qed

end
