(* ===== verification/TemplateData.thy ===== *)
theory TemplateData
  imports Bundle CloudInit TinkStatus "HOL-Library.AList" "HOL-Library.List_Lexorder"
begin

text \<open>
  \<open>onboarding-manager/internal/tinkerbell/template_data.go\<close> and \<open>internal/onboarding/types\<close>:
  the inputs of a provisioning workflow. The Go code flattens the nested struct
  \<open>WorkflowInputs\<close> by reflection into a map from texts to texts; here a reflected value is a
  \<open>gval\<close> and \<open>flattenStruct\<close> walks it in the same way.
\<close>

section \<open>Device info\<close>

record device_info =
  di_HwSerialID :: string
  di_HwMacID :: string
  di_HwIP :: string
  di_OSImageURL :: string
  di_Gateway :: string
  di_ImgType :: string
  di_GUID :: string
  di_SecurityFeature :: security_feature
  di_AuthClientID :: string
  di_AuthClientSecret :: string
  di_TinkerVersion :: string
  di_Hostname :: string
  di_OsImageSHA256 :: string
  di_OsType :: os_type
  di_TenantID :: string
  di_PlatformBundle :: string
  di_LocalAccountUserName :: string
  di_SSHKey :: string
  di_OSResourceID :: string
  di_CustomConfigs :: "(string \<times> string) list"
  di_IsStandaloneNode :: bool
  di_UserLVMSize :: "64 word"
  di_OSTLSCACert :: string
  di_KernelVersion :: string
  di_SkipKernelUpgrade :: bool
  di_OSImageCompressed :: bool

definition empty_device_info :: device_info where
  "empty_device_info = \<lparr>
     di_HwSerialID = '''', di_HwMacID = '''', di_HwIP = '''', di_OSImageURL = '''',
     di_Gateway = '''', di_ImgType = '''', di_GUID = '''',
     di_SecurityFeature = SECURITY_FEATURE_UNSPECIFIED, di_AuthClientID = '''',
     di_AuthClientSecret = '''', di_TinkerVersion = '''', di_Hostname = '''',
     di_OsImageSHA256 = '''', di_OsType = OS_TYPE_UNSPECIFIED, di_TenantID = '''',
     di_PlatformBundle = '''', di_LocalAccountUserName = '''', di_SSHKey = '''',
     di_OSResourceID = '''', di_CustomConfigs = [], di_IsStandaloneNode = False,
     di_UserLVMSize = 0, di_OSTLSCACert = '''', di_KernelVersion = '''',
     di_SkipKernelUpgrade = False, di_OSImageCompressed = False \<rparr>"

section \<open>Flattening\<close>

text \<open>A reflected value: a struct with its fields (name, exported or not, value), a pointer, or
  any other value with its \<open>%v\<close> rendering.\<close>

datatype gval =
    GStruct "(string \<times> bool \<times> gval) list"
  | GPtr "gval option"
  | GLeaf string

fun is_struct_or_ptr :: "gval \<Rightarrow> bool" where
  "is_struct_or_ptr (GStruct _) = True"
| "is_struct_or_ptr (GPtr (Some (GStruct _))) = True"
| "is_struct_or_ptr _ = False"

text \<open>\<open>%v\<close> of a field that is not flattened: a nil pointer prints as \<open><nil>\<close>; the code formats
  no other pointer.\<close>

fun format_v :: "gval \<Rightarrow> string" where
  "format_v (GLeaf s) = s"
| "format_v (GPtr None) = ''<nil>''"
| "format_v _ = ''''"

type_synonym smap = "string \<Rightarrow> string option"

fun flattenStruct :: "gval \<Rightarrow> string \<Rightarrow> smap \<Rightarrow> smap"
and flatten_fields :: "(string \<times> bool \<times> gval) list \<Rightarrow> string \<Rightarrow> smap \<Rightarrow> smap" where
  "flattenStruct (GPtr None) pre result = result"
| "flattenStruct (GPtr (Some v)) pre result =
     (case v of GStruct fs \<Rightarrow> flatten_fields fs pre result | _ \<Rightarrow> result)"
| "flattenStruct (GStruct fs) pre result = flatten_fields fs pre result"
| "flattenStruct (GLeaf s) pre result = result"
| "flatten_fields [] pre result = result"
| "flatten_fields ((name, exported, v) # fs) pre result =
     (if \<not> exported then flatten_fields fs pre result
      else let key = (if pre \<noteq> '''' then pre @ name else name) in
        if is_struct_or_ptr v then flatten_fields fs pre (flattenStruct v key result)
        else flatten_fields fs pre (result(key \<mapsto> format_v v)))"

definition structToMapStringString :: "gval \<Rightarrow> smap" where
  "structToMapStringString v = flattenStruct v '''' (\<lambda>_. None)"

section \<open>Images\<close>

definition getTinkerImageVersion :: "host_view \<Rightarrow> string \<Rightarrow> string" where
  "getTinkerImageVersion V v =
     (if v \<noteq> '''' then v
      else if hv_getenv V ''TINKER_IMAGE_VERSION'' \<noteq> '''' then hv_getenv V ''TINKER_IMAGE_VERSION''
      else ''v1.0.0'')"

definition getTinkerActionImage :: "om_env \<Rightarrow> string \<Rightarrow> string" where
  "getTinkerActionImage E imageName =
     ''localhost:7443/'' @ tinker_artifact_name E @ ''/'' @ imageName"

text \<open>The nine \<open>tinkAction...Image\<close> functions differ in the variable that overrides the image and
  in the image's name.\<close>

definition action_image :: "om_env \<Rightarrow> host_view \<Rightarrow> string \<Rightarrow> string \<Rightarrow> string \<Rightarrow> string" where
  "action_image E V var name v =
     (let iv = getTinkerImageVersion V v in
      if hv_getenv V var \<noteq> '''' then hv_getenv V var
      else getTinkerActionImage E name @ '':'' @ iv)"

definition tinkActionEraseNonRemovableDisk :: "om_env \<Rightarrow> host_view \<Rightarrow> string \<Rightarrow> string" where
  "tinkActionEraseNonRemovableDisk E V =
     action_image E V ''TINKER_ERASE_NON_REMOVABLE_DISK_IMAGE'' ''erase_non_removable_disks''"

definition tinkActionSecurebootFlagReadImage :: "om_env \<Rightarrow> host_view \<Rightarrow> string \<Rightarrow> string" where
  "tinkActionSecurebootFlagReadImage E V =
     action_image E V ''TINKER_SECUREBOOTFLAGREAD_IMAGE'' ''securebootflag''"

definition tinkActionWriteFileImage :: "om_env \<Rightarrow> host_view \<Rightarrow> string \<Rightarrow> string" where
  "tinkActionWriteFileImage E V = action_image E V ''TINKER_WRITEFILE_IMAGE'' ''writefile''"

definition tinkActionCexecImage :: "om_env \<Rightarrow> host_view \<Rightarrow> string \<Rightarrow> string" where
  "tinkActionCexecImage E V = action_image E V ''TINKER_CEXEC_IMAGE'' ''cexec''"

definition tinkActionDiskImage :: "om_env \<Rightarrow> host_view \<Rightarrow> string \<Rightarrow> string" where
  "tinkActionDiskImage E V = action_image E V ''TINKER_DISK_IMAGE'' ''image2disk''"

definition tinkActionEfibootImage :: "om_env \<Rightarrow> host_view \<Rightarrow> string \<Rightarrow> string" where
  "tinkActionEfibootImage E V = action_image E V ''TINKER_EFIBOOT_IMAGE'' ''efibootset''"

definition tinkActionFdeDmvImage :: "om_env \<Rightarrow> host_view \<Rightarrow> string \<Rightarrow> string" where
  "tinkActionFdeDmvImage E V = action_image E V ''TINKER_FDE_DMV_IMAGE'' ''fde_dmv''"

definition tinkActionKernelupgradeImage :: "om_env \<Rightarrow> host_view \<Rightarrow> string \<Rightarrow> string" where
  "tinkActionKernelupgradeImage E V = action_image E V ''TINKER_KERNELUPGRD_IMAGE'' ''kernelupgrd''"

definition tinkActionQemuNbdImage2DiskImage :: "om_env \<Rightarrow> host_view \<Rightarrow> string \<Rightarrow> string" where
  "tinkActionQemuNbdImage2DiskImage E V =
     action_image E V ''TINKER_QEMU_NBD_IMAGE2DISK_IMAGE'' ''qemu_nbd_image2disk''"

text \<open>\<open>io.ReadFull\<close> of four bytes fails when the body, as far as it can be read, is shorter.\<close>

definition qcow2_magic :: string where
  "qcow2_magic = [CHR ''Q'', CHR ''F'', CHR ''I'', CHR 0xFB]"

definition detectImageFormat :: "om_env \<Rightarrow> string \<Rightarrow> string \<Rightarrow> string om" where
  "detectImageFormat E url0 httpProxy =
     (let imageURL = trim_space url0 in
      if contains_str imageURL ''.img'' then
        let proxy = (if trim_space httpProxy \<noteq> '''' then
                       (if url_parse_ok E httpProxy then ProxyURL httpProxy else NoProxy)
                     else ProxyFromEnvironment) in
        if \<not> new_request_ok E imageURL then ret ''raw''
        else bnd (call (HttpGetHeader imageURL proxy) (\<lambda>l. http_get_header E l imageURL proxy)) (\<lambda>r.
          case r of
            Inl e \<Rightarrow> ret ''raw''
          | Inr (status, body) \<Rightarrow>
              if status \<noteq> 206 \<and> status \<noteq> 200 then ret ''raw''
              else if length body < 4 then ret ''raw''
              else if take 4 body = qcow2_magic then ret ''qcow2'' else ret ''raw'')
      else ret ''raw'')"

definition getStreamOSToDiskTinkerActionImage ::
  "om_env \<Rightarrow> string \<Rightarrow> string \<Rightarrow> string \<Rightarrow> string om" where
  "getStreamOSToDiskTinkerActionImage E imageURL httpProxy v =
     bnd (detectImageFormat E imageURL httpProxy) (\<lambda>imageFormat.
     bnd (ask (host_view_at E)) (\<lambda>V.
       if imageFormat = ''qcow2'' then ret (tinkActionQemuNbdImage2DiskImage E V v)
       else ret (tinkActionDiskImage E V v)))"

section \<open>Workflow inputs\<close>

definition show_bool :: "bool \<Rightarrow> string" where
  "show_bool b = (if b then ''true'' else ''false'')"

fun show_os_type :: "os_type \<Rightarrow> string" where
  "show_os_type OS_TYPE_UNSPECIFIED = ''OS_TYPE_UNSPECIFIED''"
| "show_os_type OS_TYPE_MUTABLE = ''OS_TYPE_MUTABLE''"
| "show_os_type OS_TYPE_IMMUTABLE = ''OS_TYPE_IMMUTABLE''"

fun show_security_feature :: "security_feature \<Rightarrow> string" where
  "show_security_feature SECURITY_FEATURE_UNSPECIFIED = ''SECURITY_FEATURE_UNSPECIFIED''"
| "show_security_feature SECURITY_FEATURE_NONE = ''SECURITY_FEATURE_NONE''"
| "show_security_feature SECURITY_FEATURE_SECURE_BOOT_AND_FULL_DISK_ENCRYPTION =
     ''SECURITY_FEATURE_SECURE_BOOT_AND_FULL_DISK_ENCRYPTION''"

text \<open>\<open>%v\<close> of a map prints the entries sorted by key.\<close>

definition show_map :: "(string \<times> string) list \<Rightarrow> string" where
  "show_map m = ''map['' @ join_with '' '' (map (\<lambda>(k, v). k @ '':'' @ v) (sort_key fst m)) @ '']''"

definition reflect_device_info :: "device_info \<Rightarrow> gval" where
  "reflect_device_info d = GStruct [
     (''HwSerialID'', True, GLeaf (di_HwSerialID d)),
     (''HwMacID'', True, GLeaf (di_HwMacID d)),
     (''HwIP'', True, GLeaf (di_HwIP d)),
     (''OSImageURL'', True, GLeaf (di_OSImageURL d)),
     (''Gateway'', True, GLeaf (di_Gateway d)),
     (''ImgType'', True, GLeaf (di_ImgType d)),
     (''GUID'', True, GLeaf (di_GUID d)),
     (''SecurityFeature'', True, GLeaf (show_security_feature (di_SecurityFeature d))),
     (''AuthClientID'', True, GLeaf (di_AuthClientID d)),
     (''AuthClientSecret'', True, GLeaf (di_AuthClientSecret d)),
     (''TinkerVersion'', True, GLeaf (di_TinkerVersion d)),
     (''Hostname'', True, GLeaf (di_Hostname d)),
     (''OsImageSHA256'', True, GLeaf (di_OsImageSHA256 d)),
     (''OsType'', True, GLeaf (show_os_type (di_OsType d))),
     (''TenantID'', True, GLeaf (di_TenantID d)),
     (''PlatformBundle'', True, GLeaf (di_PlatformBundle d)),
     (''LocalAccountUserName'', True, GLeaf (di_LocalAccountUserName d)),
     (''SSHKey'', True, GLeaf (di_SSHKey d)),
     (''OSResourceID'', True, GLeaf (di_OSResourceID d)),
     (''CustomConfigs'', True, GLeaf (show_map (di_CustomConfigs d))),
     (''IsStandaloneNode'', True, GLeaf (show_bool (di_IsStandaloneNode d))),
     (''UserLVMSize'', True, GLeaf (show_nat (unat (di_UserLVMSize d)))),
     (''OSTLSCACert'', True, GLeaf (di_OSTLSCACert d)),
     (''KernelVersion'', True, GLeaf (di_KernelVersion d)),
     (''SkipKernelUpgrade'', True, GLeaf (show_bool (di_SkipKernelUpgrade d))),
     (''OSImageCompressed'', True, GLeaf (show_bool (di_OSImageCompressed d)))]"

record action_images =
  ai_EraseNonRemovableDisk :: string
  ai_WriteFile :: string
  ai_SecureBootFlagRead :: string
  ai_Cexec :: string
  ai_Efibootset :: string
  ai_KernelUpgrade :: string
  ai_FdeDmv :: string
  ai_StreamOSImageToDisk :: string

record workflow_inputs =
  in_ENProxyHTTP :: string
  in_ENProxyHTTPS :: string
  in_ENProxyNoProxy :: string
  in_DeviceInfo :: device_info
  in_TinkerActionImage :: action_images
  in_CloudInitData :: string
  in_CustomConfigs :: string
  in_InstallerScript :: string
  in_OsResourceID :: string

definition reflect_inputs :: "workflow_inputs \<Rightarrow> gval" where
  "reflect_inputs w = GStruct [
     (''Env'', True, GStruct [
        (''ENProxyHTTP'', True, GLeaf (in_ENProxyHTTP w)),
        (''ENProxyHTTPS'', True, GLeaf (in_ENProxyHTTPS w)),
        (''ENProxyNoProxy'', True, GLeaf (in_ENProxyNoProxy w))]),
     (''DeviceInfo'', True, reflect_device_info (in_DeviceInfo w)),
     (''TinkerActionImage'', True, let t = in_TinkerActionImage w in GStruct [
        (''EraseNonRemovableDisk'', True, GLeaf (ai_EraseNonRemovableDisk t)),
        (''WriteFile'', True, GLeaf (ai_WriteFile t)),
        (''SecureBootFlagRead'', True, GLeaf (ai_SecureBootFlagRead t)),
        (''Cexec'', True, GLeaf (ai_Cexec t)),
        (''Efibootset'', True, GLeaf (ai_Efibootset t)),
        (''KernelUpgrade'', True, GLeaf (ai_KernelUpgrade t)),
        (''FdeDmv'', True, GLeaf (ai_FdeDmv t)),
        (''StreamOSImageToDisk'', True, GLeaf (ai_StreamOSImageToDisk t))]),
     (''CloudInitData'', True, GLeaf (in_CloudInitData w)),
     (''CustomConfigs'', True, GLeaf (in_CustomConfigs w)),
     (''InstallerScript'', True, GLeaf (in_InstallerScript w)),
     (''OsResourceID'', True, GLeaf (in_OsResourceID w))]"

definition getCustomConfigs :: "om_env \<Rightarrow> device_info \<Rightarrow> string" where
  "getCustomConfigs E d =
     (let concatenated = concat_values_sorted E (di_CustomConfigs d) [CHR 0x1F] in
      if concatenated \<noteq> '''' then quote E concatenated else '''')"

text \<open>The options are collected in the order of the code.\<close>

definition cloud_init_options :: "om_env \<Rightarrow> infra_config \<Rightarrow> device_info \<Rightarrow> ci_option list" where
  "cloud_init_options E infraConfig d =
     [WithOSType (di_OsType d), WithTenantID (di_TenantID d), WithHostname (di_Hostname d),
      WithClientCredentials (di_AuthClientID d) (di_AuthClientSecret d),
      WithHostMACAddress (di_HwMacID d)]
     @ (if di_IsStandaloneNode d then [WithRunAsStandalone] else [])
     @ (if en_dkam_mode E = ''dev'' then [WithDevMode (en_user_name E) (en_pass_word E)] else [])
     @ (if di_LocalAccountUserName d \<noteq> '''' \<and> di_SSHKey d \<noteq> ''''
        then [WithLocalAccount (di_LocalAccountUserName d) (di_SSHKey d)] else [])
     @ (if cfg_NetIP infraConfig = ''static''
        then [WithPreserveIP (di_HwIP d) (cfg_DNSServers infraConfig)] else [])"

definition GenerateWorkflowInputs :: "om_env \<Rightarrow> device_info \<Rightarrow> (goerr + smap) om" where
  "GenerateWorkflowInputs E d =
     bnd (ask (host_view_at E)) (\<lambda>V.
     let infraConfig = hv_config V; v = di_TinkerVersion d in
     bnd (getStreamOSToDiskTinkerActionImage E (di_OSImageURL d) (cfg_ENProxyHTTP infraConfig) v) (\<lambda>stream.
     if_ok (FetchPlatformBundleScripts E (di_PlatformBundle d)) (\<lambda>bundle.
     bnd (ask (host_view_at E)) (\<lambda>V'.
     let installerScript = (if di_OsType d = OS_TYPE_MUTABLE then
            (if pb_InstallerScript bundle \<noteq> '''' then pb_InstallerScript bundle else hv_installer V')
            else '''') in
     if_ok (of_outcome (GenerateFromInfraConfig V' (pb_CloudInitTemplate bundle) infraConfig
              (cloud_init_options E infraConfig d))) (\<lambda>cloudInitData.
       ret (Inr (structToMapStringString (reflect_inputs \<lparr>
         in_ENProxyHTTP = cfg_ENProxyHTTP infraConfig,
         in_ENProxyHTTPS = cfg_ENProxyHTTPS infraConfig,
         in_ENProxyNoProxy = cfg_ENProxyNoProxy infraConfig,
         in_DeviceInfo = d,
         in_TinkerActionImage = \<lparr>
           ai_EraseNonRemovableDisk = tinkActionEraseNonRemovableDisk E V v,
           ai_WriteFile = tinkActionWriteFileImage E V v,
           ai_SecureBootFlagRead = tinkActionSecurebootFlagReadImage E V v,
           ai_Cexec = tinkActionCexecImage E V v,
           ai_Efibootset = tinkActionEfibootImage E V v,
           ai_KernelUpgrade = tinkActionKernelupgradeImage E V v,
           ai_FdeDmv = tinkActionFdeDmvImage E V v,
           ai_StreamOSImageToDisk = stream \<rparr>,
         in_CloudInitData = quote E cloudInitData,
         in_CustomConfigs = getCustomConfigs E d,
         in_InstallerScript = quote E installerScript,
         in_OsResourceID = '''' \<rparr>))))))))"

end
