(* ===== verification/Workflow.thy ===== *)
theory Workflow
  imports TinkClient TemplateData Populate
begin

text \<open>
  \<open>onboarding-manager/internal/onboarding\<close>: the provisioning workflow of an Instance. A Go
  function that updates the Instance through its pointer returns it here beside the error.
  \<open>CheckStatusOrRunProdWorkflow\<close> starts the workflow when there is none and otherwise turns
  its state into a status; \<open>instrument\<close> is the bookkeeping of \<open>getWorkflow\<close>, which only
  feeds log lines.
\<close>

section \<open>Credentials\<close>

text \<open>\<open>FetchClientSecret\<close> and \<open>createENCredentialsIfNotExists\<close> have the same code up to the
  message of the error.\<close>

definition credentials_for :: "om_env \<Rightarrow> string \<Rightarrow> string \<Rightarrow> string \<Rightarrow> (goerr + string \<times> string) om" where
  "credentials_for E msg tenantID uuid =
     bnd (call AuthFactory (\<lambda>l. auth_factory E l)) (\<lambda>err.
       case err of
         Some e \<Rightarrow> ret (Inl e)
       | None \<Rightarrow> with_defer
           (bnd (call (AuthGetCredentials tenantID uuid) (\<lambda>l. auth_get E l tenantID uuid))
             (\<lambda>(clientID, clientSecret, err).
               if err \<noteq> None \<and> is_not_found (lib E) err then
                 bnd (call (AuthCreateCredentials tenantID uuid) (\<lambda>l. auth_create E l tenantID uuid))
                   (\<lambda>(i, s, e). case e of None \<Rightarrow> ret (Inr (i, s)) | Some x \<Rightarrow> ret (Inl x))
               else if err \<noteq> None then ret (Inl (Errorf msg))
               else ret (Inr (clientID, clientSecret))))
           (\<lambda>_. call AuthLogout (\<lambda>l. ())))"

definition FetchClientSecret :: "om_env \<Rightarrow> string \<Rightarrow> string \<Rightarrow> (goerr + string \<times> string) om" where
  "FetchClientSecret E tenantID uuid =
     credentials_for E ''Failed to check if EN credentials for host exist.'' tenantID uuid"

definition createENCredentialsIfNotExists ::
  "om_env \<Rightarrow> string \<Rightarrow> device_info \<Rightarrow> (goerr + string \<times> string) om" where
  "createENCredentialsIfNotExists E tenantID d =
     credentials_for E (''Failed to check if EN credentials for host '' @ di_GUID d @ '' exist.'')
       tenantID (di_GUID d)"

section \<open>Workflows\<close>

definition generateWorkflowName :: "string \<Rightarrow> string" where
  "generateWorkflowName uuid = ''workflow-'' @ uuid"

definition getWorkflow :: "om_env \<Rightarrow> string \<Rightarrow> (goerr + workflow) om" where
  "getWorkflow E workflowName =
     bnd (call (K8sGetWorkflow (k8s_namespace E) workflowName)
           (\<lambda>l. k8s_get_workflow E l (k8s_namespace E) workflowName)) (\<lambda>r.
       case r of
         Inl e \<Rightarrow>
           if k8s_is_not_found (lib E) (Some e) then
             ret (Inl (Errorfc NotFound (''Workflow '' @ workflowName @ '' does not exist'')))
           else ret (Inl (Errorf (''Failed to get workflow '' @ workflowName @ '' status.'')))
       | Inr got \<Rightarrow> ret (Inr got))"

definition CheckWorkflowExist :: "om_env \<Rightarrow> device_info \<Rightarrow> inst \<Rightarrow> bool om" where
  "CheckWorkflowExist E d i =
     bnd (K8sClientFactory E) (\<lambda>err.
       if err \<noteq> None then ret False
       else bnd (deref (i_Host i)) (\<lambda>_.
         bnd (getWorkflow E (generateWorkflowName (di_GUID d))) (\<lambda>r.
           case r of Inl _ \<Rightarrow> ret False | Inr _ \<Rightarrow> ret True)))"

text \<open>The device info that \<open>runProdWorkflow\<close> completes from the Instance. Assigning the custom
  configs to a map in order keeps the last config of a name.\<close>

definition with_instance :: "device_info \<Rightarrow> inst \<Rightarrow> string \<Rightarrow> string \<Rightarrow> device_info" where
  "with_instance d i clientID clientSecret =
     (let d1 = d\<lparr>di_AuthClientID := clientID, di_AuthClientSecret := clientSecret,
                 di_TenantID := i_TenantId i,
                 di_OSTLSCACert := (case i_Os i of None \<Rightarrow> '''' | Some os \<Rightarrow> os_TlsCaCert os)\<rparr>;
          d2 = (case i_Localaccount i of
                  None \<Rightarrow> d1
                | Some a \<Rightarrow> d1\<lparr>di_LocalAccountUserName := la_Username a, di_SSHKey := la_SshKey a\<rparr>)
      in if i_CustomConfig i \<noteq> [] then
           d2\<lparr>di_CustomConfigs := foldl (\<lambda>m (n, c). AList.update n c m) [] (i_CustomConfig i)\<rparr>
         else d2)"

definition runProdWorkflow :: "om_env \<Rightarrow> device_info \<Rightarrow> inst \<Rightarrow> error om" where
  "runProdWorkflow E d i =
     if_got (createENCredentialsIfNotExists E (i_TenantId i) d) (\<lambda>(clientID, clientSecret).
       let d' = with_instance d i clientID clientSecret in
       case OSTypeToTemplateName (di_OsType d') of
         None \<Rightarrow> ret (Some (Errorf ''Cannot find Tinkerbell template for OS type''))
       | Some templateName \<Rightarrow>
           if_got (GenerateWorkflowInputs E d') (\<lambda>hardwareMap.
             CreateWorkflowIfNotExists E
               (NewWorkflow (generateWorkflowName (di_GUID d')) (k8s_namespace E) DummyHardwareName
                  templateName hardwareMap)))"

definition handleWorkflowStatus ::
  "om_env \<Rightarrow> inst \<Rightarrow> workflow \<Rightarrow> status \<Rightarrow> status \<Rightarrow> (inst \<times> error) outcome" where
  "handleWorkflowStatus E i w onSuccess onFailure =
     (let intermediateWorkflowState = GenerateStatusDetailFromWorkflowState (Some w) in
      case wf_State w of
        WF_SUCCESS \<Rightarrow>
          (let i1 = PopulateInstanceStatusAndCurrentState i INSTANCE_STATE_RUNNING
                      (NewStatusWithDetails onSuccess intermediateWorkflowState)
           in case IsStandalone E i1 of
                Inl e \<Rightarrow> Ret (i1, Some e)
              | Inr isStandalone \<Rightarrow>
                  if \<not> isStandalone then
                    (case PopulateHostStatus i1 HostStatusRebooting of
                       Panic \<Rightarrow> Panic | Ret i2 \<Rightarrow> Ret (i2, None))
                  else Ret (i1, None))
      | WF_FAILED \<Rightarrow>
          Ret (PopulateInstanceProvisioningStatus i (NewStatusWithDetails onFailure intermediateWorkflowState),
               Some (Errorfc Aborted ''Workflow failed or timed out''))
      | WF_TIMEOUT \<Rightarrow>
          Ret (PopulateInstanceProvisioningStatus i (NewStatusWithDetails onFailure intermediateWorkflowState),
               Some (Errorfc Aborted ''Workflow failed or timed out''))
      | WF_OTHER s \<Rightarrow> Ret (i, Some (Errorf (''Unknown workflow state '' @ s)))
      | _ \<Rightarrow>
          Ret (PopulateInstanceStatusAndCurrentState i INSTANCE_STATE_UNSPECIFIED
                 (NewStatusWithDetails ProvisioningStatusInProgress intermediateWorkflowState),
               Some (Errorfr OperationInProgress '''')))"

definition CheckStatusOrRunProdWorkflow :: "om_env \<Rightarrow> device_info \<Rightarrow> inst \<Rightarrow> (inst \<times> error) om" where
  "CheckStatusOrRunProdWorkflow E d i =
     bnd (K8sClientFactory E) (\<lambda>err.
       if err \<noteq> None then ret (i, err)
       else bnd (deref (i_Host i)) (\<lambda>_.
         bnd (getWorkflow E (generateWorkflowName (di_GUID d))) (\<lambda>r.
           case r of
             Inl e \<Rightarrow>
               if is_not_found (lib E) (Some e) then
                 bnd (runProdWorkflow E d i) (\<lambda>runErr.
                   if runErr \<noteq> None then ret (i, runErr)
                   else ret (i, Some (Errorfr OperationInProgress
                          ''Prod workflow started, waiting for it to complete'')))
               else ret (i, Some e)
           | Inr w \<Rightarrow>
               of_outcome (handleWorkflowStatus E
                 (PopulateInstanceStatusAndCurrentState i INSTANCE_STATE_UNSPECIFIED
                    ProvisioningStatusInProgress)
                 w ProvisioningStatusDone ProvisioningStatusFailed))))"

definition DeleteTinkerbellWorkflowIfExists :: "om_env \<Rightarrow> string \<Rightarrow> error om" where
  "DeleteTinkerbellWorkflowIfExists E hostUUID =
     DeleteWorkflowIfExists E (k8s_namespace E) (generateWorkflowName hostUUID)"

section \<open>Instrumentation\<close>

text \<open>The four package-level maps of \<open>getWorkflow\<close>, as association lists, and its two loops. The
  clock is an argument; durations are integers.\<close>

record instr =
  ins_status :: "(string \<times> wf_state) list"
  ins_start :: "(string \<times> int) list"
  ins_running :: "(string \<times> int) list"
  ins_success :: "(string \<times> int) list"

definition drop_keys :: "string list \<Rightarrow> (string \<times> 'a) list \<Rightarrow> (string \<times> 'a) list" where
  "drop_keys ks m = filter (\<lambda>(k, _). k \<notin> set ks) m"

definition instrument_action :: "int \<Rightarrow> string \<Rightarrow> instr \<Rightarrow> tink_action \<Rightarrow> instr" where
  "instrument_action now wn s a =
     (let key = wn @ a_Name a;
          s1 = s\<lparr>ins_status := AList.update key (a_Status a) (ins_status s)\<rparr>
      in case a_Status a of
           WF_PENDING \<Rightarrow>
             if map_of (ins_start s1) key = None \<and> a_Name a = ActionSecureBootStatusFlagRead
             then s1\<lparr>ins_start := AList.update key now (ins_start s1)\<rparr> else s1
         | WF_RUNNING \<Rightarrow>
             if map_of (ins_running s1) key = None \<and> a_Name a = ActionSecureBootStatusFlagRead
             then s1\<lparr>ins_running := AList.update key
                       (now - (case map_of (ins_start s1) key of None \<Rightarrow> 0 | Some t \<Rightarrow> t)) (ins_running s1)\<rparr>
             else s1
         | WF_SUCCESS \<Rightarrow> s1\<lparr>ins_success := AList.update key (a_Seconds a) (ins_success s1)\<rparr>
         | _ \<Rightarrow> (let ks = map fst (ins_status s1) in
             \<lparr>ins_status = drop_keys ks (ins_status s1), ins_start = drop_keys ks (ins_start s1),
              ins_running = drop_keys ks (ins_running s1), ins_success = drop_keys ks (ins_success s1)\<rparr>))"

text \<open>The second loop acts on the key of the reboot action only: once that action has succeeded,
  the records of the workflow are dropped, and the total is what is logged.\<close>

definition instrument_total :: "string \<Rightarrow> instr \<Rightarrow> instr \<times> int option" where
  "instrument_total wn s =
     (if map_of (ins_status s) (wn @ ActionReboot) = Some WF_SUCCESS then
        (let flag = wn @ ActionSecureBootStatusFlagRead;
             seen = map fst (ins_success s);
             flags = filter (\<lambda>k. k = flag) seen;
             mine = filter (\<lambda>k. contains_str k wn) seen
         in (\<lparr>ins_status = drop_keys mine (ins_status s), ins_start = drop_keys flags (ins_start s),
              ins_running = drop_keys flags (ins_running s), ins_success = drop_keys mine (ins_success s)\<rparr>,
             Some (sum_list (map snd (filter (\<lambda>(k, _). contains_str k wn) (ins_success s))))))
      else (s, None))"

definition instrument :: "int \<Rightarrow> workflow \<Rightarrow> string \<Rightarrow> instr \<Rightarrow> instr \<times> int option" where
  "instrument now w wn s =
     instrument_total wn (foldl (\<lambda>s1 actions. foldl (instrument_action now wn) s1 actions) s (wf_Tasks w))"

section \<open>Facts\<close>

lemma emits_credentials [emits_intro]:
  assumes "P AuthFactory" and "P (AuthGetCredentials t u)" and "P (AuthCreateCredentials t u)"
    and "P AuthLogout"
  shows "emits P (credentials_for E m t u)" and "emits P (FetchClientSecret E t u)"
    and "di_GUID d = u \<Longrightarrow> emits P (createENCredentialsIfNotExists E t d)"
proof -
  show *: "emits P (credentials_for E m t u)" for m
    unfolding credentials_for_def using assms by (auto intro!: emits_intro)
  show "emits P (FetchClientSecret E t u)"
    unfolding FetchClientSecret_def by (rule *)
  show "di_GUID d = u \<Longrightarrow> emits P (createENCredentialsIfNotExists E t d)"
    unfolding createENCredentialsIfNotExists_def using * by simp
qed

lemma emits_getWorkflow [emits_intro]:
  "P (K8sGetWorkflow (k8s_namespace E) wn) \<Longrightarrow> emits P (getWorkflow E wn)"
  unfolding getWorkflow_def by (auto intro!: emits_intro)

lemma emits_GenerateWorkflowInputs [emits_intro]:
  assumes "\<And>u p. P (HttpGetHeader u p)" and "\<And>r t. P (DownloadArtifacts r t)"
    and "\<And>k v. P (CacheStore k v)"
  shows "emits P (GenerateWorkflowInputs E d)"
  unfolding GenerateWorkflowInputs_def getStreamOSToDiskTinkerActionImage_def
    detectImageFormat_def Let_def
  using assms by (auto intro!: emits_intro)

text \<open>The calls of a provisioning run: no Inventory call is among them.\<close>

fun workflow_call :: "om_call \<Rightarrow> bool" where
  "workflow_call AuthFactory = True"
| "workflow_call (AuthGetCredentials t u) = True"
| "workflow_call (AuthCreateCredentials t u) = True"
| "workflow_call AuthLogout = True"
| "workflow_call K8sClient = True"
| "workflow_call (K8sGetWorkflow n w) = True"
| "workflow_call (K8sCreate (ObjWorkflow w)) = True"
| "workflow_call (DownloadArtifacts r t) = True"
| "workflow_call (HttpGetHeader u p) = True"
| "workflow_call (CacheStore k v) = True"
| "workflow_call _ = False"

lemma workflow_emits [emits_intro]:
  "(\<And>c. workflow_call c \<Longrightarrow> P c) \<Longrightarrow> emits P (CheckStatusOrRunProdWorkflow E d i)"
  unfolding CheckStatusOrRunProdWorkflow_def runProdWorkflow_def Let_def
  by (auto intro!: emits_intro)

lemma exist_emits [emits_intro]:
  "(\<And>c. workflow_call c \<Longrightarrow> P c) \<Longrightarrow> emits P (CheckWorkflowExist E d i)"
  unfolding CheckWorkflowExist_def by (auto intro!: emits_intro)

lemma emits_DeleteTinkerbellWorkflowIfExists [emits_intro]:
  "P K8sClient \<Longrightarrow> P (K8sDeleteWorkflow (k8s_namespace E) (generateWorkflowName u)) \<Longrightarrow>
   emits P (DeleteTinkerbellWorkflowIfExists E u)"
  unfolding DeleteTinkerbellWorkflowIfExists_def by (auto intro!: emits_intro)

end
