(* ===== verification/InstRec.thy ===== *)
theory InstRec
  imports Reconciler Workflow
begin

text \<open>
  \<open>onboarding-manager/internal/handlers/controller/reconcilers/instance.go\<close>: the Instance
  reconciler, which provisions, deletes and invalidates Instances. The Instance of a
  reconciliation is one mutable struct in the code; here each step returns it.
\<close>

section \<open>Status checks\<close>

definition checkStatusUnknown :: "inst \<Rightarrow> bool" where
  "checkStatusUnknown i \<longleftrightarrow> i_InstanceStatus i = ''Unknown''"

definition calm :: "indication \<Rightarrow> bool" where
  "calm x \<longleftrightarrow> x = IND_IDLE \<or> x = IND_UNSPECIFIED"

definition checkStatusIdle :: "inst \<Rightarrow> bool" where
  "checkStatusIdle i \<longleftrightarrow> calm (i_InstanceStatusIndicator i) \<and> calm (i_ProvisioningStatusIndicator i) \<and>
     calm (i_UpdateStatusIndicator i) \<and> calm (i_TrustedAttestationStatusIndicator i)"

section \<open>Device info of an Instance\<close>

definition compressionExtensions :: "string list" where
  "compressionExtensions = [''.bz2'', ''.bzip2'', ''.gz'', ''.xz'', ''.zs'', ''.zst'']"

definition os_location :: "om_env \<Rightarrow> os_res \<Rightarrow> goerr + string" where
  "os_location E os = (case os_Type os of
     OS_TYPE_MUTABLE \<Rightarrow> Inr (os_ImageUrl os)
   | OS_TYPE_IMMUTABLE \<Rightarrow>
       if parse_request_uri_ok E (os_ImageUrl os) then Inr (os_ImageUrl os)
       else Inr (''http://127.0.0.1/'' @ os_ImageUrl os)
   | OS_TYPE_UNSPECIFIED \<Rightarrow> Inl (Errorf ''Unsupported OS type''))"

text \<open>Kernel version and the skip flag, read from the metadata of an immutable OS; metadata that
  is not a JSON map of texts is ignored.\<close>

definition kernel_metadata :: "om_env \<Rightarrow> os_res \<Rightarrow> string \<times> bool" where
  "kernel_metadata E os =
     (if os_Type os = OS_TYPE_IMMUTABLE \<and> os_Metadata os \<noteq> '''' then
        (case parse_json_map E (os_Metadata os) of
           None \<Rightarrow> ('''', False)
         | Some m \<Rightarrow> ((case map_of m ''kernelversion'' of None \<Rightarrow> '''' | Some kv \<Rightarrow> kv),
                      map_of m ''skipkernelupgrade'' = Some ''true''))
      else ('''', False))"

definition convertInstanceToDeviceInfo :: "om_env \<Rightarrow> inst \<Rightarrow> goerr + device_info" where
  "convertInstanceToDeviceInfo E i = (case i_Os i of
     None \<Rightarrow> Inl (Errorfc InvalidArgument ''Instance has no OS associated'')
   | Some os \<Rightarrow> (case os_location E os of
       Inl e \<Rightarrow> Inl e
     | Inr osLocationURL \<Rightarrow> (case IsStandalone E i of
         Inl e \<Rightarrow> Inl e
       | Inr isStandalone \<Rightarrow> (case kernel_metadata E os of (kernelVersion, skipKernelUpgrade) \<Rightarrow>
           let host = (case i_Host i of None \<Rightarrow> empty_host | Some h \<Rightarrow> h) in
           Inr (empty_device_info\<lparr>
             di_GUID := h_Uuid host,
             di_HwSerialID := h_SerialNumber host,
             di_HwMacID := h_PxeMac host,
             di_HwIP := h_BmcIp host,
             di_UserLVMSize := ucast (h_UserLvmSize host),
             di_Hostname := h_ResourceId host,
             di_SecurityFeature := i_SecurityFeature i,
             di_OSImageURL := osLocationURL,
             di_OsImageSHA256 := os_Sha256 os,
             di_TinkerVersion := tinker_action_version E,
             di_OsType := os_Type os,
             di_OSResourceID := os_ResourceId os,
             di_PlatformBundle := os_PlatformBundle os,
             di_IsStandaloneNode := isStandalone,
             di_KernelVersion := kernelVersion,
             di_SkipKernelUpgrade := skipKernelUpgrade,
             di_OSImageCompressed := list_ex (has_suffix osLocationURL) compressionExtensions\<rparr>)))))"

section \<open>Writing an Instance back\<close>

definition updateInstanceStatuses :: "om_env \<Rightarrow> client \<Rightarrow> inst \<Rightarrow> unit om" where
  "updateInstanceStatuses E c i =
     bnd (UpdateInstanceStatuses E c (i_TenantId i) (i_ResourceId i) (slot_instance i)
            (i_InstanceStatusDetail i) (slot_provisioning i) (slot_update i) (slot_attestation i))
         (\<lambda>_. ret ())"

text \<open>\<open>oldInstance.Os != newInstance.Os\<close> compares pointers: the old Instance is a clone, so its
  \<open>Os\<close> is a copy of its own, and the two pointers are equal only when both are nil.\<close>

definition os_pointers_differ :: "inst \<Rightarrow> inst \<Rightarrow> bool" where
  "os_pointers_differ old new \<longleftrightarrow> i_Os old \<noteq> None \<or> i_Os new \<noteq> None"

definition updateHostInstanceStatusAndCurrentState :: "om_env \<Rightarrow> client \<Rightarrow> inst \<Rightarrow> inst \<Rightarrow> unit om" where
  "updateHostInstanceStatusAndCurrentState E c old new =
     (let newHost = i_Host new;
          h = (case newHost of None \<Rightarrow> empty_host | Some x \<Rightarrow> x) in
      bnd (of_outcome (IsSameHostStatus (i_Host old) newHost)) (\<lambda>same.
      bnd (if \<not> same then
             bnd (SetHostStatus E c (h_TenantId h) (h_ResourceId h)
                    (mk_status (h_HostStatus h) (h_HostStatusIndicator h))) (\<lambda>_. ret ())
           else ret ()) (\<lambda>_.
      bnd (of_outcome (IsSameOnboardingStatus (i_Host old) newHost)) (\<lambda>same.
      bnd (if \<not> same then
             bnd (SetHostOnboardingStatus E c (h_TenantId h) (h_ResourceId h)
                    (mk_status (h_OnboardingStatus h) (h_OnboardingStatusIndicator h))) (\<lambda>_. ret ())
           else ret ()) (\<lambda>_.
      if \<not> IsSameInstanceStatusAndState old new \<or> os_pointers_differ old new then
        bnd (UpdateInstance E c (i_TenantId new) (i_ResourceId new) (i_CurrentState new)
               (slot_provisioning new) (i_Os new)) (\<lambda>_. ret ())
      else ret ())))))"

definition cleanupProvisioningResources :: "om_env \<Rightarrow> inst \<Rightarrow> error om" where
  "cleanupProvisioningResources E i =
     DeleteTinkerbellWorkflowIfExists E (case i_Host i of None \<Rightarrow> '''' | Some h \<Rightarrow> h_Uuid h)"

text \<open>
  The deferred function reads the \<open>err\<close> of the enclosing scope, which is nil when it is
  registered. The \<open>err\<close> of the \<open>if\<close> statement is a new variable, and returning it does not
  assign the outer one: the deferred function always sees nil. When the provisioning panics,
  the Instance is as it was.
\<close>

definition tryProvisionInstance :: "om_env \<Rightarrow> client \<Rightarrow> inst \<Rightarrow> (inst \<times> error) om" where
  "tryProvisionInstance E c i = (case i_Os i of
     None \<Rightarrow> ret (i, None)
   | Some os \<Rightarrow>
       if os_Provider os \<noteq> OS_PROVIDER_KIND_INFRA then ret (i, None)
       else (case convertInstanceToDeviceInfo E i of
         Inl e \<Rightarrow> ret (i, Some e)
       | Inr deviceInfo \<Rightarrow>
           (let err = None; oldInstance = i in
            with_defer
              (bnd (CheckStatusOrRunProdWorkflow E deviceInfo i) (\<lambda>(i1, err').
                 if err' \<noteq> None then ret (i1, err')
                 else ret (PopulateInstanceStatusAndCurrentState i1 INSTANCE_STATE_RUNNING
                             ProvisioningStatusDone, None)))
              (\<lambda>r. let i1 = (case r of Ret (x, _) \<Rightarrow> x | Panic \<Rightarrow> i);
                       i2 = (if convert_code (lib E) err = Aborted
                             then PopulateInstanceProvisioningStatus i1 ProvisioningStatusFailed else i1)
                   in updateHostInstanceStatusAndCurrentState E c oldInstance i2))))"

section \<open>Reconciling\<close>

definition reconcileInstance :: "om_env \<Rightarrow> client \<Rightarrow> inst \<Rightarrow> directive om" where
  "reconcileInstance E c i =
     (if i_DesiredState i = INSTANCE_STATE_RUNNING then
        bnd (tryProvisionInstance E c i) (\<lambda>(i1, err).
        or_go_on (HandleProvisioningError (lib E) err)
          (bnd (cleanupProvisioningResources E i1) (\<lambda>_. ret Ack)))
      else if i_DesiredState i = INSTANCE_STATE_DELETED then
        bnd (cleanupProvisioningResources E i) (\<lambda>err.
        or_go_on (if err \<noteq> None then HandleProvisioningError (lib E) err else None)
          (bnd (UpdateInstanceCurrentState E c (i_TenantId i)
                  (empty_inst\<lparr>i_ResourceId := i_ResourceId i, i_CurrentState := INSTANCE_STATE_DELETED\<rparr>))
             (\<lambda>err. or_go_on (HandleInventoryError (lib E) err) (ret Ack))))
      else if i_DesiredState i = INSTANCE_STATE_UNTRUSTED then
        bnd (UpdateInstanceCurrentState E c (i_TenantId i)
               (empty_inst\<lparr>i_ResourceId := i_ResourceId i, i_CurrentState := INSTANCE_STATE_UNTRUSTED\<rparr>))
          (\<lambda>err. or_go_on (HandleInventoryError (lib E) err) (ret Ack))
      else ret Ack)"

definition handleProviderSpecificRM :: "inst \<Rightarrow> directive option" where
  "handleProviderSpecificRM i = (case i_Host i of
     Some h \<Rightarrow> if h_Provider h \<noteq> None then Some Ack else None
   | None \<Rightarrow> None)"

definition handleErrorState :: "inst \<Rightarrow> directive option" where
  "handleErrorState i =
     (if i_ProvisioningStatusIndicator i = st_Indicator ProvisioningStatusFailed \<and>
         i_DesiredState i \<noteq> INSTANCE_STATE_DELETED
      then Some Ack else None)"

definition host_untrusted :: "inst \<Rightarrow> bool" where
  "host_untrusted i \<longleftrightarrow> (case i_Host i of None \<Rightarrow> False | Some h \<Rightarrow>
     h_CurrentState h = HOST_STATE_UNTRUSTED \<or> h_DesiredState h = HOST_STATE_UNTRUSTED)"

definition handleHostDeauthorized :: "om_env \<Rightarrow> client \<Rightarrow> inst \<Rightarrow> directive option om" where
  "handleHostDeauthorized E c i =
     (if host_untrusted i \<and> i_DesiredState i = INSTANCE_STATE_RUNNING then
        (if \<not> checkStatusUnknown i then
           (let i1 = (if \<not> checkStatusIdle i then PopulateInstanceIdleStatus i else i) in
            bnd (case convertInstanceToDeviceInfo E i1 of
                   Inl _ \<Rightarrow> ret False
                 | Inr deviceInfo \<Rightarrow> CheckWorkflowExist E deviceInfo i1) (\<lambda>wf_exists.
            bnd (if wf_exists then cleanupProvisioningResources E i1 else ret None) (\<lambda>err.
              if err \<noteq> None then ret (Some Ack)
              else bnd (updateInstanceStatuses E c i1) (\<lambda>_. ret (Some Ack)))))
         else ret (Some Ack))
      else ret None)"

definition handleMatchingStates :: "om_env \<Rightarrow> client \<Rightarrow> inst \<Rightarrow> directive option om" where
  "handleMatchingStates E c i =
     (if i_DesiredState i = i_CurrentState i then
        (if i_CurrentState i = INSTANCE_STATE_RUNNING \<and>
            i_ProvisioningStatusIndicator i \<noteq> st_Indicator ProvisioningStatusDone \<and>
            i_ProvisioningStatus i \<noteq> st_Status ProvisioningStatusDone
         then bnd (reconcileInstance E c i) (\<lambda>d. ret (Some d))
         else ret (Some Ack))
      else ret None)"

definition handleHostOnboarded :: "inst \<Rightarrow> directive option" where
  "handleHostOnboarded i =
     (if i_DesiredState i \<noteq> INSTANCE_STATE_RUNNING \<or>
         (case i_Host i of None \<Rightarrow> HOST_STATE_UNSPECIFIED | Some h \<Rightarrow> h_CurrentState h) = HOST_STATE_ONBOARDED
      then None else Some Ack)"

definition reconcile_loaded :: "om_env \<Rightarrow> client \<Rightarrow> inst \<Rightarrow> directive om" where
  "reconcile_loaded E c i =
     or_go_on (handleProviderSpecificRM i)
    (or_go_on (handleErrorState i)
    (bnd (handleHostDeauthorized E c i) (\<lambda>d. or_go_on d
    (bnd (handleMatchingStates E c i) (\<lambda>d. or_go_on d
    (or_go_on (handleHostOnboarded i)
       (reconcileInstance E c i)))))))"

text \<open>A nil Instance without an error passes the nil-safe getters of the first checks and panics
  at \<open>instance.DesiredState\<close>.\<close>

definition InstanceReconcile :: "om_env \<Rightarrow> client \<Rightarrow> string \<Rightarrow> directive om" where
  "InstanceReconcile E c rid =
     bnd (of_outcome (GetResourceID rid)) (\<lambda>resourceID.
     bnd (GetInstanceResourceByResourceID E c (GetTenantID rid) resourceID) (\<lambda>r.
       case r of
         Inl e \<Rightarrow> or_go_on (HandleInventoryError (lib E) (Some e)) panic
       | Inr iopt \<Rightarrow> or_go_on (HandleInventoryError (lib E) None)
           (bnd (deref iopt) (reconcile_loaded E c))))"

section \<open>Which calls a reconciliation makes\<close>

definition inst_rec_masks :: "field list set" where
  "inst_rec_masks = {[F_current_state], instance_statuses_fields, update_instance_fields,
     onboarding_status_fields, [F_host_status, F_host_status_indicator, F_host_status_timestamp]}"

fun inst_rec_call :: "client \<Rightarrow> om_call \<Rightarrow> bool" where
  "inst_rec_call c (InvGet c' t i) = (c' = c)"
| "inst_rec_call c (InvUpdate c' t i fs r) = (c' = c \<and> fs \<in> inst_rec_masks)"
| "inst_rec_call c (K8sDeleteWorkflow ns n) = True"
| "inst_rec_call c x = workflow_call x"

lemma workflow_call_inst_rec: "workflow_call x \<Longrightarrow> inst_rec_call c x"
  by (cases x) auto

lemma emits_updateInstanceStatuses [emits_intro]:
  "(\<And>r. P (InvUpdate c (i_TenantId i) (i_ResourceId i) instance_statuses_fields r)) \<Longrightarrow>
   emits P (updateInstanceStatuses E c i)"
  unfolding updateInstanceStatuses_def by (auto intro!: emits_intro)

lemma emits_updateHostInstance [emits_intro]:
  assumes "\<And>t i r. P (InvUpdate c t i [F_host_status, F_host_status_indicator, F_host_status_timestamp] r)"
    and "\<And>t i r. P (InvUpdate c t i onboarding_status_fields r)"
    and "\<And>r. P (InvUpdate c (i_TenantId new) (i_ResourceId new) update_instance_fields r)"
  shows "emits P (updateHostInstanceStatusAndCurrentState E c old new)"
  unfolding updateHostInstanceStatusAndCurrentState_def Let_def
  by (intro emits_intro assms)

lemma emits_cleanup [emits_intro]:
  "P K8sClient \<Longrightarrow> (\<And>n. P (K8sDeleteWorkflow (k8s_namespace E) n)) \<Longrightarrow>
   emits P (cleanupProvisioningResources E i)"
  unfolding cleanupProvisioningResources_def by (auto intro!: emits_intro)

lemma emits_tryProvision: "emits (inst_rec_call c) (tryProvisionInstance E c i)"
  unfolding tryProvisionInstance_def Let_def
  by (intro emits_intro) (auto simp: inst_rec_masks_def workflow_call_inst_rec)

lemma emits_reconcileInstance: "emits (inst_rec_call c) (reconcileInstance E c i)"
  unfolding reconcileInstance_def
  by (intro emits_intro emits_tryProvision) (auto simp: inst_rec_masks_def)

lemma emits_InstanceReconcile: "emits (inst_rec_call c) (InstanceReconcile E c rid)"
  unfolding InstanceReconcile_def reconcile_loaded_def handleHostDeauthorized_def
    handleMatchingStates_def Let_def
  by (intro emits_intro emits_reconcileInstance) (auto simp: inst_rec_masks_def workflow_call_inst_rec)

section \<open>What a provisioning attempt does\<close>

lemma returns_updateHostInstance [returns_intro]:
  "i_Host old \<noteq> None \<Longrightarrow> i_Host new \<noteq> None \<Longrightarrow>
   returns (updateHostInstanceStatusAndCurrentState E c old new)"
  unfolding updateHostInstanceStatusAndCurrentState_def Let_def
  by (auto intro!: returns_intro)

lemma returns_k8s [returns_intro]: "returns (K8sClientFactory E)" "returns (DeleteWorkflowIfExists E ns n)"
  unfolding K8sClientFactory_def DeleteWorkflowIfExists_def by (intro returns_intro)+

lemma returns_cleanup [returns_intro]: "returns (cleanupProvisioningResources E i)"
  unfolding cleanupProvisioningResources_def DeleteTinkerbellWorkflowIfExists_def by (intro returns_intro)

text \<open>An Instance that is up for provisioning: its OS is provisioned by the infrastructure, and
  the device info can be made.\<close>

definition provisionable :: "om_env \<Rightarrow> inst \<Rightarrow> os_res \<Rightarrow> device_info \<Rightarrow> bool" where
  "provisionable E i os d \<longleftrightarrow> i_Os i = Some os \<and> os_Provider os = OS_PROVIDER_KIND_INFRA \<and>
     convertInstanceToDeviceInfo E i = Inr d \<and> i_Host i \<noteq> None"

text \<open>Kubernetes answers that the workflow exists and is \<open>w\<close>.\<close>

definition workflow_is :: "om_env \<Rightarrow> workflow \<Rightarrow> bool" where
  "workflow_is E w \<longleftrightarrow> (\<forall>l. k8s_client E l = None) \<and> (\<forall>l ns n. k8s_get_workflow E l ns n = Inr w)"

lemma check_existing_workflow:
  assumes "workflow_is E w" and "i_Host i \<noteq> None"
  shows "run_io (CheckStatusOrRunProdWorkflow E d i) l =
    (handleWorkflowStatus E (PopulateInstanceStatusAndCurrentState i INSTANCE_STATE_UNSPECIFIED ProvisioningStatusInProgress)
       w ProvisioningStatusDone ProvisioningStatusFailed,
     l @ [K8sClient, K8sGetWorkflow (k8s_namespace E) (generateWorkflowName (di_GUID d))])"
  using assms by (auto simp: CheckStatusOrRunProdWorkflow_def K8sClientFactory_def getWorkflow_def workflow_is_def)

lemma handleWorkflowStatus_host:
  "handleWorkflowStatus E i w s f = Ret (i', err) \<Longrightarrow> i_Host i \<noteq> None \<Longrightarrow> i_Host i' \<noteq> None"
  by (auto simp: handleWorkflowStatus_def Let_def PopulateInstanceStatusAndCurrentState_def
      PopulateHostStatus_def PopulateInstanceProvisioningStatus_def
      split: wf_state.splits sum.splits if_splits option.splits outcome.splits)

lemma handleWorkflowStatus_returns:
  "i_Host i \<noteq> None \<Longrightarrow> handleWorkflowStatus E i w s f \<noteq> Panic"
  by (auto simp: handleWorkflowStatus_def Let_def PopulateInstanceStatusAndCurrentState_def
      PopulateHostStatus_def split: wf_state.splits sum.splits if_splits option.splits outcome.splits)

text \<open>The Instance and error that the attempt ends with, given those of the workflow check.\<close>

definition after_check :: "inst \<times> error \<Rightarrow> inst \<times> error" where
  "after_check r = (if snd r \<noteq> None then r
     else (PopulateInstanceStatusAndCurrentState (fst r) INSTANCE_STATE_RUNNING ProvisioningStatusDone, None))"

lemma tryProvision_existing_workflow:
  assumes "errlib_laws (lib E)" and "provisionable E i os d" and "workflow_is E w"
  obtains r l' where
    "handleWorkflowStatus E (PopulateInstanceStatusAndCurrentState i INSTANCE_STATE_UNSPECIFIED
       ProvisioningStatusInProgress) w ProvisioningStatusDone ProvisioningStatusFailed = Ret r"
    and "run_io (tryProvisionInstance E c i) l = (Ret (after_check r), l')"
proof -
  let ?i0 = "PopulateInstanceStatusAndCurrentState i INSTANCE_STATE_UNSPECIFIED ProvisioningStatusInProgress"
  from assms(2) have host: "i_Host i \<noteq> None" "i_Host ?i0 \<noteq> None"
    by (simp_all add: provisionable_def PopulateInstanceStatusAndCurrentState_def)
  then obtain i1 err where r: "handleWorkflowStatus E ?i0 w ProvisioningStatusDone ProvisioningStatusFailed = Ret (i1, err)"
    using handleWorkflowStatus_returns by (metis outcome.exhaust prod.collapse)
  have host1: "i_Host (fst (after_check (i1, err))) \<noteq> None"
    using handleWorkflowStatus_host [OF r] host
    by (simp add: after_check_def PopulateInstanceStatusAndCurrentState_def)
  let ?l1 = "l @ [K8sClient, K8sGetWorkflow (k8s_namespace E) (generateWorkflowName (di_GUID d))]"
  obtain l2 where upd: "run_io (updateHostInstanceStatusAndCurrentState E c i (fst (after_check (i1, err)))) ?l1 = (Ret (), l2)"
    using returnsD [OF returns_updateHostInstance [OF host(1) host1]] by force
  have "run_io (tryProvisionInstance E c i) l = (Ret (after_check (i1, err)), l2)"
    using assms(1,2) upd host
    by (cases err)
      (auto simp: tryProvisionInstance_def provisionable_def Let_def after_check_def
        check_existing_workflow [OF assms(3)] r)
  with r that show thesis by blast
qed

text \<open>The directive of a reconciliation, by the state of the workflow.\<close>

lemma run_reconcile_provisioning:
  assumes "errlib_laws (lib E)" and "provisionable E i os d" and "workflow_is E w"
    and "i_DesiredState i = INSTANCE_STATE_RUNNING"
  shows "\<exists>l'. run_io (reconcileInstance E c i) l = (Ret (case wf_State w of
      WF_SUCCESS \<Rightarrow> (case IsStandalone E i of Inl e \<Rightarrow> the (HandleProvisioningError (lib E) (Some e)) | Inr _ \<Rightarrow> Ack)
    | WF_FAILED \<Rightarrow> Fail (Some (Errorfc Aborted ''Workflow failed or timed out''))
    | WF_TIMEOUT \<Rightarrow> Fail (Some (Errorfc Aborted ''Workflow failed or timed out''))
    | WF_OTHER s \<Rightarrow> Retry (Some (Errorf (''Unknown workflow state '' @ s))) minDelay maxDelay
    | _ \<Rightarrow> Retry (Some (Errorfr OperationInProgress '''')) minDelay maxDelay), l')"
proof -
  let ?i0 = "PopulateInstanceStatusAndCurrentState i INSTANCE_STATE_UNSPECIFIED ProvisioningStatusInProgress"
  obtain i1 err l1 where
    r: "handleWorkflowStatus E ?i0 w ProvisioningStatusDone ProvisioningStatusFailed = Ret (i1, err)"
    and run: "run_io (tryProvisionInstance E c i) l = (Ret (after_check (i1, err)), l1)"
    using tryProvision_existing_workflow [OF assms(1-3)] by (metis prod.collapse)
  obtain i2 where ac: "after_check (i1, err) = (i2, err)"
    by (cases err) (auto simp: after_check_def)
  obtain e l2 where clean: "run_io (cleanupProvisioningResources E i2) l1 = (Ret e, l2)"
    using returnsD [OF returns_cleanup] by blast
  have alone: "IsStandalone E (i\<lparr>i_CurrentState := a, i_ProvisioningStatus := b, i_ProvisioningStatusIndicator := x\<rparr>)
      = IsStandalone E i" for a b x
    by (simp add: IsStandalone_def)
  have unknown: "HandleProvisioningError (lib E) (Some (Errorf m)) = Some (Retry (Some (Errorf m)) minDelay maxDelay)" for m
    using assms(1) by (simp add: HandleProvisioningError_def)
  have reconcile: "run_io (reconcileInstance E c i) l = (case HandleProvisioningError (lib E) err of
      Some dir \<Rightarrow> (Ret dir, l1) | None \<Rightarrow> (Ret Ack, l2))"
    using assms(4) by (simp add: reconcileInstance_def run ac clean split: option.split)
  from r assms(1) show ?thesis unfolding reconcile
    by (auto simp: handleWorkflowStatus_def Let_def PopulateInstanceStatusAndCurrentState_def alone unknown
        HandleProvisioningError_Some
        split: wf_state.splits sum.splits if_splits option.splits outcome.splits)
qed

section \<open>Guards of a reconciliation\<close>

text \<open>The Inventory holds Instance \<open>i\<close> under the id of the request.\<close>

definition stored :: "om_env \<Rightarrow> client \<Rightarrow> string \<Rightarrow> inst \<Rightarrow> bool" where
  "stored E c rid i \<longleftrightarrow> (\<exists>r. GetResourceID rid = Ret r \<and>
     (\<forall>l. inv_get E l c (GetTenantID rid) r = Inr (Some (ResInstance i)))) \<and>
     validate_message E (Some (ResInstance i)) = None"

definition request_get :: "client \<Rightarrow> string \<Rightarrow> om_call" where
  "request_get c rid = InvGet c (GetTenantID rid) (case GetResourceID rid of Ret r \<Rightarrow> r | Panic \<Rightarrow> '''')"

lemma run_stored:
  assumes "errlib_laws (lib E)" and "stored E c rid i"
  shows "run_io (InstanceReconcile E c rid) l = run_io (reconcile_loaded E c i) (l @ [request_get c rid])"
  using assms by (auto simp: stored_def InstanceReconcile_def GetInstanceResourceByResourceID_def
      get_validated_def getResourceByID_def request_get_def)

lemma emits_stored:
  assumes "errlib_laws (lib E)" and "stored E c rid i"
    and "P (request_get c rid)" and "emits P (reconcile_loaded E c i)"
  shows "emits P (InstanceReconcile E c rid)"
  unfolding emits_def
proof
  fix l
  obtain r l' where run: "run_io (reconcile_loaded E c i) (l @ [request_get c rid]) = (r, l')" by fastforce
  from emitsD [OF assms(4) run] run_stored [OF assms(1,2), of l] run assms(3)
  show "\<exists>cs. snd (run_io (InstanceReconcile E c rid) l) = l @ cs \<and> list_all P cs"
    by auto
qed

fun creates_workflow :: "om_call \<Rightarrow> bool" where
  "creates_workflow (K8sCreate ob) = True"
| "creates_workflow _ = False"

lemma deauthorized_creates_nothing:
  "emits (\<lambda>x. \<not> creates_workflow x) (handleHostDeauthorized E c i)"
  unfolding handleHostDeauthorized_def CheckWorkflowExist_def Let_def by (intro emits_intro) auto

text \<open>
  The condition under which a reconciliation may create a workflow: the Instance is wanted
  running on a trusted host of this manager, its OS is provisioned by the infrastructure, its
  provisioning has not failed, and either its host is onboarded or the host manager has
  reported the Instance as running while its provisioning is not done.
\<close>

definition provisioning_open :: "inst \<Rightarrow> bool" where
  "provisioning_open i \<longleftrightarrow> i_DesiredState i = INSTANCE_STATE_RUNNING \<and>
     i_ProvisioningStatusIndicator i \<noteq> st_Indicator ProvisioningStatusFailed \<and> \<not> host_untrusted i \<and>
     (\<forall>h. i_Host i = Some h \<longrightarrow> h_Provider h = None) \<and>
     (\<exists>os. i_Os i = Some os \<and> os_Provider os = OS_PROVIDER_KIND_INFRA) \<and>
     (if i_CurrentState i = INSTANCE_STATE_RUNNING
      then i_ProvisioningStatusIndicator i \<noteq> st_Indicator ProvisioningStatusDone \<and>
        i_ProvisioningStatus i \<noteq> st_Status ProvisioningStatusDone
      else \<exists>h. i_Host i = Some h \<and> h_CurrentState h = HOST_STATE_ONBOARDED)"

lemma deauthorized_stops:
  assumes "host_untrusted i" and "i_DesiredState i = INSTANCE_STATE_RUNNING"
    and "run_io (handleHostDeauthorized E c i) l = (r, l')"
  shows "r = Panic \<or> r = Ret (Some Ack)"
  using assms
  by (auto simp: handleHostDeauthorized_def Let_def split: if_splits prod.splits outcome.splits)

lemma reconcileInstance_creates:
  assumes "i_DesiredState i = INSTANCE_STATE_RUNNING \<Longrightarrow>
    \<nexists>os. i_Os i = Some os \<and> os_Provider os = OS_PROVIDER_KIND_INFRA"
  shows "emits (\<lambda>x. \<not> creates_workflow x) (reconcileInstance E c i)"
  using assms
  by (auto simp: reconcileInstance_def tryProvisionInstance_def intro!: emits_intro split: option.splits)

lemma reconcile_loaded_creates:
  assumes "\<not> provisioning_open i"
  shows "emits (\<lambda>x. \<not> creates_workflow x) (reconcile_loaded E c i)"
proof -
  let ?P = "\<lambda>x. \<not> creates_workflow x"
  have last: "emits ?P (reconcileInstance E c i)"
    if "\<not> (i_DesiredState i = INSTANCE_STATE_RUNNING \<and>
      (\<exists>os. i_Os i = Some os \<and> os_Provider os = OS_PROVIDER_KIND_INFRA))"
    by (rule reconcileInstance_creates) (use that in blast)
  have rest: "emits ?P (bnd (handleMatchingStates E c i) (\<lambda>d. or_go_on d
      (or_go_on (handleHostOnboarded i) (reconcileInstance E c i))))"
    if "handleProviderSpecificRM i = None" "handleErrorState i = None"
      "\<not> (host_untrusted i \<and> i_DesiredState i = INSTANCE_STATE_RUNNING)"
  proof (cases "i_DesiredState i = INSTANCE_STATE_RUNNING \<and>
      (\<exists>os. i_Os i = Some os \<and> os_Provider os = OS_PROVIDER_KIND_INFRA)")
    case True
    with that assms show ?thesis
      by (auto simp: provisioning_open_def handleMatchingStates_def handleHostOnboarded_def
          handleProviderSpecificRM_def handleErrorState_def intro!: emits_intro
          split: option.splits if_splits)
  next
    case False
    with last show ?thesis
      by (auto simp: handleMatchingStates_def intro!: emits_intro)
  qed
  show ?thesis
    unfolding reconcile_loaded_def
  proof (cases "handleProviderSpecificRM i"; cases "handleErrorState i"; simp add: emits_ret)
    assume open_: "handleProviderSpecificRM i = None" "handleErrorState i = None"
    show "emits ?P (bnd (handleHostDeauthorized E c i) (\<lambda>d. or_go_on d
        (bnd (handleMatchingStates E c i) (\<lambda>d. or_go_on d
        (or_go_on (handleHostOnboarded i) (reconcileInstance E c i))))))"
    proof (rule emits_bnd_run [OF deauthorized_creates_nothing])
      fix l d l'
      assume "run_io (handleHostDeauthorized E c i) l = (Ret d, l')"
      then have "d = Some Ack" if "host_untrusted i \<and> i_DesiredState i = INSTANCE_STATE_RUNNING"
        using that deauthorized_stops by blast
      then show "emits ?P (or_go_on d (bnd (handleMatchingStates E c i) (\<lambda>d. or_go_on d
          (or_go_on (handleHostOnboarded i) (reconcileInstance E c i)))))"
        using rest [OF open_] by (cases d) (auto intro: emits_ret)
    qed
  qed
qed
lemma deletion_needs_cleanup:
  assumes "\<And>l ns n. k8s_delete_workflow E l ns n \<noteq> None \<and> \<not> k8s_is_not_found (lib E) (k8s_delete_workflow E l ns n)"
    and "i_DesiredState i = INSTANCE_STATE_DELETED"
  shows "emits (\<lambda>x. \<forall>c t r fs v. x \<noteq> InvUpdate c t r fs v) (reconcileInstance E c i)"
proof -
  have fails: "run_io (cleanupProvisioningResources E i) l \<noteq> (Ret None, l')" for l l'
    using assms(1) by (auto simp: cleanupProvisioningResources_def DeleteTinkerbellWorkflowIfExists_def
        DeleteWorkflowIfExists_def K8sClientFactory_def split: option.splits if_splits)
  have stop: "emits P (bnd (cleanupProvisioningResources E i) f)"
    if "P K8sClient" "\<And>n. P (K8sDeleteWorkflow (k8s_namespace E) n)" "\<And>e. emits P (f (Some e))" for P f
    by (rule emits_bnd_run) (use that fails in \<open>auto intro!: emits_intro simp: not_None_eq\<close>, metis not_Some_eq)
  have go_on: "emits P (or_go_on (HandleProvisioningError (lib E) (Some e)) m)" for P m e
    using HandleProvisioningError_Some [of "lib E" e] by (auto simp: or_go_on_def intro!: emits_ret)
  show ?thesis
    unfolding reconcileInstance_def using assms(2) by (simp, intro stop) (auto intro: go_on)
qed

section \<open>A deauthorized host\<close>

lemma deauthorized_repeats:
  assumes "host_untrusted i" and "i_DesiredState i = INSTANCE_STATE_RUNNING"
    and "i_InstanceStatus i \<noteq> ''Unknown''" and "checkStatusIdle i"
    and "convertInstanceToDeviceInfo E i = Inl e"
  shows "handleHostDeauthorized E c i = bnd (updateInstanceStatuses E c i) (\<lambda>_. ret (Some Ack))"
  using assms by (simp add: handleHostDeauthorized_def checkStatusUnknown_def)

lemma deauthorized_done:
  assumes "host_untrusted i" and "i_DesiredState i = INSTANCE_STATE_RUNNING"
    and "i_InstanceStatus i = ''Unknown''"
  shows "handleHostDeauthorized E c i = ret (Some Ack)"
  using assms by (simp add: handleHostDeauthorized_def checkStatusUnknown_def)

end
