(* ===== verification/Controller.thy ===== *)
theory Controller
  imports HostRec InstRec
begin

text \<open>
  \<open>onboarding-manager/internal/handlers/controller/controller.go\<close>: the controller that turns
  events into reconciliation requests. A request handed to the controller library is a call
  \<open>CtrlReconcile kind id\<close>; what the library does with it later is \<open>dispatch\<close>. In the vPro
  profile (\<open>skip\<close>) there is no Instance controller and no Tinkerbell. The validation of an
  event and its resource key are code of the Inventory API (\<open>valid_event\<close>, \<open>event_key\<close>).
\<close>

section \<open>Events\<close>

datatype event_kind = EVENT_KIND_UNSPECIFIED | EVENT_KIND_CREATED | EVENT_KIND_UPDATED
  | EVENT_KIND_DELETED

record sub_event =
  ev_ResourceId :: string
  ev_EventKind :: event_kind
  ev_Resource :: "resource option"

definition instanceEventFilter :: "sub_event \<Rightarrow> bool" where
  "instanceEventFilter ev \<longleftrightarrow> ev_EventKind ev = EVENT_KIND_UPDATED \<or>
     ev_EventKind ev = EVENT_KIND_CREATED \<or> ev_EventKind ev = EVENT_KIND_DELETED"

definition hostEventFilter :: "sub_event \<Rightarrow> bool" where
  "hostEventFilter ev \<longleftrightarrow> ev_EventKind ev \<noteq> EVENT_KIND_DELETED"

text \<open>The maps \<open>filters\<close> and \<open>controllers\<close> that \<open>New\<close> fills.\<close>

definition filters_of :: "bool \<Rightarrow> res_kind \<Rightarrow> (sub_event \<Rightarrow> bool) option" where
  "filters_of skip k =
     (if k = KIND_HOST then Some hostEventFilter
      else if k = KIND_INSTANCE \<and> \<not> skip then Some instanceEventFilter else None)"

definition has_controller :: "bool \<Rightarrow> res_kind \<Rightarrow> bool" where
  "has_controller skip k \<longleftrightarrow> k = KIND_HOST \<or> (k = KIND_INSTANCE \<and> \<not> skip)"

definition filterEvent :: "om_env \<Rightarrow> (sub_event \<Rightarrow> bool) \<Rightarrow> bool \<Rightarrow> sub_event \<Rightarrow> bool" where
  "filterEvent E valid_event skip ev =
     (if \<not> valid_event ev then False
      else (case kind_of_id E (ev_ResourceId ev) of
        Inl e \<Rightarrow> False
      | Inr expectedKind \<Rightarrow> (case filters_of skip expectedKind of
          None \<Rightarrow> False
        | Some flt \<Rightarrow> flt ev)))"

section \<open>Requests\<close>

definition reconcileResource :: "om_env \<Rightarrow> bool \<Rightarrow> string \<Rightarrow> string \<Rightarrow> error om" where
  "reconcileResource E skip tenantID resourceID =
     (case kind_of_id E resourceID of
        Inl e \<Rightarrow> ret (Some (PkgWrap e ''unknown resource kind for resource ID''))
      | Inr expectedKind \<Rightarrow>
          if \<not> has_controller skip expectedKind then
            ret (Some (FmtErrorf ''unknown resource controller for kind'' None))
          else (let rid = NewReconcilerID tenantID resourceID in
            call (CtrlReconcile expectedKind rid) (\<lambda>l. ctrl_reconcile E l expectedKind rid)))"

fun reconcile_ids :: "om_env \<Rightarrow> bool \<Rightarrow> (string \<times> string) list \<Rightarrow> error om" where
  "reconcile_ids E skip [] = ret None"
| "reconcile_ids E skip (i # ids) =
     if_nil (reconcileResource E skip (fst i) (snd i)) (reconcile_ids E skip ids)"

definition reconcileAll :: "om_env \<Rightarrow> bool \<Rightarrow> error om" where
  "reconcileAll E skip =
     bnd (FindAllResources E CliRM [KIND_HOST, KIND_INSTANCE]) (\<lambda>r.
       case r of
         Inl e \<Rightarrow> if is_not_found (lib E) (Some e) then ret None else ret (Some e)
       | Inr ids \<Rightarrow> reconcile_ids E skip ids)"

definition handleInternalEvent :: "om_env \<Rightarrow> bool \<Rightarrow> string \<Rightarrow> string \<Rightarrow> unit om" where
  "handleInternalEvent E skip tenantID resourceID =
     bnd (reconcileResource E skip tenantID resourceID) (\<lambda>_. ret ())"

definition handleInventoryEvent ::
  "om_env \<Rightarrow> (sub_event \<Rightarrow> bool) \<Rightarrow> (sub_event \<Rightarrow> goerr + string \<times> string) \<Rightarrow> bool \<Rightarrow> sub_event \<Rightarrow> unit om" where
  "handleInventoryEvent E valid_event event_key skip ev =
     (if \<not> filterEvent E valid_event skip ev then ret ()
      else (case event_key ev of
        Inl e \<Rightarrow> ret ()
      | Inr (tID, resID) \<Rightarrow> bnd (reconcileResource E skip tID resID) (\<lambda>_. ret ())))"

text \<open>The control loop takes the outcomes of its \<open>select\<close> in order. A closed channel is fatal
  for the process.\<close>

datatype select_outcome = Watched sub_event | WatcherClosed | Internally string string
  | InternalClosed | Tick | Stop

fun controlLoop ::
  "om_env \<Rightarrow> (sub_event \<Rightarrow> bool) \<Rightarrow> (sub_event \<Rightarrow> goerr + string \<times> string) \<Rightarrow> bool \<Rightarrow>
   select_outcome list \<Rightarrow> unit om" where
  "controlLoop E v k skip [] = ret ()"
| "controlLoop E v k skip (s # rest) = (case s of
     Watched ev \<Rightarrow> bnd (handleInventoryEvent E v k skip ev) (\<lambda>_. controlLoop E v k skip rest)
   | WatcherClosed \<Rightarrow> panic
   | Internally t i \<Rightarrow> bnd (handleInternalEvent E skip t i) (\<lambda>_. controlLoop E v k skip rest)
   | InternalClosed \<Rightarrow> panic
   | Tick \<Rightarrow> bnd (reconcileAll E skip) (\<lambda>_. controlLoop E v k skip rest)
   | Stop \<Rightarrow> ret ())"

definition Controller_Start :: "om_env \<Rightarrow> (string \<times> string) list \<Rightarrow> bool \<Rightarrow> error om" where
  "Controller_Start E templates skip =
     if_nil (if \<not> skip then Bootstrap E templates else ret None) (reconcileAll E skip)"

text \<open>What the library runs for a request that was handed to it.\<close>

definition dispatch :: "om_env \<Rightarrow> bool \<Rightarrow> res_kind \<Rightarrow> string \<Rightarrow> directive om" where
  "dispatch E skip k rid =
     (if k = KIND_HOST then HostReconcile E CliRM skip rid else InstanceReconcile E CliRM rid)"

interpretation ids_loop: stop_on_error
  "\<lambda>i. reconcileResource E skip (fst i) (snd i)" "reconcile_ids E skip" for E skip
  by unfold_locales simp_all

section \<open>Facts\<close>

fun request_ok :: "bool \<Rightarrow> om_call \<Rightarrow> bool" where
  "request_ok skip (CtrlReconcile k rid) = (has_controller skip k \<and> (\<exists>t r. rid = NewReconcilerID t r))"
| "request_ok skip (InvFindAll c k) = (c = CliRM)"
| "request_ok skip _ = False"

lemma emits_reconcileResource [emits_intro]: "emits (request_ok skip) (reconcileResource E skip t r)"
  unfolding reconcileResource_def Let_def by (intro emits_intro) auto

lemma emits_reconcileAll [emits_intro]: "emits (request_ok skip) (reconcileAll E skip)"
  unfolding reconcileAll_def
  by (intro emits_intro ids_loop.loop_emits) auto

lemma emits_events [emits_intro]:
  "emits (request_ok skip) (handleInternalEvent E skip t r)"
  "emits (request_ok skip) (handleInventoryEvent E v k skip ev)"
  unfolding handleInternalEvent_def handleInventoryEvent_def by (intro emits_intro)+

lemma emits_controlLoop: "emits (request_ok skip) (controlLoop E v k skip ss)"
proof (induction ss)
  case (Cons s ss)
  then show ?case by (cases s) (auto intro!: emits_intro)
qed (simp add: emits_ret)

text \<open>Every request that the controller hands over has a resource id that the reconciler can
  split, so the reconcilers do not panic on it.\<close>

lemma request_splits: "request_ok skip (CtrlReconcile k rid) \<Longrightarrow> GetResourceID rid \<noteq> Panic"
  by (auto simp: GetResourceID_Panic NewReconcilerID_def)

text \<open>A full reconciliation in the vPro profile stops at the first Instance.\<close>

lemma vpro_instance_stops:
  assumes "kind_of_id E r = Inr KIND_INSTANCE"
  shows "run_io (reconcile_ids E True ((t, r) # ids)) l =
    (Ret (Some (FmtErrorf ''unknown resource controller for kind'' None)), l)"
  using assms by (simp add: reconcileResource_def has_controller_def)

section \<open>What the control loop asks for\<close>

text \<open>The request that a resource key stands for, if there is a controller for it.\<close>

definition request_for :: "om_env \<Rightarrow> bool \<Rightarrow> string \<times> string \<Rightarrow> om_call option" where
  "request_for E skip i = (case kind_of_id E (snd i) of
     Inr k \<Rightarrow> if k = KIND_HOST \<or> k = KIND_INSTANCE \<and> \<not> skip then Some (CtrlReconcile k (fst i @ ''_'' @ snd i)) else None
   | Inl _ \<Rightarrow> None)"

text \<open>An event the loop acts on: a valid one, about a host that is not deleted or about an
  Instance.\<close>

definition of_interest :: "om_env \<Rightarrow> (sub_event \<Rightarrow> bool) \<Rightarrow> bool \<Rightarrow> sub_event \<Rightarrow> bool" where
  "of_interest E v skip ev \<longleftrightarrow> v ev \<and>
     (kind_of_id E (ev_ResourceId ev) = Inr KIND_HOST \<and> ev_EventKind ev \<noteq> EVENT_KIND_DELETED \<or>
      kind_of_id E (ev_ResourceId ev) = Inr KIND_INSTANCE \<and> \<not> skip \<and>
        ev_EventKind ev \<noteq> EVENT_KIND_UNSPECIFIED)"

lemma filterEvent_iff: "filterEvent E v skip ev = of_interest E v skip ev"
  by (cases "ev_EventKind ev")
    (auto simp: filterEvent_def of_interest_def filters_of_def instanceEventFilter_def
      hostEventFilter_def split: sum.splits)

text \<open>The calls one outcome of the \<open>select\<close> leads to. A full reconciliation hands over the
  resources in the order of the Inventory, the hosts first, up to the first one that no
  controller takes.\<close>

definition asked :: "om_env \<Rightarrow> (sub_event \<Rightarrow> bool) \<Rightarrow> (sub_event \<Rightarrow> goerr + string \<times> string) \<Rightarrow> bool \<Rightarrow>
    (res_kind \<Rightarrow> (string \<times> string) list) \<Rightarrow> select_outcome \<Rightarrow> om_call list" where
  "asked E v key skip found s = (case s of
     Watched ev \<Rightarrow> if of_interest E v skip ev
       then (case key ev of Inl _ \<Rightarrow> [] | Inr i \<Rightarrow> List.map_filter (request_for E skip) [i]) else []
   | Internally t r \<Rightarrow> List.map_filter (request_for E skip) [(t, r)]
   | Tick \<Rightarrow> [InvFindAll CliRM KIND_HOST, InvFindAll CliRM KIND_INSTANCE] @
       List.map_filter (request_for E skip)
         (takeWhile (\<lambda>i. request_for E skip i \<noteq> None) (found KIND_HOST @ found KIND_INSTANCE))
   | _ \<Rightarrow> [])"

lemma run_reconcileResource:
  "\<exists>e. run_io (reconcileResource E skip t r) l = (Ret e, l @ List.map_filter (request_for E skip) [(t, r)])"
  by (auto simp: reconcileResource_def has_controller_def request_for_def NewReconcilerID_def Let_def
      List.map_filter_def split: sum.split)

lemma run_reconcile_ids:
  assumes "\<And>l k rid. ctrl_reconcile E l k rid = None"
  shows "\<exists>e. run_io (reconcile_ids E skip ids) l = (Ret e, l @ List.map_filter (request_for E skip)
    (takeWhile (\<lambda>i. request_for E skip i \<noteq> None) ids))"
proof (induction ids arbitrary: l)
  case (Cons i ids)
  show ?case
  proof (cases "request_for E skip i")
    case None
    then show ?thesis
      by (auto simp: reconcileResource_def has_controller_def request_for_def Let_def List.map_filter_def
          split: sum.splits if_splits)
  next
    case (Some x)
    then have "run_io (reconcileResource E skip (fst i) (snd i)) l = (Ret None, l @ [x])"
      using assms by (auto simp: reconcileResource_def has_controller_def request_for_def NewReconcilerID_def Let_def
          split: sum.splits if_splits)
    with Some Cons.IH [of "l @ [x]"] show ?thesis by (simp add: map_filter_simps)
  qed
qed (simp add: map_filter_simps)

lemma run_reconcileAll:
  assumes "\<And>l k rid. ctrl_reconcile E l k rid = None"
    and "\<And>k. resource_from_kind E k = None" and "\<And>l k. inv_find_all E l CliRM k = Inr (found k)"
  shows "\<exists>e. run_io (reconcileAll E skip) l = (Ret e, l @ asked E v key skip found Tick)"
  using run_reconcile_ids [OF assms(1), of skip "found KIND_HOST @ found KIND_INSTANCE"
      "l @ [InvFindAll CliRM KIND_HOST, InvFindAll CliRM KIND_INSTANCE]"]
  by (simp add: reconcileAll_def assms(2,3) asked_def)

lemma run_internal:
  "run_io (handleInternalEvent E skip t r) l = (Ret (), l @ asked E v key skip found (Internally t r))"
  using run_reconcileResource [of E skip t r l] by (auto simp: handleInternalEvent_def asked_def)

lemma run_watched:
  "run_io (handleInventoryEvent E v key skip ev) l = (Ret (), l @ asked E v key skip found (Watched ev))"
proof (cases "key ev")
  case (Inr i)
  obtain e where "run_io (reconcileResource E skip (fst i) (snd i)) l =
      (Ret e, l @ List.map_filter (request_for E skip) [i])"
    using run_reconcileResource [of E skip "fst i" "snd i" l] by auto
  with Inr show ?thesis by (cases i) (simp add: handleInventoryEvent_def filterEvent_iff asked_def)
qed (simp add: handleInventoryEvent_def filterEvent_iff asked_def)

end
