(* ===== verification/Validate.thy ===== *)
theory Validate
  imports Inventory
begin

text \<open>
  \<open>onboarding-manager/pkg/api/onboardingmgr/v1/onboarding.pb.validate.go\<close>: the checks of the
  requests of the onboarding services. \<open>validate all\<close> returns the errors found, the first one
  only unless \<open>all\<close> is set; no errors is the Go nil. The regular expressions are written out
  as functions on byte strings.
\<close>

section \<open>Patterns\<close>

definition alnum :: "char \<Rightarrow> bool" where
  "alnum c \<longleftrightarrow> is_digit c \<or> (65 \<le> (of_char c :: nat) \<and> (of_char c :: nat) \<le> 90)
     \<or> (97 \<le> (of_char c :: nat) \<and> (of_char c :: nat) \<le> 122)"

text \<open>\<open>^[0-9a-fA-F]{8}-[0-9a-fA-F]{4}-[0-9a-fA-F]{4}-[0-9a-fA-F]{4}-[0-9a-fA-F]{12}$\<close>.\<close>

definition uuid_pattern :: "string \<Rightarrow> bool" where
  "uuid_pattern s \<longleftrightarrow> (let ps = split_char CHR ''-'' s in
     map length ps = [8, 4, 4, 4, 12] \<and> list_all (list_all is_hex) ps)"

text \<open>\<open>^[A-Za-z0-9]{5,20}$\<close>.\<close>

definition serial_pattern :: "string \<Rightarrow> bool" where
  "serial_pattern s \<longleftrightarrow> 5 \<le> length s \<and> length s \<le> 20 \<and> list_all alnum s"

text \<open>\<open>^([0-9a-fA-F]{2}([-:])){5}[0-9a-fA-F]{2}$\<close>.\<close>

definition mac_pattern :: "string \<Rightarrow> bool" where
  "mac_pattern s \<longleftrightarrow> length s = 17 \<and>
     list_all (\<lambda>i. if i mod 3 = 2 then s ! i \<in> {CHR ''-'', CHR '':''} else is_hex (s ! i)) [0..<17]"

text \<open>One field of \<open>^(?:(?:25[0-5]|2[0-4][0-9]|[01]?[0-9][0-9]?)\.){3}(?:...)$\<close>: one to three
  digits, at most 255; a leading zero is allowed.\<close>

definition ip_field_pattern :: "string \<Rightarrow> bool" where
  "ip_field_pattern s \<longleftrightarrow>
     1 \<le> length s \<and> length s \<le> 3 \<and> list_all is_digit s \<and> dec_val s \<le> 255"

definition ip_pattern :: "string \<Rightarrow> bool" where
  "ip_pattern s \<longleftrightarrow> (let fs = split_char CHR ''.'' s in length fs = 4 \<and> list_all ip_field_pattern fs)"

section \<open>Validation errors\<close>

datatype verr = VErr (ve_field: string) (ve_reason: string) (ve_cause: vcause)
  and vcause = NoCause | PlainCause string | ValCause verr
  | MultiCause "verr list"

text \<open>The text of an error; \<open>f\<close> prints the errors of the embedded messages. The flag \<open>key\<close> of the
  generated types is never set.\<close>

definition multi_text :: "(verr \<Rightarrow> string) \<Rightarrow> verr list \<Rightarrow> string" where
  "multi_text f errs = join_with ''; '' (map f errs)"

fun cause_text :: "(verr \<Rightarrow> string) \<Rightarrow> vcause \<Rightarrow> string" where
  "cause_text f NoCause = ''''"
| "cause_text f (PlainCause s) = '' | caused by: '' @ s"
| "cause_text f (ValCause e) = '' | caused by: '' @ f e"
| "cause_text f (MultiCause errs) = '' | caused by: '' @ multi_text f errs"

fun error_text :: "string \<Rightarrow> (verr \<Rightarrow> string) \<Rightarrow> verr \<Rightarrow> string" where
  "error_text msg f (VErr fld reason cause) = ''invalid '' @ msg @ ''.'' @ fld @ '': '' @ reason @ cause_text f cause"

definition HwData_Error :: "verr \<Rightarrow> string" where
  "HwData_Error = error_text ''HwData'' (\<lambda>_. '''')"

definition NodeData_Error :: "verr \<Rightarrow> string" where
  "NodeData_Error = error_text ''NodeData'' HwData_Error"

definition CreateNodesRequest_Error :: "verr \<Rightarrow> string" where
  "CreateNodesRequest_Error = error_text ''CreateNodesRequest'' NodeData_Error"

definition CreateNodesResponse_Error :: "verr \<Rightarrow> string" where
  "CreateNodesResponse_Error = error_text ''CreateNodesResponse'' NodeData_Error"

definition OnboardNodeStreamRequest_Error :: "verr \<Rightarrow> string" where
  "OnboardNodeStreamRequest_Error = error_text ''OnboardNodeStreamRequest'' (\<lambda>_. '''')"

definition OnboardNodeStreamResponse_Error :: "verr \<Rightarrow> string" where
  "OnboardNodeStreamResponse_Error = error_text ''OnboardNodeStreamResponse'' (\<lambda>_. '''')"

text \<open>The texts of the lists of errors that \<open>ValidateAll\<close> returns.\<close>

definition HwDataMultiError_Error :: "verr list \<Rightarrow> string" where
  "HwDataMultiError_Error = multi_text HwData_Error"

definition NodeDataMultiError_Error :: "verr list \<Rightarrow> string" where
  "NodeDataMultiError_Error = multi_text NodeData_Error"

definition CreateNodesRequestMultiError_Error :: "verr list \<Rightarrow> string" where
  "CreateNodesRequestMultiError_Error = multi_text CreateNodesRequest_Error"

definition CreateNodesResponseMultiError_Error :: "verr list \<Rightarrow> string" where
  "CreateNodesResponseMultiError_Error = multi_text CreateNodesResponse_Error"

definition OnboardNodeStreamRequestMultiError_Error :: "verr list \<Rightarrow> string" where
  "OnboardNodeStreamRequestMultiError_Error = multi_text OnboardNodeStreamRequest_Error"

definition OnboardNodeStreamResponseMultiError_Error :: "verr list \<Rightarrow> string" where
  "OnboardNodeStreamResponseMultiError_Error = multi_text OnboardNodeStreamResponse_Error"

section \<open>Reasons\<close>

definition quoted :: "string \<Rightarrow> string" where
  "quoted s = [CHR 0x22] @ s @ [CHR 0x22]"

definition serial_regexp :: string where
  "serial_regexp = ''^[A-Za-z0-9]{5,20}$''"

definition mac_regexp :: string where
  "mac_regexp = ''^([0-9a-fA-F]{2}([-:])){5}[0-9a-fA-F]{2}$''"

text \<open>As the message shows it, with two backslashes before the dot.\<close>

definition ip_regexp :: string where
  "ip_regexp = (let field = ''(?:25[0-5]|2[0-4][0-9]|[01]?[0-9][0-9]?)'' in
     ''^(?:'' @ field @ [CHR 0x5C, CHR 0x5C] @ ''.){3}'' @ field @ ''$'')"

definition no_match :: "string \<Rightarrow> string \<Rightarrow> verr" where
  "no_match fld re = VErr fld (''value does not match regex pattern '' @ quoted re) NoCause"

section \<open>Requests\<close>

record hw_data =
  hw_Uuid :: string
  hw_Serialnum :: string
  hw_MacId :: string
  hw_SutIp :: string

type_synonym node_data = "hw_data list"

text \<open>The body shared by the two generated validators with these four fields: \<open>f\<close> is the name
  of the IP field.\<close>

definition validate_ids ::
  "string \<Rightarrow> bool \<Rightarrow> string \<Rightarrow> string \<Rightarrow> string \<Rightarrow> string \<Rightarrow> verr list" where
  "validate_ids f all uuid serial mac ip =
     (let e1 = (if \<not> uuid_pattern uuid
                then [VErr ''Uuid'' ''value must be a valid UUID'' (PlainCause ''invalid uuid format'')] else []);
          e2 = (if \<not> serial_pattern serial then [no_match ''Serialnum'' serial_regexp] else []);
          e3 = (if \<not> mac_pattern mac then [no_match ''MacId'' mac_regexp] else []);
          e4 = (if \<not> ip_pattern ip then [no_match f ip_regexp] else [])
      in if all then e1 @ e2 @ e3 @ e4
         else if e1 \<noteq> [] then e1 else if e2 \<noteq> [] then e2 else if e3 \<noteq> [] then e3 else e4)"

definition HwData_validate :: "bool \<Rightarrow> hw_data \<Rightarrow> verr list" where
  "HwData_validate all m = validate_ids ''SutIp'' all (hw_Uuid m) (hw_Serialnum m) (hw_MacId m) (hw_SutIp m)"

definition OnboardNodeStreamRequest_validate :: "bool \<Rightarrow> stream_req \<Rightarrow> verr list" where
  "OnboardNodeStreamRequest_validate all m =
     validate_ids ''HostIp'' all (rq_Uuid m) (rq_Serialnum m) (rq_MacId m) (rq_HostIp m)"

text \<open>The loop over embedded messages: \<open>errs\<close> is what the embedded validator returns.\<close>

fun validate_embedded :: "string \<Rightarrow> bool \<Rightarrow> nat \<Rightarrow> verr list list \<Rightarrow> verr list" where
  "validate_embedded name all i [] = []"
| "validate_embedded name all i (errs # rest) =
     (case errs of
        [] \<Rightarrow> validate_embedded name all (Suc i) rest
      | e # _ \<Rightarrow>
          let err = VErr (name @ ''['' @ show_nat i @ '']'') ''embedded message failed validation'' (if all then MultiCause errs else ValCause e)
          in if all then err # validate_embedded name all (Suc i) rest else [err])"

definition NodeData_validate :: "bool \<Rightarrow> node_data \<Rightarrow> verr list" where
  "NodeData_validate all m = validate_embedded ''Hwdata'' all 0 (map (HwData_validate all) m)"

definition CreateNodesRequest_validate :: "bool \<Rightarrow> node_data list \<Rightarrow> verr list" where
  "CreateNodesRequest_validate all payload =
     validate_embedded ''Payload'' all 0 (map (NodeData_validate all) payload)"

text \<open>The responses. The status of a stream response is a message of another package; \<open>status_errs\<close>
  is the error of its own validators, if it has any.\<close>

definition CreateNodesResponse_validate :: "bool \<Rightarrow> node_data list \<Rightarrow> verr list" where
  "CreateNodesResponse_validate all payload =
     validate_embedded ''Payload'' all 0 (map (NodeData_validate all) payload)"

definition OnboardNodeStreamResponse_validate :: "bool \<Rightarrow> vcause option \<Rightarrow> verr list" where
  "OnboardNodeStreamResponse_validate all status_errs = (case status_errs of
     None \<Rightarrow> [] | Some cause \<Rightarrow> [VErr ''Status'' ''embedded message failed validation'' cause])"

text \<open>\<open>Validate()\<close>: the first error or nil. \<open>ValidateAll()\<close>: all of them, none being nil.\<close>

definition first_err :: "verr list \<Rightarrow> verr option" where
  "first_err es = (case es of [] \<Rightarrow> None | e # _ \<Rightarrow> Some e)"

definition HwData_Validate :: "hw_data \<Rightarrow> verr option" where
  "HwData_Validate m = first_err (HwData_validate False m)"

definition HwData_ValidateAll :: "hw_data \<Rightarrow> verr list" where
  "HwData_ValidateAll m = HwData_validate True m"

definition NodeData_Validate :: "node_data \<Rightarrow> verr option" where
  "NodeData_Validate m = first_err (NodeData_validate False m)"

definition NodeData_ValidateAll :: "node_data \<Rightarrow> verr list" where
  "NodeData_ValidateAll m = NodeData_validate True m"

definition CreateNodesRequest_Validate :: "node_data list \<Rightarrow> verr option" where
  "CreateNodesRequest_Validate m = first_err (CreateNodesRequest_validate False m)"

definition CreateNodesRequest_ValidateAll :: "node_data list \<Rightarrow> verr list" where
  "CreateNodesRequest_ValidateAll m = CreateNodesRequest_validate True m"

definition CreateNodesResponse_Validate :: "node_data list \<Rightarrow> verr option" where
  "CreateNodesResponse_Validate m = first_err (CreateNodesResponse_validate False m)"

definition CreateNodesResponse_ValidateAll :: "node_data list \<Rightarrow> verr list" where
  "CreateNodesResponse_ValidateAll m = CreateNodesResponse_validate True m"

definition OnboardNodeStreamRequest_Validate :: "stream_req \<Rightarrow> verr option" where
  "OnboardNodeStreamRequest_Validate m = first_err (OnboardNodeStreamRequest_validate False m)"

definition OnboardNodeStreamRequest_ValidateAll :: "stream_req \<Rightarrow> verr list" where
  "OnboardNodeStreamRequest_ValidateAll m = OnboardNodeStreamRequest_validate True m"

definition OnboardNodeStreamResponse_Validate :: "vcause option \<Rightarrow> verr option" where
  "OnboardNodeStreamResponse_Validate m = first_err (OnboardNodeStreamResponse_validate False m)"

definition OnboardNodeStreamResponse_ValidateAll :: "vcause option \<Rightarrow> verr list" where
  "OnboardNodeStreamResponse_ValidateAll m = OnboardNodeStreamResponse_validate True m"

section \<open>Facts\<close>

lemma validate_ids_first: "first_err (validate_ids f False u s m i) = first_err (validate_ids f True u s m i)"
  by (auto simp: validate_ids_def first_err_def Let_def)

lemma validate_ids_ok:
  "validate_ids f all u s m i = [] \<longleftrightarrow> uuid_pattern u \<and> serial_pattern s \<and> mac_pattern m \<and> ip_pattern i"
  by (auto simp: validate_ids_def Let_def)

lemma validate_ids_serial:
  "first_err (validate_ids f all u s m i) = Some e \<Longrightarrow> ve_field e = ''Serialnum'' \<Longrightarrow>
   f \<noteq> ''Serialnum'' \<Longrightarrow> uuid_pattern u \<and> \<not> serial_pattern s"
  by (auto simp: validate_ids_def first_err_def Let_def no_match_def split: if_splits)

lemma validate_embedded_ok: "validate_embedded n all i errss = [] \<longleftrightarrow> list_all (\<lambda>es. es = []) errss"
  by (induction errss arbitrary: i) (auto simp: Let_def split: list.splits)

lemma CreateNodesRequest_ok:
  "CreateNodesRequest_validate all payload = [] \<longleftrightarrow>
     (\<forall>nd \<in> set payload. \<forall>hw \<in> set nd. uuid_pattern (hw_Uuid hw) \<and> serial_pattern (hw_Serialnum hw)
        \<and> mac_pattern (hw_MacId hw) \<and> ip_pattern (hw_SutIp hw))"
  by (simp add: CreateNodesRequest_validate_def NodeData_validate_def validate_embedded_ok
      HwData_validate_def validate_ids_ok list_all_iff)

lemma length_join_char: "length (join_with [c] ps) = sum_list (map length ps) + (length ps - 1)"
proof (induction ps)
  case (Cons p ps)
  then show ?case by (cases ps) auto
qed simp

lemma uuid_pattern_length: "uuid_pattern s \<Longrightarrow> length s = 36"
proof -
  assume "uuid_pattern s"
  then have m: "map length (split_char CHR ''-'' s) = [8, 4, 4, 4, 12]" by (simp add: uuid_pattern_def Let_def)
  from arg_cong [OF m, of length] arg_cong [OF m, of sum_list] show ?thesis
    using length_join_char [of "CHR ''-''" "split_char CHR ''-'' s"] by (simp add: join_split_char)
qed

end
