(* ===== verification/Southbound.thy ===== *)
theory Southbound
  imports InvClient Validate Workflow
begin

text \<open>
  \<open>onboarding-manager/internal/handlers/southbound/grpcserver/grpc_server.go\<close>: the services
  that edge nodes talk to. The non-interactive one is a stream: a turn of its loop receives a
  request, looks the host up, answers and either goes on or closes. The interactive one is the
  single call \<open>CreateNodes\<close>. \<open>CliRM\<close> is the client \<open>invClient\<close> of the service and \<open>CliAPI\<close>
  its \<open>invClientAPI\<close>.
\<close>

section \<open>Zero-touch provisioning\<close>

definition checkNCreateInstance :: "om_env \<Rightarrow> string \<Rightarrow> provider_config \<Rightarrow> host option \<Rightarrow> error om" where
  "checkNCreateInstance E tenantID pconf hopt =
     (if \<not> pc_AutoProvision pconf then ret None
      else
        if_got (if pc_OSSecurityFeatureEnable pconf then
                  bnd (GetOSResourceByResourceID E CliAPI tenantID (pc_DefaultOs pconf)) (\<lambda>r.
                    case r of
                      Inl e \<Rightarrow> bnd (deref hopt) (\<lambda>_. ret (Inl e))
                    | Inr os \<Rightarrow> ret (Inr (case os of None \<Rightarrow> SECURITY_FEATURE_UNSPECIFIED
                                                | Some x \<Rightarrow> os_SecurityFeature x)))
                else ret (Inr SECURITY_FEATURE_NONE)) (\<lambda>desiredSecurityFeature.
        bnd (deref hopt) (\<lambda>h.
        let instance0 = empty_inst\<lparr>
              i_TenantId := tenantID, i_KindMetal := True,
              i_DesiredState := INSTANCE_STATE_RUNNING,
              i_CurrentState := INSTANCE_STATE_UNSPECIFIED,
              i_Host := Some (empty_host\<lparr>h_ResourceId := h_ResourceId h\<rparr>),
              i_Os := Some (empty_os\<lparr>os_ResourceId := pc_DefaultOs pconf\<rparr>),
              i_SecurityFeature := desiredSecurityFeature\<rparr> in
        if_got (if pc_DefaultLocalAccount pconf \<noteq> '''' then
                  if_ok (GetLocalAccountResourceByResourceID E CliAPI tenantID (pc_DefaultLocalAccount pconf))
                    (\<lambda>localRes. bnd (deref localRes) (\<lambda>a. ret (Inr (instance0\<lparr>i_Localaccount :=
                       Some \<lparr>la_ResourceId = la_ResourceId a, la_Username = '''', la_SshKey = ''''\<rparr>\<rparr>))))
                else ret (Inr instance0)) (\<lambda>instance1.
        if_got (CreateInstanceResource E CliAPI tenantID instance1) (\<lambda>_. ret None)))))"

definition startZeroTouch :: "om_env \<Rightarrow> string \<Rightarrow> string \<Rightarrow> error om" where
  "startZeroTouch E tenantID hostResID =
     bnd (ask (host_view_at E)) (\<lambda>V.
       if cfg_SkipOSProvisioning (hv_config V) then ret None
       else if_got (GetHostResourceByResourceID E CliRM tenantID hostResID) (\<lambda>hopt.
         case (case hopt of None \<Rightarrow> None | Some h \<Rightarrow> h_Instance h) of
           Some i \<Rightarrow>
             if ref_CurrentState i \<noteq> INSTANCE_STATE_RUNNING then
               bnd (SendInternalEvent E tenantID (ref_ResourceId i)) (\<lambda>_. ret None)
             else ret None
         | None \<Rightarrow>
             bnd (GetProviderConfig E CliRM tenantID ''infra_onboarding'') (\<lambda>r.
               case r of
                 Inl e \<Rightarrow> ret None
               | Inr pconf \<Rightarrow> checkNCreateInstance E tenantID pconf hopt)))"

section \<open>The onboarding stream\<close>

definition sendOnboardStreamResponse :: "om_env \<Rightarrow> stream_resp \<Rightarrow> error om" where
  "sendOnboardStreamResponse E r = call (StreamSend r) (\<lambda>l. stream_send E l r)"

definition plain_resp :: "code \<Rightarrow> string \<Rightarrow> node_state \<Rightarrow> stream_resp" where
  "plain_resp c m n = \<lparr> rs_Code = c, rs_Message = m, rs_NodeState = n, rs_ClientId = '''',
     rs_ClientSecret = '''', rs_ProjectId = '''' \<rparr>"

definition sendStreamErrorResponse :: "om_env \<Rightarrow> code \<Rightarrow> string \<Rightarrow> error om" where
  "sendStreamErrorResponse E c m = sendOnboardStreamResponse E (plain_resp c m NODE_STATE_UNSPECIFIED)"

definition receiveFromStream :: "om_env \<Rightarrow> (goerr + stream_req option) om" where
  "receiveFromStream E = call StreamRecv (\<lambda>l. stream_recv E l)"

definition handleRegisteredState :: "om_env \<Rightarrow> host \<Rightarrow> stream_req \<Rightarrow> error om" where
  "handleRegisteredState E h req =
     if_nil (sendOnboardStreamResponse E
               ((plain_resp OK '''' NODE_STATE_REGISTERED)\<lparr>rs_ProjectId := h_TenantId h\<rparr>))
       (UpdateHostRegState E CliRM (h_TenantId h) (h_ResourceId h) HOST_STATE_REGISTERED
          (rq_HostIp req) (rq_MacId req) HostRegistrationDone)"

definition handleOnboardedState :: "om_env \<Rightarrow> host \<Rightarrow> stream_req \<Rightarrow> error om" where
  "handleOnboardedState E h req =
     if_got (FetchClientSecret E (h_TenantId h) (h_Uuid h)) (\<lambda>(clientID, clientSecret).
     if_nil (sendOnboardStreamResponse E
               ((plain_resp OK '''' NODE_STATE_ONBOARDED)\<lparr>rs_ClientId := clientID,
                  rs_ClientSecret := clientSecret, rs_ProjectId := h_TenantId h\<rparr>))
       (UpdateHostCurrentStateNOnboardStatus E CliRM (h_TenantId h) (h_ResourceId h)
          (rq_HostIp req) (rq_MacId req) HOST_STATE_ONBOARDED OnboardingStatusDone))"

definition handleDefaultState :: "om_env \<Rightarrow> error om" where
  "handleDefaultState E = sendOnboardStreamResponse E
     (plain_resp FailedPrecondition ''The node state is unspecified'' NODE_STATE_UNSPECIFIED)"

definition serialNumberValidationError :: "verr \<Rightarrow> bool" where
  "serialNumberValidationError err \<longleftrightarrow> ve_field err = ''Serialnum''"

text \<open>\<open>getHostResource\<close> in three parts: the lookup by UUID, the lookup by serial number, and the
  comparison of what they found (\<open>byUUID\<close>, \<open>bySN\<close>; the Go flags \<open>uuidMatch\<close> and
  \<open>serialNumberMatch\<close> say whether they are there). A lookup without an error never gives nil.\<close>

definition report_mismatch :: "om_env \<Rightarrow> host \<Rightarrow> status \<Rightarrow> (goerr + host) om" where
  "report_mismatch E h s =
     bnd (UpdateHostRegState E CliRM (h_TenantId h) (h_ResourceId h) (h_CurrentState h) '''' '''' s)
       (\<lambda>updateErr. case updateErr of
          Some e \<Rightarrow> ret (Inl e)
        | None \<Rightarrow> ret (Inl (Errorfc NotFound ''Node does not exist'')))"

definition match_hosts :: "om_env \<Rightarrow> stream_req \<Rightarrow> host option \<Rightarrow> host option \<Rightarrow> (goerr + host) om" where
  "match_hosts E req byUUID bySN = (case byUUID of
     Some u \<Rightarrow> (case bySN of
        Some s \<Rightarrow>
          if h_ResourceId u \<noteq> h_ResourceId s then
            ret (Inl (Errorfc InvalidArgument ''UUID and Serial Number refer to different resources''))
          else ret (Inr u)
      | None \<Rightarrow> report_mismatch E u (HostRegistrationSerialNumFailedWithDetails (rq_Serialnum req)))
   | None \<Rightarrow> (case bySN of
        Some s \<Rightarrow> report_mismatch E s (HostRegistrationUUIDFailedWithDetails (rq_Uuid req))
      | None \<Rightarrow> ret (Inl (Errorfc NotFound ''Device not found for both UUID and Serial Number''))))"

definition lookup_serial :: "om_env \<Rightarrow> stream_req \<Rightarrow> host option \<Rightarrow> (goerr + host) om" where
  "lookup_serial E req byUUID =
     (if rq_Serialnum req \<noteq> '''' then
        bnd (GetHostResource E CliRM F_serial_number (rq_Serialnum req)) (\<lambda>r.
          case r of
            Inl e \<Rightarrow>
              if is_not_found (lib E) (Some e) then match_hosts E req byUUID None
              else ret (Inl (Errorfc Internal ''Error retrieving host resource by serial number''))
          | Inr s \<Rightarrow>
              (let h = (case byUUID of None \<Rightarrow> s | Some u \<Rightarrow> u) in
               if h_Uuid h = '''' then
                 (let h' = h\<lparr>h_Uuid := rq_Uuid req\<rparr> in
                  bnd (UpdateHostResource E CliRM (h_TenantId h') h') (\<lambda>errUpdate.
                    if errUpdate \<noteq> None then
                      ret (Inl (Errorfc Internal ''failed to updated the host resource uuid''))
                    else ret (Inr h')))
               else match_hosts E req byUUID (Some s)))
      else (case byUUID of
          Some u \<Rightarrow> ret (Inr u)
        | None \<Rightarrow> match_hosts E req None None))"

definition getHostResource :: "om_env \<Rightarrow> stream_req \<Rightarrow> (goerr + host) om" where
  "getHostResource E req =
     (if rq_Uuid req \<noteq> '''' then
        bnd (GetHostResource E CliRM F_uuid (rq_Uuid req)) (\<lambda>r.
          case r of
            Inl e \<Rightarrow>
              if is_not_found (lib E) (Some e) then lookup_serial E req None
              else ret (Inl (Errorfc Internal ''Error retrieving host resource by UUID''))
          | Inr u \<Rightarrow>
              if h_SerialNumber u = '''' then ret (Inr u) else lookup_serial E req (Some u))
      else lookup_serial E req None)"

fun show_host_state :: "host_state \<Rightarrow> string" where
  "show_host_state HOST_STATE_UNSPECIFIED = ''HOST_STATE_UNSPECIFIED''"
| "show_host_state HOST_STATE_DELETED = ''HOST_STATE_DELETED''"
| "show_host_state HOST_STATE_ONBOARDED = ''HOST_STATE_ONBOARDED''"
| "show_host_state HOST_STATE_UNTRUSTED = ''HOST_STATE_UNTRUSTED''"
| "show_host_state HOST_STATE_REGISTERED = ''HOST_STATE_REGISTERED''"
| "show_host_state (HOST_STATE_OTHER n) = show_nat n"

text \<open>A turn either goes on or closes the stream with the error of the handler; the host is the
  one for which zero-touch provisioning starts after the close.\<close>

datatype turn = Continue | Close error "host option"

definition close_with :: "error om \<Rightarrow> turn om" where
  "close_with m = bnd m (\<lambda>err. ret (Close err None))"

definition sanitize :: "stream_req \<Rightarrow> verr + stream_req" where
  "sanitize req = (case OnboardNodeStreamRequest_Validate req of
     None \<Rightarrow> Inr req
   | Some e \<Rightarrow> if serialNumberValidationError e then Inr (req\<lparr>rq_Serialnum := ''N/A''\<rparr>) else Inl e)"

text \<open>What follows the lookup: \<open>answer_host\<close> for a host that was found, \<open>answer_error\<close> otherwise.\<close>

definition answer_host :: "om_env \<Rightarrow> stream_req \<Rightarrow> host \<Rightarrow> turn om" where
  "answer_host E req h =
     (if h_CurrentState h = HOST_STATE_ONBOARDED \<or> h_RegistrationStatusIndicator h = IND_ERROR then
        close_with (sendStreamErrorResponse E FailedPrecondition
          (''Node is already '' @ show_host_state (h_CurrentState h)))
      else if h_DesiredState h = HOST_STATE_REGISTERED then
        bnd (handleRegisteredState E h req) (\<lambda>err.
          if err \<noteq> None then ret (Close err None) else ret Continue)
      else if h_DesiredState h = HOST_STATE_ONBOARDED then
        bnd (handleOnboardedState E h req) (\<lambda>err.
          if err \<noteq> None then ret (Close err None) else ret (Close None (Some h)))
      else close_with (handleDefaultState E))"

definition answer_error :: "om_env \<Rightarrow> goerr \<Rightarrow> turn om" where
  "answer_error E e =
     (if is_not_found (lib E) (Some e) then
        bnd (sendStreamErrorResponse E NotFound ''Device not found'') (\<lambda>errSend.
          if errSend \<noteq> None then ret (Close errSend None) else ret Continue)
      else close_with (sendStreamErrorResponse E Internal ''Internal server error''))"

definition handle_request :: "om_env \<Rightarrow> stream_req \<Rightarrow> turn om" where
  "handle_request E req0 =
     (case sanitize req0 of
         Inl e \<Rightarrow> close_with (sendStreamErrorResponse E InvalidArgument (OnboardNodeStreamRequest_Error e))
       | Inr req \<Rightarrow>
           bnd (getHostResource E req) (\<lambda>res.
             case res of Inl e \<Rightarrow> answer_error E e | Inr h \<Rightarrow> answer_host E req h))"

definition stream_turn :: "om_env \<Rightarrow> turn om" where
  "stream_turn E =
     bnd (receiveFromStream E) (\<lambda>r. case r of
       Inl e \<Rightarrow> ret (Close (Some e) None)
     | Inr ropt \<Rightarrow> bnd (deref ropt) (handle_request E))"

text \<open>The loop with fuel: \<open>None\<close> when the fuel ran out before the stream was closed.\<close>

fun stream_loop :: "om_env \<Rightarrow> nat \<Rightarrow> (error \<times> host option) option om" where
  "stream_loop E 0 = ret None"
| "stream_loop E (Suc n) =
     bnd (stream_turn E) (\<lambda>t. case t of
       Continue \<Rightarrow> stream_loop E n
     | Close err h \<Rightarrow> ret (Some (err, h)))"

text \<open>The deferred function starts the zero-touch process in a goroutine of its own; it is run
  here after the loop, and its error is only logged.\<close>

definition OnboardNodeStream :: "om_env \<Rightarrow> nat \<Rightarrow> error option om" where
  "OnboardNodeStream E n =
     bnd (stream_loop E n) (\<lambda>r. case r of
       None \<Rightarrow> ret None
     | Some (err, None) \<Rightarrow> ret (Some err)
     | Some (err, Some h) \<Rightarrow>
         bnd (startZeroTouch E (h_TenantId h) (h_ResourceId h)) (\<lambda>_. ret (Some err)))"

section \<open>Interactive onboarding\<close>

definition CopyNodeReqToNodeData :: "node_data list \<Rightarrow> string \<Rightarrow> host list" where
  "CopyNodeReqToNodeData payload tenantID =
     concat (map (map (\<lambda>hw. empty_host\<lparr>
        h_BmcKind := BMC_KIND_PDU, h_BmcIp := hw_SutIp hw, h_SerialNumber := hw_Serialnum hw,
        h_Uuid := hw_Uuid hw, h_PxeMac := hw_MacId hw, h_TenantId := tenantID\<rparr>)) payload)"

fun serialNumberValidationErrorIO :: "verr \<Rightarrow> bool" where
  "serialNumberValidationErrorIO (VErr fld reason cause) =
     (if fld = ''Serialnum'' then True
      else (case cause of ValCause e \<Rightarrow> serialNumberValidationErrorIO e | _ \<Rightarrow> False))"

record nodes_resp =
  nr_Payload :: "node_data list"
  nr_ProjectId :: string

text \<open>\<open>authorized\<close> is the verdict of the RBAC policy, \<open>tenant\<close> the tenant of the context. After
  the checks, the request has been rewritten in place, which the response shows.\<close>

definition sanitize_nodes :: "node_data list \<Rightarrow> verr + node_data list" where
  "sanitize_nodes payload = (case CreateNodesRequest_Validate payload of
     None \<Rightarrow> Inr payload
   | Some e \<Rightarrow>
       if serialNumberValidationErrorIO e
       then Inr (map (map (\<lambda>hw. hw\<lparr>hw_Serialnum := ''N/A''\<rparr>)) payload) else Inl e)"

definition CreateNodes ::
  "om_env \<Rightarrow> bool \<Rightarrow> bool \<Rightarrow> string option \<Rightarrow> node_data list \<Rightarrow> (goerr + nodes_resp) om" where
  "CreateNodes E authEnabled authorized tenant payload0 =
     (case sanitize_nodes payload0 of
        Inl e \<Rightarrow> ret (Inl (ForeignErr (CreateNodesRequest_Error e) 0))
      | Inr payload \<Rightarrow>
          if authEnabled \<and> \<not> authorized then
            ret (Inl (Errorfc PermissionDenied ''Request is blocked by RBAC''))
          else (case tenant of
            None \<Rightarrow> ret (Inl (Errorfc Unauthenticated ''Tenant ID is not present in context''))
          | Some tenantID \<Rightarrow> (case CopyNodeReqToNodeData payload tenantID of
              [] \<Rightarrow> panic
            | host0 # _ \<Rightarrow>
                bnd (timestamp E) (\<lambda>t.
                let h = host0\<lparr>h_CurrentState := HOST_STATE_ONBOARDED,
                      h_OnboardingStatus := st_Status OnboardingStatusDone,
                      h_OnboardingStatusIndicator := st_Indicator OnboardingStatusDone,
                      h_OnboardingStatusTimestamp := t\<rparr> in
                bnd (GetHostResourceByUUID E CliRM tenantID (h_Uuid h)) (\<lambda>r.
                let create =
                  if_ok (CreateHostResource E CliRM tenantID h) (\<lambda>hostResID.
                  bnd (startZeroTouch E tenantID hostResID) (\<lambda>err. case err of
                      Some e \<Rightarrow> ret (Inl e)
                    | None \<Rightarrow> ret (Inr \<lparr>nr_Payload = payload, nr_ProjectId = ''''\<rparr>))) in
                case r of
                  Inl e \<Rightarrow> if is_not_found (lib E) (Some e) then create else ret (Inl e)
                | Inr hostInv \<Rightarrow>
                    bnd (if h_SerialNumber hostInv \<noteq> h_SerialNumber h then
                           UpdateHostResourceStatus E CliRM (h_TenantId hostInv) (h_ResourceId hostInv)
                             (hostInv\<lparr>h_SerialNumber := h_SerialNumber h, h_BmcIp := h_BmcIp h,
                                  h_PxeMac := h_PxeMac h, h_CurrentState := HOST_STATE_ONBOARDED\<rparr>)
                             OnboardingStatusDone HostRegistrationUnknown
                         else ret None) (\<lambda>updateErr. case updateErr of
                      Some e \<Rightarrow> ret (Inl e)
                    | None \<Rightarrow>
                        bnd (startZeroTouch E tenantID (h_ResourceId hostInv)) (\<lambda>ztErr. case ztErr of
                          Some e \<Rightarrow> ret (Inl e)
                        | None \<Rightarrow> ret (Inr \<lparr>nr_Payload = payload, nr_ProjectId = h_TenantId hostInv\<rparr>))))))))"

section \<open>Facts on the requests\<close>

lemma sanitize_iff:
  "sanitize req = Inr req' \<longleftrightarrow> uuid_pattern (rq_Uuid req) \<and>
     (if serial_pattern (rq_Serialnum req)
      then mac_pattern (rq_MacId req) \<and> ip_pattern (rq_HostIp req) \<and> req' = req
      else req' = req\<lparr>rq_Serialnum := ''N/A''\<rparr>)"
  by (auto simp: sanitize_def OnboardNodeStreamRequest_Validate_def OnboardNodeStreamRequest_validate_def validate_ids_def first_err_def
      serialNumberValidationError_def no_match_def Let_def)

text \<open>A send that carries credentials.\<close>

fun gives_credentials :: "om_call \<Rightarrow> bool" where
  "gives_credentials (StreamSend r) = (rs_NodeState r = NODE_STATE_ONBOARDED \<or> rs_ClientSecret r \<noteq> '''')"
| "gives_credentials _ = False"

lemma plain_resp_sel [simp]:
  "rs_NodeState (plain_resp c m n) = n" "rs_ClientSecret (plain_resp c m n) = ''''"
  "rs_Code (plain_resp c m n) = c" "rs_ProjectId (plain_resp c m n) = ''''"
  by (simp_all add: plain_resp_def)

section \<open>Which calls the services make\<close>

definition stream_masks :: "field list set" where
  "stream_masks = {host_reg_state_fields, onboard_state_fields, host_resource_fields}"

fun stream_call :: "om_call \<Rightarrow> bool" where
  "stream_call StreamRecv = True"
| "stream_call (StreamSend r) = True"
| "stream_call (InvList c k f) = (c = CliRM \<and> k = KIND_HOST)"
| "stream_call (InvUpdate c t i fs r) = (c = CliRM \<and> fs \<in> stream_masks)"
| "stream_call AuthFactory = True"
| "stream_call (AuthGetCredentials t u) = True"
| "stream_call (AuthCreateCredentials t u) = True"
| "stream_call AuthLogout = True"
| "stream_call _ = False"

lemma emits_send [emits_intro]:
  "P (StreamSend r) \<Longrightarrow> emits P (sendOnboardStreamResponse E r)"
  unfolding sendOnboardStreamResponse_def by (auto intro!: emits_intro)

lemma emits_send_error [emits_intro]:
  "P (StreamSend (plain_resp c m NODE_STATE_UNSPECIFIED)) \<Longrightarrow> emits P (sendStreamErrorResponse E c m)"
  unfolding sendStreamErrorResponse_def by (auto intro!: emits_intro)

lemma emits_receive [emits_intro]: "P StreamRecv \<Longrightarrow> emits P (receiveFromStream E)"
  unfolding receiveFromStream_def by (auto intro!: emits_intro)

lemma emits_close_with [emits_intro]: "emits P m \<Longrightarrow> emits P (close_with m)"
  unfolding close_with_def by (auto intro!: emits_intro)

lemma emits_getHostResource [emits_intro]:
  assumes "\<And>flt. P (InvList CliRM KIND_HOST flt)"
    and "\<And>t i r. P (InvUpdate CliRM t i host_reg_state_fields r)"
    and "\<And>t i r. P (InvUpdate CliRM t i host_resource_fields r)"
  shows "emits P (getHostResource E req)"
  unfolding getHostResource_def lookup_serial_def match_hosts_def report_mismatch_def Let_def
  by (intro emits_intro assms)

lemma emits_handleRegisteredState [emits_intro]:
  assumes "\<And>r. rs_NodeState r = NODE_STATE_REGISTERED \<Longrightarrow> rs_ClientSecret r = '''' \<Longrightarrow> P (StreamSend r)"
    and "\<And>t i r. P (InvUpdate CliRM t i host_reg_state_fields r)"
  shows "emits P (handleRegisteredState E h req)"
  unfolding handleRegisteredState_def
  by (intro emits_intro assms) (simp_all add: plain_resp_def)

lemma emits_handleOnboardedState [emits_intro]:
  assumes "\<And>r. P (StreamSend r)" and "\<And>t i r. P (InvUpdate CliRM t i onboard_state_fields r)"
    and "P AuthFactory" and "\<And>t u. P (AuthGetCredentials t u)"
    and "\<And>t u. P (AuthCreateCredentials t u)" and "P AuthLogout"
  shows "emits P (handleOnboardedState E h req)"
  unfolding handleOnboardedState_def by (intro emits_intro assms)

lemma emits_answer_error [emits_intro]:
  "(\<And>r. \<not> gives_credentials (StreamSend r) \<Longrightarrow> P (StreamSend r)) \<Longrightarrow> emits P (answer_error E e)"
  unfolding answer_error_def by (intro emits_intro) simp_all

lemma emits_answer_host [emits_intro]:
  assumes "\<And>r. P (StreamSend r)" and "\<And>t i r. P (InvUpdate CliRM t i host_reg_state_fields r)"
    and "\<And>t i r. P (InvUpdate CliRM t i onboard_state_fields r)"
    and "P AuthFactory" and "\<And>t u. P (AuthGetCredentials t u)"
    and "\<And>t u. P (AuthCreateCredentials t u)" and "P AuthLogout"
  shows "emits P (answer_host E req h)"
  unfolding answer_host_def handleDefaultState_def by (intro emits_intro assms)

lemma emits_handle_request: "emits stream_call (handle_request E req)"
  unfolding handle_request_def
  by (intro emits_intro) (auto simp: stream_masks_def)

lemma emits_stream_turn: "emits stream_call (stream_turn E)"
  unfolding stream_turn_def
  by (intro emits_intro emits_handle_request) (auto simp: stream_masks_def)

text \<open>Zero-touch provisioning reads and creates at most an Instance that is to run on the host.\<close>

definition ztp_instance :: "string \<Rightarrow> inst \<Rightarrow> bool" where
  "ztp_instance t i \<longleftrightarrow> i_TenantId i = t \<and> i_DesiredState i = INSTANCE_STATE_RUNNING \<and>
     i_CurrentState i = INSTANCE_STATE_UNSPECIFIED"

lemma emits_checkNCreateInstance [emits_intro]:
  assumes "\<And>i. P (InvGet CliAPI t i)" and "\<And>i. ztp_instance t i \<Longrightarrow> P (InvCreate CliAPI t (ResInstance i))"
  shows "emits P (checkNCreateInstance E t pc h)"
  unfolding checkNCreateInstance_def Let_def
  by (intro emits_if emits_ret emits_if_got [where f = "\<lambda>x. bnd (deref h) (f x)" for f]
      emits_bnd [of _ "deref h"] emits_if_got_run)
    (auto intro!: emits_intro assms simp: ztp_instance_def empty_inst_def split: if_splits sum.splits
      prod.splits outcome.splits option.splits)

lemma emits_startZeroTouch [emits_intro]:
  assumes "\<And>c i. P (InvGet c t i)" and "\<And>flt. P (InvList CliRM KIND_PROVIDER flt)"
    and "\<And>i. P (InternalEvent t i)" and "\<And>i. ztp_instance t i \<Longrightarrow> P (InvCreate CliAPI t (ResInstance i))"
  shows "emits P (startZeroTouch E t hid)"
  unfolding startZeroTouch_def by (intro emits_intro assms)

text \<open>A host as \<open>CreateNodes\<close> makes it.\<close>

definition onboarded_host :: "string \<Rightarrow> host \<Rightarrow> bool" where
  "onboarded_host t h \<longleftrightarrow> h_TenantId h = t \<and> h_CurrentState h = HOST_STATE_ONBOARDED \<and>
     h_DesiredState h = HOST_STATE_UNSPECIFIED \<and> h_OnboardingStatusIndicator h = IND_IDLE"

lemma CopyNodeReq_fresh:
  "CopyNodeReqToNodeData payload t = h # hs \<Longrightarrow>
   h_TenantId h = t \<and> h_DesiredState h = HOST_STATE_UNSPECIFIED \<and>
   (\<exists>nd \<in> set payload. \<exists>hw \<in> set nd. h_Uuid h = hw_Uuid hw \<and> h_SerialNumber h = hw_Serialnum hw)"
proof -
  assume "CopyNodeReqToNodeData payload t = h # hs"
  then have "h \<in> set (CopyNodeReqToNodeData payload t)" by simp
  then show ?thesis unfolding CopyNodeReqToNodeData_def by (auto simp: empty_host_def) blast
qed

lemma emits_CreateNodes [emits_intro]:
  assumes "\<And>t flt. tenant = Some t \<Longrightarrow> P (InvList CliRM KIND_HOST (FilterTenantUuid t flt))"
    and "\<And>t i r. P (InvUpdate CliRM t i host_resource_status_fields r)"
    and "\<And>t h. tenant = Some t \<Longrightarrow> onboarded_host t h \<Longrightarrow> P (InvCreate CliRM t (ResHost h))"
    and "\<And>t c i. tenant = Some t \<Longrightarrow> P (InvGet c t i)" and "\<And>flt. P (InvList CliRM KIND_PROVIDER flt)"
    and "\<And>t i. tenant = Some t \<Longrightarrow> P (InternalEvent t i)"
    and "\<And>t i. tenant = Some t \<Longrightarrow> ztp_instance t i \<Longrightarrow> P (InvCreate CliAPI t (ResInstance i))"
  shows "emits P (CreateNodes E a z tenant payload)"
  unfolding CreateNodes_def Let_def
  by (intro emits_intro assms)
    (auto simp: onboarded_host_def OnboardingStatusDone_def dest: CopyNodeReq_fresh)

section \<open>Sessions\<close>

text \<open>\<open>session E l l'\<close>: from history \<open>l\<close>, turns that go on lead to history \<open>l'\<close>. The loop
  closes from the history of a session.\<close>

inductive session :: "om_env \<Rightarrow> om_call list \<Rightarrow> om_call list \<Rightarrow> bool" for E where
  session_start: "session E l l"
| session_turn: "session E l l1 \<Longrightarrow> run_io (stream_turn E) l1 = (Ret Continue, l2) \<Longrightarrow> session E l l2"

inductive_cases session_cases: "session E l l'"

lemma session_first:
  "run_io (stream_turn E) l = (Ret Continue, l1) \<Longrightarrow> session E l1 l2 \<Longrightarrow> session E l l2"
  by (rotate_tac, induction rule: session.induct) (auto intro: session.intros)

lemma loop_session:
  "run_io (stream_loop E n) l = (Ret (Some (err, h)), l') \<Longrightarrow>
   \<exists>l1. session E l l1 \<and> run_io (stream_turn E) l1 = (Ret (Close err h), l')"
proof (induction n arbitrary: l)
  case 0
  then show ?case by simp
next
  case (Suc n)
  then obtain t l1 where turn: "run_io (stream_turn E) l = (Ret t, l1)"
    and rest: "run_io (case t of Continue \<Rightarrow> stream_loop E n | Close e x \<Rightarrow> ret (Some (e, x))) l1
      = (Ret (Some (err, h)), l')"
    using run_bnd_Ret by fastforce
  show ?case
  proof (cases t)
    case Continue
    with Suc.IH rest obtain l2 where "session E l1 l2" "run_io (stream_turn E) l2 = (Ret (Close err h), l')"
      by auto
    then show ?thesis using session_first turn Continue by blast
  next
    case (Close e x)
    with rest turn have "run_io (stream_turn E) l = (Ret (Close err h), l')" by simp
    then show ?thesis using session_start by blast
  qed
qed

text \<open>Only a found host that is to be onboarded gets credentials, and the turn closes then.\<close>

definition to_onboard :: "host \<Rightarrow> bool" where
  "to_onboard h \<longleftrightarrow> h_DesiredState h = HOST_STATE_ONBOARDED \<and> h_CurrentState h \<noteq> HOST_STATE_ONBOARDED \<and>
     h_RegistrationStatusIndicator h \<noteq> IND_ERROR"

lemma answer_to_onboard:
  "to_onboard h \<Longrightarrow> answer_host E req h = bnd (handleOnboardedState E h req) (\<lambda>err.
     if err \<noteq> None then ret (Close err None) else ret (Close None (Some h)))"
  by (auto simp: to_onboard_def answer_host_def)

lemma quiet_answer:
  "\<not> to_onboard h \<Longrightarrow> emits (\<lambda>x. \<not> gives_credentials x) (answer_host E req h)"
  unfolding answer_host_def handleDefaultState_def to_onboard_def by (auto intro!: emits_intro)

lemma turn_goes_on_without_credentials:
  "emits_on (\<lambda>t. t = Continue) (\<lambda>x. \<not> gives_credentials x) (stream_turn E)"
proof -
  have host: "emits_on (\<lambda>t. t = Continue) (\<lambda>x. \<not> gives_credentials x) (answer_host E req h)" for h req
  proof (cases "to_onboard h")
    case True
    then show ?thesis unfolding answer_to_onboard [OF True]
      by (intro emits_on_never) (auto split: if_splits prod.splits outcome.splits)
  qed (auto intro: emits_on_emits quiet_answer)
  have request: "emits_on (\<lambda>t. t = Continue) (\<lambda>x. \<not> gives_credentials x) (handle_request E req)" for req
    unfolding handle_request_def
    by (intro emits_on_case_sum emits_on_bnd host) (auto intro!: emits_on_emits emits_intro)
  show ?thesis
    unfolding stream_turn_def
    by (intro emits_on_case_sum emits_on_bnd request) (auto intro!: emits_on_emits emits_intro)
qed

lemma session_without_credentials:
  "session E l l' \<Longrightarrow> \<exists>cs. l' = l @ cs \<and> list_all (\<lambda>x. \<not> gives_credentials x) cs"
proof (induction rule: session.induct)
  case (session_turn l l1 l2)
  then show ?case using emits_onD [OF turn_goes_on_without_credentials session_turn(2)] by fastforce
qed simp

section \<open>The loop ends with the stream\<close>

lemma turn_receives:
  assumes "run_io (stream_turn E) l = (r, l')"
  shows "\<exists>cs. l' = l @ StreamRecv # cs"
proof -
  have "emits stream_call (case x of Inl e \<Rightarrow> ret (Close (Some e) None)
      | Inr ropt \<Rightarrow> bnd (deref ropt) (handle_request E))" for x
    by (intro emits_intro emits_handle_request)
  from emitsD [OF this [of "stream_recv E l"]] assms show ?thesis
    by (fastforce simp: stream_turn_def receiveFromStream_def)
qed

lemma turn_closes_at_end:
  "stream_recv E l = Inl e \<Longrightarrow> run_io (stream_turn E) l = (Ret (Close (Some e) None), l @ [StreamRecv])"
  by (simp add: stream_turn_def receiveFromStream_def)

fun is_receive :: "om_call \<Rightarrow> bool" where
  "is_receive StreamRecv = True"
| "is_receive _ = False"

definition received :: "om_call list \<Rightarrow> nat" where
  "received l = length (filter is_receive l)"

lemma received_append [simp]: "received (l @ l') = received l + received l'"
  by (simp add: received_def)

lemma stream_loop_returns:
  assumes "\<And>l. k \<le> received l \<Longrightarrow> \<exists>e. stream_recv E l = Inl e"
  shows "k \<le> received l + n \<Longrightarrow> fst (run_io (stream_loop E (Suc n)) l) \<noteq> Ret None"
proof (induction n arbitrary: l)
  case 0
  then obtain e where "stream_recv E l = Inl e" using assms by fastforce
  then show ?case by (simp add: turn_closes_at_end)
next
  case (Suc n)
  obtain r l1 where turn: "run_io (stream_turn E) l = (r, l1)" by fastforce
  show ?case
  proof (cases r)
    case Panic
    then show ?thesis using turn by simp
  next
    case (Ret t)
    show ?thesis
    proof (cases t)
      case Continue
      from turn_receives [OF turn] have "received l1 \<ge> Suc (received l)" by (auto simp: received_def)
      with Suc.prems have "k \<le> received l1 + n" by simp
      from Suc.IH [OF this] show ?thesis using turn Ret Continue by simp
    next
      case (Close err h)
      then show ?thesis using turn Ret by simp
    qed
  qed
qed

end
