(* ===== verification/SampleEnv.thy ===== *)
theory SampleEnv
  imports Controller Southbound
begin

text \<open>
  Concrete parameters: a small configuration and an environment whose services answer in the
  ordinary way. The witnesses of the properties run the model in it, changed where needed.
\<close>

definition sample_config :: infra_config where
  "sample_config = \<lparr>
     cfg_ENDebianPackagesRepo = ''deb'', cfg_ENFilesRsRoot = ''files'',
     cfg_ENManifestRepo = ''manifest'', cfg_ENAgentManifestTag = ''1.0'',
     cfg_InfraURL = ''infra:443'', cfg_ClusterURL = ''cluster:443'', cfg_UpdateURL = ''update:443'',
     cfg_ReleaseServiceURL = ''release:443'', cfg_LogsObservabilityURL = ''logs:443'',
     cfg_MetricsObservabilityURL = ''metrics:443'', cfg_ManageabilityURL = ''dm:443'',
     cfg_RPSAddress = ''rps:443'', cfg_KeycloakURL = ''keycloak:443'', cfg_TelemetryURL = ''tele:443'',
     cfg_RegistryURL = ''reg:443'', cfg_FileServerURL = ''fs:443'', cfg_RSType = ''auth'',
     cfg_ENServiceClients = [], cfg_ENOutboundClients = [], cfg_ENMetricsEnabled = ''true'',
     cfg_ENTokenClients = [], cfg_ProvisioningService = ''prov'', cfg_ProvisioningServerURL = ''prov'',
     cfg_TinkServerURL = ''tink'', cfg_OnboardingURL = ''om'', cfg_OnboardingStreamURL = ''oms'',
     cfg_CDN = ''cdn'', cfg_FsInotifyMaxUserInstances = 1, cfg_VmOverCommitMemory = 1,
     cfg_KernelPanicOnOops = 1, cfg_KernelPanic = 1, cfg_ENProxyHTTP = '''', cfg_ENProxyHTTPS = '''',
     cfg_ENProxyFTP = '''', cfg_ENProxyNoProxy = '''', cfg_ENProxySocks = '''', cfg_NetIP = ''dynamic'',
     cfg_NTPServers = [''ntp''], cfg_DNSServers = [''10.0.0.1''], cfg_FirewallReqAllow = '''',
     cfg_FirewallCfgAllow = '''',
     cfg_ENManifest = \<lparr> em_Codename = ''emt'', em_Component = ''main'', em_Packages = [] \<rparr>,
     cfg_EMBImageURL = '''', cfg_DisableCOProfile = False, cfg_DisableO11YProfile = False,
     cfg_SkipOSProvisioning = False \<rparr>"

definition sample_view :: host_view where
  "sample_view = \<lparr> hv_config = sample_config, hv_getenv = (\<lambda>_. ''''), hv_stat = (\<lambda>_. StatOk),
     hv_read_file = (\<lambda>_. Inr ''PEM''), hv_parse_rules = (\<lambda>_. Inr []), hv_template_ok = (\<lambda>_. True),
     hv_render = (\<lambda>t v. Some t), hv_cloud_init_template = ''cfg'', hv_installer = ''sh'' \<rparr>"

definition sample_env :: om_env where
  "sample_env = \<lparr>
     lib = std_errlib,
     unix_now = (\<lambda>l. 1),
     inv_get = (\<lambda>l c t i. Inl (Errorfc NotFound ''get'')),
     inv_list = (\<lambda>l c k f. (Some [], None)),
     inv_find_all = (\<lambda>l c k. Inr []),
     inv_create = (\<lambda>l c t r. Inr r),
     inv_update = (\<lambda>l c t i fs r. None),
     inv_delete = (\<lambda>l c t i. None),
     validate_message = (\<lambda>r. None),
     fieldmask_new = (\<lambda>r fs. None),
     validate_mask = (\<lambda>r fs. Inr r),
     resource_key = (\<lambda>r. Inr (''t'', ''r'')),
     kind_of_id = (\<lambda>i. if has_prefix i ''host'' then Inr KIND_HOST
        else if has_prefix i ''inst'' then Inr KIND_INSTANCE else Inl (Errorfc InvalidArgument ''id'')),
     check_singular = (\<lambda>rs. case rs of [] \<Rightarrow> Some (Errorfc NotFound ''none'')
        | [r] \<Rightarrow> None | _ \<Rightarrow> Some (Errorfc Internal ''many'')),
     resource_from_kind = (\<lambda>k. None),
     specific_list = (\<lambda>k rs. Inr rs),
     uuid_parse_ok = (\<lambda>s. True),
     parse_provider_config = (\<lambda>s. Inr \<lparr> pc_AutoProvision = True, pc_DefaultOs = ''os-1'',
        pc_DefaultLocalAccount = '''', pc_OSSecurityFeatureEnable = False \<rparr>),
     parse_json_map = (\<lambda>s. None),
     parse_request_uri_ok = (\<lambda>s. True),
     auth_factory = (\<lambda>l. None),
     auth_get = (\<lambda>l t u. (''id'', ''secret'', None)),
     auth_create = (\<lambda>l t u. (''id'', ''secret'', None)),
     auth_revoke = (\<lambda>l t u. None),
     k8s_client = (\<lambda>l. None),
     k8s_get_workflow = (\<lambda>l ns n. Inl (ForeignErr ''not found'' 404)),
     k8s_create = (\<lambda>l x. None),
     k8s_delete_workflow = (\<lambda>l ns n. None),
     k8s_delete_all_of = (\<lambda>l k ns. None),
     stream_recv = (\<lambda>l. Inl (ForeignErr ''EOF'' 0)),
     stream_send = (\<lambda>l r. None),
     internal_ready = (\<lambda>l. True),
     ctrl_reconcile = (\<lambda>l k i. None),
     download_artifacts = (\<lambda>l r t. Inr (Some [''script''])),
     parse_manifest = (\<lambda>s. Inr (''a:1'', '''')),
     url_parse_ok = (\<lambda>s. True),
     new_request_ok = (\<lambda>s. True),
     http_get_header = (\<lambda>l u p. Inr (200, ''raw!'')),
     concat_values_sorted = (\<lambda>m d. ''''),
     quote = (\<lambda>s. s),
     k8s_namespace = ''ns'',
     tinker_action_version = ''v1'',
     tinker_artifact_name = ''tinker'',
     en_dkam_mode = ''prod'',
     en_user_name = '''',
     en_pass_word = '''',
     host_view_at = (\<lambda>l. sample_view) \<rparr>"

lemma sample_env_lib [simp]: "lib sample_env = std_errlib"
  by (simp add: sample_env_def)

lemma sample_laws [simp]: "errlib_laws std_errlib"
  by (rule std_errlib_laws)

text \<open>A host that is registered and wanted onboarded, an OS and an Instance on the host.\<close>

definition sample_host :: host where
  "sample_host = empty_host\<lparr>h_ResourceId := ''host-1'', h_TenantId := ''t1'',
     h_Uuid := ''00000000-0000-0000-0000-000000000001'', h_SerialNumber := ''SN12345'',
     h_CurrentState := HOST_STATE_REGISTERED, h_DesiredState := HOST_STATE_ONBOARDED,
     h_HostNics := [\<lparr>sub_TenantId = ''t1'', sub_ResourceId = ''hostnic-1''\<rparr>],
     h_HostStorages := [\<lparr>sub_TenantId = ''t1'', sub_ResourceId = ''hoststorage-1''\<rparr>]\<rparr>"

definition sample_os :: os_res where
  "sample_os = empty_os\<lparr>os_ResourceId := ''os-1'', os_Type := OS_TYPE_MUTABLE,
     os_Provider := OS_PROVIDER_KIND_INFRA, os_ImageUrl := ''http://a/image.raw.gz''\<rparr>"

definition sample_inst :: inst where
  "sample_inst = empty_inst\<lparr>i_ResourceId := ''inst-1'', i_TenantId := ''t1'',
     i_DesiredState := INSTANCE_STATE_RUNNING,
     i_Host := Some (sample_host\<lparr>h_CurrentState := HOST_STATE_ONBOARDED\<rparr>), i_Os := Some sample_os\<rparr>"

end
