(* ===== verification/HostThms.thy ===== *)
theory HostThms
  imports SampleEnv
begin

text \<open>
  The properties of the host reconciler: the order of a deletion, revocation of credentials
  before any change of state, deletions that wait for an Instance, and which hosts a
  reconciliation leaves alone.
\<close>

section \<open>Deleting a host\<close>

lemma DeleteHostResource_wrote:
  assumes "run_io (DeleteHostResource E c t hid) l = (Ret None, l')"
  shows "\<exists>r. l' = l @ [InvUpdate c t hid [F_current_state] r] \<and> inv_update E l c t hid [F_current_state] r = None \<and>
    validate_mask E (ResHost (empty_host\<lparr>h_ResourceId := hid, h_CurrentState := HOST_STATE_DELETED\<rparr>)) [F_current_state] = Inr r"
  using assms
  by (auto simp: DeleteHostResource_def updateHostCurrentState_def UpdateInvResourceFields_def
      split: option.splits sum.splits)

lemma got_host:
  "run_io (GetHostResourceByResourceID E c t r) l = (Ret (Inr (Some h)), l') \<Longrightarrow>
    inv_get E l c t r = Inr (Some (ResHost h))"
  by (auto simp: GetHostResourceByResourceID_def get_validated_def getResourceByID_def
      split: option.splits sum.splits elim: get_host.elims)

text \<open>
  C7. When the deletion of a host succeeds, the credentials of the edge node have been revoked
  first (unless the host is untrusted, when they already are), then every NIC, storage device,
  USB device and GPU of the host has been deleted once, in this order and nothing else, and the
  last call of all is the one write of the current state of the host, which the Inventory
  accepted: what is written is the message that sets the current state to deleted, as the library
  lets it through the field mask.
\<close>

theorem host_deletion_order:
  assumes "run_io (deleteHost E c skip h) l = (Ret None, l')"
  shows "\<exists>cs r. l' = l @ cs @ [InvUpdate c (h_TenantId h) (h_ResourceId h) [F_current_state] r] \<and>
    filter revoke_or_delete cs =
      (if h_CurrentState h \<noteq> HOST_STATE_UNTRUSTED then [AuthRevoke (h_TenantId h) (h_Uuid h)] else [])
      @ map (del_call c) (h_HostNics h @ h_HostStorages h @ h_HostUsbs h @ h_HostGpus h) \<and>
    validate_mask E (ResHost (empty_host\<lparr>h_ResourceId := h_ResourceId h, h_CurrentState := HOST_STATE_DELETED\<rparr>))
      [F_current_state] = Inr r \<and>
    inv_update E (l @ cs) c (h_TenantId h) (h_ResourceId h) [F_current_state] r = None"
proof -
  obtain l1 where front: "run_io (delete_front E c skip h) l = (Ret None, l1)"
    and last: "run_io (DeleteHostResource E c (h_TenantId h) (h_ResourceId h)) l1 = (Ret None, l')"
    using assms run_if_nil_ok unfolding deleteHost_split by blast
  from DeleteHostResource_wrote [OF last] ok_traceD [OF trace_delete_front front]
  show ?thesis by auto
qed

lemma host_deletion_order_witness:
  "\<exists>l' cs. run_io (deleteHost sample_env CliRM False sample_host) [] = (Ret None, l') \<and>
    l' = cs @ [InvUpdate CliRM ''t1'' ''host-1'' [F_current_state]
      (ResHost (empty_host\<lparr>h_ResourceId := ''host-1'', h_CurrentState := HOST_STATE_DELETED\<rparr>))] \<and>
    filter revoke_or_delete cs =
      [AuthRevoke ''t1'' ''00000000-0000-0000-0000-000000000001'',
       InvDelete CliRM ''t1'' ''hostnic-1'', InvDelete CliRM ''t1'' ''hoststorage-1'']"
proof -
  have "fst (run_io (deleteHost sample_env CliRM False sample_host) []) = Ret None" by code_simp
  then obtain l' where run: "run_io (deleteHost sample_env CliRM False sample_host) [] = (Ret None, l')"
    by (metis prod.collapse)
  have ids: "h_TenantId sample_host = ''t1''" "h_ResourceId sample_host = ''host-1''"
    "h_Uuid sample_host = ''00000000-0000-0000-0000-000000000001''"
    "h_CurrentState sample_host \<noteq> HOST_STATE_UNTRUSTED"
    "map (del_call CliRM) (h_HostNics sample_host @ h_HostStorages sample_host @ h_HostUsbs sample_host
       @ h_HostGpus sample_host) =
     [InvDelete CliRM ''t1'' ''hostnic-1'', InvDelete CliRM ''t1'' ''hoststorage-1'']"
    by (simp_all add: sample_host_def empty_host_def del_call_def)
  have "validate_mask sample_env r fs = Inr r" for r fs by (simp add: sample_env_def)
  then show ?thesis using host_deletion_order [OF run] run ids(4) unfolding ids(1-3,5) by auto
qed

text \<open>
  C13. As long as the credentials of edge nodes cannot be revoked, a reconciliation of a host
  neither deletes anything nor writes a current state, with one exception: a host that is
  already untrusted, whose credentials were revoked when it became so, may be deleted.
\<close>

theorem no_state_change_without_revocation:
  assumes "\<And>l t u. auth_revoke E l t u \<noteq> None"
    and "\<And>l t r h. inv_get E l c t r = Inr (Some (ResHost h)) \<Longrightarrow>
      \<not> (h_CurrentState h = HOST_STATE_UNTRUSTED \<and> h_DesiredState h = HOST_STATE_DELETED)"
  shows "emits keeps_state (HostReconcile E c skip rid)"
proof -
  have "emits keeps_state (deleteHost E c skip h)" if "h_CurrentState h \<noteq> HOST_STATE_UNTRUSTED" for h
    using deleteHost_needs_revocation assms(1) that by blast
  moreover have "emits keeps_state (invalidateHost E c h)" for h
    using invalidateHost_needs_revocation assms(1) by blast
  ultimately have rec: "emits keeps_state (reconcileHost E c skip h)"
    if "\<not> (h_CurrentState h = HOST_STATE_UNTRUSTED \<and> h_DesiredState h = HOST_STATE_DELETED)" for h
    using that unfolding reconcileHost_def by (auto intro!: emits_intro)
  show ?thesis
    unfolding HostReconcile_def
  proof (rule emits_bnd, goal_cases)
    case (2 r)
    show ?case
    proof (rule emits_bnd_run, goal_cases)
      case (2 l x l')
      have found: "emits keeps_state (reconcileHost E c skip h)" if "x = Inr (Some h)" for h
        using assms(2) got_host [OF 2 [unfolded that]] by (intro rec) blast
      show ?case
        by (cases x; cases "projr x") (auto intro!: emits_intro found simp del: not_None_eq)
    qed (intro emits_intro; simp)
  qed (intro emits_intro)
qed

definition no_keycloak :: "host \<Rightarrow> om_env" where
  "no_keycloak h = sample_env\<lparr>auth_revoke := (\<lambda>l t u. Some (Errorfc Unavailable ''no answer'')),
     inv_get := (\<lambda>l c t r. Inr (Some (ResHost h)))\<rparr>"

lemma no_state_change_without_revocation_witness:
  "emits keeps_state (HostReconcile (no_keycloak (sample_host\<lparr>h_DesiredState := HOST_STATE_DELETED\<rparr>)) CliRM False ''t1_host-1'')"
  by (rule no_state_change_without_revocation) (auto simp: no_keycloak_def sample_host_def empty_host_def)

text \<open>
  With OS provisioning on, a host that still has an Instance is not deleted: the deletion
  only writes the onboarding status of that host and ends with an error, and the reconciler
  asks for a retry with back-off.
\<close>

theorem deletion_waits_for_instance:
  assumes "errlib_laws (lib E)" and "h_Instance h = Some i" and "h_DesiredState h = HOST_STATE_DELETED"
  shows "emits (\<lambda>x. \<exists>r. x = InvUpdate c (h_TenantId h) (h_ResourceId h) onboarding_status_fields r)
           (reconcileHost E c False h) \<and>
         (\<exists>e l'. run_io (reconcileHost E c False h) l = (Ret (Retry (Some e) minDelay maxDelay), l'))"
proof -
  let ?e = "Errorf ''Instance is still assigned to host, waiting for Instance to be deleted first''"
  have "HandleInventoryError (lib E) (Some ?e) = Some (Retry (Some ?e) minDelay maxDelay)"
    using assms(1) by (simp add: HandleInventoryError_def)
  moreover obtain l' where "run_io (deleteHost E c False h) l = (Ret (Some ?e), l')"
    using deleteHost_waits_for_instance(2) [OF assms(2)] by blast
  ultimately have "run_io (reconcileHost E c False h) l = (Ret (Retry (Some ?e) minDelay maxDelay), l')"
    using assms(3) by (simp add: reconcileHost_def)
  moreover have "emits (\<lambda>x. \<exists>r. x = InvUpdate c (h_TenantId h) (h_ResourceId h) onboarding_status_fields r)
      (reconcileHost E c False h)"
    using assms(3) unfolding reconcileHost_def
    by (simp, intro emits_intro deleteHost_waits_for_instance(1) [OF assms(2)])
  ultimately show ?thesis by blast
qed

lemma deletion_waits_for_instance_witness:
  "\<exists>e l'. run_io (reconcileHost sample_env CliRM False
     (sample_host\<lparr>h_DesiredState := HOST_STATE_DELETED,
        h_Instance := Some \<lparr>ref_ResourceId = ''inst-1'', ref_CurrentState = INSTANCE_STATE_RUNNING\<rparr>\<rparr>)) []
     = (Ret (Retry (Some e) minDelay maxDelay), l')"
  using deletion_waits_for_instance [where E = sample_env and c = CliRM and l = "[]"
      and h = "sample_host\<lparr>h_DesiredState := HOST_STATE_DELETED,
        h_Instance := Some \<lparr>ref_ResourceId = ''inst-1'', ref_CurrentState = INSTANCE_STATE_RUNNING\<rparr>\<rparr>"]
  by simp


section \<open>Hosts that are left alone\<close>

text \<open>
  A reconciliation reads the host and does nothing else, and is acknowledged, when the host
  belongs to another provider, is in its desired state already, or is wanted in any state but
  deleted and untrusted.
\<close>

theorem host_left_alone:
  assumes "errlib_laws (lib E)" and "GetResourceID rid = Ret r"
    and "inv_get E l c (GetTenantID rid) r = Inr (Some (ResHost h))" and "validate_message E (Some (ResHost h)) = None"
    and "h_Provider h \<noteq> None \<or> h_DesiredState h = h_CurrentState h \<or>
      h_DesiredState h \<notin> {HOST_STATE_DELETED, HOST_STATE_UNTRUSTED}"
  shows "run_io (HostReconcile E c skip rid) l = (Ret Ack, l @ [InvGet c (GetTenantID rid) r])"
  using assms
  by (auto simp: HostReconcile_def GetHostResourceByResourceID_def get_validated_def getResourceByID_def
      reconcileHost_def)

definition host_env :: "host \<Rightarrow> om_env" where
  "host_env h = sample_env\<lparr>inv_get := (\<lambda>l c t r. Inr (Some (ResHost h)))\<rparr>"

lemma host_left_alone_witness:
  "run_io (HostReconcile (host_env sample_host) CliRM False ''t1_host-1'') [] = (Ret Ack, [InvGet CliRM ''t1'' ''host-1''])"
proof -
  have ids: "GetResourceID ''t1_host-1'' = Ret ''host-1''" "GetTenantID ''t1_host-1'' = ''t1''" by code_simp+
  have h: "h_DesiredState sample_host \<notin> {HOST_STATE_DELETED, HOST_STATE_UNTRUSTED}"
    by (simp add: sample_host_def)
  show ?thesis
    using host_left_alone [OF _ ids(1), of "host_env sample_host" "[]" CliRM sample_host False] h ids(2)
    by (simp add: host_env_def sample_env_def)
qed

end
