(* ===== verification/ProvisioningThms.thy ===== *)
theory ProvisioningThms
  imports SampleEnv
begin

text \<open>
  The properties of provisioning: what one reconciliation of an Instance does in each state of
  its workflow, when it may create a workflow, how failures, deletions and deauthorized hosts
  are handled, and the status texts and directives that come out of it.
\<close>

section \<open>A reconciliation of a stored Instance\<close>

text \<open>An Instance that waits to be provisioned on an onboarded host of this resource manager.\<close>

definition waiting :: "inst \<Rightarrow> bool" where
  "waiting i \<longleftrightarrow> i_DesiredState i = INSTANCE_STATE_RUNNING \<and> i_CurrentState i \<noteq> INSTANCE_STATE_RUNNING \<and>
     i_ProvisioningStatusIndicator i \<noteq> IND_ERROR \<and>
     (\<exists>h. i_Host i = Some h \<and> h_Provider h = None \<and> h_CurrentState h = HOST_STATE_ONBOARDED \<and>
        h_DesiredState h \<noteq> HOST_STATE_UNTRUSTED)"

lemma failed_indicator [simp]: "st_Indicator ProvisioningStatusFailed = IND_ERROR"
  by (simp add: ProvisioningStatusFailed_def mk_status_def)

lemma waiting_reconciled: "waiting i \<Longrightarrow> reconcile_loaded E c i = reconcileInstance E c i"
  by (auto simp: waiting_def reconcile_loaded_def handleProviderSpecificRM_def handleErrorState_def
      handleHostDeauthorized_def host_untrusted_def handleMatchingStates_def handleHostOnboarded_def)

text \<open>
  The directive of a whole reconciliation of a waiting Instance whose workflow exists, by the
  state of the workflow: a finished workflow is acknowledged (unless the metadata of the Instance
  cannot be read), a failed or timed out one fails for good, a pending or running one is retried
  with back-off as in progress, and a state that Tinkerbell does not document is retried as an
  error.
\<close>

theorem provisioning_directive:
  assumes "errlib_laws (lib E)" and "stored E c rid i" and "waiting i"
    and "provisionable E i os d" and "workflow_is E w"
  shows "\<exists>l'. run_io (InstanceReconcile E c rid) l = (Ret (case wf_State w of
      WF_SUCCESS \<Rightarrow> (case IsStandalone E i of Inl e \<Rightarrow> the (HandleProvisioningError (lib E) (Some e)) | Inr _ \<Rightarrow> Ack)
    | WF_FAILED \<Rightarrow> Fail (Some (Errorfc Aborted ''Workflow failed or timed out''))
    | WF_TIMEOUT \<Rightarrow> Fail (Some (Errorfc Aborted ''Workflow failed or timed out''))
    | WF_OTHER s \<Rightarrow> Retry (Some (Errorf (''Unknown workflow state '' @ s))) minDelay maxDelay
    | _ \<Rightarrow> Retry (Some (Errorfr OperationInProgress '''')) minDelay maxDelay), l')"
proof -
  from assms(3) have "i_DesiredState i = INSTANCE_STATE_RUNNING" by (simp add: waiting_def)
  from run_reconcile_provisioning [OF assms(1,4,5) this] show ?thesis
    unfolding run_stored [OF assms(1,2)] waiting_reconciled [OF assms(3)] by blast
qed

definition sample_workflow :: "wf_state \<Rightarrow> workflow" where
  "sample_workflow s = \<lparr>wf_Name = ''workflow'', wf_Namespace = ''ns'', wf_HardwareRef = ''hw'',
     wf_TemplateRef = ''ubuntu'', wf_HardwareMap = Map.empty, wf_State = s, wf_Tasks = []\<rparr>"

definition with_workflow :: "wf_state \<Rightarrow> inst \<Rightarrow> om_env" where
  "with_workflow s i = sample_env\<lparr>
     inv_get := (\<lambda>l c t r. Inr (Some (ResInstance i))),
     k8s_get_workflow := (\<lambda>l ns n. Inr (sample_workflow s))\<rparr>"

lemma with_workflow_stored: "stored (with_workflow s i) c ''t1_inst-1'' i"
proof -
  have "GetResourceID ''t1_inst-1'' = Ret ''inst-1''" by code_simp
  then show ?thesis by (simp add: stored_def with_workflow_def sample_env_def)
qed

lemma with_workflow_is: "workflow_is (with_workflow s i) (sample_workflow s)"
  by (simp add: workflow_is_def with_workflow_def sample_env_def)

lemma with_workflow_lib [simp]: "lib (with_workflow s i) = std_errlib"
  by (simp add: with_workflow_def)

lemma sample_inst_waiting: "waiting sample_inst"
  by (simp add: waiting_def sample_inst_def empty_inst_def sample_host_def empty_host_def)

lemma provisionable_on_sample_os:
  assumes "i_Os i = Some sample_os" and "i_Host i \<noteq> None"
  shows "\<exists>d. provisionable (with_workflow s j) i sample_os d"
proof -
  have "convertInstanceToDeviceInfo (with_workflow s j) i \<noteq> Inl e" for e
    using assms by (simp add: convertInstanceToDeviceInfo_def sample_os_def empty_os_def os_location_def
        IsStandalone_def kernel_metadata_def Let_def)
  then obtain d where "convertInstanceToDeviceInfo (with_workflow s j) i = Inr d"
    by (meson sumE)
  then show ?thesis using assms by (auto simp: provisionable_def sample_os_def empty_os_def)
qed

lemma sample_provisionable: "\<exists>d. provisionable (with_workflow s j) sample_inst sample_os d"
  by (rule provisionable_on_sample_os) (simp_all add: sample_inst_def)

lemma provisioning_directive_witness:
  "\<exists>l'. run_io (InstanceReconcile (with_workflow WF_FAILED sample_inst) CliRM ''t1_inst-1'') [] =
     (Ret (Fail (Some (Errorfc Aborted ''Workflow failed or timed out''))), l')"
proof -
  obtain d where "provisionable (with_workflow WF_FAILED sample_inst) sample_inst sample_os d"
    using sample_provisionable by blast
  from provisioning_directive [OF _ with_workflow_stored sample_inst_waiting this with_workflow_is, of CliRM "[]"]
  show ?thesis by (simp add: sample_workflow_def)
qed


section \<open>When a workflow may be created\<close>

text \<open>
  C14. A reconciliation creates no Kubernetes object, so no workflow, unless the stored Instance
  passes the gate \<open>provisioning_open\<close>: it is wanted running, its host has no other provider and
  is trusted, its OS is provisioned by the infrastructure, its provisioning has not failed, and
  its host is onboarded (or the Instance runs already with its provisioning not done). This holds
  whatever Kubernetes and the Inventory reply to the calls after the read of the Instance.
\<close>

theorem workflow_needs_open_gate:
  assumes "errlib_laws (lib E)" and "stored E c rid i" and "\<not> provisioning_open i"
  shows "emits (\<lambda>x. \<not> creates_workflow x) (InstanceReconcile E c rid)"
  using assms by (intro emits_stored reconcile_loaded_creates) (simp_all add: request_get_def)

definition registered_inst :: inst where
  "registered_inst = sample_inst\<lparr>i_Host := Some sample_host\<rparr>"

lemma workflow_needs_open_gate_witness:
  "emits (\<lambda>x. \<not> creates_workflow x)
     (InstanceReconcile (with_workflow WF_PENDING registered_inst) CliRM ''t1_inst-1'')"
  by (rule workflow_needs_open_gate [OF _ with_workflow_stored])
    (auto simp: provisioning_open_def registered_inst_def sample_inst_def empty_inst_def
      sample_host_def empty_host_def)

section \<open>Deleting an Instance\<close>

text \<open>
  As long as the workflow of an Instance cannot be deleted (and is not gone), a
  reconciliation that is to delete the Instance writes nothing to the Inventory.
\<close>

theorem instance_deletion_needs_cleanup:
  assumes "errlib_laws (lib E)" and "stored E c rid i" and "i_DesiredState i = INSTANCE_STATE_DELETED"
    and "\<And>l ns n. k8s_delete_workflow E l ns n \<noteq> None \<and> \<not> k8s_is_not_found (lib E) (k8s_delete_workflow E l ns n)"
  shows "emits (\<lambda>x. \<forall>c t r fs v. x \<noteq> InvUpdate c t r fs v) (InstanceReconcile E c rid)"
proof (rule emits_stored [OF assms(1,2)])
  have match: "handleMatchingStates E c i = (if i_DesiredState i = i_CurrentState i then ret (Some Ack) else ret None)"
    using assms(3) by (auto simp: handleMatchingStates_def)
  show "emits (\<lambda>x. \<forall>c t r fs v. x \<noteq> InvUpdate c t r fs v) (reconcile_loaded E c i)"
    unfolding reconcile_loaded_def match using assms(3) deletion_needs_cleanup [OF assms(4,3)]
    by (auto simp: handleHostDeauthorized_def intro!: emits_intro)
qed (simp add: request_get_def)

lemma std_not_found: "\<not> k8s_is_not_found std_errlib (Some (ForeignErr m 0))"
  by (simp add: std_errlib_def)

definition no_kubernetes :: "inst \<Rightarrow> om_env" where
  "no_kubernetes i = (with_workflow WF_RUNNING i)\<lparr>k8s_delete_workflow := (\<lambda>l ns n. Some (ForeignErr ''refused'' 0))\<rparr>"

lemma instance_deletion_needs_cleanup_witness:
  "emits (\<lambda>x. \<forall>c t r fs v. x \<noteq> InvUpdate c t r fs v)
     (InstanceReconcile (no_kubernetes (sample_inst\<lparr>i_DesiredState := INSTANCE_STATE_DELETED\<rparr>)) CliRM ''t1_inst-1'')"
proof (rule instance_deletion_needs_cleanup)
  show "stored (no_kubernetes (sample_inst\<lparr>i_DesiredState := INSTANCE_STATE_DELETED\<rparr>)) CliRM ''t1_inst-1''
      (sample_inst\<lparr>i_DesiredState := INSTANCE_STATE_DELETED\<rparr>)"
    using with_workflow_stored by (simp add: stored_def no_kubernetes_def)
qed (simp_all add: no_kubernetes_def std_not_found)

text \<open>
  C18. A reconciliation that is to delete an Instance whose workflow Kubernetes deletes, or no
  longer has, deletes the workflow of its host, then writes the current state of the Instance as
  deleted (\<open>v\<close> is what the library makes of this message under the field mask), and does nothing
  else; the reply of the Inventory decides between an acknowledgement and a retry.
\<close>

theorem instance_deletion:
  assumes "errlib_laws (lib E)" and "stored E c rid i"
    and "i_DesiredState i = INSTANCE_STATE_DELETED" and "i_CurrentState i \<noteq> INSTANCE_STATE_DELETED"
    and "handleProviderSpecificRM i = None"
    and "\<And>l. k8s_client E l = None"
    and "\<And>l ns n. k8s_delete_workflow E l ns n = None \<or> k8s_is_not_found (lib E) (k8s_delete_workflow E l ns n)"
    and "\<And>r. fieldmask_new E r [F_current_state] = None"
    and "validate_mask E (ResInstance (empty_inst\<lparr>i_ResourceId := i_ResourceId i, i_CurrentState := INSTANCE_STATE_DELETED\<rparr>))
      [F_current_state] = Inr v"
  shows "\<exists>cs. cs = l @ [request_get c rid, K8sClient,
        K8sDeleteWorkflow (k8s_namespace E) (generateWorkflowName (case i_Host i of None \<Rightarrow> '''' | Some h \<Rightarrow> h_Uuid h))] \<and>
      run_io (InstanceReconcile E c rid) l =
        (Ret (case HandleInventoryError (lib E) (inv_update E cs c (i_TenantId i) (i_ResourceId i) [F_current_state] v) of
           None \<Rightarrow> Ack | Some d \<Rightarrow> d),
         cs @ [InvUpdate c (i_TenantId i) (i_ResourceId i) [F_current_state] v])"
proof -
  have loaded: "reconcile_loaded E c i = reconcileInstance E c i"
    using assms(3-5) by (auto simp: reconcile_loaded_def handleErrorState_def handleHostDeauthorized_def
        handleMatchingStates_def handleHostOnboarded_def)
  show ?thesis
    unfolding run_stored [OF assms(1,2)] loaded
    using assms(1,3,6-9)
    by (auto simp: reconcileInstance_def cleanupProvisioningResources_def DeleteTinkerbellWorkflowIfExists_def
        DeleteWorkflowIfExists_def K8sClientFactory_def UpdateInstanceCurrentState_def
        UpdateInvResourceFields_def or_go_on_def split: option.splits)
qed

text \<open>A library that drops what is outside of the mask, the id included.\<close>

definition filtering_env :: "inst \<Rightarrow> om_env" where
  "filtering_env i = (with_workflow WF_SUCCESS i)\<lparr>validate_mask := (\<lambda>r fs. case r of
     ResInstance v \<Rightarrow> Inr (ResInstance (empty_inst\<lparr>i_CurrentState := i_CurrentState v\<rparr>)) | _ \<Rightarrow> Inr r)\<rparr>"

lemma instance_deletion_witness:
  "\<exists>cs. run_io (InstanceReconcile (filtering_env (sample_inst\<lparr>i_DesiredState := INSTANCE_STATE_DELETED\<rparr>)) CliRM ''t1_inst-1'') []
     = (Ret Ack, cs @ [InvUpdate CliRM ''t1'' ''inst-1'' [F_current_state]
         (ResInstance (empty_inst\<lparr>i_CurrentState := INSTANCE_STATE_DELETED\<rparr>))])"
proof -
  let ?i = "sample_inst\<lparr>i_DesiredState := INSTANCE_STATE_DELETED\<rparr>"
  let ?E = "filtering_env ?i"
  have ok: "inv_update ?E l c t r fs v = None" for l c t r fs v
    by (simp add: filtering_env_def with_workflow_def sample_env_def)
  have mask: "validate_mask ?E (ResInstance (empty_inst\<lparr>i_ResourceId := i_ResourceId ?i, i_CurrentState := INSTANCE_STATE_DELETED\<rparr>))
      [F_current_state] = Inr (ResInstance (empty_inst\<lparr>i_CurrentState := INSTANCE_STATE_DELETED\<rparr>))"
    by (simp add: filtering_env_def)
  have st: "stored ?E CliRM ''t1_inst-1'' ?i"
    using with_workflow_stored [of WF_SUCCESS ?i CliRM] by (simp add: stored_def filtering_env_def)
  have ids: "i_TenantId ?i = ''t1''" "i_ResourceId ?i = ''inst-1''" by (simp_all add: sample_inst_def)
  have "lib ?E = std_errlib" by (simp add: filtering_env_def)
  then show ?thesis
    using instance_deletion [OF _ st _ _ _ _ _ _ mask, of "[]"] ok unfolding ids
    by (auto simp: handleProviderSpecificRM_def sample_inst_def sample_host_def empty_host_def empty_inst_def
        filtering_env_def with_workflow_def sample_env_def)
qed


section \<open>Provisioning attempts\<close>

definition ends_with :: "(om_call \<Rightarrow> bool) \<Rightarrow> 'a om \<Rightarrow> bool" where
  "ends_with Q m \<longleftrightarrow> (\<forall>l. \<exists>x l' c. run_io m l = (Ret x, l' @ [c]) \<and> Q c)"

lemma ends_with_bnd:
  assumes "returns m" and "\<And>x. ends_with Q (f x)"
  shows "ends_with Q (bnd m f)"
  unfolding ends_with_def
proof
  fix l
  obtain x l1 where "run_io m l = (Ret x, l1)" using returnsD [OF assms(1)] by blast
  then show "\<exists>y l' c. run_io (bnd m f) l = (Ret y, l' @ [c]) \<and> Q c"
    using assms(2) by (simp add: ends_with_def)
qed

lemma ends_with_then_ret: "ends_with Q m \<Longrightarrow> ends_with Q (bnd m (\<lambda>_. ret x))"
  unfolding ends_with_def
proof
  fix l
  assume "\<forall>l. \<exists>x l' c. run_io m l = (Ret x, l' @ [c]) \<and> Q c"
  then obtain y l' c where "run_io m l = (Ret y, l' @ [c])" "Q c" by blast
  then show "\<exists>x' l' c. run_io (bnd m (\<lambda>_. ret x)) l = (Ret x', l' @ [c]) \<and> Q c" by simp
qed

lemma write_back_ends_with_write:
  assumes "i_Host old \<noteq> None" and "i_Host new \<noteq> None" and "i_Os old \<noteq> None"
    and "\<And>r. fieldmask_new E r update_instance_fields = None"
    and "\<And>r. \<exists>r'. validate_mask E r update_instance_fields = Inr r'"
  shows "ends_with (\<lambda>x. \<exists>upd. x = InvUpdate c (i_TenantId new) (i_ResourceId new) update_instance_fields upd)
    (updateHostInstanceStatusAndCurrentState E c old new)"
proof -
  obtain g where g: "\<And>r. validate_mask E r update_instance_fields = Inr (g r)"
    using assms(5) by metis
  have final: "ends_with (\<lambda>x. \<exists>upd. x = InvUpdate c (i_TenantId new) (i_ResourceId new) update_instance_fields upd)
      (UpdateInstance E c (i_TenantId new) (i_ResourceId new) cs s os)" for cs s os
    using assms(4) g by (simp add: ends_with_def UpdateInstance_def UpdateInvResourceFields_def update_instance_fields_def)
  have same: "returns (of_outcome (IsSameHostStatus (i_Host old) (i_Host new)))"
    "returns (of_outcome (IsSameOnboardingStatus (i_Host old) (i_Host new)))"
    using assms(1,2) by (auto intro!: returns_intro)
  show ?thesis
    unfolding updateHostInstanceStatusAndCurrentState_def Let_def os_pointers_differ_def
    by (intro ends_with_bnd same ends_with_then_ret) (use assms(3) in \<open>auto intro!: returns_intro ends_with_then_ret final\<close>)
qed

text \<open>
  An attempt to provision an Instance whose workflow exists ends with a write of the
  Instance, also when neither its status nor its state has changed: the comparison of the two
  OS pointers that is to skip the write always finds them different.
\<close>

theorem attempt_always_writes_instance:
  assumes "errlib_laws (lib E)" and "provisionable E i os d" and "workflow_is E w"
    and "\<And>r. fieldmask_new E r update_instance_fields = None"
    and "\<And>r. \<exists>r'. validate_mask E r update_instance_fields = Inr r'"
  shows "\<exists>res l' upd. run_io (tryProvisionInstance E c i) l =
    (Ret res, l' @ [InvUpdate c (i_TenantId i) (i_ResourceId i) update_instance_fields upd])"
proof -
  let ?i0 = "PopulateInstanceStatusAndCurrentState i INSTANCE_STATE_UNSPECIFIED ProvisioningStatusInProgress"
  from assms(2) have host: "i_Host i \<noteq> None" "i_Host ?i0 \<noteq> None" "i_Os i \<noteq> None"
    by (simp_all add: provisionable_def PopulateInstanceStatusAndCurrentState_def)
  then obtain i1 err where r: "handleWorkflowStatus E ?i0 w ProvisioningStatusDone ProvisioningStatusFailed = Ret (i1, err)"
    using handleWorkflowStatus_returns by (metis outcome.exhaust prod.collapse)
  let ?i2 = "fst (after_check (i1, err))"
  let ?l1 = "l @ [K8sClient, K8sGetWorkflow (k8s_namespace E) (generateWorkflowName (di_GUID d))]"
  have same: "i_Host ?i2 \<noteq> None" "i_TenantId ?i2 = i_TenantId i" "i_ResourceId ?i2 = i_ResourceId i"
    using r host
    by (auto simp: handleWorkflowStatus_def Let_def PopulateInstanceStatusAndCurrentState_def after_check_def
        PopulateHostStatus_def PopulateInstanceProvisioningStatus_def
        split: wf_state.splits sum.splits if_splits option.splits outcome.splits)
  obtain l2 upd where w: "run_io (updateHostInstanceStatusAndCurrentState E c i ?i2) ?l1 =
      (Ret (), l2 @ [InvUpdate c (i_TenantId i) (i_ResourceId i) update_instance_fields upd])"
    using write_back_ends_with_write [OF host(1) same(1) host(3) assms(4,5)] same
    unfolding ends_with_def by (metis old.unit.exhaust)
  have "run_io (tryProvisionInstance E c i) l = (Ret (after_check (i1, err)),
      l2 @ [InvUpdate c (i_TenantId i) (i_ResourceId i) update_instance_fields upd])"
    using assms(1,2) w host
    by (cases err)
      (auto simp: tryProvisionInstance_def provisionable_def Let_def after_check_def
        check_existing_workflow [OF assms(3)] r)
  then show ?thesis by blast
qed

definition provisioning_inst :: inst where
  "provisioning_inst = PopulateInstanceStatusAndCurrentState sample_inst INSTANCE_STATE_UNSPECIFIED
     (NewStatusWithDetails ProvisioningStatusInProgress '''')"

lemma attempt_always_writes_instance_witness:
  "\<exists>i' err l' upd. run_io (tryProvisionInstance (with_workflow WF_PENDING provisioning_inst) CliRM provisioning_inst) [] =
      (Ret (i', err), l' @ [InvUpdate CliRM ''t1'' ''inst-1'' update_instance_fields upd])"
proof -
  let ?E = "with_workflow WF_PENDING provisioning_inst"
  obtain d where p: "provisionable ?E provisioning_inst sample_os d"
    using provisionable_on_sample_os [of provisioning_inst]
    by (auto simp: provisioning_inst_def PopulateInstanceStatusAndCurrentState_def sample_inst_def)
  have ids: "i_TenantId provisioning_inst = ''t1''" "i_ResourceId provisioning_inst = ''inst-1''"
    by (simp_all add: provisioning_inst_def PopulateInstanceStatusAndCurrentState_def sample_inst_def)
  show ?thesis
    using attempt_always_writes_instance [OF _ p with_workflow_is, where c = CliRM and l = "[]"]
    unfolding ids by (auto simp: with_workflow_def sample_env_def)
qed


section \<open>Deauthorized hosts\<close>

text \<open>
  On a deauthorized host an Instance that is to run and whose workflow is gone is only given
  statuses: while its instance status is not ``Unknown'' and all indicators are calm, every
  reconciliation writes back the very statuses it read, so the next one finds the same Instance
  and writes again; the Instance never reaches the status that would end this.
\<close>

definition same_slots :: "inst \<Rightarrow> inst \<Rightarrow> bool" where
  "same_slots u i \<longleftrightarrow> slot_instance u = slot_instance i \<and> slot_provisioning u = slot_provisioning i \<and>
     slot_update u = slot_update i \<and> slot_attestation u = slot_attestation i"

theorem deauthorized_idle_instance_never_settles:
  assumes "errlib_laws (lib E)" and "stored E c rid i" and "i_DesiredState i = INSTANCE_STATE_RUNNING"
    and "host_untrusted i" and "handleProviderSpecificRM i = None" and "handleErrorState i = None"
    and "i_InstanceStatus i \<noteq> ''Unknown''" and "checkStatusIdle i"
    and "\<And>l ns n. \<exists>e. k8s_get_workflow E l ns n = Inl e"
    and "\<And>r. fieldmask_new E r instance_statuses_fields = None"
    and "\<And>u. \<exists>v. validate_mask E (ResInstance u) instance_statuses_fields = Inr (ResInstance v) \<and> same_slots v u"
  shows "\<exists>l' u. run_io (InstanceReconcile E c rid) l = (Ret Ack,
      l' @ [InvUpdate c (i_TenantId i) (i_ResourceId i) instance_statuses_fields (ResInstance u)]) \<and>
    same_slots u i"
proof -
  let ?m = "case convertInstanceToDeviceInfo E i of Inl _ \<Rightarrow> ret False | Inr d \<Rightarrow> CheckWorkflowExist E d i"
  from assms(4) obtain h where h: "i_Host i = Some h" by (auto simp: host_untrusted_def split: option.splits)
  have gone: "\<exists>l1. run_io ?m l = (Ret False, l1)" for l
  proof (cases "convertInstanceToDeviceInfo E i")
    case (Inr d)
    obtain e where "k8s_get_workflow E (l @ [K8sClient]) (k8s_namespace E) (generateWorkflowName (di_GUID d)) = Inl e"
      using assms(9) by blast
    then show ?thesis by (simp add: Inr CheckWorkflowExist_def K8sClientFactory_def getWorkflow_def h)
  qed simp
  obtain l1 where l1: "run_io ?m (l @ [request_get c rid]) = (Ret False, l1)" using gone by blast
  let ?t = "word_of_int (unix_now E l1) :: 64 word"
  let ?u = "empty_inst\<lparr>i_ResourceId := i_ResourceId i,
            i_InstanceStatus := i_InstanceStatus i, i_InstanceStatusIndicator := i_InstanceStatusIndicator i,
            i_InstanceStatusTimestamp := ?t,
            i_ProvisioningStatus := i_ProvisioningStatus i,
            i_ProvisioningStatusIndicator := i_ProvisioningStatusIndicator i,
            i_ProvisioningStatusTimestamp := ?t,
            i_UpdateStatus := i_UpdateStatus i, i_UpdateStatusIndicator := i_UpdateStatusIndicator i,
            i_UpdateStatusTimestamp := ?t,
            i_TrustedAttestationStatus := i_TrustedAttestationStatus i,
            i_TrustedAttestationStatusIndicator := i_TrustedAttestationStatusIndicator i,
            i_TrustedAttestationStatusTimestamp := ?t,
            i_InstanceStatusDetail := i_InstanceStatusDetail i\<rparr>"
  from assms(11) obtain v where v: "validate_mask E (ResInstance ?u) instance_statuses_fields = Inr (ResInstance v)"
    "same_slots v ?u" by blast
  have upd: "run_io (updateInstanceStatuses E c i) l1 =
      (Ret (), l1 @ [InvUpdate c (i_TenantId i) (i_ResourceId i) instance_statuses_fields (ResInstance v)])"
    using assms(10) v(1)
    by (simp add: updateInstanceStatuses_def UpdateInstanceStatuses_def UpdateInvResourceFields_def
        instance_statuses_fields_def slot_instance_def slot_provisioning_def slot_update_def
        slot_attestation_def mk_status_def)
  have "handleHostDeauthorized E c i = bnd ?m (\<lambda>b. bnd (if b then cleanupProvisioningResources E i else ret None) (\<lambda>err.
      if err \<noteq> None then ret (Some Ack) else bnd (updateInstanceStatuses E c i) (\<lambda>_. ret (Some Ack))))"
    using assms(3,4,7,8) by (simp add: handleHostDeauthorized_def checkStatusUnknown_def)
  then have "run_io (InstanceReconcile E c rid) l = (Ret Ack,
      l1 @ [InvUpdate c (i_TenantId i) (i_ResourceId i) instance_statuses_fields (ResInstance v)])"
    unfolding run_stored [OF assms(1,2)]
    by (simp add: reconcile_loaded_def assms(5,6) l1 upd)
  with v(2) show ?thesis
    by (auto simp: same_slots_def slot_instance_def slot_provisioning_def slot_update_def slot_attestation_def)
qed

definition deauthorized_inst :: inst where
  "deauthorized_inst = sample_inst\<lparr>i_CurrentState := INSTANCE_STATE_RUNNING, i_InstanceStatus := ''Running'',
     i_InstanceStatusIndicator := IND_IDLE, i_ProvisioningStatusIndicator := IND_IDLE,
     i_Host := Some (sample_host\<lparr>h_CurrentState := HOST_STATE_UNTRUSTED\<rparr>)\<rparr>"

definition deauthorized_env :: om_env where
  "deauthorized_env = sample_env\<lparr>inv_get := (\<lambda>l c t r. Inr (Some (ResInstance deauthorized_inst)))\<rparr>"

lemma deauthorized_idle_instance_never_settles_witness:
  "\<exists>l' u. run_io (InstanceReconcile deauthorized_env CliRM ''t1_inst-1'') [] =
     (Ret Ack, l' @ [InvUpdate CliRM ''t1'' ''inst-1'' instance_statuses_fields (ResInstance u)]) \<and>
     slot_instance u = mk_status ''Running'' IND_IDLE"
proof -
  have res: "GetResourceID ''t1_inst-1'' = Ret ''inst-1''" by code_simp
  have st: "stored deauthorized_env CliRM ''t1_inst-1'' deauthorized_inst"
    by (simp add: stored_def res deauthorized_env_def sample_env_def)
  let ?i = deauthorized_inst
  have i: "i_DesiredState ?i = INSTANCE_STATE_RUNNING" "host_untrusted ?i" "handleProviderSpecificRM ?i = None"
    "handleErrorState ?i = None" "i_InstanceStatus ?i \<noteq> ''Unknown''" "checkStatusIdle ?i"
    by (simp_all add: deauthorized_inst_def sample_inst_def empty_inst_def sample_host_def empty_host_def
        host_untrusted_def handleProviderSpecificRM_def handleErrorState_def checkStatusIdle_def calm_def)
  have E: "errlib_laws (lib deauthorized_env)" "\<And>l ns n. \<exists>e. k8s_get_workflow deauthorized_env l ns n = Inl e"
    "\<And>r. fieldmask_new deauthorized_env r instance_statuses_fields = None"
    "\<And>u. \<exists>v. validate_mask deauthorized_env (ResInstance u) instance_statuses_fields = Inr (ResInstance v) \<and> same_slots v u"
    by (simp_all add: deauthorized_env_def) (simp_all add: sample_env_def same_slots_def)
  have ids: "i_TenantId ?i = ''t1''" "i_ResourceId ?i = ''inst-1''" "slot_instance ?i = mk_status ''Running'' IND_IDLE"
    by (simp_all add: deauthorized_inst_def sample_inst_def slot_instance_def)
  show ?thesis
    using deauthorized_idle_instance_never_settles [OF E(1) st i E(2-4), of "[]"] unfolding same_slots_def ids by blast
qed

section \<open>Requests and directives\<close>

text \<open>
  C23. A request id made of a tenant and a resource id without underscores gives both back.
\<close>

theorem reconciler_id_roundtrip:
  assumes "CHR ''_'' \<notin> set t" and "CHR ''_'' \<notin> set r"
  shows "GetTenantID (NewReconcilerID t r) = t \<and> GetResourceID (NewReconcilerID t r) = Ret r"
  using GetTenantID_New [OF assms(1)] GetResourceID_New [OF assms] by blast

lemma reconciler_id_roundtrip_witness:
  "GetTenantID (NewReconcilerID ''t1'' ''host-1'') = ''t1'' \<and> GetResourceID (NewReconcilerID ''t1'' ''host-1'') = Ret ''host-1''"
  by (rule reconciler_id_roundtrip) simp_all

text \<open>
  How errors become directives: no error lets the reconciliation go on, an error without a
  gRPC status is acknowledged by both handlers, the Inventory handler also acknowledges
  NotFound, AlreadyExists, Unauthenticated and PermissionDenied, the provisioning handler fails
  for good on Aborted and retries what is in progress, and everything else is retried with
  back-off; the Inventory handler never fails for good.
\<close>

theorem directive_of_error:
  assumes "errlib_laws L"
  shows "(HandleInventoryError L err = None \<longleftrightarrow> err = None) \<and>
    (HandleProvisioningError L err = None \<longleftrightarrow> err = None) \<and>
    (HandleInventoryError L err = Some Ack \<longleftrightarrow> err \<noteq> None \<and> (\<not> from_error_ok L err \<or> is_not_found L err \<or>
       is_already_exists L err \<or> is_unauthenticated L err \<or> is_permission_denied L err)) \<and>
    (HandleProvisioningError L err = Some Ack \<longleftrightarrow> err \<noteq> None \<and> \<not> from_error_ok L err) \<and>
    (\<forall>e. HandleInventoryError L err \<noteq> Some (Fail e)) \<and>
    (\<forall>e. HandleProvisioningError L err = Some (Fail e) \<longleftrightarrow>
       e = err \<and> from_error_ok L err \<and> \<not> is_operation_in_progress L err \<and> convert_code L err = Aborted) \<and>
    (\<forall>d. HandleInventoryError L err = Some d \<or> HandleProvisioningError L err = Some d \<longrightarrow>
       d \<in> {Ack, Retry err minDelay maxDelay, Fail err})"
  using assms by (cases err; auto simp: HandleInventoryError_def HandleProvisioningError_def)

lemma directive_of_error_witness:
  "HandleInventoryError std_errlib (Some (Errorfc NotFound ''x'')) = Some Ack \<and>
   HandleProvisioningError std_errlib (Some (Errorfc Aborted ''x'')) = Some (Fail (Some (Errorfc Aborted ''x'')))"
  using directive_of_error [OF std_errlib_laws, of "Some (Errorfc NotFound ''x'')"]
    directive_of_error [OF std_errlib_laws, of "Some (Errorfc Aborted ''x'')"]
    errlib_lawsD(13,16) [OF std_errlib_laws]
  by simp


section \<open>The workflow that is created\<close>

lemma inputs_of_device:
  assumes "run_io (GenerateWorkflowInputs E d) l = (Ret (Inr m), l')"
  shows "\<exists>w. m = structToMapStringString (reflect_inputs w) \<and> in_DeviceInfo w = d"
  using assms unfolding GenerateWorkflowInputs_def Let_def
  by (auto split: prod.splits outcome.splits sum.splits)

lemma hardware_map:
  "structToMapStringString (reflect_inputs w) ''DeviceInfoGUID'' = Some (di_GUID (in_DeviceInfo w))"
  "structToMapStringString (reflect_inputs w) ''DeviceInfoOSImageURL'' = Some (di_OSImageURL (in_DeviceInfo w))"
  "structToMapStringString (reflect_inputs w) ''DeviceInfoTenantID'' = Some (di_TenantID (in_DeviceInfo w))"
  by (simp_all add: structToMapStringString_def reflect_inputs_def reflect_device_info_def Let_def)

lemma with_instance_keeps:
  "di_GUID (with_instance d i a b) = di_GUID d" "di_OSImageURL (with_instance d i a b) = di_OSImageURL d"
  "di_OsType (with_instance d i a b) = di_OsType d" "di_TenantID (with_instance d i a b) = i_TenantId i"
  by (auto simp: with_instance_def Let_def split: option.splits)

text \<open>The workflow of an Instance: named after its host, on the dummy hardware, from the template
  of its OS type, with the device info in the hardware map.\<close>

definition workflow_for :: "om_env \<Rightarrow> device_info \<Rightarrow> inst \<Rightarrow> workflow \<Rightarrow> bool" where
  "workflow_for E d i w \<longleftrightarrow> wf_Name w = generateWorkflowName (di_GUID d) \<and> wf_Namespace w = k8s_namespace E \<and>
     wf_HardwareRef w = DummyHardwareName \<and> OSTypeToTemplateName (di_OsType d) = Some (wf_TemplateRef w) \<and>
     wf_HardwareMap w ''DeviceInfoGUID'' = Some (di_GUID d) \<and>
     wf_HardwareMap w ''DeviceInfoOSImageURL'' = Some (di_OSImageURL d) \<and>
     wf_HardwareMap w ''DeviceInfoTenantID'' = Some (i_TenantId i)"

text \<open>
  C17. Whatever the services reply, a provisioning run creates no Kubernetes object but the
  workflow of the Instance it was given: named after the UUID of the host, on the dummy
  hardware, from the template of the OS type, and with the host, the OS image and the tenant of
  the Instance in its hardware map. The credentials it reads or creates are those of that host
  and tenant.
\<close>

theorem created_workflow_is_the_instances:
  "emits (\<lambda>x. case x of K8sCreate ob \<Rightarrow> (\<exists>w. ob = ObjWorkflow w \<and> workflow_for E d i w)
      | AuthGetCredentials t u \<Rightarrow> t = i_TenantId i \<and> u = di_GUID d
      | AuthCreateCredentials t u \<Rightarrow> t = i_TenantId i \<and> u = di_GUID d
      | K8sGetWorkflow ns n \<Rightarrow> ns = k8s_namespace E \<and> n = generateWorkflowName (di_GUID d)
      | _ \<Rightarrow> workflow_call x)
     (CheckStatusOrRunProdWorkflow E d i)"
  (is "emits ?P _")
proof -
  have create: "emits ?P (if_got (GenerateWorkflowInputs E (with_instance d i a b)) (\<lambda>hm.
      CreateWorkflowIfNotExists E (NewWorkflow (generateWorkflowName (di_GUID (with_instance d i a b)))
        (k8s_namespace E) DummyHardwareName tn hm)))"
    if "OSTypeToTemplateName (di_OsType d) = Some tn" for a b tn
  proof (rule emits_if_got_run)
    show "emits ?P (GenerateWorkflowInputs E (with_instance d i a b))" by (intro emits_intro) auto
    fix l hm l'
    assume "run_io (GenerateWorkflowInputs E (with_instance d i a b)) l = (Ret (Inr hm), l')"
    from inputs_of_device [OF this] have "workflow_for E d i (NewWorkflow
        (generateWorkflowName (di_GUID (with_instance d i a b))) (k8s_namespace E) DummyHardwareName tn hm)"
      using that by (auto simp: workflow_for_def NewWorkflow_def hardware_map with_instance_keeps)
    then show "emits ?P (CreateWorkflowIfNotExists E (NewWorkflow
        (generateWorkflowName (di_GUID (with_instance d i a b))) (k8s_namespace E) DummyHardwareName tn hm))"
      unfolding CreateWorkflowIfNotExists_def k8s_Create_def by (auto intro!: emits_intro)
  qed
  have creds: "emits ?P (createENCredentialsIfNotExists E (i_TenantId i) d)"
    unfolding createENCredentialsIfNotExists_def by (intro emits_intro) auto
  have "emits ?P (runProdWorkflow E d i)"
    unfolding runProdWorkflow_def Let_def
  proof (rule emits_if_got [OF creds])
    fix x :: "string \<times> string"
    show "emits ?P (case x of (a, b) \<Rightarrow> case OSTypeToTemplateName (di_OsType (with_instance d i a b)) of
        None \<Rightarrow> ret (Some (Errorf ''Cannot find Tinkerbell template for OS type''))
      | Some tn \<Rightarrow> if_got (GenerateWorkflowInputs E (with_instance d i a b)) (\<lambda>hm.
          CreateWorkflowIfNotExists E (NewWorkflow (generateWorkflowName (di_GUID (with_instance d i a b)))
            (k8s_namespace E) DummyHardwareName tn hm)))"
      using create [of _ "fst x" "snd x"]
      by (cases x; cases "OSTypeToTemplateName (di_OsType d)") (simp_all add: with_instance_keeps emits_ret)
  qed
  then show ?thesis
    unfolding CheckStatusOrRunProdWorkflow_def by (auto intro!: emits_intro)
qed

text \<open>
  Credentials of an edge node are created only after Keycloak has said that there are none
  for this tenant and UUID, an existing pair is handed out as it is, any other failure of the
  lookup is an error, and once the session is open it is logged out last on every path.
\<close>

theorem credentials_flow:
  assumes "auth_factory E l = None"
  shows "\<exists>cs. run_io (createENCredentialsIfNotExists E t d) l =
    (let u = di_GUID d; (i, s, err) = auth_get E (l @ [AuthFactory]) t u in
     if err = None \<or> \<not> is_not_found (lib E) err
     then (Ret (if err = None then Inr (i, s)
                else Inl (Errorf (''Failed to check if EN credentials for host '' @ u @ '' exist.''))),
           l @ [AuthFactory, AuthGetCredentials t u, AuthLogout])
     else (let (i', s', err') = auth_create E (l @ [AuthFactory, AuthGetCredentials t u]) t u in
           (Ret (case err' of None \<Rightarrow> Inr (i', s') | Some e \<Rightarrow> Inl e),
            l @ [AuthFactory, AuthGetCredentials t u, AuthCreateCredentials t u, AuthLogout])))"
  using assms by (auto simp: createENCredentialsIfNotExists_def credentials_for_def Let_def
      split: prod.splits option.splits)

lemma credentials_flow_witness:
  "run_io (createENCredentialsIfNotExists sample_env ''t1'' (empty_device_info\<lparr>di_GUID := ''u''\<rparr>)) [] =
     (Ret (Inr (''id'', ''secret'')), [AuthFactory, AuthGetCredentials ''t1'' ''u'', AuthLogout])"
  using credentials_flow [of sample_env "[]" "''t1''" "empty_device_info\<lparr>di_GUID := ''u''\<rparr>"]
  by (simp add: sample_env_def)

section \<open>Status details\<close>

text \<open>
  The status detail of a workflow that has actions, all of them named, and has not
  succeeded reads ``k/n: message'': n is the number of actions, k that of the first action that
  is not a success (the last one when all are), and the message is that action's.
\<close>

theorem status_detail:
  assumes "wf_State w \<noteq> WF_SUCCESS" and "wf_Tasks w = as # ts" and "as \<noteq> []"
    and "\<And>a. a \<in> set as \<Longrightarrow> a_Name a \<noteq> ''''"
  shows "GenerateStatusDetailFromWorkflowState (Some w) =
    show_nat (current_index as + 1) @ ''/'' @ show_nat (length as) @ '': '' @ action_message (as ! current_index as) \<and>
    current_index as < length as \<and> (\<forall>j < current_index as. a_Status (as ! j) = WF_SUCCESS) \<and>
    (a_Status (as ! current_index as) \<noteq> WF_SUCCESS \<or> current_index as = length as - 1)"
proof -
  have less: "current_index as < length as" by (rule current_index_less [OF assms(3)])
  then have "\<not> (\<exists>j \<le> current_index as. a_Name (as ! j) = '''')" using assms(4) by auto
  with status_loop_spec [OF assms(3), of "length as" 0] assms(1-3)
  have "GenerateStatusDetailFromWorkflowState (Some w) =
    show_nat (current_index as + 1) @ ''/'' @ show_nat (length as) @ '': '' @ action_message (as ! current_index as)"
    by (simp add: GenerateStatusDetailFromWorkflowState_def prepareStatusDetails_def)
  moreover have "a_Status (as ! j) = WF_SUCCESS" if "j < current_index as" for j
  proof -
    from that have "j < length (takeWhile (\<lambda>a. a_Status a = WF_SUCCESS) as)"
      using length_takeWhile_le [of "\<lambda>a. a_Status a = WF_SUCCESS" as]
      by (auto simp: current_index_def Let_def split: if_splits)
    from nth_mem [OF this] takeWhile_nth [OF this] show ?thesis by (auto dest: set_takeWhileD)
  qed
  moreover have "a_Status (as ! current_index as) \<noteq> WF_SUCCESS \<or> current_index as = length as - 1"
    using nth_length_takeWhile [of "\<lambda>a. a_Status a = WF_SUCCESS" as]
      length_takeWhile_le [of "\<lambda>a. a_Status a = WF_SUCCESS" as]
    by (auto simp: current_index_def Let_def)
  ultimately show ?thesis using less by blast
qed

definition sample_actions :: "tink_action list" where
  "sample_actions = [
     \<lparr>a_Name = ''stream-os-image'', a_Status = WF_SUCCESS, a_Message = '''', a_Seconds = 3\<rparr>,
     \<lparr>a_Name = ''reboot'', a_Status = WF_FAILED, a_Message = ''boom'', a_Seconds = 0\<rparr>,
     \<lparr>a_Name = ''kernel-upgrade'', a_Status = WF_PENDING, a_Message = '''', a_Seconds = 0\<rparr>]"

lemma status_detail_witness:
  "GenerateStatusDetailFromWorkflowState (Some (sample_workflow WF_FAILED\<lparr>wf_Tasks := [sample_actions]\<rparr>)) =
     ''2/3: Rebooting failed: boom''"
proof -
  have acts: "sample_actions \<noteq> []" "\<And>a. a \<in> set sample_actions \<Longrightarrow> a_Name a \<noteq> ''''"
    by (auto simp: sample_actions_def)
  have msg: "show_nat (current_index sample_actions + 1) @ ''/'' @ show_nat (length sample_actions) @ '': '' @
      action_message (sample_actions ! current_index sample_actions) = ''2/3: Rebooting failed: boom''"
    by code_simp
  show ?thesis
    using status_detail [OF _ _ acts, of "sample_workflow WF_FAILED\<lparr>wf_Tasks := [sample_actions]\<rparr>" "[]"]
    unfolding msg by (simp add: sample_workflow_def)
qed

section \<open>Instrumentation\<close>

text \<open>
  An action in a state other than pending, running or successful wipes the records of every
  action in the status map, those of the workflows of all other hosts included; afterwards the
  status map is empty.
\<close>

theorem failed_action_wipes_all_records:
  assumes "a_Status a \<noteq> WF_PENDING" and "a_Status a \<noteq> WF_RUNNING" and "a_Status a \<noteq> WF_SUCCESS"
  shows "ins_status (instrument_action now wn s a) = [] \<and>
    (\<forall>k \<in> fst ` set (ins_status s). map_of (ins_success (instrument_action now wn s a)) k = None \<and>
       map_of (ins_start (instrument_action now wn s a)) k = None \<and>
       map_of (ins_running (instrument_action now wn s a)) k = None)"
proof -
  have none: "k \<in> set ks \<Longrightarrow> map_of (drop_keys ks m) k = None" for k ks and m :: "(string \<times> int) list"
    by (auto simp: drop_keys_def map_of_eq_None_iff)
  let ?u = "AList.update (wn @ a_Name a) (a_Status a) (ins_status s)"
  have keys: "fst ` set (ins_status s) \<subseteq> set (map fst ?u)"
    using update_keys [of "wn @ a_Name a" "a_Status a" "ins_status s"] by (auto split: if_splits)
  have run: "instrument_action now wn s a = \<lparr>ins_status = drop_keys (map fst ?u) ?u,
      ins_start = drop_keys (map fst ?u) (ins_start s), ins_running = drop_keys (map fst ?u) (ins_running s),
      ins_success = drop_keys (map fst ?u) (ins_success s)\<rparr>"
    using assms by (cases "a_Status a") (simp_all add: instrument_action_def Let_def)
  have "drop_keys (map fst ?u) ?u = []"
    by (force simp: drop_keys_def filter_empty_conv)
  with keys show ?thesis unfolding run by (auto intro!: none simp del: set_map)
qed

lemma failed_action_wipes_all_records_witness:
  "map_of (ins_success (instrument_action 5 ''workflow-b''
     \<lparr>ins_status = [(''workflow-areboot'', WF_SUCCESS)], ins_start = [], ins_running = [],
      ins_success = [(''workflow-areboot'', 7)]\<rparr> (sample_actions ! 1))) ''workflow-areboot'' = None"
  using failed_action_wipes_all_records [of "sample_actions ! 1" 5 "''workflow-b''"
     "\<lparr>ins_status = [(''workflow-areboot'', WF_SUCCESS)], ins_start = [], ins_running = [],
      ins_success = [(''workflow-areboot'', 7)]\<rparr>"]
  by (simp add: sample_actions_def)

end
