(* ===== verification/OnboardingThms.thy ===== *)
theory OnboardingThms
  imports SampleEnv
begin

text \<open>
  The properties of the onboarding services: which requests are accepted, which host a request
  is about, when an edge node gets its credentials, that the stream ends, and what
  \<open>CreateNodes\<close> may do.
\<close>

section \<open>Requests\<close>

text \<open>
  What the stream makes of a request: the UUID must be well-formed; with a well-formed serial
  number the MAC address and the IP must be well-formed too and the request goes on unchanged; with
  a malformed serial number the request goes on with the serial number ``N/A'', and its MAC
  address and IP have not been looked at.
\<close>

theorem stream_request_accepted:
  "sanitize req = Inr req' \<longleftrightarrow> uuid_pattern (rq_Uuid req) \<and>
     (if serial_pattern (rq_Serialnum req)
      then mac_pattern (rq_MacId req) \<and> ip_pattern (rq_HostIp req) \<and> req' = req
      else req' = req\<lparr>rq_Serialnum := ''N/A''\<rparr>)"
  by (rule sanitize_iff)

definition sample_req :: stream_req where
  "sample_req = \<lparr> rq_Uuid = ''00000000-0000-0000-0000-000000000001'', rq_Serialnum = ''SN12345'',
     rq_MacId = ''aa:bb:cc:dd:ee:ff'', rq_HostIp = ''10.0.0.7'' \<rparr>"

text \<open>An environment in which the sample host, without a serial number in the Inventory, asks
  to be onboarded; the stream ends after the first message.\<close>

definition onboarding_env :: om_env where
  "onboarding_env = sample_env\<lparr>
     inv_list := (\<lambda>l c k f. (Some (if k = KIND_HOST then [Some (ResHost (sample_host\<lparr>h_SerialNumber := ''''\<rparr>))] else []), None)),
     stream_recv := (\<lambda>l. if received l = 0 then Inr (Some sample_req) else Inl (ForeignErr ''EOF'' 0))\<rparr>"

lemma stream_request_accepted_witness:
  "sanitize sample_req = Inr sample_req \<and>
   sanitize (sample_req\<lparr>rq_Serialnum := ''-'', rq_MacId := ''no mac'', rq_HostIp := ''no ip''\<rparr>) =
     Inr (sample_req\<lparr>rq_Serialnum := ''N/A'', rq_MacId := ''no mac'', rq_HostIp := ''no ip''\<rparr>)"
proof -
  have pats: "uuid_pattern ''00000000-0000-0000-0000-000000000001''" "serial_pattern ''SN12345''"
    "mac_pattern ''aa:bb:cc:dd:ee:ff''" "ip_pattern ''10.0.0.7''" "\<not> serial_pattern ''-''"
    by code_simp+
  show ?thesis unfolding stream_request_accepted sample_req_def by (simp add: pats)
qed

section \<open>Credentials on the stream\<close>

lemma made_quietly:
  "emits (\<lambda>x. \<not> gives_credentials x) m \<Longrightarrow> run_io m l = (r, l @ cs) \<Longrightarrow> c \<in> set cs \<Longrightarrow> \<not> gives_credentials c"
  by (drule (1) emitsD) (auto simp: list_all_iff)

text \<open>A call that the first of two programs does not make was made by the second.\<close>

lemma made_later:
  assumes "run_io (bnd m f) l = (r, l @ cs)" and "c \<in> set cs" and "gives_credentials c"
    and "emits (\<lambda>x. \<not> gives_credentials x) m" and "\<And>x. emits (\<lambda>_. True) (f x)"
  obtains x l1 cs1 where "run_io m l = (Ret x, l1)" and "run_io (f x) l1 = (r, l1 @ cs1)" and "c \<in> set cs1"
proof -
  obtain o1 l1 where m: "run_io m l = (o1, l1)" by fastforce
  from emitsD [OF assms(4) m] obtain cs0 where cs0: "l1 = l @ cs0" "c \<notin> set cs0"
    using assms(3) by (auto simp: list_all_iff)
  show thesis
  proof (cases o1)
    case (Ret x)
    obtain r2 l2 where f: "run_io (f x) l1 = (r2, l2)" by fastforce
    from emitsD [OF assms(5) f] obtain cs1 where "l2 = l1 @ cs1" by blast
    with assms(1,2) m f Ret cs0 that show thesis by simp
  qed (use assms(1,2) m cs0 in simp)
qed

text \<open>The answer that carries credentials.\<close>

definition credentials_resp :: "host \<Rightarrow> string \<Rightarrow> string \<Rightarrow> stream_resp" where
  "credentials_resp h i s = (plain_resp OK '''' NODE_STATE_ONBOARDED)\<lparr>rs_ClientId := i,
     rs_ClientSecret := s, rs_ProjectId := h_TenantId h\<rparr>"

lemma onboarded_sends:
  assumes "run_io (handleOnboardedState E h req) l = (r, l @ cs)" and "c \<in> set cs" and "gives_credentials c"
  shows "\<exists>l2 i s. run_io (FetchClientSecret E (h_TenantId h) (h_Uuid h)) l = (Ret (Inr (i, s)), l2) \<and>
    c = StreamSend (credentials_resp h i s)"
proof -
  let ?rest = "\<lambda>x. case x of Inl e \<Rightarrow> ret (Some e)
      | Inr (i, s) \<Rightarrow> if_nil (sendOnboardStreamResponse E (credentials_resp h i s))
          (UpdateHostCurrentStateNOnboardStatus E CliRM (h_TenantId h) (h_ResourceId h)
            (rq_HostIp req) (rq_MacId req) HOST_STATE_ONBOARDED OnboardingStatusDone)"
  from assms(1) have "run_io (bnd (FetchClientSecret E (h_TenantId h) (h_Uuid h)) ?rest) l = (r, l @ cs)"
    unfolding handleOnboardedState_def if_got_def credentials_resp_def .
  then obtain x l2 cs2 where fetch: "run_io (FetchClientSecret E (h_TenantId h) (h_Uuid h)) l = (Ret x, l2)"
    and rest: "run_io (?rest x) l2 = (r, l2 @ cs2)" "c \<in> set cs2"
    by (rule made_later [OF _ assms(2,3)]) (auto intro!: emits_intro)
  obtain i s where x: "x = Inr (i, s)" using rest by (cases x) auto
  have "emits (\<lambda>y. gives_credentials y \<longrightarrow> y = StreamSend (credentials_resp h i s)) (?rest x)"
    unfolding x by (auto intro!: emits_intro)
  from emitsD [OF this rest(1)] rest(2) assms(3) fetch x show ?thesis by (auto simp: list_all_iff)
qed

lemma credentials_sent:
  assumes "run_io (handle_request E req0) l = (r, l @ cs)" and "c \<in> set cs" and "gives_credentials c"
  shows "\<exists>req h l1 l2 i s. sanitize req0 = Inr req \<and> run_io (getHostResource E req) l = (Ret (Inr h), l1) \<and>
    to_onboard h \<and> run_io (FetchClientSecret E (h_TenantId h) (h_Uuid h)) l1 = (Ret (Inr (i, s)), l2) \<and>
    c = StreamSend (credentials_resp h i s)"
proof -
  have refused: "emits (\<lambda>x. \<not> gives_credentials x) (close_with (sendStreamErrorResponse E InvalidArgument m))" for m
    by (intro emits_intro) simp
  obtain req where req: "sanitize req0 = Inr req"
    using assms made_quietly [OF refused _ assms(2)] by (cases "sanitize req0") (auto simp: handle_request_def)
  from assms(1) have "run_io (bnd (getHostResource E req) (\<lambda>res. case res of
      Inl e \<Rightarrow> answer_error E e | Inr h \<Rightarrow> answer_host E req h)) l = (r, l @ cs)"
    by (simp add: handle_request_def req)
  then obtain res l1 cs1 where get: "run_io (getHostResource E req) l = (Ret res, l1)"
    and ans: "run_io (case res of Inl e \<Rightarrow> answer_error E e | Inr h \<Rightarrow> answer_host E req h) l1 = (r, l1 @ cs1)"
      "c \<in> set cs1"
    by (rule made_later [OF _ assms(2,3)]) (auto intro!: emits_intro)
  have "emits (\<lambda>x. \<not> gives_credentials x) (answer_error E e)" for e by (intro emits_intro)
  with ans made_quietly [OF _ _ ans(2)] assms(3) obtain h where h: "res = Inr h" "to_onboard h"
    using quiet_answer by (cases res) fastforce+
  with ans have "run_io (bnd (handleOnboardedState E h req) (\<lambda>err.
      if err \<noteq> None then ret (Close err None) else ret (Close None (Some h)))) l1 = (r, l1 @ cs1)"
    by (simp add: answer_to_onboard)
  then obtain o2 l3 where on: "run_io (handleOnboardedState E h req) l1 = (o2, l1 @ cs1)"
    by (cases "run_io (handleOnboardedState E h req) l1") (auto split: outcome.splits if_splits)
  from onboarded_sends [OF this ans(2) assms(3)] req get h show ?thesis by blast
qed

text \<open>
  C8. Credentials leave the manager in one place: when handling a request sends a client secret
  or the ONBOARDED node state, the host that the request was matched to is wanted onboarded, is
  not onboarded yet and has no failed registration, and what is sent is the pair that the
  authorization service keeps for the tenant and UUID of that very host.
\<close>

theorem credentials_gate:
  assumes "run_io (handle_request E req0) l = (r, l @ cs)" and "c \<in> set cs" and "gives_credentials c"
  shows "\<exists>req h l1 l2 i s. sanitize req0 = Inr req \<and> run_io (getHostResource E req) l = (Ret (Inr h), l1) \<and>
    h_DesiredState h = HOST_STATE_ONBOARDED \<and> h_CurrentState h \<noteq> HOST_STATE_ONBOARDED \<and>
    h_RegistrationStatusIndicator h \<noteq> IND_ERROR \<and>
    run_io (FetchClientSecret E (h_TenantId h) (h_Uuid h)) l1 = (Ret (Inr (i, s)), l2) \<and>
    c = StreamSend (credentials_resp h i s)"
  using credentials_sent [OF assms] unfolding to_onboard_def by blast

lemma credentials_gate_witness:
  "\<exists>h. h_DesiredState h = HOST_STATE_ONBOARDED \<and> h_CurrentState h \<noteq> HOST_STATE_ONBOARDED \<and>
    StreamSend (credentials_resp h ''id'' ''secret'') \<in>
      set (calls_of (handle_request onboarding_env sample_req))"
proof -
  obtain r cs where run: "run_io (handle_request onboarding_env sample_req) [] = (r, [] @ cs)" by fastforce
  have "list_ex (\<lambda>x. case x of StreamSend p \<Rightarrow> gives_credentials x \<and>
        p = credentials_resp (sample_host\<lparr>h_SerialNumber := ''''\<rparr>) ''id'' ''secret'' | _ \<Rightarrow> False)
      (calls_of (handle_request onboarding_env sample_req))" by code_simp
  then obtain c where c: "c \<in> set cs" and x: "case c of StreamSend p \<Rightarrow> gives_credentials c \<and>
        p = credentials_resp (sample_host\<lparr>h_SerialNumber := ''''\<rparr>) ''id'' ''secret'' | _ \<Rightarrow> False"
    using run by (auto simp only: list_ex_iff calls_of_def snd_conv append_Nil)
  from x have "gives_credentials c"
    and eq: "c = StreamSend (credentials_resp (sample_host\<lparr>h_SerialNumber := ''''\<rparr>) ''id'' ''secret'')"
    by (cases c; simp)+
  from credentials_gate [OF run c this(1)] obtain h i s where "h_DesiredState h = HOST_STATE_ONBOARDED"
    "h_CurrentState h \<noteq> HOST_STATE_ONBOARDED" "c = StreamSend (credentials_resp h i s)" by blast
  moreover from this(3) eq have "i = ''id''" "s = ''secret''"
    by (auto simp: credentials_resp_def plain_resp_def)
  ultimately show ?thesis using c run by (auto simp: calls_of_def)
qed

text \<open>
  C15. In a whole session of the stream, every turn before the last one keeps credentials to
  itself: when the stream has been closed, the calls split into those of the earlier turns, none
  of which carries credentials, and those of the one turn that closed it.
\<close>

theorem credentials_only_in_the_last_turn:
  assumes "run_io (stream_loop E n) l = (Ret (Some (err, h)), l')"
  shows "\<exists>cs ds. l' = l @ cs @ ds \<and> (\<forall>c \<in> set cs. \<not> gives_credentials c) \<and>
    run_io (stream_turn E) (l @ cs) = (Ret (Close err h), l')"
proof -
  obtain l1 where s: "session E l l1" and close: "run_io (stream_turn E) l1 = (Ret (Close err h), l')"
    using loop_session [OF assms] by blast
  obtain cs where "l1 = l @ cs" "list_all (\<lambda>x. \<not> gives_credentials x) cs"
    using session_without_credentials [OF s] by blast
  moreover obtain ds where "l' = l1 @ ds" using turn_receives [OF close] by blast
  ultimately show ?thesis using close by (auto simp: list_all_iff)
qed

lemma credentials_only_in_the_last_turn_witness:
  "\<exists>cs ds. calls_of (stream_loop onboarding_env 3) = cs @ ds \<and> (\<forall>c \<in> set cs. \<not> gives_credentials c)"
proof -
  have "(case fst (run_io (stream_loop onboarding_env 3) []) of
      Ret (Some (err, Some h)) \<Rightarrow> err = None | _ \<Rightarrow> False)" by code_simp
  then obtain err h l' where run: "run_io (stream_loop onboarding_env 3) [] = (Ret (Some (err, h)), l')"
    by (cases "run_io (stream_loop onboarding_env 3) []") (auto split: outcome.splits option.splits prod.splits)
  from credentials_only_in_the_last_turn [OF run] run show ?thesis by (fastforce simp: calls_of_def)
qed

text \<open>
  C20. The service always comes to an end when the stream does: if the stream errors from its
  k-th receive on (the edge node has closed it), k turns after the start are enough for the
  handler to be through, by returning or by a panic; it never needs more turns.
\<close>

theorem stream_service_ends:
  assumes "\<And>l. k \<le> received l \<Longrightarrow> \<exists>e. stream_recv E l = Inl e"
  shows "fst (run_io (OnboardNodeStream E (Suc k)) []) \<noteq> Ret None"
proof -
  have "fst (run_io (stream_loop E (Suc k)) []) \<noteq> Ret None" by (rule stream_loop_returns [OF assms]) auto
  then show ?thesis
    unfolding OnboardNodeStream_def
    by (auto split: outcome.splits option.splits prod.splits)
qed

lemma stream_service_ends_witness:
  "fst (run_io (OnboardNodeStream onboarding_env 5) []) \<noteq> Ret None"
proof -
  have "\<exists>e. stream_recv onboarding_env l = Inl e" if "4 \<le> received l" for l
    using that by (simp add: onboarding_env_def)
  from stream_service_ends [of 4, OF this] show ?thesis by simp
qed

text \<open>
  Zero-touch provisioning starts only for a host that is through with onboarding: a turn that
  hands a host over ends with the write of the onboarded state of that host, which the
  Inventory has accepted, and its answer with the credentials was sent without an error.
\<close>

theorem zero_touch_after_onboarding:
  assumes "run_io (handle_request E req) l = (Ret (Close err (Some h)), l')"
  shows "err = None \<and> to_onboard h \<and> (\<exists>l1 i s upd.
    l' = l1 @ [StreamSend (credentials_resp h i s), InvUpdate CliRM (h_TenantId h) (h_ResourceId h) onboard_state_fields upd] \<and>
    stream_send E l1 (credentials_resp h i s) = None \<and>
    inv_update E (l1 @ [StreamSend (credentials_resp h i s)]) CliRM (h_TenantId h) (h_ResourceId h) onboard_state_fields upd = None)"
proof -
  obtain req' where req: "sanitize req = Inr req'"
    using assms by (cases "sanitize req") (auto simp: handle_request_def close_with_def split: prod.splits outcome.splits)
  obtain res l1 where res: "run_io (case res of Inl e \<Rightarrow> answer_error E e | Inr h \<Rightarrow> answer_host E req' h) l1 =
      (Ret (Close err (Some h)), l')"
    using assms unfolding handle_request_def req by (auto dest: run_bnd_Ret simp del: run_bnd)
  obtain h' where h': "res = Inr h'"
    using res by (cases res) (auto simp: answer_error_def close_with_def split: prod.splits outcome.splits if_splits)
  have on: "to_onboard h'"
  proof (rule ccontr)
    assume "\<not> to_onboard h'"
    with res h' show False
      by (auto simp: answer_host_def to_onboard_def close_with_def split: prod.splits outcome.splits if_splits)
  qed
  from res have fin: "run_io (handleOnboardedState E h' req') l1 = (Ret None, l')" "err = None" "h = h'"
    unfolding h' by (auto simp: answer_to_onboard [OF on] split: prod.splits outcome.splits if_splits)
  obtain i s l2 where "run_io (if_nil (sendOnboardStreamResponse E (credentials_resp h i s))
      (UpdateHostCurrentStateNOnboardStatus E CliRM (h_TenantId h) (h_ResourceId h)
         (rq_HostIp req') (rq_MacId req') HOST_STATE_ONBOARDED OnboardingStatusDone)) l2 = (Ret None, l')"
    using fin unfolding handleOnboardedState_def if_got_def credentials_resp_def
    by (auto dest!: run_bnd_Ret simp del: run_bnd split: sum.splits prod.splits)
  from run_if_nil_ok [OF this] obtain l3 where
    sent: "run_io (sendOnboardStreamResponse E (credentials_resp h i s)) l2 = (Ret None, l3)"
    and upd: "run_io (UpdateHostCurrentStateNOnboardStatus E CliRM (h_TenantId h) (h_ResourceId h)
         (rq_HostIp req') (rq_MacId req') HOST_STATE_ONBOARDED OnboardingStatusDone) l3 = (Ret None, l')" by blast
  from op_UpdateHostCurrentStateNOnboardStatus.success_wrote [where E = E and c = CliRM and tid = "h_TenantId h"
      and l = l3 and l' = l' and a = "(h_ResourceId h, rq_HostIp req', rq_MacId req', HOST_STATE_ONBOARDED, OnboardingStatusDone)"] upd
  obtain v where "l' = l3 @ [InvUpdate CliRM (h_TenantId h) (h_ResourceId h) onboard_state_fields v]"
    "inv_update E l3 CliRM (h_TenantId h) (h_ResourceId h) onboard_state_fields v = None" by auto
  with sent fin on show ?thesis by (auto simp: sendOnboardStreamResponse_def)
qed


lemma zero_touch_after_onboarding_witness:
  "\<exists>h l1 i s upd. run_io (handle_request onboarding_env sample_req) [] = (Ret (Close None (Some h)),
     l1 @ [StreamSend (credentials_resp h i s), InvUpdate CliRM (h_TenantId h) (h_ResourceId h) onboard_state_fields upd])"
proof -
  have "(case fst (run_io (handle_request onboarding_env sample_req) []) of
      Ret (Close None (Some h)) \<Rightarrow> True | _ \<Rightarrow> False)" by code_simp
  then obtain h l' where run: "run_io (handle_request onboarding_env sample_req) [] = (Ret (Close None (Some h)), l')"
    by (cases "run_io (handle_request onboarding_env sample_req) []")
      (auto split: outcome.splits turn.splits option.splits)
  from zero_touch_after_onboarding [OF run] run show ?thesis by auto
qed

section \<open>Which host a request is about\<close>

text \<open>
  C19. When the lookup of a request with a UUID and a serial number ends with a host, the host was
  found by its UUID and the Inventory either has no serial number for it or finds the same
  resource by the serial number; or both lookups were made, the host found by the UUID (or, when
  there is none of that UUID, the one found by the serial number) had no UUID yet, and the UUID of
  the request has been written to it. In every other case the lookup is an error; in
  particular a host that has another UUID is never bound to the request.
\<close>

theorem request_matches_host:
  assumes run: "run_io (getHostResource E req) l = (Ret (Inr h), l')"
    and "rq_Uuid req \<noteq> ''''" and "rq_Serialnum req \<noteq> ''''"
  shows "(\<exists>l1. run_io (GetHostResource E CliRM F_uuid (rq_Uuid req)) l = (Ret (Inr h), l1) \<and>
            (h_SerialNumber h = '''' \<or>
             (\<exists>s l2. run_io (GetHostResource E CliRM F_serial_number (rq_Serialnum req)) l1 = (Ret (Inr s), l2) \<and>
                h_ResourceId s = h_ResourceId h))) \<or>
         (\<exists>u l1 s l2 h0. run_io (GetHostResource E CliRM F_uuid (rq_Uuid req)) l = (Ret u, l1) \<and>
            run_io (GetHostResource E CliRM F_serial_number (rq_Serialnum req)) l1 = (Ret (Inr s), l2) \<and>
            (case u of Inl e \<Rightarrow> is_not_found (lib E) (Some e) \<and> h0 = s | Inr x \<Rightarrow> h0 = x) \<and>
            h_Uuid h0 = '''' \<and> h = h0\<lparr>h_Uuid := rq_Uuid req\<rparr> \<and>
            run_io (UpdateHostResource E CliRM (h_TenantId h) h) l2 = (Ret None, l'))"
proof -
  have matched: "run_io (match_hosts E req u s) l1 = (Ret (Inr h), l2) \<Longrightarrow>
      u = Some h \<and> (\<exists>x. s = Some x \<and> h_ResourceId x = h_ResourceId h)" for u s l1 l2
    by (auto simp: match_hosts_def report_mismatch_def split: option.splits if_splits outcome.splits prod.splits)
  have serial: "\<exists>s l2. run_io (GetHostResource E CliRM F_serial_number (rq_Serialnum req)) l1 = (Ret (Inr s), l2) \<and>
      (u = Some h \<and> h_ResourceId s = h_ResourceId h \<or>
       (\<exists>h0. h0 = (case u of None \<Rightarrow> s | Some x \<Rightarrow> x) \<and> h_Uuid h0 = '''' \<and> h = h0\<lparr>h_Uuid := rq_Uuid req\<rparr> \<and>
         run_io (UpdateHostResource E CliRM (h_TenantId h) h) l2 = (Ret None, l')))"
    if look: "run_io (lookup_serial E req u) l1 = (Ret (Inr h), l')" for u l1
  proof -
    obtain r l2 where sn: "run_io (GetHostResource E CliRM F_serial_number (rq_Serialnum req)) l1 = (r, l2)" by fastforce
    from look assms(3) sn obtain s where s: "r = Ret (Inr s)"
      by (auto simp: lookup_serial_def dest: matched split: outcome.splits sum.splits if_splits)
    let ?h0 = "case u of None \<Rightarrow> s | Some x \<Rightarrow> x"
    show ?thesis
    proof (cases "h_Uuid ?h0 = ''''")
      case True
      with look assms(3) sn s show ?thesis
        by (auto simp: lookup_serial_def Let_def split: outcome.splits prod.splits if_splits)
    next
      case False
      with look assms(3) sn s have "run_io (match_hosts E req u (Some s)) l2 = (Ret (Inr h), l')"
        by (auto simp: lookup_serial_def Let_def)
      with matched [OF this] sn s show ?thesis by auto
    qed
  qed
  from run assms(2) obtain u l1 where u: "run_io (GetHostResource E CliRM F_uuid (rq_Uuid req)) l = (Ret u, l1)"
    and rest: "case u of Inl e \<Rightarrow> is_not_found (lib E) (Some e) \<and> run_io (lookup_serial E req None) l1 = (Ret (Inr h), l')
      | Inr x \<Rightarrow> (x = h \<and> h_SerialNumber h = '''') \<or> run_io (lookup_serial E req (Some x)) l1 = (Ret (Inr h), l')"
    by (auto simp: getHostResource_def split: outcome.splits sum.splits prod.splits if_splits)
  show ?thesis
  proof (cases u)
    case (Inl e)
    with rest serial [of None l1] u show ?thesis by auto
  next
    case (Inr x)
    with rest serial [of "Some x" l1] u show ?thesis by auto
  qed
qed

lemma request_matches_host_witness:
  "\<exists>h l1. run_io (GetHostResource onboarding_env CliRM F_uuid (rq_Uuid sample_req)) [] = (Ret (Inr h), l1) \<and>
     h_SerialNumber h = ''''"
proof -
  have "(case fst (run_io (getHostResource onboarding_env sample_req) []) of
      Ret (Inr h) \<Rightarrow> h_Uuid h \<noteq> '''' \<and> h_SerialNumber h = '''' | _ \<Rightarrow> False)" by code_simp
  then obtain h l' where run: "run_io (getHostResource onboarding_env sample_req) [] = (Ret (Inr h), l')"
    and h: "h_SerialNumber h = ''''"
    by (cases "run_io (getHostResource onboarding_env sample_req) []") (auto split: outcome.splits sum.splits)
  have "(case fst (run_io (GetHostResource onboarding_env CliRM F_uuid (rq_Uuid sample_req)) []) of
      Ret (Inr h) \<Rightarrow> h_SerialNumber h = '''' | _ \<Rightarrow> False)" by code_simp
  then obtain h' l1 where "run_io (GetHostResource onboarding_env CliRM F_uuid (rq_Uuid sample_req)) [] = (Ret (Inr h'), l1)"
    "h_SerialNumber h' = ''''"
    by (cases "run_io (GetHostResource onboarding_env CliRM F_uuid (rq_Uuid sample_req)) []") (auto split: outcome.splits sum.splits)
  with request_matches_host [OF run] show ?thesis by (auto simp: sample_req_def)
qed

section \<open>Interactive onboarding\<close>

text \<open>
  Without the permission to create hosts, or without a tenant, \<open>CreateNodes\<close> is an error and
  makes no call at all.
\<close>

theorem unauthorized_nodes_rejected:
  assumes "authEnabled \<and> \<not> authorized \<or> tenant = None"
  shows "\<exists>e. run_io (CreateNodes E authEnabled authorized tenant payload) l = (Ret (Inl e), l)"
  using assms by (auto simp: CreateNodes_def split: sum.splits)

lemma unauthorized_nodes_rejected_witness:
  "\<exists>e. run_io (CreateNodes sample_env True False (Some ''t1'') []) [] = (Ret (Inl e), [])"
  by (rule unauthorized_nodes_rejected) simp

lemma sanitized_nodes:
  assumes "sanitize_nodes payload0 = Inr payload" and "nd \<in> set payload" and "hw \<in> set nd"
  shows "hw_Serialnum hw = ''N/A'' \<or> uuid_pattern (hw_Uuid hw) \<and> serial_pattern (hw_Serialnum hw) \<and>
    mac_pattern (hw_MacId hw) \<and> ip_pattern (hw_SutIp hw)"
proof (cases "CreateNodesRequest_validate False payload0 = []")
  case True
  with assms show ?thesis
    by (auto simp: sanitize_nodes_def CreateNodesRequest_Validate_def first_err_def CreateNodesRequest_ok)
next
  case False
  with assms show ?thesis
    by (auto simp: sanitize_nodes_def CreateNodesRequest_Validate_def first_err_def split: list.splits if_splits)
qed

lemma CopyNodeReq_from_payload:
  "CopyNodeReqToNodeData payload t = h # hs \<Longrightarrow>
   h_TenantId h = t \<and> h_DesiredState h = HOST_STATE_UNSPECIFIED \<and>
   (\<exists>nd \<in> set payload. \<exists>hw \<in> set nd. h_Uuid h = hw_Uuid hw \<and> h_SerialNumber h = hw_Serialnum hw \<and>
     h_PxeMac h = hw_MacId hw \<and> h_BmcIp h = hw_SutIp hw)"
proof -
  assume "CopyNodeReqToNodeData payload t = h # hs"
  then have "h \<in> set (CopyNodeReqToNodeData payload t)" by simp
  then obtain nd hw where "nd \<in> set payload" "hw \<in> set nd" "h = empty_host\<lparr>
        h_BmcKind := BMC_KIND_PDU, h_BmcIp := hw_SutIp hw, h_SerialNumber := hw_Serialnum hw,
        h_Uuid := hw_Uuid hw, h_PxeMac := hw_MacId hw, h_TenantId := t\<rparr>"
    unfolding CopyNodeReqToNodeData_def by auto
  then show ?thesis by (auto simp: empty_host_def intro!: bexI)
qed

definition checked_create :: "om_env \<Rightarrow> string option \<Rightarrow> om_call \<Rightarrow> bool" where
  "checked_create E tenant x = (case x of InvCreate c t (ResHost h) \<Rightarrow>
      c = CliRM \<and> tenant = Some t \<and> onboarded_host t h \<and>
      uuid_parse_ok E (h_Uuid h) \<and> length (h_Uuid h) = 36 \<and>
      (h_SerialNumber h = ''N/A'' \<or> serial_pattern (h_SerialNumber h) \<and> mac_pattern (h_PxeMac h) \<and> ip_pattern (h_BmcIp h))
      | _ \<Rightarrow> True)"

text \<open>
  A host that \<open>CreateNodes\<close> creates belongs to the tenant of the caller, is onboarded, and has
  a UUID of 36 characters that parses; its serial number, MAC address and IP are well-formed,
  unless the serial number is ``N/A''.
\<close>

theorem created_host_is_checked:
  assumes "errlib_laws (lib E)"
  shows "emits (checked_create E tenant) (CreateNodes E a z tenant payload)"
  (is "emits ?P _")
proof -
  have bad: "run_io (GetHostResourceByUUID E c t u) l = (Ret (Inl (Errorfc InvalidArgument ''invalid UUID'')), l)"
    if "\<not> (uuid_parse_ok E u \<and> length u = 36)" for c t u l
    using that by (auto simp: GetHostResourceByUUID_def)
  have lookup: "emits ?P (bnd (GetHostResourceByUUID E CliRM t u) f)"
    if "\<And>r. (\<And>e. r = Inl e \<Longrightarrow> is_not_found (lib E) (Some e) \<Longrightarrow> uuid_parse_ok E u \<and> length u = 36) \<Longrightarrow> emits ?P (f r)"
    for t u and f :: "goerr + host \<Rightarrow> (goerr + nodes_resp) om"
  proof (rule emits_bnd_run)
    fix l r l'
    assume r: "run_io (GetHostResourceByUUID E CliRM t u) l = (Ret r, l')"
    show "emits ?P (f r)"
    proof (rule that, rule ccontr)
      fix e
      assume "r = Inl e" and "is_not_found (lib E) (Some e)" and "\<not> (uuid_parse_ok E u \<and> length u = 36)"
      with r bad [of u CliRM t l] assms show False by auto
    qed
  qed (auto simp: checked_create_def intro!: emits_intro)
  show ?thesis
    unfolding CreateNodes_def Let_def
    by (intro emits_case_sum emits_if emits_case_option emits_case_list emits_ret emits_panic
        emits_bnd [where m = "timestamp E"] lookup)
      (auto intro!: emits_intro simp: checked_create_def onboarded_host_def ztp_instance_def OnboardingStatusDone_def
        dest!: CopyNodeReq_from_payload sanitized_nodes)
qed


definition sample_payload :: "node_data list" where
  "sample_payload = [[\<lparr> hw_Uuid = ''00000000-0000-0000-0000-000000000001'', hw_Serialnum = ''SN12345'',
     hw_MacId = ''aa:bb:cc:dd:ee:ff'', hw_SutIp = ''10.0.0.7'' \<rparr>]]"

lemma created_host_is_checked_witness:
  "list_all (checked_create sample_env (Some ''t1'')) (calls_of (CreateNodes sample_env True True (Some ''t1'') sample_payload)) \<and>
   list_ex (\<lambda>x. case x of InvCreate c t (ResHost h) \<Rightarrow> h_PxeMac h = ''aa:bb:cc:dd:ee:ff'' | _ \<Rightarrow> False)
     (calls_of (CreateNodes sample_env True True (Some ''t1'') sample_payload))"
proof
  have "errlib_laws (lib sample_env)" by simp
  from created_host_is_checked [OF this]
  show "list_all (checked_create sample_env (Some ''t1'')) (calls_of (CreateNodes sample_env True True (Some ''t1'') sample_payload))"
    by (rule emits_calls_of)
qed code_simp

fun writes_host :: "om_call \<Rightarrow> bool" where
  "writes_host (InvUpdate c t i fs r) = True"
| "writes_host (InvCreate c t (ResHost h)) = True"
| "writes_host _ = False"

text \<open>
  \<open>CreateNodes\<close> for a host that the Inventory already has under this UUID and serial number
  writes nothing to the host: neither its state nor its statuses change, although the call is
  answered as a success of onboarding.
\<close>

theorem known_node_is_not_written:
  assumes "sanitize_nodes payload0 = Inr ((hw # hws) # nds)"
    and "\<And>l. \<exists>l'. run_io (GetHostResourceByUUID E CliRM t (hw_Uuid hw)) l = (Ret (Inr known), l')"
    and "h_SerialNumber known = hw_Serialnum hw"
  shows "emits (\<lambda>x. \<not> writes_host x) (CreateNodes E a z (Some t) payload0)"
proof -
  let ?P = "\<lambda>x. \<not> writes_host x"
  have lookup: "emits ?P (bnd (GetHostResourceByUUID E CliRM t (hw_Uuid hw)) f)"
    if "emits ?P (f (Inr known))" for f :: "goerr + host \<Rightarrow> (goerr + nodes_resp) om"
  proof (rule emits_bnd_run)
    fix l x l'
    assume "run_io (GetHostResourceByUUID E CliRM t (hw_Uuid hw)) l = (Ret x, l')"
    with assms(2) [of l] that show "emits ?P (f x)" by auto
  qed (auto intro!: emits_intro)
  have zero: "emits ?P (startZeroTouch E t i)" for i
    by (auto intro!: emits_intro simp: ztp_instance_def)
  show ?thesis
    using assms(1,3) unfolding CreateNodes_def CopyNodeReqToNodeData_def Let_def
    by (simp, intro conjI impI emits_ret emits_bnd [where m = "timestamp E"] lookup)
      (auto intro!: emits_intro zero)
qed

definition known_env :: om_env where
  "known_env = sample_env\<lparr>inv_list := (\<lambda>l c k f. (Some [Some (ResHost sample_host)], None))\<rparr>"

lemma known_node_is_not_written_witness:
  "list_all (\<lambda>x. \<not> writes_host x)
    (calls_of (CreateNodes known_env True True (Some ''t1'') sample_payload))"
proof (rule emits_calls_of, rule known_node_is_not_written)
  have "CreateNodesRequest_validate False sample_payload = []" by code_simp
  then show "sanitize_nodes sample_payload = Inr [[hd (hd sample_payload)]]"
    by (simp add: sanitize_nodes_def CreateNodesRequest_Validate_def first_err_def) (simp add: sample_payload_def)
  show "\<exists>l'. run_io (GetHostResourceByUUID known_env CliRM ''t1'' (hw_Uuid (hd (hd sample_payload)))) l =
      (Ret (Inr sample_host), l')" for l
    by (simp add: GetHostResourceByUUID_def listAndReturnHost_def listAllResources_def known_env_def
        sample_payload_def) (simp add: sample_env_def)
  show "h_SerialNumber sample_host = hw_Serialnum (hd (hd sample_payload))"
    by (simp add: sample_host_def sample_payload_def)
qed

end
