(* ===== verification/CurationThms.thy ===== *)
theory CurationThms
  imports SampleEnv
begin

text \<open>
  The properties of what is generated for an edge node: the firewall commands, the cloud-init
  file, and the cache of platform bundles its scripts come from.
\<close>

section \<open>Firewall commands\<close>

text \<open>What packets an entry lets in, and what packets a rule means. How a packet meets a protocol
  (\<open>over\<close>), a source (\<open>src\<close>) and a port expression (\<open>dst\<close>) is the business of iptables; a
  rule gives its ports as a list, and without a protocol both transports are meant.\<close>

type_synonym 'p test = "string \<Rightarrow> 'p \<Rightarrow> bool"

fun lets_in :: "'p test \<Rightarrow> 'p test \<Rightarrow> 'p test \<Rightarrow> accept \<Rightarrow> 'p \<Rightarrow> bool" where
  "lets_in over src dst (proto, source, port) p \<longleftrightarrow> over proto p \<and> (source = '''' \<or> src source p) \<and>
     (case port of None \<Rightarrow> True | Some d \<Rightarrow> dst d p)"

definition meant :: "'p test \<Rightarrow> 'p test \<Rightarrow> 'p test \<Rightarrow> firewall_rule \<Rightarrow> string list \<Rightarrow> 'p \<Rightarrow> bool" where
  "meant over src dst rule ports p \<longleftrightarrow>
     (if fw_Protocol rule = '''' then over ''tcp'' p \<or> over ''udp'' p else over (fw_Protocol rule) p) \<and>
     (fw_SourceIP rule = '''' \<or> src (resolveIP (fw_SourceIP rule)) p) \<and>
     (ports = [] \<or> (\<exists>d \<in> set ports. dst (trim_space d) p))"

definition restricted :: "firewall_rule \<Rightarrow> string list \<Rightarrow> bool" where
  "restricted rule ports \<longleftrightarrow> fw_Protocol rule \<noteq> '''' \<or> fw_SourceIP rule \<noteq> '''' \<or> ports \<noteq> []"

definition entries_of :: "firewall_rule \<Rightarrow> string list \<Rightarrow> accept list" where
  "entries_of rule ports =
     (if restricted rule ports
      then concat (map (\<lambda>port. map (\<lambda>proto.
             (proto, if fw_SourceIP rule = '''' then '''' else resolveIP (fw_SourceIP rule), port))
             (if fw_Protocol rule = '''' then [''tcp'', ''udp''] else [fw_Protocol rule]))
             (if ports = [] then [None] else map (\<lambda>d. Some (trim_space d)) ports))
      else [])"

lemma bex_product: "(\<exists>a \<in> set (concat (map (\<lambda>x. map (f x) ys) xs)). P a) \<longleftrightarrow> (\<exists>x \<in> set xs. \<exists>y \<in> set ys. P (f x y))"
  by auto

lemma entries_let_in:
  "(\<exists>a \<in> set (entries_of rule ports). lets_in over src dst a p) \<longleftrightarrow>
     restricted rule ports \<and> meant over src dst rule ports p"
proof (cases "restricted rule ports")
  case True
  let ?s = "if fw_SourceIP rule = [] then [] else resolveIP (fw_SourceIP rule)"
  have source: "(?s = [] \<or> src ?s p) \<longleftrightarrow> fw_SourceIP rule = [] \<or> src (resolveIP (fw_SourceIP rule)) p" by simp
  have port: "(\<exists>x \<in> set (if ports = [] then [None] else map (\<lambda>d. Some (trim_space d)) ports).
      case x of None \<Rightarrow> True | Some d \<Rightarrow> dst d p) \<longleftrightarrow> ports = [] \<or> (\<exists>d \<in> set ports. dst (trim_space d) p)" by simp
  have proto: "(\<exists>y \<in> set (if fw_Protocol rule = [] then [''tcp'', ''udp''] else [fw_Protocol rule]). over y p) \<longleftrightarrow>
      (if fw_Protocol rule = [] then over ''tcp'' p \<or> over ''udp'' p else over (fw_Protocol rule) p)" by simp
  show ?thesis
    unfolding entries_of_def if_P [OF True] bex_product meant_def source [symmetric] port [symmetric] proto [symmetric] lets_in.simps
    using True by blast
qed (simp add: entries_of_def)

lemma trim_space_Nil: "trim_space [] = []"
  by code_simp

lemma split_ports:
  "ports \<noteq> [] \<Longrightarrow> \<forall>d \<in> set ports. CHR '','' \<notin> set d \<Longrightarrow> split_char CHR '','' (join_with '','' ports) = ports"
proof (induction ports)
  case (Cons d ds)
  then show ?case by (cases ds) (auto simp: split_char_no_sep split_char_sep)
qed simp

lemma iptables_entries:
  assumes "fw_Ports rule = join_with '','' ports" and "\<forall>d \<in> set ports. CHR '','' \<notin> set d \<and> trim_space d \<noteq> ''''"
  shows "join_with '' && '' (GenerateIptablesCommands rule) = join_with '' && '' (map accept_cmd (entries_of rule ports))"
proof (cases ports)
  case Nil
  then show ?thesis using assms(1)
    by (auto simp: GenerateIptablesCommands_def entries_of_def restricted_def Let_def)
next
  case (Cons d ds)
  have split: "split_char CHR '','' (fw_Ports rule) = d # ds" using assms Cons split_ports [of ports] by simp
  have "d \<noteq> ''''" using assms(2) Cons trim_space_Nil by auto
  with split Cons show ?thesis
    by (auto simp: GenerateIptablesCommands_def entries_of_def restricted_def Let_def generateIptablesForProtocol_accept
        generateIptablesForPorts_accept comp_def map_concat simp del: accept_cmd.simps)
qed

text \<open>
  C22. The firewall entries that the iptables commands of a rule append let in exactly the packets
  that the rule means, however iptables matches protocols, sources and ports, for a rule whose
  ports are given as a list of non-blank expressions separated by commas (or not at all); a rule
  that restricts nothing opens nothing. Each command is that of one entry, joined with \<open>&&\<close> to
  one line of shell. (A list with a leading comma is not of this form: \<open>leading_comma_opens_all_ports\<close>.)
\<close>

theorem iptables_open_what_the_rule_means:
  assumes "fw_Ports rule = join_with '','' ports" and "\<forall>d \<in> set ports. CHR '','' \<notin> set d \<and> trim_space d \<noteq> ''''"
  shows "\<exists>es. join_with '' && '' (GenerateIptablesCommands rule) = join_with '' && '' (map accept_cmd es) \<and>
    (\<forall>over src dst (p :: 'p). (\<exists>a \<in> set es. lets_in over src dst a p) \<longleftrightarrow>
       restricted rule ports \<and> meant over src dst rule ports p)"
  by (rule exI [of _ "entries_of rule ports"], rule conjI, rule iptables_entries [OF assms]) (simp only: entries_let_in simp_thms)

definition web_rule :: firewall_rule where
  "web_rule = \<lparr> fw_SourceIP = ''10.0.0.1'', fw_Ports = ''80, 443'', fw_IPVer = ''ipv4'', fw_Protocol = '''' \<rparr>"

lemma iptables_open_what_the_rule_means_witness:
  "\<exists>es. join_with '' && '' (GenerateIptablesCommands web_rule) = join_with '' && '' (map accept_cmd es) \<and>
    (\<forall>over src dst (p :: nat). (\<exists>a \<in> set es. lets_in over src dst a p) \<longleftrightarrow>
       (over ''tcp'' p \<or> over ''udp'' p) \<and> src ''10.0.0.1'' p \<and> (dst ''80'' p \<or> dst ''443'' p))"
proof -
  have ports: "fw_Ports web_rule = join_with '','' [''80'', '' 443'']" by (simp add: web_rule_def)
  have plain: "\<forall>d \<in> set [''80'', '' 443'']. CHR '','' \<notin> set d \<and> trim_space d \<noteq> []" by code_simp
  have vals: "resolveIP ''10.0.0.1'' = ''10.0.0.1''" "trim_space ''80'' = ''80''" "trim_space '' 443'' = ''443''" by code_simp+
  have means: "(restricted web_rule [''80'', '' 443''] \<and> meant over src dst web_rule [''80'', '' 443''] p) =
     ((over ''tcp'' p \<or> over ''udp'' p) \<and> src ''10.0.0.1'' p \<and> (dst ''80'' p \<or> dst ''443'' p))" for over src dst and p :: nat
    unfolding restricted_def meant_def web_rule_def by (simp add: vals)
  show ?thesis
    using iptables_open_what_the_rule_means [OF ports plain, where 'p = nat] unfolding means .
qed

text \<open>
  The two generators disagree on a rule that only names a protocol: ufw gets no command, so
  nothing is opened, and iptables opens that protocol for every source and port.
\<close>

theorem protocol_only_rule_diverges:
  assumes "fw_SourceIP rule = ''''" and "fw_Ports rule = ''''" and "fw_Protocol rule \<noteq> ''''"
  shows "GenerateUFWCommands rule = [] \<and>
    GenerateIptablesCommands rule = [''iptables -A INPUT -p '' @ fw_Protocol rule @ '' -j ACCEPT'']"
  using assms by (simp add: GenerateUFWCommands_def GenerateIptablesCommands_def Let_def)

definition tcp_rule :: firewall_rule where
  "tcp_rule = \<lparr> fw_SourceIP = '''', fw_Ports = '''', fw_IPVer = '''', fw_Protocol = ''tcp'' \<rparr>"

lemma protocol_only_rule_diverges_witness:
  "GenerateUFWCommands tcp_rule = [] \<and> GenerateIptablesCommands tcp_rule = [''iptables -A INPUT -p tcp -j ACCEPT'']"
  using protocol_only_rule_diverges [of tcp_rule] by (simp add: tcp_rule_def)

text \<open>
  A port list that starts with a comma opens every port: the iptables generator takes the empty
  first piece for a rule without ports, and drops the ports that follow.
\<close>

theorem leading_comma_opens_all_ports:
  assumes "fw_SourceIP rule = ''''" and "fw_Ports rule = CHR '','' # ports" and "fw_Protocol rule \<noteq> ''''"
  shows "GenerateIptablesCommands rule = [''iptables -A INPUT -p '' @ fw_Protocol rule @ '' -j ACCEPT'']"
proof -
  have "split_char CHR '','' (CHR '','' # ports) = '''' # split_char CHR '','' ports"
    using split_char_sep [of "CHR '',''" "''''" ports] by simp
  then show ?thesis using assms by (simp add: GenerateIptablesCommands_def Let_def)
qed

lemma leading_comma_opens_all_ports_witness:
  "GenerateIptablesCommands (tcp_rule\<lparr>fw_Ports := '',80''\<rparr>) = [''iptables -A INPUT -p tcp -j ACCEPT'']"
  using leading_comma_opens_all_ports [of "tcp_rule\<lparr>fw_Ports := '',80''\<rparr>" "''80''"] by (simp add: tcp_rule_def)

section \<open>Cloud-init\<close>

lemma common_rules:
  "common_variables V c osType caCert rules = Ret vars \<Longrightarrow> vars ''FIREWALL_RULES'' = Some (TStrs rules) \<and>
     vars ''FIREWALL_PROVIDER'' = None"
  by (auto simp: common_variables_def split: option.splits)

lemma common_infra_firewall:
  assumes "GetCommonInfraTemplateVariables V c osType = Ret (Inr vars)" and "osType \<noteq> OS_TYPE_UNSPECIFIED"
  obtains rules where "vars ''FIREWALL_RULES'' = Some (TStrs rules)"
    and "vars ''FIREWALL_PROVIDER'' = Some (TStr (if osType = OS_TYPE_MUTABLE then ''ufw'' else ''iptables''))"
    and "list_all (\<lambda>r. has_prefix r (if osType = OS_TYPE_MUTABLE then ''ufw '' else ''iptables '')) rules"
proof -
  let ?v1 = "\<lambda>v0 x. if cfg_SkipOSProvisioning (hv_config V) then v0(''CA_PEM'' \<mapsto> x) else v0"
  obtain rules caCert v0 x where rules: "getCustomFirewallRules V (osType = OS_TYPE_MUTABLE) = Inr rules"
    and v0: "common_variables V c osType caCert rules = Ret v0"
    and set: "setOSSpecificVariables V (?v1 v0 x) osType = (vars, None)"
    using assms(1) unfolding GetCommonInfraTemplateVariables_def
    by (auto split: sum.splits outcome.splits prod.splits option.splits if_splits)
  have frame: "vars ''FIREWALL_RULES'' = v0 ''FIREWALL_RULES''"
    using setOSSpecific_frame [OF set, of "''FIREWALL_RULES''"] by (simp add: has_suffix_def has_prefix_def split: if_splits)
  show thesis
  proof (rule that)
    show "vars ''FIREWALL_RULES'' = Some (TStrs rules)" using frame common_rules [OF v0] by simp
    show "vars ''FIREWALL_PROVIDER'' = Some (TStr (if osType = OS_TYPE_MUTABLE then ''ufw'' else ''iptables''))"
      using setOSSpecific_provider [OF set] assms(2) by (cases osType) simp_all
  qed (rule custom_rules_provider [OF rules])
qed

text \<open>
  A cloud-init file is only ever generated from complete options, the template is rendered
  with the host's identity as it was given, and the firewall rules in it are written for the very
  firewall it configures: ufw commands on a mutable OS, iptables commands on an immutable one.
\<close>

theorem generated_cloud_init:
  assumes "GenerateFromInfraConfig V tmpl c opts = Ret (Inr s)"
  shows "complete_options (apply_options opts) \<and> (\<exists>vars rules.
    hv_render V (if tmpl \<noteq> '''' then tmpl else hv_cloud_init_template V) vars = Some s \<and>
    vars ''HOSTNAME'' = Some (TStr (ci_hostname (apply_options opts))) \<and>
    vars ''TENANT_ID'' = Some (TStr (ci_tenantID (apply_options opts))) \<and>
    vars ''CLIENT_SECRET'' = Some (TStr (ci_clientSecret (apply_options opts))) \<and>
    vars ''FIREWALL_RULES'' = Some (TStrs rules) \<and>
    (if ci_OsType (apply_options opts) = OS_TYPE_MUTABLE
     then vars ''FIREWALL_PROVIDER'' = Some (TStr ''ufw'') \<and> list_all (\<lambda>r. has_prefix r ''ufw '') rules
     else vars ''FIREWALL_PROVIDER'' = Some (TStr ''iptables'') \<and> list_all (\<lambda>r. has_prefix r ''iptables '') rules))"
proof -
  let ?o = "apply_options opts"
  obtain vars where complete: "complete_options ?o"
    and render: "hv_render V (if tmpl \<noteq> '''' then tmpl else hv_cloud_init_template V) vars = Some s"
    and own: "\<And>k. templateVariablesFromOptions ?o k \<noteq> None \<Longrightarrow> vars k = templateVariablesFromOptions ?o k"
    and other: "\<And>common k. GetCommonInfraTemplateVariables V c (ci_OsType ?o) = Ret (Inr common) \<Longrightarrow>
       k \<noteq> ''DNS_SERVERS'' \<Longrightarrow> templateVariablesFromOptions ?o k = None \<Longrightarrow> vars k = common k"
    using generated_from_complete [OF assms] by blast
  obtain common where common: "GetCommonInfraTemplateVariables V c (ci_OsType ?o) = Ret (Inr common)"
    using assms by (auto simp: GenerateFromInfraConfig_def Let_def split: option.splits outcome.splits sum.splits)
  have "ci_OsType ?o \<noteq> OS_TYPE_UNSPECIFIED" using complete by (simp add: complete_options_def)
  from common_infra_firewall [OF common this] obtain rules where
    "common ''FIREWALL_RULES'' = Some (TStrs rules)"
    "common ''FIREWALL_PROVIDER'' = Some (TStr (if ci_OsType ?o = OS_TYPE_MUTABLE then ''ufw'' else ''iptables''))"
    "list_all (\<lambda>r. has_prefix r (if ci_OsType ?o = OS_TYPE_MUTABLE then ''ufw '' else ''iptables '')) rules" .
  then show ?thesis
    using complete render own other [OF common] by (cases "ci_OsType ?o = OS_TYPE_MUTABLE") auto
qed

definition sample_options :: "ci_option list" where
  "sample_options = [WithOSType OS_TYPE_IMMUTABLE, WithTenantID ''t1'', WithHostname ''host-1'',
     WithClientCredentials ''id'' ''secret'', WithHostMACAddress ''aa:bb:cc:dd:ee:ff'']"

lemma generated_cloud_init_witness:
  "\<exists>s. GenerateFromInfraConfig sample_view ''tmpl'' sample_config sample_options = Ret (Inr s) \<and>
     complete_options (apply_options sample_options)"
proof -
  have "(case GenerateFromInfraConfig sample_view ''tmpl'' sample_config sample_options of
      Ret (Inr s) \<Rightarrow> True | _ \<Rightarrow> False)" by code_simp
  then obtain s where "GenerateFromInfraConfig sample_view ''tmpl'' sample_config sample_options = Ret (Inr s)"
    by (auto split: outcome.splits sum.splits)
  with generated_cloud_init [OF this] show ?thesis by blast
qed

text \<open>
  Generation panics only on a configuration in which one of the six addresses that are split
  at a colon has none.
\<close>

theorem generation_panics_only_without_port:
  assumes "\<forall>url \<in> {cfg_LogsObservabilityURL c, cfg_MetricsObservabilityURL c, cfg_TelemetryURL c,
     cfg_FileServerURL c, cfg_RegistryURL c, cfg_ManageabilityURL c}. CHR '':'' \<in> set url"
  shows "GenerateFromInfraConfig V tmpl c opts \<noteq> Panic"
proof
  assume "GenerateFromInfraConfig V tmpl c opts = Panic"
  from generate_panics_only_in_variables [OF this]
  have "GetCommonInfraTemplateVariables V c (ci_OsType (apply_options opts)) = Panic" .
  then show False
    using assms unfolding GetCommonInfraTemplateVariables_def common_variables_def
    by (auto simp: port_of_None split: sum.splits outcome.splits prod.splits option.splits if_splits)
qed

lemma generation_panics_only_without_port_witness:
  "GenerateFromInfraConfig sample_view '''' sample_config [] \<noteq> Panic"
  by (rule generation_panics_only_without_port) (simp add: sample_config_def)

section \<open>Platform bundles\<close>

text \<open>
  What has been fetched once is never downloaded again: after a successful fetch of an artifact,
  and any calls that do not store that key again, a fetch returns the same content without a
  call.
\<close>

theorem bundle_is_fetched_once:
  assumes "run_io (FetchPlatformBundleData E a) l = (Ret (Inr content), l')"
    and "list_all (\<lambda>x. \<forall>v. x \<noteq> CacheStore a v) cs"
  shows "run_io (FetchPlatformBundleData E' a) (l' @ cs) = (Ret (Inr content), l' @ cs)"
proof -
  have "cached cs a = None"
    using assms(2) by (induction cs) (auto split: om_call.splits)
  with fetch_caches [OF assms(1)] have "cached (l' @ cs) a = Some content" by (simp add: cached_append)
  moreover obtain rt where "validateAndParseArtifactURL a = Inr rt"
    using assms(1) by (cases "validateAndParseArtifactURL a") (auto simp: FetchPlatformBundleData_def)
  ultimately show ?thesis by (rule fetch_cached)
qed

lemma bundle_is_fetched_once_witness:
  "run_io (FetchPlatformBundleData sample_env ''repo:1.0'')
     (calls_of (FetchPlatformBundleData sample_env ''repo:1.0'') @ [K8sClient]) =
   (Ret (Inr ''script''), calls_of (FetchPlatformBundleData sample_env ''repo:1.0'') @ [K8sClient])"
proof -
  have "fst (run_io (FetchPlatformBundleData sample_env ''repo:1.0'') []) = Ret (Inr ''script'')" by code_simp
  then obtain l' where run: "run_io (FetchPlatformBundleData sample_env ''repo:1.0'') [] = (Ret (Inr ''script''), l')"
    by (metis prod.collapse)
  from bundle_is_fetched_once [OF run, of "[K8sClient]"] run show ?thesis by (simp add: calls_of_def)
qed

end
