(* ===== verification/GoThread.thy ===== *)
theory GoThread
  imports GoIO
begin

text \<open>
  Goroutines. A \<open>thread\<close> is a program cut at its calls, so that the calls of two of them can
  be interleaved; \<open>run_thread\<close> runs one alone, as an interaction program, and \<open>interleave\<close>
  runs two under a schedule, a list that says whose call is next. When the schedule is used up
  the first thread runs to its end and then the second, so every order of the calls of two
  threads is one of some schedule.
\<close>

datatype ('c, 'a) thread = Fin 'a | Act 'c "'c list \<Rightarrow> ('c, 'a) thread"

primrec tbnd :: "('c, 'a) thread \<Rightarrow> ('a \<Rightarrow> ('c, 'b) thread) \<Rightarrow> ('c, 'b) thread" where
  "tbnd (Fin x) f = f x"
| "tbnd (Act c k) f = Act c (\<lambda>l. tbnd (k l) f)"

definition tcall :: "'c \<Rightarrow> ('c list \<Rightarrow> 'a) \<Rightarrow> ('c, 'a) thread" where
  "tcall c r = Act c (\<lambda>l. Fin (r l))"

primrec run_thread :: "('c, 'a) thread \<Rightarrow> ('c, 'a) io" where
  "run_thread (Fin x) = ret x"
| "run_thread (Act c k) = bnd (call c (\<lambda>l. l)) (\<lambda>l. run_thread (k l))"

fun interleave :: "bool list \<Rightarrow> ('c, 'a) thread \<Rightarrow> ('c, 'b) thread \<Rightarrow> ('c, 'a \<times> 'b) io" where
  "interleave [] s t = bnd (run_thread s) (\<lambda>x. bnd (run_thread t) (\<lambda>y. ret (x, y)))"
| "interleave (b # bs) s t =
     (if b then (case s of
          Fin x \<Rightarrow> interleave bs s t
        | Act c k \<Rightarrow> bnd (call c (\<lambda>l. l)) (\<lambda>l. interleave bs (k l) t))
      else (case t of
          Fin y \<Rightarrow> interleave bs s t
        | Act c k \<Rightarrow> bnd (call c (\<lambda>l. l)) (\<lambda>l. interleave bs s (k l))))"

section \<open>Threads as programs\<close>

lemma tbnd_tcall [simp]: "tbnd (tcall c r) f = Act c (\<lambda>l. f (r l))"
  by (simp add: tcall_def)

lemma run_thread_tcall [simp]: "run_thread (tcall c r) = call c r"
  by (rule io_eqI) (simp add: tcall_def)

lemma run_thread_tbnd [simp]: "run_thread (tbnd s f) = bnd (run_thread s) (\<lambda>x. run_thread (f x))"
  by (induction s) simp_all

lemma returns_run_thread [returns_intro]: "returns (run_thread s)"
  by (induction s) (auto intro!: returns_intro)

lemma returns_interleave [returns_intro]: "returns (interleave bs s t)"
  by (induction bs s t rule: interleave.induct) (auto intro!: returns_intro split: thread.split)

section \<open>The calls of threads\<close>

text \<open>\<open>t_all P Q s\<close>: the calls of \<open>s\<close> satisfy \<open>P\<close> and the values it can end with \<open>Q\<close>.\<close>

primrec t_all :: "('c \<Rightarrow> bool) \<Rightarrow> ('a \<Rightarrow> bool) \<Rightarrow> ('c, 'a) thread \<Rightarrow> bool" where
  "t_all P Q (Fin x) \<longleftrightarrow> Q x"
| "t_all P Q (Act c k) \<longleftrightarrow> P c \<and> (\<forall>l. t_all P Q (k l))"

abbreviation t_emits :: "('c \<Rightarrow> bool) \<Rightarrow> ('c, 'a) thread \<Rightarrow> bool" where
  "t_emits P \<equiv> t_all P (\<lambda>_. True)"

lemma t_all_tcall [simp]: "t_all P Q (tcall c r) \<longleftrightarrow> P c \<and> (\<forall>l. Q (r l))"
  by (simp add: tcall_def)

lemma t_all_tbnd: "t_all P R s \<Longrightarrow> (\<And>x. R x \<Longrightarrow> t_all P Q (f x)) \<Longrightarrow> t_all P Q (tbnd s f)"
  by (induction s) auto

lemma t_emits_tbnd: "t_emits P s \<Longrightarrow> (\<And>x. t_all P Q (f x)) \<Longrightarrow> t_all P Q (tbnd s f)"
  by (erule t_all_tbnd) simp

lemma t_all_mono: "t_all P Q s \<Longrightarrow> (\<And>c. P c \<Longrightarrow> P' c) \<Longrightarrow> (\<And>x. Q x \<Longrightarrow> Q' x) \<Longrightarrow> t_all P' Q' s"
  by (induction s) auto

lemma t_all_emits: "t_all P Q s \<Longrightarrow> t_emits P s"
  by (erule t_all_mono) auto

lemma emits_run_thread [emits_intro]: "t_emits P s \<Longrightarrow> emits P (run_thread s)"
  by (induction s) (auto intro!: emits_intro)

lemma t_all_run: "t_all P Q s \<Longrightarrow> run_io (run_thread s) l = (Ret x, l') \<Longrightarrow> Q x"
  by (induction s arbitrary: l) auto

lemma emits_interleave [emits_intro]:
  "t_emits P s \<Longrightarrow> t_emits P t \<Longrightarrow> emits P (interleave bs s t)"
  by (induction bs s t rule: interleave.induct) (auto intro!: emits_intro split: thread.split)

lemma interleave_run:
  "t_all P Q s \<Longrightarrow> t_all P' R t \<Longrightarrow> run_io (interleave bs s t) l = (Ret (x, y), l') \<Longrightarrow> Q x \<and> R y"
proof (induction bs s t arbitrary: l rule: interleave.induct)
  case (1 s t)
  from 1(3) obtain l1 l2 where "run_io (run_thread s) l = (Ret x, l1)" "run_io (run_thread t) l1 = (Ret y, l2)"
    by (auto split: prod.splits outcome.splits)
  then show ?case using t_all_run [OF 1(1)] t_all_run [OF 1(2)] by blast
next
  case (2 b bs s t)
  show ?case
  proof (cases b)
    case True
    with 2 show ?thesis by (cases s) auto
  next
    case False
    with 2 show ?thesis by (cases t) auto
  qed
qed

end
