(* ===== verification/GoPath.thy ===== *)
theory GoPath
  imports Prelude
begin

text \<open>
  What the code uses of Go's \<open>path\<close> and \<open>path/filepath\<close> packages (the same on Linux):
  \<open>Clean\<close>, which resolves empty, dot and dot-dot elements, \<open>Join\<close> and \<open>Rel\<close>.
\<close>

text \<open>The elements left after cleaning; \<open>st\<close> holds those found so far, last one first.\<close>

fun clean_parts :: "bool \<Rightarrow> string list \<Rightarrow> string list \<Rightarrow> string list" where
  "clean_parts rooted st [] = rev st"
| "clean_parts rooted st (p # ps) =
     (if p = '''' \<or> p = ''.'' then clean_parts rooted st ps
      else if p = ''..'' then
        (case st of
           q # st' \<Rightarrow> if q \<noteq> ''..'' then clean_parts rooted st' ps
                     else clean_parts rooted (''..'' # st) ps
         | [] \<Rightarrow> if rooted then clean_parts rooted [] ps else clean_parts rooted [''..''] ps)
      else clean_parts rooted (p # st) ps)"

definition path_Clean :: "string \<Rightarrow> string" where
  "path_Clean s = (if s = '''' then ''.''
     else let rooted = (hd s = CHR ''/'');
              ps = clean_parts rooted [] (split_char CHR ''/'' s)
          in if rooted then CHR ''/'' # join_with ''/'' ps
             else if ps = [] then ''.'' else join_with ''/'' ps)"

definition path_Join :: "string list \<Rightarrow> string" where
  "path_Join es = (case filter (\<lambda>e. e \<noteq> '''') es of
     [] \<Rightarrow> '''' | ne \<Rightarrow> path_Clean (join_with ''/'' ne))"

text \<open>An element that cleaning keeps as it is.\<close>

definition plain_elem :: "string \<Rightarrow> bool" where
  "plain_elem p \<longleftrightarrow> p \<noteq> '''' \<and> p \<noteq> ''.'' \<and> p \<noteq> ''..'' \<and> CHR ''/'' \<notin> set p"

lemma clean_parts_plain: "list_all plain_elem ps \<Longrightarrow> clean_parts r st ps = rev st @ ps"
  by (induction ps arbitrary: st) (auto simp: plain_elem_def)

lemma path_Join_root:
  assumes "plain_elem a" and "plain_elem b"
  shows "path_Join [CHR ''/'' # a, b] = CHR ''/'' # a @ CHR ''/'' # b"
proof -
  have "CHR ''/'' \<notin> set a" "CHR ''/'' \<notin> set b" "b \<noteq> ''''"
    using assms by (auto simp: plain_elem_def)
  then have "split_char CHR ''/'' (CHR ''/'' # a @ CHR ''/'' # b) = ['''', a, b]"
    by (simp add: split_char_sep split_char_no_sep)
  moreover have "clean_parts True [] ['''', a, b] = [a, b]"
    using assms clean_parts_plain [of "[a, b]" True "[]"] by simp
  ultimately show ?thesis
    using \<open>b \<noteq> ''''\<close> by (simp add: path_Join_def path_Clean_def)
qed

section \<open>Absolute paths\<close>

lemma clean_without_dotdot:
  "''..'' \<notin> set ps \<Longrightarrow> clean_parts r st ps = rev st @ filter (\<lambda>p. p \<noteq> '''' \<and> p \<noteq> ''.'') ps"
  by (induction ps arbitrary: st) auto

text \<open>The absolute path of a list of elements.\<close>

definition abs_path :: "string list \<Rightarrow> string" where
  "abs_path ps = CHR ''/'' # join_with ''/'' ps"

definition elements :: "string \<Rightarrow> string list" where
  "elements p = filter (\<lambda>p. p \<noteq> '''' \<and> p \<noteq> ''.'') (split_char CHR ''/'' p)"

lemma split_char_append: "split_char c (a @ c # b) = split_char c a @ split_char c b"
  by (induction a) (auto split: list.splits)

lemma path_Join_abs:
  assumes "a \<noteq> ''''" and "hd a = CHR ''/''"
    and "''..'' \<notin> set (split_char CHR ''/'' a)" and "''..'' \<notin> set (split_char CHR ''/'' b)"
  shows "path_Join [a, b] = abs_path (elements a @ elements b)"
proof (cases "b = ''''")
  case True
  with assms show ?thesis
    by (simp add: path_Join_def path_Clean_def Let_def clean_without_dotdot abs_path_def elements_def)
next
  case False
  with assms have "path_Join [a, b] = path_Clean (a @ CHR ''/'' # b)" by (simp add: path_Join_def)
  also have "\<dots> = abs_path (elements a @ elements b)"
    using assms by (simp add: path_Clean_def Let_def split_char_append clean_without_dotdot abs_path_def elements_def)
  finally show ?thesis .
qed

lemma split_abs_path:
  "list_all plain_elem ps \<Longrightarrow> split_char CHR ''/'' (abs_path ps) = [] # (if ps = [] then [[]] else ps)"
proof (induction ps)
  case (Cons p ps)
  then show ?case
    by (cases ps) (auto simp: abs_path_def plain_elem_def split_char_sep split_char_no_sep)
qed (simp add: abs_path_def)

lemma elements_abs_path: "list_all plain_elem ps \<Longrightarrow> elements (abs_path ps) = ps"
  by (auto simp: elements_def split_abs_path plain_elem_def list_all_iff intro!: filter_True)

lemma dotdot_abs_path: "list_all plain_elem ps \<Longrightarrow> ''..'' \<notin> set (split_char CHR ''/'' (abs_path ps))"
  by (auto simp: split_abs_path plain_elem_def list_all_iff)

lemma plain_elements: "''..'' \<notin> set (split_char CHR ''/'' p) \<Longrightarrow> list_all plain_elem (elements p)"
  by (auto simp: elements_def list_all_iff plain_elem_def dest: split_char_pieces)

text \<open>\<open>filepath.Rel\<close> for two absolute paths: the elements after the common ones, from a base
  that may have to be left upwards.\<close>

fun drop_common :: "string list \<Rightarrow> string list \<Rightarrow> string list \<times> string list" where
  "drop_common (b # bs) (t # ts) = (if b = t then drop_common bs ts else (b # bs, t # ts))"
| "drop_common bs ts = (bs, ts)"

definition path_elems :: "string \<Rightarrow> string list" where
  "path_elems p = filter (\<lambda>e. e \<noteq> '''') (split_char CHR ''/'' (path_Clean p))"

definition path_Rel :: "string \<Rightarrow> string \<Rightarrow> string" where
  "path_Rel basepath targpath = (case drop_common (path_elems basepath) (path_elems targpath) of
     (bs, ts) \<Rightarrow> if bs = [] \<and> ts = [] then ''.'' else join_with ''/'' (map (\<lambda>_. ''..'') bs @ ts))"

lemma drop_common_append: "drop_common bs (bs @ ts) = ([], ts)"
  by (induction bs) (cases ts; simp)+

lemma path_elems_abs: "list_all plain_elem ps \<Longrightarrow> path_elems (abs_path ps) = ps"
proof -
  assume ps: "list_all plain_elem ps"
  then have "path_Clean (abs_path ps) = abs_path ps"
    using dotdot_abs_path [OF ps] elements_abs_path [OF ps]
    by (simp add: path_Clean_def Let_def clean_without_dotdot) (simp add: abs_path_def elements_def)
  with ps show ?thesis
    by (auto simp: path_elems_def split_abs_path plain_elem_def list_all_iff intro!: filter_True)
qed

text \<open>The way from a directory to what is below it, and back.\<close>

lemma path_Rel_below:
  assumes "list_all plain_elem bs" and "list_all plain_elem ts"
  shows "path_Rel (abs_path bs) (abs_path (bs @ ts)) = (if ts = [] then ''.'' else join_with ''/'' ts)"
  using assms by (simp add: path_Rel_def path_elems_abs drop_common_append)

lemma elements_join: "list_all plain_elem ts \<Longrightarrow> elements (if ts = [] then ''.'' else join_with ''/'' ts) = ts"
proof (cases ts)
  case (Cons t ts')
  assume "list_all plain_elem ts"
  with Cons have "elements (abs_path ts) = ts" by (simp add: elements_abs_path)
  with Cons show ?thesis by (simp add: elements_def abs_path_def)
qed (simp add: elements_def)

end
