(* ===== verification/WorkerApi.thy ===== *)
theory WorkerApi
  imports GoErrors GoThread GoPath
begin

text \<open>
  The Tinkerbell worker (\<open>tink-worker/cmd/tink-worker/worker\<close>): its messages
  (\<open>internal/proto/workflow.pb.go\<close>), the calls it makes to the Tinkerbell server, to containerd
  or Docker and to the operating system, and the environment \<open>tw_env\<close> that answers them. The
  interface \<open>ContainerManager\<close> is the record \<open>cmgr\<close> of programs, and the locale
  \<open>container_manager\<close> states what the worker relies on. An empty and a nil list are the same
  in a message that comes off the wire.
\<close>

section \<open>Messages\<close>

datatype wstate = STATE_PENDING | STATE_RUNNING | STATE_FAILED | STATE_TIMEOUT | STATE_SUCCESS

record wf_action =
  wa_TaskName :: string
  wa_Name :: string
  wa_Image :: string
  wa_Timeout :: "64 word"
  wa_Command :: "string list"
  wa_OnTimeout :: "string list"
  wa_OnFailure :: "string list"
  wa_WorkerId :: string
  wa_Volumes :: "string list"
  wa_Environment :: "string list"
  wa_Pid :: string

record wf_context =
  wc_WorkflowId :: string
  wc_CurrentAction :: string
  wc_CurrentActionIndex :: "64 word"
  wc_CurrentActionState :: wstate

record action_status =
  as_WorkflowId :: string
  as_TaskName :: string
  as_ActionName :: string
  as_ActionStatus :: wstate
  as_Seconds :: int
  as_Message :: string
  as_WorkerId :: string

section \<open>Calls\<close>

text \<open>The context of a call: the one of the process, or one that ends after some nanoseconds.\<close>

datatype wctx = CtxMain | CtxTimeout int

record mount =
  mt_Destination :: string
  mt_Source :: string
  mt_Type :: string
  mt_Options :: "string list"

record mount_point =
  mp_Source :: string
  mp_Target :: string
  mp_Type :: string
  mp_ReadOnly :: bool

datatype oci_opt =
    WithDefaultSpec | WithDefaultUnixDevices | WithImageConfig string | WithEnv "string list"
  | WithMounts "mount list" | WithCapabilities "string list" | WithHostNamespace string
  | WithHostHostsFile | WithHostResolvconf | WithPrivileged | WithAllDevicesAllowed
  | WithHostDevices | WithProcessArgs "string list"

record cd_container =
  cc_Name :: string
  cc_Snapshot :: string
  cc_Image :: string
  cc_Spec :: "oci_opt list"

record dk_container =
  dc_Name :: string
  dc_Image :: string
  dc_Cmd :: "string list"
  dc_Attach :: bool
  dc_Env :: "string list"
  dc_Privileged :: bool
  dc_Binds :: "string list"
  dc_PidMode :: string

record registry_details =
  rd_Registry :: string
  rd_Username :: string
  rd_Password :: string

datatype tw_call =
    TkContexts string | TkRecv | TkActions string | TkReport action_status | WaitRetry
  | CdGetImage string | CdPull string "registry_details option"
  | CdSnapshotStat string | CdSnapshotRemove string | CdNewContainer cd_container
  | CdLoad wctx string | CdNewTask wctx string | CdTaskStart wctx string | CdTask wctx string
  | CdTaskStatus wctx string | CdTaskKill wctx string | CdTaskDelete wctx string
  | CdTaskWait wctx string | CdExit wctx string | CdDelete wctx string
  | DkPull string string | DkDecode | DkClosePull | DkCreate dk_container | DkStart wctx string
  | DkInspect wctx string | DkWait wctx string | DkExit wctx string | DkRemove wctx string
  | DkLogs string | DkLogLine string | DkCloseLogs
  | GoCaptureLogs string | GoRebootWatch
  | OsStat string | OsMkdirAll string | OsHostname | OsReadFile string | OsSetenv string string
  | OsReboot | SleepSecond

type_synonym 'a tw = "(tw_call, 'a) io"

text \<open>What a \<open>select\<close> on the end of a container can take: its exit code, an error of the wait,
  or the end of the context, whose \<open>Err()\<close> is not nil then.\<close>

datatype exit_reply = ExitCode int | WaitErr error | CtxDone goerr

datatype stat_reply = NotExist | StatErr goerr | IsDir | IsFile

datatype decode_reply = DecNull | DecErr goerr | DecMsg string

record tw_env =
  tk_contexts :: "tw_call list \<Rightarrow> string \<Rightarrow> error"
  tk_recv :: "tw_call list \<Rightarrow> error \<times> wf_context option"
  tk_actions :: "tw_call list \<Rightarrow> string \<Rightarrow> goerr + wf_action list"
  tk_report :: "tw_call list \<Rightarrow> action_status \<Rightarrow> error"
  tw_done :: "tw_call list \<Rightarrow> bool"
  tw_clock :: "tw_call list \<Rightarrow> int"
  tw_grants :: "tw_call list \<Rightarrow> string \<Rightarrow> nat"
  tw_schedule :: "tw_call list \<Rightarrow> bool list"
  cd_get_image :: "tw_call list \<Rightarrow> string \<Rightarrow> goerr + string"
  cd_pull :: "tw_call list \<Rightarrow> string \<Rightarrow> goerr + string"
  cd_snapshot_stat :: "tw_call list \<Rightarrow> string \<Rightarrow> error"
  cd_snapshot_remove :: "tw_call list \<Rightarrow> string \<Rightarrow> error"
  cd_new_container :: "tw_call list \<Rightarrow> cd_container \<Rightarrow> goerr + string"
  cd_load :: "tw_call list \<Rightarrow> wctx \<Rightarrow> string \<Rightarrow> error"
  cd_new_task :: "tw_call list \<Rightarrow> wctx \<Rightarrow> string \<Rightarrow> error"
  cd_task_start :: "tw_call list \<Rightarrow> wctx \<Rightarrow> string \<Rightarrow> error"
  cd_task :: "tw_call list \<Rightarrow> wctx \<Rightarrow> string \<Rightarrow> error"
  cd_task_running :: "tw_call list \<Rightarrow> wctx \<Rightarrow> string \<Rightarrow> goerr + bool"
  cd_task_kill :: "tw_call list \<Rightarrow> wctx \<Rightarrow> string \<Rightarrow> error"
  cd_task_delete :: "tw_call list \<Rightarrow> wctx \<Rightarrow> string \<Rightarrow> error"
  cd_task_wait :: "tw_call list \<Rightarrow> wctx \<Rightarrow> string \<Rightarrow> error"
  cd_exit :: "tw_call list \<Rightarrow> wctx \<Rightarrow> string \<Rightarrow> int + goerr"
  cd_delete :: "tw_call list \<Rightarrow> wctx \<Rightarrow> string \<Rightarrow> error"
  dk_encode_auth :: "registry_details \<Rightarrow> goerr + string"
  dk_pull :: "tw_call list \<Rightarrow> string \<Rightarrow> goerr + decode_reply list"
  dk_create :: "tw_call list \<Rightarrow> dk_container \<Rightarrow> goerr + string"
  dk_start :: "tw_call list \<Rightarrow> wctx \<Rightarrow> string \<Rightarrow> error"
  dk_inspect :: "tw_call list \<Rightarrow> wctx \<Rightarrow> string \<Rightarrow> error"
  dk_exit :: "tw_call list \<Rightarrow> wctx \<Rightarrow> string \<Rightarrow> exit_reply"
  dk_remove :: "tw_call list \<Rightarrow> wctx \<Rightarrow> string \<Rightarrow> error"
  dk_logs :: "tw_call list \<Rightarrow> string \<Rightarrow> goerr + string list"
  os_stat :: "tw_call list \<Rightarrow> string \<Rightarrow> stat_reply"
  os_mkdir :: "tw_call list \<Rightarrow> string \<Rightarrow> error"
  os_hostname :: "tw_call list \<Rightarrow> string"
  os_read_file :: "tw_call list \<Rightarrow> string \<Rightarrow> goerr + string"
  os_setenv :: "tw_call list \<Rightarrow> string \<Rightarrow> string \<Rightarrow> error"
  os_reboot :: "tw_call list \<Rightarrow> error"
  tw_parse_mount :: "string \<Rightarrow> goerr + mount_point"
  tw_intn :: "tw_call list \<Rightarrow> nat \<Rightarrow> nat"

section \<open>The container manager interface\<close>

record cmgr =
  cm_Create :: "string list \<Rightarrow> string \<Rightarrow> wf_action \<Rightarrow> bool \<Rightarrow> bool \<Rightarrow> (goerr + string) tw"
  cm_Start :: "wctx \<Rightarrow> string \<Rightarrow> (tw_call, error) thread"
  cm_Wait :: "wctx \<Rightarrow> string \<Rightarrow> (wstate \<times> error) tw"
  cm_WaitFailed :: "string \<Rightarrow> (tw_call, wstate) thread"
  cm_Remove :: "string \<Rightarrow> error tw"
  cm_Pull :: "string \<Rightarrow> error tw"

text \<open>Calls to the Tinkerbell server, and the ones that start the process of a container.\<close>

fun tink_call :: "tw_call \<Rightarrow> bool" where
  "tink_call (TkContexts w) = True"
| "tink_call TkRecv = True"
| "tink_call (TkActions i) = True"
| "tink_call (TkReport s) = True"
| "tink_call WaitRetry = True"
| "tink_call _ = False"

fun launches :: "tw_call \<Rightarrow> string option" where
  "launches (CdTaskStart c i) = Some i"
| "launches (DkStart c i) = Some i"
| "launches _ = None"

text \<open>The command a created container runs, when the call creates one.\<close>

definition args_of :: "oci_opt list \<Rightarrow> string list" where
  "args_of opts = concat (map (\<lambda>opt. case opt of WithProcessArgs cmd \<Rightarrow> cmd | _ \<Rightarrow> []) opts)"

definition mounts_of :: "oci_opt list \<Rightarrow> mount list" where
  "mounts_of opts = concat (map (\<lambda>opt. case opt of WithMounts ms \<Rightarrow> ms | _ \<Rightarrow> []) opts)"

fun created_cmd :: "tw_call \<Rightarrow> string list option" where
  "created_cmd (CdNewContainer s) = Some (args_of (cc_Spec s))"
| "created_cmd (DkCreate s) = Some (dc_Cmd s)"
| "created_cmd _ = None"

text \<open>Calls that neither talk to the server nor start a container.\<close>

definition idle_call :: "tw_call \<Rightarrow> bool" where
  "idle_call c \<longleftrightarrow> \<not> tink_call c \<and> launches c = None"

definition plain_call :: "tw_call \<Rightarrow> bool" where
  "plain_call c \<longleftrightarrow> idle_call c \<and> created_cmd c = None"

definition starts_only :: "string \<Rightarrow> tw_call \<Rightarrow> bool" where
  "starts_only i c \<longleftrightarrow> \<not> tink_call c \<and> created_cmd c = None \<and> (launches c = None \<or> launches c = Some i)"

text \<open>
  The contract of \<open>ContainerManager\<close>: no method reports to the server; only \<open>StartContainer\<close>
  starts a process, that of the container it is given; only \<open>CreateContainer\<close> makes containers,
  and with the command it is given; and what \<open>WaitForContainer\<close> returns is true: success only for a container whose process has
  just been seen to exit with code 0 (\<open>ended\<close>), and a timeout together with an error.
\<close>

locale container_manager =
  fixes M :: cmgr
    and ended :: "tw_call list \<Rightarrow> wctx \<Rightarrow> string \<Rightarrow> bool"
  assumes create_calls: "emits idle_call (cm_Create M cmd wid a capture priv)"
    and create_command: "emits (\<lambda>c. created_cmd c = None \<or> created_cmd c = Some cmd)
      (cm_Create M cmd wid a capture priv)"
    and start_calls: "t_emits (starts_only i) (cm_Start M ctx i)"
    and wait_calls: "emits plain_call (cm_Wait M ctx i)"
    and wait_failed_calls: "t_emits plain_call (cm_WaitFailed M i)"
    and remove_calls: "emits plain_call (cm_Remove M i)"
    and pull_calls: "emits plain_call (cm_Pull M img)"
    and wait_success: "run_io (cm_Wait M ctx i) l = (Ret (STATE_SUCCESS, e), l') \<Longrightarrow> e = None \<and> ended l' ctx i"
    and wait_timeout: "run_io (cm_Wait M ctx i) l = (Ret (STATE_TIMEOUT, e), l') \<Longrightarrow> e \<noteq> None"

end
