(* ===== verification/Containerd.thy ===== *)
theory Containerd
  imports WorkerApi
begin

text \<open>
  \<open>tink-worker/cmd/tink-worker/worker/containerd.go\<close>: the container manager that the worker
  is built with. A container object that the library loads is represented by its id; every
  method of it is a call with that id.
\<close>

section \<open>Names, mounts and volumes\<close>

definition defaultDataDir :: string where
  "defaultDataDir = ''/worker''"

definition mountExcluded :: "string list" where
  "mountExcluded = [''/mnt'', ''/sys'', ''/dev/console'', ''/dev'', ''/worker'', ''/lib/modules'',
     ''/lib/firmware'', ''/workflow'', ''/etc/hosts'', ''/etc/resolv.conf'', ''/etc/localtime'']"

definition letterBytes :: string where
  "letterBytes = ''abcdefghijklmnopqrstuvwxyzABCDEFGHIJKLMNOPQRSTUVWXYZ''"

definition isValidDst :: "string \<Rightarrow> bool" where
  "isValidDst dst \<longleftrightarrow> \<not> List.member mountExcluded dst"

fun parseVolumes :: "tw_env \<Rightarrow> string list \<Rightarrow> goerr + mount list" where
  "parseVolumes E [] = Inr []"
| "parseVolumes E (v # vs) = (case tw_parse_mount E v of
     Inl e \<Rightarrow> Inl (FmtErrorf (''failed to parse volume '' @ v) (Some e))
   | Inr mp \<Rightarrow> (case parseVolumes E vs of
       Inl e \<Rightarrow> Inl e
     | Inr ms \<Rightarrow> Inr (\<lparr>mt_Destination = mp_Target mp, mt_Source = mp_Source mp,
         mt_Type = mp_Type mp,
         mt_Options = [''rbind''] @ (if mp_ReadOnly mp then [''ro''] else [''rw''])\<rparr> # ms)))"

definition truncateStr :: "string \<Rightarrow> nat \<Rightarrow> string" where
  "truncateStr s maxLen = (if maxLen < length s then take maxLen s else s)"

text \<open>The i-th byte is the letter at a random index below the number of letters.\<close>

definition randStr :: "tw_env \<Rightarrow> nat \<Rightarrow> string tw" where
  "randStr E n = ask (\<lambda>l. map (\<lambda>i. letterBytes ! (tw_intn E l i mod length letterBytes)) [0..<n])"

definition newContainerName :: "tw_env \<Rightarrow> string \<Rightarrow> string tw" where
  "newContainerName E name = bnd (randStr E 10) (\<lambda>r. ret (truncateStr name 60 @ ''-'' @ r))"

section \<open>Folders\<close>

definition EnsureFolder :: "tw_env \<Rightarrow> string \<Rightarrow> error tw" where
  "EnsureFolder E folder = bnd (call (OsStat folder) (\<lambda>l. os_stat E l folder)) (\<lambda>st.
     case st of
       NotExist \<Rightarrow> bnd (call (OsMkdirAll folder) (\<lambda>l. os_mkdir E l folder)) (\<lambda>err.
         if err \<noteq> None then ret (Some (FmtErrorf ''failed to create folder'' err)) else ret None)
     | StatErr e \<Rightarrow> ret (Some (FmtErrorf ''error checking folder'' (Some e)))
     | IsFile \<Rightarrow> ret (Some (FmtErrorf ''folder exists but is not a directory'' None))
     | IsDir \<Rightarrow> ret None)"

section \<open>Images\<close>

definition pullImageByName :: "tw_env \<Rightarrow> registry_details \<Rightarrow> string \<Rightarrow> (goerr + string) tw" where
  "pullImageByName E R imageName =
     bnd (call (CdGetImage imageName) (\<lambda>l. cd_get_image E l imageName)) (\<lambda>r.
       case r of
         Inr img \<Rightarrow> ret (Inr img)
       | Inl _ \<Rightarrow>
           (let resolver = (if rd_Registry R \<noteq> '''' then Some R else None)
            in bnd (call (CdPull imageName resolver) (\<lambda>l. cd_pull E l imageName)) (\<lambda>r.
              case r of
                Inl e \<Rightarrow> ret (Inl (FmtErrorf ''error pulling img'' (Some e)))
              | Inr img \<Rightarrow> ret (Inr img))))"

definition cd_PullImage :: "tw_env \<Rightarrow> registry_details \<Rightarrow> string \<Rightarrow> error tw" where
  "cd_PullImage E R imageName = bnd (pullImageByName E R imageName) (\<lambda>r.
     case r of Inl e \<Rightarrow> ret (Some e) | Inr _ \<Rightarrow> ret None)"

section \<open>Containers\<close>

definition bind_mount :: "string \<Rightarrow> string \<Rightarrow> string \<Rightarrow> mount" where
  "bind_mount src dst mode = \<lparr>mt_Destination = dst, mt_Source = src, mt_Type = ''bind'',
     mt_Options = [''rbind'', mode]\<rparr>"

definition worker_mounts :: "string \<Rightarrow> mount list" where
  "worker_mounts wfDir = [
     \<lparr>mt_Destination = ''/sys'', mt_Source = ''/sys'', mt_Type = ''sysfs'', mt_Options = [''rbind'', ''rw'']\<rparr>,
     bind_mount ''/dev'' ''/dev'' ''rw'',
     bind_mount ''/mnt'' ''/mnt'' ''rw'',
     bind_mount ''/dev/console'' ''/dev/console'' ''rw'',
     bind_mount ''/lib/modules'' ''/lib/modules'' ''ro'',
     bind_mount ''/lib/firmware'' ''/lib/firmware'' ''rw'',
     bind_mount ''/worker'' ''/worker'' ''rw'',
     bind_mount wfDir ''/workflow'' ''rw'']"

definition container_opts ::
  "string \<Rightarrow> wf_action \<Rightarrow> mount list \<Rightarrow> string \<Rightarrow> string list \<Rightarrow> oci_opt list" where
  "container_opts img action mounts hostname cmd =
     [WithDefaultSpec, WithDefaultUnixDevices, WithImageConfig img,
      WithEnv (wa_Environment action), WithMounts mounts, WithCapabilities [''CAP_SYS_ADMIN''],
      WithHostNamespace ''network'', WithHostHostsFile, WithHostResolvconf,
      WithEnv [''HOSTNAME='' @ hostname], WithPrivileged, WithAllDevicesAllowed, WithHostDevices]
     @ (if 0 < length cmd then [WithProcessArgs cmd] else [])
     @ (if wa_Pid action \<noteq> '''' then [WithHostNamespace ''pid''] else [])"

text \<open>A snapshot of the name is removed before the container is made; a failure to do so is
  only logged.\<close>

definition cd_NewContainer :: "tw_env \<Rightarrow> string \<Rightarrow> string \<Rightarrow> oci_opt list \<Rightarrow> (goerr + string) tw" where
  "cd_NewContainer E name img opts =
     bnd (call (CdSnapshotStat name) (\<lambda>l. cd_snapshot_stat E l name)) (\<lambda>err.
     bnd (if err = None
          then bnd (call (CdSnapshotRemove name) (\<lambda>l. cd_snapshot_remove E l name)) (\<lambda>_. ret ())
          else ret ()) (\<lambda>_.
     let c = \<lparr>cc_Name = name, cc_Snapshot = name, cc_Image = img, cc_Spec = opts\<rparr>
     in bnd (call (CdNewContainer c) (\<lambda>l. cd_new_container E l c)) (\<lambda>r.
       case r of Inl e \<Rightarrow> ret (Inl (PkgWrap e ''CONTAINERD CREATE'')) | Inr i \<Rightarrow> ret (Inr i))))"

definition cd_CreateContainer ::
  "tw_env \<Rightarrow> registry_details \<Rightarrow> string list \<Rightarrow> string \<Rightarrow> wf_action \<Rightarrow> bool \<Rightarrow> bool \<Rightarrow> (goerr + string) tw" where
  "cd_CreateContainer E R cmd wfID action captureLogs privileged =
     if_ok (pullImageByName E R (wa_Image action)) (\<lambda>img.
     let wfDir = path_Join [defaultDataDir, wfID] in
     bnd (EnsureFolder E wfDir) (\<lambda>err.
       case err of Some e \<Rightarrow> ret (Inl e) | None \<Rightarrow>
     (case parseVolumes E (wa_Volumes action) of
        Inl e \<Rightarrow> ret (Inl (PkgWrap e ''failed to parse volumes''))
      | Inr avs \<Rightarrow>
          (let mounts = worker_mounts wfDir @ filter (\<lambda>m. isValidDst (mt_Destination m)) avs in
          bnd (call OsHostname (\<lambda>l. os_hostname E l)) (\<lambda>hostname.
          bnd (newContainerName E (wa_Name action)) (\<lambda>name.
          cd_NewContainer E name img (container_opts img action mounts hostname cmd)))))))"

definition tnil :: "string \<Rightarrow> (tw_call, error) thread \<Rightarrow> (tw_call, error) thread \<Rightarrow> (tw_call, error) thread" where
  "tnil msg m n = tbnd m (\<lambda>err. case err of Some e \<Rightarrow> Fin (Some (PkgWrap e msg)) | None \<Rightarrow> n)"

definition cd_StartContainer :: "tw_env \<Rightarrow> wctx \<Rightarrow> string \<Rightarrow> (tw_call, error) thread" where
  "cd_StartContainer E ctx i =
     tnil ''CONTAINERD LOAD'' (tcall (CdLoad ctx i) (\<lambda>l. cd_load E l ctx i))
     (tnil ''CONTAINERD TASK CREATE'' (tcall (CdNewTask ctx i) (\<lambda>l. cd_new_task E l ctx i))
     (tbnd (tcall (CdTaskStart ctx i) (\<lambda>l. cd_task_start E l ctx i)) (\<lambda>err.
        case err of
          Some e \<Rightarrow> tbnd (tcall (CdTaskDelete ctx i) (\<lambda>l. cd_task_delete E l ctx i))
            (\<lambda>_. Fin (Some (PkgWrap e ''CONTAINERD TASK START'')))
        | None \<Rightarrow> Fin None)))"

definition cd_WaitForContainer :: "tw_env \<Rightarrow> wctx \<Rightarrow> string \<Rightarrow> (wstate \<times> error) tw" where
  "cd_WaitForContainer E ctx i =
     bnd (call (CdLoad ctx i) (\<lambda>l. cd_load E l ctx i)) (\<lambda>err.
     if err \<noteq> None then ret (STATE_FAILED, err) else
     bnd (call (CdTask ctx i) (\<lambda>l. cd_task E l ctx i)) (\<lambda>err.
     if err \<noteq> None then ret (STATE_FAILED, err) else
     bnd (call (CdTaskWait ctx i) (\<lambda>l. cd_task_wait E l ctx i)) (\<lambda>err.
     if err \<noteq> None then ret (STATE_FAILED, Some (FmtErrorf ''error waiting on task'' err)) else
     bnd (call (CdExit ctx i) (\<lambda>l. cd_exit E l ctx i)) (\<lambda>r.
       case r of
         Inl n \<Rightarrow> if n = 0 then ret (STATE_SUCCESS, None) else ret (STATE_FAILED, None)
       | Inr e \<Rightarrow> ret (STATE_TIMEOUT, Some e)))))"

definition cd_WaitForFailedContainer :: "tw_env \<Rightarrow> string \<Rightarrow> (tw_call, wstate) thread" where
  "cd_WaitForFailedContainer E i = (let ctx = CtxMain in
     tbnd (tcall (CdLoad ctx i) (\<lambda>l. cd_load E l ctx i)) (\<lambda>err.
     if err \<noteq> None then Fin STATE_FAILED else
     tbnd (tcall (CdTask ctx i) (\<lambda>l. cd_task E l ctx i)) (\<lambda>err.
     if err \<noteq> None then Fin STATE_FAILED else
     tbnd (tcall (CdTaskWait ctx i) (\<lambda>l. cd_task_wait E l ctx i)) (\<lambda>err.
     if err \<noteq> None then Fin STATE_FAILED else
     tbnd (tcall (CdExit ctx i) (\<lambda>l. cd_exit E l ctx i)) (\<lambda>r.
       case r of
         Inl n \<Rightarrow> if n = 0 then Fin STATE_SUCCESS else Fin STATE_FAILED
       | Inr e \<Rightarrow> Fin STATE_TIMEOUT)))))"

definition cd_RemoveContainer :: "tw_env \<Rightarrow> string \<Rightarrow> error tw" where
  "cd_RemoveContainer E i = (let ctx = CtxMain in
     bnd (call (CdLoad ctx i) (\<lambda>l. cd_load E l ctx i)) (\<lambda>err.
     case err of Some e \<Rightarrow> ret (Some (PkgWrap e ''failed to load container'')) | None \<Rightarrow>
     if_nil
       (bnd (call (CdTask ctx i) (\<lambda>l. cd_task E l ctx i)) (\<lambda>err.
        if err = None then
          bnd (call (CdTaskStatus ctx i) (\<lambda>l. cd_task_running E l ctx i)) (\<lambda>st.
          case st of
            Inl e \<Rightarrow> ret (Some (FmtErrorf ''failed to get task status'' (Some e)))
          | Inr running \<Rightarrow>
              if_nil
                (if running then bnd (call (CdTaskKill ctx i) (\<lambda>l. cd_task_kill E l ctx i)) (\<lambda>err.
                   if err \<noteq> None then ret (Some (FmtErrorf ''failed to kill task'' err)) else ret None)
                 else ret None)
              (bnd (call (CdTaskDelete ctx i) (\<lambda>l. cd_task_delete E l ctx i)) (\<lambda>err.
                 if err \<noteq> None then ret (Some (FmtErrorf ''failed to delete task'' err)) else ret None)))
        else ret None))
       (bnd (call (CdDelete ctx i) (\<lambda>l. cd_delete E l ctx i)) (\<lambda>err.
          case err of Some e \<Rightarrow> ret (Some (PkgWrap e ''CONTAINERD REMOVE'')) | None \<Rightarrow> ret None))))"

definition containerd_manager :: "tw_env \<Rightarrow> registry_details \<Rightarrow> cmgr" where
  "containerd_manager E R = \<lparr>
     cm_Create = cd_CreateContainer E R,
     cm_Start = cd_StartContainer E,
     cm_Wait = cd_WaitForContainer E,
     cm_WaitFailed = cd_WaitForFailedContainer E,
     cm_Remove = cd_RemoveContainer E,
     cm_Pull = cd_PullImage E R \<rparr>"

section \<open>The contract\<close>

lemma plain_idle: "plain_call c \<Longrightarrow> idle_call c"
  by (simp add: plain_call_def)

lemma emits_EnsureFolder [emits_intro]: "emits plain_call (EnsureFolder E f)"
  unfolding EnsureFolder_def
  by (auto intro!: emits_intro simp: plain_call_def idle_call_def split: stat_reply.split)

lemma emits_pullImageByName [emits_intro]: "emits plain_call (pullImageByName E R img)"
  unfolding pullImageByName_def Let_def by (auto intro!: emits_intro simp: plain_call_def idle_call_def)

lemma emits_newContainerName [emits_intro]: "emits P (newContainerName E n)"
  unfolding newContainerName_def randStr_def by (auto intro!: emits_intro)

lemma emits_cd_NewContainer [emits_intro]: "emits idle_call (cd_NewContainer E n img opts)"
  unfolding cd_NewContainer_def Let_def by (auto intro!: emits_intro simp: idle_call_def)

lemma emits_cd_CreateContainer: "emits idle_call (cd_CreateContainer E R cmd wid a capture priv)"
  unfolding cd_CreateContainer_def Let_def
  by (auto intro!: emits_intro emits_mono [OF emits_EnsureFolder] emits_mono [OF emits_pullImageByName]
      intro: plain_idle simp: idle_call_def)

lemma plain_no_command: "plain_call c \<Longrightarrow> created_cmd c = None"
  by (simp add: plain_call_def)

lemma args_of_container [simp]: "args_of (container_opts img a ms h cmd) = cmd"
  by (simp add: args_of_def container_opts_def)

lemma mounts_of_container [simp]: "mounts_of (container_opts img a ms h cmd) = ms"
  by (simp add: mounts_of_def container_opts_def)

lemma emits_cd_command:
  "emits (\<lambda>c. created_cmd c = None \<or> created_cmd c = Some cmd) (cd_CreateContainer E R cmd wid a capture priv)"
  unfolding cd_CreateContainer_def cd_NewContainer_def Let_def
  by (intro emits_intro emits_mono [OF emits_EnsureFolder] emits_mono [OF emits_pullImageByName])
    (auto dest: plain_no_command)

definition cd_ended :: "tw_env \<Rightarrow> tw_call list \<Rightarrow> wctx \<Rightarrow> string \<Rightarrow> bool" where
  "cd_ended E l ctx i \<longleftrightarrow> l \<noteq> [] \<and> last l = CdExit ctx i \<and> cd_exit E (butlast l) ctx i = Inl 0"

lemma cd_wait_result:
  assumes "run_io (cd_WaitForContainer E ctx i) l = (Ret (st, e), l')"
  shows "(st = STATE_SUCCESS \<longrightarrow> e = None \<and> cd_ended E l' ctx i) \<and> (st = STATE_TIMEOUT \<longrightarrow> e \<noteq> None)"
  using assms by (auto simp: cd_WaitForContainer_def cd_ended_def butlast_append split: if_splits sum.splits)

interpretation cd: container_manager "containerd_manager E R" "cd_ended E" for E R
proof
  fix ctx i l e l' cmd wid a capture priv
  show "emits (\<lambda>c. created_cmd c = None \<or> created_cmd c = Some cmd)
      (cm_Create (containerd_manager E R) cmd wid a capture priv)"
    by (simp add: containerd_manager_def emits_cd_command)
  show "t_emits (starts_only i) (cm_Start (containerd_manager E R) ctx i)"
    by (auto simp: containerd_manager_def cd_StartContainer_def tnil_def starts_only_def split: option.splits)
  show "emits plain_call (cm_Wait (containerd_manager E R) ctx i)"
    by (auto simp: containerd_manager_def cd_WaitForContainer_def plain_call_def idle_call_def intro!: emits_intro)
  show "t_emits plain_call (cm_WaitFailed (containerd_manager E R) i)"
    by (auto simp: containerd_manager_def cd_WaitForFailedContainer_def plain_call_def idle_call_def
        split: sum.splits if_splits)
  show "emits plain_call (cm_Remove (containerd_manager E R) i)"
    by (auto simp: containerd_manager_def cd_RemoveContainer_def Let_def plain_call_def idle_call_def
        intro!: emits_intro)
qed (auto simp: containerd_manager_def cd_PullImage_def emits_cd_CreateContainer intro!: emits_intro
    dest: cd_wait_result)

end
