(* ===== verification/Docker.thy ===== *)
theory Docker
  imports Containerd
begin

text \<open>
  \<open>tink-worker/cmd/tink-worker/worker/container_manager.go\<close>, \<open>registry.go\<close> and
  \<open>log_capturer.go\<close>: the container manager and the log capturer for Docker.
\<close>

section \<open>Container names\<close>

text \<open>How many bytes a UTF-8 decoder takes for the next character: a byte that starts no valid
  sequence is one (invalid) character by itself.\<close>

definition in_rng :: "nat \<Rightarrow> nat \<Rightarrow> char \<Rightarrow> bool" where
  "in_rng a b c \<longleftrightarrow> a \<le> of_char c \<and> (of_char c :: nat) \<le> b"

fun rune_width :: "string \<Rightarrow> nat" where
  "rune_width (a # b # s) =
     (if in_rng 0xC2 0xDF a \<and> in_rng 0x80 0xBF b then 2
      else (case s of [] \<Rightarrow> 1 | c # s' \<Rightarrow>
        if \<not> in_rng 0x80 0xBF c then 1
        else if in_rng 0xE0 0xE0 a \<and> in_rng 0xA0 0xBF b then 3
        else if in_rng 0xE1 0xEC a \<and> in_rng 0x80 0xBF b then 3
        else if in_rng 0xED 0xED a \<and> in_rng 0x80 0x9F b then 3
        else if in_rng 0xEE 0xEF a \<and> in_rng 0x80 0xBF b then 3
        else (case s' of [] \<Rightarrow> 1 | d # _ \<Rightarrow>
          if \<not> in_rng 0x80 0xBF d then 1
          else if in_rng 0xF0 0xF0 a \<and> in_rng 0x90 0xBF b then 4
          else if in_rng 0xF1 0xF3 a \<and> in_rng 0x80 0xBF b then 4
          else if in_rng 0xF4 0xF4 a \<and> in_rng 0x80 0x8F b then 4
          else 1)))"
| "rune_width s = 1"

lemma rune_width_pos [simp]: "0 < rune_width s"
  by (cases s rule: rune_width.cases) (auto split: list.splits)

definition name_char :: "char \<Rightarrow> bool" where
  "name_char c \<longleftrightarrow> in_rng 0x30 0x39 c \<or> in_rng 0x41 0x5A c \<or> in_rng 0x61 0x7A c
     \<or> c = CHR ''_'' \<or> c = CHR ''.'' \<or> c = CHR ''-''"

text \<open>\<open>ReplaceAllString(name, "_")\<close> of the characters outside of \<open>[a-zA-Z0-9_.-]\<close>.\<close>

function replace_invalid :: "string \<Rightarrow> string" where
  "replace_invalid [] = []"
| "replace_invalid (c # s) =
     (if name_char c then c # replace_invalid s
      else CHR ''_'' # replace_invalid (drop (rune_width (c # s)) (c # s)))"
  by pat_completeness auto
termination
  by (relation "measure length") auto

definition makeValidContainerName :: "string \<Rightarrow> string" where
  "makeValidContainerName name = ''action_'' @ replace_invalid name"

section \<open>The manager\<close>

definition dk_config ::
  "registry_details \<Rightarrow> string list \<Rightarrow> string \<Rightarrow> wf_action \<Rightarrow> bool \<Rightarrow> bool \<Rightarrow> dk_container" where
  "dk_config R cmd wfID action captureLogs privileged = \<lparr>
     dc_Name = makeValidContainerName (wa_Name action),
     dc_Image = path_Join [rd_Registry R, wa_Image action],
     dc_Cmd = cmd,
     dc_Attach = captureLogs,
     dc_Env = wa_Environment action,
     dc_Privileged = privileged,
     dc_Binds = [path_Join [defaultDataDir, wfID] @ '':/workflow''] @ wa_Volumes action,
     dc_PidMode = wa_Pid action \<rparr>"

definition dk_CreateContainer ::
  "tw_env \<Rightarrow> registry_details \<Rightarrow> string list \<Rightarrow> string \<Rightarrow> wf_action \<Rightarrow> bool \<Rightarrow> bool \<Rightarrow> (goerr + string) tw" where
  "dk_CreateContainer E R cmd wfID action captureLogs privileged =
     (let c = dk_config R cmd wfID action captureLogs privileged
      in bnd (call (DkCreate c) (\<lambda>l. dk_create E l c)) (\<lambda>r.
        case r of Inl e \<Rightarrow> ret (Inl (PkgWrap e ''DOCKER CREATE'')) | Inr i \<Rightarrow> ret (Inr i)))"

definition dk_StartContainer :: "tw_env \<Rightarrow> wctx \<Rightarrow> string \<Rightarrow> (tw_call, error) thread" where
  "dk_StartContainer E ctx i =
     tbnd (tcall (DkStart ctx i) (\<lambda>l. dk_start E l ctx i))
       (\<lambda>err. Fin (map_option (\<lambda>e. PkgWrap e ''DOCKER START'') err))"

definition dk_WaitForContainer :: "tw_env \<Rightarrow> wctx \<Rightarrow> string \<Rightarrow> (wstate \<times> error) tw" where
  "dk_WaitForContainer E ctx i =
     bnd (call (DkInspect ctx i) (\<lambda>l. dk_inspect E l ctx i)) (\<lambda>err.
     if err \<noteq> None then ret (STATE_FAILED, None) else
     bnd (call (DkWait ctx i) (\<lambda>_. ())) (\<lambda>_.
     bnd (call (DkExit ctx i) (\<lambda>l. dk_exit E l ctx i)) (\<lambda>r.
       case r of
         ExitCode n \<Rightarrow> if n = 0 then ret (STATE_SUCCESS, None) else ret (STATE_FAILED, None)
       | WaitErr err \<Rightarrow> ret (STATE_FAILED, err)
       | CtxDone e \<Rightarrow> ret (STATE_TIMEOUT, Some e))))"

definition dk_WaitForFailedContainer :: "tw_env \<Rightarrow> string \<Rightarrow> (tw_call, wstate) thread" where
  "dk_WaitForFailedContainer E i = (let ctx = CtxMain in
     tbnd (tcall (DkWait ctx i) (\<lambda>_. ())) (\<lambda>_.
     tbnd (tcall (DkExit ctx i) (\<lambda>l. dk_exit E l ctx i)) (\<lambda>r.
       case r of
         ExitCode n \<Rightarrow> if n = 0 then Fin STATE_SUCCESS else Fin STATE_FAILED
       | WaitErr err \<Rightarrow> Fin STATE_FAILED
       | CtxDone e \<Rightarrow> Fin STATE_TIMEOUT)))"

definition dk_RemoveContainer :: "tw_env \<Rightarrow> string \<Rightarrow> error tw" where
  "dk_RemoveContainer E i = (let ctx = CtxMain in
     bnd (call (DkRemove ctx i) (\<lambda>l. dk_remove E l ctx i))
       (\<lambda>err. ret (map_option (\<lambda>e. PkgWrap e ''DOCKER STOP'') err)))"

section \<open>Pulling an image\<close>

text \<open>The messages of the pull, decoded one by one into the same struct; the end of the list is
  the end of the stream. A \<open>null\<close> makes the pointer nil, which the next line reads through.\<close>

fun decode_loop :: "decode_reply list \<Rightarrow> error tw" where
  "decode_loop [] = bnd (call DkDecode (\<lambda>_. ())) (\<lambda>_. ret None)"
| "decode_loop (m # ms) = bnd (call DkDecode (\<lambda>_. ())) (\<lambda>_. case m of
     DecErr e \<Rightarrow> ret (Some (PkgWrap e ''DOCKER PULL''))
   | DecNull \<Rightarrow> panic
   | DecMsg e \<Rightarrow> if e \<noteq> '''' then ret (Some (PkgWrap (FmtErrorf e None) ''DOCKER PULL''))
                 else decode_loop ms)"

definition dk_PullImage :: "tw_env \<Rightarrow> registry_details \<Rightarrow> string \<Rightarrow> error tw" where
  "dk_PullImage E R imageName = (case dk_encode_auth E R of
     Inl e \<Rightarrow> ret (Some (PkgWrap e ''DOCKER AUTH''))
   | Inr authStr \<Rightarrow>
       (let ref = path_Join [rd_Registry R, imageName]
        in bnd (call (DkPull ref authStr) (\<lambda>l. dk_pull E l ref)) (\<lambda>r. case r of
             Inl e \<Rightarrow> ret (Some (PkgWrap e ''DOCKER PULL''))
           | Inr ms \<Rightarrow> with_defer (decode_loop ms) (\<lambda>_. call DkClosePull (\<lambda>_. ())))))"

definition docker_manager :: "tw_env \<Rightarrow> registry_details \<Rightarrow> cmgr" where
  "docker_manager E R = \<lparr>
     cm_Create = dk_CreateContainer E R,
     cm_Start = dk_StartContainer E,
     cm_Wait = dk_WaitForContainer E,
     cm_WaitFailed = dk_WaitForFailedContainer E,
     cm_Remove = dk_RemoveContainer E,
     cm_Pull = dk_PullImage E R \<rparr>"

section \<open>Capturing logs\<close>

fun print_lines :: "string list \<Rightarrow> unit tw" where
  "print_lines [] = ret ()"
| "print_lines (x # xs) = bnd (call (DkLogLine x) (\<lambda>_. ())) (\<lambda>_. print_lines xs)"

definition CaptureLogs :: "tw_env \<Rightarrow> string \<Rightarrow> unit tw" where
  "CaptureLogs E i = bnd (call (DkLogs i) (\<lambda>l. dk_logs E l i)) (\<lambda>r.
     case r of
       Inl e \<Rightarrow> ret ()
     | Inr ls \<Rightarrow> with_defer (print_lines ls) (\<lambda>_. call DkCloseLogs (\<lambda>_. ())))"

section \<open>Valid names\<close>

lemma replace_invalid_chars: "list_all name_char (replace_invalid s)"
  by (induction s rule: replace_invalid.induct) (auto simp: name_char_def)

lemma replace_invalid_id: "list_all name_char s \<Longrightarrow> replace_invalid s = s"
  by (induction s) auto

lemma replace_invalid_length: "length (replace_invalid s) \<le> length s"
proof (induction s rule: replace_invalid.induct)
  case (2 c s)
  have "length (drop (rune_width (c # s)) (c # s)) \<le> length s"
    using rune_width_pos [of "c # s"] by (simp del: rune_width_pos)
  with 2 show ?case by auto
qed simp

section \<open>The contract\<close>

lemma emits_decode_loop [emits_intro]: "emits plain_call (decode_loop ms)"
  by (induction ms) (auto intro!: emits_intro simp: plain_call_def idle_call_def split: decode_reply.split)

definition dk_ended :: "tw_env \<Rightarrow> tw_call list \<Rightarrow> wctx \<Rightarrow> string \<Rightarrow> bool" where
  "dk_ended E l ctx i \<longleftrightarrow> l \<noteq> [] \<and> last l = DkExit ctx i \<and> dk_exit E (butlast l) ctx i = ExitCode 0"

lemma dk_wait_result:
  assumes "run_io (dk_WaitForContainer E ctx i) l = (Ret (st, e), l')"
  shows "(st = STATE_SUCCESS \<longrightarrow> e = None \<and> dk_ended E l' ctx i) \<and> (st = STATE_TIMEOUT \<longrightarrow> e \<noteq> None)"
  using assms by (auto simp: dk_WaitForContainer_def dk_ended_def butlast_append split: if_splits exit_reply.splits)

interpretation dk: container_manager "docker_manager E R" "dk_ended E" for E R
proof
  fix ctx i img cmd wid a capture priv
  show "emits (\<lambda>c. created_cmd c = None \<or> created_cmd c = Some cmd)
      (cm_Create (docker_manager E R) cmd wid a capture priv)"
    by (auto simp: docker_manager_def dk_CreateContainer_def dk_config_def intro!: emits_intro)
  show "t_emits (starts_only i) (cm_Start (docker_manager E R) ctx i)"
    by (auto simp: docker_manager_def dk_StartContainer_def starts_only_def)
  show "emits plain_call (cm_Wait (docker_manager E R) ctx i)"
    by (auto simp: docker_manager_def dk_WaitForContainer_def plain_call_def idle_call_def
        intro!: emits_intro split: exit_reply.split)
  show "t_emits plain_call (cm_WaitFailed (docker_manager E R) i)"
    by (auto simp: docker_manager_def dk_WaitForFailedContainer_def plain_call_def idle_call_def
        split: exit_reply.splits if_splits)
  show "emits plain_call (cm_Pull (docker_manager E R) img)"
    by (auto simp: docker_manager_def dk_PullImage_def Let_def intro!: emits_intro)
      (auto simp: plain_call_def idle_call_def)
qed (auto simp: docker_manager_def dk_CreateContainer_def dk_RemoveContainer_def Let_def plain_call_def
    idle_call_def intro!: emits_intro dest: dk_wait_result)

end
