(* ===== verification/Worker.thy ===== *)
theory Worker
  imports Docker
begin

text \<open>
  \<open>tink-worker/cmd/tink-worker/worker/worker.go\<close>: the worker, which asks the Tinkerbell server
  for workflows and runs the actions that are its own, one after the other, each in a container
  of the manager \<open>M\<close>. The unbounded loops (asking, receiving, reporting) take fuel and say when
  it was used up; retries of image pulls are granted by the backoff library (\<open>tw_grants\<close>).
\<close>

section \<open>The worker and its options\<close>

record tink_worker =
  w_workerID :: string
  w_dataDir :: string
  w_maxSize :: int
  w_createPrivileged :: bool
  w_captureLogs :: bool
  w_retries :: int
  w_retryInterval :: int
  w_pullImageRetries :: int
  w_pullImageRetryInterval :: int
  w_pullImageMaxBackoff :: int

datatype worker_option =
    WithRetries int int
  | WithPullImageRetries int int int
  | WithDataDir string
  | WithMaxFileSize int
  | WithLogCapture bool
  | WithPrivileged bool

fun apply_worker_option :: "tink_worker \<Rightarrow> worker_option \<Rightarrow> tink_worker" where
  "apply_worker_option w (WithRetries interval retries) =
     w\<lparr>w_retries := retries, w_retryInterval := interval\<rparr>"
| "apply_worker_option w (WithPullImageRetries interval retries maxBackoff) =
     w\<lparr>w_pullImageRetries := retries, w_pullImageRetryInterval := interval,
       w_pullImageMaxBackoff := maxBackoff\<rparr>"
| "apply_worker_option w (WithDataDir dir) = w\<lparr>w_dataDir := dir\<rparr>"
| "apply_worker_option w (WithMaxFileSize maxSize) = w\<lparr>w_maxSize := maxSize\<rparr>"
| "apply_worker_option w (WithLogCapture capture) = w\<lparr>w_captureLogs := capture\<rparr>"
| "apply_worker_option w (WithPrivileged privileged) = w\<lparr>w_createPrivileged := privileged\<rparr>"

definition second :: int where
  "second = 1000000000"

definition NewWorker :: "string \<Rightarrow> worker_option list \<Rightarrow> tink_worker" where
  "NewWorker workerID opts = foldl apply_worker_option \<lparr>
     w_workerID = workerID, w_dataDir = defaultDataDir, w_maxSize = 10 * 1024 * 1024,
     w_createPrivileged = False, w_captureLogs = False,
     w_retries = 3, w_retryInterval = second * 3,
     w_pullImageRetries = 5, w_pullImageRetryInterval = second * 5,
     w_pullImageMaxBackoff = second * 60 \<rparr> opts"

section \<open>One action\<close>

text \<open>The library calls the operation again after an error as long as it grants a retry.\<close>

fun pull_attempts :: "cmgr \<Rightarrow> string \<Rightarrow> nat \<Rightarrow> nat \<Rightarrow> error tw" where
  "pull_attempts M img attempt k = bnd (cm_Pull M img) (\<lambda>err. case err of
     None \<Rightarrow> ret None
   | Some e \<Rightarrow> (case k of
       0 \<Rightarrow> ret (Some (FmtErrorf (''failed to pull image after '' @ show_nat attempt @ '' attempts'') (Some e)))
     | Suc k' \<Rightarrow> pull_attempts M img (Suc attempt) k'))"

declare pull_attempts.simps [simp del]

definition pullImageWithRetry :: "tw_env \<Rightarrow> cmgr \<Rightarrow> string \<Rightarrow> error tw" where
  "pullImageWithRetry E M img =
     bnd (ask (\<lambda>l. tw_grants E l img)) (\<lambda>k. pull_attempts M img 1 k)"

definition captures :: "tink_worker \<Rightarrow> string \<Rightarrow> unit tw" where
  "captures W i = (if w_captureLogs W then call (GoCaptureLogs i) (\<lambda>_. ()) else ret ())"

text \<open>The goroutine that waits runs beside the start of the container; a failed creation leaves
  the empty id.\<close>

definition executeReaction ::
  "tw_env \<Rightarrow> tink_worker \<Rightarrow> cmgr \<Rightarrow> string list \<Rightarrow> string \<Rightarrow> wf_action \<Rightarrow> wstate tw" where
  "executeReaction E W M cmd wfID action =
     bnd (cm_Create M cmd wfID action (w_captureLogs W) (w_createPrivileged W)) (\<lambda>r.
     let i = (case r of Inl e \<Rightarrow> '''' | Inr i \<Rightarrow> i) in
     bnd (captures W i) (\<lambda>_.
     bnd (ask (tw_schedule E)) (\<lambda>sched.
     bnd (interleave sched (cm_Start M CtxMain i) (cm_WaitFailed M i)) (\<lambda>(err, st). ret st))))"

text \<open>\<open>time.Duration(action.Timeout) * time.Second\<close>, in 64 bits.\<close>

definition action_ctx :: "wf_action \<Rightarrow> wctx" where
  "action_ctx action =
     (if 0 < sint (wa_Timeout action) then CtxTimeout (sint (wa_Timeout action * 1000000000))
      else CtxTimeout (3600 * second))"

definition after_wait ::
  "tw_env \<Rightarrow> tink_worker \<Rightarrow> cmgr \<Rightarrow> string \<Rightarrow> wf_action \<Rightarrow> wstate \<Rightarrow> error \<Rightarrow> (wstate \<times> error) tw" where
  "after_wait E W M wfID action st err =
     (case err of
        Some e \<Rightarrow> ret (st, Some (PkgWrap e ''wait container''))
      | None \<Rightarrow>
          if st = STATE_SUCCESS then ret (st, None)
          else bnd (if st = STATE_TIMEOUT \<and> wa_OnTimeout action \<noteq> [] then
                      bnd (executeReaction E W M (wa_OnTimeout action) wfID action) (\<lambda>_. ret ())
                    else if wa_OnFailure action \<noteq> [] then
                      bnd (executeReaction E W M (wa_OnFailure action) wfID action) (\<lambda>_. ret ())
                    else ret ())
               (\<lambda>_. ret (st, None)))"

definition execute ::
  "tw_env \<Rightarrow> tink_worker \<Rightarrow> cmgr \<Rightarrow> string \<Rightarrow> wf_action \<Rightarrow> (wstate \<times> error) tw" where
  "execute E W M wfID action =
     bnd (pullImageWithRetry E M (wa_Image action)) (\<lambda>err.
     case err of Some e \<Rightarrow> ret (STATE_RUNNING, Some (PkgWrap e ''pull image'')) | None \<Rightarrow>
     bnd (cm_Create M (wa_Command action) wfID action (w_captureLogs W) (w_createPrivileged W)) (\<lambda>r.
     case r of Inl e \<Rightarrow> ret (STATE_RUNNING, Some (PkgWrap e ''create container'')) | Inr i \<Rightarrow>
     let timeCtx = action_ctx action in
     bnd (run_thread (cm_Start M timeCtx i)) (\<lambda>err.
     case err of Some e \<Rightarrow> ret (STATE_RUNNING, Some (PkgWrap e ''start container'')) | None \<Rightarrow>
     bnd (captures W i) (\<lambda>_.
     bnd (cm_Wait M timeCtx i) (\<lambda>(st, err).
     with_defer (after_wait E W M wfID action st err)
       (\<lambda>_. bnd (cm_Remove M i) (\<lambda>_. ret ())))))))"

section \<open>Reports\<close>

text \<open>\<open>True\<close>: the server has accepted the report; \<open>False\<close>: it has refused it n times, and the
  worker is still trying.\<close>

fun reportActionStatus :: "tw_env \<Rightarrow> action_status \<Rightarrow> nat \<Rightarrow> bool tw" where
  "reportActionStatus E s 0 = ret False"
| "reportActionStatus E s (Suc n) =
     bnd (call (TkReport s) (\<lambda>l. tk_report E l s)) (\<lambda>err.
       if err \<noteq> None then bnd (call WaitRetry (\<lambda>_. ())) (\<lambda>_. reportActionStatus E s n)
       else ret True)"

definition started_status :: "string \<Rightarrow> wf_action \<Rightarrow> action_status" where
  "started_status wfID action = \<lparr>as_WorkflowId = wfID, as_TaskName = wa_TaskName action,
     as_ActionName = wa_Name action, as_ActionStatus = STATE_RUNNING, as_Seconds = 0,
     as_Message = ''Started execution'', as_WorkerId = wa_WorkerId action\<rparr>"

definition final_status :: "string \<Rightarrow> wf_action \<Rightarrow> int \<Rightarrow> wstate \<Rightarrow> string \<Rightarrow> action_status" where
  "final_status wfID action seconds st msg = \<lparr>as_WorkflowId = wfID, as_TaskName = wa_TaskName action,
     as_ActionName = wa_Name action, as_ActionStatus = st, as_Seconds = seconds,
     as_Message = msg, as_WorkerId = wa_WorkerId action\<rparr>"

section \<open>The actions of a workflow\<close>

definition isLastAction :: "wf_context \<Rightarrow> wf_action list \<Rightarrow> bool" where
  "isLastAction wfContext actions \<longleftrightarrow> sint (wc_CurrentActionIndex wfContext) = int (length actions) - 1"

definition action_at :: "wf_action list \<Rightarrow> 64 word \<Rightarrow> nat outcome" where
  "action_at actions j =
     (if 0 \<le> sint j \<and> sint j < int (length actions) then Ret (nat (sint j)) else Panic)"

definition if_own :: "string \<Rightarrow> wf_action list \<Rightarrow> nat outcome \<Rightarrow> nat option outcome" where
  "if_own workerID actions r = (case r of
     Panic \<Rightarrow> Panic
   | Ret i \<Rightarrow> Ret (if wa_WorkerId (actions ! i) = workerID then Some i else None))"

text \<open>Where the worker goes on in a workflow: the index of an action of its own, or nothing when
  the workflow is over or it is the turn of another worker. An index out of range panics.\<close>

definition next_turn :: "string \<Rightarrow> wf_context \<Rightarrow> wf_action list \<Rightarrow> nat option outcome" where
  "next_turn workerID wfContext actions =
     (if wc_CurrentAction wfContext = '''' then if_own workerID actions (action_at actions 0)
      else case wc_CurrentActionState wfContext of
          STATE_SUCCESS \<Rightarrow>
            if isLastAction wfContext actions then Ret None
            else if_own workerID actions (action_at actions (wc_CurrentActionIndex wfContext + 1))
        | STATE_FAILED \<Rightarrow> Ret None
        | STATE_TIMEOUT \<Rightarrow> Ret None
        | _ \<Rightarrow> if_own workerID actions (action_at actions (wc_CurrentActionIndex wfContext)))"

definition elapsed_seconds :: "int \<Rightarrow> int \<Rightarrow> int" where
  "elapsed_seconds start stop = (stop - start) div second"

text \<open>The loop over the own actions from index i on; \<open>st0\<close> is the state of the current action
  in the context that was received, which the loop tests for every action.\<close>

function turn_loop ::
  "tw_env \<Rightarrow> tink_worker \<Rightarrow> cmgr \<Rightarrow> nat \<Rightarrow> string \<Rightarrow> wf_action list \<Rightarrow> wstate \<Rightarrow> nat \<Rightarrow> bool tw" where
  "turn_loop E W M n wfID actions st0 i =
     (if length actions \<le> i then panic
      else let action = actions ! i in
        bnd (if st0 \<noteq> STATE_RUNNING then reportActionStatus E (started_status wfID action) n
             else ret True) (\<lambda>reported.
        if \<not> reported then ret False else
        bnd (ask (tw_clock E)) (\<lambda>start.
        bnd (execute E W M wfID action) (\<lambda>(st, err).
        bnd (ask (tw_clock E)) (\<lambda>stop.
        let seconds = elapsed_seconds start stop in
        if err \<noteq> None \<or> st \<noteq> STATE_SUCCESS then
          reportActionStatus E (final_status wfID action seconds
            (if st = STATE_TIMEOUT then STATE_TIMEOUT else STATE_FAILED) '''') n
        else
          bnd (reportActionStatus E (final_status wfID action seconds STATE_SUCCESS
                ''finished execution successfully'') n) (\<lambda>reported.
          if \<not> reported then ret False
          else if length actions = i + 1 then ret True
          else if wa_WorkerId (actions ! (i + 1)) \<noteq> w_workerID W then ret True
          else turn_loop E W M n wfID actions st0 (i + 1)))))))"
  by pat_completeness auto
termination
  by (relation "measure (\<lambda>(E, W, M, n, wfID, actions, st0, i). length actions - i)") auto

declare turn_loop.simps [simp del]

section \<open>The main loop\<close>

datatype loop_end = Stopped | Broke | Unfinished

definition wait_retry :: "unit tw" where
  "wait_retry = call WaitRetry (\<lambda>_. ())"

text \<open>A receive that gives neither an error nor a context panics: the nil error is printed.\<close>

fun recv_loop :: "tw_env \<Rightarrow> tink_worker \<Rightarrow> cmgr \<Rightarrow> nat \<Rightarrow> loop_end tw" where
  "recv_loop E W M 0 = ret Unfinished"
| "recv_loop E W M (Suc n) =
     bnd (ask (tw_done E)) (\<lambda>fin.
     if fin then ret Stopped else
     bnd (call TkRecv (\<lambda>l. tk_recv E l)) (\<lambda>(err, wfctx).
     case (err, wfctx) of
       (None, None) \<Rightarrow> panic
     | (Some e, _) \<Rightarrow> bnd wait_retry (\<lambda>_. ret Broke)
     | (None, Some wfContext) \<Rightarrow>
         let wfID = wc_WorkflowId wfContext in
         bnd (call (TkActions wfID) (\<lambda>l. tk_actions E l wfID)) (\<lambda>r.
         case r of
           Inl e \<Rightarrow> recv_loop E W M n
         | Inr actions \<Rightarrow>
             bnd (of_outcome (next_turn (w_workerID W) wfContext actions)) (\<lambda>t.
             case t of
               None \<Rightarrow> recv_loop E W M n
             | Some i \<Rightarrow>
                 bnd (turn_loop E W M n wfID actions (wc_CurrentActionState wfContext) i) (\<lambda>ended.
                 if ended then recv_loop E W M n else ret Unfinished)))))"

fun ProcessWorkflowActions :: "tw_env \<Rightarrow> tink_worker \<Rightarrow> cmgr \<Rightarrow> nat \<Rightarrow> loop_end tw" where
  "ProcessWorkflowActions E W M 0 = ret Unfinished"
| "ProcessWorkflowActions E W M (Suc n) =
     bnd (ask (tw_done E)) (\<lambda>fin.
     if fin then ret Stopped else
     bnd (call (TkContexts (w_workerID W)) (\<lambda>l. tk_contexts E l (w_workerID W))) (\<lambda>err.
     if err \<noteq> None then bnd wait_retry (\<lambda>_. ProcessWorkflowActions E W M n) else
     bnd (recv_loop E W M n) (\<lambda>r.
     case r of
       Broke \<Rightarrow> bnd wait_retry (\<lambda>_. ProcessWorkflowActions E W M n)
     | _ \<Rightarrow> ret r)))"

end
