(* ===== verification/GoTrace.thy ===== *)
theory GoTrace
  imports GoIO
begin

text \<open>
  Programs against abstract machines. A machine is a step relation \<open>S l p c q\<close>: with the
  history \<open>l\<close>, in the phase \<open>p\<close>, the call \<open>c\<close> may be made and leads to \<open>q\<close>. \<open>path\<close> is its
  closure under lists of calls. \<open>goes S l p m Q\<close> says that the calls of the program \<open>m\<close>, run
  on \<open>l\<close>, are a path of the machine from \<open>p\<close>, whatever its outcome, and that \<open>Q\<close> holds of the
  history, the value and the phase when it returns.
\<close>

inductive path :: "('c list \<Rightarrow> 'p \<Rightarrow> 'c \<Rightarrow> 'p \<Rightarrow> bool) \<Rightarrow> 'c list \<Rightarrow> 'p \<Rightarrow> 'c list \<Rightarrow> 'p \<Rightarrow> bool"
  for S where
  path_Nil: "path S l p [] p"
| path_Cons: "S l p c q \<Longrightarrow> path S (l @ [c]) q cs r \<Longrightarrow> path S l p (c # cs) r"

inductive_simps path_Nil_iff [simp]: "path S l p [] q"
inductive_simps path_Cons_iff: "path S l p (c # cs) q"

lemma path_append: "path S l p as q \<Longrightarrow> path S (l @ as) q bs r \<Longrightarrow> path S l p (as @ bs) r"
  by (induction rule: path.induct) (auto intro: path_Cons)

lemma path_append_iff: "path S l p (as @ bs) r \<longleftrightarrow> (\<exists>q. path S l p as q \<and> path S (l @ as) q bs r)"
  by (induction as arbitrary: l p) (fastforce simp: path_Cons_iff)+

lemma path_snoc: "path S l p (as @ [c]) r \<longleftrightarrow> (\<exists>q. path S l p as q \<and> S (l @ as) q c r)"
  by (simp add: path_append_iff path_Cons_iff)

lemma path_stay: "list_all P cs \<Longrightarrow> (\<And>l c. P c \<Longrightarrow> S l p c p) \<Longrightarrow> path S l p cs p"
  by (induction cs arbitrary: l) (auto intro: path_Nil path_Cons)

text \<open>An invariant of the steps holds all along a path.\<close>

lemma path_inv:
  "path S l p cs q \<Longrightarrow> I l p \<Longrightarrow> (\<And>l p c q. I l p \<Longrightarrow> S l p c q \<Longrightarrow> I (l @ [c]) q) \<Longrightarrow> I (l @ cs) q"
  by (induction rule: path.induct) auto

definition goes ::
  "('c list \<Rightarrow> 'p \<Rightarrow> 'c \<Rightarrow> 'p \<Rightarrow> bool) \<Rightarrow> 'c list \<Rightarrow> 'p \<Rightarrow> ('c, 'a) io \<Rightarrow> ('c list \<Rightarrow> 'a \<Rightarrow> 'p \<Rightarrow> bool) \<Rightarrow> bool"
where
  "goes S l p m Q \<longleftrightarrow> (\<exists>cs q. snd (run_io m l) = l @ cs \<and> path S l p cs q \<and>
     (\<forall>x. fst (run_io m l) = Ret x \<longrightarrow> Q (l @ cs) x q))"

lemma goes_ret: "Q l x p \<Longrightarrow> goes S l p (ret x) Q"
  by (auto simp: goes_def intro!: exI [of _ "[]"])

lemma goes_panic: "goes S l p panic Q"
  by (auto simp: goes_def intro!: exI [of _ "[]"])

lemma goes_ask: "Q l (r l) p \<Longrightarrow> goes S l p (ask r) Q"
  by (auto simp: goes_def intro!: exI [of _ "[]"])

lemma goes_call: "S l p c q \<Longrightarrow> Q (l @ [c]) (r l) q \<Longrightarrow> goes S l p (call c r) Q"
  by (auto simp: goes_def path_Cons_iff intro!: exI [of _ "[c]"])

lemma goes_bnd:
  assumes "goes S l p m R" and "\<And>l' x q. R l' x q \<Longrightarrow> goes S l' q (f x) Q"
  shows "goes S l p (bnd m f) Q"
proof -
  obtain r l1 where m: "run_io m l = (r, l1)" by fastforce
  with assms(1) obtain cs q where cs: "l1 = l @ cs" "path S l p cs q" "\<forall>x. r = Ret x \<longrightarrow> R l1 x q"
    by (auto simp: goes_def)
  show ?thesis
  proof (cases r)
    case Panic
    with m cs show ?thesis by (auto simp: goes_def)
  next
    case (Ret x)
    obtain r2 l2 where f: "run_io (f x) l1 = (r2, l2)" by fastforce
    from assms(2) cs(3) Ret have "goes S l1 q (f x) Q" by blast
    then obtain ds q' where "l2 = l1 @ ds" "path S l1 q ds q'" "\<forall>y. r2 = Ret y \<longrightarrow> Q l2 y q'"
      by (auto simp: goes_def f)
    with m f cs Ret show ?thesis
      by (auto simp: goes_def intro!: exI [of _ "cs @ ds"] exI [of _ q'] path_append)
  qed
qed

lemma goes_bnd_call: "S l p c q \<Longrightarrow> goes S (l @ [c]) q (f (r l)) Q \<Longrightarrow> goes S l p (bnd (call c r) f) Q"
  by (rule goes_bnd [OF goes_call [where Q = "\<lambda>l' x q'. l' = l @ [c] \<and> x = r l \<and> q' = q"]]) auto

lemma goes_bnd_ask: "goes S l p (f (r l)) Q \<Longrightarrow> goes S l p (bnd (ask r) f) Q"
  by (rule goes_bnd [OF goes_ask [where Q = "\<lambda>l' x q'. l' = l \<and> x = r l \<and> q' = p"]]) auto

lemma goes_mono: "goes S l p m R \<Longrightarrow> (\<And>l' x q. R l' x q \<Longrightarrow> Q l' x q) \<Longrightarrow> goes S l p m Q"
  unfolding goes_def by blast

lemma goes_if: "(b \<Longrightarrow> goes S l p m Q) \<Longrightarrow> (\<not> b \<Longrightarrow> goes S l p n Q) \<Longrightarrow> goes S l p (if b then m else n) Q"
  by simp

lemma goes_case_prod:
  "(\<And>a b. x = (a, b) \<Longrightarrow> goes S l p (f a b) Q) \<Longrightarrow> goes S l p (case x of (a, b) \<Rightarrow> f a b) Q"
  by (cases x) auto

lemma goes_of_outcome: "(\<And>x. r = Ret x \<Longrightarrow> Q l x p) \<Longrightarrow> goes S l p (of_outcome r) Q"
  by (auto simp: goes_def intro!: exI [of _ "[]"])

lemma goes_emits:
  assumes "emits P m" and "\<And>cs. list_all P cs \<Longrightarrow> \<exists>q. path S l p cs q \<and>
      (\<forall>x. run_io m l = (Ret x, l @ cs) \<longrightarrow> Q (l @ cs) x q)"
  shows "goes S l p m Q"
proof -
  obtain r l' where run: "run_io m l = (r, l')" by fastforce
  from emitsD [OF assms(1) run] obtain cs where "l' = l @ cs" "list_all P cs" by blast
  with assms(2) [of cs] run show ?thesis by (auto simp: goes_def)
qed

end
