(* ===== verification/WorkerMachine.thy ===== *)
theory WorkerMachine
  imports Worker GoTrace
begin

text \<open>
  The worker against an abstract machine of what it may do: every run of the worker is a path of
  the machine. The lemmas are proved once in the locale of the container manager; what follows
  from them for containerd and Docker is in the theory WorkerThms.
\<close>

section \<open>What executing an action amounts to\<close>

text \<open>\<open>finished_ok\<close>: a container was created with the command of the action, its process then
  exited with code 0 before the timeout of the action, and nothing but plain calls followed.\<close>

definition finished_ok ::
  "cmgr \<Rightarrow> (tw_call list \<Rightarrow> wctx \<Rightarrow> string \<Rightarrow> bool) \<Rightarrow> tink_worker \<Rightarrow> string \<Rightarrow> wf_action \<Rightarrow> tw_call list \<Rightarrow> bool"
where
  "finished_ok M ended W wfID a l \<longleftrightarrow> (\<exists>l0 l1 l2 i as ds.
     run_io (cm_Create M (wa_Command a) wfID a (w_captureLogs W) (w_createPrivileged W)) l0 = (Ret (Inr i), l1)
     \<and> l2 = l1 @ as \<and> ended l2 (action_ctx a) i \<and> l = l2 @ ds \<and> list_all plain_call ds)"

abbreviation quiet :: "tw_call \<Rightarrow> bool" where
  "quiet c \<equiv> \<not> tink_call c"

lemma idle_not_tink: "idle_call c \<Longrightarrow> quiet c" "plain_call c \<Longrightarrow> quiet c" "starts_only i c \<Longrightarrow> quiet c"
  by (simp_all add: idle_call_def plain_call_def starts_only_def)

context container_manager
begin

lemma quiet_manager [emits_intro]:
  "emits quiet (cm_Create M cmd wid a capture priv)" "emits quiet (cm_Wait M ctx i)"
  "emits quiet (cm_Remove M i)" "emits quiet (cm_Pull M img)"
  by (rule emits_mono [OF create_calls] emits_mono [OF wait_calls] emits_mono [OF remove_calls]
      emits_mono [OF pull_calls], erule idle_not_tink)+

lemma quiet_threads [emits_intro]:
  "t_emits quiet (cm_Start M ctx i)" "t_emits quiet (cm_WaitFailed M i)"
  by (rule t_all_mono [OF start_calls] t_all_mono [OF wait_failed_calls], erule idle_not_tink, simp)+

lemma emits_pull_attempts: "emits plain_call (pull_attempts M img n k)"
  by (induction k arbitrary: n; subst pull_attempts.simps) (auto intro!: emits_intro pull_calls)

lemma quiet_pull_attempts [emits_intro]: "emits quiet (pull_attempts M img n k)"
  by (rule emits_mono [OF emits_pull_attempts]) (rule idle_not_tink)

lemma quiet_captures [emits_intro]: "emits quiet (captures W i)"
  unfolding captures_def by (auto intro!: emits_intro)

lemma quiet_executeReaction [emits_intro]: "emits quiet (executeReaction E W M cmd wid a)"
  unfolding executeReaction_def Let_def by (intro emits_intro)

lemma quiet_after_wait [emits_intro]: "emits quiet (after_wait E W M wid a st e)"
  unfolding after_wait_def by (intro emits_intro)

lemma quiet_execute: "emits quiet (execute E W M wid a)"
  unfolding execute_def pullImageWithRetry_def Let_def by (intro emits_intro)

lemma after_wait_success: "run_io (after_wait E W M wid a st e) l = (Ret (STATE_SUCCESS, e'), l') \<Longrightarrow>
    e' = None \<Longrightarrow> st = STATE_SUCCESS \<and> e = None \<and> l' = l"
  unfolding after_wait_def by (auto split: option.splits if_splits prod.splits outcome.splits)

lemma execute_success:
  assumes "run_io (execute E W M wid a) l = (Ret (STATE_SUCCESS, None), l')"
  shows "finished_ok M ended W wid a l'"
proof -
  from assms obtain l1 l2 i l3 l4 e l5 where
    create: "run_io (cm_Create M (wa_Command a) wid a (w_captureLogs W) (w_createPrivileged W)) l1 = (Ret (Inr i), l2)"
    and start: "run_io (run_thread (cm_Start M (action_ctx a) i)) l2 = (Ret None, l3)"
    and cap: "run_io (captures W i) l3 = (Ret (), l4)"
    and wait: "run_io (cm_Wait M (action_ctx a) i) l4 = (Ret (STATE_SUCCESS, None), l5)"
    and remove: "run_io (cm_Remove M i) l5 = (e, l')"
    unfolding execute_def Let_def
    by (auto split: prod.splits outcome.splits option.splits sum.splits dest!: after_wait_success)
  have mgr: "emits (\<lambda>_. True) (run_thread (cm_Start M (action_ctx a) i))" "emits (\<lambda>_. True) (captures W i)"
    "emits (\<lambda>_. True) (cm_Wait M (action_ctx a) i)"
    using emits_mono [OF wait_calls] t_all_mono [OF start_calls]
    by (auto simp: captures_def intro!: emits_intro)
  from emitsD [OF mgr(1) start] emitsD [OF mgr(2) cap] emitsD [OF mgr(3) wait]
  obtain as where "l5 = l2 @ as" by fastforce
  moreover from emitsD [OF remove_calls remove] obtain ds where "l' = l5 @ ds" "list_all plain_call ds" by blast
  moreover from wait_success [OF wait] have "ended l5 (action_ctx a) i" by simp
  ultimately show ?thesis using create unfolding finished_ok_def by blast
qed

end

section \<open>The abstract machine\<close>

text \<open>
  What the worker may do. Between workflows it asks, receives and waits. It enters a workflow
  where the context it just received says (\<open>next_turn\<close>). Within it, action i is announced,
  executed (any calls but those to the server) and reported; only after a report of success the
  next action may start, and it must be the worker's own. Success is reported only when the
  container of the action has finished (\<open>fin\<close>). A report the server refuses is repeated after
  a wait. In a workflow that is resumed (its current action is already running) no action is
  announced.
\<close>

datatype stage = At nat | Announced nat | Executing nat | Succeeded nat | Failed_at nat

datatype phase = Idle | Turn string "wf_action list" bool stage

fun ready :: "stage \<Rightarrow> nat \<Rightarrow> bool" where
  "ready (At i) j \<longleftrightarrow> i = j"
| "ready (Succeeded i) j \<longleftrightarrow> j = Suc i"
| "ready _ j \<longleftrightarrow> False"

definition can_run :: "bool \<Rightarrow> stage \<Rightarrow> nat \<Rightarrow> bool" where
  "can_run resumed s i \<longleftrightarrow> (if resumed then ready s i else s = Announced i)"

definition own :: "string \<Rightarrow> wf_action list \<Rightarrow> nat \<Rightarrow> bool" where
  "own me acts i \<longleftrightarrow> i < length acts \<and> wa_WorkerId (acts ! i) = me"

inductive wstep ::
  "tw_env \<Rightarrow> string \<Rightarrow> (string \<Rightarrow> wf_action \<Rightarrow> tw_call list \<Rightarrow> bool) \<Rightarrow>
   tw_call list \<Rightarrow> phase \<Rightarrow> tw_call \<Rightarrow> phase \<Rightarrow> bool"
  for E me fin where
  idle: "c \<in> {TkContexts me, TkRecv, WaitRetry, TkActions wid} \<Longrightarrow> wstep E me fin l Idle c Idle"
| enter: "l = l0 @ [TkRecv] \<Longrightarrow> tk_recv E l0 = (None, Some ctx) \<Longrightarrow> wid = wc_WorkflowId ctx \<Longrightarrow>
    tk_actions E l wid = Inr acts \<Longrightarrow> next_turn me ctx acts = Ret (Some i) \<Longrightarrow> own me acts i \<Longrightarrow>
    resumed = (wc_CurrentActionState ctx = STATE_RUNNING) \<Longrightarrow>
    wstep E me fin l Idle (TkActions wid) (Turn wid acts resumed (At i))"
| announce: "\<not> resumed \<Longrightarrow> ready s i \<or> s = Announced i \<Longrightarrow> own me acts i \<Longrightarrow>
    wstep E me fin l (Turn wid acts resumed s) (TkReport (started_status wid (acts ! i)))
      (Turn wid acts resumed (Announced i))"
| execute: "can_run resumed s i \<or> s = Executing i \<Longrightarrow> own me acts i \<Longrightarrow> quiet c \<Longrightarrow>
    wstep E me fin l (Turn wid acts resumed s) c (Turn wid acts resumed (Executing i))"
| succeed: "can_run resumed s i \<or> s = Executing i \<Longrightarrow> own me acts i \<Longrightarrow> fin wid (acts ! i) l \<Longrightarrow>
    wstep E me fin l (Turn wid acts resumed s) (TkReport (final_status wid (acts ! i) n STATE_SUCCESS msg))
      (Turn wid acts resumed (Succeeded i))"
| succeed_again: "own me acts i \<Longrightarrow>
    wstep E me fin l (Turn wid acts resumed (Succeeded i))
      (TkReport (final_status wid (acts ! i) n STATE_SUCCESS msg)) (Turn wid acts resumed (Succeeded i))"
| fail: "can_run resumed s i \<or> s = Executing i \<or> s = Failed_at i \<Longrightarrow> own me acts i \<Longrightarrow>
    st \<in> {STATE_FAILED, STATE_TIMEOUT} \<Longrightarrow>
    wstep E me fin l (Turn wid acts resumed s) (TkReport (final_status wid (acts ! i) n st msg))
      (Turn wid acts resumed (Failed_at i))"
| again: "s \<in> {Announced i, Succeeded i, Failed_at i} \<Longrightarrow>
    wstep E me fin l (Turn wid acts resumed s) WaitRetry (Turn wid acts resumed s)"
| leave: "s \<in> {Succeeded i, Failed_at i} \<Longrightarrow> wstep E me fin l (Turn wid acts resumed s) TkRecv Idle"

definition turn_over :: "string \<Rightarrow> wf_action list \<Rightarrow> bool \<Rightarrow> phase \<Rightarrow> bool" where
  "turn_over wid acts resumed q \<longleftrightarrow> (\<exists>i. q = Turn wid acts resumed (Succeeded i) \<or> q = Turn wid acts resumed (Failed_at i))"

inductive_cases wstep_report: "wstep E me fin l p (TkReport st) q"
inductive_cases wstep_idle: "wstep E me fin l Idle c q"

section \<open>The worker is a path of the machine\<close>

lemma next_turn_own: "next_turn me ctx acts = Ret (Some i) \<Longrightarrow> own me acts i"
  by (auto simp: next_turn_def if_own_def own_def action_at_def split: if_splits outcome.splits wstate.splits)

lemma goes_report:
  assumes "S l p (TkReport st) q" and "\<And>l. S l q (TkReport st) q" and "\<And>l. S l q WaitRetry q"
  shows "goes S l p (reportActionStatus E st n) (\<lambda>_ accepted r. accepted \<longrightarrow> r = q)"
  using assms(1)
proof (induction n arbitrary: l p)
  case 0
  then show ?case by (simp add: goes_ret)
next
  case (Suc n)
  show ?case
    unfolding reportActionStatus.simps
    by (rule goes_bnd_call, rule Suc.prems)
      (auto intro!: goes_ret goes_bnd_call Suc.IH assms(2,3))
qed

lemma path_executing:
  assumes "list_all quiet cs" and "own me acts i"
  shows "path (wstep E me fin) l (Turn wid acts resumed (Executing i)) cs (Turn wid acts resumed (Executing i))"
  by (rule path_stay [OF assms(1)]) (simp add: wstep.execute assms(2))

lemma path_execute:
  assumes "list_all quiet cs" and "can_run resumed s i" and "own me acts i"
  shows "\<exists>s'. path (wstep E me fin) l (Turn wid acts resumed s) cs (Turn wid acts resumed s')
    \<and> (can_run resumed s' i \<or> s' = Executing i)"
proof (cases cs)
  case Nil
  with assms show ?thesis by auto
next
  case (Cons c cs')
  with assms have "wstep E me fin l (Turn wid acts resumed s) c (Turn wid acts resumed (Executing i))"
    by (auto intro: wstep.execute)
  with Cons assms show ?thesis
    by (auto intro!: exI [of _ "Executing i"] path_Cons path_executing)
qed

context container_manager
begin

abbreviation machine :: "tw_env \<Rightarrow> tink_worker \<Rightarrow> tw_call list \<Rightarrow> phase \<Rightarrow> tw_call \<Rightarrow> phase \<Rightarrow> bool" where
  "machine E W \<equiv> wstep E (w_workerID W) (finished_ok M ended W)"

lemma goes_execute:
  assumes "can_run resumed s i" and "own (w_workerID W) acts i"
  shows "goes (machine E W) l (Turn wid acts resumed s) (execute E W M wid (acts ! i))
    (\<lambda>l' r q. \<exists>s'. q = Turn wid acts resumed s' \<and> (can_run resumed s' i \<or> s' = Executing i) \<and>
      (r = (STATE_SUCCESS, None) \<longrightarrow> finished_ok M ended W wid (acts ! i) l'))"
proof (rule goes_emits [OF quiet_execute])
  fix cs
  assume "list_all quiet cs"
  from path_execute [OF this assms] execute_success
  show "\<exists>q. path (machine E W) l (Turn wid acts resumed s) cs q \<and>
      (\<forall>x. run_io (execute E W M wid (acts ! i)) l = (Ret x, l @ cs) \<longrightarrow>
        (\<exists>s'. q = Turn wid acts resumed s' \<and> (can_run resumed s' i \<or> s' = Executing i) \<and>
          (x = (STATE_SUCCESS, None) \<longrightarrow> finished_ok M ended W wid (acts ! i) (l @ cs))))"
    by blast
qed

lemma goes_turn_loop:
  assumes "own (w_workerID W) acts i" and "ready s i"
  shows "goes (machine E W) l (Turn wid acts (st0 = STATE_RUNNING) s) (turn_loop E W M n wid acts st0 i)
    (\<lambda>_ finished q. finished \<longrightarrow> turn_over wid acts (st0 = STATE_RUNNING) q)"
  using assms
proof (induction "length acts - i" arbitrary: i s l rule: less_induct)
  case less
  let ?r = "st0 = STATE_RUNNING" and ?a = "acts ! i"
  note own = less.prems(1)
  have announced: "goes (machine E W) l (Turn wid acts ?r s)
      (if st0 \<noteq> STATE_RUNNING then reportActionStatus E (started_status wid ?a) n else ret True)
      (\<lambda>_ ok q. ok \<longrightarrow> (\<exists>s'. q = Turn wid acts ?r s' \<and> can_run ?r s' i))"
    using less.prems
    by (auto intro!: goes_if goes_ret goes_mono [OF goes_report [where q = "Turn wid acts ?r (Announced i)"]]
        wstep.announce wstep.again simp: can_run_def)
  have failed: "goes (machine E W) l' (Turn wid acts ?r s') (reportActionStatus E (final_status wid ?a k st m) n)
      (\<lambda>_ finished q. finished \<longrightarrow> turn_over wid acts ?r q)"
    if "can_run ?r s' i \<or> s' = Executing i" "st \<in> {STATE_FAILED, STATE_TIMEOUT}" for l' s' k st m
    using that own
    by (auto intro!: goes_mono [OF goes_report [where q = "Turn wid acts ?r (Failed_at i)"]]
        wstep.fail wstep.again simp: turn_over_def)
  have succeeded: "goes (machine E W) l' (Turn wid acts ?r s') (reportActionStatus E (final_status wid ?a k STATE_SUCCESS m) n)
      (\<lambda>_ ok q. ok \<longrightarrow> q = Turn wid acts ?r (Succeeded i))"
    if "can_run ?r s' i \<or> s' = Executing i" "finished_ok M ended W wid ?a l'" for l' s' k m
    using that own by (auto intro!: goes_report wstep.succeed wstep.succeed_again wstep.again)
  have next_one: "goes (machine E W) l' (Turn wid acts ?r (Succeeded i)) (turn_loop E W M n wid acts st0 (Suc i))
      (\<lambda>_ finished q. finished \<longrightarrow> turn_over wid acts ?r q)"
    if "length acts \<noteq> Suc i" "wa_WorkerId (acts ! Suc i) = w_workerID W" for l'
    using that own by (intro less.hyps) (auto simp: own_def)
  show ?case
    apply (subst turn_loop.simps, unfold Let_def)
    apply (rule goes_if, rule goes_panic)
    apply (rule goes_bnd, rule announced)
    apply (rule goes_if, rule goes_ret, simp)
    apply (drule mp, simp, elim exE conjE, hypsubst)
    apply (rule goes_bnd_ask)
    apply (rule goes_bnd, rule goes_execute [OF _ own], assumption)
    apply (rule goes_case_prod, elim exE conjE, hypsubst)
    apply (rule goes_bnd_ask)
    apply (rule goes_if, rule failed, assumption, simp)
    apply (rule goes_bnd, rule succeeded, assumption, blast)
    apply (rule goes_if, rule goes_ret, simp)
    apply (rule goes_if, rule goes_ret, simp add: turn_over_def)
    apply (rule goes_if, rule goes_ret, simp add: turn_over_def)
    apply (simp add: next_one)
    done
qed

lemma goes_recv_loop:
  assumes "p = Idle \<or> turn_over wid acts resumed p"
  shows "goes (machine E W) l p (recv_loop E W M n) (\<lambda>_ r q. r = Broke \<longrightarrow> q = Idle)"
  using assms
proof (induction n arbitrary: l p wid acts resumed)
  case 0
  then show ?case by (simp add: goes_ret)
next
  case (Suc n)
  have recv: "machine E W l p TkRecv Idle" for l
    using Suc.prems by (auto simp: turn_over_def intro: wstep.leave wstep.idle)
  have idle: "machine E W l Idle WaitRetry Idle" "machine E W l Idle (TkActions w) Idle" for l w
    by (auto intro: wstep.idle)
  have enter: "machine E W (l @ [TkRecv]) Idle (TkActions (wc_WorkflowId ctx))
      (Turn (wc_WorkflowId ctx) acts (wc_CurrentActionState ctx = STATE_RUNNING) (At i))"
    if "tk_recv E l = (None, Some ctx)" "tk_actions E (l @ [TkRecv]) (wc_WorkflowId ctx) = Inr acts"
      "next_turn (w_workerID W) ctx acts = Ret (Some i)" for ctx acts i l
    using that by (auto intro!: wstep.enter next_turn_own)
  show ?case
  proof (cases "tk_recv E l")
    case (Pair err wfctx)
    show ?thesis
    proof (cases "tw_done E l \<or> err \<noteq> None \<or> wfctx = None")
      case True
      with Pair show ?thesis
        by (auto simp: wait_retry_def intro!: goes_bnd_ask goes_ret goes_bnd_call [where q = Idle] recv idle
            goes_panic split: option.splits)
    next
      case False
      then obtain ctx where [simp]: "err = None" "wfctx = Some ctx" "\<not> tw_done E l" by auto
      let ?w = "wc_WorkflowId ctx" and ?l = "l @ [TkRecv]"
      note [simp] = Pair Let_def
      show ?thesis
      proof (cases "tk_actions E ?l ?w")
        case (Inl e)
        then show ?thesis
          by (auto intro!: goes_bnd_ask goes_bnd_call [where q = Idle] recv idle Suc.IH)
      next
        case (Inr acts)
        then show ?thesis
        proof (cases "next_turn (w_workerID W) ctx acts")
          case Panic
          with Inr show ?thesis
            by (auto intro!: goes_bnd_ask goes_bnd_call [where q = Idle] recv idle goes_panic)
        next
          case (Ret t)
          show ?thesis
          proof (cases t)
            case None
            with Inr Ret show ?thesis
              by (auto intro!: goes_bnd_ask goes_bnd_call [where q = Idle] recv idle Suc.IH)
          next
            case (Some i)
            note entered = enter [OF _ Inr, of i] next_turn_own [of "w_workerID W" ctx acts i]
            show ?thesis
              using Inr Ret Some entered
              apply simp
              apply (rule goes_bnd_ask, simp)
              apply (rule goes_bnd_call, rule recv, simp add: Let_def)
              apply (rule goes_bnd_call, assumption, simp)
              apply (rule goes_bnd, rule goes_turn_loop, assumption, simp)
              apply (rule goes_if, rule Suc.IH, blast)
              apply (simp add: goes_ret)
              done
          qed
        qed
      qed
    qed
  qed
qed

theorem worker_follows_machine:
  "goes (machine E W) l Idle (ProcessWorkflowActions E W M n) (\<lambda>_ _ _. True)"
proof (induction n arbitrary: l)
  case 0
  then show ?case by (simp add: goes_ret)
next
  case (Suc n)
  have idle: "machine E W l Idle WaitRetry Idle" "machine E W l Idle (TkContexts (w_workerID W)) Idle" for l
    by (auto intro: wstep.idle)
  show ?case
    by (auto simp: wait_retry_def intro!: goes_bnd_ask goes_ret goes_bnd_call [where q = Idle] idle Suc
        goes_bnd [OF goes_recv_loop] split: loop_end.split)
qed

end

end
