(* ===== verification/WorkerThms.thy ===== *)
theory WorkerThms
  imports WorkerMachine
begin

text \<open>
  The properties of the Tinkerbell worker. The invariants of the abstract machine are proved by
  induction over its paths and reach the worker through \<open>worker_follows_machine\<close>, once for
  containerd (\<open>cd\<close>) and once for Docker (\<open>dk\<close>).
\<close>

section \<open>Invariants of the machine\<close>

definition succeeded_before :: "tw_call list \<Rightarrow> string \<Rightarrow> wf_action \<Rightarrow> bool" where
  "succeeded_before l wid a \<longleftrightarrow> (\<exists>n msg. TkReport (final_status wid a n STATE_SUCCESS msg) \<in> set l)"

fun progress :: "stage \<Rightarrow> nat" where
  "progress (At i) = i"
| "progress (Announced i) = i"
| "progress (Executing i) = i"
| "progress (Succeeded i) = Suc i"
| "progress (Failed_at i) = i"

fun at_index :: "stage \<Rightarrow> nat" where
  "at_index (At i) = i"
| "at_index (Announced i) = i"
| "at_index (Executing i) = i"
| "at_index (Succeeded i) = i"
| "at_index (Failed_at i) = i"

text \<open>In a workflow, the worker has entered at an index that the server's answers gave it, and has
  reported the success of all actions from there up to its progress since.\<close>

definition entered :: "tw_env \<Rightarrow> string \<Rightarrow> tw_call list \<Rightarrow> string \<Rightarrow> wf_action list \<Rightarrow> nat \<Rightarrow> tw_call list \<Rightarrow> bool" where
  "entered E me l wid acts i mid \<longleftrightarrow> (\<exists>l0 ctx. l = l0 @ [TkRecv, TkActions wid] @ mid \<and>
     tk_recv E l0 = (None, Some ctx) \<and> wid = wc_WorkflowId ctx \<and>
     tk_actions E (l0 @ [TkRecv]) wid = Inr acts \<and> next_turn me ctx acts = Ret (Some i))"

fun in_order :: "tw_env \<Rightarrow> string \<Rightarrow> tw_call list \<Rightarrow> phase \<Rightarrow> bool" where
  "in_order E me l Idle \<longleftrightarrow> True"
| "in_order E me l (Turn wid acts resumed s) \<longleftrightarrow> (\<exists>i mid. entered E me l wid acts i mid \<and> i \<le> at_index s \<and>
     (\<forall>k. i \<le> k \<and> k < progress s \<longrightarrow> succeeded_before mid wid (acts ! k)))"

declare in_order.simps(2) [simp del]

lemma entered_snoc: "entered E me l wid acts i mid \<Longrightarrow> entered E me (l @ [c]) wid acts i (mid @ [c])"
  by (auto simp: entered_def)

lemma succeeded_before_snoc: "succeeded_before mid wid a \<Longrightarrow> succeeded_before (mid @ [c]) wid a"
  by (auto simp: succeeded_before_def)

lemma progress_ready: "ready s i \<Longrightarrow> progress s = i \<and> at_index s \<le> i"
  by (cases s) auto

lemma progress_can_run: "can_run resumed s i \<Longrightarrow> progress s = i \<and> at_index s \<le> i"
  by (auto simp: can_run_def progress_ready split: if_splits)

lemma in_order_keep:
  assumes "in_order E me l (Turn wid acts r s)" and "progress s' = progress s" and "at_index s \<le> at_index s'"
  shows "in_order E me (l @ [c]) (Turn wid acts r s')"
proof -
  from assms(1) obtain i mid where "entered E me l wid acts i mid" "i \<le> at_index s"
    "\<forall>k. i \<le> k \<and> k < progress s \<longrightarrow> succeeded_before mid wid (acts ! k)" by (auto simp: in_order.simps)
  with assms(2,3) show ?thesis
    unfolding in_order.simps
    by (intro exI [of _ i] exI [of _ "mid @ [c]"]) (simp add: entered_snoc succeeded_before_snoc)
qed

lemma in_order_success:
  assumes "in_order E me l (Turn wid acts r s)" and "progress s = i" and "at_index s \<le> i"
  shows "in_order E me (l @ [TkReport (final_status wid (acts ! i) n STATE_SUCCESS msg)]) (Turn wid acts r (Succeeded i))"
proof -
  let ?c = "TkReport (final_status wid (acts ! i) n STATE_SUCCESS msg)"
  from assms obtain j mid where e: "entered E me l wid acts j mid" and "j \<le> i"
    and before: "\<And>k. j \<le> k \<Longrightarrow> k < i \<Longrightarrow> succeeded_before mid wid (acts ! k)" by (auto simp: in_order.simps)
  have "succeeded_before (mid @ [?c]) wid (acts ! k)" if "j \<le> k" "k < Suc i" for k
    using before [OF that(1)] that(2) by (cases "k = i") (auto simp: succeeded_before_def)
  with entered_snoc [OF e, of ?c] \<open>j \<le> i\<close> show ?thesis
    unfolding in_order.simps by (intro exI [of _ j] exI [of _ "mid @ [?c]"]) simp
qed

lemma in_order_step:
  assumes "wstep E me fin l p c q" and "in_order E me l p"
  shows "in_order E me (l @ [c]) q"
  using assms
proof cases
  case (enter l0 ctx wid acts i resumed)
  then have "entered E me (l @ [c]) wid acts i []"
    by (auto simp: entered_def)
  with enter show ?thesis by (auto simp: in_order.simps intro!: exI [of _ i])
next
  case (succeed_again acts i wid resumed n msg)
  with assms(2) show ?thesis by (simp only:) (rule in_order_keep, auto)
next
  case (succeed resumed s i acts wid n msg)
  then have "progress s = i" "at_index s \<le> i" by (auto dest: progress_can_run)
  with succeed assms(2) show ?thesis by (auto intro: in_order_success)
qed (use assms(2) in \<open>auto elim!: in_order_keep dest: progress_ready progress_can_run\<close>)

lemma in_order_path: "path (wstep E me fin) l Idle cs q \<Longrightarrow> in_order E me (l @ cs) q"
  by (erule path_inv) (auto intro: in_order_step)

text \<open>The worker says success only of actions whose container has finished.\<close>

fun success_true :: "(string \<Rightarrow> wf_action \<Rightarrow> tw_call list \<Rightarrow> bool) \<Rightarrow> tw_call list \<Rightarrow> phase \<Rightarrow> bool" where
  "success_true fin l (Turn wid acts resumed (Succeeded i)) \<longleftrightarrow> (\<exists>l0 ds. l = l0 @ ds \<and> fin wid (acts ! i) l0)"
| "success_true fin l p \<longleftrightarrow> True"

lemma success_true_step:
  assumes "wstep E me fin l p c q" and "success_true fin l p"
  shows "success_true fin (l @ [c]) q"
  using assms
proof cases
  case (again s i wid acts resumed)
  with assms(2) show ?thesis by (cases s) (auto, metis append.assoc)
next
  case (succeed_again acts i wid resumed n msg)
  with assms(2) show ?thesis by (auto, metis append.assoc)
qed auto

lemma success_true_path: "path (wstep E me fin) l Idle cs q \<Longrightarrow> success_true fin (l @ cs) q"
  by (erule path_inv) (auto intro: success_true_step)

text \<open>What holds of every report on a path.\<close>

lemma report_shape:
  assumes "wstep E me fin l p (TkReport st) q"
  shows "\<exists>wid acts resumed s j k st' msg. p = Turn wid acts resumed s \<and> own me acts j \<and>
     j \<le> progress s \<and> at_index s \<le> j \<and>
     (st = started_status wid (acts ! j) \<or> st = final_status wid (acts ! j) k st' msg) \<and>
     (as_ActionStatus st = STATE_SUCCESS \<longrightarrow> fin wid (acts ! j) l \<or> s = Succeeded j)"
  using assms
proof cases
  case (announce resumed s i acts wid)
  then show ?thesis
    by (intro exI [of _ wid] exI [of _ acts] exI [of _ resumed] exI [of _ s] exI [of _ i])
      (auto simp: started_status_def dest: progress_ready)
next
  case (succeed resumed s i acts wid n msg)
  then show ?thesis
    by (intro exI [of _ wid] exI [of _ acts] exI [of _ resumed] exI [of _ s] exI [of _ i])
      (auto dest: progress_can_run)
next
  case (succeed_again acts i wid resumed n msg)
  then show ?thesis
    by (intro exI [of _ wid] exI [of _ acts] exI [of _ resumed] exI [of _ "Succeeded i"] exI [of _ i]) auto
next
  case (fail resumed s i acts stt wid n msg)
  then show ?thesis
    by (intro exI [of _ wid] exI [of _ acts] exI [of _ resumed] exI [of _ s] exI [of _ i])
      (auto simp: final_status_def dest: progress_can_run)
qed (auto simp: )

lemma report_on_path:
  assumes "path (wstep E me fin) [] Idle (as @ TkReport st # bs) q"
  shows "\<exists>wid acts i j mid k st' msg. entered E me as wid acts i mid \<and> i \<le> j \<and> own me acts j \<and>
     (\<forall>k. i \<le> k \<and> k < j \<longrightarrow> succeeded_before mid wid (acts ! k)) \<and>
     (st = started_status wid (acts ! j) \<or> st = final_status wid (acts ! j) k st' msg) \<and>
     (as_ActionStatus st = STATE_SUCCESS \<longrightarrow> (\<exists>l0 ds. as = l0 @ ds \<and> fin wid (acts ! j) l0))"
proof -
  from assms obtain p q' where before: "path (wstep E me fin) [] Idle as p"
    and step: "wstep E me fin as p (TkReport st) q'"
    by (auto simp: path_append_iff path_Cons_iff)
  from report_shape [OF step] obtain wid acts resumed s j k st' msg where
    p: "p = Turn wid acts resumed s" and own: "own me acts j" and j: "j \<le> progress s" "at_index s \<le> j"
    and st: "st = started_status wid (acts ! j) \<or> st = final_status wid (acts ! j) k st' msg"
    and ok: "as_ActionStatus st = STATE_SUCCESS \<longrightarrow> fin wid (acts ! j) as \<or> s = Succeeded j" by blast
  from in_order_path [OF before] obtain i mid where
    i: "entered E me as wid acts i mid" "i \<le> at_index s"
      "\<forall>k. i \<le> k \<and> k < progress s \<longrightarrow> succeeded_before mid wid (acts ! k)"
    unfolding p in_order.simps by auto
  have "\<exists>l0 ds. as = l0 @ ds \<and> fin wid (acts ! j) l0" if "as_ActionStatus st = STATE_SUCCESS"
  proof -
    from ok that consider "fin wid (acts ! j) as" | "s = Succeeded j" by blast
    then show ?thesis
    proof cases
      case 1
      then show ?thesis by (metis append_Nil2)
    next
      case 2
      with success_true_path [OF before] p show ?thesis by simp
    qed
  qed
  with i j own st show ?thesis
    by (intro exI [of _ wid] exI [of _ acts] exI [of _ i] exI [of _ j] exI [of _ mid] exI [of _ k]
        exI [of _ st'] exI [of _ msg]) auto
qed

section \<open>Concrete parameters\<close>

definition sample_action :: "string \<Rightarrow> wf_action" where
  "sample_action name = \<lparr>wa_TaskName = ''provision'', wa_Name = name, wa_Image = ''img'', wa_Timeout = 60,
     wa_Command = [], wa_OnTimeout = [], wa_OnFailure = [], wa_WorkerId = ''w1'', wa_Volumes = [],
     wa_Environment = [], wa_Pid = ''''\<rparr>"

definition sample_context :: wf_context where
  "sample_context = \<lparr>wc_WorkflowId = ''wf1'', wc_CurrentAction = '''', wc_CurrentActionIndex = 0,
     wc_CurrentActionState = STATE_PENDING\<rparr>"

text \<open>A server with one workflow of two actions, and a containerd where everything works.\<close>

definition sample_tw_env :: tw_env where
  "sample_tw_env = \<lparr>
     tk_contexts = (\<lambda>_ _. None),
     tk_recv = (\<lambda>l. if length l \<le> 1 then (None, Some sample_context) else (Some (ForeignErr ''EOF'' 0), None)),
     tk_actions = (\<lambda>_ _. Inr [sample_action ''a'', sample_action ''b'']),
     tk_report = (\<lambda>_ _. None),
     tw_done = (\<lambda>l. 3 < length l),
     tw_clock = (\<lambda>l. int (length l) * second),
     tw_grants = (\<lambda>_ _. 5),
     tw_schedule = (\<lambda>_. []),
     cd_get_image = (\<lambda>_ _. Inr ''img''),
     cd_pull = (\<lambda>_ _. Inr ''img''),
     cd_snapshot_stat = (\<lambda>_ _. Some (ForeignErr ''not found'' 0)),
     cd_snapshot_remove = (\<lambda>_ _. None),
     cd_new_container = (\<lambda>_ c. Inr (cc_Name c)),
     cd_load = (\<lambda>_ _ _. None),
     cd_new_task = (\<lambda>_ _ _. None),
     cd_task_start = (\<lambda>_ _ _. None),
     cd_task = (\<lambda>_ _ _. None),
     cd_task_running = (\<lambda>_ _ _. Inr False),
     cd_task_kill = (\<lambda>_ _ _. None),
     cd_task_delete = (\<lambda>_ _ _. None),
     cd_task_wait = (\<lambda>_ _ _. None),
     cd_exit = (\<lambda>_ _ _. Inl 0),
     cd_delete = (\<lambda>_ _ _. None),
     dk_encode_auth = (\<lambda>_. Inr ''auth''),
     dk_pull = (\<lambda>_ _. Inr []),
     dk_create = (\<lambda>_ c. Inr (dc_Name c)),
     dk_start = (\<lambda>_ _ _. None),
     dk_inspect = (\<lambda>_ _ _. None),
     dk_exit = (\<lambda>_ _ _. ExitCode 0),
     dk_remove = (\<lambda>_ _ _. None),
     dk_logs = (\<lambda>_ _. Inr []),
     os_stat = (\<lambda>_ _. IsDir),
     os_mkdir = (\<lambda>_ _. None),
     os_hostname = (\<lambda>_. ''node''),
     os_read_file = (\<lambda>_ _. Inr ''''),
     os_setenv = (\<lambda>_ _ _. None),
     os_reboot = (\<lambda>_. None),
     tw_parse_mount = (\<lambda>v. Inr \<lparr>mp_Source = v, mp_Target = v, mp_Type = ''bind'', mp_ReadOnly = False\<rparr>),
     tw_intn = (\<lambda>_ i. i) \<rparr>"

definition sample_registry :: registry_details where
  "sample_registry = \<lparr>rd_Registry = '''', rd_Username = '''', rd_Password = ''''\<rparr>"

abbreviation sample_manager :: cmgr where
  "sample_manager \<equiv> containerd_manager sample_tw_env sample_registry"

definition sample_worker :: tink_worker where
  "sample_worker = NewWorker ''w1'' [WithLogCapture True, WithPrivileged True]"

definition sample_calls :: "tw_call list" where
  "sample_calls = snd (run_io (ProcessWorkflowActions sample_tw_env sample_worker sample_manager 4) [])"

section \<open>Workflows\<close>

text \<open>
  C9. Every run of the worker, on containerd as on Docker, is a path of the abstract machine: it
  asks, enters a workflow where the server says, and takes its own actions one after the other,
  each announced, executed and reported, the next one only after a success.
\<close>

theorem worker_refines_machine:
  "(\<exists>cs q. snd (run_io (ProcessWorkflowActions E W (containerd_manager E R) n) l) = l @ cs \<and>
      path (wstep E (w_workerID W) (finished_ok (containerd_manager E R) (cd_ended E) W)) l Idle cs q) \<and>
   (\<exists>cs q. snd (run_io (ProcessWorkflowActions E W (docker_manager E R) n) l) = l @ cs \<and>
      path (wstep E (w_workerID W) (finished_ok (docker_manager E R) (dk_ended E) W)) l Idle cs q)"
  using cd.worker_follows_machine [of E W E R l n] dk.worker_follows_machine [of E W E R l n]
  unfolding goes_def by blast

lemma containerd_path:
  assumes "snd (run_io (ProcessWorkflowActions E W (containerd_manager E R) n) []) = cs"
  shows "\<exists>q. path (wstep E (w_workerID W) (finished_ok (containerd_manager E R) (cd_ended E) W)) [] Idle cs q"
  using cd.worker_follows_machine [of E W E R "[]" n] assms unfolding goes_def by auto

text \<open>
  C10. Whatever the worker reports is about an action that is its own, in a workflow whose context
  it received and at or after the index that context gave; and all actions from there up to that
  one have been reported successful before.
\<close>

theorem actions_run_in_order:
  assumes "snd (run_io (ProcessWorkflowActions E W (containerd_manager E R) n) []) = as @ TkReport st # bs"
  shows "\<exists>wid acts i j mid k st' msg. entered E (w_workerID W) as wid acts i mid \<and> i \<le> j \<and>
     own (w_workerID W) acts j \<and> (\<forall>k. i \<le> k \<and> k < j \<longrightarrow> succeeded_before mid wid (acts ! k)) \<and>
     (st = started_status wid (acts ! j) \<or> st = final_status wid (acts ! j) k st' msg)"
proof -
  from containerd_path [OF assms] obtain q where
    "path (wstep E (w_workerID W) (finished_ok (containerd_manager E R) (cd_ended E) W)) [] Idle (as @ TkReport st # bs) q"
    by blast
  from report_on_path [OF this] show ?thesis by blast
qed

text \<open>
  C11. When the worker reports the success of an action, a container was created for that action
  with its command, and its process has exited with code 0 before the action's timeout.
\<close>

theorem success_reports_are_true:
  assumes "snd (run_io (ProcessWorkflowActions E W (containerd_manager E R) n) []) = as @ TkReport st # bs"
    and "as_ActionStatus st = STATE_SUCCESS"
  shows "\<exists>wid a k msg l0 ds. st = final_status wid a k STATE_SUCCESS msg \<and> wa_WorkerId a = w_workerID W \<and>
     as = l0 @ ds \<and> finished_ok (containerd_manager E R) (cd_ended E) W wid a l0"
proof -
  from containerd_path [OF assms(1)] obtain q where
    "path (wstep E (w_workerID W) (finished_ok (containerd_manager E R) (cd_ended E) W)) [] Idle (as @ TkReport st # bs) q"
    by blast
  from report_on_path [OF this] assms(2) obtain wid acts j k st' msg l0 ds where
    "own (w_workerID W) acts j" "as = l0 @ ds"
    "finished_ok (containerd_manager E R) (cd_ended E) W wid (acts ! j) l0"
    "st = started_status wid (acts ! j) \<or> st = final_status wid (acts ! j) k st' msg" by blast
  with assms(2) show ?thesis
    by (intro exI [of _ wid] exI [of _ "acts ! j"] exI [of _ k] exI [of _ msg] exI [of _ l0] exI [of _ ds])
      (auto simp: own_def started_status_def final_status_def)
qed

lemma sample_split:
  assumes "k < length sample_calls" and "sample_calls ! k = TkReport st"
  shows "snd (run_io (ProcessWorkflowActions sample_tw_env sample_worker sample_manager 4) []) =
    take k sample_calls @ TkReport st # drop (Suc k) sample_calls"
  using id_take_nth_drop [OF assms(1)] assms(2) by (simp add: sample_calls_def)

lemma actions_run_in_order_witness:
  "\<exists>st wid acts i j mid k st' msg. entered sample_tw_env ''w1'' (take 24 sample_calls) wid acts i mid \<and> i \<le> j \<and>
     own ''w1'' acts j \<and> (\<forall>k. i \<le> k \<and> k < j \<longrightarrow> succeeded_before mid wid (acts ! k)) \<and>
     (st = started_status wid (acts ! j) \<or> st = final_status wid (acts ! j) k st' msg)"
proof -
  have "sample_calls ! 24 = TkReport (started_status ''wf1'' (sample_action ''b''))"
    unfolding sample_calls_def by code_simp
  moreover have "24 < length sample_calls"
    unfolding sample_calls_def by code_simp
  ultimately have "snd (run_io (ProcessWorkflowActions sample_tw_env sample_worker sample_manager 4) []) =
      take 24 sample_calls @ TkReport (started_status ''wf1'' (sample_action ''b'')) # drop (Suc 24) sample_calls"
    by (intro sample_split)
  from actions_run_in_order [OF this] show ?thesis
    unfolding sample_worker_def NewWorker_def by simp blast
qed

lemma success_reports_are_true_witness:
  "\<exists>wid a k msg l0 ds. final_status ''wf1'' (sample_action ''b'') 19 STATE_SUCCESS ''finished execution successfully'' =
       final_status wid a k STATE_SUCCESS msg \<and> wa_WorkerId a = w_workerID sample_worker \<and>
     take 44 sample_calls = l0 @ ds \<and> finished_ok sample_manager (cd_ended sample_tw_env) sample_worker wid a l0"
proof -
  have "sample_calls ! 44 = TkReport (final_status ''wf1'' (sample_action ''b'') 19 STATE_SUCCESS
      ''finished execution successfully'')"
    unfolding sample_calls_def by code_simp
  moreover have "44 < length sample_calls"
    unfolding sample_calls_def by code_simp
  ultimately have "snd (run_io (ProcessWorkflowActions sample_tw_env sample_worker sample_manager 4) []) =
      take 44 sample_calls @ TkReport (final_status ''wf1'' (sample_action ''b'') 19 STATE_SUCCESS
        ''finished execution successfully'') # drop (Suc 44) sample_calls"
    by (intro sample_split)
  from success_reports_are_true [OF this] show ?thesis by (simp add: final_status_def)
qed

section \<open>Reactions\<close>

text \<open>The container that a call creates, if it does, runs one of two commands.\<close>

definition runs_only :: "string list \<Rightarrow> string list \<Rightarrow> tw_call \<Rightarrow> bool" where
  "runs_only cmd cmd' c \<longleftrightarrow> created_cmd c = None \<or> created_cmd c = Some cmd \<or> created_cmd c = Some cmd'"

context container_manager
begin

lemma runs_only_manager [emits_intro]:
  "emits (runs_only cmd cmd') (cm_Wait M ctx i)" "emits (runs_only cmd cmd') (cm_Remove M i)"
  "emits (runs_only cmd cmd') (cm_Create M cmd wid a capture priv)"
  "emits (runs_only cmd cmd') (cm_Create M cmd' wid a capture priv)"
  "emits (runs_only cmd cmd') (pull_attempts M img n k)" "emits (runs_only cmd cmd') (captures W i)"
  using emits_pull_attempts [of img n k]
  by (auto intro!: emits_mono [OF wait_calls] emits_mono [OF remove_calls] emits_mono [OF create_command]
      emits_intro simp: runs_only_def plain_call_def captures_def elim: emits_mono)

lemma runs_only_threads [emits_intro]:
  "t_emits (runs_only cmd cmd') (cm_Start M ctx i)" "t_emits (runs_only cmd cmd') (cm_WaitFailed M i)"
  by (rule t_all_mono [OF start_calls] t_all_mono [OF wait_failed_calls];
      simp add: runs_only_def plain_call_def starts_only_def)+

lemma runs_only_executeReaction: "emits (runs_only cmd cmd') (executeReaction E W M cmd' wid a)"
  unfolding executeReaction_def Let_def by (intro emits_intro)

lemma runs_only_after_wait:
  assumes "st = STATE_TIMEOUT \<longrightarrow> err \<noteq> None"
  shows "emits (runs_only cmd (wa_OnFailure a)) (after_wait E W M wid a st err)"
  using assms unfolding after_wait_def
  by (auto intro!: emits_intro runs_only_executeReaction split: option.splits)

lemma runs_only_execute: "emits (runs_only (wa_Command a) (wa_OnFailure a)) (execute E W M wid a)"
proof -
  have "emits (runs_only (wa_Command a) (wa_OnFailure a))
      (bnd (cm_Wait M ctx i) (\<lambda>(st, err). with_defer (after_wait E W M wid a st err)
        (\<lambda>_. bnd (cm_Remove M i) (\<lambda>_. ret ()))))" for ctx i
    by (rule emits_bnd_run) (auto intro!: emits_intro runs_only_after_wait dest: wait_timeout)
  note tail = this
  show ?thesis
    unfolding execute_def pullImageWithRetry_def Let_def by (rule tail emits_intro)+
qed

end

text \<open>
  Executing an action creates containers for its command and for its reaction to a failure
  only, on containerd as on Docker: the reaction to a timeout is never run.
\<close>

theorem on_timeout_never_runs:
  "emits (runs_only (wa_Command a) (wa_OnFailure a)) (execute E W (containerd_manager E R) wid a) \<and>
   emits (runs_only (wa_Command a) (wa_OnFailure a)) (execute E W (docker_manager E R) wid a)"
  by (intro conjI cd.runs_only_execute dk.runs_only_execute)

section \<open>Containers\<close>

fun keeps_reserved :: "string \<Rightarrow> tw_call \<Rightarrow> bool" where
  "keeps_reserved wid (CdNewContainer s) \<longleftrightarrow>
     filter (\<lambda>m. \<not> isValidDst (mt_Destination m)) (mounts_of (cc_Spec s)) =
       worker_mounts (path_Join [defaultDataDir, wid]) \<and> length (cc_Name s) \<le> 76"
| "keeps_reserved wid _ \<longleftrightarrow> True"

lemma plain_keeps: "plain_call c \<Longrightarrow> keeps_reserved wid c"
  by (cases c) (auto simp: plain_call_def)

lemma worker_mounts_reserved: "filter (\<lambda>m. \<not> isValidDst (mt_Destination m)) (worker_mounts d) = worker_mounts d"
  by (simp add: worker_mounts_def bind_mount_def isValidDst_def mountExcluded_def)

lemma emits_named_container:
  "(\<And>name. length name \<le> 76 \<Longrightarrow> emits P (f name)) \<Longrightarrow> emits P (bnd (newContainerName E n) f)"
  by (rule emits_bnd_run) (auto intro!: emits_intro simp: newContainerName_def randStr_def truncateStr_def)

lemma emits_keeps_reserved:
  "length name \<le> 76 \<Longrightarrow> emits (keeps_reserved wid) (cd_NewContainer E name img (container_opts img a
     (worker_mounts (path_Join [defaultDataDir, wid]) @ filter (\<lambda>m. isValidDst (mt_Destination m)) avs) h cmd))"
  unfolding cd_NewContainer_def Let_def by (auto intro!: emits_intro simp: worker_mounts_reserved)

text \<open>
  In every container that is created on containerd, the destinations that the worker reserves
  are mounted exactly as the worker mounts them, whatever volumes the action asks for, and the
  name of the container fits the 76 bytes that containerd allows.
\<close>

theorem reserved_mounts_are_the_workers:
  "emits (keeps_reserved wid) (cd_CreateContainer E R cmd wid a capture priv)"
  unfolding cd_CreateContainer_def Let_def
  by (intro emits_named_container emits_keeps_reserved emits_intro emits_mono [OF emits_EnsureFolder]
      emits_mono [OF emits_pullImageByName]) (simp_all add: plain_keeps)

section \<open>Pulling images\<close>

definition is_pull :: "tw_call \<Rightarrow> bool" where
  "is_pull c = (case c of CdPull img r \<Rightarrow> True | _ \<Rightarrow> False)"

lemma pull_once:
  assumes "run_io (cd_PullImage E R img) l = (r, l')"
  shows "\<exists>cs e. l' = l @ cs \<and> r = Ret e \<and> length (filter is_pull cs) \<le> 1 \<and>
     (e \<noteq> None \<longrightarrow> length (filter is_pull cs) = 1)"
  using assms unfolding cd_PullImage_def pullImageByName_def Let_def
  by (auto simp: is_pull_def split: sum.splits)

lemma pull_containerd [simp]: "cm_Pull (containerd_manager E R) = cd_PullImage E R"
  by (simp add: containerd_manager_def)

lemma pull_attempts_step:
  assumes "run_io (pull_attempts (containerd_manager E R) img n k) l = (r, l')"
  obtains (good) cs where "r = Ret None" "l' = l @ cs" "length (filter is_pull cs) \<le> 1"
    | (bad) cs e where "k = 0" "r = Ret (Some e)" "l' = l @ cs" "length (filter is_pull cs) = 1"
    | (again) cs k' where "k = Suc k'" "length (filter is_pull cs) = 1"
        "run_io (pull_attempts (containerd_manager E R) img (Suc n) k') (l @ cs) = (r, l')"
proof -
  obtain r1 l1 where pull: "run_io (cd_PullImage E R img) l = (r1, l1)" by fastforce
  from pull_once [OF pull] obtain cs e where l1: "l1 = l @ cs" "r1 = Ret e" and le: "length (filter is_pull cs) \<le> 1"
    and err: "e \<noteq> None \<longrightarrow> length (filter is_pull cs) = 1" by blast
  have run: "run_io (case e of None \<Rightarrow> ret None | Some x \<Rightarrow> (case k of
      0 \<Rightarrow> ret (Some (FmtErrorf (''failed to pull image after '' @ show_nat n @ '' attempts'') (Some x)))
    | Suc k' \<Rightarrow> pull_attempts (containerd_manager E R) img (Suc n) k')) (l @ cs) = (r, l')"
    using assms pull l1 by (simp add: pull_attempts.simps [of _ _ _ k])
  show thesis
  proof (cases e)
    case None
    with run le show ?thesis by (auto intro: good)
  next
    case (Some x)
    with run err show ?thesis by (cases k) (auto intro: bad again)
  qed
qed

lemma pull_attempts_count:
  "run_io (pull_attempts (containerd_manager E R) img n k) l = (r, l') \<Longrightarrow>
   \<exists>cs e. l' = l @ cs \<and> r = Ret e \<and> length (filter is_pull cs) \<le> Suc k \<and>
     (e \<noteq> None \<longrightarrow> length (filter is_pull cs) = Suc k)"
proof (induction k arbitrary: n l)
  case (0 n l)
  from 0 show ?case by (cases rule: pull_attempts_step) auto
next
  case (Suc k)
  from Suc.prems show ?case
  proof (cases rule: pull_attempts_step)
    case (good cs)
    then show ?thesis by auto
  next
    case (again cs k')
    with Suc.IH [of "Suc n" "l @ cs"] obtain ds e' where "l' = (l @ cs) @ ds" "r = Ret e'"
      "length (filter is_pull ds) \<le> Suc k" "e' \<noteq> None \<longrightarrow> length (filter is_pull ds) = Suc k" by blast
    with again show ?thesis by (intro exI [of _ "cs @ ds"] exI [of _ e']) auto
  qed simp
qed

text \<open>
  Pulling an image calls the registry at most once more than the backoff library grants
  retries, and reports an error only after having called it exactly that often.
\<close>

theorem image_pull_attempts:
  assumes "run_io (pullImageWithRetry E (containerd_manager E R) img) l = (r, l')"
  shows "\<exists>cs e. l' = l @ cs \<and> r = Ret e \<and> length (filter is_pull cs) \<le> Suc (tw_grants E l img) \<and>
     (e \<noteq> None \<longrightarrow> length (filter is_pull cs) = Suc (tw_grants E l img))"
  using assms unfolding pullImageWithRetry_def by (auto dest: pull_attempts_count)

lemma image_pull_attempts_witness:
  "\<exists>cs e. [CdGetImage ''img''] = [] @ cs \<and> Ret (None :: error) = Ret e \<and>
     length (filter is_pull cs) \<le> Suc (tw_grants sample_tw_env [] ''img'') \<and>
     (e \<noteq> None \<longrightarrow> length (filter is_pull cs) = Suc (tw_grants sample_tw_env [] ''img''))"
proof -
  have "run_io (pullImageWithRetry sample_tw_env sample_manager ''img'') [] = (Ret None, [CdGetImage ''img''])"
    by code_simp
  from image_pull_attempts [OF this] show ?thesis .
qed

section \<open>Timeouts\<close>

text \<open>
  The timeout of an action, given in seconds, is the deadline of its container in nanoseconds
  as long as it is at most 9223372036 seconds; one more second overflows to a deadline in the past.
\<close>

theorem action_timeout:
  "(0 < sint (wa_Timeout a) \<and> sint (wa_Timeout a) \<le> 9223372036 \<longrightarrow>
      action_ctx a = CtxTimeout (sint (wa_Timeout a) * second)) \<and>
   action_ctx (a\<lparr>wa_Timeout := 9223372037\<rparr>) = CtxTimeout (- 9223372036709551616)"
proof -
  have "sint (wa_Timeout a * 1000000000) = sint (wa_Timeout a) * 1000000000"
    if "0 < sint (wa_Timeout a)" "sint (wa_Timeout a) \<le> 9223372036"
    using that by (simp add: sint_word_ariths signed_take_bit_int_eq_self)
  then show ?thesis by (simp add: action_ctx_def second_def)
qed

lemma action_timeout_witness: "action_ctx (sample_action ''a'') = CtxTimeout (60 * second)"
  using action_timeout [of "sample_action ''a''"] by (simp add: sample_action_def)

section \<open>Reports\<close>

text \<open>The calls of k refused reports.\<close>

definition refused :: "action_status \<Rightarrow> nat \<Rightarrow> tw_call list" where
  "refused s k = concat (replicate k [TkReport s, WaitRetry])"

text \<open>
  A report the server refuses k times and then accepts is delivered: k + 1 turns are enough,
  and the worker makes exactly k + 1 calls with a wait between them.
\<close>

theorem report_until_accepted:
  assumes "\<And>j. j < k \<Longrightarrow> tk_report E (l @ refused s j) s \<noteq> None"
    and "tk_report E (l @ refused s k) s = None"
  shows "run_io (reportActionStatus E s (Suc k)) l = (Ret True, l @ refused s k @ [TkReport s])"
  using assms
proof (induction k arbitrary: l)
  case 0
  then show ?case by (simp add: refused_def)
next
  case (Suc k)
  have shift: "(l @ [TkReport s, WaitRetry]) @ refused s j = l @ refused s (Suc j)" for j
    by (simp add: refused_def)
  from Suc.prems(1) [of 0] have "tk_report E l s \<noteq> None" by (simp add: refused_def)
  moreover have "run_io (reportActionStatus E s (Suc k)) (l @ [TkReport s, WaitRetry]) =
      (Ret True, (l @ [TkReport s, WaitRetry]) @ refused s k @ [TkReport s])"
    by (rule Suc.IH; unfold shift) (use Suc.prems in auto)
  ultimately show ?case by (simp add: refused_def)
qed


lemma report_until_accepted_witness:
  "run_io (reportActionStatus (sample_tw_env\<lparr>tk_report := \<lambda>l _. if length l < 2 then Some (ForeignErr ''down'' 14) else None\<rparr>)
      (started_status ''wf1'' (sample_action ''a'')) 2) [] =
   (Ret True, [] @ refused (started_status ''wf1'' (sample_action ''a'')) 1 @ [TkReport (started_status ''wf1'' (sample_action ''a''))])"
  unfolding numeral_2_eq_2 One_nat_def [symmetric]
  by (rule report_until_accepted) (simp_all add: refused_def)

end
