(* ===== verification/WorkerInit.thy ===== *)
theory WorkerInit
  imports WorkerThms
begin

text \<open>
  How the worker starts (\<open>containerd.go\<close>, \<open>Init\<close>): it makes its folders, turns the kernel's
  command line into environment variables, and leaves a goroutine behind that reboots the node
  when a file appears. The goroutine is the call \<open>GoRebootWatch\<close> of \<open>Init\<close>, and its body is
  \<open>rebootWatch\<close>, which polls as often as its fuel allows.
\<close>

section \<open>The command line\<close>

record tinkWorkerConfig =
  tc_registry :: string
  tc_username :: string
  tc_password :: string
  tc_grpcAuthority :: string
  tc_workerID :: string
  tc_tinkWorkerImage :: string
  tc_tinkServerTLS :: string
  tc_tinkServerInsecureTLS :: string
  tc_httpProxy :: string
  tc_httpsProxy :: string
  tc_noProxy :: string

definition set_param :: "string \<Rightarrow> string \<Rightarrow> tinkWorkerConfig \<Rightarrow> tinkWorkerConfig" where
  "set_param k v cfg =
     (if k = ''docker_registry'' then cfg\<lparr>tc_registry := v\<rparr>
      else if k = ''registry_username'' then cfg\<lparr>tc_username := v\<rparr>
      else if k = ''registry_password'' then cfg\<lparr>tc_password := v\<rparr>
      else if k = ''grpc_authority'' then cfg\<lparr>tc_grpcAuthority := v\<rparr>
      else if k = ''worker_id'' then cfg\<lparr>tc_workerID := v\<rparr>
      else if k = ''tink_worker_image'' then cfg\<lparr>tc_tinkWorkerImage := v\<rparr>
      else if k = ''tinkerbell_tls'' then cfg\<lparr>tc_tinkServerTLS := v\<rparr>
      else if k = ''tinkerbell_insecure_tls'' then cfg\<lparr>tc_tinkServerInsecureTLS := v\<rparr>
      else if k = ''HTTP_PROXY'' then cfg\<lparr>tc_httpProxy := v\<rparr>
      else if k = ''HTTPS_PROXY'' then cfg\<lparr>tc_httpsProxy := v\<rparr>
      else if k = ''NO_PROXY'' then cfg\<lparr>tc_noProxy := v\<rparr>
      else cfg)"

fun parse_lines :: "tinkWorkerConfig \<Rightarrow> string list \<Rightarrow> tinkWorkerConfig" where
  "parse_lines cfg [] = cfg"
| "parse_lines cfg (c # cs) = (case split_first CHR ''='' c of
     (k, None) \<Rightarrow> parse_lines cfg cs
   | (k, Some v) \<Rightarrow> parse_lines (set_param k v cfg) cs)"

definition empty_config :: tinkWorkerConfig where
  "empty_config = \<lparr>tc_registry = '''', tc_username = '''', tc_password = '''', tc_grpcAuthority = '''',
     tc_workerID = '''', tc_tinkWorkerImage = '''', tc_tinkServerTLS = '''',
     tc_tinkServerInsecureTLS = '''', tc_httpProxy = '''', tc_httpsProxy = '''', tc_noProxy = ''''\<rparr>"

definition parseCmdLine :: "string list \<Rightarrow> tinkWorkerConfig" where
  "parseCmdLine cmdLines = parse_lines empty_config cmdLines"

section \<open>The environment\<close>

definition init_envs :: "tinkWorkerConfig \<Rightarrow> string list" where
  "init_envs cfg = [
     ''DOCKER_REGISTRY='' @ tc_registry cfg,
     ''REGISTRY_USERNAME='' @ tc_username cfg,
     ''REGISTRY_PASSWORD='' @ tc_password cfg,
     ''TINKERBELL_GRPC_AUTHORITY='' @ tc_grpcAuthority cfg,
     ''TINKERBELL_TLS='' @ tc_tinkServerTLS cfg,
     ''TINKERBELL_INSECURE_TLS='' @ tc_tinkServerInsecureTLS cfg,
     ''WORKER_ID='' @ tc_workerID cfg,
     ''ID='' @ tc_workerID cfg,
     ''HTTP_PROXY='' @ tc_httpProxy cfg,
     ''HTTPS_PROXY='' @ tc_httpsProxy cfg,
     ''NO_PROXY='' @ tc_noProxy cfg]"

text \<open>\<open>splitEnv\<close> gives nothing without a separator, and the indexing of nothing panics.\<close>

definition splitEnv :: "string \<Rightarrow> (string \<times> string) option" where
  "splitEnv env = (case split_first CHR ''='' env of (k, Some v) \<Rightarrow> Some (k, v) | (k, None) \<Rightarrow> None)"

definition set_env :: "tw_env \<Rightarrow> string \<Rightarrow> error tw" where
  "set_env E env = bnd (deref (splitEnv env)) (\<lambda>(k, v).
     bnd (call (OsSetenv k v) (\<lambda>l. os_setenv E l k v)) (\<lambda>err.
       if err \<noteq> None then ret (Some (FmtErrorf (''failed to set environment variable '' @ k) err)) else ret None))"

fun set_envs :: "tw_env \<Rightarrow> string list \<Rightarrow> error tw" where
  "set_envs E [] = ret None"
| "set_envs E (env # envs) = if_nil (set_env E env) (set_envs E envs)"

interpretation env_loop: stop_on_error "set_env E" "set_envs E" for E
  by unfold_locales simp_all

definition worker_Init :: "tw_env \<Rightarrow> error tw" where
  "worker_Init E =
     if_nil (EnsureFolder E ''/worker'')
     (if_nil (EnsureFolder E ''/lib/firmware'')
     (if_got (call (OsReadFile ''/proc/cmdline'') (\<lambda>l. os_read_file E l ''/proc/cmdline'')) (\<lambda>content.
     let cfg = parseCmdLine (split_char CHR '' '' content) in
     if_nil (set_envs E (init_envs cfg))
     (bnd (call GoRebootWatch (\<lambda>_. ())) (\<lambda>_. ret None)))))"

section \<open>Rebooting\<close>

definition fileExists :: "tw_env \<Rightarrow> string \<Rightarrow> bool tw" where
  "fileExists E filename = bnd (call (OsStat filename) (\<lambda>l. os_stat E l filename)) (\<lambda>st.
     case st of NotExist \<Rightarrow> ret False | StatErr e \<Rightarrow> panic | IsDir \<Rightarrow> ret False | IsFile \<Rightarrow> ret True)"

fun rebootWatch :: "tw_env \<Rightarrow> nat \<Rightarrow> bool tw" where
  "rebootWatch E 0 = ret False"
| "rebootWatch E (Suc n) = bnd (fileExists E ''/worker/reboot'') (\<lambda>there.
     if there then bnd (call OsReboot (os_reboot E)) (\<lambda>err.
       if err \<noteq> None then bnd (call SleepSecond (\<lambda>_. ())) (\<lambda>_. rebootWatch E n) else ret True)
     else bnd (call SleepSecond (\<lambda>_. ())) (\<lambda>_. rebootWatch E n))"

section \<open>The last value of a parameter counts\<close>

text \<open>The reference: the text after the last piece that starts with the name and \<open>=\<close>.\<close>

definition last_value :: "string \<Rightarrow> string list \<Rightarrow> string" where
  "last_value k cs = (case find (\<lambda>c. has_prefix c (k @ ''='')) (rev cs) of
     None \<Rightarrow> '''' | Some c \<Rightarrow> drop (Suc (length k)) c)"

lemma split_first_SomeD: "split_first d c = (k, Some v) \<Longrightarrow> c = k @ d # v \<and> d \<notin> set k"
  by (induction c arbitrary: k) (auto split: if_splits prod.splits)

lemma find_append: "find P (xs @ ys) = (case find P xs of None \<Rightarrow> find P ys | r \<Rightarrow> r)"
  by (induction xs) auto

lemma prefix_key:
  assumes "d \<notin> set k" and "d \<notin> set k'"
  shows "has_prefix (k' @ d # v) (k @ [d]) \<longleftrightarrow> k' = k"
proof
  assume "has_prefix (k' @ d # v) (k @ [d])"
  then obtain t where "k' @ d # v = k @ d # t" by (auto simp: has_prefix_iff)
  with split_first_sep [OF assms(1), of t] split_first_sep [OF assms(2), of v] show "k' = k" by simp
qed (simp add: has_prefix_iff)

lemma last_value_snoc:
  assumes "CHR ''='' \<notin> set k"
  shows "last_value k (cs @ [c]) = (case split_first CHR ''='' c of
    (k', Some v) \<Rightarrow> if k' = k then v else last_value k cs | (k', None) \<Rightarrow> last_value k cs)"
proof (cases "split_first CHR ''='' c")
  case (Pair k' r)
  show ?thesis
  proof (cases r)
    case None
    with Pair have "CHR ''='' \<notin> set c" using split_first_None [of "CHR ''=''" c] by simp
    then have "\<not> has_prefix c (k @ ''='')" by (auto simp: has_prefix_iff)
    with Pair None show ?thesis by (simp add: last_value_def)
  next
    case (Some v)
    with Pair have c: "c = k' @ ''='' @ v" "CHR ''='' \<notin> set k'" by (auto dest: split_first_SomeD)
    have "has_prefix c (k @ ''='') \<longleftrightarrow> k' = k"
      unfolding c(1) using prefix_key [OF assms c(2)] by simp
    with Pair Some c show ?thesis by (auto simp: last_value_def split: option.split)
  qed
qed

lemma parse_lines_snoc:
  "parse_lines cfg (cs @ [c]) = (case split_first CHR ''='' c of
     (k, None) \<Rightarrow> parse_lines cfg cs | (k, Some v) \<Rightarrow> set_param k v (parse_lines cfg cs))"
  by (induction cs arbitrary: cfg) (auto split: prod.splits option.splits)

text \<open>
  Parsing the kernel's command line gives every parameter the value of its last occurrence,
  the rest of the piece after the first equals sign, and the empty text when it has none.
\<close>

lemma command_line_parameters:
  "parseCmdLine cs = \<lparr>
     tc_registry = last_value ''docker_registry'' cs,
     tc_username = last_value ''registry_username'' cs,
     tc_password = last_value ''registry_password'' cs,
     tc_grpcAuthority = last_value ''grpc_authority'' cs,
     tc_workerID = last_value ''worker_id'' cs,
     tc_tinkWorkerImage = last_value ''tink_worker_image'' cs,
     tc_tinkServerTLS = last_value ''tinkerbell_tls'' cs,
     tc_tinkServerInsecureTLS = last_value ''tinkerbell_insecure_tls'' cs,
     tc_httpProxy = last_value ''HTTP_PROXY'' cs,
     tc_httpsProxy = last_value ''HTTPS_PROXY'' cs,
     tc_noProxy = last_value ''NO_PROXY'' cs\<rparr>"
proof (induction cs rule: rev_induct)
  case Nil
  show ?case by (simp add: parseCmdLine_def empty_config_def last_value_def)
next
  case (snoc c cs)
  then show ?case
    by (auto simp: parseCmdLine_def parse_lines_snoc last_value_snoc set_param_def split: prod.split option.split)
qed

lemma split_env_format: "CHR ''='' \<notin> set k \<Longrightarrow> splitEnv (k @ CHR ''='' # v) = Some (k, v)"
  by (simp add: splitEnv_def split_first_sep)

section \<open>What the start leaves behind\<close>

fun env_of :: "tw_call list \<Rightarrow> (string \<times> string) list" where
  "env_of [] = []"
| "env_of (OsSetenv k v # cs) = (k, v) # env_of cs"
| "env_of (c # cs) = env_of cs"

definition env_pairs :: "string list \<Rightarrow> (string \<times> string) list" where
  "env_pairs cs = [
     (''DOCKER_REGISTRY'', last_value ''docker_registry'' cs),
     (''REGISTRY_USERNAME'', last_value ''registry_username'' cs),
     (''REGISTRY_PASSWORD'', last_value ''registry_password'' cs),
     (''TINKERBELL_GRPC_AUTHORITY'', last_value ''grpc_authority'' cs),
     (''TINKERBELL_TLS'', last_value ''tinkerbell_tls'' cs),
     (''TINKERBELL_INSECURE_TLS'', last_value ''tinkerbell_insecure_tls'' cs),
     (''WORKER_ID'', last_value ''worker_id'' cs),
     (''ID'', last_value ''worker_id'' cs),
     (''HTTP_PROXY'', last_value ''HTTP_PROXY'' cs),
     (''HTTPS_PROXY'', last_value ''HTTPS_PROXY'' cs),
     (''NO_PROXY'', last_value ''NO_PROXY'' cs)]"

lemma env_of_append [simp]: "env_of (as @ bs) = env_of as @ env_of bs"
  by (induction as rule: env_of.induct) auto

lemma set_envs_run:
  assumes "run_io (set_envs E (map (\<lambda>(k, v). k @ CHR ''='' # v) kvs)) l = (Ret None, l')"
    and "list_all (\<lambda>(k, v). CHR ''='' \<notin> set k) kvs"
  shows "\<exists>cs. l' = l @ cs \<and> env_of cs = kvs"
  using assms
proof (induction kvs arbitrary: l)
  case (Cons kv kvs)
  obtain k v where kv: "kv = (k, v)" by fastforce
  with Cons.prems(2) have "splitEnv (k @ CHR ''='' # v) = Some (k, v)" by (simp add: split_env_format)
  with Cons.prems(1) kv have "run_io (set_envs E (map (\<lambda>(k, v). k @ CHR ''='' # v) kvs)) (l @ [OsSetenv k v]) = (Ret None, l')"
    by (auto simp: set_env_def split: if_splits)
  from Cons.IH [OF this] Cons.prems(2) obtain cs where "l' = (l @ [OsSetenv k v]) @ cs" "env_of cs = kvs" by auto
  with kv show ?case by (intro exI [of _ "OsSetenv k v # cs"]) simp
qed auto

lemma init_envs_pairs: "init_envs (parseCmdLine cs) = map (\<lambda>(k, v). k @ CHR ''='' # v) (env_pairs cs)"
  by (simp add: init_envs_def env_pairs_def command_line_parameters)

lemma env_pairs_keys: "list_all (\<lambda>(k, v). CHR ''='' \<notin> set k) (env_pairs cs)"
  by (simp add: env_pairs_def)

lemma env_of_EnsureFolder: "run_io (EnsureFolder E f) l = (r, l') \<Longrightarrow> \<exists>cs. l' = l @ cs \<and> env_of cs = []"
  by (auto simp: EnsureFolder_def split: stat_reply.splits if_splits)

text \<open>
  A start that succeeds has set, once each and in this order, the eleven variables of the
  worker's environment to the values that the kernel's command line gives them.
\<close>

theorem init_sets_environment:
  assumes "run_io (worker_Init E) l = (Ret None, l')"
  shows "\<exists>cs l1 content. l' = l @ cs \<and> os_read_file E l1 ''/proc/cmdline'' = Inr content \<and>
     env_of cs = env_pairs (split_char CHR '' '' content)"
proof -
  from assms obtain l1 l2 content l3 where
    folders: "run_io (EnsureFolder E ''/worker'') l = (Ret None, l1)"
      "run_io (EnsureFolder E ''/lib/firmware'') l1 = (Ret None, l2)"
    and content: "os_read_file E l2 ''/proc/cmdline'' = Inr content"
    and run: "run_io (set_envs E (init_envs (parseCmdLine (split_char CHR '' '' content))))
        (l2 @ [OsReadFile ''/proc/cmdline'']) = (Ret None, l3)"
    and l': "l' = l3 @ [GoRebootWatch]"
    unfolding worker_Init_def Let_def
    by (auto split: prod.splits outcome.splits option.splits sum.splits)
  from env_of_EnsureFolder [OF folders(1)] env_of_EnsureFolder [OF folders(2)]
  obtain as bs where "l1 = l @ as" "env_of as = []" "l2 = l1 @ bs" "env_of bs = []" by blast
  moreover from set_envs_run [OF run [unfolded init_envs_pairs]] obtain cs where
    "l3 = (l2 @ [OsReadFile ''/proc/cmdline'']) @ cs" "env_of cs = env_pairs (split_char CHR '' '' content)"
    using env_pairs_keys by blast
  ultimately show ?thesis using content l'
    by (intro exI [of _ "as @ bs @ [OsReadFile ''/proc/cmdline''] @ cs @ [GoRebootWatch]"] exI [of _ l2]
        exI [of _ content]) simp
qed

lemma init_sets_environment_witness:
  "\<exists>cs l1 content. snd (run_io (worker_Init sample_tw_env) []) = [] @ cs \<and>
     os_read_file sample_tw_env l1 ''/proc/cmdline'' = Inr content \<and>
     env_of cs = env_pairs (split_char CHR '' '' content)"
proof (rule init_sets_environment)
  have "fst (run_io (worker_Init sample_tw_env) []) = Ret None"
    by code_simp
  then show "run_io (worker_Init sample_tw_env) [] = (Ret None, snd (run_io (worker_Init sample_tw_env) []))"
    by (metis prod.collapse)
qed

text \<open>The line break that ends the kernel's command line is kept in the value of its last piece.\<close>

lemma split_char_last: "c \<notin> set b \<Longrightarrow> split_char c (a @ c # b) = split_char c a @ [b]"
  by (induction a) (auto simp: split_char_no_sep split: list.splits)

lemma line_break_is_kept:
  assumes "CHR '' '' \<notin> set v"
  shows "tc_workerID (parseCmdLine (split_char CHR '' '' (s @ CHR '' '' # ''worker_id='' @ v @ [CHR 0x0A]))) = v @ [CHR 0x0A]"
  using assms by (simp add: split_char_last command_line_parameters last_value_def has_prefix_def)

end
