(* ===== verification/GoEmbed.thy ===== *)
theory GoEmbed
  imports GoIO
begin

text \<open>
  A program inside a larger one. The calls of the inner program are some of the calls of the
  outer one; \<open>embed up down m\<close> runs \<open>m\<close> on those calls of the history that are its own, and
  adds the calls it makes to the whole history. The locale \<open>embedding\<close> says what \<open>up\<close> and
  \<open>down\<close> have to satisfy.
\<close>

definition embed :: "('d \<Rightarrow> 'c) \<Rightarrow> ('c \<Rightarrow> 'd option) \<Rightarrow> ('d, 'a) io \<Rightarrow> ('c, 'a) io" where
  "embed up down m = IO (\<lambda>l. let own = List.map_filter down l in
     (case run_io m own of (r, l') \<Rightarrow> (r, l @ map up (drop (length own) l'))))"

text \<open>A program only adds to the history.\<close>

abbreviation grows :: "('c, 'a) io \<Rightarrow> bool" where
  "grows m \<equiv> emits (\<lambda>_. True) m"

lemma growsD: "grows m \<Longrightarrow> run_io m l = (r, l') \<Longrightarrow> \<exists>cs. l' = l @ cs"
  using emitsD by fastforce

lemma emits_grows: "emits P m \<Longrightarrow> grows m"
  by (erule emits_mono) simp

locale embedding =
  fixes up :: "'d \<Rightarrow> 'c" and down :: "'c \<Rightarrow> 'd option"
  assumes down_up: "down (up d) = Some d"
    and down_Some: "down c = Some d \<Longrightarrow> c = up d"
begin

lemma own_up: "List.map_filter down (map up cs) = cs"
  by (induction cs) (simp_all add: List.map_filter_simps down_up)

lemma own_append: "List.map_filter down (l @ l') = List.map_filter down l @ List.map_filter down l'"
  by (simp add: List.map_filter_def)

lemma in_own: "d \<in> set (List.map_filter down l) \<longleftrightarrow> up d \<in> set l"
  using down_up down_Some by (induction l) (auto simp: List.map_filter_simps split: option.split)

lemma embed_run:
  assumes "grows m" and "run_io (embed up down m) l = (r, l')"
  obtains cs where "l' = l @ map up cs"
    and "run_io m (List.map_filter down l) = (r, List.map_filter down l @ cs)"
proof -
  obtain x l1 where run: "run_io m (List.map_filter down l) = (x, l1)" by fastforce
  from growsD [OF assms(1) run] obtain cs where "l1 = List.map_filter down l @ cs" by blast
  with run assms(2) that [of cs] show thesis by (auto simp: embed_def Let_def)
qed

lemma emits_embed:
  assumes "emits (\<lambda>d. P (up d)) m"
  shows "emits P (embed up down m)"
  unfolding emits_def
proof
  fix l
  obtain r l' where run: "run_io (embed up down m) l = (r, l')" by fastforce
  from emits_grows [OF assms] run obtain cs where cs: "l' = l @ map up cs"
    "run_io m (List.map_filter down l) = (r, List.map_filter down l @ cs)" by (rule embed_run)
  from emitsD [OF assms cs(2)] have "list_all (\<lambda>d. P (up d)) cs" by simp
  then have "list_all P (map up cs)" by (simp add: list.pred_map comp_def)
  with run cs(1) show "\<exists>cs. snd (run_io (embed up down m) l) = l @ cs \<and> list_all P cs" by auto
qed

lemma returns_embed: "returns m \<Longrightarrow> returns (embed up down m)"
  by (auto simp: returns_def embed_def Let_def split: prod.split) (metis fst_conv)

end

end
