(* ===== verification/WorkerCmd.thy ===== *)
theory WorkerCmd
  imports WorkerInit GoEmbed
begin

text \<open>
  The worker's command (\<open>tink-worker/cmd/tink-worker/cmd/root.go\<close>, \<open>main.go\<close>,
  \<open>internal/client\<close>): its flags, the configuration it takes from files and the environment, and
  the worker it starts. cobra and viper are libraries: what viper answers is a function of the
  calls made before, and \<open>Execute\<close> is what cobra documents of its own method.
\<close>

section \<open>Calls\<close>

datatype creds = CredsTLS | CredsInsecure

datatype cmd_call =
    CmdTink tw_call                         \<comment> \<open>a call of the worker\<close>
  | CmdBindFlags | CmdParse
  | CmdAutomaticEnv | CmdKeyReplacer string string | CmdConfigName string | CmdConfigPath string
  | CmdReadConfig
  | CmdOptional string                      \<comment> \<open>the flag is no longer required\<close>
  | CmdDial string creds | CmdContainerd string string
  | CmdExit int

type_synonym 'a cmd = "(cmd_call, 'a) io"

datatype config_reply = ConfigLoaded | ConfigNotFound | ConfigErr goerr

datatype parse_reply = ParseErr goerr | ParseHelp | ParseOk

record cmd_env =
  cmd_tink :: tw_env
  zap_build :: error
  vp_string :: "cmd_call list \<Rightarrow> string \<Rightarrow> string"
  vp_int :: "cmd_call list \<Rightarrow> string \<Rightarrow> int"
  vp_duration :: "cmd_call list \<Rightarrow> string \<Rightarrow> int"
  vp_bool :: "cmd_call list \<Rightarrow> string \<Rightarrow> bool"
  vp_is_set :: "cmd_call list \<Rightarrow> string \<Rightarrow> bool"
  vp_read_config :: "cmd_call list \<Rightarrow> config_reply"
  cb_parse :: "cmd_call list \<Rightarrow> parse_reply"
  cb_visited :: "string list"
  cb_missing :: "cmd_call list \<Rightarrow> error"
  grpc_dial :: "cmd_call list \<Rightarrow> string \<Rightarrow> creds \<Rightarrow> error"
  containerd_new :: "cmd_call list \<Rightarrow> error"

definition cmd_do :: "cmd_call \<Rightarrow> unit cmd" where
  "cmd_do c = call c (\<lambda>_. ())"

fun tink_part :: "cmd_call \<Rightarrow> tw_call option" where
  "tink_part (CmdTink c) = Some c"
| "tink_part _ = None"

interpretation tink: embedding CmdTink tink_part
  by unfold_locales (auto elim: tink_part.elims)

abbreviation as_tink :: "'a tw \<Rightarrow> 'a cmd" where
  "as_tink \<equiv> embed CmdTink tink_part"

abbreviation tink_calls :: "cmd_call list \<Rightarrow> tw_call list" where
  "tink_calls \<equiv> List.map_filter tink_part"

section \<open>Flags\<close>

datatype flag_value = FDuration int | FInt int | FInt64 int | FBool bool | FString string

record cmd_flag =
  cf_name :: string
  cf_short :: string
  cf_default :: flag_value

definition flag :: "string \<Rightarrow> flag_value \<Rightarrow> cmd_flag" where
  "flag n v = \<lparr>cf_name = n, cf_short = '''', cf_default = v\<rparr>"

definition flagP :: "string \<Rightarrow> string \<Rightarrow> flag_value \<Rightarrow> cmd_flag" where
  "flagP n s v = \<lparr>cf_name = n, cf_short = s, cf_default = v\<rparr>"

definition worker_flags :: "cmd_flag list" where
  "worker_flags = [
     flag ''retry-interval'' (FDuration (3 * second)),
     flag ''timeout'' (FDuration (60 * 60 * second)),
     flag ''max-retry'' (FInt 3),
     flag ''max-file-size'' (FInt64 (10 * 1024 * 1024)),
     flag ''capture-action-logs'' (FBool True),
     flag ''tinkerbell-tls'' (FBool True),
     flagP ''docker-registry'' ''r'' (FString ''''),
     flagP ''registry-username'' ''u'' (FString ''''),
     flagP ''registry-password'' ''p'' (FString ''''),
     flag ''pull-image-retry-interval'' (FDuration (5 * second)),
     flag ''pull-image-max-retry'' (FInt 5),
     flag ''pull-image-max-backoff'' (FDuration (60 * second)),
     flagP ''id'' ''i'' (FString ''''),
     flag ''tinkerbell-grpc-authority'' (FString '''')]"

definition required_flags :: "string list" where
  "required_flags = [''id'', ''tinkerbell-grpc-authority'']"

section \<open>Connections\<close>

definition NewClientConn :: "cmd_env \<Rightarrow> string \<Rightarrow> bool \<Rightarrow> error cmd" where
  "NewClientConn E authority tls = (let creds = (if tls then CredsTLS else CredsInsecure) in
     bnd (call (CmdDial authority creds) (\<lambda>l. grpc_dial E l authority creds)) (\<lambda>err.
       case err of Some e \<Rightarrow> ret (Some (PkgWrap e ''dial tinkerbell server'')) | None \<Rightarrow> ret None))"

definition NewContainerdManager :: "cmd_env \<Rightarrow> registry_details \<Rightarrow> cmgr cmd" where
  "NewContainerdManager E registryDetails =
     bnd (call (CmdContainerd ''/run/containerd/containerd.sock'' ''tinkerbell'') (containerd_new E)) (\<lambda>err.
       if err \<noteq> None then panic else ret (containerd_manager (cmd_tink E) registryDetails))"

section \<open>The command\<close>

fun set_optional :: "cmd_env \<Rightarrow> string list \<Rightarrow> unit cmd" where
  "set_optional E [] = ret ()"
| "set_optional E (f # fs) = bnd (ask (\<lambda>l. vp_is_set E l f)) (\<lambda>is_set.
     bnd (if is_set then cmd_do (CmdOptional f) else ret ()) (\<lambda>_. set_optional E fs))"

definition initViper :: "cmd_env \<Rightarrow> error cmd" where
  "initViper E =
     bnd (cmd_do CmdAutomaticEnv) (\<lambda>_.
     bnd (cmd_do (CmdConfigName ''tink-worker'')) (\<lambda>_.
     bnd (cmd_do (CmdConfigPath ''/etc/tinkerbell'')) (\<lambda>_.
     bnd (cmd_do (CmdConfigPath ''.'')) (\<lambda>_.
     bnd (cmd_do (CmdKeyReplacer ''-'' ''_'')) (\<lambda>_.
     bnd (call CmdReadConfig (vp_read_config E)) (\<lambda>r. case r of
       ConfigErr e \<Rightarrow> ret (Some e)
     | _ \<Rightarrow> bnd (set_optional E (cb_visited E)) (\<lambda>_. ret None)))))))"

definition PreRunE :: "cmd_env \<Rightarrow> error cmd" where
  "PreRunE E = bnd (as_tink (worker_Init (cmd_tink E))) (\<lambda>err. case err of
     Some e \<Rightarrow> ret (Some (PkgWrap e ''failed to initialize worker''))
   | None \<Rightarrow> initViper E)"

definition command_worker :: "cmd_env \<Rightarrow> cmd_call list \<Rightarrow> tink_worker" where
  "command_worker E l = NewWorker (vp_string E l ''id'') [
     WithMaxFileSize (vp_int E l ''max-file-size''),
     WithRetries (vp_duration E l ''retry-interval'') (vp_int E l ''max-retry''),
     WithPullImageRetries (vp_duration E l ''pull-image-retry-interval'') (vp_int E l ''pull-image-max-retry'')
       (vp_duration E l ''pull-image-max-backoff''),
     WithLogCapture (vp_bool E l ''capture-action-logs''),
     WithPrivileged True]"

definition command_registry :: "cmd_env \<Rightarrow> cmd_call list \<Rightarrow> registry_details" where
  "command_registry E l = \<lparr>rd_Registry = vp_string E l ''docker-registry'',
     rd_Username = vp_string E l ''registry-username'', rd_Password = vp_string E l ''registry-password''\<rparr>"

text \<open>\<open>Running\<close>: the fuel of the worker's loop was used up.\<close>

datatype run_end = Ended error | Running

definition RunE :: "cmd_env \<Rightarrow> nat \<Rightarrow> run_end cmd" where
  "RunE E n = bnd (ask (\<lambda>l. (command_worker E l, command_registry E l,
       vp_string E l ''tinkerbell-grpc-authority'', vp_bool E l ''tinkerbell-tls''))) (\<lambda>(w, registry, authority, tls).
     bnd (NewClientConn E authority tls) (\<lambda>err. if err \<noteq> None then ret (Ended err) else
     bnd (NewContainerdManager E registry) (\<lambda>M.
     bnd (as_tink (ProcessWorkflowActions (cmd_tink E) w M n)) (\<lambda>r.
       ret (if r = Unfinished then Running else Ended None)))))"

definition NewRootCommand :: "cmd_env \<Rightarrow> unit cmd" where
  "NewRootCommand E = (if zap_build E \<noteq> None then panic else cmd_do CmdBindFlags)"

text \<open>cobra parses the command line, which may ask for help or the version only, calls \<open>PreRunE\<close>,
  checks that the required flags are there, and calls \<open>RunE\<close>; the first error ends it.\<close>

definition Execute :: "cmd_env \<Rightarrow> nat \<Rightarrow> run_end cmd" where
  "Execute E n = bnd (call CmdParse (cb_parse E)) (\<lambda>p. case p of
     ParseErr e \<Rightarrow> ret (Ended (Some e))
   | ParseHelp \<Rightarrow> ret (Ended None)
   | ParseOk \<Rightarrow>
       bnd (PreRunE E) (\<lambda>err. if err \<noteq> None then ret (Ended err) else
       bnd (ask (cb_missing E)) (\<lambda>err. if err \<noteq> None then ret (Ended err) else RunE E n)))"

definition tink_worker_main :: "cmd_env \<Rightarrow> nat \<Rightarrow> run_end cmd" where
  "tink_worker_main E n = bnd (NewRootCommand E) (\<lambda>_. bnd (Execute E n) (\<lambda>r. case r of
     Ended (Some e) \<Rightarrow> bnd (cmd_do (CmdExit 1)) (\<lambda>_. ret r) | _ \<Rightarrow> ret r))"

section \<open>What the worker serves\<close>

text \<open>
  What viper documents of \<open>AutomaticEnv\<close> and the key replacer: a key that is not given on the
  command line has the value of its environment variable, unless that is empty. The variables
  that the worker's start has set are read off the calls.
\<close>

definition env_key :: "string \<Rightarrow> string" where
  "env_key n = map (\<lambda>c. if c = CHR ''-'' then CHR ''_''
     else if 97 \<le> (of_char c :: nat) \<and> (of_char c :: nat) \<le> 122 then char_of (of_char c - 32 :: nat) else c) n"

definition env_value :: "tw_call list \<Rightarrow> string \<Rightarrow> string option" where
  "env_value l k = map_of (rev (env_of l)) k"

definition viper_reads_env :: "cmd_env \<Rightarrow> string set \<Rightarrow> bool" where
  "viper_reads_env E given \<longleftrightarrow> (\<forall>l n v. CmdAutomaticEnv \<in> set l \<longrightarrow> CmdKeyReplacer ''-'' ''_'' \<in> set l \<longrightarrow>
     n \<notin> given \<longrightarrow> env_value (tink_calls l) (env_key n) = Some v \<longrightarrow> v \<noteq> '''' \<longrightarrow> vp_string E l n = v)"

text \<open>viper also documents that a key with no value anywhere has the default of its flag.\<close>

fun at_default :: "cmd_env \<Rightarrow> cmd_call list \<Rightarrow> string \<Rightarrow> flag_value \<Rightarrow> bool" where
  "at_default E l n (FDuration d) \<longleftrightarrow> vp_duration E l n = d"
| "at_default E l n (FInt i) \<longleftrightarrow> vp_int E l n = i"
| "at_default E l n (FInt64 i) \<longleftrightarrow> vp_int E l n = i"
| "at_default E l n (FBool b) \<longleftrightarrow> vp_bool E l n = b"
| "at_default E l n (FString s) \<longleftrightarrow> vp_string E l n = s"

section \<open>The calls of the command\<close>

lemma cmd_do_run [simp, io_run]: "run_io (cmd_do c) l = (Ret (), l @ [c])"
  by (simp add: cmd_do_def)

lemma emits_cmd_do [emits_intro]: "P c \<Longrightarrow> emits P (cmd_do c)"
  unfolding cmd_do_def by (intro emits_intro)

lemma path_calls: "path S l p cs q \<Longrightarrow> (\<And>l p c q. S l p c q \<Longrightarrow> P c) \<Longrightarrow> list_all P cs"
  by (induction rule: path.induct) auto

lemma asks_for_itself: "emits (\<lambda>c. \<forall>w. c = TkContexts w \<longrightarrow> w = w_workerID W) (ProcessWorkflowActions E W (containerd_manager E R) n)"
  unfolding emits_def
proof
  fix l
  have step: "wstep E (w_workerID W) fin l p c q \<Longrightarrow> \<forall>w. c = TkContexts w \<longrightarrow> w = w_workerID W" for fin l p c q
    by (auto elim!: wstep.cases)
  from cd.worker_follows_machine [of E W E R l n] obtain cs q where
    "snd (run_io (ProcessWorkflowActions E W (containerd_manager E R) n) l) = l @ cs"
    "path (wstep E (w_workerID W) (finished_ok (containerd_manager E R) (cd_ended E) W)) l Idle cs q"
    unfolding goes_def by blast
  moreover have "list_all (\<lambda>c. \<forall>w. c = TkContexts w \<longrightarrow> w = w_workerID W) cs"
    using calculation(2) by (rule path_calls) (rule step)
  ultimately show "\<exists>cs. snd (run_io (ProcessWorkflowActions E W (containerd_manager E R) n) l) = l @ cs \<and>
      list_all (\<lambda>c. \<forall>w. c = TkContexts w \<longrightarrow> w = w_workerID W) cs" by blast
qed

lemma quiet_set_envs: "emits quiet (set_envs E envs)"
  by (induction envs) (auto simp: set_env_def intro!: emits_intro)

lemma quiet_EnsureFolder [emits_intro]: "emits quiet (EnsureFolder E f)"
  by (rule emits_mono [OF emits_EnsureFolder]) (rule idle_not_tink)

lemma quiet_worker_Init: "emits quiet (worker_Init E)"
  unfolding worker_Init_def Let_def
  by (auto intro!: emits_intro quiet_set_envs)

definition set_up :: "cmd_call \<Rightarrow> bool" where
  "set_up c \<longleftrightarrow> (case c of CmdTink t \<Rightarrow> quiet t | CmdDial a cr \<Rightarrow> False | _ \<Rightarrow> True)"

lemma set_up_simps [simp]: "set_up (CmdTink t) \<longleftrightarrow> quiet t" "\<not> set_up (CmdDial a cr)" "set_up CmdBindFlags" "set_up CmdParse"
  "set_up CmdAutomaticEnv" "set_up (CmdKeyReplacer x y)" "set_up (CmdConfigName x)" "set_up (CmdConfigPath x)"
  "set_up CmdReadConfig" "set_up (CmdOptional x)" "set_up (CmdExit k)"
  by (simp_all add: set_up_def)

definition plain_set_up :: "cmd_call \<Rightarrow> bool" where
  "plain_set_up c \<longleftrightarrow> set_up c \<and> tink_part c = None"

lemma emits_set_optional: "emits plain_set_up (set_optional E fs)"
  by (induction fs) (auto intro!: emits_intro simp: plain_set_up_def)

lemma emits_initViper: "emits plain_set_up (initViper E)"
  unfolding initViper_def
  by (auto intro!: emits_intro emits_set_optional simp: plain_set_up_def split: config_reply.split)

lemma emits_PreRunE: "emits set_up (PreRunE E)"
  unfolding PreRunE_def
  by (auto intro!: emits_intro tink.emits_embed quiet_worker_Init emits_mono [OF emits_initViper] simp: plain_set_up_def)

lemma plain_tink_calls: "list_all plain_set_up cs \<Longrightarrow> tink_calls cs = []"
  by (induction cs) (auto simp: plain_set_up_def List.map_filter_simps)

lemma initViper_ready:
  "run_io (initViper E) l = (Ret None, l') \<Longrightarrow> CmdAutomaticEnv \<in> set l' \<and> CmdKeyReplacer ''-'' ''_'' \<in> set l'"
  by (auto simp: initViper_def split: config_reply.splits prod.splits outcome.splits
      dest!: emitsD [OF emits_set_optional])

text \<open>After \<open>PreRunE\<close> the environment is that of the kernel's command line.\<close>

lemma PreRunE_ready:
  assumes "run_io (PreRunE E) l = (Ret None, l')" and "tink_calls l = []"
  shows "CmdAutomaticEnv \<in> set l'" and "CmdKeyReplacer ''-'' ''_'' \<in> set l'"
    and "\<exists>l1 content. os_read_file (cmd_tink E) l1 ''/proc/cmdline'' = Inr content \<and>
      env_of (tink_calls l') = env_pairs (split_char CHR '' '' content)"
proof -
  from assms(1) obtain l1 where init: "run_io (as_tink (worker_Init (cmd_tink E))) l = (Ret None, l1)"
    and vp: "run_io (initViper E) l1 = (Ret None, l')"
    by (auto simp: PreRunE_def split: prod.splits outcome.splits option.splits)
  from initViper_ready [OF vp] show "CmdAutomaticEnv \<in> set l'" "CmdKeyReplacer ''-'' ''_'' \<in> set l'" by auto
  from emits_grows [OF quiet_worker_Init] init obtain cs where cs: "l1 = l @ map CmdTink cs"
    "run_io (worker_Init (cmd_tink E)) [] = (Ret None, cs)"
    by (rule tink.embed_run) (simp add: assms(2))
  from emitsD [OF emits_initViper vp] obtain ds where "l' = l1 @ ds" "list_all plain_set_up ds" by blast
  then have "tink_calls l' = cs"
    using assms(2) cs(1) by (simp add: tink.own_append tink.own_up plain_tink_calls)
  with init_sets_environment [OF cs(2)] show "\<exists>l1 content. os_read_file (cmd_tink E) l1 ''/proc/cmdline'' = Inr content \<and>
      env_of (tink_calls l') = env_pairs (split_char CHR '' '' content)" by auto
qed

lemma RunE_calls:
  assumes "run_io (RunE E n) l = (r, l')"
  shows "\<exists>cs. l' = l @ cs \<and> list_all (\<lambda>c. (\<forall>a cr. c = CmdDial a cr \<longrightarrow> a = vp_string E l ''tinkerbell-grpc-authority'') \<and>
     (\<forall>w. c = CmdTink (TkContexts w) \<longrightarrow> w = vp_string E l ''id'')) cs"
proof -
  let ?P = "\<lambda>c. (\<forall>a cr. c = CmdDial a cr \<longrightarrow> a = vp_string E l ''tinkerbell-grpc-authority'') \<and>
     (\<forall>w. c = CmdTink (TkContexts w) \<longrightarrow> w = vp_string E l ''id'')"
  have wid: "w_workerID (command_worker E l) = vp_string E l ''id''"
    by (simp add: command_worker_def NewWorker_def)
  have "emits ?P (as_tink (ProcessWorkflowActions (cmd_tink E) (command_worker E l) (containerd_manager (cmd_tink E) R) n))" for R
    by (rule tink.emits_embed) (rule emits_mono [OF asks_for_itself], simp add: wid)
  then have serve: "emits ?P (bnd (as_tink (ProcessWorkflowActions (cmd_tink E) (command_worker E l)
      (containerd_manager (cmd_tink E) R) n)) (\<lambda>r. ret (if r = Unfinished then Running else Ended None)))" for R
    by (intro emits_intro)
  have run: "emits ?P (bnd (NewContainerdManager E R) (\<lambda>M.
      bnd (as_tink (ProcessWorkflowActions (cmd_tink E) (command_worker E l) M n)) (\<lambda>r.
        ret (if r = Unfinished then Running else Ended None))))" for R
  proof (rule emits_bnd_run)
    show "emits ?P (NewContainerdManager E R)"
      unfolding NewContainerdManager_def by (auto intro!: emits_intro)
  next
    fix l1 M l2
    assume "run_io (NewContainerdManager E R) l1 = (Ret M, l2)"
    then have "M = containerd_manager (cmd_tink E) R" by (auto simp: NewContainerdManager_def split: if_splits)
    with serve show "emits ?P (bnd (as_tink (ProcessWorkflowActions (cmd_tink E) (command_worker E l) M n)) (\<lambda>r.
        ret (if r = Unfinished then Running else Ended None)))" by simp
  qed
  have "emits ?P (bnd (NewClientConn E (vp_string E l ''tinkerbell-grpc-authority'') (vp_bool E l ''tinkerbell-tls''))
      (\<lambda>err. if err \<noteq> None then ret (Ended err) else
     bnd (NewContainerdManager E (command_registry E l)) (\<lambda>M.
     bnd (as_tink (ProcessWorkflowActions (cmd_tink E) (command_worker E l) M n)) (\<lambda>r.
       ret (if r = Unfinished then Running else Ended None)))))"
    by (rule emits_bnd [OF _ emits_if [OF emits_ret run]]) (auto simp: NewClientConn_def Let_def intro!: emits_intro)
  from emitsD [OF this] assms show ?thesis by (simp add: RunE_def)
qed

lemma Execute_cases:
  assumes "run_io (Execute E n) l = (r, l')"
  obtains (stopped) cs where "l' = l @ cs" "list_all set_up cs"
  | (ran) l1 where "run_io (PreRunE E) (l @ [CmdParse]) = (Ret None, l1)" "run_io (RunE E n) l1 = (r, l')"
proof -
  obtain x l1 where pre: "run_io (PreRunE E) (l @ [CmdParse]) = (x, l1)" by fastforce
  from emitsD [OF emits_PreRunE pre] obtain cs where "l1 = (l @ [CmdParse]) @ cs" "list_all set_up cs" by blast
  then have "l1 = l @ CmdParse # cs" "list_all set_up (CmdParse # cs)" "list_all set_up [CmdParse]" by simp_all
  with assms pre stopped [of "CmdParse # cs"] stopped [of "[CmdParse]"] ran [of l1] show thesis
    by (auto simp: Execute_def split: parse_reply.splits outcome.splits if_splits)
qed

section \<open>The worker of the kernel's command line\<close>

lemma env_value_pairs:
  "env_of l = env_pairs ps \<Longrightarrow> env_value l (env_key ''id'') = Some (tc_workerID (parseCmdLine ps)) \<and>
     env_value l (env_key ''tinkerbell-grpc-authority'') = Some (tc_grpcAuthority (parseCmdLine ps))"
proof -
  have keys: "env_key ''id'' = ''ID''" "env_key ''tinkerbell-grpc-authority'' = ''TINKERBELL_GRPC_AUTHORITY''"
    by code_simp+
  assume "env_of l = env_pairs ps"
  then show ?thesis by (simp add: env_value_def env_pairs_def keys command_line_parameters)
qed

lemma dial_or_ask:
  assumes "run_io (Execute E n) l = (r, l')" and "list_all set_up l"
    and "CmdDial a cr \<in> set l' \<or> CmdTink (TkContexts w) \<in> set l'"
  shows "\<exists>l1. run_io (PreRunE E) (l @ [CmdParse]) = (Ret None, l1) \<and> run_io (RunE E n) l1 = (r, l')"
  using assms(1)
proof (cases rule: Execute_cases)
  case (stopped cs)
  then show ?thesis using assms(2,3) by (auto simp: list_all_iff)
qed blast

text \<open>
  C26. When viper reads the environment as it documents, the worker that the command starts is the
  one of the kernel's command line: unless the flags are given, it connects to the address
  \<open>grpc_authority\<close> and asks for the workflows of \<open>worker_id\<close>, as far as these are there.
\<close>

theorem worker_of_the_kernel_command_line:
  assumes "viper_reads_env E given" and "''id'' \<notin> given" and "''tinkerbell-grpc-authority'' \<notin> given"
    and "run_io (tink_worker_main E n) [] = (r, l)"
    and "CmdDial a cr \<in> set l \<or> CmdTink (TkContexts w) \<in> set l"
  shows "\<exists>l1 content. os_read_file (cmd_tink E) l1 ''/proc/cmdline'' = Inr content \<and>
    (let c = parseCmdLine (split_char CHR '' '' content) in
      (tc_grpcAuthority c \<noteq> '''' \<longrightarrow> (\<forall>a cr. CmdDial a cr \<in> set l \<longrightarrow> a = tc_grpcAuthority c)) \<and>
      (tc_workerID c \<noteq> '''' \<longrightarrow> (\<forall>w. CmdTink (TkContexts w) \<in> set l \<longrightarrow> w = tc_workerID c)))"
proof -
  have "zap_build E = None"
    using assms(4,5) by (auto simp: tink_worker_main_def NewRootCommand_def split: if_splits)
  with assms(4) obtain x l2 where "run_io (Execute E n) [CmdBindFlags] = (x, l2)" "l = l2 \<or> l = l2 @ [CmdExit 1]"
    by (auto simp: tink_worker_main_def NewRootCommand_def split: if_splits prod.splits outcome.splits
        run_end.splits option.splits)
  moreover from this(2) have same: "CmdDial a cr \<in> set l \<longleftrightarrow> CmdDial a cr \<in> set l2"
    "CmdTink c \<in> set l \<longleftrightarrow> CmdTink c \<in> set l2" for a cr c by auto
  ultimately obtain l1 where pre: "run_io (PreRunE E) [CmdBindFlags, CmdParse] = (Ret None, l1)"
    and run: "run_io (RunE E n) l1 = (x, l2)"
    using dial_or_ask [of E n "[CmdBindFlags]" x l2 a cr w] assms(5) by auto
  have "tink_calls [CmdBindFlags, CmdParse] = []" by (simp add: List.map_filter_simps)
  note ready = PreRunE_ready [OF pre this]
  from ready(3) obtain l3 content where content: "os_read_file (cmd_tink E) l3 ''/proc/cmdline'' = Inr content"
    "env_of (tink_calls l1) = env_pairs (split_char CHR '' '' content)" by blast
  let ?c = "parseCmdLine (split_char CHR '' '' content)"
  have ids: "tc_workerID ?c \<noteq> '''' \<longrightarrow> vp_string E l1 ''id'' = tc_workerID ?c"
    "tc_grpcAuthority ?c \<noteq> '''' \<longrightarrow> vp_string E l1 ''tinkerbell-grpc-authority'' = tc_grpcAuthority ?c"
    using assms(1-3) ready(1,2) env_value_pairs [OF content(2)] unfolding viper_reads_env_def by blast+
  from emitsD [OF emits_PreRunE pre] have "list_all set_up l1" by auto
  then have "CmdDial a cr \<notin> set l1" "CmdTink (TkContexts w) \<notin> set l1" for a cr w
    by (fastforce simp: list_all_iff)+
  with RunE_calls [OF run] have calls: "CmdDial a cr \<in> set l2 \<Longrightarrow> a = vp_string E l1 ''tinkerbell-grpc-authority''"
    "CmdTink (TkContexts w) \<in> set l2 \<Longrightarrow> w = vp_string E l1 ''id''" for a cr w
    by (auto simp: list_all_iff)
  have "tc_grpcAuthority ?c \<noteq> '''' \<longrightarrow> (\<forall>a cr. CmdDial a cr \<in> set l \<longrightarrow> a = tc_grpcAuthority ?c)"
    using ids(2) calls(1) same(1) by auto
  moreover have "tc_workerID ?c \<noteq> '''' \<longrightarrow> (\<forall>w. CmdTink (TkContexts w) \<in> set l \<longrightarrow> w = tc_workerID ?c)"
    using ids(1) calls(2) same(2) by auto
  ultimately show ?thesis unfolding Let_def using content(1) by blast
qed

text \<open>
  With nothing configured but the identity, the command runs the worker of the defaults of
  \<open>NewWorker\<close>, only that the output of actions is captured and that they are privileged.
\<close>

theorem unconfigured_command_runs_the_default_worker:
  assumes "\<forall>f \<in> set worker_flags. cf_name f \<noteq> ''id'' \<longrightarrow> at_default E l (cf_name f) (cf_default f)"
  shows "command_worker E l = NewWorker (vp_string E l ''id'') [WithLogCapture True, WithPrivileged True]"
  using assms by (simp add: command_worker_def NewWorker_def worker_flags_def flag_def flagP_def)

section \<open>A start\<close>

definition sample_cmd_env :: cmd_env where
  "sample_cmd_env = \<lparr>
     cmd_tink = sample_tw_env\<lparr>os_read_file := (\<lambda>_ _. Inr ''quiet worker_id=w1 grpc_authority=10.0.0.1:42113''),
       tw_done := (\<lambda>l. 30 < length l)\<rparr>,
     zap_build = None,
     vp_string = (\<lambda>l n. case env_value (tink_calls l) (env_key n) of Some v \<Rightarrow> v | None \<Rightarrow> ''''),
     vp_int = (\<lambda>l n. if n = ''max-file-size'' then 10 * 1024 * 1024 else if n = ''max-retry'' then 3 else 5),
     vp_duration = (\<lambda>l n. if n = ''retry-interval'' then 3 * second
       else if n = ''pull-image-retry-interval'' then 5 * second
       else if n = ''pull-image-max-backoff'' then 60 * second else 60 * 60 * second),
     vp_bool = (\<lambda>_ _. True),
     vp_is_set = (\<lambda>_ n. n \<in> {''id'', ''tinkerbell-grpc-authority''}),
     vp_read_config = (\<lambda>_. ConfigNotFound),
     cb_parse = (\<lambda>_. ParseOk),
     cb_visited = [''docker-registry'', ''id'', ''tinkerbell-grpc-authority''],
     cb_missing = (\<lambda>l. if CmdOptional ''id'' \<in> set l then None else Some (ForeignErr ''required flag(s) not set'' 0)),
     grpc_dial = (\<lambda>_ _ _. None),
     containerd_new = (\<lambda>_. None)\<rparr>"

lemma worker_of_the_kernel_command_line_witness:
  "\<exists>l1 content. os_read_file (cmd_tink sample_cmd_env) l1 ''/proc/cmdline'' = Inr content \<and>
    (let c = parseCmdLine (split_char CHR '' '' content) in
      (tc_grpcAuthority c \<noteq> '''' \<longrightarrow>
        (\<forall>a cr. CmdDial a cr \<in> set (calls_of (tink_worker_main sample_cmd_env 2)) \<longrightarrow> a = tc_grpcAuthority c)) \<and>
      (tc_workerID c \<noteq> '''' \<longrightarrow>
        (\<forall>w. CmdTink (TkContexts w) \<in> set (calls_of (tink_worker_main sample_cmd_env 2)) \<longrightarrow> w = tc_workerID c)))"
proof (rule worker_of_the_kernel_command_line)
  show "viper_reads_env sample_cmd_env {}"
    by (simp add: viper_reads_env_def sample_cmd_env_def)
  show "run_io (tink_worker_main sample_cmd_env 2) [] =
      (result_of (tink_worker_main sample_cmd_env 2), calls_of (tink_worker_main sample_cmd_env 2))"
    by (simp add: result_of_def calls_of_def)
  have "list_ex (\<lambda>c. c = CmdTink (TkContexts ''w1'')) (calls_of (tink_worker_main sample_cmd_env 2))"
    by code_simp
  then show "CmdDial ''10.0.0.1:42113'' CredsTLS \<in> set (calls_of (tink_worker_main sample_cmd_env 2)) \<or>
      CmdTink (TkContexts ''w1'') \<in> set (calls_of (tink_worker_main sample_cmd_env 2))"
    by (auto simp: list_ex_iff)
qed simp_all

lemma unconfigured_command_runs_the_default_worker_witness:
  "command_worker sample_cmd_env [] = NewWorker (vp_string sample_cmd_env [] ''id'') [WithLogCapture True, WithPrivileged True]"
proof (rule unconfigured_command_runs_the_default_worker)
  have "list_all (\<lambda>f. cf_name f \<noteq> ''id'' \<longrightarrow> at_default sample_cmd_env [] (cf_name f) (cf_default f)) worker_flags"
    by code_simp
  then show "\<forall>f \<in> set worker_flags. cf_name f \<noteq> ''id'' \<longrightarrow> at_default sample_cmd_env [] (cf_name f) (cf_default f)"
    by (simp add: list_all_iff)
qed

text \<open>The flag \<open>timeout\<close> is declared, but no run depends on its value.\<close>

lemma timeout_flag_is_ignored:
  "tink_worker_main (E\<lparr>vp_duration := \<lambda>l n. if n = ''timeout'' then d else vp_duration E l n\<rparr>) k = tink_worker_main E k"
proof -
  let ?E = "E\<lparr>vp_duration := \<lambda>l n. if n = ''timeout'' then d else vp_duration E l n\<rparr>"
  have "command_worker ?E = command_worker E" "command_registry ?E = command_registry E"
    by (auto simp: command_worker_def command_registry_def)
  moreover have "NewClientConn ?E = NewClientConn E" "NewContainerdManager ?E = NewContainerdManager E"
    by (intro ext, simp add: NewClientConn_def NewContainerdManager_def cong: if_cong)+
  ultimately have "RunE ?E k = RunE E k" unfolding RunE_def by (simp cong: if_cong)
  moreover have "set_optional ?E fs = set_optional E fs" for fs by (induction fs) simp_all
  then have "initViper ?E = initViper E"
    unfolding initViper_def by (simp cong: config_reply.case_cong)
  then have "PreRunE ?E = PreRunE E" unfolding PreRunE_def by (simp cong: option.case_cong)
  ultimately show ?thesis by (simp add: tink_worker_main_def NewRootCommand_def Execute_def cong: parse_reply.case_cong if_cong)
qed

end
