(* ===== verification/GoConv.thy ===== *)
theory GoConv
  imports GoNet
begin

text \<open>
  Conversions of Go's standard library that the programs outside of the Onboarding Manager use:
  \<open>strconv.Atoi\<close>, \<open>strconv.ParseBool\<close>, \<open>time.ParseDuration\<close>, \<open>bufio.Scanner\<close> on lines, and
  \<open>strings.Replace\<close>. A result of \<open>None\<close> is an error.
\<close>

section \<open>Numbers\<close>

definition digit_val :: "char \<Rightarrow> int" where
  "digit_val c = of_char c - 48"

definition digits_val :: "string \<Rightarrow> int" where
  "digits_val s = foldl (\<lambda>n c. 10 * n + digit_val c) 0 s"

definition unsigned_val :: "string \<Rightarrow> int option" where
  "unsigned_val s = (if s \<noteq> [] \<and> list_all is_digit s then Some (digits_val s) else None)"

definition in_int64 :: "int \<Rightarrow> int option" where
  "in_int64 n = (if - (2 ^ 63) \<le> n \<and> n < 2 ^ 63 then Some n else None)"

definition Atoi :: "string \<Rightarrow> int option" where
  "Atoi s = (case s of
     c # s' \<Rightarrow>
       if c = CHR ''-'' then Option.bind (unsigned_val s') (\<lambda>n. in_int64 (- n))
       else if c = CHR ''+'' then Option.bind (unsigned_val s') in_int64
       else Option.bind (unsigned_val s) in_int64
   | [] \<Rightarrow> None)"

definition ParseBool :: "string \<Rightarrow> bool option" where
  "ParseBool s =
     (if s \<in> {''1'', ''t'', ''T'', ''TRUE'', ''true'', ''True''} then Some True
      else if s \<in> {''0'', ''f'', ''F'', ''FALSE'', ''false'', ''False''} then Some False
      else None)"

section \<open>Durations\<close>

text \<open>The nanoseconds of a unit; the two micro signs are U+00B5 and U+03BC in UTF-8.\<close>

definition unit_ns :: "string \<Rightarrow> int option" where
  "unit_ns u =
     (if u = ''ns'' then Some 1
      else if u = ''us'' \<or> u = [CHR 0xC2, CHR 0xB5, CHR ''s''] \<or> u = [CHR 0xCE, CHR 0xBC, CHR ''s'']
        then Some 1000
      else if u = ''ms'' then Some 1000000
      else if u = ''s'' then Some 1000000000
      else if u = ''m'' then Some 60000000000
      else if u = ''h'' then Some 3600000000000
      else None)"

text \<open>One element: digits, possibly a fraction, and a unit; the fraction is rounded down
  (Go computes it in floating point, which can differ by a nanosecond).\<close>

definition duration_elem :: "string \<Rightarrow> (int \<times> string) option" where
  "duration_elem s =
     (let ds = takeWhile is_digit s; r = dropWhile is_digit s;
          (fs, r') = (case r of c # t \<Rightarrow> if c = CHR ''.'' then (takeWhile is_digit t, dropWhile is_digit t) else ([], r)
                             | [] \<Rightarrow> ([], []));
          u = takeWhile (\<lambda>c. c \<noteq> CHR ''.'' \<and> \<not> is_digit c) r';
          rest = dropWhile (\<lambda>c. c \<noteq> CHR ''.'' \<and> \<not> is_digit c) r'
      in if ds = [] \<and> fs = [] \<or> digits_val ds > 2 ^ 63 then None
         else (case unit_ns u of
             None \<Rightarrow> None
           | Some n \<Rightarrow>
               (let v = digits_val ds * n + digits_val fs * n div 10 ^ length fs
                in if v > 2 ^ 63 then None else Some (v, rest))))"

text \<open>The sum of the elements, at most \<open>2 ^ 63\<close>; an element is never empty, so the length of
  the text is enough fuel.\<close>

fun duration_sum :: "nat \<Rightarrow> int \<Rightarrow> string \<Rightarrow> int option" where
  "duration_sum n d [] = Some d"
| "duration_sum 0 d (c # s) = None"
| "duration_sum (Suc n) d (c # s) = (case duration_elem (c # s) of
     None \<Rightarrow> None
   | Some (v, rest) \<Rightarrow> if d + v > 2 ^ 63 then None else duration_sum n (d + v) rest)"

definition ParseDuration :: "string \<Rightarrow> int option" where
  "ParseDuration s0 =
     (let neg = (s0 \<noteq> [] \<and> hd s0 = CHR ''-'');
          s = (if s0 \<noteq> [] \<and> (hd s0 = CHR ''-'' \<or> hd s0 = CHR ''+'') then tl s0 else s0)
      in if s = ''0'' then Some 0
         else if s = '''' then None
         else (case duration_sum (length s) 0 s of
             None \<Rightarrow> None
           | Some d \<Rightarrow> if neg then Some (- d) else if d > 2 ^ 63 - 1 then None else Some d))"

section \<open>Lines\<close>

text \<open>\<open>bufio.Scanner\<close>: lines without their ends (and one carriage return); a line of more than
  65535 bytes stops the scan with an error (\<open>True\<close>).\<close>

definition drop_cr :: "string \<Rightarrow> string" where
  "drop_cr s = (if s \<noteq> [] \<and> last s = CHR 0x0D then butlast s else s)"

fun scan_pieces :: "string list \<Rightarrow> string list \<times> bool" where
  "scan_pieces [] = ([], False)"
| "scan_pieces [p] = (if 65535 < length p then ([], True) else if p = [] then ([], False) else ([drop_cr p], False))"
| "scan_pieces (p # q # ps) =
     (if 65535 < length p then ([], True)
      else (case scan_pieces (q # ps) of (ls, e) \<Rightarrow> (drop_cr p # ls, e)))"

definition scan_lines :: "string \<Rightarrow> string list \<times> bool" where
  "scan_lines content = scan_pieces (split_char CHR 0x0A content)"

section \<open>Replacing\<close>

definition replace_char :: "char \<Rightarrow> string \<Rightarrow> string \<Rightarrow> string" where
  "replace_char c new s = concat (map (\<lambda>x. if x = c then new else [x]) s)"

text \<open>The first occurrence of \<open>old\<close>.\<close>

fun replace_first :: "string \<Rightarrow> string \<Rightarrow> string \<Rightarrow> string" where
  "replace_first old new [] = (if old = [] then new else [])"
| "replace_first old new (c # s) =
     (if has_prefix (c # s) old then new @ drop (length old) (c # s)
      else c # replace_first old new s)"

end
