(* ===== verification/DiscoApi.thy ===== *)
theory DiscoApi
  imports GoConv GoErrors Inventory Validate
begin

text \<open>
  The device discovery of the installation OS (\<open>hook-os/device_discovery\<close>): the calls it makes
  to the operating system, the onboarding services and the identity provider, and the
  environment \<open>dd_env\<close> that answers them. The variables of the process are read off the history
  of \<open>DdSetenv\<close> calls, on top of those it was started with. The messages of the services are
  those of the Onboarding Manager, as they arrive on the wire: a status may be missing, and the
  state of a node is a number.
\<close>

section \<open>Messages on the wire\<close>

record wire_resp =
  wr_Status :: "(int \<times> string) option"
  wr_NodeState :: int
  wr_ClientId :: string
  wr_ClientSecret :: string
  wr_ProjectId :: string

section \<open>Calls\<close>

datatype dd_ctx = Background | WithTimeout int

record http_resp =
  ht_StatusCode :: int
  ht_Status :: string
  ht_Body :: string
  ht_ReadErr :: error

text \<open>Of a network interface: its name and hardware address. \<open>dd_addrs\<close> gives the bytes of the IP
  of each of its addresses, or none for an address of another kind.\<close>

record dd_iface =
  if_Name :: string
  if_Mac :: string

datatype dd_call =
    DdOpen string | DdReadFile string | DdSetenv string string | DdWriteHosts string string
  | DdDmidecode string | DdInterfaces | DdAddrs string
  | DdDial dd_ctx string | DdCloseConn | DdOpenStream | DdCloseSend | DdSend stream_req | DdRecv
  | DdSleep int
  | DdTruncate string | DdWrite string string | DdCloseFile string
  | DdPostToken string string string | DdGetRelease string string | DdCloseBody
  | DdStartAuth dd_ctx | DdWaitAuth | DdKillAuth
  | DdDialOAuth dd_ctx string string | DdCreateNodes "node_data list"

type_synonym 'a dd = "(dd_call, 'a) io"

record dd_env =
  dd_environ :: "string \<Rightarrow> string option"
  dd_open :: "dd_call list \<Rightarrow> string \<Rightarrow> goerr + string \<times> error"
  dd_read_file :: "dd_call list \<Rightarrow> string \<Rightarrow> goerr + string"
  dd_write_hosts :: "dd_call list \<Rightarrow> string \<Rightarrow> error"
  dd_dmidecode :: "dd_call list \<Rightarrow> string \<Rightarrow> goerr + string"
  dd_interfaces :: "dd_call list \<Rightarrow> goerr + dd_iface list"
  dd_addrs :: "dd_call list \<Rightarrow> string \<Rightarrow> goerr + nat list option list"
  dd_pem_ok :: "string \<Rightarrow> bool"
  dd_dial :: "dd_call list \<Rightarrow> string \<Rightarrow> error"
  dd_open_stream :: "dd_call list \<Rightarrow> error"
  dd_send :: "dd_call list \<Rightarrow> stream_req \<Rightarrow> error"
  dd_recv :: "dd_call list \<Rightarrow> goerr + wire_resp option"
  dd_random :: "dd_call list \<Rightarrow> nat"
  dd_truncate :: "dd_call list \<Rightarrow> string \<Rightarrow> error"
  dd_write :: "dd_call list \<Rightarrow> string \<Rightarrow> string \<Rightarrow> error"
  dd_url_error :: "string \<Rightarrow> error"
  dd_post_token :: "dd_call list \<Rightarrow> string \<Rightarrow> string \<Rightarrow> string \<Rightarrow> goerr + http_resp"
  dd_get_release :: "dd_call list \<Rightarrow> string \<Rightarrow> string \<Rightarrow> goerr + http_resp"
  dd_json_token :: "string \<Rightarrow> goerr + string option"
  dd_start_auth :: "dd_call list \<Rightarrow> error"
  dd_wait_auth :: "dd_call list \<Rightarrow> error option"
  dd_dial_oauth :: "dd_call list \<Rightarrow> string \<Rightarrow> string \<Rightarrow> error"
  dd_create_nodes :: "dd_call list \<Rightarrow> node_data list \<Rightarrow> goerr + string"

text \<open>How the process ends: it returns, or it exits with status 1 (\<open>log.Fatal\<close>, \<open>os.Exit(1)\<close>),
  which skips deferred functions.\<close>

datatype finish = Done | Exit1

text \<open>The rest runs only after a call without error; an error ends the process.\<close>

definition or_fatal :: "(dd_call, error) io \<Rightarrow> finish dd \<Rightarrow> finish dd" where
  "or_fatal m n = bnd m (\<lambda>err. if err \<noteq> None then ret Exit1 else n)"

definition got_or_fatal :: "(dd_call, goerr + 'a) io \<Rightarrow> ('a \<Rightarrow> finish dd) \<Rightarrow> finish dd" where
  "got_or_fatal m f = bnd m (\<lambda>r. case r of Inl e \<Rightarrow> ret Exit1 | Inr x \<Rightarrow> f x)"

definition dd_done :: "dd_call \<Rightarrow> unit dd" where
  "dd_done c = call c (\<lambda>_. ())"

end
