(* ===== verification/Discovery.thy ===== *)
theory Discovery
  imports DiscoApi
begin

text \<open>
  What device discovery learns about its configuration and its machine
  (\<open>device-discovery.go\<close>, \<open>parse-kernel-arguments.go\<close>, \<open>system_info_by_mac.go\<close>).
\<close>

section \<open>Environment\<close>

text \<open>\<open>os.Setenv\<close> refuses an empty name and a NUL byte; its error is ignored. The names come out
  of a split at the first equals sign and contain none.\<close>

definition setenv_ok :: "string \<Rightarrow> string \<Rightarrow> bool" where
  "setenv_ok k v \<longleftrightarrow> k \<noteq> '''' \<and> CHR ''='' \<notin> set k \<and> CHR 0x00 \<notin> set k \<and> CHR 0x00 \<notin> set v"

fun env_after :: "(string \<Rightarrow> string option) \<Rightarrow> dd_call list \<Rightarrow> string \<Rightarrow> string option" where
  "env_after env [] = env"
| "env_after env (DdSetenv k v # cs) = env_after (if setenv_ok k v then env(k \<mapsto> v) else env) cs"
| "env_after env (c # cs) = env_after env cs"

definition LookupEnv :: "dd_env \<Rightarrow> string \<Rightarrow> string option dd" where
  "LookupEnv E k = ask (\<lambda>l. env_after (dd_environ E) l k)"

fun set_lines :: "string list \<Rightarrow> unit dd" where
  "set_lines [] = ret ()"
| "set_lines (line # ls) =
     bnd (if 0 < length line \<and> line ! 0 \<noteq> CHR ''#'' then
            (case split_first CHR ''='' line of
               (k, Some v) \<Rightarrow> dd_done (DdSetenv (trim_space k) (trim_space v))
             | (k, None) \<Rightarrow> ret ())
          else ret ()) (\<lambda>_. set_lines ls)"

definition scan_error :: goerr where
  "scan_error = ForeignErr ''bufio.Scanner: token too long'' 0"

definition loadEnvConfig :: "dd_env \<Rightarrow> string \<Rightarrow> error dd" where
  "loadEnvConfig E path = bnd (call (DdOpen path) (\<lambda>l. dd_open E l path)) (\<lambda>r.
     case r of
       Inl e \<Rightarrow> ret (Some e)
     | Inr (content, readErr) \<Rightarrow> with_defer
         (case scan_lines content of (ls, too_long) \<Rightarrow>
            bnd (set_lines ls) (\<lambda>_. ret (if too_long then Some scan_error else readErr)))
         (\<lambda>_. dd_done (DdCloseFile path)))"

fun required_vars :: "dd_env \<Rightarrow> (string \<Rightarrow> string option) \<Rightarrow> string list \<Rightarrow> (goerr + (string \<Rightarrow> string option)) dd" where
  "required_vars E m [] = ret (Inr m)"
| "required_vars E m (key # keys) = bnd (LookupEnv E key) (\<lambda>r.
     case r of
       None \<Rightarrow> ret (Inl (FmtErrorf (''environment variable '' @ key @ '' is missing'') None))
     | Some value \<Rightarrow>
         if value = '''' then ret (Inl (FmtErrorf (''environment variable '' @ key @ '' is missing'') None))
         else required_vars E (m(key \<mapsto> value)) keys)"

fun optional_vars :: "dd_env \<Rightarrow> (string \<Rightarrow> string option) \<Rightarrow> string list \<Rightarrow> (string \<Rightarrow> string option) dd" where
  "optional_vars E m [] = ret m"
| "optional_vars E m (key # keys) = bnd (LookupEnv E key) (\<lambda>r.
     case r of
       None \<Rightarrow> optional_vars E m keys
     | Some value \<Rightarrow> if value = '''' then optional_vars E m keys
         else optional_vars E (m(key \<mapsto> value)) keys)"

definition readEnvVars :: "dd_env \<Rightarrow> string list \<Rightarrow> string list \<Rightarrow> (goerr + (string \<Rightarrow> string option)) dd" where
  "readEnvVars E required optional =
     if_ok (required_vars E Map.empty required) (\<lambda>m. bnd (optional_vars E m optional) (\<lambda>m'. ret (Inr m')))"

definition updateHosts :: "dd_env \<Rightarrow> string \<Rightarrow> error dd" where
  "updateHosts E extraHosts =
     (if extraHosts \<noteq> '''' then
        (let needed = replace_char CHR 0x22 '''' (replace_char CHR '','' [CHR 0x0A] extraHosts)
         in bnd (call (DdWriteHosts ''/etc/hosts'' needed) (\<lambda>l. dd_write_hosts E l needed)) (\<lambda>err.
              if err \<noteq> None then ret (Some (FmtErrorf ''error updating /etc/hosts'' err)) else ret None))
      else ret None)"

definition saveToFile :: "dd_env \<Rightarrow> string \<Rightarrow> string \<Rightarrow> error dd" where
  "saveToFile E path data = bnd (call (DdTruncate path) (\<lambda>l. dd_truncate E l path)) (\<lambda>err.
     if err \<noteq> None then ret err
     else with_defer (call (DdWrite path data) (\<lambda>l. dd_write E l path data))
       (\<lambda>_. dd_done (DdCloseFile path)))"

section \<open>Kernel arguments\<close>

record tinkConfig =
  kc_workerID :: string
  kc_debug :: string
  kc_timeout :: string

text \<open>Index 1 of the pieces of an argument: an argument without the separator panics.\<close>

definition piece1 :: "string list \<Rightarrow> string outcome" where
  "piece1 ps = (case ps of _ # v # _ \<Rightarrow> Ret v | _ \<Rightarrow> Panic)"

definition kernel_arg :: "tinkConfig \<Rightarrow> string \<Rightarrow> tinkConfig outcome" where
  "kernel_arg cfg arg = (let ps = split_char CHR ''='' arg in
     if ps = [] then Ret cfg
     else if hd ps = ''worker_id'' then
       (case piece1 ps of Ret v \<Rightarrow> Ret (cfg\<lparr>kc_workerID := v\<rparr>) | Panic \<Rightarrow> Panic)
     else if hd ps = ''DEBUG'' then
       (case piece1 ps of Ret v \<Rightarrow> Ret (cfg\<lparr>kc_debug := v\<rparr>) | Panic \<Rightarrow> Panic)
     else if hd ps = ''TIMEOUT'' then
       (case piece1 ps of Ret v \<Rightarrow> Ret (cfg\<lparr>kc_timeout := v\<rparr>) | Panic \<Rightarrow> Panic)
     else Ret cfg)"

fun kernel_args :: "tinkConfig \<Rightarrow> string list \<Rightarrow> tinkConfig outcome" where
  "kernel_args cfg [] = Ret cfg"
| "kernel_args cfg (arg # args) =
     (case kernel_arg cfg arg of Ret cfg' \<Rightarrow> kernel_args cfg' args | Panic \<Rightarrow> Panic)"

definition dd_parseCmdLine :: "string list \<Rightarrow> tinkConfig outcome" where
  "dd_parseCmdLine cmdLines = kernel_args \<lparr>kc_workerID = '''', kc_debug = '''', kc_timeout = ''''\<rparr> cmdLines"

definition parseKernelArguments :: "dd_env \<Rightarrow> string \<Rightarrow> (goerr + tinkConfig) dd" where
  "parseKernelArguments E path = bnd (call (DdReadFile path) (\<lambda>l. dd_read_file E l path)) (\<lambda>r.
     case r of
       Inl e \<Rightarrow> ret (Inl e)
     | Inr content \<Rightarrow> bnd (of_outcome (dd_parseCmdLine (split_char CHR '' '' content))) (\<lambda>cfg. ret (Inr cfg)))"

section \<open>The machine\<close>

definition dmidecode :: "dd_env \<Rightarrow> string \<Rightarrow> string \<Rightarrow> (goerr + string) dd" where
  "dmidecode E key msg = bnd (call (DdDmidecode key) (\<lambda>l. dd_dmidecode E l key)) (\<lambda>r.
     case r of Inl e \<Rightarrow> ret (Inl (FmtErrorf msg (Some e))) | Inr out \<Rightarrow> ret (Inr (trim_space out)))"

definition getSerialNumber :: "dd_env \<Rightarrow> (goerr + string) dd" where
  "getSerialNumber E = dmidecode E ''system-serial-number'' ''failed to get serial number''"

definition getUUID :: "dd_env \<Rightarrow> (goerr + string) dd" where
  "getUUID E = dmidecode E ''system-uuid'' ''failed to get UUID''"

text \<open>\<open>net.IP.To4\<close>: four bytes, or the last four of an IPv4 address mapped into IPv6.\<close>

definition To4 :: "nat list option \<Rightarrow> nat list option" where
  "To4 ip = (case ip of
     None \<Rightarrow> None
   | Some bs \<Rightarrow>
       if length bs = 4 then Some bs
       else if length bs = 16 \<and> take 12 bs = replicate 10 0 @ [255, 255] then Some (drop 12 bs)
       else None)"

definition IsLoopback :: "nat list option \<Rightarrow> bool" where
  "IsLoopback ip = (case To4 ip of
     Some b \<Rightarrow> b ! 0 = 127
   | None \<Rightarrow> ip = Some (replicate 15 0 @ [1]))"

definition show_ip4 :: "nat list \<Rightarrow> string" where
  "show_ip4 b = join_with ''.'' (map show_nat b)"

fun first_ip4 :: "nat list option list \<Rightarrow> string option" where
  "first_ip4 [] = None"
| "first_ip4 (ip # ips) = (case To4 ip of
     Some b \<Rightarrow> if \<not> IsLoopback ip then Some (show_ip4 b) else first_ip4 ips
   | None \<Rightarrow> first_ip4 ips)"

fun scan_ifaces :: "dd_env \<Rightarrow> string \<Rightarrow> dd_iface list \<Rightarrow> (goerr + string) dd" where
  "scan_ifaces E macAddr [] = ret (Inl (FmtErrorf (''no IP address found for MAC address '' @ macAddr) None))"
| "scan_ifaces E macAddr (i # is) =
     (if if_Mac i = macAddr then
        if_ok (bnd (call (DdAddrs (if_Name i)) (\<lambda>l. dd_addrs E l (if_Name i))) (\<lambda>r. case r of
            Inl e \<Rightarrow> ret (Inl (FmtErrorf (''failed to get addresses for interface '' @ if_Name i) (Some e)))
          | Inr addrs \<Rightarrow> ret (Inr addrs))) (\<lambda>addrs.
        case first_ip4 addrs of
          Some ip \<Rightarrow> ret (Inr ip)
        | None \<Rightarrow> scan_ifaces E macAddr is)
      else scan_ifaces E macAddr is)"

definition getIPAddress :: "dd_env \<Rightarrow> string \<Rightarrow> (goerr + string) dd" where
  "getIPAddress E macAddr = bnd (call DdInterfaces (\<lambda>l. dd_interfaces E l)) (\<lambda>r.
     case r of
       Inl e \<Rightarrow> ret (Inl (FmtErrorf ''failed to get network interfaces'' (Some e)))
     | Inr is \<Rightarrow> scan_ifaces E macAddr is)"

end
