(* ===== verification/Enrol.thy ===== *)
theory Enrol
  imports Discovery
begin

text \<open>
  How device discovery onboards its machine (\<open>onboarding-client.go\<close>, \<open>client-secret-auth.go\<close>
  and the rest of \<open>device-discovery.go\<close>): it asks on the stream until the machine is onboarded
  and then fetches its tokens, or it falls back to the interactive service when the machine is
  not known. The loop of the stream client takes fuel.
\<close>

definition tokenFolder :: string where "tokenFolder = ''/dev/shm''"
definition envConfigPath :: string where "envConfigPath = ''/etc/hook/env_config''"
definition accessTokenFile :: string where "accessTokenFile = tokenFolder @ ''/idp_access_token''"
definition releaseTokenFile :: string where "releaseTokenFile = tokenFolder @ ''/release_token''"
definition keycloakTokenURL :: string where
  "keycloakTokenURL = ''/realms/master/protocol/openid-connect/token''"
definition releaseTokenURL :: string where "releaseTokenURL = ''/token''"
definition clientCredentialsFolder :: string where "clientCredentialsFolder = ''/dev/shm/''"
definition clientIDPath :: string where "clientIDPath = clientCredentialsFolder @ ''/client_id''"
definition clientSecretPath :: string where
  "clientSecretPath = clientCredentialsFolder @ ''/client_secret''"
definition kernelArgsFilePath :: string where "kernelArgsFilePath = ''/host_proc_cmdline''"
definition caCertPath :: string where "caCertPath = ''/usr/local/share/ca-certificates/ca.crt''"
definition projectIDPath :: string where "projectIDPath = clientCredentialsFolder @ ''/project_id''"

definition show_int :: "int \<Rightarrow> string" where
  "show_int n = (if n < 0 then CHR ''-'' # show_nat (nat (- n)) else show_nat (nat n))"

definition dial_target :: "string \<Rightarrow> int \<Rightarrow> string" where
  "dial_target address port = address @ '':'' @ show_int port"

section \<open>The stream client\<close>

definition load_ca_or :: "string \<Rightarrow> dd_env \<Rightarrow> string \<Rightarrow> error dd" where
  "load_ca_or msg E path = bnd (call (DdReadFile path) (\<lambda>l. dd_read_file E l path)) (\<lambda>r. case r of
       Inl e \<Rightarrow> ret (Some (FmtErrorf ''failed to read CA certificate'' (Some e)))
     | Inr caCert \<Rightarrow> if \<not> dd_pem_ok E caCert then ret (Some (FmtErrorf msg None)) else ret None)"

definition load_ca :: "dd_env \<Rightarrow> string \<Rightarrow> error dd" where
  "load_ca = load_ca_or ''failed to append CA certificate to cert pool''"

definition createSecureConnection :: "dd_env \<Rightarrow> dd_ctx \<Rightarrow> string \<Rightarrow> string \<Rightarrow> error dd" where
  "createSecureConnection E ctx target path =
     if_nil (load_ca E path) (call (DdDial ctx target) (\<lambda>l. dd_dial E l target))"

text \<open>The result of the client: the credentials or an error, and whether to fall back.\<close>

type_synonym enrolment = "(goerr + string \<times> string) \<times> bool"

definition give_up :: "string \<Rightarrow> error \<Rightarrow> enrolment" where
  "give_up msg e = (Inl (FmtErrorf msg e), False)"

definition io_EOF :: goerr where
  "io_EOF = ForeignErr ''EOF'' 0"

definition second_ns :: int where
  "second_ns = 1000000000"

definition next_backoff :: "int \<Rightarrow> int" where
  "next_backoff backoff = (if 2 * backoff > 32 * second_ns then 2 * second_ns else 2 * backoff)"

text \<open>What a received response makes the client do: ask again, or stop with a result.\<close>

datatype reaction = Again | Stop enrolment

definition onboarded_reaction :: "dd_env \<Rightarrow> wire_resp \<Rightarrow> reaction dd" where
  "onboarded_reaction E resp =
     (if wr_ProjectId resp = '''' then ret (Stop (give_up ''received empty Project ID'' None))
      else bnd (saveToFile E projectIDPath (wr_ProjectId resp)) (\<lambda>err.
        if err \<noteq> None then ret (Stop (give_up ''failed to save Project ID to file'' err))
        else if wr_ClientId resp = '''' \<or> wr_ClientSecret resp = '''' then
          ret (Stop (give_up ''received empty clientID or clientSecret'' None))
        else ret (Stop (Inr (wr_ClientId resp, wr_ClientSecret resp), False))))"

definition react :: "dd_env \<Rightarrow> wire_resp \<Rightarrow> reaction dd" where
  "react E resp = bnd (deref (wr_Status resp)) (\<lambda>(scode, msg).
     if scode = code_num OK then
       (if wr_NodeState resp = 1 then ret Again
        else if wr_NodeState resp = 2 then onboarded_reaction E resp
        else if wr_NodeState resp = 0 then ret (Stop (give_up ''edge node state is unspecified or unknown'' None))
        else ret (Stop (give_up ''unknown node state'' None)))
     else if scode = code_num NotFound then ret (Stop (Inl (FmtErrorf msg None), True))
     else ret (Stop (give_up msg None)))"

fun ask_server :: "dd_env \<Rightarrow> stream_req \<Rightarrow> int \<Rightarrow> nat \<Rightarrow> enrolment option dd" where
  "ask_server E request backoff 0 = ret None"
| "ask_server E request backoff (Suc n) =
     bnd (call (DdSend request) (\<lambda>l. dd_send E l request)) (\<lambda>err.
     if err \<noteq> None then ret (Some (give_up ''could not send data to server'' err)) else
     bnd (call DdRecv (\<lambda>l. dd_recv E l)) (\<lambda>r. case r of
       Inl e \<Rightarrow>
         if e = io_EOF then ret (Some (give_up ''stream closed by server'' None))
         else ret (Some (give_up ''error receiving response from server'' (Some e)))
     | Inr None \<Rightarrow> ret (Some (give_up ''received nil response from server'' None))
     | Inr (Some resp) \<Rightarrow> bnd (react E resp) (\<lambda>a. case a of
         Stop result \<Rightarrow> ret (Some result)
       | Again \<Rightarrow>
           bnd (ask (\<lambda>l. int (dd_random E l mod 1000))) (\<lambda>jitter.
           bnd (dd_done (DdSleep (backoff + jitter * 1000000))) (\<lambda>_.
           ask_server E request (next_backoff backoff) n)))))"

definition grpcStreamClient ::
  "dd_env \<Rightarrow> dd_ctx \<Rightarrow> string \<Rightarrow> int \<Rightarrow> stream_req \<Rightarrow> string \<Rightarrow> nat \<Rightarrow> enrolment option dd" where
  "grpcStreamClient E ctx address port request path n =
     bnd (createSecureConnection E ctx (dial_target address port) path) (\<lambda>err.
     if err \<noteq> None then ret (Some (give_up ''failed to connect'' err)) else
     with_defer
       (bnd (call DdOpenStream (\<lambda>l. dd_open_stream E l)) (\<lambda>err.
          if err \<noteq> None then ret (Some (give_up ''could not create stream'' err))
          else with_defer (ask_server E request (2 * second_ns) n) (\<lambda>_. dd_done DdCloseSend)))
       (\<lambda>_. dd_done DdCloseConn))"

section \<open>Tokens\<close>

definition loadCACertPool :: "dd_env \<Rightarrow> string \<Rightarrow> error dd" where
  "loadCACertPool = load_ca_or ''failed to append CA certificate''"

definition fetchAccessToken :: "dd_env \<Rightarrow> string \<Rightarrow> string \<Rightarrow> string \<Rightarrow> string \<Rightarrow> (goerr + string) dd" where
  "fetchAccessToken E keycloakURL clientID clientSecret path =
     (let url = ''https://'' @ keycloakURL in
      case dd_url_error E url of Some e \<Rightarrow> ret (Inl e) | None \<Rightarrow>
      bnd (loadCACertPool E path) (\<lambda>err.
      if err \<noteq> None then ret (Inl (FmtErrorf ''error loading CA certificate'' err)) else
      bnd (call (DdPostToken url clientID clientSecret) (\<lambda>l. dd_post_token E l url clientID clientSecret)) (\<lambda>r. case r of
        Inl e \<Rightarrow> ret (Inl e)
      | Inr resp \<Rightarrow> with_defer
          (if ht_StatusCode resp \<noteq> 200 then
             ret (Inl (FmtErrorf (''failed to get access token, status: '' @ ht_Status resp) None))
           else (case dd_json_token E (ht_Body resp) of
             Inl e \<Rightarrow> ret (Inl e)
           | Inr None \<Rightarrow> ret (Inl (FmtErrorf ''access token not found in response'' None))
           | Inr (Some token) \<Rightarrow>
               if token = '''' then ret (Inl (FmtErrorf ''access token not found in response'' None))
               else ret (Inr token)))
          (\<lambda>_. dd_done DdCloseBody))))"

definition fetchReleaseToken :: "dd_env \<Rightarrow> string \<Rightarrow> string \<Rightarrow> string \<Rightarrow> (goerr + string) dd" where
  "fetchReleaseToken E releaseServerURL accessToken path =
     (if accessToken = '''' then ret (Inl (FmtErrorf ''access token is required'' None)) else
      bnd (loadCACertPool E path) (\<lambda>err.
      if err \<noteq> None then ret (Inl (FmtErrorf ''error loading CA certificate'' err)) else
      let url = ''https://'' @ releaseServerURL in
      case dd_url_error E url of
        Some e \<Rightarrow> ret (Inl (FmtErrorf ''error creating request'' (Some e)))
      | None \<Rightarrow>
      bnd (call (DdGetRelease url accessToken) (\<lambda>l. dd_get_release E l url accessToken)) (\<lambda>r. case r of
        Inl e \<Rightarrow> ret (Inl (FmtErrorf ''error sending request'' (Some e)))
      | Inr resp \<Rightarrow> with_defer
          (if ht_StatusCode resp \<noteq> 200 then
             ret (Inl (FmtErrorf (''failed to get release token, status: '' @ ht_Status resp) None))
           else if ht_ReadErr resp \<noteq> None then
             ret (Inl (FmtErrorf ''error reading response body'' (ht_ReadErr resp)))
           else if ht_Body resp = ''null'' \<or> ht_Body resp = '''' then
             ret (Inl (FmtErrorf ''invalid token received'' None))
           else ret (Inr (ht_Body resp)))
          (\<lambda>_. dd_done DdCloseBody))))"

definition clientAuth ::
  "dd_env \<Rightarrow> string \<Rightarrow> string \<Rightarrow> string \<Rightarrow> string \<Rightarrow> string \<Rightarrow> string \<Rightarrow> (goerr + string \<times> string) dd" where
  "clientAuth E clientID clientSecret keycloakURL accessURL releaseURL path =
     bnd (fetchAccessToken E (keycloakURL @ accessURL) clientID clientSecret path) (\<lambda>r. case r of
       Inl e \<Rightarrow> ret (Inl (FmtErrorf ''failed to get JWT access token from Keycloak'' (Some e)))
     | Inr idpAccessToken \<Rightarrow>
         bnd (fetchReleaseToken E (replace_first ''keycloak'' ''release'' keycloakURL @ releaseURL)
               idpAccessToken path) (\<lambda>r. case r of
           Inl e \<Rightarrow> ret (Inl (FmtErrorf ''failed to get release service token'' (Some e)))
         | Inr releaseToken \<Rightarrow> ret (Inr (idpAccessToken, releaseToken))))"

section \<open>Interactive onboarding\<close>

definition node_request :: "string \<Rightarrow> string \<Rightarrow> string \<Rightarrow> string \<Rightarrow> node_data list" where
  "node_request mac ip uuid serial =
     [[\<lparr>hw_Uuid = uuid, hw_Serialnum = serial, hw_MacId = mac, hw_SutIp = ip\<rparr>]]"

definition saying :: "string \<Rightarrow> (goerr + 'a) dd \<Rightarrow> (goerr + 'a) dd" where
  "saying msg m = bnd m (\<lambda>r. case r of Inl e \<Rightarrow> ret (Inl (FmtErrorf msg (Some e))) | Inr x \<Rightarrow> ret (Inr x))"

definition error_result :: "error \<Rightarrow> goerr + unit" where
  "error_result err = (case err of None \<Rightarrow> Inr () | Some e \<Rightarrow> Inl e)"

definition grpcInfraOnboardNodeJWT ::
  "dd_env \<Rightarrow> dd_ctx \<Rightarrow> string \<Rightarrow> int \<Rightarrow> node_data list \<Rightarrow> string \<Rightarrow> string \<Rightarrow> error dd" where
  "grpcInfraOnboardNodeJWT E ctx address port nodes path tokenPath =
     if_nil (load_ca E path)
     (if_got (saying ''failed to read JWT token from file'' (call (DdReadFile tokenPath) (\<lambda>l. dd_read_file E l tokenPath))) (\<lambda>jwtToken.
     let tokenString = trim_space jwtToken; target = dial_target address port in
     if_got (saying (''could not dial server '' @ target)
       (call (DdDialOAuth ctx target tokenString) (\<lambda>l. error_result (dd_dial_oauth E l target tokenString)))) (\<lambda>_.
     with_defer
       (if_got (saying (''could not call gRPC endpoint for server '' @ target)
            (call (DdCreateNodes nodes) (\<lambda>l. dd_create_nodes E l nodes))) (\<lambda>projectId.
          if projectId = '''' then ret (Some (FmtErrorf ''received empty Project ID'' None))
          else bnd (saveToFile E projectIDPath projectId) (\<lambda>err.
            if err \<noteq> None then ret (Some (FmtErrorf ''failed to save Project ID to file'' err)) else ret None)))
       (\<lambda>_. dd_done DdCloseConn))))"

text \<open>The attempts, \<open>k\<close> of which are left; the process exits when none is.\<close>

fun onboard_retries ::
  "dd_env \<Rightarrow> dd_ctx \<Rightarrow> string \<Rightarrow> int \<Rightarrow> node_data list \<Rightarrow> string \<Rightarrow> nat \<Rightarrow> finish dd" where
  "onboard_retries E ctx address port nodes path 0 = ret Exit1"
| "onboard_retries E ctx address port nodes path (Suc k) =
     bnd (grpcInfraOnboardNodeJWT E ctx address port nodes path accessTokenFile) (\<lambda>err.
     if err = None then ret Done
     else if k \<noteq> 0 then
       bnd (ask (\<lambda>l. int (dd_random E l mod 1000))) (\<lambda>jitter.
       bnd (dd_done (DdSleep (2 * second_ns + jitter * 1000000))) (\<lambda>_.
       onboard_retries E ctx address port nodes path k))
     else onboard_retries E ctx address port nodes path k)"

text \<open>The interactive login runs a script; \<open>None\<close> is the end of the context before its end.\<close>

definition interactive :: "dd_env \<Rightarrow> dd_ctx \<Rightarrow> string \<Rightarrow> int \<Rightarrow> node_data list \<Rightarrow> string \<Rightarrow> finish dd" where
  "interactive E ctx obmSVC obmPort nodes path =
     bnd (call (DdStartAuth ctx) (\<lambda>l. dd_start_auth E l)) (\<lambda>err.
     if err \<noteq> None then ret Done else
     bnd (call DdWaitAuth (\<lambda>l. dd_wait_auth E l)) (\<lambda>r. case r of
       Some (Some e) \<Rightarrow> ret Exit1
     | Some None \<Rightarrow> onboard_retries E ctx obmSVC obmPort nodes path 3
     | None \<Rightarrow> bnd (dd_done DdKillAuth) (\<lambda>_. ret Exit1)))"

section \<open>The program\<close>

record dd_config =
  dc_obsSVC :: string
  dc_obmSVC :: string
  dc_obmPort :: int
  dc_keycloakURL :: string
  dc_mac :: string
  dc_uuid :: string
  dc_serial :: string
  dc_ip :: string

definition stream_request :: "dd_config \<Rightarrow> stream_req" where
  "stream_request c = \<lparr>rq_Uuid = dc_uuid c, rq_Serialnum = dc_serial c, rq_MacId = dc_mac c, rq_HostIp = dc_ip c\<rparr>"

text \<open>\<open>None\<close>: the fuel of the stream client was used up.\<close>

definition grpcClient :: "dd_env \<Rightarrow> dd_ctx \<Rightarrow> dd_config \<Rightarrow> string \<Rightarrow> nat \<Rightarrow> finish option dd" where
  "grpcClient E ctx c path n =
     bnd (grpcStreamClient E ctx (dc_obsSVC c) (dc_obmPort c) (stream_request c) path n) (\<lambda>r. case r of
       None \<Rightarrow> ret None
     | Some (_, True) \<Rightarrow>
         bnd (interactive E ctx (dc_obmSVC c) (dc_obmPort c)
               (node_request (dc_mac c) (dc_ip c) (dc_uuid c) (dc_serial c)) path) (\<lambda>x. ret (Some x))
     | Some (Inl e, False) \<Rightarrow> ret (Some Exit1)
     | Some (Inr (clientID, clientSecret), False) \<Rightarrow>
         bnd (or_fatal (saveToFile E clientIDPath clientID)
             (or_fatal (saveToFile E clientSecretPath clientSecret)
             (got_or_fatal (clientAuth E clientID clientSecret (dc_keycloakURL c) keycloakTokenURL releaseTokenURL path)
               (\<lambda>(idpAccessToken, releaseToken).
             or_fatal (saveToFile E accessTokenFile idpAccessToken)
             (or_fatal (saveToFile E releaseTokenFile releaseToken) (ret Done)))))) (\<lambda>x. ret (Some x)))"

definition deviceDiscovery :: "dd_env \<Rightarrow> bool \<Rightarrow> int \<Rightarrow> dd_config \<Rightarrow> string \<Rightarrow> nat \<Rightarrow> finish option dd" where
  "deviceDiscovery E debug timeout c path n =
     (if debug then grpcClient E (WithTimeout timeout) c path n else grpcClient E Background c path n)"

definition dd_identify :: "dd_env \<Rightarrow> string \<Rightarrow> (goerr + string \<times> string \<times> string) dd" where
  "dd_identify E macAddr =
     if_ok (getSerialNumber E) (\<lambda>serialNumber.
     if_ok (getUUID E) (\<lambda>uuid.
     if_ok (getIPAddress E macAddr) (\<lambda>ipAddress. ret (Inr (serialNumber, uuid, ipAddress)))))"

definition env_get :: "(string \<Rightarrow> string option) \<Rightarrow> string \<Rightarrow> string" where
  "env_get m k = (case m k of None \<Rightarrow> '''' | Some v \<Rightarrow> v)"

definition lift_finish :: "finish option dd \<Rightarrow> finish option dd \<Rightarrow> error dd \<Rightarrow> finish option dd" where
  "lift_finish stop n m = bnd m (\<lambda>err. if err \<noteq> None then stop else n)"

definition dd_main :: "dd_env \<Rightarrow> nat \<Rightarrow> finish option dd" where
  "dd_main E n = (let fatal = ret (Some Exit1) in
     lift_finish fatal
     (bnd (readEnvVars E [''onboarding_manager_svc'', ''onboarding_stream_svc'', ''OBM_PORT'', ''KEYCLOAK_URL'']
             [''EXTRA_HOSTS'']) (\<lambda>r. case r of Inl e \<Rightarrow> fatal | Inr envVars \<Rightarrow>
      case Atoi (env_get envVars ''OBM_PORT'') of None \<Rightarrow> fatal | Some obmPort \<Rightarrow>
      bnd (parseKernelArguments E kernelArgsFilePath) (\<lambda>r. case r of Inl e \<Rightarrow> fatal | Inr cfg \<Rightarrow>
      let macAddr = kc_workerID cfg in
      case ParseBool (kc_debug cfg) of None \<Rightarrow> ret (Some Done) | Some debug \<Rightarrow>
      case ParseDuration (kc_timeout cfg) of None \<Rightarrow> ret (Some Done) | Some timeout \<Rightarrow>
      lift_finish fatal
      (bnd (dd_identify E macAddr) (\<lambda>r. case r of Inl e \<Rightarrow> fatal | Inr (serialNumber, uuid, ipAddress) \<Rightarrow>
         deviceDiscovery E debug timeout
           \<lparr>dc_obsSVC = env_get envVars ''onboarding_stream_svc'',
            dc_obmSVC = env_get envVars ''onboarding_manager_svc'', dc_obmPort = obmPort,
            dc_keycloakURL = env_get envVars ''KEYCLOAK_URL'', dc_mac = macAddr, dc_uuid = uuid,
            dc_serial = serialNumber, dc_ip = ipAddress\<rparr> caCertPath n))
      (updateHosts E (env_get envVars ''EXTRA_HOSTS'')))))
     (loadEnvConfig E envConfigPath))"

end
