(* ===== verification/DiscoveryThms.thy ===== *)
theory DiscoveryThms
  imports Enrol Southbound WorkerInit
begin

text \<open>
  The properties of device discovery: what a successful enrolment leaves on the disk, when the
  client falls back, how it waits, and how it goes together with the services of the Onboarding
  Manager and with the worker that runs after it.
\<close>

section \<open>Writes and waits\<close>

fun writes :: "dd_call list \<Rightarrow> (string \<times> string) list" where
  "writes [] = []"
| "writes (DdWrite p d # cs) = (p, d) # writes cs"
| "writes (c # cs) = writes cs"

fun sleeps :: "dd_call list \<Rightarrow> int list" where
  "sleeps [] = []"
| "sleeps (DdSleep t # cs) = t # sleeps cs"
| "sleeps (c # cs) = sleeps cs"

lemma writes_append [simp]: "writes (as @ bs) = writes as @ writes bs"
  by (induction as rule: writes.induct) auto

lemma sleeps_append [simp]: "sleeps (as @ bs) = sleeps as @ sleeps bs"
  by (induction as rule: sleeps.induct) auto

text \<open>The answer of the server that the calls \<open>cs\<close>, made after \<open>l\<close>, received last.\<close>

definition last_answer :: "dd_env \<Rightarrow> dd_call list \<Rightarrow> dd_call list \<Rightarrow> wire_resp \<Rightarrow> bool" where
  "last_answer E l cs resp \<longleftrightarrow> (\<exists>as bs. cs = as @ DdRecv # bs \<and> DdRecv \<notin> set bs \<and>
     dd_recv E (l @ as) = Inr (Some resp))"

lemma last_answer_more:
  "last_answer E l cs resp \<Longrightarrow> DdRecv \<notin> set ds \<Longrightarrow> last_answer E l (cs @ ds) resp"
  unfolding last_answer_def by force

lemma last_answer_before:
  "last_answer E (l @ ds) cs resp \<Longrightarrow> last_answer E l (ds @ cs) resp"
  unfolding last_answer_def by (metis append.assoc)

lemma saveToFile_calls:
  assumes "run_io (saveToFile E p d) l = (r, l')"
  shows "\<exists>cs err. l' = l @ cs \<and> r = Ret err \<and> sleeps cs = [] \<and> DdRecv \<notin> set cs \<and>
    (err = None \<longrightarrow> writes cs = [(p, d)])"
  using assms by (auto simp: saveToFile_def dd_done_def split: if_splits)

lemma saveToFile_run:
  assumes "run_io (saveToFile E p d) l = (r, l')"
  obtains cs err where "l' = l @ cs" "r = Ret err" "sleeps cs = []" "DdRecv \<notin> set cs"
    "err = None \<longrightarrow> writes cs = [(p, d)]"
  using saveToFile_calls [OF assms] by blast

section \<open>The stream client\<close>

lemma onboarded_reaction_run:
  assumes "run_io (onboarded_reaction E resp) l = (r, l')"
  obtains cs where "l' = l @ cs" "DdRecv \<notin> set cs" "sleeps cs = []"
    "(\<exists>e. r = Ret (Stop (Inl e, False))) \<or>
     r = Ret (Stop (Inr (wr_ClientId resp, wr_ClientSecret resp), False)) \<and>
     writes cs = [(projectIDPath, wr_ProjectId resp)] \<and> wr_ProjectId resp \<noteq> '''' \<and>
     wr_ClientId resp \<noteq> '''' \<and> wr_ClientSecret resp \<noteq> ''''"
proof (cases "wr_ProjectId resp = ''''")
  case True
  with assms that [of "[]"] show ?thesis by (auto simp: onboarded_reaction_def give_up_def)
next
  case False
  obtain r1 l1 where save: "run_io (saveToFile E projectIDPath (wr_ProjectId resp)) l = (r1, l1)" by fastforce
  then obtain cs err where "l1 = l @ cs" "r1 = Ret err" "sleeps cs = []" "DdRecv \<notin> set cs"
    "err = None \<longrightarrow> writes cs = [(projectIDPath, wr_ProjectId resp)]" by (rule saveToFile_run)
  with assms save False that [of cs] show ?thesis
    by (auto simp: onboarded_reaction_def give_up_def split: if_splits)
qed

text \<open>The three ways in which a response is taken: the server says to wait, hands over credentials, or
  ends the enrolment; a missing status panics.\<close>

lemma react_run:
  assumes "run_io (react E resp) l = (r, l')"
  obtains (nil_status) "r = Panic" "l' = l"
  | (wait) msg where "r = Ret Again" "l' = l" "wr_Status resp = Some (0, msg)" "wr_NodeState resp = 1"
  | (fall_back) msg where "r = Ret (Stop (Inl (FmtErrorf msg None), True))" "l' = l" "wr_Status resp = Some (5, msg)"
  | (refused) cs e where "r = Ret (Stop (Inl e, False))" "l' = l @ cs" "DdRecv \<notin> set cs" "sleeps cs = []"
  | (enrolled) cs msg where "r = Ret (Stop (Inr (wr_ClientId resp, wr_ClientSecret resp), False))"
      "l' = l @ cs" "DdRecv \<notin> set cs" "sleeps cs = []" "wr_Status resp = Some (0, msg)" "wr_NodeState resp = 2"
      "writes cs = [(projectIDPath, wr_ProjectId resp)]" "wr_ProjectId resp \<noteq> ''''"
      "wr_ClientId resp \<noteq> ''''" "wr_ClientSecret resp \<noteq> ''''"
proof (cases "wr_Status resp")
  case None
  with assms nil_status show ?thesis by (simp add: react_def)
next
  case (Some st)
  obtain scode msg where st: "st = (scode, msg)" by fastforce
  show ?thesis
  proof (cases "scode = 0 \<and> wr_NodeState resp = 2")
    case True
    with assms Some st have "run_io (onboarded_reaction E resp) l = (r, l')" by (simp add: react_def)
    then show ?thesis
    proof (rule onboarded_reaction_run)
      fix cs
      assume "l' = l @ cs" "DdRecv \<notin> set cs" "sleeps cs = []"
        "(\<exists>e. r = Ret (Stop (Inl e, False))) \<or>
         r = Ret (Stop (Inr (wr_ClientId resp, wr_ClientSecret resp), False)) \<and>
         writes cs = [(projectIDPath, wr_ProjectId resp)] \<and> wr_ProjectId resp \<noteq> '''' \<and>
         wr_ClientId resp \<noteq> '''' \<and> wr_ClientSecret resp \<noteq> ''''"
      with enrolled [of cs msg] refused [of _ cs] True Some st show ?thesis by auto
    qed
  next
    case False
    with assms Some st wait [of msg] fall_back [of msg] refused [of _ "[]"] show ?thesis
      by (auto simp: react_def give_up_def split: if_splits)
  qed
qed

text \<open>\<open>accounts E l cs res\<close>: what a result of the stream client says about the calls \<open>cs\<close> that led to it.\<close>

definition enrolled_with :: "dd_env \<Rightarrow> dd_call list \<Rightarrow> dd_call list \<Rightarrow> string \<Rightarrow> string \<Rightarrow> bool" where
  "enrolled_with E l cs i s \<longleftrightarrow> i \<noteq> '''' \<and> s \<noteq> '''' \<and> (\<exists>resp msg. last_answer E l cs resp \<and>
     wr_Status resp = Some (0, msg) \<and> wr_NodeState resp = 2 \<and> wr_ClientId resp = i \<and>
     wr_ClientSecret resp = s \<and> wr_ProjectId resp \<noteq> '''' \<and> writes cs = [(projectIDPath, wr_ProjectId resp)])"

definition sent_away :: "dd_env \<Rightarrow> dd_call list \<Rightarrow> dd_call list \<Rightarrow> bool" where
  "sent_away E l cs \<longleftrightarrow> (\<exists>resp msg. last_answer E l cs resp \<and> wr_Status resp = Some (5, msg)) \<and> writes cs = []"

definition accounts :: "dd_env \<Rightarrow> dd_call list \<Rightarrow> dd_call list \<Rightarrow> enrolment \<Rightarrow> bool" where
  "accounts E l cs res = (case res of
     (Inr (i, s), fb) \<Rightarrow> \<not> fb \<and> enrolled_with E l cs i s
   | (Inl e, fb) \<Rightarrow> fb \<longrightarrow> sent_away E l cs)"

lemma accounts_later:
  assumes "accounts E (l @ ds) cs res" and "writes ds = []"
  shows "accounts E l (ds @ cs) res"
  using assms last_answer_before [of E l ds cs]
  by (fastforce simp: accounts_def enrolled_with_def sent_away_def split: prod.splits sum.splits)

lemma accounts_more:
  assumes "accounts E l cs res" and "writes ds = []" and "DdRecv \<notin> set ds"
  shows "accounts E l (cs @ ds) res"
  using assms last_answer_more [of E l cs _ ds]
  by (fastforce simp: accounts_def enrolled_with_def sent_away_def split: prod.splits sum.splits)

lemma accounts_refusal [simp]: "accounts E l cs (give_up msg err)" "accounts E l cs (Inl e, False)"
  by (simp_all add: accounts_def give_up_def)

lemma last_answer_now:
  "dd_recv E (l @ as) = Inr (Some resp) \<Longrightarrow> DdRecv \<notin> set bs \<Longrightarrow> last_answer E l (as @ DdRecv # bs) resp"
  unfolding last_answer_def by blast

lemma ask_server_turn:
  assumes "run_io (ask_server E request b (Suc n)) l = (r, l')"
  obtains (stopped) cs where "l' = l @ cs" "\<forall>res. r = Ret (Some res) \<longrightarrow> accounts E l cs res" "sleeps cs = []"
  | (again) t where "b \<le> t" "t < b + second_ns"
      "run_io (ask_server E request (next_backoff b) n) (l @ [DdSend request, DdRecv, DdSleep t]) = (r, l')"
proof (cases "dd_send E l request = None \<and> (\<exists>resp. dd_recv E (l @ [DdSend request]) = Inr (Some resp))")
  case True
  then obtain resp where send: "dd_send E l request = None"
    and recv: "dd_recv E (l @ [DdSend request]) = Inr (Some resp)" by blast
  let ?l = "l @ [DdSend request, DdRecv]"
  obtain a l1 where react: "run_io (react E resp) ?l = (a, l1)" by fastforce
  note got = last_answer_now [OF recv]
  show ?thesis using react
  proof (cases rule: react_run)
    case nil_status
    with assms send recv react stopped [of "[DdSend request, DdRecv]"] show ?thesis by simp
  next
    case (wait msg)
    let ?t = "b + int (dd_random E ?l mod 1000) * 1000000"
    have "int (dd_random E ?l mod 1000) < 1000" by simp
    then have "b \<le> ?t" "?t < b + second_ns" by (auto simp: second_ns_def)
    moreover from assms send recv react wait have
      "run_io (ask_server E request (next_backoff b) n) (l @ [DdSend request, DdRecv, DdSleep ?t]) = (r, l')"
      by (simp add: dd_done_def)
    ultimately show ?thesis by (rule again)
  next
    case (fall_back msg)
    with assms send recv react have "l' = ?l" "r = Ret (Some (Inl (FmtErrorf msg None), True))" by simp_all
    with fall_back got [of "[]"] stopped [of "[DdSend request, DdRecv]"] show ?thesis
      by (auto simp: accounts_def sent_away_def)
  next
    case (refused cs e)
    with assms send recv react have "l' = ?l @ cs" "r = Ret (Some (Inl e, False))" by simp_all
    with refused stopped [of "[DdSend request, DdRecv] @ cs"] show ?thesis by simp
  next
    case (enrolled cs msg)
    with assms send recv react have "l' = ?l @ cs"
      "r = Ret (Some (Inr (wr_ClientId resp, wr_ClientSecret resp), False))" by simp_all
    with enrolled got [of cs] stopped [of "[DdSend request, DdRecv] @ cs"] show ?thesis
      by (auto simp: accounts_def enrolled_with_def)
  qed
next
  case False
  with assms stopped [of "[DdSend request]"] stopped [of "[DdSend request, DdRecv]"] show ?thesis
    by (auto split: if_splits sum.splits option.splits simp del: split_paired_All)
qed

lemma ask_server_run:
  "run_io (ask_server E request b n) l = (r, l') \<Longrightarrow>
   \<exists>cs. l' = l @ cs \<and> (\<forall>res. r = Ret (Some res) \<longrightarrow> accounts E l cs res)"
proof (induction n arbitrary: b l)
  case 0
  then show ?case by auto
next
  case (Suc n)
  from Suc.prems show ?case
  proof (cases rule: ask_server_turn)
    case (stopped cs)
    then show ?thesis by blast
  next
    case (again t)
    from Suc.IH [OF again(3)] obtain cs where
      "l' = (l @ [DdSend request, DdRecv, DdSleep t]) @ cs"
      "\<forall>res. r = Ret (Some res) \<longrightarrow> accounts E (l @ [DdSend request, DdRecv, DdSleep t]) cs res" by blast
    then show ?thesis
      by (intro exI [of _ "[DdSend request, DdRecv, DdSleep t] @ cs"]) (auto intro: accounts_later [of E l "[DdSend request, DdRecv, DdSleep t]" cs, simplified])
  qed
qed

text \<open>Before its loop, the client reads the certificate and connects; what it defers neither writes nor receives.\<close>

lemma createSecureConnection_run:
  assumes "run_io (createSecureConnection E ctx target pem) l = (r, l')"
  obtains cs err where "l' = l @ cs" "r = Ret err" "writes cs = []" "sleeps cs = []" "DdRecv \<notin> set cs"
proof -
  have "\<exists>cs err. l' = l @ cs \<and> r = Ret err \<and> writes cs = [] \<and> sleeps cs = [] \<and> DdRecv \<notin> set cs"
    using assms by (auto simp: createSecureConnection_def load_ca_def load_ca_or_def split: sum.splits if_splits)
  with that show thesis by blast
qed

lemma grpcStreamClient_cases:
  assumes "run_io (grpcStreamClient E ctx address port request pem n) l = (r, l')"
  obtains (failed) cs msg err where "l' = l @ cs" "r = Ret (Some (give_up msg err))" "sleeps cs = []"
  | (asked) as bs l1 where "run_io (ask_server E request (2 * second_ns) n) (l @ as) = (r, l1)"
      "l' = l1 @ bs" "writes as = []" "sleeps as = []" "writes bs = []" "sleeps bs = []" "DdRecv \<notin> set bs"
proof -
  obtain r1 l1 where conn: "run_io (createSecureConnection E ctx (dial_target address port) pem) l = (r1, l1)"
    by fastforce
  then obtain cs err where cs: "l1 = l @ cs" "r1 = Ret err" "writes cs = []" "sleeps cs = []" "DdRecv \<notin> set cs"
    by (rule createSecureConnection_run)
  show ?thesis
  proof (cases "err = None \<and> dd_open_stream E l1 = None")
    case True
    obtain r2 l2 where "run_io (ask_server E request (2 * second_ns) n) (l @ cs @ [DdOpenStream]) = (r2, l2)"
      by fastforce
    with assms conn cs True asked [of "cs @ [DdOpenStream]" l2 "[DdCloseSend, DdCloseConn]"] show ?thesis
      by (auto simp: grpcStreamClient_def dd_done_def)
  next
    case False
    with assms conn cs failed [of cs] failed [of "cs @ [DdOpenStream, DdCloseConn]"] show ?thesis
      by (auto simp: grpcStreamClient_def dd_done_def split: if_splits)
  qed
qed

lemma grpcStreamClient_run:
  assumes "run_io (grpcStreamClient E ctx address port request pem n) l = (r, l')"
  obtains cs where "l' = l @ cs" "\<And>res. r = Ret (Some res) \<Longrightarrow> accounts E l cs res"
  using assms
proof (cases rule: grpcStreamClient_cases)
  case (failed cs msg err)
  then show ?thesis by (intro that [of cs]) simp_all
next
  case (asked as bs l1)
  from ask_server_run [OF asked(1)] obtain cs where cs: "l1 = (l @ as) @ cs"
    "\<forall>res. r = Ret (Some res) \<longrightarrow> accounts E (l @ as) cs res" by blast
  show ?thesis
  proof (rule that [of "as @ cs @ bs"])
    show "l' = l @ as @ cs @ bs" using cs(1) asked(2) by simp
    fix res
    assume "r = Ret (Some res)"
    with cs(2) have "accounts E (l @ as) cs res" by blast
    from accounts_more [OF accounts_later [OF this asked(3)] asked(5,7)] show "accounts E l (as @ cs @ bs) res" by simp
  qed
qed

section \<open>Tokens\<close>

lemma loadCACertPool_run:
  assumes "run_io (loadCACertPool E pem) l = (r, l')"
  obtains err where "l' = l @ [DdReadFile pem]" "r = Ret err"
proof -
  have "\<exists>err. l' = l @ [DdReadFile pem] \<and> r = Ret err"
    using assms by (auto simp: loadCACertPool_def load_ca_or_def split: sum.splits if_splits)
  with that show thesis by blast
qed

lemma fetchAccessToken_ok:
  assumes "run_io (fetchAccessToken E url i s pem) l = (Ret (Inr token), l')"
  shows "token \<noteq> '''' \<and> (\<exists>k resp. dd_post_token E k (''https://'' @ url) i s = Inr resp \<and>
      ht_StatusCode resp = 200 \<and> dd_json_token E (ht_Body resp) = Inr (Some token)) \<and>
    (\<exists>cs. l' = l @ cs \<and> writes cs = [] \<and> DdRecv \<notin> set cs)"
proof -
  obtain r1 l1 where ca: "run_io (loadCACertPool E pem) l = (r1, l1)" by fastforce
  then obtain err where "l1 = l @ [DdReadFile pem]" "r1 = Ret err" by (rule loadCACertPool_run)
  with ca assms show ?thesis
    by (auto simp: fetchAccessToken_def dd_done_def Let_def split: if_splits option.splits sum.splits)
qed

lemma fetchReleaseToken_ok:
  assumes "run_io (fetchReleaseToken E url i pem) l = (Ret (Inr token), l')"
  shows "token \<noteq> '''' \<and> token \<noteq> ''null'' \<and> (\<exists>k resp. dd_get_release E k (''https://'' @ url) i = Inr resp \<and>
      ht_StatusCode resp = 200 \<and> ht_ReadErr resp = None \<and> ht_Body resp = token) \<and>
    (\<exists>cs. l' = l @ cs \<and> writes cs = [] \<and> DdRecv \<notin> set cs)"
proof -
  obtain r1 l1 where ca: "run_io (loadCACertPool E pem) l = (r1, l1)" by fastforce
  then obtain err where "l1 = l @ [DdReadFile pem]" "r1 = Ret err" by (rule loadCACertPool_run)
  with ca assms show ?thesis
    by (auto simp: fetchReleaseToken_def dd_done_def Let_def split: if_splits option.splits sum.splits)
qed

text \<open>\<open>tokens_for E keycloak i s a r\<close>: the identity provider gives the access token \<open>a\<close> for the
  credentials \<open>i\<close> and \<open>s\<close>, and the release service gives \<open>r\<close> for \<open>a\<close>.\<close>

definition tokens_for :: "dd_env \<Rightarrow> string \<Rightarrow> string \<Rightarrow> string \<Rightarrow> string \<Rightarrow> string \<Rightarrow> bool" where
  "tokens_for E keycloak i s a r \<longleftrightarrow> a \<noteq> '''' \<and> r \<noteq> '''' \<and>
     (\<exists>k resp. dd_post_token E k (''https://'' @ keycloak @ keycloakTokenURL) i s = Inr resp \<and>
        ht_StatusCode resp = 200 \<and> dd_json_token E (ht_Body resp) = Inr (Some a)) \<and>
     (\<exists>k resp. dd_get_release E k (''https://'' @ replace_first ''keycloak'' ''release'' keycloak @ releaseTokenURL) a
          = Inr resp \<and> ht_StatusCode resp = 200 \<and> ht_Body resp = r)"

lemma clientAuth_ok:
  assumes "run_io (clientAuth E i s keycloak keycloakTokenURL releaseTokenURL pem) l = (Ret (Inr (a, r)), l')"
  shows "tokens_for E keycloak i s a r \<and> (\<exists>cs. l' = l @ cs \<and> writes cs = [] \<and> DdRecv \<notin> set cs)"
proof -
  from assms obtain l1 where
    access: "run_io (fetchAccessToken E (keycloak @ keycloakTokenURL) i s pem) l = (Ret (Inr a), l1)" and
    release: "run_io (fetchReleaseToken E (replace_first ''keycloak'' ''release'' keycloak @ releaseTokenURL) a pem) l1
      = (Ret (Inr r), l')"
    unfolding clientAuth_def by (auto split: prod.splits outcome.splits sum.splits)
  note 1 = fetchAccessToken_ok [OF access] and 2 = fetchReleaseToken_ok [OF release]
  from 1 obtain cs where "l1 = l @ cs" "writes cs = []" "DdRecv \<notin> set cs" by blast
  moreover from 2 obtain ds where "l' = l1 @ ds" "writes ds = []" "DdRecv \<notin> set ds" by blast
  ultimately have "\<exists>cs. l' = l @ cs \<and> writes cs = [] \<and> DdRecv \<notin> set cs" by force
  with 1 2 show ?thesis by (auto simp: tokens_for_def)
qed

section \<open>The fallback\<close>

fun starts_auth :: "dd_call \<Rightarrow> bool" where
  "starts_auth (DdStartAuth x) = True"
| "starts_auth c = False"

lemma emits_ask_server: "emits (\<lambda>c. \<not> starts_auth c) (ask_server E request b n)"
proof (induction n arbitrary: b)
  case (Suc n)
  have "emits (\<lambda>c. \<not> starts_auth c) (react E resp)" for resp
    unfolding react_def onboarded_reaction_def saveToFile_def dd_done_def
    by (intro emits_intro) simp_all
  then show ?case
    by (auto intro!: emits_intro Suc.IH simp: dd_done_def split: reaction.split)
qed (simp add: emits_ret)

lemma emits_stream_client: "emits (\<lambda>c. \<not> starts_auth c) (grpcStreamClient E ctx a p q pem n)"
  unfolding grpcStreamClient_def createSecureConnection_def load_ca_def load_ca_or_def dd_done_def
  by (intro emits_intro emits_ask_server) simp_all

lemma emits_save: "emits (\<lambda>c. \<not> starts_auth c \<and> c \<noteq> DdRecv) (saveToFile E p d)"
  unfolding saveToFile_def dd_done_def by (intro emits_intro) simp_all

lemma emits_tokens: "emits (\<lambda>c. \<not> starts_auth c) (clientAuth E i s k u v pem)"
  unfolding clientAuth_def fetchAccessToken_def fetchReleaseToken_def loadCACertPool_def load_ca_or_def
    dd_done_def Let_def
  by (intro emits_intro) simp_all

lemma emits_onboard: "emits (\<lambda>c. c \<noteq> DdRecv) (grpcInfraOnboardNodeJWT E ctx svc port nodes pem f)"
proof -
  have save: "emits (\<lambda>c. c \<noteq> DdRecv) (saveToFile E p d)" for p d
    by (rule emits_mono [OF emits_save]) simp
  show ?thesis
    unfolding grpcInfraOnboardNodeJWT_def load_ca_def load_ca_or_def saying_def dd_done_def Let_def
    by (intro emits_intro save) simp_all
qed

lemma emits_retries: "emits (\<lambda>c. c \<noteq> DdRecv) (onboard_retries E ctx svc port nodes pem k)"
proof (induction k)
  case (Suc k)
  show ?case
    unfolding onboard_retries.simps dd_done_def by (intro emits_intro emits_onboard Suc.IH) simp_all
qed (simp add: emits_ret)

lemma interactive_run:
  assumes "run_io (interactive E ctx svc port nodes pem) l = (r, l')"
  obtains bs where "l' = l @ DdStartAuth ctx # bs" "DdRecv \<notin> set bs"
proof -
  let ?rest = "bnd (call DdWaitAuth (\<lambda>l. dd_wait_auth E l)) (\<lambda>r. case r of
       Some (Some e) \<Rightarrow> ret Exit1
     | Some None \<Rightarrow> onboard_retries E ctx svc port nodes pem 3
     | None \<Rightarrow> bnd (dd_done DdKillAuth) (\<lambda>_. ret Exit1))"
  have "emits (\<lambda>c. c \<noteq> DdRecv) (if dd_start_auth E l \<noteq> None then ret Done else ?rest)"
    unfolding dd_done_def by (intro emits_intro emits_retries) simp_all
  moreover have "run_io (if dd_start_auth E l \<noteq> None then ret Done else ?rest) (l @ [DdStartAuth ctx]) = (r, l')"
    using assms by (simp add: interactive_def)
  ultimately obtain bs where "l' = (l @ [DdStartAuth ctx]) @ bs" "list_all (\<lambda>c. c \<noteq> DdRecv) bs"
    by (auto dest: emitsD)
  then show thesis by (intro that [of bs]) (auto simp: list_all_iff)
qed

text \<open>What \<open>grpcClient\<close> does after the stream client.\<close>

definition keep_credentials :: "dd_env \<Rightarrow> dd_config \<Rightarrow> string \<Rightarrow> string \<Rightarrow> string \<Rightarrow> finish dd" where
  "keep_credentials E c pem clientID clientSecret =
     or_fatal (saveToFile E clientIDPath clientID)
     (or_fatal (saveToFile E clientSecretPath clientSecret)
     (got_or_fatal (clientAuth E clientID clientSecret (dc_keycloakURL c) keycloakTokenURL releaseTokenURL pem)
       (\<lambda>(idpAccessToken, releaseToken).
     or_fatal (saveToFile E accessTokenFile idpAccessToken)
     (or_fatal (saveToFile E releaseTokenFile releaseToken) (ret Done)))))"

lemma grpcClient_run:
  assumes "run_io (grpcClient E ctx c pem n) l = (r, l')"
  obtains (fell_back) as bs where "sent_away E l as" "l' = l @ as @ DdStartAuth ctx # bs"
      "list_all (\<lambda>c. \<not> starts_auth c) as" "DdRecv \<notin> set bs"
  | (enrolled) as i s where "enrolled_with E l as i s" "list_all (\<lambda>c. \<not> starts_auth c) as"
      "run_io (bnd (keep_credentials E c pem i s) (\<lambda>x. ret (Some x))) (l @ as) = (r, l')"
  | (neither) as where "l' = l @ as" "list_all (\<lambda>c. \<not> starts_auth c) as" "r \<noteq> Ret (Some Done)"
proof -
  obtain r1 l1 where stream:
    "run_io (grpcStreamClient E ctx (dc_obsSVC c) (dc_obmPort c) (stream_request c) pem n) l = (r1, l1)"
    by fastforce
  from stream obtain as where as: "l1 = l @ as" and acc: "\<And>res. r1 = Ret (Some res) \<Longrightarrow> accounts E l as res"
    by (rule grpcStreamClient_run) blast
  from emitsD [OF emits_stream_client stream] as have quiet: "list_all (\<lambda>c. \<not> starts_auth c) as" by simp
  consider "r1 = Panic" | "r1 = Ret None" | e where "r1 = Ret (Some (Inl e, False))"
    | res where "r1 = Ret (Some (res, True))" | i s where "r1 = Ret (Some (Inr (i, s), False))"
  proof (cases r1)
    case (Ret x)
    with that show ?thesis by (cases x) (auto, metis (full_types) obj_sumE surj_pair)
  qed (use that in blast)
  then show ?thesis
  proof cases
    case 4
    with acc have "sent_away E l as" by (auto simp: accounts_def split: sum.splits)
    let ?i = "interactive E ctx (dc_obmSVC c) (dc_obmPort c)
               (node_request (dc_mac c) (dc_ip c) (dc_uuid c) (dc_serial c)) pem"
    obtain r2 l2 where i: "run_io ?i l1 = (r2, l2)" by fastforce
    then obtain bs where "l2 = l1 @ DdStartAuth ctx # bs" "DdRecv \<notin> set bs" by (rule interactive_run)
    moreover have "l' = l2" using stream i assms as 4 by (auto simp: grpcClient_def split: outcome.splits sum.splits)
    ultimately show ?thesis using \<open>sent_away E l as\<close> as quiet by (intro fell_back [of as bs]) simp_all
  next
    case 5
    with acc have "enrolled_with E l as i s" by (auto simp: accounts_def)
    moreover from 5 stream assms as have
      "run_io (bnd (keep_credentials E c pem i s) (\<lambda>x. ret (Some x))) (l @ as) = (r, l')"
      by (simp add: grpcClient_def keep_credentials_def)
    ultimately show ?thesis using quiet by (intro enrolled)
  qed (use stream assms as quiet in \<open>auto simp: grpcClient_def intro!: neither\<close>)
qed

lemma or_fatal_ok:
  assumes "run_io (or_fatal m k) l = (Ret Done, l')"
  obtains l1 where "run_io m l = (Ret None, l1)" "run_io k l1 = (Ret Done, l')"
proof -
  have "\<exists>l1. run_io m l = (Ret None, l1) \<and> run_io k l1 = (Ret Done, l')"
    using assms by (auto simp: or_fatal_def split: prod.splits outcome.splits if_splits)
  with that show thesis by blast
qed

lemma got_or_fatal_ok:
  assumes "run_io (got_or_fatal m f) l = (Ret Done, l')"
  obtains x l1 where "run_io m l = (Ret (Inr x), l1)" "run_io (f x) l1 = (Ret Done, l')"
proof -
  have "\<exists>x l1. run_io m l = (Ret (Inr x), l1) \<and> run_io (f x) l1 = (Ret Done, l')"
    using assms by (auto simp: got_or_fatal_def split: prod.splits outcome.splits sum.splits)
  with that show thesis by blast
qed

lemma save_or_fatal_ok:
  assumes "run_io (or_fatal (saveToFile E p d) k) l = (Ret Done, l')"
  obtains cs where "writes cs = [(p, d)]" "DdRecv \<notin> set cs" "run_io k (l @ cs) = (Ret Done, l')"
proof -
  from assms obtain l1 where save: "run_io (saveToFile E p d) l = (Ret None, l1)"
    and rest: "run_io k l1 = (Ret Done, l')" by (rule or_fatal_ok)
  from saveToFile_calls [OF save] rest that show thesis by auto
qed

lemma keep_credentials_ok:
  assumes "run_io (keep_credentials E c pem i s) l = (Ret Done, l')"
  shows "\<exists>cs a r. l' = l @ cs \<and> tokens_for E (dc_keycloakURL c) i s a r \<and> DdRecv \<notin> set cs \<and>
    writes cs = [(clientIDPath, i), (clientSecretPath, s), (accessTokenFile, a), (releaseTokenFile, r)]"
proof -
  from assms obtain as where as: "writes as = [(clientIDPath, i)]" "DdRecv \<notin> set as" and
    1: "run_io (or_fatal (saveToFile E clientSecretPath s)
     (got_or_fatal (clientAuth E i s (dc_keycloakURL c) keycloakTokenURL releaseTokenURL pem)
       (\<lambda>(idpAccessToken, releaseToken).
     or_fatal (saveToFile E accessTokenFile idpAccessToken)
     (or_fatal (saveToFile E releaseTokenFile releaseToken) (ret Done))))) (l @ as) = (Ret Done, l')"
    unfolding keep_credentials_def by (rule save_or_fatal_ok)
  from 1 obtain bs where bs: "writes bs = [(clientSecretPath, s)]" "DdRecv \<notin> set bs" and
    2: "run_io (got_or_fatal (clientAuth E i s (dc_keycloakURL c) keycloakTokenURL releaseTokenURL pem)
       (\<lambda>(idpAccessToken, releaseToken).
     or_fatal (saveToFile E accessTokenFile idpAccessToken)
     (or_fatal (saveToFile E releaseTokenFile releaseToken) (ret Done)))) ((l @ as) @ bs) = (Ret Done, l')"
    by (rule save_or_fatal_ok)
  from 2 obtain a r l2 where
    auth: "run_io (clientAuth E i s (dc_keycloakURL c) keycloakTokenURL releaseTokenURL pem) ((l @ as) @ bs)
      = (Ret (Inr (a, r)), l2)" and
    3: "run_io (or_fatal (saveToFile E accessTokenFile a)
     (or_fatal (saveToFile E releaseTokenFile r) (ret Done))) l2 = (Ret Done, l')"
    by (rule got_or_fatal_ok) auto
  from clientAuth_ok [OF auth] obtain cs where cs: "tokens_for E (dc_keycloakURL c) i s a r"
    "l2 = ((l @ as) @ bs) @ cs" "writes cs = []" "DdRecv \<notin> set cs" by blast
  from 3 obtain ds where ds: "writes ds = [(accessTokenFile, a)]" "DdRecv \<notin> set ds" and
    4: "run_io (or_fatal (saveToFile E releaseTokenFile r) (ret Done)) (l2 @ ds) = (Ret Done, l')"
    by (rule save_or_fatal_ok)
  from 4 obtain es where es: "writes es = [(releaseTokenFile, r)]" "DdRecv \<notin> set es" and
    5: "run_io (ret Done) ((l2 @ ds) @ es) = (Ret Done, l')"
    by (rule save_or_fatal_ok)
  from 5 cs(2) have "l' = l @ as @ bs @ cs @ ds @ es" by simp
  moreover have "writes (as @ bs @ cs @ ds @ es) = [(clientIDPath, i), (clientSecretPath, s), (accessTokenFile, a), (releaseTokenFile, r)]"
    and "DdRecv \<notin> set (as @ bs @ cs @ ds @ es)" using as bs cs ds es by simp_all
  ultimately show ?thesis using cs(1) by blast
qed

lemma grpcClient_done:
  assumes "run_io (grpcClient E ctx c pem n) l = (Ret (Some Done), l @ cs)" and "\<not> list_ex starts_auth cs"
  obtains resp msg a r where "last_answer E l cs resp" "wr_Status resp = Some (0, msg)" "wr_NodeState resp = 2"
    "wr_ProjectId resp \<noteq> ''''" "wr_ClientId resp \<noteq> ''''" "wr_ClientSecret resp \<noteq> ''''"
    "tokens_for E (dc_keycloakURL c) (wr_ClientId resp) (wr_ClientSecret resp) a r"
    "writes cs = [(projectIDPath, wr_ProjectId resp), (clientIDPath, wr_ClientId resp),
         (clientSecretPath, wr_ClientSecret resp), (accessTokenFile, a), (releaseTokenFile, r)]"
  using assms(1)
proof (cases rule: grpcClient_run)
  case (fell_back as bs)
  with assms(2) show ?thesis by (simp add: list_ex_iff)
next
  case (enrolled as i s)
  from enrolled(3) have "run_io (keep_credentials E c pem i s) (l @ as) = (Ret Done, l @ cs)"
    by (auto split: prod.splits outcome.splits)
  from keep_credentials_ok [OF this] obtain bs a r where bs: "l @ cs = (l @ as) @ bs" "DdRecv \<notin> set bs"
    "tokens_for E (dc_keycloakURL c) i s a r"
    "writes bs = [(clientIDPath, i), (clientSecretPath, s), (accessTokenFile, a), (releaseTokenFile, r)]" by blast
  from enrolled(1) obtain resp msg where resp: "last_answer E l as resp" "wr_Status resp = Some (0, msg)"
    "wr_NodeState resp = 2" "wr_ClientId resp = i" "wr_ClientSecret resp = s" "wr_ProjectId resp \<noteq> ''''"
    "writes as = [(projectIDPath, wr_ProjectId resp)]" "i \<noteq> ''''" "s \<noteq> ''''"
    unfolding enrolled_with_def by blast
  from last_answer_more [OF resp(1) bs(2)] resp bs show ?thesis
    by (intro that [of resp msg a r]) simp_all
qed auto

text \<open>
  Only a machine that the server does not know falls back: when the interactive login is
  started, the server's last answer had the code NotFound, and no credentials were stored before.
\<close>

lemma fallback_only_when_unknown:
  assumes "run_io (grpcClient E ctx c pem n) l = (r, l')" and "list_ex starts_auth (drop (length l) l')"
  shows "\<exists>as bs resp msg. l' = l @ as @ DdStartAuth ctx # bs \<and> writes as = [] \<and>
    last_answer E l as resp \<and> wr_Status resp = Some (code_num NotFound, msg)"
  using assms(1)
proof (cases rule: grpcClient_run)
  case (fell_back as bs)
  then show ?thesis by (auto simp: sent_away_def)
next
  case (enrolled as i s)
  have save: "emits (\<lambda>c. \<not> starts_auth c) (saveToFile E p d)" for p d
    by (rule emits_mono [OF emits_save]) simp
  have "emits (\<lambda>c. \<not> starts_auth c) (bnd (keep_credentials E c pem i s) (\<lambda>x. ret (Some x)))"
    unfolding keep_credentials_def or_fatal_def got_or_fatal_def
    by (intro emits_intro save emits_tokens)
  from emitsD [OF this enrolled(3)] enrolled(2) assms(2) show ?thesis
    by (auto simp: list_all_iff list_ex_iff)
next
  case (neither as)
  with assms(2) show ?thesis by (auto simp: list_all_iff list_ex_iff)
qed

section \<open>Waiting\<close>

definition backoff_at :: "nat \<Rightarrow> int" where
  "backoff_at k = 2 ^ (k mod 5 + 1) * second_ns"

lemma next_backoff_at: "next_backoff (backoff_at k) = backoff_at (Suc k)"
proof -
  have "k mod 5 < 5" by simp
  then consider "k mod 5 = 0" | "k mod 5 = 1" | "k mod 5 = 2" | "k mod 5 = 3" | "k mod 5 = 4" by linarith
  then show ?thesis
    by cases (simp_all add: backoff_at_def next_backoff_def second_ns_def mod_Suc)
qed

lemma ask_server_sleeps:
  "run_io (ask_server E request (backoff_at k) n) l = (r, l') \<Longrightarrow>
   \<exists>cs. l' = l @ cs \<and> list_all (\<lambda>(j, t). backoff_at j \<le> t \<and> t < backoff_at j + second_ns) (enumerate k (sleeps cs))"
proof (induction n arbitrary: k l)
  case 0
  then show ?case by simp
next
  case (Suc n)
  from Suc.prems show ?case
  proof (cases rule: ask_server_turn)
    case (stopped cs)
    then show ?thesis by (intro exI [of _ cs]) simp
  next
    case (again t)
    from Suc.IH [OF again(3) [unfolded next_backoff_at]] obtain cs where
      "l' = (l @ [DdSend request, DdRecv, DdSleep t]) @ cs"
      "list_all (\<lambda>(j, t). backoff_at j \<le> t \<and> t < backoff_at j + second_ns) (enumerate (Suc k) (sleeps cs))" by blast
    with again show ?thesis by (intro exI [of _ "[DdSend request, DdRecv, DdSleep t] @ cs"]) simp
  qed
qed

text \<open>
  The waits of the stream client start at two seconds and double four times, up to 32 seconds;
  then they start again at two seconds. Every wait is longer by a random part of a second.
\<close>

theorem waits_double_and_restart:
  "list_all (\<lambda>(k, t). 2 ^ (k mod 5 + 1) * second_ns \<le> t \<and> t < (2 ^ (k mod 5 + 1) + 1) * second_ns)
     (enumerate 0 (sleeps (calls_of (grpcStreamClient E ctx address port request pem n))))"
proof -
  obtain r l' where run: "run_io (grpcStreamClient E ctx address port request pem n) [] = (r, l')" by fastforce
  have eq: "list_all (\<lambda>(k, t). 2 ^ (k mod 5 + 1) * second_ns \<le> t \<and> t < (2 ^ (k mod 5 + 1) + 1) * second_ns) xs =
    list_all (\<lambda>(j, t). backoff_at j \<le> t \<and> t < backoff_at j + second_ns) xs" for xs
    by (simp add: backoff_at_def algebra_simps)
  from run show ?thesis
  proof (cases rule: grpcStreamClient_cases)
    case (failed cs msg err)
    with run show ?thesis by (simp add: calls_of_def)
  next
    case (asked as bs l1)
    have "2 * second_ns = backoff_at 0" by (simp add: backoff_at_def)
    with asked(1) ask_server_sleeps [of E request 0 n "[] @ as" r l1] obtain cs where "l1 = as @ cs"
      "list_all (\<lambda>(j, t). backoff_at j \<le> t \<and> t < backoff_at j + second_ns) (enumerate 0 (sleeps cs))" by auto
    with run asked show ?thesis unfolding eq by (simp add: calls_of_def)
  qed
qed

end
