(* ===== verification/EnrolmentThms.thy ===== *)
theory EnrolmentThms
  imports DiscoveryThms OnboardingThms
begin

text \<open>
  Device discovery on one side of the wire, the services of the Onboarding Manager on the other:
  what the two programs do together. The channel between them is a hypothesis on the
  environment of the client: a response it receives is an answer that the server sends when it
  handles the client's request, in some state of the Inventory.
\<close>

section \<open>Answers on the wire\<close>

fun node_state_num :: "node_state \<Rightarrow> int" where
  "node_state_num NODE_STATE_UNSPECIFIED = 0"
| "node_state_num NODE_STATE_REGISTERED = 1"
| "node_state_num NODE_STATE_ONBOARDED = 2"

definition to_wire :: "stream_resp \<Rightarrow> wire_resp" where
  "to_wire a = \<lparr>wr_Status = Some (code_num (rs_Code a), rs_Message a), wr_NodeState = node_state_num (rs_NodeState a),
     wr_ClientId = rs_ClientId a, wr_ClientSecret = rs_ClientSecret a, wr_ProjectId = rs_ProjectId a\<rparr>"

definition served :: "om_env \<Rightarrow> stream_req \<Rightarrow> dd_env \<Rightarrow> bool" where
  "served OE request E \<longleftrightarrow> (\<forall>k resp. dd_recv E k = Inr (Some resp) \<longrightarrow>
     (\<exists>ol r ocs a. run_io (handle_request OE request) ol = (r, ol @ ocs) \<and> StreamSend a \<in> set ocs \<and>
        resp = to_wire a))"

lemma servedE:
  assumes "served OE request E" and "last_answer E l cs resp"
  obtains ol r ocs a where "run_io (handle_request OE request) ol = (r, ol @ ocs)"
    "StreamSend a \<in> set ocs" "resp = to_wire a"
  using assms unfolding served_def last_answer_def by blast

lemma onboarded_on_wire: "wr_NodeState (to_wire a) = 2 \<Longrightarrow> gives_credentials (StreamSend a)"
  by (cases "rs_NodeState a") (simp_all add: to_wire_def)

lemma credentials_on_wire [simp]:
  "wr_ProjectId (to_wire (credentials_resp h i s)) = h_TenantId h"
  "wr_ClientId (to_wire (credentials_resp h i s)) = i"
  "wr_ClientSecret (to_wire (credentials_resp h i s)) = s"
  by (simp_all add: to_wire_def credentials_resp_def)

section \<open>Enrolment from end to end\<close>

text \<open>
  C12. When an enrolment ends well without the interactive login, then in some state of the
  Inventory the server has matched the machine's request to a host that is to be onboarded, and
  what the machine has stored is the tenant of that host, the credentials which the authorization
  service keeps for the tenant and the UUID of the host, and the tokens for these credentials.
\<close>

theorem enrolment_end_to_end:
  assumes "served OE (stream_request c) E"
    and "run_io (grpcClient E ctx c pem n) l = (Ret (Some Done), l @ cs)" and "\<not> list_ex starts_auth cs"
  shows "\<exists>req h ol ol1 ol2 i s a r. sanitize (stream_request c) = Inr req \<and>
    run_io (getHostResource OE req) ol = (Ret (Inr h), ol1) \<and> h_DesiredState h = HOST_STATE_ONBOARDED \<and>
    h_CurrentState h \<noteq> HOST_STATE_ONBOARDED \<and>
    run_io (FetchClientSecret OE (h_TenantId h) (h_Uuid h)) ol1 = (Ret (Inr (i, s)), ol2) \<and>
    tokens_for E (dc_keycloakURL c) i s a r \<and>
    writes cs = [(projectIDPath, h_TenantId h), (clientIDPath, i), (clientSecretPath, s),
      (accessTokenFile, a), (releaseTokenFile, r)]"
proof -
  from assms(2) obtain resp a r where resp: "last_answer E l cs resp" "wr_NodeState resp = 2"
    and tok: "tokens_for E (dc_keycloakURL c) (wr_ClientId resp) (wr_ClientSecret resp) a r"
    and wr: "writes cs = [(projectIDPath, wr_ProjectId resp), (clientIDPath, wr_ClientId resp),
         (clientSecretPath, wr_ClientSecret resp), (accessTokenFile, a), (releaseTokenFile, r)]"
    using assms(3) by (rule grpcClient_done) auto
  from assms(1) resp(1) obtain ol x ocs b where srv: "run_io (handle_request OE (stream_request c)) ol = (x, ol @ ocs)"
    "StreamSend b \<in> set ocs" "resp = to_wire b" by (rule servedE)
  from resp(2) srv(3) have "gives_credentials (StreamSend b)" by (intro onboarded_on_wire) simp
  from credentials_sent [OF srv(1,2) this] obtain req h l1 l2 i s where host: "sanitize (stream_request c) = Inr req"
    "run_io (getHostResource OE req) ol = (Ret (Inr h), l1)" "to_onboard h"
    "run_io (FetchClientSecret OE (h_TenantId h) (h_Uuid h)) l1 = (Ret (Inr (i, s)), l2)"
    "b = credentials_resp h i s" by blast
  with tok wr srv(3) show ?thesis unfolding to_onboard_def by fastforce
qed

section \<open>The fallback from end to end\<close>

fun says_unknown :: "om_call \<Rightarrow> bool" where
  "says_unknown (StreamSend a) = (rs_Code a = NotFound)"
| "says_unknown c = False"

lemma emits_known: "emits (\<lambda>x. \<not> says_unknown x) (answer_host OE req h)"
proof -
  have "emits (\<lambda>x. \<not> says_unknown x) (handleOnboardedState OE h req)"
    unfolding handleOnboardedState_def by (intro emits_intro) simp_all
  moreover have "emits (\<lambda>x. \<not> says_unknown x) (handleRegisteredState OE h req)"
    unfolding handleRegisteredState_def sendOnboardStreamResponse_def by (intro emits_intro) simp_all
  ultimately show ?thesis
    unfolding answer_host_def handleDefaultState_def
    by (intro emits_if emits_bnd emits_close_with emits_send_error emits_send emits_ret) simp_all
qed

lemma unknown_sent:
  assumes "run_io (handle_request OE request) ol = (r, ol @ ocs)" and "c \<in> set ocs" and "says_unknown c"
  shows "\<exists>req e ol1. sanitize request = Inr req \<and> run_io (getHostResource OE req) ol = (Ret (Inl e), ol1) \<and>
    is_not_found (lib OE) (Some e)"
proof -
  have quiet: "\<not> emits (\<lambda>x. \<not> says_unknown x) (handle_request OE request)"
    using emitsD [OF _ assms(1)] assms(2,3) by (auto simp: list_all_iff)
  have closes: "emits (\<lambda>x. \<not> says_unknown x) (close_with (sendStreamErrorResponse OE k m))" if "k \<noteq> NotFound" for k m
    using that by (intro emits_intro) simp
  have lookup: "emits (\<lambda>x. \<not> says_unknown x) (getHostResource OE req)" for req
    by (intro emits_intro) simp_all
  obtain req where req: "sanitize request = Inr req"
    using quiet closes by (cases "sanitize request") (auto simp: handle_request_def)
  obtain o1 l1 where get: "run_io (getHostResource OE req) ol = (o1, l1)" by fastforce
  from emitsD [OF lookup get] obtain cs0 where l1: "l1 = ol @ cs0" "c \<notin> set cs0"
    using assms(3) by (auto simp: list_all_iff)
  show ?thesis
  proof (cases "\<exists>e. o1 = Ret (Inl e) \<and> is_not_found (lib OE) (Some e)")
    case True
    with req get show ?thesis by blast
  next
    case False
    let ?m = "\<lambda>res. case res of Inl e \<Rightarrow> answer_error OE e | Inr h \<Rightarrow> answer_host OE req h"
    show ?thesis
    proof (cases o1)
      case (Ret res)
      have "emits (\<lambda>x. \<not> says_unknown x) (?m res)"
        using False Ret emits_known closes by (cases res) (auto simp: answer_error_def)
      moreover have "run_io (?m res) l1 = (r, ol @ ocs)"
        using assms(1) req get Ret by (simp add: handle_request_def)
      ultimately obtain cs1 where "ol @ ocs = l1 @ cs1" "list_all (\<lambda>x. \<not> says_unknown x) cs1"
        by (blast dest: emitsD)
      with l1 assms(2,3) show ?thesis by (auto simp: list_all_iff)
    next
      case Panic
      with assms(1,2) req get l1 show ?thesis by (simp add: handle_request_def)
    qed
  qed
qed

text \<open>What the documentation of the library says of the check for a single resource, and of the
  validation of a resource: they do not answer ``not found'' when there is one.\<close>

definition lookup_laws :: "om_env \<Rightarrow> bool" where
  "lookup_laws OE \<longleftrightarrow> errlib_laws (lib OE) \<and>
     (\<forall>rs e. check_singular OE rs = Some e \<and> is_not_found (lib OE) (Some e) \<longrightarrow> rs = []) \<and>
     (\<forall>r e. validate_message OE (Some r) = Some e \<longrightarrow> \<not> is_not_found (lib OE) (Some (InvWrap e)))"

text \<open>The Inventory lists no host for a filter.\<close>

definition no_host_listed :: "om_env \<Rightarrow> om_call list \<Rightarrow> inv_filter \<Rightarrow> bool" where
  "no_host_listed OE k flt \<longleftrightarrow> (\<exists>objs err. inv_list OE k CliRM KIND_HOST flt = (Some objs, err) \<and> set objs \<subseteq> {None})"

lemma collect_valid_Nil: "collect_valid OE objs = Inr [] \<Longrightarrow> set objs \<subseteq> {None}"
  by (induction OE objs rule: collect_valid.induct) (auto split: option.splits sum.splits)

lemma collect_valid_error: "collect_valid OE objs = Inl e \<Longrightarrow> \<exists>r e'. validate_message OE (Some r) = Some e' \<and> e = InvWrap e'"
  by (induction OE objs rule: collect_valid.induct) (auto split: option.splits sum.splits)

lemma lookup_not_found:
  assumes "lookup_laws OE" and "run_io (listAndReturnHost OE CliRM flt) l = (Ret (Inl e), l')"
    and "is_not_found (lib OE) (Some e)"
  shows "no_host_listed OE l flt \<and> l' = l @ [InvList CliRM KIND_HOST flt]"
proof -
  from assms(1) have L: "errlib_laws (lib OE)"
    and single: "\<And>rs e. check_singular OE rs = Some e \<Longrightarrow> is_not_found (lib OE) (Some e) \<Longrightarrow> rs = []"
    and valid: "\<And>r e. validate_message OE (Some r) = Some e \<Longrightarrow> \<not> is_not_found (lib OE) (Some (InvWrap e))"
    unfolding lookup_laws_def by blast+
  obtain objs err where list: "inv_list OE l CliRM KIND_HOST flt = (objs, err)" by fastforce
  have found: "objs = Some vs \<Longrightarrow> collect_valid OE vs = Inr [] \<Longrightarrow> no_host_listed OE l flt" for vs
    using collect_valid_Nil list unfolding no_host_listed_def by fastforce
  have wrong: "collect_valid OE vs \<noteq> Inl e" for vs
    using assms(3) valid collect_valid_error by blast
  from assms(2,3) list L show ?thesis
    by (auto simp: listAndReturnHost_def listAllResources_def deref_def wrong dest: single intro!: found
        split: option.splits sum.splits list.splits if_splits)
qed

lemma unknown_listed:
  assumes "lookup_laws OE" and "rq_Uuid req \<noteq> ''''" and "run_io (getHostResource OE req) l = (Ret (Inl e), l')"
    and "is_not_found (lib OE) (Some e)"
  shows "no_host_listed OE l (FilterUuid (rq_Uuid req)) \<or>
    no_host_listed OE (l @ [InvList CliRM KIND_HOST (FilterUuid (rq_Uuid req))]) (FilterSerialNumber (rq_Serialnum req))"
proof -
  from assms(1) have L: "errlib_laws (lib OE)" by (simp add: lookup_laws_def)
  let ?k = "l @ [InvList CliRM KIND_HOST (FilterUuid (rq_Uuid req))]"
  obtain u l1 where u: "run_io (listAndReturnHost OE CliRM (FilterUuid (rq_Uuid req))) l = (u, l1)" by fastforce
  have l1: "u = Ret (Inr x) \<Longrightarrow> l1 = ?k" for x
    using u by (cases "inv_list OE l CliRM KIND_HOST (FilterUuid (rq_Uuid req))")
      (auto simp: listAndReturnHost_def listAllResources_def deref_def split: option.splits sum.splits list.splits if_splits)
  show ?thesis
  proof (cases "\<exists>x. u = Ret (Inr x)")
    case True
    then obtain x where x: "u = Ret (Inr x)" by blast
    have look: "run_io (lookup_serial OE req (Some x)) ?k = (Ret (Inl e), l')"
      using assms(2,3) u x l1 by (auto simp: getHostResource_def GetHostResource_def split: if_splits)
    obtain s l2 where s: "run_io (listAndReturnHost OE CliRM (FilterSerialNumber (rq_Serialnum req))) ?k = (s, l2)" by fastforce
    have "\<exists>e1. s = Ret (Inl e1) \<and> is_not_found (lib OE) (Some e1)"
      using look s assms(4) L
      by (auto simp: lookup_serial_def GetHostResource_def match_hosts_def Let_def
          split: if_splits outcome.splits sum.splits prod.splits option.splits)
    with s lookup_not_found [OF assms(1)] show ?thesis by blast
  next
    case False
    with assms(2-4) u L have "\<exists>e1. u = Ret (Inl e1) \<and> is_not_found (lib OE) (Some e1)"
      by (auto simp: getHostResource_def GetHostResource_def split: if_splits outcome.splits sum.splits)
    with u lookup_not_found [OF assms(1)] show ?thesis by blast
  qed
qed

text \<open>
  C27. The interactive login is started only after the server has answered the machine's request
  with ``not found'', and it does that only when the Inventory, asked in some state for this
  request, lists no host with the UUID of the machine or no host with its serial number (one of
  the two is enough: a host whose serial number does not match counts as unknown). An error of
  the lookup never starts it, and nothing was stored before.
\<close>

theorem fallback_end_to_end:
  assumes "served OE (stream_request c) E" and "lookup_laws OE"
    and "run_io (grpcClient E ctx c pem n) l = (r, l @ cs)" and "list_ex starts_auth cs"
  shows "\<exists>req ol as bs. sanitize (stream_request c) = Inr req \<and>
    (no_host_listed OE ol (FilterUuid (rq_Uuid req)) \<or>
     no_host_listed OE (ol @ [InvList CliRM KIND_HOST (FilterUuid (rq_Uuid req))]) (FilterSerialNumber (rq_Serialnum req))) \<and>
    cs = as @ DdStartAuth ctx # bs \<and> writes as = []"
proof -
  from fallback_only_when_unknown [OF assms(3)] assms(4) obtain as bs resp msg where
    "cs = as @ DdStartAuth ctx # bs" "writes as = []"
    and resp: "last_answer E l as resp" "wr_Status resp = Some (code_num NotFound, msg)" by auto
  moreover from assms(1) resp(1) obtain ol x ocs b where
    srv: "run_io (handle_request OE (stream_request c)) ol = (x, ol @ ocs)"
      "StreamSend b \<in> set ocs" "resp = to_wire b" by (rule servedE)
  moreover from resp(2) srv(3) have "rs_Code b = NotFound" by (auto simp: to_wire_def dest: code_num_inj [of _ NotFound, simplified])
  with unknown_sent [OF srv(1,2)] obtain req e ol1 where req: "sanitize (stream_request c) = Inr req"
    "run_io (getHostResource OE req) ol = (Ret (Inl e), ol1)" "is_not_found (lib OE) (Some e)" by auto
  moreover have "rq_Uuid req \<noteq> ''''"
    using req(1) uuid_pattern_length by (fastforce simp: sanitize_iff split: if_splits)
  ultimately show ?thesis using unknown_listed [OF assms(2) _ req(2,3)] by blast
qed

section \<open>New machines\<close>

fun creates_host :: "om_call \<Rightarrow> bool" where
  "creates_host (InvCreate c t (ResHost h)) = True"
| "creates_host x = False"

lemma emits_no_creation:
  "emits (\<lambda>x. \<not> creates_host x) (startZeroTouch OE t i)"
  "emits (\<lambda>x. \<not> creates_host x) (GetHostResourceByUUID OE c t u)"
  "emits (\<lambda>x. \<not> creates_host x) (UpdateHostResourceStatus OE c t i h s1 s2)"
  by (intro emits_intro; simp)+

lemma created_without_project:
  assumes "run_io (CreateNodes OE auth allowed tenant nodes) ol = (Ret (Inr resp), ol @ ocs)"
    and "list_ex creates_host ocs"
  shows "nr_ProjectId resp = ''''"
proof -
  from assms(1) obtain payload t host0 hs where req: "sanitize_nodes nodes = Inr payload" "\<not> (auth \<and> \<not> allowed)"
    "tenant = Some t" "CopyNodeReqToNodeData payload t = host0 # hs"
    by (auto simp: CreateNodes_def split: sum.splits if_splits option.splits list.splits)
  obtain h where run: "run_io (bnd (GetHostResourceByUUID OE CliRM t (h_Uuid h)) (\<lambda>r. case r of
      Inl e \<Rightarrow> if is_not_found (lib OE) (Some e) then
          if_ok (CreateHostResource OE CliRM t h) (\<lambda>hostResID.
          bnd (startZeroTouch OE t hostResID) (\<lambda>err. case err of
              Some e \<Rightarrow> ret (Inl e)
            | None \<Rightarrow> ret (Inr \<lparr>nr_Payload = payload, nr_ProjectId = ''''\<rparr>)))
        else ret (Inl e)
    | Inr hostInv \<Rightarrow>
        bnd (if h_SerialNumber hostInv \<noteq> h_SerialNumber h then
               UpdateHostResourceStatus OE CliRM (h_TenantId hostInv) (h_ResourceId hostInv)
                 (hostInv\<lparr>h_SerialNumber := h_SerialNumber h, h_BmcIp := h_BmcIp h,
                      h_PxeMac := h_PxeMac h, h_CurrentState := HOST_STATE_ONBOARDED\<rparr>)
                 OnboardingStatusDone HostRegistrationUnknown
             else ret None) (\<lambda>updateErr. case updateErr of
          Some e \<Rightarrow> ret (Inl e)
        | None \<Rightarrow>
            bnd (startZeroTouch OE t (h_ResourceId hostInv)) (\<lambda>ztErr. case ztErr of
              Some e \<Rightarrow> ret (Inl e)
            | None \<Rightarrow> ret (Inr \<lparr>nr_Payload = payload, nr_ProjectId = h_TenantId hostInv\<rparr>))))) ol
    = (Ret (Inr resp), ol @ ocs)" (is "run_io (bnd (?getf h) (?restf h)) ol = _")
  proof (rule that)
    let ?h = "host0\<lparr>h_CurrentState := HOST_STATE_ONBOARDED,
       h_OnboardingStatus := st_Status OnboardingStatusDone,
       h_OnboardingStatusIndicator := st_Indicator OnboardingStatusDone,
       h_OnboardingStatusTimestamp := word_of_int (unix_now OE ol)\<rparr>"
    show "run_io (bnd (?getf ?h) (?restf ?h)) ol = (Ret (Inr resp), ol @ ocs)"
      using assms(1) req(2) by (simp only: CreateNodes_def Let_def req(1,3,4) sum.case option.case list.case
          if_False timestamp_def run_bnd run_ask prod.case outcome.case)
  qed
  let ?get = "?getf h" and ?rest = "?restf h"
  obtain o1 l1 where get: "run_io ?get ol = (o1, l1)" by fastforce
  from emitsD [OF emits_no_creation(2) get] obtain cs0 where l1: "l1 = ol @ cs0" "\<not> list_ex creates_host cs0"
    by (auto simp: list_all_iff list_ex_iff)
  from run get obtain r where r: "o1 = Ret r" and rest: "run_io (?rest r) l1 = (Ret (Inr resp), ol @ ocs)"
    by (cases o1) auto
  show ?thesis
  proof (cases r)
    case (Inl e)
    with rest show ?thesis by (auto split: if_splits prod.splits outcome.splits sum.splits option.splits)
  next
    case (Inr hostInv)
    have "emits (\<lambda>x. \<not> creates_host x) (?rest (Inr hostInv))"
      unfolding sum.case by (intro emits_intro emits_no_creation)
    with rest Inr obtain cs1 where "ol @ ocs = l1 @ cs1" "list_all (\<lambda>x. \<not> creates_host x) cs1"
      by (blast dest: emitsD)
    with l1 assms(2) show ?thesis by (auto simp: list_all_iff list_ex_iff)
  qed
qed

text \<open>
  C28. A machine that is new to the manager is refused at its first attempt: when
  \<open>CreateNodes\<close> has created its host, the answer carries no project, which the client takes for
  an error; nothing is stored.
\<close>

theorem new_machine_is_refused_once:
  assumes "run_io (CreateNodes OE auth allowed tenant nodes) ol = (Ret (Inr resp), ol @ ocs)"
    and "list_ex creates_host ocs" and "\<forall>k. dd_create_nodes E k nodes = Inr (nr_ProjectId resp)"
  shows "\<exists>e cs. run_io (grpcInfraOnboardNodeJWT E ctx address port nodes pem token) l = (Ret (Some e), l @ cs) \<and>
    writes cs = []"
  using assms(3) created_without_project [OF assms(1,2)]
  by (auto simp: grpcInfraOnboardNodeJWT_def load_ca_def load_ca_or_def saying_def dd_done_def error_result_def Let_def
      split: sum.splits option.splits)

section \<open>The two readers of the kernel's command line\<close>

lemma pieces_of:
  assumes "length (split_char c s) \<le> 2"
  shows "split_char c s = (case split_first c s of (k, None) \<Rightarrow> [s] | (k, Some v) \<Rightarrow> [k, v])"
proof (cases "split_first c s")
  case (Pair k r)
  show ?thesis
  proof (cases r)
    case None
    with Pair show ?thesis using split_first_None [of c s] by (simp add: split_char_no_sep)
  next
    case (Some v)
    with Pair have s: "s = k @ c # v" "c \<notin> set k" by (auto dest: split_first_SomeD)
    have "c \<notin> set v"
    proof
      assume "c \<in> set v"
      then obtain v1 v2 where "v = v1 @ c # v2" "c \<notin> set v1" by (meson split_list_first)
      with s assms split_char_not_Nil [of c v2] show False by (auto simp: split_char_sep Suc_le_eq simp del: split_char_not_Nil)
    qed
    with s Pair Some show ?thesis by (simp add: split_char_sep split_char_no_sep)
  qed
qed

lemma kernel_args_snoc:
  "kernel_args cfg (as @ [a]) = (case kernel_args cfg as of Ret cfg' \<Rightarrow> kernel_arg cfg' a | Panic \<Rightarrow> Panic)"
  by (induction as arbitrary: cfg) (auto split: outcome.split)

text \<open>
  Device discovery and the worker read the same worker id off the kernel's command line, as
  long as no piece of it has two equals signs: device discovery then has for each of its three
  parameters the last value on the line, but panics when one of their names stands there alone,
  which the worker ignores.
\<close>

theorem command_line_readers_agree:
  assumes "\<forall>p \<in> set ps. length (split_char CHR ''='' p) \<le> 2"
  shows "dd_parseCmdLine ps =
    (if ''worker_id'' \<in> set ps \<or> ''DEBUG'' \<in> set ps \<or> ''TIMEOUT'' \<in> set ps then Panic
     else Ret \<lparr>kc_workerID = tc_workerID (parseCmdLine ps), kc_debug = last_value ''DEBUG'' ps,
       kc_timeout = last_value ''TIMEOUT'' ps\<rparr>)"
  using assms
proof (induction ps rule: rev_induct)
  case Nil
  show ?case by (simp add: dd_parseCmdLine_def command_line_parameters last_value_def)
next
  case (snoc p ps)
  from snoc.prems have p: "length (split_char CHR ''='' p) \<le> 2" by simp
  obtain k r where kr: "split_first CHR ''='' p = (k, r)" by fastforce
  show ?case
  proof (cases r)
    case None
    with kr have "CHR ''='' \<notin> set p" using split_first_None [of "CHR ''=''" p] by simp
    with snoc kr None show ?thesis
      by (auto simp: dd_parseCmdLine_def kernel_args_snoc kernel_arg_def pieces_of [OF p] piece1_def Let_def
          command_line_parameters last_value_snoc)
  next
    case (Some v)
    with kr have "p = k @ CHR ''='' # v" by (auto dest: split_first_SomeD)
    then have "CHR ''='' \<in> set p" by simp
    then have "p \<noteq> ''worker_id''" "p \<noteq> ''DEBUG''" "p \<noteq> ''TIMEOUT''" by auto
    with snoc kr Some show ?thesis
      by (auto simp: dd_parseCmdLine_def kernel_args_snoc kernel_arg_def pieces_of [OF p] piece1_def Let_def
          command_line_parameters last_value_snoc)
  qed
qed

section \<open>The address of the machine\<close>

lemma first_ip4_some:
  "first_ip4 ips = Some ip \<Longrightarrow> \<exists>a \<in> set ips. \<exists>b. To4 a = Some b \<and> b ! 0 \<noteq> 127 \<and> ip = show_ip4 b"
  by (induction ips) (auto simp: IsLoopback_def split: option.splits if_splits)

lemma scan_ifaces_ok:
  "run_io (scan_ifaces E mac is) l = (Ret (Inr ip), l') \<Longrightarrow>
   \<exists>i \<in> set is. \<exists>k addrs. if_Mac i = mac \<and> dd_addrs E k (if_Name i) = Inr addrs \<and> first_ip4 addrs = Some ip"
proof (induction "is" arbitrary: l)
  case (Cons i "is")
  show ?case
  proof (cases "if_Mac i = mac")
    case True
    with Cons.prems obtain addrs where addrs: "dd_addrs E l (if_Name i) = Inr addrs"
      by (auto split: sum.splits)
    show ?thesis
    proof (cases "first_ip4 addrs")
      case None
      with Cons.prems True addrs Cons.IH show ?thesis by fastforce
    next
      case (Some x)
      with Cons.prems True addrs have "x = ip" by simp
      with True addrs Some show ?thesis by auto
    qed
  next
    case False
    with Cons show ?thesis by fastforce
  qed
qed simp

text \<open>
  The address under which device discovery registers a machine is the dotted form of an IPv4
  address, not of the loopback network, of an interface with the hardware address on the command line.
\<close>

theorem address_is_of_the_interface:
  assumes "run_io (getIPAddress E mac) l = (Ret (Inr ip), l')"
  shows "\<exists>k is i addrs a b. dd_interfaces E l = Inr is \<and> i \<in> set is \<and> if_Mac i = mac \<and>
    dd_addrs E k (if_Name i) = Inr addrs \<and> a \<in> set addrs \<and> To4 a = Some b \<and> b ! 0 \<noteq> 127 \<and> ip = show_ip4 b"
proof -
  from assms obtain "is" where "is": "dd_interfaces E l = Inr is"
    and "run_io (scan_ifaces E mac is) (l @ [DdInterfaces]) = (Ret (Inr ip), l')"
    by (auto simp: getIPAddress_def split: sum.splits)
  from scan_ifaces_ok [OF this(2)] "is" show ?thesis by (blast dest: first_ip4_some)
qed

section \<open>Concrete runs\<close>

definition sample_dd_env :: dd_env where
  "sample_dd_env = \<lparr>
     dd_environ = (\<lambda>_. None),
     dd_open = (\<lambda>l p. Inr ('''', None)),
     dd_read_file = (\<lambda>l p. Inr ''token''),
     dd_write_hosts = (\<lambda>l d. None),
     dd_dmidecode = (\<lambda>l k. Inr ''SN12345''),
     dd_interfaces = (\<lambda>l. Inr [\<lparr>if_Name = ''lo'', if_Mac = ''''\<rparr>, \<lparr>if_Name = ''eth0'', if_Mac = ''aa:bb:cc:dd:ee:ff''\<rparr>]),
     dd_addrs = (\<lambda>l i. Inr [None, Some [127, 0, 0, 1], Some (replicate 10 0 @ [255, 255, 10, 0, 0, 7])]),
     dd_pem_ok = (\<lambda>c. True),
     dd_dial = (\<lambda>l t. None),
     dd_open_stream = (\<lambda>l. None),
     dd_send = (\<lambda>l r. None),
     dd_recv = (\<lambda>l. Inr (Some (to_wire (credentials_resp (sample_host\<lparr>h_SerialNumber := ''''\<rparr>) ''id'' ''secret'')))),
     dd_random = (\<lambda>l. 0),
     dd_truncate = (\<lambda>l p. None),
     dd_write = (\<lambda>l p d. None),
     dd_url_error = (\<lambda>u. None),
     dd_post_token = (\<lambda>l u i s. Inr \<lparr>ht_StatusCode = 200, ht_Status = ''200 OK'', ht_Body = ''{access}'', ht_ReadErr = None\<rparr>),
     dd_get_release = (\<lambda>l u t. Inr \<lparr>ht_StatusCode = 200, ht_Status = ''200 OK'', ht_Body = ''release'', ht_ReadErr = None\<rparr>),
     dd_json_token = (\<lambda>b. Inr (Some ''access'')),
     dd_start_auth = (\<lambda>l. None),
     dd_wait_auth = (\<lambda>l. Some None),
     dd_dial_oauth = (\<lambda>l t k. None),
     dd_create_nodes = (\<lambda>l n. Inr '''')\<rparr>"

definition sample_dd_config :: dd_config where
  "sample_dd_config = \<lparr>dc_obsSVC = ''oms'', dc_obmSVC = ''om'', dc_obmPort = 443, dc_keycloakURL = ''keycloak.a'',
     dc_mac = rq_MacId sample_req, dc_uuid = rq_Uuid sample_req, dc_serial = rq_Serialnum sample_req,
     dc_ip = rq_HostIp sample_req\<rparr>"

lemma sample_request: "stream_request sample_dd_config = sample_req"
  by (simp add: stream_request_def sample_dd_config_def)

lemma list_ex_run:
  "list_ex P (calls_of m) \<Longrightarrow> \<exists>r cs c. run_io m [] = (r, [] @ cs) \<and> c \<in> set cs \<and> P c"
  by (cases "run_io m []") (auto simp: calls_of_def list_ex_iff)

fun sends_wire :: "wire_resp \<Rightarrow> om_call \<Rightarrow> bool" where
  "sends_wire w (StreamSend a) = (to_wire a = w)"
| "sends_wire w c = False"

lemma servedI:
  assumes "\<And>k. dd_recv E k = Inr (Some w)" and "list_ex (sends_wire w) (calls_of (handle_request OE request))"
  shows "served OE request E"
proof -
  from list_ex_run [OF assms(2)] obtain r cs c where "run_io (handle_request OE request) [] = (r, [] @ cs)"
    "c \<in> set cs" "sends_wire w c" by blast
  moreover from this(3) obtain a where "c = StreamSend a" "w = to_wire a" by (cases c) auto
  ultimately show ?thesis using assms(1) unfolding served_def by fastforce
qed

lemma enrolment_end_to_end_witness:
  "\<exists>(h :: host) i s a r. h_DesiredState h = HOST_STATE_ONBOARDED \<and>
    writes (calls_of (grpcClient sample_dd_env Background sample_dd_config ''/ca.crt'' 1)) =
      [(projectIDPath, h_TenantId h), (clientIDPath, i), (clientSecretPath, s),
       (accessTokenFile, a), (releaseTokenFile, r)]"
proof -
  let ?m = "grpcClient sample_dd_env Background sample_dd_config ''/ca.crt'' 1"
  have served: "served onboarding_env (stream_request sample_dd_config) sample_dd_env"
    unfolding sample_request
  proof (rule servedI)
    show "dd_recv sample_dd_env k = Inr (Some (to_wire (credentials_resp (sample_host\<lparr>h_SerialNumber := ''''\<rparr>) ''id'' ''secret'')))" for k
      by (simp add: sample_dd_env_def)
    show "list_ex (sends_wire (to_wire (credentials_resp (sample_host\<lparr>h_SerialNumber := ''''\<rparr>) ''id'' ''secret'')))
        (calls_of (handle_request onboarding_env sample_req))" by code_simp
  qed
  have "result_of ?m = Ret (Some Done)" by code_simp
  then have run: "run_io ?m [] = (Ret (Some Done), [] @ calls_of ?m)"
    by (simp add: result_of_def calls_of_def prod_eq_iff)
  have "\<not> list_ex starts_auth (calls_of ?m)" by code_simp
  from enrolment_end_to_end [OF served run this] show ?thesis
    by (elim exE conjE) (intro exI conjI, assumption+)
qed

lemma fallback_end_to_end_witness:
  "\<exists>as bs. calls_of (grpcClient
      (sample_dd_env\<lparr>dd_recv := \<lambda>l. Inr (Some (to_wire (plain_resp NotFound ''Device not found'' NODE_STATE_UNSPECIFIED)))\<rparr>)
      Background sample_dd_config ''/ca.crt'' 1) = as @ DdStartAuth Background # bs \<and> writes as = []"
proof -
  let ?E = "sample_dd_env\<lparr>dd_recv := \<lambda>l. Inr (Some (to_wire (plain_resp NotFound ''Device not found'' NODE_STATE_UNSPECIFIED)))\<rparr>"
  let ?m = "grpcClient ?E Background sample_dd_config ''/ca.crt'' 1"
  have served: "served sample_env (stream_request sample_dd_config) ?E"
    unfolding sample_request
  proof (rule servedI)
    show "dd_recv ?E k = Inr (Some (to_wire (plain_resp NotFound ''Device not found'' NODE_STATE_UNSPECIFIED)))" for k
      by simp
    show "list_ex (sends_wire (to_wire (plain_resp NotFound ''Device not found'' NODE_STATE_UNSPECIFIED)))
        (calls_of (handle_request sample_env sample_req))" by code_simp
  qed
  have run: "run_io ?m [] = (result_of ?m, [] @ calls_of ?m)"
    by (simp add: result_of_def calls_of_def)
  have "list_ex starts_auth (calls_of ?m)" by code_simp
  moreover have "lookup_laws sample_env"
    by (auto simp: lookup_laws_def sample_env_def split: list.splits)
  ultimately show ?thesis using fallback_end_to_end [OF served _ run] by blast
qed

lemma new_machine_is_refused_once_witness:
  "\<exists>e cs. run_io (grpcInfraOnboardNodeJWT sample_dd_env Background ''om'' 443
      (node_request ''aa:bb:cc:dd:ee:ff'' ''10.0.0.7'' ''00000000-0000-0000-0000-000000000001'' ''SN12345'') ''/ca.crt'' ''/token'') []
    = (Ret (Some e), [] @ cs) \<and> writes cs = []"
proof -
  let ?n = "node_request ''aa:bb:cc:dd:ee:ff'' ''10.0.0.7'' ''00000000-0000-0000-0000-000000000001'' ''SN12345''"
  let ?m = "CreateNodes (sample_env\<lparr>inv_get := \<lambda>l c t i. Inr (Some (ResHost sample_host))\<rparr>) False True (Some ''t1'') ?n"
  have "result_of ?m = Ret (Inr \<lparr>nr_Payload = ?n, nr_ProjectId = ''''\<rparr>)" by code_simp
  then have run: "run_io ?m [] = (Ret (Inr \<lparr>nr_Payload = ?n, nr_ProjectId = ''''\<rparr>), [] @ calls_of ?m)"
    by (simp add: result_of_def calls_of_def prod_eq_iff)
  have created: "list_ex creates_host (calls_of ?m)" by code_simp
  have "\<forall>k. dd_create_nodes sample_dd_env k ?n = Inr (nr_ProjectId \<lparr>nr_Payload = ?n, nr_ProjectId = ''''\<rparr>)"
    by (simp add: sample_dd_env_def)
  from new_machine_is_refused_once [OF run created this] show ?thesis by blast
qed

lemma command_line_readers_agree_witness:
  "dd_parseCmdLine [''quiet'', ''worker_id=aa:bb'', ''DEBUG=false'', ''TIMEOUT=30s''] =
    Ret \<lparr>kc_workerID = ''aa:bb'', kc_debug = ''false'', kc_timeout = ''30s''\<rparr>"
proof -
  let ?ps = "[''quiet'', ''worker_id=aa:bb'', ''DEBUG=false'', ''TIMEOUT=30s'']"
  have "\<forall>p \<in> set ?ps. length (split_char CHR ''='' p) \<le> 2" by code_simp
  from command_line_readers_agree [OF this] show ?thesis
    by (simp add: command_line_parameters last_value_def has_prefix_def)
qed

lemma address_is_of_the_interface_witness:
  "\<exists>b. b ! 0 \<noteq> 127 \<and> show_ip4 b = ''10.0.0.7''"
proof -
  let ?m = "getIPAddress sample_dd_env ''aa:bb:cc:dd:ee:ff''"
  have "result_of ?m = Ret (Inr ''10.0.0.7'')" by code_simp
  then have "run_io ?m [] = (Ret (Inr ''10.0.0.7''), calls_of ?m)"
    by (simp add: result_of_def calls_of_def prod_eq_iff)
  from address_is_of_the_interface [OF this] show ?thesis by metis
qed

end
