(* ===== verification/TaApi.thy ===== *)
theory TaApi
  imports GoConv GoErrors GoPath
begin

text \<open>
  The actions that a provisioning workflow runs on the edge node (\<open>tinker-actions\<close>): the calls
  they make to the operating system and to the image server, and the environment \<open>ta_env\<close> that
  answers them. Every action is a process of its own, with its own run. The variables of a
  process do not change while it runs and are a function. Log lines are left out, and so is the
  goroutine that prints the progress of a download.
\<close>

section \<open>Block devices\<close>

record drive_info =
  dv_Name :: string
  dv_Size :: "64 word"
  dv_Type :: string
  dv_Tran :: string
  dv_IsRemovable :: bool

record partition_info =
  pt_Name :: string
  pt_Type :: string
  pt_FileSystemType :: string
  pt_Label :: string
  pt_PartitionLabel :: string

section \<open>Calls\<close>

datatype ta_call =
    TaCombined "string list"                       \<comment> \<open>run a command, take its output\<close>
  | TaStart "string list" | TaWait "string list"   \<comment> \<open>start a command, wait for its end\<close>
  | TaMkdir string int | TaStat string | TaMount string string string "string list"
  | TaUnmount string bool | TaRename string string | TaCreate string
  | TaWriteFile string string int | TaChown string int int
  | TaGetwd | TaOpen string | TaChroot string | TaChdir string | TaFchdir | TaCloseDir
  | TaGet string bool | TaCloseBody                \<comment> \<open>download; with the certificate of the server\<close>
  | TaOpenDevice string | TaCloseDevice string | TaSync string | TaReprobe string
  | TaDecompress string | TaCloseDecompressor
  | TaCopyBody string bool                         \<comment> \<open>copy the (decompressed) body to a file\<close>
  | TaCreateTemp | TaCloseTemp | TaRemoveTemp string
  | TaRun "string list" | TaSleep int | TaBackoff int

type_synonym 'a ta = "(ta_call, 'a) io"

record image_resp =
  ir_StatusCode :: int
  ir_Status :: string

datatype ta_stat = TaNotExist | TaStatErr goerr | TaDir | TaFile

text \<open>
  The reply to a copy: the bytes of the body that went through the hash, and the error of the
  copy. Errors that \<open>errors.Is\<close> takes for an (unexpected) end of file are \<open>CopyEOF\<close>.
\<close>

datatype copy_err = CopyOk | CopyEOF | CopyErr goerr

record ta_env =
  ta_getenv :: "string \<Rightarrow> string"
  ta_combined :: "ta_call list \<Rightarrow> string list \<Rightarrow> goerr + string"
  ta_json_drives :: "string \<Rightarrow> goerr + drive_info list"
  ta_json_partitions :: "string \<Rightarrow> goerr + partition_info list"
  ta_start :: "ta_call list \<Rightarrow> string list \<Rightarrow> error"
  ta_wait :: "ta_call list \<Rightarrow> string list \<Rightarrow> error"
  ta_mkdir :: "ta_call list \<Rightarrow> string \<Rightarrow> int \<Rightarrow> error"
  ta_stat_path :: "ta_call list \<Rightarrow> string \<Rightarrow> ta_stat"
  ta_mount :: "ta_call list \<Rightarrow> string \<Rightarrow> string \<Rightarrow> error"
  ta_unmount :: "ta_call list \<Rightarrow> string \<Rightarrow> error"
  ta_rename :: "ta_call list \<Rightarrow> string \<Rightarrow> string \<Rightarrow> error"
  ta_create :: "ta_call list \<Rightarrow> string \<Rightarrow> error"
  ta_write_file :: "ta_call list \<Rightarrow> string \<Rightarrow> string \<Rightarrow> error"
  ta_chown :: "ta_call list \<Rightarrow> string \<Rightarrow> error"
  ta_getwd :: "ta_call list \<Rightarrow> goerr + string"
  ta_open :: "ta_call list \<Rightarrow> string \<Rightarrow> error"
  ta_chroot :: "ta_call list \<Rightarrow> string \<Rightarrow> error"
  ta_chdir :: "ta_call list \<Rightarrow> string \<Rightarrow> error"
  ta_fchdir :: "ta_call list \<Rightarrow> error"
  ta_new_request :: "string \<Rightarrow> error"
  ta_cert_pem :: "string \<Rightarrow> string option"
  ta_parse_cert :: "string \<Rightarrow> error"
  ta_pool_ok :: "string \<Rightarrow> bool"
  ta_get :: "ta_call list \<Rightarrow> string \<Rightarrow> goerr + image_resp"
  ta_open_device :: "ta_call list \<Rightarrow> string \<Rightarrow> error"
  ta_decompress :: "ta_call list \<Rightarrow> string \<Rightarrow> error"
  ta_copy :: "ta_call list \<Rightarrow> string \<Rightarrow> bool \<Rightarrow> string \<times> copy_err"
  ta_sync :: "ta_call list \<Rightarrow> string \<Rightarrow> error"
  ta_reprobe :: "ta_call list \<Rightarrow> string \<Rightarrow> error"
  ta_sha256 :: "string \<Rightarrow> string"
  ta_create_temp :: "ta_call list \<Rightarrow> goerr + string"
  ta_run :: "ta_call list \<Rightarrow> string list \<Rightarrow> error \<times> string"
  ta_url_parse :: "string \<Rightarrow> goerr + string"
  ta_base64 :: "string \<Rightarrow> goerr + string"
  ta_backoff :: "ta_call list \<Rightarrow> int \<Rightarrow> bool"

text \<open>How an action ends: it returns, or it exits with a status.\<close>

datatype ta_finish = TaDone | TaExit int

definition ta_done :: "ta_call \<Rightarrow> unit ta" where
  "ta_done c = call c (\<lambda>_. ())"

text \<open>An error of a call, with a message around it.\<close>

definition ta_wrap :: "string \<Rightarrow> error ta \<Rightarrow> error ta" where
  "ta_wrap msg m = bnd m (\<lambda>err. ret (case err of None \<Rightarrow> None | Some e \<Rightarrow> Some (FmtErrorf msg (Some e))))"

text \<open>\<open>strings.ReplaceAll\<close>. With an empty \<open>old\<close> Go puts \<open>new\<close> around every character; the code
  does that only with an empty \<open>new\<close>, which changes nothing.\<close>

function replace_all :: "string \<Rightarrow> string \<Rightarrow> string \<Rightarrow> string" where
  "replace_all old new [] = (if old = [] then new else [])"
| "replace_all old new (c # s) =
     (if old = [] then new @ c # replace_all old new s
      else if has_prefix (c # s) old then new @ replace_all old new (drop (length old) (c # s))
      else c # replace_all old new s)"
  by pat_completeness auto

termination
  by (relation "measure (\<lambda>(old, new, s). length s)") auto

lemma replace_all_nothing [simp]: "replace_all [] [] s = s"
  by (induction s) simp_all

lemma ta_wrap_run [simp]:
  "run_io (ta_wrap msg m) l = (case run_io m l of
     (Ret err, l') \<Rightarrow> (Ret (map_option (\<lambda>e. FmtErrorf msg (Some e)) err), l') | (Panic, l') \<Rightarrow> (Panic, l'))"
  by (auto simp: ta_wrap_def split: prod.split outcome.split option.split)

lemma emits_ta_wrap [emits_intro]: "emits P m \<Longrightarrow> emits P (ta_wrap msg m)"
  unfolding ta_wrap_def by (intro emits_intro)

lemma ta_done_run [simp]: "run_io (ta_done c) l = (Ret (), l @ [c])"
  by (simp add: ta_done_def)

lemma emits_ta_done [emits_intro]: "P c \<Longrightarrow> emits P (ta_done c)"
  unfolding ta_done_def by (intro emits_intro)

end
