(* ===== verification/Drives.thy ===== *)
theory Drives
  imports TaApi "HOL-Library.List_Lexorder" "HOL-Library.Multiset"
begin

text \<open>
  How an action finds the disk to work on, when it is not told (\<open>pkg/drive_detection\<close>), and the
  partition on it that holds the root file system.
\<close>

section \<open>The order of drives\<close>

definition getDiskType :: "drive_info \<Rightarrow> string" where
  "getDiskType d =
     (if has_prefix (dv_Name d) ''nvme'' then ''nvme''
      else if has_prefix (dv_Name d) ''sd'' then ''sd''
      else ''NA'')"

text \<open>A map read: a missing key gives 0.\<close>

definition driveTypeRanking :: "string \<Rightarrow> nat" where
  "driveTypeRanking k = (case map_of [(''sd'', 0), (''nvme'', 1), (''NA'', 2)] k of None \<Rightarrow> 0 | Some n \<Rightarrow> n)"

definition drive_Less :: "drive_info \<Rightarrow> drive_info \<Rightarrow> bool" where
  "drive_Less a b =
     (if driveTypeRanking (getDiskType a) = driveTypeRanking (getDiskType b) then
        (if dv_Size a = dv_Size b then dv_Name a < dv_Name b
         else dv_Size a < dv_Size b)
      else driveTypeRanking (getDiskType a) < driveTypeRanking (getDiskType b))"

definition filterDrives :: "drive_info list \<Rightarrow> drive_info list" where
  "filterDrives drives = filter (\<lambda>d. dv_Size d \<noteq> 0 \<and> dv_Type d = ''disk'' \<and> \<not> dv_IsRemovable d) drives"

text \<open>\<open>sort.Sort\<close> on up to twelve elements is this insertion sort: an element moves down past its
  predecessors for as long as it is less. On longer lists it is another algorithm; the locale
  \<open>sorter\<close> below says what all of them promise.\<close>

fun move_down :: "('a \<Rightarrow> 'a \<Rightarrow> bool) \<Rightarrow> 'a \<Rightarrow> 'a list \<Rightarrow> 'a list" where
  "move_down lt x [] = [x]"
| "move_down lt x (y # ys) = (if lt x y then y # move_down lt x ys else x # y # ys)"

definition insertion_sort :: "('a \<Rightarrow> 'a \<Rightarrow> bool) \<Rightarrow> 'a list \<Rightarrow> 'a list" where
  "insertion_sort lt xs = rev (foldl (\<lambda>rs x. move_down lt x rs) [] xs)"

definition DriveDetection :: "((drive_info \<Rightarrow> drive_info \<Rightarrow> bool) \<Rightarrow> drive_info list \<Rightarrow> drive_info list) \<Rightarrow>
    drive_info list \<Rightarrow> goerr + string" where
  "DriveDetection sort_Sort drives =
     (case sort_Sort drive_Less (filterDrives drives) of
        d # _ \<Rightarrow> Inr (''/dev/'' @ dv_Name d)
      | [] \<Rightarrow> Inl (Errorf ''No valid drives found.''))"

section \<open>Asking lsblk\<close>

definition lsblk_drives :: "string list" where
  "lsblk_drives = [''lsblk'', ''--output'', ''NAME,TYPE,SIZE,TRAN,RM'', ''-bldn'', ''--json'']"

definition GetDrives :: "ta_env \<Rightarrow> (goerr + drive_info list) ta" where
  "GetDrives E = if_ok (call (TaCombined lsblk_drives) (\<lambda>l. ta_combined E l lsblk_drives))
     (\<lambda>output. ret (ta_json_drives E output))"

definition lsblk_partitions :: "string \<Rightarrow> string list" where
  "lsblk_partitions disk = [''lsblk'', ''--output'', ''NAME,TYPE,FSTYPE,LABEL,PARTLABEL'', ''-ln'', ''--json'', disk]"

definition is_rootfs :: "partition_info \<Rightarrow> bool" where
  "is_rootfs p \<longleftrightarrow> pt_Type p = ''part'' \<and>
     (contains_str (pt_PartitionLabel p) ''rootfs'' \<or> contains_str (pt_Label p) ''rootfs'')"

definition is_ext4 :: "partition_info \<Rightarrow> bool" where
  "is_ext4 p \<longleftrightarrow> pt_Type p = ''part'' \<and> pt_FileSystemType p = ''ext4''"

definition root_partition :: "string \<Rightarrow> partition_info list \<Rightarrow> goerr + string" where
  "root_partition disk partitions =
     (case find is_rootfs partitions of
        Some p \<Rightarrow> Inr (''/dev/'' @ pt_Name p)
      | None \<Rightarrow> (case find is_ext4 partitions of
            Some p \<Rightarrow> Inr (''/dev/'' @ pt_Name p)
          | None \<Rightarrow> Inl (Errorf (''root partition not found for disk'' @ disk))))"

definition FindRootPartitionForDisk :: "ta_env \<Rightarrow> string \<Rightarrow> (goerr + string) ta" where
  "FindRootPartitionForDisk E disk =
     if_ok (call (TaCombined (lsblk_partitions disk)) (\<lambda>l. ta_combined E l (lsblk_partitions disk)))
     (\<lambda>output. ret (case ta_json_partitions E output of
        Inl e \<Rightarrow> Inl e | Inr partitions \<Rightarrow> root_partition disk partitions))"

section \<open>The drive that is chosen\<close>

text \<open>The order is that of the keys: rank, size and name, in this order.\<close>

datatype drive_key = DriveKey nat "64 word" string

instantiation drive_key :: linorder
begin

fun less_drive_key :: "drive_key \<Rightarrow> drive_key \<Rightarrow> bool" where
  "less_drive_key (DriveKey r s n) (DriveKey r' s' n') \<longleftrightarrow> r < r' \<or> r = r' \<and> (s < s' \<or> s = s' \<and> n < n')"

definition less_eq_drive_key :: "drive_key \<Rightarrow> drive_key \<Rightarrow> bool" where
  "less_eq_drive_key a b \<longleftrightarrow> a = b \<or> a < b"

instance
proof
  fix a b c :: drive_key
  show "(a < b) = (a \<le> b \<and> \<not> b \<le> a)"
    by (cases a; cases b) (auto simp: less_eq_drive_key_def)
  show "a \<le> a" by (simp add: less_eq_drive_key_def)
  show "a \<le> b \<Longrightarrow> b \<le> c \<Longrightarrow> a \<le> c"
    by (cases a; cases b; cases c) (auto simp: less_eq_drive_key_def)
  show "a \<le> b \<Longrightarrow> b \<le> a \<Longrightarrow> a = b"
    by (cases a; cases b) (auto simp: less_eq_drive_key_def)
  show "a \<le> b \<or> b \<le> a"
    by (cases a; cases b) (auto simp: less_eq_drive_key_def)
qed

end

definition key_of :: "drive_info \<Rightarrow> drive_key" where
  "key_of d = DriveKey (driveTypeRanking (getDiskType d)) (dv_Size d) (dv_Name d)"

lemma drive_Less_key: "drive_Less a b \<longleftrightarrow> key_of a < key_of b"
  by (auto simp: drive_Less_def key_of_def)

text \<open>What \<open>sort.Sort\<close> promises: the same elements, none less than one before it.\<close>

locale sorter =
  fixes srt :: "('a \<Rightarrow> 'a \<Rightarrow> bool) \<Rightarrow> 'a list \<Rightarrow> 'a list"
  assumes same: "mset (srt lt xs) = mset xs"
    and ordered: "asymp lt \<Longrightarrow> transp (\<lambda>a b. \<not> lt b a) \<Longrightarrow> sorted_wrt (\<lambda>a b. \<not> lt b a) (srt lt xs)"
begin

lemma empty_iff: "srt lt xs = [] \<longleftrightarrow> xs = []"
  by (metis same mset_zero_iff)

lemma head_is_least:
  assumes "srt (\<lambda>a b. f a < (f b :: 'k :: linorder)) xs = y # ys"
  shows "y \<in> set xs" and "x \<in> set xs \<Longrightarrow> f y \<le> f x"
proof -
  let ?less = "\<lambda>a b. f a < f b"
  have set: "set (y # ys) = set xs" using same [of ?less xs] assms by (metis set_mset_mset)
  then show "y \<in> set xs" by auto
  have "sorted_wrt (\<lambda>a b. \<not> ?less b a) (y # ys)"
    unfolding assms [symmetric]
  proof (rule ordered)
    show "asymp ?less" by (intro asympI) auto
    show "transp (\<lambda>a b. \<not> ?less b a)" by (intro transpI) (auto simp: not_less)
  qed
  then show "x \<in> set xs \<Longrightarrow> f y \<le> f x" using set by (auto simp: not_less)
qed

end

lemma mset_move_down: "mset (move_down lt x ys) = add_mset x (mset ys)"
  by (induction ys) auto

lemma mset_fold_move_down: "mset (foldl (\<lambda>rs x. move_down lt x rs) rs xs) = mset rs + mset xs"
  by (induction xs arbitrary: rs) (auto simp: mset_move_down)

lemma set_move_down [simp]: "set (move_down lt x ys) = insert x (set ys)"
  by (metis mset_move_down set_mset_add_mset_insert set_mset_mset)

lemma sorted_move_down:
  assumes "asymp lt" and "transp (\<lambda>a b. \<not> lt b a)"
  shows "sorted_wrt (\<lambda>a b. \<not> lt a b) ys \<Longrightarrow> sorted_wrt (\<lambda>a b. \<not> lt a b) (move_down lt x ys)"
proof (induction ys)
  case (Cons y ys)
  show ?case
  proof (cases "lt x y")
    case True
    with assms(1) have "\<not> lt y x" by (auto dest: asympD)
    with Cons True show ?thesis by auto
  next
    case False
    have "\<not> lt x z" if "z \<in> set ys" for z
    proof -
      from that Cons.prems have "\<not> lt y z" by simp
      with False assms(2) show ?thesis unfolding transp_on_def by blast
    qed
    with Cons.prems False show ?thesis by auto
  qed
qed simp

lemma sorted_fold_move_down:
  assumes "asymp lt" and "transp (\<lambda>a b. \<not> lt b a)"
  shows "sorted_wrt (\<lambda>a b. \<not> lt a b) rs \<Longrightarrow>
    sorted_wrt (\<lambda>a b. \<not> lt a b) (foldl (\<lambda>rs x. move_down lt x rs) rs xs)"
  by (induction xs arbitrary: rs) (auto simp: sorted_move_down [OF assms])

interpretation ins: sorter insertion_sort
proof
  fix lt :: "'a \<Rightarrow> 'a \<Rightarrow> bool" and xs
  show "mset (insertion_sort lt xs) = mset xs"
    by (simp add: insertion_sort_def mset_fold_move_down)
  assume "asymp lt" "transp (\<lambda>a b. \<not> lt b a)"
  then show "sorted_wrt (\<lambda>a b. \<not> lt b a) (insertion_sort lt xs)"
    using sorted_fold_move_down [of lt "[]" xs] by (simp add: insertion_sort_def sorted_wrt_rev)
qed

lemma DriveDetection_least:
  assumes "sorter srt"
  shows "DriveDetection srt drives =
    (let ds = filter (\<lambda>d. dv_Size d \<noteq> 0 \<and> dv_Type d = ''disk'' \<and> \<not> dv_IsRemovable d) drives
     in if ds = [] then Inl (Errorf ''No valid drives found.'')
        else (case Min (set (map key_of ds)) of DriveKey rank sz name \<Rightarrow> Inr (''/dev/'' @ name)))"
proof (cases "srt drive_Less (filterDrives drives)")
  case Nil
  then have "filterDrives drives = []" by (simp add: sorter.empty_iff [OF assms])
  with Nil show ?thesis by (simp add: DriveDetection_def filterDrives_def Let_def)
next
  case (Cons d ds)
  have less: "drive_Less = (\<lambda>a b. key_of a < key_of b)" by (auto simp: drive_Less_key fun_eq_iff)
  note head = sorter.head_is_least [OF assms Cons [unfolded less]]
  have "Min (key_of ` set (filterDrives drives)) = key_of d"
    by (rule Min_eqI) (use head in auto)
  moreover have "filterDrives drives \<noteq> []" using head(1) by auto
  ultimately show ?thesis
    using Cons by (simp add: DriveDetection_def filterDrives_def Let_def key_of_def)
qed

text \<open>The disks an action may work on, as the tests of the package have it: not empty, fixed, and
  not attached by USB.\<close>

definition fixed_disk :: "drive_info \<Rightarrow> bool" where
  "fixed_disk d \<longleftrightarrow> dv_Size d \<noteq> 0 \<and> dv_Type d = ''disk'' \<and> \<not> dv_IsRemovable d"

definition usable_disk :: "drive_info \<Rightarrow> bool" where
  "usable_disk d \<longleftrightarrow> fixed_disk d \<and> dv_Tran d \<noteq> ''usb''"

text \<open>
  C29. Whatever algorithm \<open>sort.Sort\<close> uses, on a machine none of whose fixed disks is attached by
  USB the drive that an action works on is the least of the usable disks by rank (first those named
  "sd", then "nvme", then the rest), then size, then name; there is none exactly if no such disk is
  listed. (With a fixed disk on USB the code departs from what its tests expect, see
  \<open>usb_disk_is_chosen\<close>.)
\<close>

theorem detected_drive:
  assumes "sorter srt" and "\<forall>d \<in> set drives. fixed_disk d \<longrightarrow> dv_Tran d \<noteq> ''usb''"
  shows "DriveDetection srt drives =
    (let ds = filter usable_disk drives
     in if ds = [] then Inl (Errorf ''No valid drives found.'')
        else (case Min (set (map key_of ds)) of DriveKey rank sz name \<Rightarrow> Inr (''/dev/'' @ name)))"
proof -
  have "filter usable_disk drives = filter (\<lambda>d. dv_Size d \<noteq> 0 \<and> dv_Type d = ''disk'' \<and> \<not> dv_IsRemovable d) drives"
    using assms(2) by (intro filter_cong) (auto simp: usable_disk_def fixed_disk_def)
  then show ?thesis by (simp add: DriveDetection_least [OF assms(1)])
qed

lemma detected_drive_witness:
  "DriveDetection insertion_sort
     [\<lparr>dv_Name = ''nvme0n1'', dv_Size = 256, dv_Type = ''disk'', dv_Tran = ''nvme'', dv_IsRemovable = False\<rparr>,
      \<lparr>dv_Name = ''sdc'', dv_Size = 2560, dv_Type = ''disk'', dv_Tran = ''sata'', dv_IsRemovable = False\<rparr>,
      \<lparr>dv_Name = ''sdd'', dv_Size = 64, dv_Type = ''disk'', dv_Tran = ''usb'', dv_IsRemovable = True\<rparr>]
   = Inr ''/dev/sdc''"
  by (subst detected_drive [OF ins.sorter_axioms])
    (simp_all add: usable_disk_def fixed_disk_def key_of_def getDiskType_def driveTypeRanking_def has_prefix_def)

text \<open>
  The second input of \<open>TestDriveDetection\<close> has a USB disk, which is to be passed over for
  \<open>/dev/sda\<close>: the code chooses it, because it is the smallest.
\<close>

lemma usb_disk_is_chosen:
  "DriveDetection insertion_sort
     [\<lparr>dv_Name = ''sda'', dv_Size = 1024, dv_Type = ''disk'', dv_Tran = ''sata'', dv_IsRemovable = False\<rparr>,
      \<lparr>dv_Name = ''nvme0n1'', dv_Size = 51, dv_Type = ''disk'', dv_Tran = [], dv_IsRemovable = False\<rparr>,
      \<lparr>dv_Name = ''sdb'', dv_Size = 256, dv_Type = ''disk'', dv_Tran = ''usb'', dv_IsRemovable = False\<rparr>]
   = Inr ''/dev/sdb''"
  by (subst DriveDetection_least [OF ins.sorter_axioms])
    (simp add: key_of_def getDiskType_def driveTypeRanking_def has_prefix_def)

text \<open>How a drive is attached makes no difference, removable or not.\<close>

lemma transport_is_ignored:
  assumes "sorter srt"
  shows "DriveDetection srt (map (\<lambda>d. d\<lparr>dv_Tran := t\<rparr>) drives) = DriveDetection srt drives"
proof -
  have key: "key_of (d\<lparr>dv_Tran := t\<rparr>) = key_of d" for d :: drive_info
    by (simp add: key_of_def getDiskType_def)
  have "filter (\<lambda>d. dv_Size d \<noteq> 0 \<and> dv_Type d = ''disk'' \<and> \<not> dv_IsRemovable d) (map (\<lambda>d. d\<lparr>dv_Tran := t\<rparr>) drives)
    = map (\<lambda>d. d\<lparr>dv_Tran := t\<rparr>) (filter (\<lambda>d. dv_Size d \<noteq> 0 \<and> dv_Type d = ''disk'' \<and> \<not> dv_IsRemovable d) drives)"
    by (induction drives) auto
  then show ?thesis
    by (simp add: DriveDetection_least [OF assms] Let_def key comp_def image_image)
qed

end
