(* ===== verification/WriteFile.thy ===== *)
theory WriteFile
  imports Drives
begin

text \<open>
  The action \<open>writefile\<close>, which mounts the root partition of the node and writes one file on it
  (\<open>src/writefile/main.go\<close>). Its inputs are variables of its environment.
\<close>

definition mountAction :: string where
  "mountAction = ''/mountAction''"

text \<open>\<open>os.ModeDir\<close>.\<close>

definition ModeDir :: int where
  "ModeDir = 2 ^ 31"

text \<open>The disk that is worked on when none is given.\<close>

definition detect_disk :: "ta_env \<Rightarrow> (goerr + string) ta" where
  "detect_disk E = if_ok (GetDrives E) (\<lambda>drives. ret (DriveDetection insertion_sort drives))"

section \<open>Inputs\<close>

text \<open>\<open>strconv.ParseUint(s, 8, 32)\<close>.\<close>

definition ParseUint8 :: "string \<Rightarrow> int option" where
  "ParseUint8 s =
     (let n = foldl (\<lambda>n c. 8 * n + digit_val c) 0 s
      in if s \<noteq> [] \<and> list_all (\<lambda>c. is_digit c \<and> digit_val c < 8) s \<and> n < 2 ^ 32 then Some n else None)"

text \<open>\<open>filepath.Split\<close>: the directory with its slash, and the rest.\<close>

definition path_Split :: "string \<Rightarrow> string \<times> string" where
  "path_Split p = (let file = rev (takeWhile (\<lambda>c. c \<noteq> CHR ''/'') (rev p))
     in (take (length p - length file) p, file))"

definition IsAbs :: "string \<Rightarrow> bool" where
  "IsAbs p \<longleftrightarrow> has_prefix p ''/''"

definition render_contents :: "string \<Rightarrow> string \<Rightarrow> string \<Rightarrow> string" where
  "render_contents driveName blockDevice contents =
     (let c = replace_all ''$DEST_DISK'' driveName contents;
          rootPart = replace_all driveName '''' blockDevice
      in replace_first ''$ID'' rootPart c)"

section \<open>Directories\<close>

definition dirExists :: "ta_env \<Rightarrow> string \<Rightarrow> string \<Rightarrow> (goerr + bool) ta" where
  "dirExists E mountPath path =
     (let fqPath = path_Join [mountPath, path]
      in bnd (call (TaStat fqPath) (\<lambda>l. ta_stat_path E l fqPath)) (\<lambda>st. ret (case st of
           TaStatErr e \<Rightarrow> Inl (FmtErrorf (''failed to stat path '' @ path) (Some e))
         | TaFile \<Rightarrow> Inl (FmtErrorf (''expected '' @ path @ '' to be a path, but it is a file'') None)
         | TaDir \<Rightarrow> Inr True
         | TaNotExist \<Rightarrow> Inr False)))"

definition ensureDir :: "ta_env \<Rightarrow> string \<Rightarrow> string \<Rightarrow> int \<Rightarrow> int \<Rightarrow> int \<Rightarrow> error ta" where
  "ensureDir E mountPath path mode uid gid =
     if_got (dirExists E mountPath path) (\<lambda>exists.
     if exists then ret None
     else let fqPath = path_Join [mountPath, path] in
       if_nil (ta_wrap (''failed to create directory '' @ path)
         (call (TaMkdir fqPath mode) (\<lambda>l. ta_mkdir E l fqPath mode)))
       (ta_wrap (''failed to set ownership of directory '' @ path)
         (call (TaChown fqPath uid gid) (\<lambda>l. ta_chown E l fqPath))))"

fun ensure_parts :: "ta_env \<Rightarrow> string \<Rightarrow> string \<Rightarrow> int \<Rightarrow> int \<Rightarrow> int \<Rightarrow> string list \<Rightarrow> error ta" where
  "ensure_parts E mountPath basePath mode uid gid [] = ret None"
| "ensure_parts E mountPath basePath mode uid gid (part # parts) =
     (let basePath' = path_Join [basePath, part] in
      if_nil (ensureDir E mountPath basePath' mode uid gid)
        (ensure_parts E mountPath basePath' mode uid gid parts))"

definition recursiveEnsureDir :: "ta_env \<Rightarrow> string \<Rightarrow> string \<Rightarrow> int \<Rightarrow> int \<Rightarrow> int \<Rightarrow> error ta" where
  "recursiveEnsureDir E mountPath path mode uid gid =
     if_got (dirExists E mountPath path) (\<lambda>exists.
     if exists then ret None
     else let pathParts = split_char CHR ''/'' path in
       if pathParts = [path] then ret (Some (Errorf ''bad path''))
       else ensure_parts E mountPath ''/'' mode uid gid pathParts)"

section \<open>The action\<close>

definition fatal_err :: "error ta \<Rightarrow> ta_finish ta \<Rightarrow> ta_finish ta" where
  "fatal_err m n = bnd m (\<lambda>err. if err \<noteq> None then ret (TaExit 1) else n)"

definition fatal_got :: "(goerr + 'a) ta \<Rightarrow> ('a \<Rightarrow> ta_finish ta) \<Rightarrow> ta_finish ta" where
  "fatal_got m f = bnd m (\<lambda>r. case r of Inl e \<Rightarrow> ret (TaExit 1) | Inr x \<Rightarrow> f x)"

text \<open>The drive that was detected (none when the device was given) and the device to mount.\<close>

definition wf_device :: "ta_env \<Rightarrow> (goerr + string \<times> string) ta" where
  "wf_device E = (let blockDevice = ta_getenv E ''DEST_DISK'' in
     if blockDevice = '''' then
       if_ok (detect_disk E) (\<lambda>driveName.
       if_ok (FindRootPartitionForDisk E driveName) (\<lambda>dev. ret (Inr (driveName, dev))))
     else ret (Inr ('''', blockDevice)))"

record wf_inputs =
  wi_fileMode :: int
  wi_dirMode :: int
  wi_uid :: int
  wi_gid :: int
  wi_dirPath :: string

definition wf_validate :: "ta_env \<Rightarrow> string \<Rightarrow> wf_inputs option" where
  "wf_validate E blockDevice =
     (let filePath = ta_getenv E ''DEST_PATH'' in
      if blockDevice = '''' \<or> \<not> IsAbs filePath then None
      else Option.bind (ParseUint8 (ta_getenv E ''MODE'')) (\<lambda>fileMode.
        Option.bind (ParseUint8 (ta_getenv E ''DIRMODE'')) (\<lambda>dirMode.
        Option.bind (Atoi (ta_getenv E ''UID'')) (\<lambda>uid.
        Option.bind (Atoi (ta_getenv E ''GID'')) (\<lambda>gid.
        case path_Split filePath of (dirPath, fileName) \<Rightarrow>
          if fileName = '''' then None
          else Some \<lparr>wi_fileMode = fileMode, wi_dirMode = dirMode, wi_uid = uid, wi_gid = gid,
                 wi_dirPath = dirPath\<rparr>)))))"

definition wf_write :: "ta_env \<Rightarrow> string \<Rightarrow> string \<Rightarrow> wf_inputs \<Rightarrow> ta_finish ta" where
  "wf_write E blockDevice contents inp =
     (let fqFilePath = path_Join [mountAction, ta_getenv E ''DEST_PATH''];
          fs = ta_getenv E ''FS_TYPE'' in
      fatal_err (call (TaMkdir mountAction ModeDir) (\<lambda>l. ta_mkdir E l mountAction ModeDir))
      (fatal_err (call (TaMount blockDevice mountAction fs []) (\<lambda>l. ta_mount E l blockDevice mountAction))
      (fatal_err (recursiveEnsureDir E mountAction (wi_dirPath inp) (wi_dirMode inp) (wi_uid inp) (wi_gid inp))
      (fatal_err (call (TaWriteFile fqFilePath contents (wi_fileMode inp))
                   (\<lambda>l. ta_write_file E l fqFilePath contents))
      (fatal_err (call (TaChown fqFilePath (wi_uid inp) (wi_gid inp)) (\<lambda>l. ta_chown E l fqFilePath))
        (ret TaDone))))))"

definition writefile_main :: "ta_env \<Rightarrow> ta_finish ta" where
  "writefile_main E = fatal_got (wf_device E) (\<lambda>(driveName, blockDevice).
     case wf_validate E blockDevice of
       None \<Rightarrow> ret (TaExit 1)
     | Some inp \<Rightarrow> wf_write E blockDevice
         (render_contents driveName blockDevice (ta_getenv E ''CONTENTS'')) inp)"

section \<open>Paths below the mount point\<close>

text \<open>A path at or below the mount point.\<close>

definition below_mount :: "string \<Rightarrow> bool" where
  "below_mount p \<longleftrightarrow> (\<exists>ps. list_all plain_elem ps \<and> p = abs_path (''mountAction'' # ps))"

lemma mountAction_elements: "elements mountAction = [''mountAction'']" "''..'' \<notin> set (split_char CHR ''/'' mountAction)"
  by (simp_all add: mountAction_def elements_def)

lemma join_below_mount:
  assumes "''..'' \<notin> set (split_char CHR ''/'' p)"
  shows "path_Join [mountAction, p] = abs_path (''mountAction'' # elements p)"
    and "below_mount (path_Join [mountAction, p])"
proof -
  show "path_Join [mountAction, p] = abs_path (''mountAction'' # elements p)"
    using path_Join_abs [of mountAction p] assms mountAction_elements by (simp add: mountAction_def)
  with plain_elements [OF assms] show "below_mount (path_Join [mountAction, p])"
    unfolding below_mount_def by blast
qed

end
