(* ===== verification/Cexec.thy ===== *)
theory Cexec
  imports WriteFile
begin

text \<open>
  The action \<open>cexec\<close>, which runs commands in the root file system of the node
  (\<open>src/cexec/main.go\<close>). Its settings come from a flag library and are an argument.
\<close>

record settings =
  se_blockDevice :: string
  se_filesystemType :: string
  se_chroot :: string
  se_defaultInterpreter :: string
  se_cmdLine :: string
  se_updateResolvConf :: bool

definition checkRequiredFields :: "settings \<Rightarrow> string list" where
  "checkRequiredFields s =
     (if se_blockDevice s = '''' then [''block-device''] else []) @
     (if se_filesystemType s = '''' then [''fs-type''] else []) @
     (if se_cmdLine s = '''' then [''cmd-line''] else [])"

section \<open>Mounts\<close>

definition mount :: "ta_env \<Rightarrow> string \<Rightarrow> string \<Rightarrow> string \<Rightarrow> string list \<Rightarrow> error ta" where
  "mount E src target fs flags = call (TaMount src target fs flags) (\<lambda>l. ta_mount E l src target)"

definition unmount :: "ta_env \<Rightarrow> string \<Rightarrow> bool \<Rightarrow> error ta" where
  "unmount E target detach = call (TaUnmount target detach) (\<lambda>l. ta_unmount E l target)"

definition mounted_at :: "string \<Rightarrow> string" where
  "mounted_at d = path_Join [mountAction, d]"

definition mountSpecialDirs :: "ta_env \<Rightarrow> settings \<Rightarrow> error ta" where
  "mountSpecialDirs E s =
     if_nil (ta_wrap ''couldn't mount /dev'' (mount E ''none'' (mounted_at ''dev'') ''devtmpfs'' []))
     (if_nil (ta_wrap ''couldn't mount /proc'' (mount E ''none'' (mounted_at ''proc'') ''proc'' [''MS_RDONLY'']))
     (if_nil (ta_wrap ''couldn't mount /sys'' (mount E ''none'' (mounted_at ''sys'') ''sysfs'' [''MS_RDONLY'']))
     (if se_updateResolvConf s then
        ta_wrap ''couldn't mount /etc/resolv.conf''
          (mount E ''/etc/resolv.conf'' (mounted_at ''etc/resolv.conf'') '''' [''MS_BIND'', ''MS_RDONLY''])
      else ret None)))"

definition umountSpecialDirs :: "ta_env \<Rightarrow> settings \<Rightarrow> error ta" where
  "umountSpecialDirs E s =
     if_nil (ta_wrap ''couldn't unmount'' (unmount E (mounted_at ''dev'') True))
     (if_nil (ta_wrap ''couldn't unmount'' (unmount E (mounted_at ''proc'') True))
     (if_nil (ta_wrap ''couldn't unmount'' (unmount E (mounted_at ''sys'') True))
     (if se_updateResolvConf s then
        ta_wrap ''couldn't unmount'' (unmount E (mounted_at ''etc/resolv.conf'') False)
      else ret None)))"

definition rename_file :: "ta_env \<Rightarrow> string \<Rightarrow> string \<Rightarrow> error ta" where
  "rename_file E a b = call (TaRename a b) (\<lambda>l. ta_rename E l a b)"

definition backupFile :: "ta_env \<Rightarrow> string \<Rightarrow> error ta" where
  "backupFile E file = ta_wrap ''error backing up'' (rename_file E file (file @ ''.backup''))"

definition restoreFile :: "ta_env \<Rightarrow> string \<Rightarrow> error ta" where
  "restoreFile E file = ta_wrap ''error restoring'' (rename_file E (file @ ''.backup'') file)"

section \<open>Changing the root\<close>

definition enter_chroot :: "ta_env \<Rightarrow> string \<Rightarrow> error ta" where
  "enter_chroot E path =
     if_got (call TaGetwd (\<lambda>l. ta_getwd E l)) (\<lambda>cwd.
     if_nil (call (TaOpen cwd) (\<lambda>l. ta_open E l cwd))
     (bnd (call (TaChroot path) (\<lambda>l. ta_chroot E l path)) (\<lambda>err.
        if err \<noteq> None then bnd (ta_done TaCloseDir) (\<lambda>_. ret err)
        else bnd (call (TaChdir ''/'') (\<lambda>l. ta_chdir E l ''/'')) (\<lambda>err.
          if err \<noteq> None then bnd (ta_done TaCloseDir) (\<lambda>_. ret err) else ret None))))"

definition exitChroot :: "ta_env \<Rightarrow> error ta" where
  "exitChroot E = with_defer
     (if_nil (call TaFchdir (\<lambda>l. ta_fchdir E l)) (call (TaChroot ''.'') (\<lambda>l. ta_chroot E l ''.'')))
     (\<lambda>_. ta_done TaCloseDir)"

section \<open>Commands\<close>

definition run_command :: "ta_env \<Rightarrow> string list \<Rightarrow> error ta" where
  "run_command E cmd =
     if_nil (ta_wrap ''error starting'' (call (TaStart cmd) (\<lambda>l. ta_start E l cmd)))
       (ta_wrap ''error running'' (call (TaWait cmd) (\<lambda>l. ta_wait E l cmd)))"

definition run_line :: "ta_env \<Rightarrow> string \<Rightarrow> error ta" where
  "run_line E line = run_command E (split_char CHR '' '' line)"

fun run_lines :: "ta_env \<Rightarrow> string list \<Rightarrow> error ta" where
  "run_lines E [] = ret None"
| "run_lines E (line # ls) = if_nil (run_line E line) (run_lines E ls)"

interpretation cmd_loop: stop_on_error "run_line E" "run_lines E" for E
  by unfold_locales simp_all

definition run_interpreter :: "ta_env \<Rightarrow> settings \<Rightarrow> error ta" where
  "run_interpreter E s =
     (let di = split_char CHR '' '' (se_defaultInterpreter s) in
      bnd (call (TaStat (hd di)) (\<lambda>l. ta_stat_path E l (hd di))) (\<lambda>st.
        if st = TaNotExist then ret (Some (Errorf ''unable to find the interpreter''))
        else run_command E (di @ [se_cmdLine s])))"

definition run_commands :: "ta_env \<Rightarrow> settings \<Rightarrow> error ta" where
  "run_commands E s =
     (if se_defaultInterpreter s \<noteq> '''' then run_interpreter E s
      else run_lines E (split_char CHR '';'' (se_cmdLine s)))"

section \<open>The action\<close>

definition drop_error :: "error ta \<Rightarrow> unit ta" where
  "drop_error m = bnd m (\<lambda>_. ret ())"

definition in_root :: "ta_env \<Rightarrow> settings \<Rightarrow> error ta" where
  "in_root E s =
     if_nil (mountSpecialDirs E s)
     (with_defer
       (if_nil (ta_wrap ''error changing root'' (enter_chroot E mountAction))
         (with_defer (run_commands E s) (\<lambda>_. drop_error (exitChroot E))))
       (\<lambda>_. drop_error (umountSpecialDirs E s)))"

definition resolv_conf :: string where
  "resolv_conf = path_Join [mountAction, ''etc'', ''resolv.conf'']"

definition cexec :: "ta_env \<Rightarrow> settings \<Rightarrow> error ta" where
  "cexec E s =
     (if se_blockDevice s = '''' then ret (Some (Errorf ''no Block Device specified''))
      else
        if_nil (ta_wrap ''error creating the mount point'' (call (TaMkdir mountAction ModeDir) (\<lambda>l. ta_mkdir E l mountAction ModeDir)))
        (if_nil (ta_wrap ''error mounting'' (mount E (se_blockDevice s) mountAction (se_filesystemType s) []))
        (if se_chroot s = '''' then run_commands E s
         else if se_updateResolvConf s then
           bnd (backupFile E resolv_conf) (\<lambda>err.
             if err \<noteq> None then ret (Some (FmtErrorf ''error backing up resolv.conf, resolv.conf will not work in the chroot'' err))
             else with_defer
               (if_nil (ta_wrap ''error creating resolv.conf, resolv.conf will not work in the chroot''
                  (call (TaCreate resolv_conf) (\<lambda>l. ta_create E l resolv_conf)))
                (in_root E s))
               (\<lambda>_. drop_error (restoreFile E resolv_conf)))
         else in_root E s)))"

definition cexec_device :: "ta_env \<Rightarrow> settings \<Rightarrow> (goerr + string) ta" where
  "cexec_device E s =
     (if se_blockDevice s = '''' then if_ok (detect_disk E) (FindRootPartitionForDisk E)
      else ret (Inr (se_blockDevice s)))"

definition cexec_main :: "ta_env \<Rightarrow> settings \<Rightarrow> ta_finish ta" where
  "cexec_main E s0 = fatal_got (cexec_device E s0) (\<lambda>blockDevice.
     let s = s0\<lparr>se_blockDevice := blockDevice\<rparr> in
     if checkRequiredFields s \<noteq> [] then ret (TaExit 20)
     else bnd (cexec E s) (\<lambda>err. if err \<noteq> None then ret (TaExit 30) else ret TaDone))"

end
