(* ===== verification/ImageWrite.thy ===== *)
theory ImageWrite
  imports WriteFile
begin

text \<open>
  The actions that write an operating system image to the disk of the node: \<open>image2disk\<close> copies
  the downloaded image to the disk (\<open>src/image2disk\<close>), \<open>qemu_nbd_image2disk\<close> stores it in a
  temporary file, attaches that with qemu-nbd and copies the device (\<open>src/qemu_nbd_image2disk\<close>).
  The bytes that a copy takes off the body, which the hash sees, are part of its reply. The
  wait for the attached device and the retries take fuel; \<open>None\<close> is its end.
\<close>

section \<open>Certificates and compression\<close>

definition validate_cert :: "ta_env \<Rightarrow> string \<Rightarrow> error \<times> bool" where
  "validate_cert E tlsCaCert =
     (if \<not> contains_str tlsCaCert ''-----BEGIN CERTIFICATE-----'' then
        (Some (FmtErrorf ''invalid CA certificate: missing PEM header'' None), False)
      else if \<not> contains_str tlsCaCert ''-----END CERTIFICATE-----'' then
        (Some (FmtErrorf ''invalid CA certificate: missing PEM footer'' None), False)
      else (case ta_cert_pem E tlsCaCert of
          None \<Rightarrow> (Some (FmtErrorf ''invalid CA certificate: failed to parse X.509 certificate'' None), False)
        | Some block \<Rightarrow> (case ta_parse_cert E block of
              Some e \<Rightarrow> (Some (FmtErrorf ''invalid CA certificate: failed to parse X.509 certificate'' (Some e)), False)
            | None \<Rightarrow> (None, True))))"

text \<open>What comes before the request when a certificate is given.\<close>

definition check_cert :: "ta_env \<Rightarrow> string \<Rightarrow> error" where
  "check_cert E tlsCaCert =
     (if tlsCaCert = '''' then None
      else (case validate_cert E tlsCaCert of
          (Some e, _) \<Rightarrow> Some (FmtErrorf ''failed to validate CA certificate'' (Some e))
        | (None, valid) \<Rightarrow>
            if \<not> valid then Some (FmtErrorf ''invalid CA certificate'' None)
            else if \<not> ta_pool_ok E tlsCaCert then Some (FmtErrorf ''failed to append CA cert to pool'' None)
            else None))"

definition path_Ext :: "string \<Rightarrow> string" where
  "path_Ext p = (let base = rev (takeWhile (\<lambda>c. c \<noteq> CHR ''/'') (rev p))
     in if CHR ''.'' \<in> set base then CHR ''.'' # rev (takeWhile (\<lambda>c. c \<noteq> CHR ''.'') (rev base)) else '''')"

datatype compression = Bzip2 | Gzip | Xz | Zstd

fun show_compression :: "compression \<Rightarrow> string" where
  "show_compression Bzip2 = ''bzip2''"
| "show_compression Gzip = ''gzip''"
| "show_compression Xz = ''xz''"
| "show_compression Zstd = ''zs''"

text \<open>A bzip2 reader is made without reading; the others read a header and may fail.\<close>

definition new_reader :: "ta_env \<Rightarrow> compression \<Rightarrow> error ta" where
  "new_reader E k = (if k = Bzip2 then ret None
     else ta_wrap ''new reader'' (call (TaDecompress (show_compression k)) (\<lambda>l. ta_decompress E l (show_compression k))))"

definition find_compression :: "string \<Rightarrow> compression option" where
  "find_compression imageURL = (let e = path_Ext imageURL in
     if e = ''.bzip2'' \<or> e = ''.bz2'' then Some Bzip2
     else if e = ''.gz'' then Some Gzip
     else if e = ''.xz'' then Some Xz
     else if e = ''.zs'' then Some Zstd
     else None)"

definition findDecompressor :: "ta_env \<Rightarrow> string \<Rightarrow> error ta" where
  "findDecompressor E imageURL = (case find_compression imageURL of
     Some k \<Rightarrow> new_reader E k
   | None \<Rightarrow> ret (Some (FmtErrorf ''unknown compression suffix'' None)))"

definition create_compression :: "string \<Rightarrow> compression option" where
  "create_compression imagePath = (let ext = path_Ext imagePath in
     if ext = ''.bz2'' \<or> ext = ''.bzip2'' then Some Bzip2
     else if ext = ''.gz'' then Some Gzip
     else if ext = ''.xz'' then Some Xz
     else if ext = ''.zs'' \<or> ext = ''.zst'' then Some Zstd
     else None)"

definition createDecompressor :: "ta_env \<Rightarrow> string \<Rightarrow> error ta" where
  "createDecompressor E imagePath = (case create_compression imagePath of
     Some k \<Rightarrow> new_reader E k
   | None \<Rightarrow> ret (Some (FmtErrorf ''unsupported compression format'' None)))"

text \<open>The rest runs with the reader when the image is compressed, which is closed after it.\<close>

definition with_reader :: "bool \<Rightarrow> error ta \<Rightarrow> error option ta \<Rightarrow> error option ta" where
  "with_reader compressed reader m =
     (if compressed then bnd reader (\<lambda>err. case err of
          Some e \<Rightarrow> ret (Some (Some e))
        | None \<Rightarrow> with_defer m (\<lambda>_. ta_done TaCloseDecompressor))
      else m)"

text \<open>The variable \<open>SHA256\<close>, compared with the hash of what was read off the body.\<close>

definition checksum_ok :: "ta_env \<Rightarrow> string \<Rightarrow> bool" where
  "checksum_ok E got \<longleftrightarrow> ta_getenv E ''SHA256'' = '''' \<or> ta_sha256 E got = ta_getenv E ''SHA256''"

text \<open>Going on after a call without error; the error is the result otherwise.\<close>

definition or_return :: "error ta \<Rightarrow> error option ta \<Rightarrow> error option ta" where
  "or_return m n = bnd m (\<lambda>err. case err of Some e \<Rightarrow> ret (Some (Some e)) | None \<Rightarrow> n)"

section \<open>Copying to the disk\<close>

text \<open>The ticker of the progress display panics on an interval that is not positive.\<close>

definition copy_to_disk :: "ta_env \<Rightarrow> string \<Rightarrow> bool \<Rightarrow> int \<Rightarrow> error option ta" where
  "copy_to_disk E destinationDevice compressed progressInterval =
     (if progressInterval \<le> 0 then panic
      else bnd (call (TaCopyBody destinationDevice compressed) (\<lambda>l. ta_copy E l destinationDevice compressed)) (\<lambda>(got, err).
        case err of
          CopyErr e \<Rightarrow> ret (Some (Some (FmtErrorf ''error writing bytes to disk'' (Some e))))
        | _ \<Rightarrow>
          bnd (call (TaSync destinationDevice) (\<lambda>l. ta_sync E l destinationDevice)) (\<lambda>err.
          if err \<noteq> None then ret (Some (Some (FmtErrorf ''failed to sync the block device'' None)))
          else bnd (call (TaReprobe destinationDevice) (\<lambda>l. ta_reprobe E l destinationDevice)) (\<lambda>_.
          if \<not> checksum_ok E got then ret (Some (Some (FmtErrorf ''Image SHA-256 hash mismatch'' None)))
          else ret (Some None)))))"

definition http_failure :: "string \<Rightarrow> image_resp \<Rightarrow> error" where
  "http_failure sourceImage resp =
     (if ir_StatusCode resp > 300 then
        (if ir_StatusCode resp = 404 then Some (FmtErrorf (sourceImage @ '' not found'') None)
         else Some (FmtErrorf (ir_Status resp) None))
      else None)"

definition image_Write :: "ta_env \<Rightarrow> string \<Rightarrow> string \<Rightarrow> bool \<Rightarrow> int \<Rightarrow> string \<Rightarrow> error option ta" where
  "image_Write E sourceImage destinationDevice compressed progressInterval tlsCaCert =
     (case ta_new_request E sourceImage of Some e \<Rightarrow> ret (Some (Some e)) | None \<Rightarrow>
      case check_cert E tlsCaCert of Some e \<Rightarrow> ret (Some (Some e)) | None \<Rightarrow>
      bnd (call (TaGet sourceImage (tlsCaCert \<noteq> '''')) (\<lambda>l. ta_get E l sourceImage)) (\<lambda>r. case r of
        Inl e \<Rightarrow> ret (Some (Some (FmtErrorf ''Failed to download the image from URL'' (Some e))))
      | Inr resp \<Rightarrow> with_defer
          (case http_failure sourceImage resp of Some e \<Rightarrow> ret (Some (Some e)) | None \<Rightarrow>
           or_return (call (TaOpenDevice destinationDevice) (\<lambda>l. ta_open_device E l destinationDevice))
             (with_defer
               (with_reader compressed (findDecompressor E sourceImage)
                 (copy_to_disk E destinationDevice compressed progressInterval))
               (\<lambda>_. ta_done (TaCloseDevice destinationDevice))))
          (\<lambda>_. ta_done TaCloseBody)))"

section \<open>Copying through qemu-nbd\<close>

definition run_cmd :: "ta_env \<Rightarrow> string \<Rightarrow> string list \<Rightarrow> error ta" where
  "run_cmd E msg args = ta_wrap msg (bnd (call (TaRun args) (\<lambda>l. ta_run E l args)) (\<lambda>(err, out). ret err))"

definition nbd_connect :: "string \<Rightarrow> string list" where
  "nbd_connect file = [''qemu-nbd'', ''--connect=/dev/nbd0'', file]"

definition nbd_disconnect :: "string list" where
  "nbd_disconnect = [''qemu-nbd'', ''--disconnect'', ''/dev/nbd0'']"

definition dd_args :: "string \<Rightarrow> string list" where
  "dd_args dest = [''dd'', ''if=/dev/nbd0'', ''of='' @ dest, ''bs=4M'']"

fun wait_nbd :: "ta_env \<Rightarrow> nat \<Rightarrow> error option ta" where
  "wait_nbd E 0 = ret None"
| "wait_nbd E (Suc n) = bnd (call (TaRun [''lsblk'']) (\<lambda>l. ta_run E l [''lsblk''])) (\<lambda>(err, out).
     if err \<noteq> None then ret (Some (Some (FmtErrorf ''failed to run lsblk'' err)))
     else if contains_str out ''nbd0p1'' then ret (Some None)
     else bnd (ta_done (TaSleep 2)) (\<lambda>_. wait_nbd E n))"

definition install_from_nbd :: "ta_env \<Rightarrow> string \<Rightarrow> nat \<Rightarrow> error option ta" where
  "install_from_nbd E destinationDevice n =
     bnd (wait_nbd E n) (\<lambda>r. case r of
       None \<Rightarrow> ret None
     | Some (Some e) \<Rightarrow> ret (Some (Some e))
     | Some None \<Rightarrow>
         or_return (run_cmd E ''failed to run ls'' [''ls'', ''/var/lock''])
         (or_return (run_cmd E ''failed to write image to disk'' (dd_args destinationDevice))
         (or_return (run_cmd E ''failed to rerun lsblk'' [''lsblk''])
         (or_return (ta_wrap ''failed to open device'' (call (TaOpenDevice destinationDevice) (\<lambda>l. ta_open_device E l destinationDevice)))
           (with_defer
             (bnd (ta_wrap ''failed to re-probe partitions'' (call (TaReprobe destinationDevice) (\<lambda>l. ta_reprobe E l destinationDevice)))
               (\<lambda>err. ret (Some err)))
             (\<lambda>_. ta_done (TaCloseDevice destinationDevice)))))))"

definition store_image :: "ta_env \<Rightarrow> string \<Rightarrow> string \<Rightarrow> bool \<Rightarrow> nat \<Rightarrow> error option ta" where
  "store_image E tmpFile destinationDevice compressed n =
     bnd (call (TaCopyBody tmpFile compressed) (\<lambda>l. ta_copy E l tmpFile compressed)) (\<lambda>(got, err).
     case err of
       CopyErr e \<Rightarrow> ret (Some (Some (FmtErrorf ''failed to save the image to temp file'' (Some e))))
     | _ \<Rightarrow>
       bnd (ta_done TaCloseTemp) (\<lambda>_.
       or_return (run_cmd E ''failed to run ls -lh /tmp'' [''ls'', ''-lh'', ''/tmp''])
       (if \<not> checksum_ok E got then ret (Some (Some (FmtErrorf ''image SHA-256 hash mismatch'' None)))
        else
          or_return (run_cmd E ''failed to load nbd kernel module'' [''modprobe'', ''nbd''])
          (or_return (run_cmd E ''failed to run ls'' [''ls'', ''-lrth'', ''/dev/nbd0''])
          (or_return (run_cmd E ''network block device attach failed'' (nbd_connect tmpFile))
            (with_defer (install_from_nbd E destinationDevice n)
              (\<lambda>_. bnd (call (TaRun nbd_disconnect) (\<lambda>l. ta_run E l nbd_disconnect)) (\<lambda>_. ret ()))))))))"

definition qemu_Write :: "ta_env \<Rightarrow> nat \<Rightarrow> string \<Rightarrow> string \<Rightarrow> bool \<Rightarrow> int \<Rightarrow> string \<Rightarrow> error option ta" where
  "qemu_Write E n sourceImage destinationDevice compressed progressInterval tlsCaCert =
     (case check_cert E tlsCaCert of Some e \<Rightarrow> ret (Some (Some e)) | None \<Rightarrow>
      case ta_new_request E sourceImage of Some e \<Rightarrow> ret (Some (Some e)) | None \<Rightarrow>
      bnd (call (TaGet sourceImage (tlsCaCert \<noteq> '''')) (\<lambda>l. ta_get E l sourceImage)) (\<lambda>r. case r of
        Inl e \<Rightarrow> ret (Some (Some (FmtErrorf ''failed to download image from the URL'' (Some e))))
      | Inr resp \<Rightarrow> with_defer
          (if ir_StatusCode resp \<noteq> 200 then
             ret (Some (Some (FmtErrorf ''failed to download image, HTTP status code'' None)))
           else bnd (call TaCreateTemp (\<lambda>l. ta_create_temp E l)) (\<lambda>r. case r of
             Inl e \<Rightarrow> ret (Some (Some (FmtErrorf ''temp file creation failed'' (Some e))))
           | Inr tmpFile \<Rightarrow> with_defer
               (with_reader compressed (ta_wrap ''failed to create decompressor'' (createDecompressor E sourceImage))
                 (store_image E tmpFile destinationDevice compressed n))
               (\<lambda>_. ta_done (TaRemoveTemp tmpFile))))
          (\<lambda>_. ta_done TaCloseBody)))"

section \<open>The actions\<close>

text \<open>\<open>time.Duration(n) * unit\<close>, in 64 bits.\<close>

definition duration_of :: "int \<Rightarrow> int \<Rightarrow> int" where
  "duration_of n scale = sint (word_of_int (n * scale) :: 64 word)"

definition or_default :: "'a \<Rightarrow> 'a option \<Rightarrow> 'a" where
  "or_default d x = (case x of None \<Rightarrow> d | Some v \<Rightarrow> v)"

text \<open>Retries with exponential backoff; the library says whether to go on.\<close>

fun RetryNotify :: "ta_env \<Rightarrow> int \<Rightarrow> error option ta \<Rightarrow> nat \<Rightarrow> error option ta" where
  "RetryNotify E maxElapsed operation 0 = ret None"
| "RetryNotify E maxElapsed operation (Suc n) = bnd operation (\<lambda>r. case r of
     None \<Rightarrow> ret None
   | Some None \<Rightarrow> ret (Some None)
   | Some (Some e) \<Rightarrow> bnd (call (TaBackoff maxElapsed) (\<lambda>l. ta_backoff E l maxElapsed)) (\<lambda>again.
       if again then RetryNotify E maxElapsed operation n else ret (Some (Some e))))"

definition defaultRetry :: bool where "defaultRetry = True"
definition defaultRetryDuration :: int where "defaultRetryDuration = 10"
definition defaultProgressInterval :: int where "defaultProgressInterval = 3"

text \<open>The attempts at writing, \<open>n\<close> being the fuel of the retries.\<close>

type_synonym image_writer = "string \<Rightarrow> string \<Rightarrow> bool \<Rightarrow> int \<Rightarrow> string \<Rightarrow> error option ta"

definition write_operation :: "ta_env \<Rightarrow> image_writer \<Rightarrow> string \<Rightarrow> string \<Rightarrow> string \<Rightarrow> error option ta" where
  "write_operation E Write url disk tlsCaCert =
     (let cmp = or_default False (ParseBool (ta_getenv E ''COMPRESSED''));
          pi = or_default defaultProgressInterval (Atoi (ta_getenv E ''PROGRESS_INTERVAL_SECONDS''));
          interval = duration_of pi 1000000000
      in bnd (Write url disk cmp interval tlsCaCert) (\<lambda>r. ret (map_option
           (map_option (\<lambda>e. FmtErrorf ''error writing image to disk'' (Some e))) r)))"

definition write_attempts :: "ta_env \<Rightarrow> image_writer \<Rightarrow> nat \<Rightarrow> string \<Rightarrow> string \<Rightarrow> string \<Rightarrow> ta_finish option ta" where
  "write_attempts E Write n url disk tlsCaCert =
     (let re = or_default defaultRetry (ParseBool (ta_getenv E ''RETRY_ENABLED''));
          rd = or_default defaultRetryDuration (Atoi (ta_getenv E ''RETRY_DURATION_MINUTES''));
          operation = write_operation E Write url disk tlsCaCert
      in bnd (if re then RetryNotify E (duration_of rd 60000000000) operation n else operation) (\<lambda>r. ret (case r of
           None \<Rightarrow> None
         | Some None \<Rightarrow> Some TaDone
         | Some (Some e) \<Rightarrow> Some (TaExit 1))))"

definition image_disk :: "ta_env \<Rightarrow> (goerr + string) ta" where
  "image_disk E = (let disk = ta_getenv E ''DEST_DISK'' in if disk = '''' then detect_disk E else ret (Inr disk))"

text \<open>The two programs differ in the \<open>Write\<close> they call.\<close>

definition image_main :: "ta_env \<Rightarrow> image_writer \<Rightarrow> nat \<Rightarrow> ta_finish option ta" where
  "image_main E Write n =
     bnd (image_disk E) (\<lambda>r. case r of
       Inl e \<Rightarrow> ret (Some (TaExit 1))
     | Inr disk \<Rightarrow>
       let img = ta_getenv E ''IMG_URL''; ca = ta_getenv E ''TLS_CA_CERT'' in
       if img = '''' \<or> disk = '''' then ret (Some (TaExit 1)) else
       case ta_url_parse E img of Inl e \<Rightarrow> ret (Some (TaExit 1)) | Inr url \<Rightarrow>
       case (if ca \<noteq> '''' then ta_base64 E ca else Inr '''') of Inl e \<Rightarrow> ret (Some (TaExit 1)) | Inr tlsCaCert \<Rightarrow>
       write_attempts E Write n url disk tlsCaCert)"

definition image2disk_main :: "ta_env \<Rightarrow> nat \<Rightarrow> ta_finish option ta" where
  "image2disk_main E = image_main E (image_Write E)"

definition qemu_image2disk_main :: "ta_env \<Rightarrow> nat \<Rightarrow> nat \<Rightarrow> ta_finish option ta" where
  "qemu_image2disk_main E k = image_main E (qemu_Write E k)"

section \<open>The secure boot flag\<close>

definition sblog_cmd :: "string list" where
  "sblog_cmd = [''/bin/sh'', ''-c'', ''cat /host/sblog.txt | grep -i '' @ [CHR 0x22] @ ''secure boot enabled'' @ [CHR 0x22] @
     '' > /dev/null ;  echo $?'']"

definition SecureBootDisabled :: string where "SecureBootDisabled = ''1''"
definition SecureBootEnabled :: string where "SecureBootEnabled = ''0''"

definition secure_boot_mismatch :: "string \<Rightarrow> string \<Rightarrow> bool" where
  "secure_boot_mismatch boot feature \<longleftrightarrow>
     boot = SecureBootDisabled \<and> feature = ''SECURITY_FEATURE_SECURE_BOOT_AND_FULL_DISK_ENCRYPTION'' \<or>
     boot = SecureBootDisabled \<and> feature = ''SECURITY_FEATURE_UNSPECIFIED'' \<or>
     boot = SecureBootEnabled \<and> feature = ''SECURITY_FEATURE_NONE''"

text \<open>\<open>None\<close>: the command failed and the action exits with 1; otherwise whether it prints
  "Mismatch". The last line but one is read, and output without a line break panics.\<close>

definition securebootflag_main :: "ta_env \<Rightarrow> bool option ta" where
  "securebootflag_main E = bnd (call (TaCombined sblog_cmd) (\<lambda>l. ta_combined E l sblog_cmd)) (\<lambda>r. case r of
     Inl e \<Rightarrow> ret None
   | Inr output \<Rightarrow> (case rev (split_char CHR 0x0A output) of
       _ # exitStatus # _ \<Rightarrow> ret (Some (secure_boot_mismatch exitStatus (ta_getenv E ''SECURITY_FEATURE_FLAG'')))
     | _ \<Rightarrow> panic))"

end
