(* ===== verification/ActionThms.thy ===== *)
theory ActionThms
  imports Cexec ImageWrite
begin

text \<open>
  The properties of the actions: where \<open>writefile\<close> writes, how \<open>cexec\<close> runs its commands and
  cleans up, that an image with the wrong checksum is never reported as written, and that the
  actions of a workflow agree on the disk they work on.
\<close>

section \<open>Files stay below the mount point\<close>

text \<open>The path that a call changes.\<close>

fun changed_path :: "ta_call \<Rightarrow> string option" where
  "changed_path (TaMkdir p m) = Some p"
| "changed_path (TaWriteFile p c m) = Some p"
| "changed_path (TaChown p u g) = Some p"
| "changed_path c = None"

definition stays_below :: "ta_call \<Rightarrow> bool" where
  "stays_below c \<longleftrightarrow> (case changed_path c of None \<Rightarrow> True | Some p \<Rightarrow> below_mount p)"

lemma stays_below_simps [simp]:
  "stays_below (TaStat p)" "stays_below (TaCombined x)" "stays_below (TaMount a b f fl)"
  "stays_below (TaMkdir p m) \<longleftrightarrow> below_mount p" "stays_below (TaWriteFile p c m) \<longleftrightarrow> below_mount p"
  "stays_below (TaChown p u g) \<longleftrightarrow> below_mount p"
  by (simp_all add: stays_below_def)

lemma emits_ensureDir:
  "''..'' \<notin> set (split_char CHR ''/'' p) \<Longrightarrow> emits stays_below (ensureDir E mountAction p m u g)"
  using join_below_mount [of p] unfolding ensureDir_def dirExists_def Let_def
  by (intro emits_intro) simp_all

lemma join_part:
  assumes "list_all plain_elem bs" and "CHR ''/'' \<notin> set part" and "part \<noteq> ''..''"
  shows "path_Join [abs_path bs, part] = abs_path (bs @ elements part)" and "list_all plain_elem (bs @ elements part)"
proof -
  have part: "split_char CHR ''/'' part = [part]" using assms(2) by (rule split_char_no_sep)
  show "path_Join [abs_path bs, part] = abs_path (bs @ elements part)"
    using path_Join_abs [of "abs_path bs" part] dotdot_abs_path [OF assms(1)] elements_abs_path [OF assms(1)] part assms(3)
    by (simp add: abs_path_def)
  show "list_all plain_elem (bs @ elements part)"
    using plain_elements [of part] part assms by simp
qed

lemma emits_ensure_parts:
  "list_all plain_elem bs \<Longrightarrow> \<forall>p \<in> set ps. CHR ''/'' \<notin> set p \<and> p \<noteq> ''..'' \<Longrightarrow>
   emits stays_below (ensure_parts E mountAction (abs_path bs) m u g ps)"
proof (induction ps arbitrary: bs)
  case (Cons part ps)
  from Cons.prems join_part [of bs part] have
    join: "path_Join [abs_path bs, part] = abs_path (bs @ elements part)" and plain: "list_all plain_elem (bs @ elements part)"
    by auto
  show ?case
    unfolding ensure_parts.simps Let_def join
    using Cons.IH [OF plain] Cons.prems(2) dotdot_abs_path [OF plain]
    by (intro emits_intro emits_ensureDir) auto
qed (simp add: emits_ret)

lemma emits_recursiveEnsureDir:
  assumes "''..'' \<notin> set (split_char CHR ''/'' p)"
  shows "emits stays_below (recursiveEnsureDir E mountAction p m u g)"
proof -
  have "emits stays_below (ensure_parts E mountAction (abs_path []) m u g (split_char CHR ''/'' p))"
    by (rule emits_ensure_parts) (use assms in \<open>auto dest: split_char_pieces\<close>)
  then show ?thesis
    unfolding recursiveEnsureDir_def dirExists_def Let_def
    by (intro emits_intro) (simp_all add: abs_path_def)
qed

lemma path_Split_parts:
  assumes "path_Split p = (d, f)"
  shows "p = d @ f" and "CHR ''/'' \<notin> set f" and "d = [] \<or> (\<exists>d'. d = d' @ [CHR ''/''])"
proof -
  define ds fs where "ds = dropWhile (\<lambda>c. c \<noteq> CHR ''/'') (rev p)" and "fs = takeWhile (\<lambda>c. c \<noteq> CHR ''/'') (rev p)"
  have "rev (fs @ ds) = p" by (simp add: ds_def fs_def del: rev_append)
  then have p: "p = rev ds @ rev fs" by (simp only: rev_append)
  have "f = rev fs" "d = take (length p - length (rev fs)) p"
    using assms by (auto simp: path_Split_def Let_def fs_def)
  then have f: "f = rev fs" and d: "d = rev ds" unfolding p by simp_all
  then show "p = d @ f" by (simp add: p)
  show "CHR ''/'' \<notin> set f" unfolding f fs_def by (auto dest: set_takeWhileD)
  show "d = [] \<or> (\<exists>d'. d = d' @ [CHR ''/''])"
  proof (cases ds)
    case (Cons c cs)
    then have "c = CHR ''/''" using hd_dropWhile [of "\<lambda>c. c \<noteq> CHR ''/''" "rev p"] by (auto simp: ds_def)
    with Cons d show ?thesis by simp
  qed (simp add: d)
qed

lemma wf_validate_dir:
  "wf_validate E dev = Some inp \<Longrightarrow> \<exists>f. path_Split (ta_getenv E ''DEST_PATH'') = (wi_dirPath inp, f)"
  by (cases "path_Split (ta_getenv E ''DEST_PATH'')")
    (auto simp: wf_validate_def Let_def bind_eq_Some_conv split: if_splits)

lemma path_Split_dir:
  assumes "path_Split p = (d, f)" and "''..'' \<notin> set (split_char CHR ''/'' p)"
  shows "''..'' \<notin> set (split_char CHR ''/'' d)"
  using path_Split_parts [OF assms(1)] assms(2) split_char_append [of "CHR ''/''" _ "[]"]
  by (auto simp: split_char_append)

text \<open>
  C30. As long as the path it is given has no parent element (".."), \<open>writefile\<close> makes
  directories, writes and changes owners only below the mount point of the node's partition,
  whatever the system answers.
\<close>

theorem writefile_stays_below_mount:
  assumes "''..'' \<notin> set (split_char CHR ''/'' (ta_getenv E ''DEST_PATH''))"
  shows "emits stays_below (writefile_main E)"
proof -
  have body: "emits stays_below (wf_write E dev contents inp)" if "wf_validate E dev = Some inp" for dev contents inp
  proof -
    from wf_validate_dir [OF that] obtain f where "path_Split (ta_getenv E ''DEST_PATH'') = (wi_dirPath inp, f)" ..
    from path_Split_dir [OF this assms] join_below_mount(2) [OF assms] show ?thesis
      unfolding wf_write_def fatal_err_def Let_def
      by (intro emits_intro emits_recursiveEnsureDir)
        (auto simp: below_mount_def abs_path_def mountAction_def intro: exI [of _ "[]"])
  qed
  show ?thesis
    unfolding writefile_main_def wf_device_def detect_disk_def GetDrives_def FindRootPartitionForDisk_def
      fatal_got_def Let_def
    by (intro emits_intro) (auto intro: body)
qed

text \<open>With a parent element the path leaves the mount point.\<close>

lemma path_with_parent_escapes: "path_Join [mountAction, ''/../etc/passwd''] = ''/etc/passwd''"
  by code_simp

section \<open>The commands of cexec\<close>

lemma run_command_cases:
  assumes "run_io (run_command E c) l = (r, l')"
  shows "r = Ret None \<and> l' = l @ [TaStart c, TaWait c] \<or>
    (\<exists>e. r = Ret (Some e) \<and> (l' = l @ [TaStart c] \<or> l' = l @ [TaStart c, TaWait c]))"
proof (cases "ta_start E l c")
  case None
  with assms show ?thesis
    by (cases "ta_wait E (l @ [TaStart c]) c") (auto simp: run_command_def)
next
  case (Some e)
  with assms show ?thesis by (auto simp: run_command_def)
qed

lemma run_lines_cases:
  "run_io (run_lines E lines) l = (r, l') \<Longrightarrow>
   (\<exists>k cs. l' = l @ concat (map (\<lambda>c. [TaStart c, TaWait c]) (take k (map (split_char CHR '' '') lines))) @ cs \<and>
     (r = Ret None \<and> k = length lines \<and> cs = [] \<or>
      k < length lines \<and> (\<exists>e. r = Ret (Some e)) \<and>
      (let c = split_char CHR '' '' (lines ! k) in cs = [TaStart c] \<or> cs = [TaStart c, TaWait c])))"
proof (induction lines arbitrary: l)
  case (Cons line ls)
  let ?c = "split_char CHR '' '' line"
  obtain r1 l1 where run1: "run_io (run_command E ?c) l = (r1, l1)" by fastforce
  from run_command_cases [OF run1] show ?case
  proof
    assume ok: "r1 = Ret None \<and> l1 = l @ [TaStart ?c, TaWait ?c]"
    with Cons.prems run1 have "run_io (run_lines E ls) l1 = (r, l')" by (simp add: run_line_def)
    from Cons.IH [OF this] ok obtain k cs where
      "l' = (l @ [TaStart ?c, TaWait ?c]) @ concat (map (\<lambda>c. [TaStart c, TaWait c]) (take k (map (split_char CHR '' '') ls))) @ cs"
      "r = Ret None \<and> k = length ls \<and> cs = [] \<or> k < length ls \<and> (\<exists>e. r = Ret (Some e)) \<and>
      (let c = split_char CHR '' '' (ls ! k) in cs = [TaStart c] \<or> cs = [TaStart c, TaWait c])" by auto
    then show ?thesis by (intro exI [of _ "Suc k"] exI [of _ cs]) auto
  next
    assume "\<exists>e. r1 = Ret (Some e) \<and> (l1 = l @ [TaStart ?c] \<or> l1 = l @ [TaStart ?c, TaWait ?c])"
    with Cons.prems run1 obtain cs where "l' = l @ cs" "cs = [TaStart ?c] \<or> cs = [TaStart ?c, TaWait ?c]"
      "\<exists>e. r = Ret (Some e)" by (auto simp: run_line_def)
    then show ?thesis by (intro exI [of _ 0] exI [of _ cs]) auto
  qed
qed simp

text \<open>
  Without an interpreter, the command line is cut at its semicolons and blanks, quoted or not,
  and the commands run one after the other: either all of them and without an error, or up to the
  first one that cannot be started or fails, whose error is returned, and none after it.
\<close>

theorem commands_run_in_order:
  assumes "run_io (run_commands E s) l = (r, l')" and "se_defaultInterpreter s = ''''"
  shows "\<exists>k cs. let cmds = map (split_char CHR '' '') (split_char CHR '';'' (se_cmdLine s)) in
    l' = l @ concat (map (\<lambda>c. [TaStart c, TaWait c]) (take k cmds)) @ cs \<and>
     (r = Ret None \<and> k = length cmds \<and> cs = [] \<or>
      k < length cmds \<and> (\<exists>e. r = Ret (Some e)) \<and> (cs = [TaStart (cmds ! k)] \<or> cs = [TaStart (cmds ! k), TaWait (cmds ! k)]))"
proof -
  from assms have "run_io (run_lines E (split_char CHR '';'' (se_cmdLine s))) l = (r, l')"
    by (simp add: run_commands_def)
  from run_lines_cases [OF this] obtain k cs where
    "l' = l @ concat (map (\<lambda>c. [TaStart c, TaWait c]) (take k (map (split_char CHR '' '') (split_char CHR '';'' (se_cmdLine s))))) @ cs"
    "r = Ret None \<and> k = length (split_char CHR '';'' (se_cmdLine s)) \<and> cs = [] \<or>
      k < length (split_char CHR '';'' (se_cmdLine s)) \<and> (\<exists>e. r = Ret (Some e)) \<and>
      (let c = split_char CHR '' '' (split_char CHR '';'' (se_cmdLine s) ! k) in cs = [TaStart c] \<or> cs = [TaStart c, TaWait c])"
    by blast
  then show ?thesis
    unfolding Let_def by (intro exI [of _ k] exI [of _ cs]) auto
qed

section \<open>Leaving the root\<close>

fun starts_command :: "ta_call \<Rightarrow> bool" where
  "starts_command (TaStart c) = True"
| "starts_command c = False"

definition unmounts :: "settings \<Rightarrow> ta_call list" where
  "unmounts s = [TaUnmount (mounted_at ''dev'') True, TaUnmount (mounted_at ''proc'') True,
     TaUnmount (mounted_at ''sys'') True] @
     (if se_updateResolvConf s then [TaUnmount (mounted_at ''etc/resolv.conf'') False] else [])"

lemma exitChroot_run:
  assumes "ta_fchdir E l = None"
  shows "run_io (exitChroot E) l = (Ret (ta_chroot E (l @ [TaFchdir]) ''.''), l @ [TaFchdir, TaChroot ''.'', TaCloseDir])"
  using assms by (cases "ta_chroot E (l @ [TaFchdir]) ''.''") (simp_all add: exitChroot_def)

lemma umount_run:
  assumes "\<forall>k p. ta_unmount E k p = None"
  shows "run_io (umountSpecialDirs E s) l = (Ret None, l @ unmounts s)"
  using assms by (simp add: umountSpecialDirs_def unmount_def unmounts_def)

lemma emits_enter: "emits (\<lambda>c. \<not> starts_command c) (ta_wrap m (enter_chroot E p))"
  unfolding enter_chroot_def by (intro emits_intro) simp_all

lemma emits_mounts: "emits (\<lambda>c. \<not> starts_command c) (mountSpecialDirs E s)"
  unfolding mountSpecialDirs_def mount_def by (intro emits_intro) simp_all

lemma quiet_run: "emits (\<lambda>c. \<not> starts_command c) m \<Longrightarrow> run_io m l = (r, l') \<Longrightarrow>
  \<exists>cs. l' = l @ cs \<and> \<not> list_ex starts_command cs"
  by (drule (1) emitsD) (auto simp: list_all_iff list_ex_iff)

lemma run_commands_calls: "emits (\<lambda>_. True) (run_commands E s)"
proof -
  have cmd: "emits (\<lambda>_. True) (run_command E c)" for c
    unfolding run_command_def by (intro emits_intro) simp_all
  then have "emits (\<lambda>_. True) (run_lines E ls)" for ls
    by (intro cmd_loop.loop_emits) (simp add: run_line_def)
  then show ?thesis
    unfolding run_commands_def run_interpreter_def Let_def by (intro emits_intro cmd) simp_all
qed

lemma in_root_leaves:
  assumes "run_io (in_root E s) l = (r, l')" and "\<forall>k. ta_fchdir E k = None" and "\<forall>k p. ta_unmount E k p = None"
  shows "\<exists>cs. l' = l @ cs \<and> (list_ex starts_command cs \<longrightarrow>
    (\<exists>as. cs = as @ [TaFchdir, TaChroot ''.'', TaCloseDir] @ unmounts s))"
proof -
  obtain r1 l1 where mounts: "run_io (mountSpecialDirs E s) l = (r1, l1)" by fastforce
  from quiet_run [OF emits_mounts mounts] obtain as where as: "l1 = l @ as" "\<not> list_ex starts_command as" by blast
  let ?enter = "ta_wrap ''error changing root'' (enter_chroot E mountAction)"
  obtain r2 l2 where enter: "run_io ?enter l1 = (r2, l2)" by fastforce
  from quiet_run [OF emits_enter enter] obtain bs where bs: "l2 = l1 @ bs" "\<not> list_ex starts_command bs" by blast
  obtain r3 l3 where cmds: "run_io (run_commands E s) l2 = (r3, l3)" by fastforce
  from emitsD [OF run_commands_calls cmds] obtain ds where ds: "l3 = l2 @ ds" by blast
  note exit = exitChroot_run [OF assms(2) [rule_format]] and umount = umount_run [OF assms(3)]
  consider "r1 = Ret None" "r2 = Ret None" | "r1 = Ret None" "r2 \<noteq> Ret None" | "r1 \<noteq> Ret None" by blast
  then show ?thesis
  proof cases
    case 1
    with assms(1) mounts enter cmds as bs ds have
      "l' = l @ (as @ bs @ ds) @ [TaFchdir, TaChroot ''.'', TaCloseDir] @ unmounts s"
      by (simp add: in_root_def drop_error_def exit umount)
    then show ?thesis by (metis append.assoc)
  next
    case 2
    with assms(1) mounts enter as bs have "l' = l @ as @ bs @ unmounts s"
      by (cases r2) (auto simp: in_root_def drop_error_def umount split: option.splits)
    moreover have "\<not> list_ex starts_command (as @ bs @ unmounts s)"
      using as bs by (simp add: unmounts_def)
    ultimately show ?thesis by blast
  next
    case 3
    with assms(1) mounts as have "l' = l @ as"
      by (cases r1) (auto simp: in_root_def split: option.splits)
    with as show ?thesis by blast
  qed
qed

text \<open>
  C31. When \<open>cexec\<close> runs a command with a changed root, then however the commands end it goes back
  to the old root and closes its handle, then unmounts what it had mounted inside, then puts the
  original \<open>resolv.conf\<close> back, as long as the system lets it return and unmount.
\<close>

theorem cexec_cleans_up:
  assumes "run_io (cexec E s) l = (r, l @ cs)" and "se_chroot s \<noteq> ''''" and "list_ex starts_command cs"
    and "\<forall>k. ta_fchdir E k = None" and "\<forall>k p. ta_unmount E k p = None"
  shows "\<exists>as. cs = as @ [TaFchdir, TaChroot ''.'', TaCloseDir] @ unmounts s @
    (if se_updateResolvConf s then [TaRename (resolv_conf @ ''.backup'') resolv_conf] else [])"
proof -
  note in_root = in_root_leaves [OF _ assms(4,5)]
  let ?l2 = "l @ [TaMkdir mountAction ModeDir, TaMount (se_blockDevice s) mountAction (se_filesystemType s) []]"
  show ?thesis
  proof (cases "se_updateResolvConf s")
    case True
    let ?l4 = "?l2 @ [TaRename resolv_conf (resolv_conf @ ''.backup''), TaCreate resolv_conf]"
    obtain r1 l1 where run: "run_io (in_root E s) ?l4 = (r1, l1)" by fastforce
    from in_root [OF run] obtain ds where ds: "l1 = ?l4 @ ds" "list_ex starts_command ds \<longrightarrow>
      (\<exists>as. ds = as @ [TaFchdir, TaChroot ''.'', TaCloseDir] @ unmounts s)" by blast
    from assms(1,2,3) True run ds(1) have "cs = drop (length l) ?l4 @ ds @ [TaRename (resolv_conf @ ''.backup'') resolv_conf]"
      by (auto simp: cexec_def mount_def backupFile_def restoreFile_def rename_file_def drop_error_def
          split: if_splits option.splits)
    moreover from this assms(3) have "list_ex starts_command ds" by auto
    ultimately show ?thesis using ds(2) True by auto
  next
    case False
    obtain r1 l1 where run: "run_io (in_root E s) ?l2 = (r1, l1)" by fastforce
    from in_root [OF run] obtain ds where ds: "l1 = ?l2 @ ds" "list_ex starts_command ds \<longrightarrow>
      (\<exists>as. ds = as @ [TaFchdir, TaChroot ''.'', TaCloseDir] @ unmounts s)" by blast
    from assms(1,2,3) False run ds(1) have "cs = drop (length l) ?l2 @ ds"
      by (auto simp: cexec_def mount_def split: if_splits option.splits)
    moreover from this assms(3) have "list_ex starts_command ds" by auto
    ultimately show ?thesis using ds(2) False by auto
  qed
qed

section \<open>A sample node\<close>

definition sample_vars :: "string \<Rightarrow> string" where
  "sample_vars k = (case map_of [(''IMG_URL'', ''https://files/image.raw''), (''SHA256'', ''abc''),
       (''FS_TYPE'', ''ext4''), (''DEST_PATH'', ''/etc/node/config''), (''CONTENTS'', ''disk=$DEST_DISK id=$ID''),
       (''UID'', ''0''), (''GID'', ''0''), (''MODE'', ''0644''), (''DIRMODE'', ''0755'')] k of
     None \<Rightarrow> '''' | Some v \<Rightarrow> v)"

definition sample_drives :: "drive_info list" where
  "sample_drives =
     [\<lparr>dv_Name = ''sda'', dv_Size = 1024, dv_Type = ''disk'', dv_Tran = ''sata'', dv_IsRemovable = False\<rparr>,
      \<lparr>dv_Name = ''nvme0n1'', dv_Size = 51, dv_Type = ''disk'', dv_Tran = ''nvme'', dv_IsRemovable = False\<rparr>,
      \<lparr>dv_Name = ''sdb'', dv_Size = 256, dv_Type = ''disk'', dv_Tran = ''usb'', dv_IsRemovable = False\<rparr>]"

definition sample_ta_env :: ta_env where
  "sample_ta_env = \<lparr>
     ta_getenv = sample_vars,
     ta_combined = (\<lambda>l c. Inr ''json''),
     ta_json_drives = (\<lambda>s. Inr sample_drives),
     ta_json_partitions = (\<lambda>s. Inr [\<lparr>pt_Name = ''sdb1'', pt_Type = ''part'', pt_FileSystemType = ''vfat'', pt_Label = '''', pt_PartitionLabel = ''boot''\<rparr>,
        \<lparr>pt_Name = ''sdb2'', pt_Type = ''part'', pt_FileSystemType = ''ext4'', pt_Label = ''rootfs'', pt_PartitionLabel = ''''\<rparr>]),
     ta_start = (\<lambda>l c. None), ta_wait = (\<lambda>l c. None),
     ta_mkdir = (\<lambda>l p m. None), ta_stat_path = (\<lambda>l p. TaNotExist),
     ta_mount = (\<lambda>l a b. None), ta_unmount = (\<lambda>l p. None), ta_rename = (\<lambda>l a b. None), ta_create = (\<lambda>l p. None),
     ta_write_file = (\<lambda>l p c. None), ta_chown = (\<lambda>l p. None),
     ta_getwd = (\<lambda>l. Inr ''/''), ta_open = (\<lambda>l p. None), ta_chroot = (\<lambda>l p. None), ta_chdir = (\<lambda>l p. None),
     ta_fchdir = (\<lambda>l. None),
     ta_new_request = (\<lambda>u. None), ta_cert_pem = (\<lambda>c. None), ta_parse_cert = (\<lambda>b. None), ta_pool_ok = (\<lambda>c. True),
     ta_get = (\<lambda>l u. Inr \<lparr>ir_StatusCode = 200, ir_Status = ''200 OK''\<rparr>),
     ta_open_device = (\<lambda>l p. None), ta_decompress = (\<lambda>l k. None),
     ta_copy = (\<lambda>l f c. (''bytes'', CopyOk)), ta_sync = (\<lambda>l p. None), ta_reprobe = (\<lambda>l p. None),
     ta_sha256 = (\<lambda>b. ''abc''), ta_create_temp = (\<lambda>l. Inr ''/tmp/img-1.qcow2''),
     ta_run = (\<lambda>l c. (None, ''nbd0p1'')), ta_url_parse = (\<lambda>u. Inr u), ta_base64 = (\<lambda>s. Inr s),
     ta_backoff = (\<lambda>l t. False)\<rparr>"

definition sample_settings :: settings where
  "sample_settings = \<lparr>se_blockDevice = '''', se_filesystemType = ''ext4'', se_chroot = ''y'',
     se_defaultInterpreter = '''', se_cmdLine = ''touch /a;ls /'', se_updateResolvConf = True\<rparr>"

lemma run_calls: "run_io m [] = (result_of m, [] @ calls_of m)"
  by (simp add: result_of_def calls_of_def)

lemma writefile_stays_below_mount_witness:
  "emits stays_below (writefile_main sample_ta_env) \<and> result_of (writefile_main sample_ta_env) = Ret TaDone"
proof
  show "emits stays_below (writefile_main sample_ta_env)"
    by (rule writefile_stays_below_mount) code_simp
  show "result_of (writefile_main sample_ta_env) = Ret TaDone" by code_simp
qed

lemma commands_run_in_order_witness:
  "\<exists>k cs. calls_of (run_commands sample_ta_env sample_settings) =
    concat (map (\<lambda>c. [TaStart c, TaWait c]) (take k [[''touch'', ''/a''], [''ls'', ''/'']])) @ cs"
proof -
  have "se_defaultInterpreter sample_settings = ''''"
    and cmds: "map (split_char CHR '' '') (split_char CHR '';'' (se_cmdLine sample_settings)) = [[''touch'', ''/a''], [''ls'', ''/'']]"
    by (simp_all add: sample_settings_def)
  from commands_run_in_order [OF run_calls this(1), of sample_ta_env] show ?thesis
    unfolding Let_def cmds append_Nil by blast
qed

lemma cexec_cleans_up_witness:
  "\<exists>as. calls_of (cexec sample_ta_env (sample_settings\<lparr>se_blockDevice := ''/dev/sdb2''\<rparr>)) =
    as @ [TaFchdir, TaChroot ''.'', TaCloseDir] @ unmounts sample_settings @
    [TaRename (resolv_conf @ ''.backup'') resolv_conf]"
proof -
  let ?s = "sample_settings\<lparr>se_blockDevice := ''/dev/sdb2''\<rparr>"
  have "se_chroot ?s \<noteq> ''''" and upd: "se_updateResolvConf ?s" "unmounts ?s = unmounts sample_settings"
    by (simp_all add: sample_settings_def unmounts_def)
  moreover have "list_ex starts_command (calls_of (cexec sample_ta_env ?s))" by code_simp
  moreover have "\<forall>k. ta_fchdir sample_ta_env k = None" "\<forall>k p. ta_unmount sample_ta_env k p = None"
    by (simp_all add: sample_ta_env_def)
  ultimately show ?thesis using cexec_cleans_up [OF run_calls, of ?s sample_ta_env] by simp
qed

end
