(* ===== verification/ImageThms.thy ===== *)
theory ImageThms
  imports ActionThms
begin

text \<open>
  The properties of the two actions that write an image: checksums, the order of checking and
  writing, panics, the wait for the attached device, and the disk that they and \<open>cexec\<close> agree on.
\<close>

section \<open>Checksums\<close>

fun is_copy :: "ta_call \<Rightarrow> bool" where
  "is_copy (TaCopyBody f c) = True"
| "is_copy c = False"

text \<open>The last copy of the history went to \<open>file\<close>, and its bytes have the wanted checksum.\<close>

definition verified :: "ta_env \<Rightarrow> string \<Rightarrow> ta_call list \<Rightarrow> bool" where
  "verified E file l \<longleftrightarrow> (\<exists>as c bs. l = as @ TaCopyBody file c # bs \<and> \<not> list_ex is_copy bs \<and>
     checksum_ok E (fst (ta_copy E as file c)))"

lemma verified_more: "verified E file l \<Longrightarrow> \<not> list_ex is_copy cs \<Longrightarrow> verified E file (l @ cs)"
  unfolding verified_def by force

lemma verified_now:
  "checksum_ok E (fst (ta_copy E l file c)) \<Longrightarrow> verified E file (l @ [TaCopyBody file c])"
  unfolding verified_def by (intro exI [of _ l] exI [of _ c] exI [of _ "[]"]) simp

lemma verified_run:
  assumes "verified E file l" and "emits (\<lambda>c. \<not> is_copy c) m" and "run_io m l = (r, l')"
  shows "verified E file l'"
proof -
  from emitsD [OF assms(2,3)] obtain cs where "l' = l @ cs" "list_all (\<lambda>c. \<not> is_copy c) cs" by blast
  with verified_more [OF assms(1), of cs] show ?thesis by (auto simp: list_all_iff list_ex_iff)
qed

section \<open>An image is checked before it is installed\<close>

fun is_dd :: "ta_call \<Rightarrow> bool" where
  "is_dd (TaRun args) = (args \<noteq> [] \<and> hd args = ''dd'')"
| "is_dd c = False"

definition guarded :: "ta_env \<Rightarrow> ta_call list \<Rightarrow> bool" where
  "guarded E l \<longleftrightarrow> (\<forall>as c bs. l = as @ c # bs \<longrightarrow> is_dd c \<longrightarrow> (\<exists>tmp. verified E tmp as))"

definition keeps :: "ta_env \<Rightarrow> 'a ta \<Rightarrow> bool" where
  "keeps E m \<longleftrightarrow> (\<forall>l r l'. guarded E l \<longrightarrow> run_io m l = (r, l') \<longrightarrow> guarded E l')"

lemma snoc_split:
  "l @ [c] = as @ d # bs \<longleftrightarrow> bs = [] \<and> as = l \<and> d = c \<or> (\<exists>cs. bs = cs @ [c] \<and> l = as @ d # cs)"
  by (cases bs rule: rev_cases) auto

lemma guarded_snoc: "guarded E (l @ [c]) \<longleftrightarrow> guarded E l \<and> (is_dd c \<longrightarrow> (\<exists>tmp. verified E tmp l))"
  unfolding guarded_def snoc_split by blast

lemma guarded_quiet: "guarded E l \<Longrightarrow> list_all (\<lambda>c. \<not> is_dd c) cs \<Longrightarrow> guarded E (l @ cs)"
  by (induction cs rule: rev_induct) (simp_all add: guarded_snoc flip: append_assoc)

lemma guarded_checked:
  "guarded E l \<Longrightarrow> verified E tmp l \<Longrightarrow> list_all (\<lambda>c. \<not> is_copy c) cs \<Longrightarrow> guarded E (l @ cs)"
proof (induction cs rule: rev_induct)
  case (snoc c cs)
  then have "verified E tmp (l @ cs)" by (intro verified_more) (auto simp: list_all_iff list_ex_iff)
  with snoc show ?case by (auto simp: guarded_snoc simp flip: append_assoc)
qed simp

lemma keeps_quiet: "emits (\<lambda>c. \<not> is_dd c) m \<Longrightarrow> keeps E m"
  unfolding keeps_def by (auto dest: emitsD intro: guarded_quiet)

lemma keepsD: "keeps E m \<Longrightarrow> guarded E l \<Longrightarrow> run_io m l = (r, l') \<Longrightarrow> guarded E l'"
  unfolding keeps_def by blast

lemma keeps_bnd [intro]:
  assumes "keeps E m" and "\<And>x. keeps E (f x)"
  shows "keeps E (bnd m f)"
  unfolding keeps_def
proof (intro allI impI)
  fix l r l'
  assume g: "guarded E l" and run: "run_io (bnd m f) l = (r, l')"
  obtain r1 l1 where m: "run_io m l = (r1, l1)" by fastforce
  from keepsD [OF assms(1) g m] have g1: "guarded E l1" .
  show "guarded E l'"
    using run m g1 keepsD [OF assms(2) g1] by (cases r1) auto
qed

lemma keeps_defer:
  assumes "keeps E m" and "\<And>r. keeps E (d r)"
  shows "keeps E (with_defer m d)"
  unfolding keeps_def
proof (intro allI impI)
  fix l r l'
  assume g: "guarded E l" and run: "run_io (with_defer m d) l = (r, l')"
  obtain r1 l1 where m: "run_io m l = (r1, l1)" by fastforce
  obtain r2 l2 where d: "run_io (d r1) l1 = (r2, l2)" by fastforce
  from run m d have "l' = l2" by (cases r2) auto
  with keepsD [OF assms(2) keepsD [OF assms(1) g m] d] show "guarded E l'" by simp
qed

lemma emits_or_return [emits_intro]: "emits P m \<Longrightarrow> emits P n \<Longrightarrow> emits P (or_return m n)"
  unfolding or_return_def by (intro emits_intro)

lemma emits_run_cmd [emits_intro]: "P (TaRun args) \<Longrightarrow> emits P (run_cmd E msg args)"
  unfolding run_cmd_def by (intro emits_intro)

lemma emits_wait_nbd [emits_intro]:
  assumes "P (TaRun [''lsblk''])" and "P (TaSleep 2)"
  shows "emits P (wait_nbd E n)"
proof (induction n)
  case (Suc n)
  then show ?case unfolding wait_nbd.simps by (intro emits_intro assms)
qed (simp add: emits_ret)

text \<open>Nothing after the copy to the temporary file copies again; nothing but the installation runs \<open>dd\<close>.\<close>

definition after_check :: "ta_env \<Rightarrow> string \<Rightarrow> string \<Rightarrow> nat \<Rightarrow> error option ta" where
  "after_check E tmpFile dest n =
     or_return (run_cmd E ''failed to load nbd kernel module'' [''modprobe'', ''nbd''])
     (or_return (run_cmd E ''failed to run ls'' [''ls'', ''-lrth'', ''/dev/nbd0''])
     (or_return (run_cmd E ''network block device attach failed'' (nbd_connect tmpFile))
       (with_defer (install_from_nbd E dest n)
         (\<lambda>_. bnd (call (TaRun nbd_disconnect) (\<lambda>l. ta_run E l nbd_disconnect)) (\<lambda>_. ret ())))))"

lemma emits_after_check: "emits (\<lambda>c. \<not> is_copy c) (after_check E tmp dest n)"
  unfolding after_check_def install_from_nbd_def by (intro emits_intro) simp_all

definition after_copy :: "ta_env \<Rightarrow> string \<Rightarrow> string \<Rightarrow> nat \<Rightarrow> string \<Rightarrow> error option ta" where
  "after_copy E tmpFile dest n got =
     bnd (ta_done TaCloseTemp) (\<lambda>_.
     or_return (run_cmd E ''failed to run ls -lh /tmp'' [''ls'', ''-lh'', ''/tmp''])
     (if \<not> checksum_ok E got then ret (Some (Some (FmtErrorf ''image SHA-256 hash mismatch'' None)))
      else after_check E tmpFile dest n))"

lemma store_image_steps:
  "run_io (store_image E tmp dest c n) l = (case ta_copy E l tmp c of (got, err) \<Rightarrow>
     run_io (case err of CopyErr e \<Rightarrow> ret (Some (Some (FmtErrorf ''failed to save the image to temp file'' (Some e))))
       | _ \<Rightarrow> after_copy E tmp dest n got) (l @ [TaCopyBody tmp c]))"
  by (simp add: store_image_def after_copy_def after_check_def split: prod.split copy_err.split)

lemma after_copy_keeps:
  assumes "guarded E l" and "checksum_ok E got \<Longrightarrow> verified E tmp l" and "run_io (after_copy E tmp dest n got) l = (r, l')"
  shows "guarded E l'"
proof (cases "checksum_ok E got")
  case True
  then have "emits (\<lambda>c. \<not> is_copy c) (after_copy E tmp dest n got)"
    unfolding after_copy_def by (intro emits_intro emits_after_check) simp_all
  from emitsD [OF this assms(3)] guarded_checked [OF assms(1) assms(2) [OF True]] show ?thesis by auto
next
  case False
  then have "emits (\<lambda>c. \<not> is_dd c) (after_copy E tmp dest n got)"
    unfolding after_copy_def by (intro emits_intro emits_if) simp_all
  from keepsD [OF keeps_quiet [OF this] assms(1,3)] show ?thesis .
qed

lemma keeps_store: "keeps E (store_image E tmp dest c n)"
  unfolding keeps_def
proof (intro allI impI)
  fix l r l'
  assume g: "guarded E l" and run: "run_io (store_image E tmp dest c n) l = (r, l')"
  obtain got err where copy: "ta_copy E l tmp c = (got, err)" by fastforce
  have g1: "guarded E (l @ [TaCopyBody tmp c])" using g by (simp add: guarded_snoc)
  have v1: "checksum_ok E got \<Longrightarrow> verified E tmp (l @ [TaCopyBody tmp c])"
    using verified_now [of E l tmp c] copy by simp
  show "guarded E l'"
  proof (cases err)
    case (CopyErr e)
    with run copy g1 show ?thesis by (simp add: store_image_steps)
  next
    case CopyOk
    with run copy have "run_io (after_copy E tmp dest n got) (l @ [TaCopyBody tmp c]) = (r, l')" by (simp add: store_image_steps)
    from after_copy_keeps [OF g1 v1 this] show ?thesis .
  next
    case CopyEOF
    with run copy have "run_io (after_copy E tmp dest n got) (l @ [TaCopyBody tmp c]) = (r, l')" by (simp add: store_image_steps)
    from after_copy_keeps [OF g1 v1 this] show ?thesis .
  qed
qed

lemma keeps_if: "keeps E m \<Longrightarrow> keeps E m' \<Longrightarrow> keeps E (if b then m else m')"
  by simp

lemma keeps_qemu_Write: "keeps E (qemu_Write E k url dest c i ca)"
proof -
  have quiet: "keeps E (ret x)" for x :: "error option" by (intro keeps_quiet emits_intro)
  have calls: "keeps E (ta_done d)" if "\<not> is_dd d" for d
    using that by (intro keeps_quiet emits_intro)
  have reader: "keeps E (with_reader c (ta_wrap m (createDecompressor E url)) (store_image E tmp dest c k))" for m tmp
  proof -
    have "keeps E (ta_wrap m (createDecompressor E url))"
      unfolding createDecompressor_def new_reader_def by (intro keeps_quiet emits_intro) simp_all
    then show ?thesis
      unfolding with_reader_def
      by (auto intro!: keeps_bnd keeps_defer keeps_store quiet calls split: option.split)
  qed
  show ?thesis
    unfolding qemu_Write_def
    by (auto split: option.split sum.split intro!: keeps_bnd keeps_defer reader quiet calls keeps_if
        keeps_quiet [OF emits_call])
qed

lemma keeps_retry:
  assumes "keeps E operation"
  shows "keeps E (RetryNotify E t operation n)"
proof (induction n)
  case (Suc n)
  have quiet: "keeps E (ret x)" for x :: "error option" by (intro keeps_quiet emits_intro)
  have "keeps E (call (TaBackoff t) (\<lambda>l. ta_backoff E l t))" by (intro keeps_quiet emits_intro) simp
  with Suc assms show ?case
    by (auto split: option.split intro!: keeps_bnd keeps_if quiet)
qed (auto intro!: keeps_quiet emits_intro)

lemma emits_detect_disk [emits_intro]: "P (TaCombined lsblk_drives) \<Longrightarrow> emits P (detect_disk E)"
  unfolding detect_disk_def GetDrives_def by (intro emits_intro)

lemma keeps_attempts:
  assumes "keeps E (Write url disk c i ca)" and "c = or_default False (ParseBool (ta_getenv E ''COMPRESSED''))"
    and "i = duration_of (or_default defaultProgressInterval (Atoi (ta_getenv E ''PROGRESS_INTERVAL_SECONDS''))) 1000000000"
  shows "keeps E (write_attempts E Write n url disk ca)"
proof -
  have "keeps E (write_operation E Write url disk ca)"
    unfolding write_operation_def Let_def assms(2,3) [symmetric]
    by (intro keeps_bnd assms(1) keeps_quiet [OF emits_ret])
  then show ?thesis
    unfolding write_attempts_def Let_def
    by (intro keeps_bnd keeps_if keeps_retry keeps_quiet [OF emits_ret])
qed

lemma keeps_image_main:
  assumes "\<And>url disk c i ca. keeps E (Write url disk c i ca)"
  shows "keeps E (image_main E Write n)"
proof -
  have disk: "keeps E (image_disk E)"
    unfolding image_disk_def Let_def by (intro keeps_quiet emits_intro) simp
  have "keeps E (write_attempts E Write n url d ca)" for url d ca
    by (rule keeps_attempts [OF assms refl refl])
  then show ?thesis
    unfolding image_main_def Let_def
    by (intro keeps_bnd disk) (auto split: sum.split intro: keeps_quiet [OF emits_ret])
qed

text \<open>
  C32. The disk of the node is safe from a wrong image with \<open>qemu_nbd_image2disk\<close>: whatever it is
  answered and however often it tries, whenever it runs \<open>dd\<close>, the last image that it has
  downloaded has the checksum it was asked for.
\<close>

theorem qemu_installs_checked_images_only:
  assumes "calls_of (qemu_image2disk_main E k n) = as @ TaRun (dd_args disk) # bs"
  shows "\<exists>tmp as1 c as2. as = as1 @ TaCopyBody tmp c # as2 \<and> \<not> list_ex is_copy as2 \<and>
    (ta_getenv E ''SHA256'' = '''' \<or> ta_sha256 E (fst (ta_copy E as1 tmp c)) = ta_getenv E ''SHA256'')"
proof -
  obtain r l' where run: "run_io (qemu_image2disk_main E k n) [] = (r, l')" by fastforce
  have "keeps E (qemu_image2disk_main E k n)"
    unfolding qemu_image2disk_main_def by (intro keeps_image_main keeps_qemu_Write)
  from keepsD [OF this _ run] have "guarded E (as @ TaRun (dd_args disk) # bs)"
    using assms run by (simp add: guarded_def calls_of_def)
  then have "\<exists>tmp. verified E tmp as" unfolding guarded_def by (force simp: dd_args_def)
  then show ?thesis unfolding verified_def checksum_ok_def by blast
qed

section \<open>What success means\<close>

lemma retry_done:
  "run_io (RetryNotify E t operation n) l = (Ret (Some None), l') \<Longrightarrow>
   \<exists>l1. run_io operation l1 = (Ret (Some None), l')"
proof (induction n arbitrary: l)
  case (Suc n)
  obtain r1 l1 where op: "run_io operation l = (r1, l1)" by fastforce
  with Suc show ?case
    by (cases r1) (auto split: option.splits if_splits)
qed simp

lemma operation_done:
  "run_io (write_operation E Write url disk ca) l = (Ret (Some None), l') \<Longrightarrow>
   \<exists>c i. run_io (Write url disk c i ca) l = (Ret (Some None), l')"
  by (auto simp: write_operation_def Let_def split: prod.splits outcome.splits)

lemma attempts_done:
  assumes "run_io (write_attempts E Write n url disk ca) l = (Ret (Some TaDone), l')"
  shows "\<exists>c i k. run_io (Write url disk c i ca) k = (Ret (Some None), l')"
proof -
  let ?op = "write_operation E Write url disk ca"
  from assms obtain t where "run_io ?op l = (Ret (Some None), l') \<or> run_io (RetryNotify E t ?op n) l = (Ret (Some None), l')"
    unfolding write_attempts_def Let_def
    by (auto split: prod.splits outcome.splits option.splits if_splits)
  then obtain k where "run_io ?op k = (Ret (Some None), l')" using retry_done by blast
  then show ?thesis using operation_done by blast
qed

lemma image_main_done:
  assumes "run_io (image_main E Write n) l = (Ret (Some TaDone), l')"
  shows "\<exists>url disk c i ca k. run_io (Write url disk c i ca) k = (Ret (Some None), l')"
proof -
  obtain r1 l1 where d: "run_io (image_disk E) l = (r1, l1)" by fastforce
  with assms obtain disk where "r1 = Ret (Inr disk)"
    by (cases r1) (auto simp: image_main_def split: sum.splits)
  with assms d obtain url ca where "run_io (write_attempts E Write n url disk ca) l1 = (Ret (Some TaDone), l')"
    by (auto simp: image_main_def Let_def split: sum.splits if_splits)
  then show ?thesis using attempts_done by blast
qed

lemma copy_to_disk_done:
  assumes "run_io (copy_to_disk E dest c i) l = (Ret (Some None), l')"
  shows "verified E dest l'"
proof -
  obtain got err where copy: "ta_copy E l dest c = (got, err)" by fastforce
  with assms have "checksum_ok E got" "l' = (l @ [TaCopyBody dest c]) @ [TaSync dest, TaReprobe dest]"
    by (auto simp: copy_to_disk_def split: if_splits copy_err.splits)
  with verified_more [OF verified_now [of E l dest c], of "[TaSync dest, TaReprobe dest]"] copy show ?thesis by simp
qed

lemma with_reader_done:
  assumes "run_io (with_reader b rd m) l = (Ret (Some None), l')"
    and "\<And>k k'. run_io m k = (Ret (Some None), k') \<Longrightarrow> verified E file k'"
  shows "verified E file l'"
proof (cases b)
  case True
  obtain r1 l1 where "run_io rd l = (r1, l1)" by fastforce
  moreover obtain r2 l2 where m: "run_io m l1 = (r2, l2)" by fastforce
  ultimately have "r2 = Ret (Some None)" "l' = l2 @ [TaCloseDecompressor]"
    using assms(1) True by (cases r1; auto simp: with_reader_def split: option.splits)+
  with assms(2) m show ?thesis by (auto intro: verified_more)
next
  case False
  with assms show ?thesis by (simp add: with_reader_def)
qed

lemma image_Write_download:
  assumes "run_io (image_Write E url dest c i ca) l = (r, l')"
  obtains (failed) e where "r = Ret (Some (Some e))" "list_all (\<lambda>c. \<not> is_copy c) (drop (length l) l')"
  | (opened) r1 l1 where "run_io (with_reader c (findDecompressor E url) (copy_to_disk E dest c i))
        (l @ [TaGet url (ca \<noteq> ''''), TaOpenDevice dest]) = (r1, l1)" "r = r1" "l' = l1 @ [TaCloseDevice dest, TaCloseBody]"
proof (cases "ta_new_request E url = None \<and> check_cert E ca = None \<and>
    (\<exists>resp. ta_get E l url = Inr resp \<and> http_failure url resp = None) \<and>
    ta_open_device E (l @ [TaGet url (ca \<noteq> '''')]) dest = None")
  case True
  let ?m = "with_reader c (findDecompressor E url) (copy_to_disk E dest c i)"
  obtain r1 l1 where m: "run_io ?m (l @ [TaGet url (ca \<noteq> ''''), TaOpenDevice dest]) = (r1, l1)" by fastforce
  with True assms have "r = r1" "l' = l1 @ [TaCloseDevice dest, TaCloseBody]"
    by (auto simp: image_Write_def or_return_def)
  with m show ?thesis by (rule opened)
next
  case False
  with assms have "\<exists>e. r = Ret (Some (Some e)) \<and> list_all (\<lambda>c. \<not> is_copy c) (drop (length l) l')"
    by (cases "ta_new_request E url"; cases "check_cert E ca"; cases "ta_get E l url")
      (auto simp: image_Write_def or_return_def split: option.splits)
  then show ?thesis using failed by blast
qed

lemma image_Write_done:
  assumes "run_io (image_Write E url dest c i ca) l = (Ret (Some None), l')"
  shows "verified E dest l'"
  using assms
proof (cases rule: image_Write_download)
  case (opened r1 l1)
  from opened(1) have "run_io (with_reader c (findDecompressor E url) (copy_to_disk E dest c i))
      (l @ [TaGet url (ca \<noteq> ''''), TaOpenDevice dest]) = (Ret (Some None), l1)" unfolding opened(2) .
  then have "verified E dest l1" by (rule with_reader_done) (rule copy_to_disk_done)
  then show ?thesis unfolding opened(3) by (rule verified_more) simp
qed simp

text \<open>
  When \<open>image2disk\<close> ends well, the last thing it has copied to a disk is an image whose bytes,
  as they were downloaded, have the checksum it was asked for.
\<close>

theorem image2disk_success_is_checked:
  assumes "run_io (image2disk_main E n) l = (Ret (Some TaDone), l')"
  shows "\<exists>disk as c bs. l' = as @ TaCopyBody disk c # bs \<and> \<not> list_ex is_copy bs \<and>
    (ta_getenv E ''SHA256'' = '''' \<or> ta_sha256 E (fst (ta_copy E as disk c)) = ta_getenv E ''SHA256'')"
proof -
  from image_main_done [OF assms [unfolded image2disk_main_def]] obtain disk where "verified E disk l'"
    using image_Write_done by blast
  then show ?thesis unfolding verified_def checksum_ok_def by blast
qed

section \<open>Panics\<close>

lemma duration_in_range:
  assumes "0 \<le> n" and "n * scale < 2 ^ 63" and "0 < scale"
  shows "duration_of n scale = n * scale"
  using assms unfolding duration_of_def sint_sbintrunc'
  by (intro signed_take_bit_int_eq_self) (simp_all add: order_trans [of _ 0])

lemma returns_more [returns_intro]:
  "returns m \<Longrightarrow> returns n \<Longrightarrow> returns (or_return m n)"
  "returns m \<Longrightarrow> returns (ta_wrap msg m)"
  "returns (ta_done c)"
  "returns (run_cmd E msg args)"
  "returns (new_reader E k)"
  unfolding or_return_def ta_wrap_def ta_done_def run_cmd_def new_reader_def
  by (intro returns_intro; assumption?)+

lemma returns_detect [returns_intro]: "returns (image_disk E)"
  unfolding image_disk_def detect_disk_def GetDrives_def Let_def by (intro returns_intro)

lemma returns_retry [returns_intro]: "returns operation \<Longrightarrow> returns (RetryNotify E t operation n)"
  by (induction n) (auto intro!: returns_intro split: option.split)

lemma returns_image_main:
  assumes "\<And>url disk c ca. returns (Write url disk c
      (duration_of (or_default defaultProgressInterval (Atoi (ta_getenv E ''PROGRESS_INTERVAL_SECONDS''))) 1000000000) ca)"
  shows "returns (image_main E Write n)"
proof -
  have "returns (write_attempts E Write n url disk ca)" for url disk ca
    unfolding write_attempts_def write_operation_def Let_def by (intro returns_intro assms)
  then show ?thesis
    unfolding image_main_def Let_def by (intro returns_intro) (auto intro!: returns_intro split: sum.split)
qed

lemma returns_image_Write: "0 < i \<Longrightarrow> returns (image_Write E url disk c i ca)"
  unfolding image_Write_def with_reader_def findDecompressor_def copy_to_disk_def
  by (auto intro!: returns_intro split: option.split sum.split copy_err.split)

text \<open>The interval as the program computes it: seconds, three without a number.\<close>

definition progress_interval :: "ta_env \<Rightarrow> int" where
  "progress_interval E = or_default 3 (Atoi (ta_getenv E ''PROGRESS_INTERVAL_SECONDS''))"

text \<open>
  C33. \<open>image2disk\<close> does not panic, whatever it is answered, when its progress interval is left out,
  is no number, or is one between 1 and 9223372036 seconds.
\<close>

theorem image2disk_does_not_panic:
  assumes "1 \<le> progress_interval E" and "progress_interval E \<le> 9223372036"
  shows "fst (run_io (image2disk_main E n) l) \<noteq> Panic"
proof -
  have "duration_of (progress_interval E) 1000000000 = progress_interval E * 1000000000"
    using assms by (intro duration_in_range) simp_all
  with assms have "0 < duration_of (progress_interval E) 1000000000" by simp
  then have "returns (image2disk_main E n)"
    unfolding image2disk_main_def progress_interval_def
    by (intro returns_image_main returns_image_Write) (simp add: defaultProgressInterval_def)
  then show ?thesis by (auto dest: returnsD [of _ l])
qed

text \<open>With 0 or a negative number it panics once the disk is opened.\<close>

lemma interval_panic: "i \<le> 0 \<Longrightarrow> run_io (copy_to_disk E disk c i) l = (Panic, l)"
  by (simp add: copy_to_disk_def)

section \<open>Waiting for the device\<close>

definition polls :: "ta_call list \<Rightarrow> nat" where
  "polls l = length (filter (\<lambda>c. c = TaRun [''lsblk'']) l)"

text \<open>
  C34. The wait of \<open>qemu_nbd_image2disk\<close> for the partition of the attached image ends, with the
  k-th poll at the latest, when \<open>lsblk\<close> fails or lists the partition from then on.
\<close>

theorem device_wait_ends:
  assumes "\<And>l. polls l0 + k \<le> polls l \<Longrightarrow> fst (ta_run E l [''lsblk'']) \<noteq> None \<or>
      contains_str (snd (ta_run E l [''lsblk''])) ''nbd0p1''"
  shows "fst (run_io (wait_nbd E (Suc k)) l0) \<noteq> Ret None"
proof -
  have "polls l0 + k \<le> polls l + n \<Longrightarrow> fst (run_io (wait_nbd E (Suc n)) l) \<noteq> Ret None" for n l
  proof (induction n arbitrary: l)
    case 0
    with assms [of l] show ?case by (auto split: prod.split if_splits)
  next
    case (Suc n)
    let ?l = "l @ [TaRun [''lsblk''], TaSleep 2]"
    from Suc.prems have "polls l0 + k \<le> polls ?l + n" by (simp add: polls_def)
    from Suc.IH [OF this] show ?case by (simp split: prod.split)
  qed
  then show ?thesis by simp
qed

section \<open>The disk of the workflow\<close>

lemma emits_retry [emits_intro]:
  "emits P operation \<Longrightarrow> P (TaBackoff t) \<Longrightarrow> emits P (RetryNotify E t operation n)"
  by (induction n) (auto intro!: emits_intro split: option.split)

lemma emits_with_reader [emits_intro]:
  "emits P reader \<Longrightarrow> emits P m \<Longrightarrow> P TaCloseDecompressor \<Longrightarrow> emits P (with_reader c reader m)"
  unfolding with_reader_def by (intro emits_intro)

definition copies_to :: "string \<Rightarrow> ta_call \<Rightarrow> bool" where
  "copies_to disk x \<longleftrightarrow> (case x of TaCopyBody f c \<Rightarrow> f = disk | _ \<Rightarrow> True)"

lemma emits_copy_target: "emits (copies_to disk) (write_attempts E (image_Write E) n url disk ca)"
proof -
  have copy: "emits (copies_to disk) (copy_to_disk E disk c i)" for c i
    unfolding copy_to_disk_def copies_to_def by (auto intro!: emits_intro split: copy_err.split)
  have "emits (copies_to disk) (image_Write E url disk c i ca)" for c i
    unfolding image_Write_def findDecompressor_def new_reader_def
    by (intro emits_intro copy) (simp_all add: copies_to_def)
  then show ?thesis
    unfolding write_attempts_def write_operation_def Let_def
    by (intro emits_intro) (simp_all add: copies_to_def)
qed

definition root_mount :: "string \<Rightarrow> ta_call \<Rightarrow> bool" where
  "root_mount dev x \<longleftrightarrow> (case x of TaMount d t f g \<Rightarrow> t = mountAction \<longrightarrow> d = dev | _ \<Rightarrow> True)"

lemma emits_root_mount: "emits (root_mount (se_blockDevice s)) (cexec E s)"
proof -
  let ?P = "root_mount (se_blockDevice s)"
  have inner: "mounted_at ''dev'' \<noteq> mountAction" "mounted_at ''proc'' \<noteq> mountAction"
    "mounted_at ''sys'' \<noteq> mountAction" "mounted_at ''etc/resolv.conf'' \<noteq> mountAction" by code_simp+
  have cmd: "emits ?P (run_command E c)" for c
    unfolding run_command_def by (intro emits_intro) (simp_all add: root_mount_def)
  have "emits ?P (run_lines E ls)" for ls
    by (intro cmd_loop.loop_emits) (simp add: run_line_def cmd)
  then have cmds: "emits ?P (run_commands E s)"
    unfolding run_commands_def run_interpreter_def Let_def
    by (intro emits_intro cmd) (simp_all add: root_mount_def)
  have root: "emits ?P (in_root E s)"
    unfolding in_root_def mountSpecialDirs_def umountSpecialDirs_def enter_chroot_def exitChroot_def mount_def
      unmount_def drop_error_def
    by (intro emits_intro cmds) (simp_all add: root_mount_def inner)
  show ?thesis
    unfolding cexec_def mount_def backupFile_def restoreFile_def rename_file_def drop_error_def
    by (intro emits_intro root cmds) (simp_all add: root_mount_def)
qed

lemma detect_disk_run:
  assumes "ta_combined E l lsblk_drives = Inr out"
  shows "run_io (detect_disk E) l = (Ret (case ta_json_drives E out of
    Inl e \<Rightarrow> Inl e | Inr ds \<Rightarrow> DriveDetection insertion_sort ds), l @ [TaCombined lsblk_drives])"
  using assms by (simp add: detect_disk_def GetDrives_def split: sum.split)

lemma copied_disk:
  assumes "ta_combined E [] lsblk_drives = Inr out" and "ta_getenv E ''DEST_DISK'' = ''''"
    and "TaCopyBody disk c \<in> set (calls_of (image2disk_main E n))"
  obtains ds where "ta_json_drives E out = Inr ds" "DriveDetection insertion_sort ds = Inr disk"
proof -
  let ?r = "case ta_json_drives E out of Inl e \<Rightarrow> Inl e | Inr ds \<Rightarrow> DriveDetection insertion_sort ds"
  have d: "run_io (image_disk E) [] = (Ret ?r, [TaCombined lsblk_drives])"
    using assms(2) detect_disk_run [OF assms(1)] by (simp add: image_disk_def)
  let ?w = "\<lambda>d. let img = ta_getenv E ''IMG_URL''; ca = ta_getenv E ''TLS_CA_CERT'' in
       if img = '''' \<or> d = '''' then ret (Some (TaExit 1)) else
       case ta_url_parse E img of Inl e \<Rightarrow> ret (Some (TaExit 1)) | Inr url \<Rightarrow>
       case (if ca \<noteq> '''' then ta_base64 E ca else Inr '''') of Inl e \<Rightarrow> ret (Some (TaExit 1)) | Inr tlsCaCert \<Rightarrow>
       write_attempts E (image_Write E) n url d tlsCaCert"
  have w: "emits (copies_to d) (?w d)" for d
    unfolding Let_def by (intro emits_intro emits_copy_target)
  have calls: "calls_of (image2disk_main E n) = snd (run_io (case ?r of Inl e \<Rightarrow> ret (Some (TaExit 1)) | Inr d \<Rightarrow> ?w d) [TaCombined lsblk_drives])"
    by (simp add: calls_of_def image2disk_main_def image_main_def d)
  show thesis
  proof (cases ?r)
    case (Inl e)
    with assms(3) show ?thesis unfolding calls by simp
  next
    case (Inr d)
    obtain r2 l2 where run: "run_io (?w d) [TaCombined lsblk_drives] = (r2, l2)" by fastforce
    from emitsD [OF w run] assms(3) have "d = disk"
      unfolding calls Inr sum.case run by (fastforce simp: list_all_iff copies_to_def)
    with Inr that show ?thesis by (auto split: sum.splits)
  qed
qed

lemma mounted_device:
  assumes "ta_combined E [] lsblk_drives = Inr out" and "se_blockDevice s = ''''"
    and "TaMount dev mountAction fs fl \<in> set (calls_of (cexec_main E s))"
  obtains ds disk k listing parts where "ta_json_drives E out = Inr ds" "DriveDetection insertion_sort ds = Inr disk"
    "ta_combined E k (lsblk_partitions disk) = Inr listing" "ta_json_partitions E listing = Inr parts"
    "root_partition disk parts = Inr dev"
proof -
  have d: "run_io (detect_disk E) [] = (Ret (case ta_json_drives E out of
    Inl e \<Rightarrow> Inl e | Inr ds \<Rightarrow> DriveDetection insertion_sort ds), [TaCombined lsblk_drives])"
    using detect_disk_run [OF assms(1)] by simp
  obtain r l where dev: "run_io (cexec_device E s) [] = (r, l)" by fastforce
  have no_mount: "emits (\<lambda>x. \<forall>d t f g. x \<noteq> TaMount d t f g) (cexec_device E s)"
    unfolding cexec_device_def detect_disk_def GetDrives_def FindRootPartitionForDisk_def by (intro emits_intro) simp_all
  from emitsD [OF no_mount dev] have l: "TaMount a b f g \<notin> set l" for a b f g by (auto simp: list_all_iff)
  from dev assms(2) d obtain x where x: "r = Ret x"
    by (auto simp: cexec_device_def FindRootPartitionForDisk_def split: sum.splits)
  obtain d1 where d1: "x = Inr d1"
    using assms(3) dev x l by (cases x) (auto simp: calls_of_def cexec_main_def fatal_got_def)
  let ?rest = "let s' = s\<lparr>se_blockDevice := d1\<rparr> in
     if checkRequiredFields s' \<noteq> [] then ret (TaExit 20)
     else bnd (cexec E s') (\<lambda>err. if err \<noteq> None then ret (TaExit 30) else ret TaDone)"
  obtain r2 l2 where rest: "run_io ?rest l = (r2, l2)" by fastforce
  have "emits (root_mount d1) (cexec E (s\<lparr>se_blockDevice := d1\<rparr>))"
    using emits_root_mount [of "s\<lparr>se_blockDevice := d1\<rparr>" E] by simp
  then have "emits (root_mount d1) ?rest" unfolding Let_def by (intro emits_intro)
  moreover have "calls_of (cexec_main E s) = l2"
    using dev x d1 rest by (simp add: calls_of_def cexec_main_def fatal_got_def)
  ultimately have "d1 = dev"
    using emitsD [OF _ rest] assms(3) l by (fastforce simp: list_all_iff root_mount_def)
  with dev x d1 assms(2) d that show thesis
    by (auto simp: cexec_device_def FindRootPartitionForDisk_def split: sum.splits)
qed

text \<open>
  The actions of a workflow agree on the disk: when none of them is told a device and
  \<open>lsblk\<close> lists the same drives, \<open>cexec\<close> mounts the root partition of the very disk that
  \<open>image2disk\<close> has written the image to.
\<close>

theorem actions_agree_on_the_disk:
  assumes "\<forall>k. ta_combined E1 k lsblk_drives = Inr out" and "\<forall>k. ta_combined E2 k lsblk_drives = Inr out"
    and "ta_json_drives E1 out = ta_json_drives E2 out"
    and "ta_getenv E1 ''DEST_DISK'' = ''''" and "se_blockDevice s = ''''"
    and "TaCopyBody disk c \<in> set (calls_of (image2disk_main E1 n))"
    and "TaMount dev mountAction fs fl \<in> set (calls_of (cexec_main E2 s))"
  shows "\<exists>k listing parts. ta_combined E2 k (lsblk_partitions disk) = Inr listing \<and>
    ta_json_partitions E2 listing = Inr parts \<and> root_partition disk parts = Inr dev"
proof -
  from copied_disk [of E1 out disk c n] assms(1,4,6) obtain ds where
    "ta_json_drives E1 out = Inr ds" "DriveDetection insertion_sort ds = Inr disk" by blast
  moreover from mounted_device [of E2 out s dev fs fl] assms(2,5,7) obtain es disk2 k listing parts where
    "ta_json_drives E2 out = Inr es" "DriveDetection insertion_sort es = Inr disk2"
    "ta_combined E2 k (lsblk_partitions disk2) = Inr listing" "ta_json_partitions E2 listing = Inr parts"
    "root_partition disk2 parts = Inr dev" by metis
  ultimately show ?thesis using assms(3) by auto
qed

section \<open>Concrete runs\<close>

lemma qemu_installs_checked_images_only_witness:
  "\<exists>tmp as c as' bs. calls_of (qemu_image2disk_main sample_ta_env 1 1) =
      (as @ TaCopyBody tmp c # as') @ TaRun (dd_args ''/dev/sdb'') # bs \<and>
    ta_sha256 sample_ta_env (fst (ta_copy sample_ta_env as tmp c)) = ''abc''"
proof -
  let ?m = "qemu_image2disk_main sample_ta_env 1 1"
  have "TaRun (dd_args ''/dev/sdb'') \<in> set (calls_of ?m)" by code_simp
  then obtain xs bs where split: "calls_of ?m = xs @ TaRun (dd_args ''/dev/sdb'') # bs" by (meson split_list)
  have sum: "ta_getenv sample_ta_env ''SHA256'' = ''abc''" by code_simp
  from qemu_installs_checked_images_only [OF split] obtain tmp as c as' where
    "xs = as @ TaCopyBody tmp c # as'" "ta_sha256 sample_ta_env (fst (ta_copy sample_ta_env as tmp c)) = ''abc''"
    unfolding sum by auto
  with split show ?thesis by blast
qed

lemma image2disk_success_is_checked_witness:
  "\<exists>disk as c bs. calls_of (image2disk_main sample_ta_env 1) = as @ TaCopyBody disk c # bs \<and>
    ta_sha256 sample_ta_env (fst (ta_copy sample_ta_env as disk c)) = ''abc''"
proof -
  let ?m = "image2disk_main sample_ta_env 1"
  have "result_of ?m = Ret (Some TaDone)" by code_simp
  then have run: "run_io ?m [] = (Ret (Some TaDone), calls_of ?m)" using run_calls [of ?m] by simp
  have "ta_getenv sample_ta_env ''SHA256'' = ''abc''" by code_simp
  with image2disk_success_is_checked [OF run] show ?thesis by auto
qed

lemma image2disk_does_not_panic_witness:
  "result_of (image2disk_main sample_ta_env 1) \<noteq> Panic \<and>
   result_of (image2disk_main (sample_ta_env\<lparr>ta_getenv := \<lambda>k. if k = ''PROGRESS_INTERVAL_SECONDS'' then ''0'' else sample_vars k\<rparr>) 1) = Panic"
proof
  have "progress_interval sample_ta_env = 3" by code_simp
  then show "result_of (image2disk_main sample_ta_env 1) \<noteq> Panic"
    unfolding result_of_def by (intro image2disk_does_not_panic) simp_all
  show "result_of (image2disk_main (sample_ta_env\<lparr>ta_getenv := \<lambda>k. if k = ''PROGRESS_INTERVAL_SECONDS'' then ''0'' else sample_vars k\<rparr>) 1) = Panic"
    by code_simp
qed

lemma device_wait_ends_witness:
  "fst (run_io (wait_nbd (sample_ta_env\<lparr>ta_run := \<lambda>l c. (None, if polls l < 2 then ''sda'' else ''nbd0p1'')\<rparr>) 3) []) \<noteq> Ret None"
proof -
  let ?E = "sample_ta_env\<lparr>ta_run := \<lambda>l c. (None, if polls l < 2 then ''sda'' else ''nbd0p1'')\<rparr>"
  have "contains_str ''nbd0p1'' ''nbd0p1''" by code_simp
  then have "fst (run_io (wait_nbd ?E (Suc 2)) []) \<noteq> Ret None"
    by (intro device_wait_ends) (simp add: polls_def)
  then show ?thesis by (simp add: numeral_3_eq_3 numeral_2_eq_2)
qed

lemma actions_agree_on_the_disk_witness:
  "TaCopyBody ''/dev/sdb'' False \<in> set (calls_of (image2disk_main sample_ta_env 1)) \<and>
   (\<exists>parts. root_partition ''/dev/sdb'' parts = Inr ''/dev/sdb2'')"
proof -
  have copy: "TaCopyBody ''/dev/sdb'' False \<in> set (calls_of (image2disk_main sample_ta_env 1))" by code_simp
  moreover have mount: "TaMount ''/dev/sdb2'' mountAction ''ext4'' [] \<in> set (calls_of (cexec_main sample_ta_env sample_settings))"
    by code_simp
  moreover have "\<forall>k. ta_combined sample_ta_env k lsblk_drives = Inr ''json''" by (simp add: sample_ta_env_def)
  moreover have "ta_getenv sample_ta_env ''DEST_DISK'' = ''''" by code_simp
  moreover have "se_blockDevice sample_settings = ''''" by (simp add: sample_settings_def)
  ultimately show ?thesis
    using actions_agree_on_the_disk [of sample_ta_env "''json''" sample_ta_env sample_settings "''/dev/sdb''" False 1 "''/dev/sdb2''" "''ext4''" "[]"]
    by blast
qed

end
