(* ===== verification/GoProcess.thy ===== *)
theory GoProcess
  imports GoErrors
begin

text \<open>
  Processes: fatal errors, deferred functions, and the order of what a process does. \<open>staged\<close>
  says that the calls of a program come in the order of their stages.
\<close>

section \<open>Fatal errors\<close>

text \<open>
  A fatal log line ends the process at once, with status 1 and without deferred functions. Code
  that may log one has the result \<open>None\<close> for it. \<open>or_exit\<close> and \<open>got_or_exit\<close> go on after a call
  without error and end the process otherwise; \<open>unless_exited\<close> goes on unless the process ended.
\<close>

definition exited :: "('c, 'a option) io" where
  "exited = ret None"

definition unless_exited :: "('c, 'a option) io \<Rightarrow> ('a \<Rightarrow> ('c, 'b option) io) \<Rightarrow> ('c, 'b option) io" where
  "unless_exited m f = bnd m (\<lambda>r. case r of None \<Rightarrow> exited | Some x \<Rightarrow> f x)"

definition or_exit :: "('c, error) io \<Rightarrow> ('c, 'a option) io \<Rightarrow> ('c, 'a option) io" where
  "or_exit m n = bnd m (\<lambda>err. if err \<noteq> None then exited else n)"

definition got_or_exit :: "('c, goerr + 'a) io \<Rightarrow> ('a \<Rightarrow> ('c, 'b option) io) \<Rightarrow> ('c, 'b option) io" where
  "got_or_exit m f = bnd m (\<lambda>r. case r of Inl e \<Rightarrow> exited | Inr x \<Rightarrow> f x)"

definition unless_failed :: "('c, (goerr + 'a) option) io \<Rightarrow> ('a \<Rightarrow> ('c, (goerr + 'b) option) io) \<Rightarrow>
    ('c, (goerr + 'b) option) io" where
  "unless_failed m f = unless_exited m (\<lambda>r. case r of Inl e \<Rightarrow> ret (Some (Inl e)) | Inr x \<Rightarrow> f x)"

definition no_exit :: "('c, 'a) io \<Rightarrow> ('c, 'a option) io" where
  "no_exit m = bnd m (\<lambda>x. ret (Some x))"

text \<open>An exit skips what is deferred; a panic does not.\<close>

definition defer_unless_exited :: "('c, 'a option) io \<Rightarrow> ('c, unit) io \<Rightarrow> ('c, 'a option) io" where
  "defer_unless_exited m d = with_defer m (\<lambda>r. case r of Ret None \<Rightarrow> ret () | _ \<Rightarrow> d)"

lemma exit_run [simp]:
  "run_io exited l = (Ret None, l)"
  "run_io (unless_exited m f) l = (case run_io m l of
     (Ret None, l') \<Rightarrow> (Ret None, l') | (Ret (Some x), l') \<Rightarrow> run_io (f x) l' | (Panic, l') \<Rightarrow> (Panic, l'))"
  "run_io (or_exit e n) l = (case run_io e l of
     (Ret None, l') \<Rightarrow> run_io n l' | (Ret (Some err), l') \<Rightarrow> (Ret None, l') | (Panic, l') \<Rightarrow> (Panic, l'))"
  "run_io (got_or_exit g h) l = (case run_io g l of
     (Ret (Inr y), l') \<Rightarrow> run_io (h y) l' | (Ret (Inl err), l') \<Rightarrow> (Ret None, l') | (Panic, l') \<Rightarrow> (Panic, l'))"
  "run_io (no_exit k) l = (case run_io k l of (Ret z, l') \<Rightarrow> (Ret (Some z), l') | (Panic, l') \<Rightarrow> (Panic, l'))"
  by (auto simp: exited_def unless_exited_def or_exit_def got_or_exit_def no_exit_def
      split: prod.split outcome.split option.split sum.split)

lemma emits_exited [emits_intro]: "emits P exited"
  unfolding exited_def by (intro emits_intro)

lemma emits_unless_exited [emits_intro]:
  "emits P m \<Longrightarrow> (\<And>x. emits P (f x)) \<Longrightarrow> emits P (unless_exited m f)"
  unfolding unless_exited_def by (intro emits_intro)

lemma emits_unless_failed [emits_intro]:
  "emits P m \<Longrightarrow> (\<And>x. emits P (f x)) \<Longrightarrow> emits P (unless_failed m f)"
  unfolding unless_failed_def by (intro emits_intro)

lemma emits_or_exit [emits_intro]: "emits P m \<Longrightarrow> emits P n \<Longrightarrow> emits P (or_exit m n)"
  unfolding or_exit_def by (intro emits_intro)

lemma emits_got_or_exit [emits_intro]:
  "emits P m \<Longrightarrow> (\<And>x. emits P (f x)) \<Longrightarrow> emits P (got_or_exit m f)"
  unfolding got_or_exit_def by (intro emits_intro)

lemma emits_no_exit [emits_intro]: "emits P m \<Longrightarrow> emits P (no_exit m)"
  unfolding no_exit_def by (intro emits_intro)

lemma defer_unless_exited_run [simp]:
  "run_io (defer_unless_exited m d) l = (case run_io m l of
     (Ret None, l') \<Rightarrow> (Ret None, l')
   | (r, l') \<Rightarrow> (case run_io d l' of (Ret _, l'') \<Rightarrow> (r, l'') | (Panic, l'') \<Rightarrow> (Panic, l'')))"
  by (auto simp: defer_unless_exited_def split: prod.split outcome.split option.split)

lemma emits_defer_unless_exited [emits_intro]:
  "emits P m \<Longrightarrow> emits P d \<Longrightarrow> emits P (defer_unless_exited m d)"
  unfolding defer_unless_exited_def
  by (intro emits_intro) (auto split: outcome.split option.split intro: emits_intro)

section \<open>Stages\<close>

named_theorems staged_intro

definition staged :: "('c \<Rightarrow> nat) \<Rightarrow> nat \<Rightarrow> nat \<Rightarrow> ('c, 'a) io \<Rightarrow> bool" where
  "staged s a b m \<longleftrightarrow> (\<forall>l. \<exists>cs. snd (run_io m l) = l @ cs \<and> sorted (map s cs) \<and> (\<forall>c \<in> set cs. a \<le> s c \<and> s c \<le> b))"

lemma stagedD: "staged s a b m \<Longrightarrow> run_io m l = (r, l') \<Longrightarrow>
    \<exists>cs. l' = l @ cs \<and> sorted (map s cs) \<and> (\<forall>c \<in> set cs. a \<le> s c \<and> s c \<le> b)"
  unfolding staged_def by (metis snd_conv)

lemma staged_emits: "emits (\<lambda>c. s c = k) m \<Longrightarrow> staged s k k m"
  unfolding staged_def emits_def
proof
  fix l
  assume "\<forall>l. \<exists>cs. snd (run_io m l) = l @ cs \<and> list_all (\<lambda>c. s c = k) cs"
  then obtain cs where "snd (run_io m l) = l @ cs" "\<forall>c \<in> set cs. s c = k" by (auto simp: list_all_iff)
  moreover from this(2) have "sorted (map s cs)" by (induction cs) auto
  ultimately show "\<exists>cs. snd (run_io m l) = l @ cs \<and> sorted (map s cs) \<and> (\<forall>c \<in> set cs. k \<le> s c \<and> s c \<le> k)" by auto
qed

lemma staged_mono: "staged s a b m \<Longrightarrow> a' \<le> a \<Longrightarrow> b \<le> b' \<Longrightarrow> staged s a' b' m"
  unfolding staged_def by (metis order_trans)

lemma staged_ret [staged_intro]: "staged s a b (ret x)"
  by (simp add: staged_def)

lemma staged_exited [staged_intro]: "staged s a b exited"
  by (simp add: staged_def)

lemma staged_panic [staged_intro]: "staged s a b panic"
  by (simp add: staged_def)

lemma staged_ask [staged_intro]: "staged s a b (ask r)"
  by (simp add: staged_def)

lemma staged_call: "s c = k \<Longrightarrow> staged s k k (call c r)"
  by (simp add: staged_def)

lemma staged_bnd:
  assumes "staged s a b m" and "\<And>x. staged s b c (f x)" and "a \<le> b" and "b \<le> c"
  shows "staged s a c (bnd m f)"
  unfolding staged_def
proof
  fix l
  obtain r l1 where m: "run_io m l = (r, l1)" by fastforce
  from stagedD [OF assms(1) m] obtain cs where cs: "l1 = l @ cs" "sorted (map s cs)" "\<forall>c \<in> set cs. a \<le> s c \<and> s c \<le> b" by blast
  show "\<exists>cs. snd (run_io (bnd m f) l) = l @ cs \<and> sorted (map s cs) \<and> (\<forall>x \<in> set cs. a \<le> s x \<and> s x \<le> c)"
  proof (cases r)
    case Panic
    with m cs assms(4) show ?thesis by (auto intro: exI [of _ cs])
  next
    case (Ret x)
    obtain r2 l2 where f: "run_io (f x) l1 = (r2, l2)" by fastforce
    from stagedD [OF assms(2) f] obtain ds where ds: "l2 = l1 @ ds" "sorted (map s ds)" "\<forall>x \<in> set ds. b \<le> s x \<and> s x \<le> c" by blast
    have "sorted (map s (cs @ ds))" using cs ds by (force simp: sorted_append)
    moreover have "\<forall>x \<in> set (cs @ ds). a \<le> s x \<and> s x \<le> c" using cs ds assms(3,4) by force
    ultimately show ?thesis using m f cs(1) ds(1) Ret by (intro exI [of _ "cs @ ds"]) simp
  qed
qed

lemma staged_cases [staged_intro]:
  "(b \<Longrightarrow> staged s i j m) \<Longrightarrow> (\<not> b \<Longrightarrow> staged s i j n) \<Longrightarrow> staged s i j (if b then m else n)"
  "staged s i j m \<Longrightarrow> (\<And>y. staged s i j (f y)) \<Longrightarrow> staged s i j (case x of None \<Rightarrow> m | Some y \<Rightarrow> f y)"
  "(\<And>e. staged s i j (g e)) \<Longrightarrow> (\<And>y. staged s i j (h y)) \<Longrightarrow> staged s i j (case z of Inl e \<Rightarrow> g e | Inr y \<Rightarrow> h y)"
  "(\<And>u v. staged s i j (k u v)) \<Longrightarrow> staged s i j (case p of (u, v) \<Rightarrow> k u v)"
  by (auto split: option.split sum.split prod.split)

text \<open>One stage, then later ones.\<close>

lemma staged_then:
  assumes "staged s a a m" and "\<And>x. staged s b c (f x)" and "a \<le> b" and "b \<le> c"
  shows "staged s a c (bnd m f)"
  using assms by (intro staged_bnd [of s a a m] staged_mono [OF assms(2)]) auto

lemma staged_exit_then:
  "staged s a a m \<Longrightarrow> (\<And>x. staged s b c (f x)) \<Longrightarrow> a \<le> b \<Longrightarrow> b \<le> c \<Longrightarrow> staged s a c (unless_exited m f)"
  "staged s a a e \<Longrightarrow> staged s b c n \<Longrightarrow> a \<le> b \<Longrightarrow> b \<le> c \<Longrightarrow> staged s a c (or_exit e n)"
  "staged s a a g \<Longrightarrow> (\<And>x. staged s b c (h x)) \<Longrightarrow> a \<le> b \<Longrightarrow> b \<le> c \<Longrightarrow> staged s a c (got_or_exit g h)"
  unfolding unless_exited_def or_exit_def got_or_exit_def
  by (rule staged_then; auto intro: staged_intro split: option.split sum.split)+

lemma staged_unless_exited:
  "staged s a b m \<Longrightarrow> (\<And>x. staged s b c (f x)) \<Longrightarrow> a \<le> b \<Longrightarrow> b \<le> c \<Longrightarrow> staged s a c (unless_exited m f)"
  unfolding unless_exited_def by (rule staged_bnd) (auto intro: staged_intro split: option.split)

lemma staged_defer:
  assumes "staged s a b m" and "staged s b c d" and "a \<le> b" and "b \<le> c"
  shows "staged s a c (defer_unless_exited m d)"
  unfolding staged_def
proof
  fix l
  obtain r l1 where m: "run_io m l = (r, l1)" by fastforce
  obtain r2 l2 where d: "run_io d l1 = (r2, l2)" by fastforce
  from stagedD [OF assms(1) m] obtain cs where cs: "l1 = l @ cs" "sorted (map s cs)" "\<forall>c \<in> set cs. a \<le> s c \<and> s c \<le> b" by blast
  from stagedD [OF assms(2) d] obtain ds where ds: "l2 = l1 @ ds" "sorted (map s ds)" "\<forall>x \<in> set ds. b \<le> s x \<and> s x \<le> c" by blast
  have "sorted (map s (cs @ ds))" using cs ds by (force simp: sorted_append)
  moreover have "\<forall>x \<in> set (cs @ ds). a \<le> s x \<and> s x \<le> c" using cs ds assms(3,4) by force
  moreover have "\<forall>x \<in> set cs. a \<le> s x \<and> s x \<le> c" using cs assms(4) by force
  moreover have "snd (run_io (defer_unless_exited m d) l) \<in> {l @ cs, l @ cs @ ds}"
    using m d cs(1) ds(1) by (auto split: outcome.split option.split)
  ultimately show "\<exists>cs. snd (run_io (defer_unless_exited m d) l) = l @ cs \<and> sorted (map s cs) \<and> (\<forall>x \<in> set cs. a \<le> s x \<and> s x \<le> c)"
    using cs(2) by blast
qed

end
