(* ===== verification/DkApi.thy ===== *)
theory DkApi
  imports Curation TaApi GoProcess
begin

text \<open>
  The DKAM process (\<open>src/dkam\<close>): it reads the infrastructure configuration, downloads the
  micro OS image, signs it together with the boot loader and puts the results where machines
  that boot fetch them. This theory holds the calls it makes and the environment \<open>dk_env\<close>
  that answers them.
\<close>

section \<open>Calls\<close>

datatype dk_call =
    DkReadConfigFile string | DkWatchConfig
  | DkArtifacts string string                  \<comment> \<open>download from the artifact service\<close>
  | DkSetConfig infra_config                   \<comment> \<open>\<open>SetInfraConfig\<close>: from now on it is in force\<close>
  | DkHttpGet string | DkCloseBody
  | DkCreate string | DkOpen string | DkClose string
  | DkCopyBody string                          \<comment> \<open>the body of the response to a file\<close>
  | DkCopy string string
  | DkStat string | DkRemoveAll string | DkMkdirAll string | DkChdir string | DkGetwd
  | DkReadFile string | DkWriteFile string string | DkWalk string
  | DkCombined "string list"
  | DkNewWatcher | DkWatch string | DkCloseWatcher
  | DkTraceExporter string | DkTraceCleanup | DkMetrics string
  | DkWgAdd | DkWgDone | DkCrash             \<comment> \<open>the wait group; a goroutine panicked\<close>
  | DkOamServer string | DkReady | DkTerminate

type_synonym 'a dk = "(dk_call, 'a) io"

text \<open>A directory as it is found on disk, its entries in the order of their names. Reading a
  directory or the status of an entry may fail.\<close>

datatype fs_tree = FsFile | FsDir error "fs_entry list"
  and fs_entry = FsBad string goerr | FsGood string fs_tree

record dk_env =
  dk_configFile :: string
  dk_read_config :: "dk_call list \<Rightarrow> error"
  dk_unmarshal :: "dk_call list \<Rightarrow> goerr + infra_config"
  dk_artifacts :: "dk_call list \<Rightarrow> string \<Rightarrow> string \<Rightarrow> goerr + (string list) option"
  dk_yaml :: "string \<Rightarrow> en_manifest \<Rightarrow> goerr + en_manifest"
  dk_reloaded :: "dk_call list \<Rightarrow> infra_config option"
  dk_url_join :: "string \<Rightarrow> string \<Rightarrow> goerr + string"
  dk_new_request :: "string \<Rightarrow> error"
  dk_http_get :: "dk_call list \<Rightarrow> string \<Rightarrow> goerr + int"
  dk_create :: "dk_call list \<Rightarrow> string \<Rightarrow> error"
  dk_open :: "dk_call list \<Rightarrow> string \<Rightarrow> error"
  dk_copy_body :: "dk_call list \<Rightarrow> string \<Rightarrow> error"
  dk_copy :: "dk_call list \<Rightarrow> string \<Rightarrow> string \<Rightarrow> error"
  dk_stat :: "dk_call list \<Rightarrow> string \<Rightarrow> stat_result"
  dk_remove_all :: "dk_call list \<Rightarrow> string \<Rightarrow> error"
  dk_mkdir_all :: "dk_call list \<Rightarrow> string \<Rightarrow> error"
  dk_chdir :: "dk_call list \<Rightarrow> string \<Rightarrow> error"
  dk_getwd :: "dk_call list \<Rightarrow> goerr + string"
  dk_read_file :: "dk_call list \<Rightarrow> string \<Rightarrow> goerr + string"
  dk_write_file :: "dk_call list \<Rightarrow> string \<Rightarrow> string \<Rightarrow> error"
  dk_tree :: "dk_call list \<Rightarrow> string \<Rightarrow> goerr + fs_tree"
  dk_combined :: "dk_call list \<Rightarrow> string list \<Rightarrow> error"
  dk_new_watcher :: "dk_call list \<Rightarrow> error"
  dk_watch :: "dk_call list \<Rightarrow> string \<Rightarrow> error"
  dk_trace_exporter :: "dk_call list \<Rightarrow> string \<Rightarrow> bool \<times> error"
  dk_view :: "dk_call list \<Rightarrow> host_view"
  dk_vpro_template :: string
  dk_vpro_uninstall :: string

definition dk_done :: "dk_call \<Rightarrow> unit dk" where
  "dk_done c = call c (\<lambda>_. ())"

lemma dk_done_run [simp]: "run_io (dk_done c) l = (Ret (), l @ [c])"
  by (simp add: dk_done_def)

lemma emits_dk_done [emits_intro]: "P c \<Longrightarrow> emits P (dk_done c)"
  unfolding dk_done_def by (intro emits_intro)

end
