(* ===== verification/DkConfig.thy ===== *)
theory DkConfig
  imports DkApi
begin

text \<open>
  \<open>dkam/pkg/config/config.go\<close>: reading the configuration file, the manifest of the agents that
  goes with it, and the configuration in force. It is a variable of the process: what was set
  last, unless the watcher of the file has set another one since, which \<open>dk_reloaded\<close> answers.
\<close>

definition DownloadPath :: string where "DownloadPath = ''/tmp''"
definition PVC :: string where "PVC = ''/data''"
definition ScriptPath :: string where "ScriptPath = ''/home/appuser/pkg/script''"

section \<open>The configuration in force\<close>

definition zero_config :: infra_config where
  "zero_config = \<lparr>
     cfg_ENDebianPackagesRepo = [], cfg_ENFilesRsRoot = [], cfg_ENManifestRepo = [],
     cfg_ENAgentManifestTag = [], cfg_InfraURL = [], cfg_ClusterURL = [], cfg_UpdateURL = [],
     cfg_ReleaseServiceURL = [], cfg_LogsObservabilityURL = [], cfg_MetricsObservabilityURL = [],
     cfg_ManageabilityURL = [], cfg_RPSAddress = [], cfg_KeycloakURL = [], cfg_TelemetryURL = [],
     cfg_RegistryURL = [], cfg_FileServerURL = [], cfg_RSType = [], cfg_ENServiceClients = [],
     cfg_ENOutboundClients = [], cfg_ENMetricsEnabled = [], cfg_ENTokenClients = [],
     cfg_ProvisioningService = [], cfg_ProvisioningServerURL = [], cfg_TinkServerURL = [],
     cfg_OnboardingURL = [], cfg_OnboardingStreamURL = [], cfg_CDN = [],
     cfg_FsInotifyMaxUserInstances = 0, cfg_VmOverCommitMemory = 0, cfg_KernelPanicOnOops = 0,
     cfg_KernelPanic = 0, cfg_ENProxyHTTP = [], cfg_ENProxyHTTPS = [], cfg_ENProxyFTP = [],
     cfg_ENProxyNoProxy = [], cfg_ENProxySocks = [], cfg_NetIP = [], cfg_NTPServers = [],
     cfg_DNSServers = [], cfg_FirewallReqAllow = [], cfg_FirewallCfgAllow = [],
     cfg_ENManifest = \<lparr>em_Codename = [], em_Component = [], em_Packages = []\<rparr>, cfg_EMBImageURL = [],
     cfg_DisableCOProfile = False, cfg_DisableO11YProfile = False, cfg_SkipOSProvisioning = False\<rparr>"

definition last_set :: "dk_call list \<Rightarrow> infra_config" where
  "last_set l = foldl (\<lambda>c x. case x of DkSetConfig c' \<Rightarrow> c' | _ \<Rightarrow> c) zero_config l"

definition current_config :: "dk_env \<Rightarrow> dk_call list \<Rightarrow> infra_config" where
  "current_config E l = (case dk_reloaded E l of Some c \<Rightarrow> c | None \<Rightarrow> last_set l)"

definition GetInfraConfig :: "dk_env \<Rightarrow> infra_config dk" where
  "GetInfraConfig E = ask (current_config E)"

definition SetInfraConfig :: "infra_config \<Rightarrow> unit dk" where
  "SetInfraConfig c = dk_done (DkSetConfig c)"

section \<open>Reading it\<close>

definition DownloadENManifest :: "dk_env \<Rightarrow> string \<Rightarrow> string \<Rightarrow> (goerr + string) dk" where
  "DownloadENManifest E manifestRepo manifestTag =
     bnd (call (DkArtifacts manifestRepo manifestTag) (\<lambda>l. dk_artifacts E l manifestRepo manifestTag)) (\<lambda>r. case r of
       Inl e \<Rightarrow> ret (Inl (Errorf (''Error downloading EN Manifest file for tag '' @ manifestTag)))
     | Inr None \<Rightarrow> ret (Inl (Errorf ''Empty artifact data''))
     | Inr (Some []) \<Rightarrow> ret (Inl (Errorf ''Empty artifact data''))
     | Inr (Some (data # _)) \<Rightarrow> ret (Inr data))"

definition updateConfig :: "dk_env \<Rightarrow> error dk" where
  "updateConfig E = if_got (ask (dk_unmarshal E)) (\<lambda>config.
     if cfg_ENManifestRepo config = '''' \<or> cfg_ENAgentManifestTag config = '''' then
       ret (Some (Errorfc InvalidArgument ''Missing EN manifest repo or tag''))
     else if_got (DownloadENManifest E (cfg_ENManifestRepo config) (cfg_ENAgentManifestTag config)) (\<lambda>enManifestData.
       case dk_yaml E enManifestData (cfg_ENManifest config) of
         Inl e \<Rightarrow> ret (Some e)
       | Inr m \<Rightarrow> bnd (SetInfraConfig (config\<lparr>cfg_ENManifest := m\<rparr>)) (\<lambda>_. ret None)))"

text \<open>\<open>config.Read\<close>; the callback that it leaves with the watcher is \<open>on_config_change\<close>.\<close>

definition config_Read :: "dk_env \<Rightarrow> error dk" where
  "config_Read E =
     if_nil (call (DkReadConfigFile (dk_configFile E)) (dk_read_config E))
     (if_nil (updateConfig E)
       (bnd (dk_done DkWatchConfig) (\<lambda>_. ret None)))"

definition on_config_change :: "dk_env \<Rightarrow> unit option dk" where
  "on_config_change E = or_exit (updateConfig E) (ret (Some ()))"

section \<open>What is in force\<close>

text \<open>A configuration that came through \<open>updateConfig\<close>.\<close>

definition complete_config :: "dk_env \<Rightarrow> infra_config \<Rightarrow> bool" where
  "complete_config E c \<longleftrightarrow> cfg_ENManifestRepo c \<noteq> '''' \<and> cfg_ENAgentManifestTag c \<noteq> '''' \<and>
     (\<exists>l m data arts. dk_artifacts E l (cfg_ENManifestRepo c) (cfg_ENAgentManifestTag c) = Inr (Some (data # arts)) \<and>
       dk_yaml E data m = Inr (cfg_ENManifest c))"

text \<open>The watcher sets a configuration only by running \<open>on_config_change\<close>.\<close>

definition sets_config :: "dk_env \<Rightarrow> infra_config \<Rightarrow> bool" where
  "sets_config E c \<longleftrightarrow> (\<exists>l l'. run_io (on_config_change E) l = (Ret (Some ()), l' @ [DkSetConfig c]))"

lemma DownloadENManifest_run:
  "run_io (DownloadENManifest E repo tag) l = (Ret (Inr data), l') \<longleftrightarrow>
   l' = l @ [DkArtifacts repo tag] \<and> (\<exists>arts. dk_artifacts E l repo tag = Inr (Some (data # arts)))"
  by (auto simp: DownloadENManifest_def split: sum.split option.split list.split)

lemma DownloadENManifest_returns: "\<exists>x l'. run_io (DownloadENManifest E repo tag) l = (Ret x, l')"
  by (auto simp: DownloadENManifest_def split: sum.split option.split list.split)

lemma updateConfig_cases:
  obtains (failed) e cs where "run_io (updateConfig E) l = (Ret (Some e), l @ cs)" "\<forall>c. DkSetConfig c \<notin> set cs"
  | (was_set) c repo tag where "run_io (updateConfig E) l = (Ret None, l @ [DkArtifacts repo tag, DkSetConfig c])"
    "complete_config E c"
proof (cases "dk_unmarshal E l")
  case (Inl e)
  then show thesis by (intro failed [of e "[]"]) (simp_all add: updateConfig_def)
next
  case (Inr config)
  let ?repo = "cfg_ENManifestRepo config" let ?tag = "cfg_ENAgentManifestTag config"
  show thesis
  proof (cases "?repo = '''' \<or> ?tag = ''''")
    case True
    with Inr show thesis by (intro failed [where cs = "[]"]) (auto simp: updateConfig_def)
  next
    case given: False
    obtain x l1 where run: "run_io (DownloadENManifest E ?repo ?tag) l = (Ret x, l1)"
      using DownloadENManifest_returns by metis
    have l1: "l1 = l @ [DkArtifacts ?repo ?tag]"
      using run by (auto simp: DownloadENManifest_def split: sum.splits option.splits list.splits)
    show thesis
    proof (cases x)
      case (Inl e)
      with \<open>dk_unmarshal E l = Inr config\<close> given run l1 show thesis by (intro failed [of e "[DkArtifacts ?repo ?tag]"]) (simp_all add: updateConfig_def)
    next
      case (Inr data)
      with run obtain arts where arts: "dk_artifacts E l ?repo ?tag = Inr (Some (data # arts))"
        by (auto simp: DownloadENManifest_run)
      show thesis
      proof (cases "dk_yaml E data (cfg_ENManifest config)")
        case (Inl e)
        with \<open>dk_unmarshal E l = Inr config\<close> given run l1 Inr show thesis by (intro failed [of e "[DkArtifacts ?repo ?tag]"]) (simp_all add: updateConfig_def)
      next
        case yaml: (Inr m)
        have "complete_config E (config\<lparr>cfg_ENManifest := m\<rparr>)"
          using given arts yaml by (auto simp: complete_config_def)
        with \<open>dk_unmarshal E l = Inr config\<close> given run l1 Inr yaml show thesis
          by (intro was_set) (simp_all add: updateConfig_def SetInfraConfig_def)
      qed
    qed
  qed
qed

lemma sets_config_complete: "sets_config E c \<Longrightarrow> complete_config E c"
proof -
  assume "sets_config E c"
  then obtain l l' where "run_io (on_config_change E) l = (Ret (Some ()), l' @ [DkSetConfig c])"
    by (auto simp: sets_config_def)
  then show ?thesis
    by (cases rule: updateConfig_cases [of E l]) (auto simp: on_config_change_def)
qed

lemma last_set_snoc [simp]: "last_set (l @ [DkSetConfig c]) = c"
  by (simp add: last_set_def)

lemma last_set_append: "list_all (\<lambda>x. \<forall>c. x \<noteq> DkSetConfig c) cs \<Longrightarrow> last_set (l @ cs) = last_set l"
proof (induction cs rule: rev_induct)
  case (snoc x cs)
  then show ?case by (cases x) (simp_all add: last_set_def)
qed simp

end
