(* ===== verification/DkSigning.thy ===== *)
theory DkSigning
  imports DkConfig
begin

text \<open>
  What the DKAM process does with files: the download of the micro OS (\<open>dkam/pkg/download\<close>), the
  copy of the build scripts, their configuration, and the scripts that sign the boot loader and
  the micro OS (\<open>dkam/pkg/signing\<close>). Paths are relative to the working directory that the calls
  before have set.
\<close>

section \<open>Calls with an error\<close>

definition dk_run :: "dk_env \<Rightarrow> string list \<Rightarrow> error dk" where
  "dk_run E args = call (DkCombined args) (\<lambda>l. dk_combined E l args)"

definition dk_Chdir :: "dk_env \<Rightarrow> string \<Rightarrow> error dk" where
  "dk_Chdir E p = call (DkChdir p) (\<lambda>l. dk_chdir E l p)"

definition dk_MkdirAll :: "dk_env \<Rightarrow> string \<Rightarrow> error dk" where
  "dk_MkdirAll E p = call (DkMkdirAll p) (\<lambda>l. dk_mkdir_all E l p)"

definition dk_ReadFile :: "dk_env \<Rightarrow> string \<Rightarrow> (goerr + string) dk" where
  "dk_ReadFile E p = call (DkReadFile p) (\<lambda>l. dk_read_file E l p)"

definition dk_WriteFile :: "dk_env \<Rightarrow> string \<Rightarrow> string \<Rightarrow> error dk" where
  "dk_WriteFile E p s = call (DkWriteFile p s) (\<lambda>l. dk_write_file E l p s)"

definition dk_Create :: "dk_env \<Rightarrow> string \<Rightarrow> error dk" where
  "dk_Create E p = call (DkCreate p) (\<lambda>l. dk_create E l p)"

lemmas dk_io_defs = dk_run_def dk_Chdir_def dk_MkdirAll_def dk_ReadFile_def dk_WriteFile_def dk_Create_def

section \<open>Download\<close>

definition UOSFileName :: string where "UOSFileName = ''emb_uos_x86_64.tar.gz''"

definition uos_url :: "string \<Rightarrow> string" where
  "uos_url uOSUrl = (if \<not> has_prefix uOSUrl ''http://'' \<and> \<not> has_prefix uOSUrl ''https://''
     then ''https://'' @ uOSUrl else uOSUrl)"

text \<open>What is stored, of the response whose status is not looked at.\<close>

definition store_uos :: "dk_env \<Rightarrow> error dk" where
  "store_uos E = (let uOSFilePath = DownloadPath @ ''/'' @ UOSFileName in
     if_nil (dk_Create E uOSFilePath)
       (with_defer
         (bnd (call (DkCopyBody uOSFilePath) (\<lambda>l. dk_copy_body E l uOSFilePath)) (\<lambda>copyErr. ret None))
         (\<lambda>_. dk_done (DkClose uOSFilePath))))"

definition DownloadMicroOS :: "dk_env \<Rightarrow> error dk" where
  "DownloadMicroOS E = bnd (GetInfraConfig E) (\<lambda>c.
     let fileServerAddress = cfg_CDN c; embImgURL = cfg_EMBImageURL c in
     if fileServerAddress = '''' then ret (Some (Errorf ''FileServerURL is not set in the configuration''))
     else if embImgURL = '''' then ret (Some (Errorf ''EMBImageURL is not set in the configuration''))
     else case dk_url_join E fileServerAddress embImgURL of Inl e \<Rightarrow> ret (Some e) | Inr joined \<Rightarrow>
       let url = uos_url joined in
       case dk_new_request E url of Some e \<Rightarrow> ret (Some e) | None \<Rightarrow>
         if_got (call (DkHttpGet url) (\<lambda>l. dk_http_get E l url))
           (\<lambda>status. with_defer (store_uos E) (\<lambda>_. dk_done DkCloseBody)))"

section \<open>Copying files\<close>

definition copyFile :: "dk_env \<Rightarrow> string \<Rightarrow> string \<Rightarrow> error dk" where
  "copyFile E src dst =
     if_nil (call (DkOpen src) (\<lambda>l. dk_open E l src))
       (with_defer
         (if_nil (dk_Create E dst)
           (with_defer (call (DkCopy src dst) (\<lambda>l. dk_copy E l src dst))
             (\<lambda>_. dk_done (DkClose dst))))
         (\<lambda>_. dk_done (DkClose src)))"

text \<open>\<open>filepath.Walk\<close>: a directory is visited, with the error of listing it, before its entries;
  an entry whose status cannot be read is visited with that error. The visitor does not skip.\<close>

type_synonym visitor = "string \<Rightarrow> bool \<Rightarrow> error \<Rightarrow> error dk"

fun walk :: "visitor \<Rightarrow> string \<Rightarrow> fs_tree \<Rightarrow> error dk"
  and walk_entries :: "visitor \<Rightarrow> string \<Rightarrow> fs_entry list \<Rightarrow> error dk" where
  "walk visit p FsFile = visit p False None"
| "walk visit p (FsDir err es) = bnd (visit p True err) (\<lambda>err1.
     if err \<noteq> None \<or> err1 \<noteq> None then ret err1 else walk_entries visit p es)"
| "walk_entries visit p [] = ret None"
| "walk_entries visit p (FsBad name e # es) =
     if_nil (visit (path_Join [p, name]) False (Some e)) (walk_entries visit p es)"
| "walk_entries visit p (FsGood name t # es) =
     if_nil (walk visit (path_Join [p, name]) t) (walk_entries visit p es)"

definition Walk :: "dk_env \<Rightarrow> string \<Rightarrow> visitor \<Rightarrow> error dk" where
  "Walk E root visit = bnd (call (DkWalk root) (\<lambda>l. dk_tree E l root)) (\<lambda>r. case r of
     Inl e \<Rightarrow> visit root False (Some e) | Inr t \<Rightarrow> walk visit root t)"

text \<open>The function that \<open>copyDir\<close> hands to \<open>Walk\<close>.\<close>

definition copy_entry :: "dk_env \<Rightarrow> string \<Rightarrow> string \<Rightarrow> visitor" where
  "copy_entry E src dst p is_dir err = (case err of Some e \<Rightarrow> ret (Some e) | None \<Rightarrow>
     let dstPath = path_Join [dst, path_Rel src p] in
     if is_dir then dk_MkdirAll E dstPath else copyFile E p dstPath)"

definition copyDir :: "dk_env \<Rightarrow> string \<Rightarrow> string \<Rightarrow> error dk" where
  "copyDir E src dst = if_nil (dk_MkdirAll E dst) (Walk E src (copy_entry E src dst))"

section \<open>The micro OS\<close>

definition setupUOSDirectories :: "dk_env \<Rightarrow> (goerr + string) option dk" where
  "setupUOSDirectories E =
     (let uosDir = ScriptPath @ ''/uos''; buildScriptPath = DownloadPath @ ''/uos'';
          or_fail = (\<lambda>m n. bnd m (\<lambda>err. case err of Some e \<Rightarrow> ret (Some (Inl e)) | None \<Rightarrow> n))
      in bnd (call (DkStat buildScriptPath) (\<lambda>l. dk_stat E l buildScriptPath)) (\<lambda>st.
         or_fail (if st = StatOk then call (DkRemoveAll buildScriptPath) (\<lambda>l. dk_remove_all E l buildScriptPath) else ret None)
         (or_fail (dk_MkdirAll E buildScriptPath)
         (or_fail (copyDir E uosDir buildScriptPath)
         (or_exit (dk_Chdir E buildScriptPath) (ret (Some (Inr buildScriptPath))))))))"

definition first_of :: "char \<Rightarrow> string \<Rightarrow> string" where
  "first_of c s = hd (split_char c s)"

text \<open>The placeholders and their values, in the order in which they are replaced.\<close>

definition config_slots :: "infra_config \<Rightarrow> (string \<times> string) list" where
  "config_slots c = [
     (''__http_proxy__'', cfg_ENProxyHTTP c),
     (''__https_proxy__'', cfg_ENProxyHTTPS c),
     (''__ftp_proxy__'', cfg_ENProxyFTP c),
     (''__socks_proxy__'', cfg_ENProxySocks c),
     (''__no_proxy__'', cfg_ENProxyNoProxy c),
     (''__release_svc__'', cfg_CDN c),
     (''__tink_stack_svc__'', cfg_ProvisioningService c),
     (''__tink_server_svc__'', cfg_TinkServerURL c),
     (''__keycloak_url__'', cfg_KeycloakURL c),
     (''__oci_release_svc__'', first_of CHR '':'' (cfg_RegistryURL c)),
     (''__logging_svc__'', first_of CHR '':'' (cfg_LogsObservabilityURL c)),
     (''__onboarding_manager_svc__'', cfg_OnboardingURL c),
     (''__onboarding_stream_svc__'', cfg_OnboardingStreamURL c)]"

definition replaceConfigPlaceholders :: "infra_config \<Rightarrow> string \<Rightarrow> string" where
  "replaceConfigPlaceholders c content = foldl (\<lambda>s (slot, v). replace_all slot v s) content (config_slots c)"

definition verifyWorkingDirectory :: "dk_env \<Rightarrow> string \<Rightarrow> unit option dk" where
  "verifyWorkingDirectory E expected = got_or_exit (call DkGetwd (dk_getwd E)) (\<lambda>wd.
     if wd \<noteq> expected then exited else ret (Some ()))"

definition SignMicroOS :: "dk_env \<Rightarrow> (goerr + bool) option dk" where
  "SignMicroOS E = unless_failed (setupUOSDirectories E) (\<lambda>buildScriptPath.
     got_or_exit (dk_ReadFile E ''config'') (\<lambda>content.
     bnd (GetInfraConfig E) (\<lambda>c.
     or_exit (dk_WriteFile E ''config'' (replaceConfigPlaceholders c content))
     (let cpioPath = buildScriptPath @ ''/cpio_build'' in
      or_exit (dk_Chdir E cpioPath)
      (or_exit (dk_run E [''chmod'', ''+x'', ''secure_uos.sh''])
      (or_exit (dk_run E [''chmod'', ''+x'', ''update_initramfs.sh''])
      (unless_exited (verifyWorkingDirectory E cpioPath) (\<lambda>_.
       or_exit (dk_run E [''bash'', ''./update_initramfs.sh'', DownloadPath])
       (or_exit (dk_Chdir E ScriptPath)
         (ret (Some (Inr True))))))))))))"

section \<open>The boot loader\<close>

definition tink_url_slot :: string where
  "tink_url_slot = ''<TINK_STACK_URL>''"

definition BuildSignIpxe :: "dk_env \<Rightarrow> (goerr + bool) option dk" where
  "BuildSignIpxe E = bnd (GetInfraConfig E) (\<lambda>c.
     let ipxePath = ScriptPath @ ''/ipxe''; chainPath = ipxePath @ ''/'' @ ''chain.ipxe'';
         targetChainPath = DownloadPath @ ''/'' @ ''chain.ipxe'' in
     or_exit (copyFile E chainPath targetChainPath)
     (got_or_exit (dk_ReadFile E targetChainPath) (\<lambda>content.
      or_exit
        (if contains_str content tink_url_slot then
           dk_WriteFile E targetChainPath (replace_all tink_url_slot (cfg_ProvisioningServerURL c) content)
         else ret None)
      (or_exit (dk_Chdir E ipxePath)
      (or_exit (dk_run E [''bash'', ''./build_sign_ipxe.sh'', DownloadPath])
        (ret (Some (Inr True))))))))"

end
