(* ===== verification/DkMain.thy ===== *)
theory DkMain
  imports DkSigning
begin

text \<open>
  The DKAM process as a whole: \<open>dkam/pkg/script/vpro\<close>, \<open>dkam/internal/dkammgr\<close> and
  \<open>dkam/cmd/dkammgr/main.go\<close>. The goroutine that builds and signs runs beside the main one; of
  the order of their calls only that of the wait group matters, and \<open>early\<close> says whether the
  main goroutine gets to start the OAM server before the build ends. The signal that ends the
  process comes after the build.
\<close>

section \<open>The vPro installer\<close>

definition vpro_script :: "dk_env \<Rightarrow> host_view \<Rightarrow> infra_config \<Rightarrow> os_type \<Rightarrow> (goerr + string) outcome" where
  "vpro_script E V infraConfig osType = (case GetCommonInfraTemplateVariables V infraConfig osType of
     Panic \<Rightarrow> Panic
   | Ret (Inl e) \<Rightarrow> Ret (Inl e)
   | Ret (Inr templateVars) \<Rightarrow> Ret (CurateFromTemplate V (dk_vpro_template E) templateVars))"

definition view_now :: "dk_env \<Rightarrow> host_view dk" where
  "view_now E = ask (\<lambda>l. (dk_view E l)\<lparr>hv_config := current_config E l\<rparr>)"

definition mgr_CurateVProInstaller :: "dk_env \<Rightarrow> error dk" where
  "mgr_CurateVProInstaller E = bnd (GetInfraConfig E) (\<lambda>infraConfig. bnd (view_now E) (\<lambda>V.
     if_got (of_outcome (vpro_script E V infraConfig OS_TYPE_MUTABLE)) (\<lambda>curatedScript.
       dk_WriteFile E (path_Join [PVC, ''Installer'']) curatedScript)))"

definition CopyVProUninstallScript :: "dk_env \<Rightarrow> error dk" where
  "CopyVProUninstallScript E = dk_WriteFile E (path_Join [PVC, ''uninstall.sh'']) (dk_vpro_uninstall E)"

definition CurateVProInstaller :: "dk_env \<Rightarrow> error dk" where
  "CurateVProInstaller E = if_nil (mgr_CurateVProInstaller E) (CopyVProUninstallScript E)"

section \<open>Artifacts\<close>

definition DownloadArtifacts :: "dk_env \<Rightarrow> error dk" where
  "DownloadArtifacts E = DownloadMicroOS E"

definition GetArtifacts :: "dk_env \<Rightarrow> unit option dk" where
  "GetArtifacts E = (let outDir = path_Join [DownloadPath, ''tmp''] in
     bnd (call (DkRemoveAll outDir) (\<lambda>l. dk_remove_all E l outDir)) (\<lambda>_.
     or_exit (DownloadArtifacts E) (ret (Some ()))))"

definition mgr_signed :: "(goerr + bool) option dk \<Rightarrow> (goerr + bool) option dk" where
  "mgr_signed m = unless_failed m (\<lambda>ok. ret (Some (Inr True)))"

definition BuildBinaries :: "dk_env \<Rightarrow> unit option dk" where
  "BuildBinaries E =
     unless_exited (mgr_signed (BuildSignIpxe E)) (\<lambda>r. case r of Inl pxeErr \<Rightarrow> exited | Inr ok \<Rightarrow>
     unless_exited (mgr_signed (SignMicroOS E)) (\<lambda>r. case r of Inl signerr \<Rightarrow> exited | Inr ok \<Rightarrow>
       ret (Some ())))"

section \<open>The watcher of the certificates\<close>

definition addFileToWatcher :: "dk_env \<Rightarrow> string \<Rightarrow> unit option dk" where
  "addFileToWatcher E filename = bnd (call (DkStat filename) (\<lambda>l. dk_stat E l filename)) (\<lambda>st.
     if st = StatNotExist then exited
     else bnd (call (DkWatch filename) (\<lambda>l. dk_watch E l filename)) (\<lambda>_. ret (Some ())))"

definition SetWatcher :: "dk_env \<Rightarrow> unit option dk" where
  "SetWatcher E = or_exit (call DkNewWatcher (dk_new_watcher E))
     (unless_exited (addFileToWatcher E OrchCACertificateFile) (\<lambda>_.
      addFileToWatcher E BootsCaCertificateFile))"

datatype fs_op = OpCreate | OpWrite | OpRemove | OpRename | OpChmod

datatype fs_event = FsEvent "fs_op list" | FsError goerr | FsClosed

text \<open>Whether the watcher's goroutine ends the process, on the events it gets.\<close>

fun watch_exits :: "fs_event list \<Rightarrow> bool" where
  "watch_exits [] = False"
| "watch_exits (FsEvent ops # evs) = (if OpWrite \<in> set ops then True else watch_exits evs)"
| "watch_exits (FsError e # evs) = True"
| "watch_exits (FsClosed # evs) = False"

section \<open>Goroutines\<close>

definition wg_count :: "dk_call list \<Rightarrow> int" where
  "wg_count l = int (length (filter (\<lambda>c. c = DkWgAdd) l)) - int (length (filter (\<lambda>c. c = DkWgDone) l))"

text \<open>\<open>wg.Done\<close> panics when the counter gets negative.\<close>

definition wg_Done :: "unit dk" where
  "wg_Done = bnd (call DkWgDone wg_count) (\<lambda>n. if n \<le> 0 then panic else ret ())"

text \<open>The panic of a goroutine ends the process, and nothing that another one has deferred runs.\<close>

definition goroutine :: "'a option dk \<Rightarrow> 'a option dk" where
  "goroutine m = IO (\<lambda>l. case run_io m l of (Panic, l') \<Rightarrow> (Ret None, l' @ [DkCrash]) | (Ret x, l') \<Rightarrow> (Ret x, l'))"

definition build_goroutine :: "dk_env \<Rightarrow> unit option dk" where
  "build_goroutine E = goroutine (defer_unless_exited (BuildBinaries E) wg_Done)"

section \<open>The process\<close>

record dk_flags =
  fl_enableTracing :: bool
  fl_traceURL :: string
  fl_enableMetrics :: bool
  fl_metricsAddress :: string
  fl_oamServerAddress :: string

definition setupTracing :: "dk_env \<Rightarrow> string \<Rightarrow> bool dk" where
  "setupTracing E traceURL =
     bnd (call (DkTraceExporter traceURL) (\<lambda>l. dk_trace_exporter E l traceURL)) (\<lambda>(has_cleanup, exportErr). ret has_cleanup)"

text \<open>The clean-up is deferred, and runs when this function returns.\<close>

definition setupTracingIfEnabled :: "dk_env \<Rightarrow> dk_flags \<Rightarrow> unit dk" where
  "setupTracingIfEnabled E fl = (if fl_enableTracing fl then
       bnd (setupTracing E (fl_traceURL fl)) (\<lambda>has_cleanup. if has_cleanup then dk_done DkTraceCleanup else ret ())
     else ret ())"

definition startMetricsServer :: "dk_flags \<Rightarrow> unit dk" where
  "startMetricsServer fl = dk_done (DkMetrics (fl_metricsAddress fl))"

definition setup_telemetry :: "dk_env \<Rightarrow> dk_flags \<Rightarrow> unit dk" where
  "setup_telemetry E fl = bnd (setupTracingIfEnabled E fl) (\<lambda>_.
     if fl_enableMetrics fl then startMetricsServer fl else ret ())"

definition setupOamServerAndSetReady :: "dk_flags \<Rightarrow> unit dk" where
  "setupOamServerAndSetReady fl = (if fl_oamServerAddress fl \<noteq> '''' then
       bnd (dk_done DkWgAdd) (\<lambda>_. bnd (dk_done (DkOamServer (fl_oamServerAddress fl))) (\<lambda>_. dk_done DkReady))
     else ret ())"

text \<open>Waiting for the signal and closing the channel that ends the servers.\<close>

definition wait_for_signal :: "unit option dk" where
  "wait_for_signal = bnd (dk_done DkTerminate) (\<lambda>_. ret (Some ()))"

definition build_and_serve :: "dk_env \<Rightarrow> dk_flags \<Rightarrow> bool \<Rightarrow> unit option dk" where
  "build_and_serve E fl early =
     (if early then bnd (setupOamServerAndSetReady fl) (\<lambda>_. unless_exited (build_goroutine E) (\<lambda>_. wait_for_signal))
      else unless_exited (build_goroutine E) (\<lambda>_. bnd (setupOamServerAndSetReady fl) (\<lambda>_. wait_for_signal)))"

definition dkam_body :: "dk_env \<Rightarrow> dk_flags \<Rightarrow> bool \<Rightarrow> unit option dk" where
  "dkam_body E fl early =
     or_exit (config_Read E)
     (bnd (setup_telemetry E fl) (\<lambda>_.
      bnd (GetInfraConfig E) (\<lambda>c.
      if cfg_SkipOSProvisioning c then
        or_exit (CurateVProInstaller E) (bnd (setupOamServerAndSetReady fl) (\<lambda>_. wait_for_signal))
      else unless_exited (GetArtifacts E) (\<lambda>_. build_and_serve E fl early))))"

definition dkam_main :: "dk_env \<Rightarrow> dk_flags \<Rightarrow> bool \<Rightarrow> unit option dk" where
  "dkam_main E fl early = unless_exited (SetWatcher E) (\<lambda>_.
     defer_unless_exited (dkam_body E fl early) (dk_done DkCloseWatcher))"

section \<open>Runs\<close>

lemma goroutine_run [simp]:
  "run_io (goroutine m) l = (case run_io m l of (Panic, l') \<Rightarrow> (Ret None, l' @ [DkCrash]) | (Ret x, l') \<Rightarrow> (Ret x, l'))"
  by (simp add: goroutine_def)

lemma emits_goroutine [emits_intro]:
  assumes "emits P m" and "P DkCrash"
  shows "emits P (goroutine m)"
  unfolding emits_def
proof
  fix l
  obtain r l' where run: "run_io m l = (r, l')" by fastforce
  from emitsD [OF assms(1) run] obtain cs where "l' = l @ cs" "list_all P cs" by blast
  with run assms(2) show "\<exists>cs. snd (run_io (goroutine m) l) = l @ cs \<and> list_all P cs"
    by (cases r) (auto intro: exI [of _ "cs @ [DkCrash]"])
qed

lemma emits_wg_Done [emits_intro]: "P DkWgDone \<Longrightarrow> emits P wg_Done"
  unfolding wg_Done_def by (intro emits_intro)

end
