(* ===== verification/DkTemplate.thy ===== *)
theory DkTemplate
  imports DkSigning
begin

text \<open>
  The configuration of the micro OS as a template: \<open>replaceConfigPlaceholders\<close>, thirteen
  replacements one after the other, against filling in all slots at once. A template is a list
  of pieces; what it may look like so that no replacement finds a slot where there is none is
  the predicate \<open>ok_pieces\<close>.
\<close>

datatype piece = Text string | Slot string

definition slot :: "string \<Rightarrow> string" where
  "slot k = ''__'' @ k @ ''__''"

fun source :: "piece list \<Rightarrow> string" where
  "source [] = []"
| "source (Text t # ps) = t @ source ps"
| "source (Slot k # ps) = slot k @ source ps"

fun fill :: "(string \<Rightarrow> string option) \<Rightarrow> piece list \<Rightarrow> string" where
  "fill f [] = []"
| "fill f (Text t # ps) = t @ fill f ps"
| "fill f (Slot k # ps) = (case f k of Some v \<Rightarrow> v | None \<Rightarrow> slot k) @ fill f ps"

text \<open>Names of slots are words of small letters, joined by single underscores; texts and values
  have no two underscores in a row and do not end with one; a text after a slot starts with a
  character that is in no name (in the file, a quotation mark).\<close>

fun no_uu :: "string \<Rightarrow> bool" where
  "no_uu (a # b # s) \<longleftrightarrow> \<not> (a = CHR ''_'' \<and> b = CHR ''_'') \<and> no_uu (b # s)"
| "no_uu s \<longleftrightarrow> True"

definition key_char :: "char \<Rightarrow> bool" where
  "key_char c \<longleftrightarrow> c = CHR ''_'' \<or> (97 \<le> (of_char c :: nat) \<and> (of_char c :: nat) \<le> 122)"

definition plain_text :: "string \<Rightarrow> bool" where
  "plain_text t \<longleftrightarrow> no_uu t \<and> (t = [] \<or> last t \<noteq> CHR ''_'')"

definition is_key :: "string \<Rightarrow> bool" where
  "is_key k \<longleftrightarrow> plain_text k \<and> k \<noteq> [] \<and> hd k \<noteq> CHR ''_'' \<and> list_all key_char k"

definition slot_ends :: "piece list \<Rightarrow> bool" where
  "slot_ends ps = (case ps of [] \<Rightarrow> True | Text (c # _) # _ \<Rightarrow> \<not> key_char c | _ \<Rightarrow> False)"

fun ok_pieces :: "piece list \<Rightarrow> bool" where
  "ok_pieces [] \<longleftrightarrow> True"
| "ok_pieces (Text t # ps) \<longleftrightarrow> plain_text t \<and> ok_pieces ps"
| "ok_pieces (Slot k # ps) \<longleftrightarrow> is_key k \<and> slot_ends ps \<and> ok_pieces ps"

fun put :: "string \<Rightarrow> string \<Rightarrow> piece list \<Rightarrow> piece list" where
  "put k v [] = []"
| "put k v (Text t # ps) = Text t # put k v ps"
| "put k v (Slot k' # ps) = (if k' = k then Text v else Slot k') # put k v ps"

section \<open>One replacement\<close>

lemma has_prefix_simps [simp]:
  "has_prefix s []" "\<not> has_prefix [] (c # p)" "has_prefix (d # s) (c # p) \<longleftrightarrow> d = c \<and> has_prefix s p"
  by (auto simp: has_prefix_def)

lemma slot_cons: "slot k = CHR ''_'' # CHR ''_'' # k @ ''__''"
  by (simp add: slot_def)

lemma slot_not_nil [simp]: "slot k \<noteq> []"
  by (simp add: slot_cons)

lemma replace_text: "plain_text t \<Longrightarrow> replace_all (slot k) v (t @ r) = t @ replace_all (slot k) v r"
proof (induction t)
  case (Cons c t)
  from Cons.prems have "plain_text t" by (cases t) (auto simp: plain_text_def)
  moreover have "\<not> has_prefix (c # t @ r) (slot k)"
    using Cons.prems by (cases t) (auto simp: plain_text_def slot_cons)
  ultimately show ?case using Cons.IH by simp
qed simp

lemma replace_slot: "replace_all (slot k) v (slot k @ r) = v @ replace_all (slot k) v r"
proof -
  have "has_prefix (slot k @ r) (slot k)" by simp
  moreover have "drop (length (slot k)) (slot k @ r) = r" by simp
  ultimately show ?thesis by (simp add: slot_cons)
qed

lemma key_in_key:
  assumes "plain_text k" and "plain_text k'" and "k \<noteq> k'"
  shows "\<not> has_prefix (k' @ CHR ''_'' # CHR ''_'' # r) (k @ ''__'')"
  using assms
proof (induction k arbitrary: k')
  case Nil
  then show ?case by (cases k'; cases "tl k'") (auto simp: plain_text_def)
next
  case (Cons c k)
  have tl: "plain_text xs" if "plain_text (x # xs)" for x xs
    using that by (cases xs) (auto simp: plain_text_def)
  show ?case
  proof (cases k')
    case Nil
    with Cons.prems show ?thesis by (cases k) (auto simp: plain_text_def)
  next
    case (Cons c' k1)
    with Cons.prems Cons.IH [of k1] tl [of c k] tl [of c' k1] show ?thesis by auto
  qed
qed

lemma replace_other_slot:
  assumes k: "is_key k" and k': "is_key k'" and "k \<noteq> k'" and r: "r = [] \<or> \<not> key_char (hd r)"
  shows "replace_all (slot k) v (slot k' @ r) = slot k' @ replace_all (slot k) v r"
proof -
  let ?u = "CHR ''_''"
  have under: "key_char ?u" by (simp add: key_char_def)
  have key: "key_char (hd k)" "k \<noteq> []" "hd k' \<noteq> ?u" "k' \<noteq> []"
    using k k' by (cases k; auto simp: is_key_def)+
  have at0: "\<not> has_prefix (slot k' @ r) (slot k)"
    using key_in_key [of k k' r] assms by (simp add: slot_cons is_key_def)
  have at1: "\<not> has_prefix (?u # k' @ ''__'' @ r) (slot k)"
    using key by (cases k') (auto simp: slot_cons)
  have at2: "\<not> has_prefix (?u # ?u # r) (slot k)"
    using key r by (cases k; cases r) (auto simp: slot_cons)
  have at3: "\<not> has_prefix (?u # r) (slot k)"
    using r under by (cases r) (auto simp: slot_cons)
  have "replace_all (slot k) v (slot k' @ r) = ?u # ?u # replace_all (slot k) v (k' @ ''__'' @ r)"
    using at0 at1 by (simp add: slot_cons)
  also have "\<dots> = ?u # ?u # k' @ replace_all (slot k) v (''__'' @ r)"
    using replace_text [of k' k v "''__'' @ r"] k' by (simp add: is_key_def)
  also have "replace_all (slot k) v (''__'' @ r) = ?u # ?u # replace_all (slot k) v r"
    using at2 at3 by (simp add: slot_cons)
  finally show ?thesis by (simp add: slot_cons)
qed

lemma source_after_slot: "slot_ends ps \<Longrightarrow> source ps = [] \<or> \<not> key_char (hd (source ps))"
  by (cases ps rule: source.cases) (auto simp: slot_ends_def split: list.splits)

lemma replace_source:
  "ok_pieces ps \<Longrightarrow> is_key k \<Longrightarrow> replace_all (slot k) v (source ps) = source (put k v ps)"
proof (induction ps rule: ok_pieces.induct)
  case (3 k' ps)
  then show ?case
    using replace_slot [of k v] replace_other_slot [of k k' "source ps" v] source_after_slot [of ps] by auto
qed (auto simp: replace_text)

lemma ok_put: "ok_pieces ps \<Longrightarrow> plain_text v \<Longrightarrow> ok_pieces (put k v ps)"
proof (induction ps rule: ok_pieces.induct)
  case (3 k' ps)
  moreover have "slot_ends ps \<Longrightarrow> slot_ends (put k v ps)"
    by (cases ps rule: source.cases) (auto simp: slot_ends_def split: list.splits)
  ultimately show ?case by auto
qed auto

section \<open>All replacements\<close>

lemma fill_put: "fill f (put k v ps) = fill (\<lambda>x. if x = k then Some v else f x) ps"
  by (induction ps rule: ok_pieces.induct) auto

lemma fill_nothing: "fill (\<lambda>_. None) ps = source ps"
  by (induction ps rule: ok_pieces.induct) auto

lemma replace_all_slots:
  "ok_pieces ps \<Longrightarrow> \<forall>(k, v) \<in> set kvs. is_key k \<and> plain_text v \<Longrightarrow>
   foldl (\<lambda>s (k, v). replace_all (slot k) v s) (source ps) kvs = fill (map_of kvs) ps"
proof (induction kvs arbitrary: ps)
  case (Cons kv kvs)
  obtain k v where kv: "kv = (k, v)" by fastforce
  with Cons.prems have "is_key k" "plain_text v" by auto
  then have "foldl (\<lambda>s (k, v). replace_all (slot k) v s) (source ps) (kv # kvs) = fill (map_of kvs) (put k v ps)"
    using Cons kv by (simp add: replace_source ok_put)
  also have "(\<lambda>x. if x = k then Some v else map_of kvs x) = map_of (kv # kvs)" by (auto simp: kv)
  then have "fill (map_of kvs) (put k v ps) = fill (map_of (kv # kvs)) ps" by (simp only: fill_put)
  finally show ?case .
qed (simp add: fill_nothing)

definition config_values :: "infra_config \<Rightarrow> (string \<times> string) list" where
  "config_values c = [
     (''http_proxy'', cfg_ENProxyHTTP c), (''https_proxy'', cfg_ENProxyHTTPS c),
     (''ftp_proxy'', cfg_ENProxyFTP c), (''socks_proxy'', cfg_ENProxySocks c),
     (''no_proxy'', cfg_ENProxyNoProxy c), (''release_svc'', cfg_CDN c),
     (''tink_stack_svc'', cfg_ProvisioningService c), (''tink_server_svc'', cfg_TinkServerURL c),
     (''keycloak_url'', cfg_KeycloakURL c),
     (''oci_release_svc'', first_of CHR '':'' (cfg_RegistryURL c)),
     (''logging_svc'', first_of CHR '':'' (cfg_LogsObservabilityURL c)),
     (''onboarding_manager_svc'', cfg_OnboardingURL c),
     (''onboarding_stream_svc'', cfg_OnboardingStreamURL c)]"

lemma config_slots_values: "config_slots c = map (\<lambda>(k, v). (slot k, v)) (config_values c)"
  by (simp add: config_slots_def config_values_def slot_def)

lemma config_keys: "(k, v) \<in> set (config_values c) \<Longrightarrow> is_key k"
proof -
  have "list_all is_key [''http_proxy'', ''https_proxy'', ''ftp_proxy'', ''socks_proxy'', ''no_proxy'', ''release_svc'',
    ''tink_stack_svc'', ''tink_server_svc'', ''keycloak_url'', ''oci_release_svc'', ''logging_svc'',
    ''onboarding_manager_svc'', ''onboarding_stream_svc'']" by code_simp
  then show "(k, v) \<in> set (config_values c) \<Longrightarrow> is_key k" by (auto simp: config_values_def)
qed

lemma replaceConfigPlaceholders_fills:
  assumes "ok_pieces ps" and "\<forall>v \<in> set (map snd (config_values c)). plain_text v"
  shows "replaceConfigPlaceholders c (source ps) = fill (map_of (config_values c)) ps"
proof -
  have "foldl (\<lambda>s (slot, v). replace_all slot v s) s (map (\<lambda>(k, v). (slot k, v)) kvs) =
      foldl (\<lambda>s (k, v). replace_all (slot k) v s) s kvs" for s kvs
    by (induction kvs arbitrary: s) auto
  with assms show ?thesis
    unfolding replaceConfigPlaceholders_def config_slots_values
    by (auto intro!: replace_all_slots dest: config_keys)
qed

end
