(* ===== verification/DkThms.thy ===== *)
theory DkThms
  imports DkMain DkTemplate
begin

text \<open>
  Properties of the DKAM process: the configuration in force, the copy of the build scripts,
  what the scripts that sign find, and how the process ends.
\<close>

section \<open>The configuration in force\<close>

text \<open>
  C35. Once the configuration has been read, every configuration in force is complete: it names a
  manifest repository and tag, and holds the agents of the manifest that was downloaded for
  them, whatever the process does next and however often the watcher reloads the file.
\<close>

theorem config_in_force_is_complete:
  assumes "run_io (config_Read E) l = (Ret None, l')"
    and "\<And>k c. dk_reloaded E k = Some c \<Longrightarrow> sets_config E c"
    and "list_all (\<lambda>x. \<forall>c. x \<noteq> DkSetConfig c) cs"
  shows "complete_config E (current_config E (l' @ cs))"
proof (cases "dk_reloaded E (l' @ cs)")
  case (Some c)
  then show ?thesis using assms(2) sets_config_complete by (simp add: current_config_def)
next
  case None
  let ?l = "l @ [DkReadConfigFile (dk_configFile E)]"
  from assms(1) show ?thesis
  proof (cases rule: updateConfig_cases [of E ?l])
    case (failed e ds)
    with assms(1) show ?thesis by (auto simp: config_Read_def split: option.splits)
  next
    case (was_set c repo tag)
    with assms(1) have "l' = ?l @ [DkArtifacts repo tag, DkSetConfig c, DkWatchConfig]"
      by (auto simp: config_Read_def split: option.splits)
    then have "l' @ cs = ((?l @ [DkArtifacts repo tag]) @ [DkSetConfig c]) @ (DkWatchConfig # cs)" by simp
    then have "last_set (l' @ cs) = last_set ((?l @ [DkArtifacts repo tag]) @ [DkSetConfig c])"
      using last_set_append [of "DkWatchConfig # cs" "(?l @ [DkArtifacts repo tag]) @ [DkSetConfig c]"] assms(3) by simp
    then have "last_set (l' @ cs) = c" by (simp only: last_set_snoc)
    then show ?thesis using None was_set(2) by (simp add: current_config_def)
  qed
qed

section \<open>Copying a directory\<close>

fun plain_tree :: "fs_tree \<Rightarrow> bool" and plain_entries :: "fs_entry list \<Rightarrow> bool" where
  "plain_tree FsFile \<longleftrightarrow> True"
| "plain_tree (FsDir e es) \<longleftrightarrow> plain_entries es"
| "plain_entries [] \<longleftrightarrow> True"
| "plain_entries (FsBad n e # es) \<longleftrightarrow> plain_elem n \<and> plain_entries es"
| "plain_entries (FsGood n t # es) \<longleftrightarrow> plain_elem n \<and> plain_tree t \<and> plain_entries es"

text \<open>The calls that make a copy of a tree; paths are lists of elements here.\<close>

definition file_calls :: "string \<Rightarrow> string \<Rightarrow> dk_call list" where
  "file_calls src dst = [DkOpen src, DkCreate dst, DkCopy src dst, DkClose dst, DkClose src]"

fun tree_calls :: "string list \<Rightarrow> string list \<Rightarrow> fs_tree \<Rightarrow> dk_call list"
  and entry_calls :: "string list \<Rightarrow> string list \<Rightarrow> fs_entry list \<Rightarrow> dk_call list" where
  "tree_calls ss ds FsFile = file_calls (abs_path ss) (abs_path ds)"
| "tree_calls ss ds (FsDir e es) = DkMkdirAll (abs_path ds) # entry_calls ss ds es"
| "entry_calls ss ds [] = []"
| "entry_calls ss ds (FsBad n e # es) = entry_calls ss ds es"
| "entry_calls ss ds (FsGood n t # es) = tree_calls (ss @ [n]) (ds @ [n]) t @ entry_calls ss ds es"

lemma copyFile_ok: "run_io (copyFile E src dst) l = (Ret None, l') \<Longrightarrow> l' = l @ file_calls src dst"
  by (auto simp: copyFile_def dk_io_defs file_calls_def split: option.splits)

lemma join_name: "list_all plain_elem ps \<Longrightarrow> plain_elem n \<Longrightarrow> path_Join [abs_path ps, n] = abs_path (ps @ [n])"
  using path_Join_abs [of "abs_path ps" n] dotdot_abs_path [of ps] elements_abs_path [of ps]
  by (auto simp: abs_path_def plain_elem_def elements_def split_char_no_sep)

lemma join_rel:
  assumes "list_all plain_elem ss" "list_all plain_elem ds" "list_all plain_elem ps"
  shows "path_Join [abs_path ds, path_Rel (abs_path ss) (abs_path (ss @ ps))] = abs_path (ds @ ps)"
proof -
  let ?rel = "if ps = [] then ''.'' else join_with ''/'' ps"
  have "''..'' \<notin> set (split_char CHR ''/'' ?rel)"
  proof (cases ps)
    case (Cons p qs)
    with dotdot_abs_path [OF assms(3)] show ?thesis by (simp add: abs_path_def)
  qed simp
  then have "path_Join [abs_path ds, ?rel] = abs_path (elements (abs_path ds) @ elements ?rel)"
    using dotdot_abs_path [OF assms(2)] by (intro path_Join_abs) (simp_all add: abs_path_def)
  then show ?thesis
    using assms by (simp add: path_Rel_below elements_abs_path elements_join)
qed

lemma walk_copies:
  "run_io (walk (copy_entry E (abs_path ss) (abs_path ds)) (abs_path (ss @ ps)) t) l = (Ret None, l') \<Longrightarrow>
   plain_tree t \<Longrightarrow> list_all plain_elem ss \<Longrightarrow> list_all plain_elem ds \<Longrightarrow> list_all plain_elem ps \<Longrightarrow>
   l' = l @ tree_calls (ss @ ps) (ds @ ps) t"
  "run_io (walk_entries (copy_entry E (abs_path ss) (abs_path ds)) (abs_path (ss @ ps)) es) l = (Ret None, l') \<Longrightarrow>
   plain_entries es \<Longrightarrow> list_all plain_elem ss \<Longrightarrow> list_all plain_elem ds \<Longrightarrow> list_all plain_elem ps \<Longrightarrow>
   l' = l @ entry_calls (ss @ ps) (ds @ ps) es"
proof (induction "ss @ ps" "ds @ ps" t and "ss @ ps" "ds @ ps" es arbitrary: ps l l' and ps l l'
    rule: tree_calls_entry_calls.induct)
  case (2 e es ps)
  from 2(2-) obtain l1 where "run_io (walk_entries (copy_entry E (abs_path ss) (abs_path ds)) (abs_path (ss @ ps)) es) l1 = (Ret None, l')"
    and "l1 = l @ [DkMkdirAll (abs_path (ds @ ps))]"
    by (auto simp: copy_entry_def join_rel dk_io_defs Let_def split: option.splits if_splits)
  with 2(1) [of l1 l'] 2(3-) show ?case by simp
next
  case (5 n t es ps)
  from 5(3) join_name [of "ss @ ps" n] 5(4-) obtain l1 where
    l1: "run_io (walk (copy_entry E (abs_path ss) (abs_path ds)) (abs_path (ss @ ps @ [n])) t) l = (Ret None, l1)"
    and l2: "run_io (walk_entries (copy_entry E (abs_path ss) (abs_path ds)) (abs_path (ss @ ps)) es) l1 = (Ret None, l')"
    by (auto split: prod.splits outcome.splits option.splits)
  from 5(1) [of "ps @ [n]"] l1 5(4-) have "l1 = l @ tree_calls (ss @ ps @ [n]) (ds @ ps @ [n]) t" by simp
  with 5(2) [OF l2] 5(4-) show ?case by simp
qed (auto simp: copy_entry_def join_rel copyFile_ok dk_io_defs Let_def split: option.splits if_splits)


lemma abs_path_walk:
  "run_io (walk (copy_entry E (abs_path ss) (abs_path ds)) (abs_path ss) t) l = (Ret None, l') \<Longrightarrow>
   plain_tree t \<Longrightarrow> list_all plain_elem ss \<Longrightarrow> list_all plain_elem ds \<Longrightarrow> l' = l @ tree_calls ss ds t"
  using walk_copies(1) [of E ss ds "[]"] by simp

text \<open>
  A copy of a directory that ends without an error is complete: every directory found is made
  below the destination and every file is opened, copied and closed, at the same relative path
  and in the order in which they are found, a directory before what is in it.
\<close>

theorem copyDir_mirrors_tree:
  assumes "run_io (copyDir E (abs_path ss) (abs_path ds)) l = (Ret None, l')"
    and "list_all plain_elem ss" and "list_all plain_elem ds"
    and "\<And>k t. dk_tree E k (abs_path ss) = Inr t \<Longrightarrow> plain_tree t"
  shows "\<exists>t. dk_tree E (l @ [DkMkdirAll (abs_path ds)]) (abs_path ss) = Inr t \<and>
    l' = l @ [DkMkdirAll (abs_path ds), DkWalk (abs_path ss)] @ tree_calls ss ds t"
proof -
  let ?l = "l @ [DkMkdirAll (abs_path ds)]"
  from assms(1) have walk: "run_io (Walk E (abs_path ss) (copy_entry E (abs_path ss) (abs_path ds))) ?l = (Ret None, l')"
    by (auto simp: copyDir_def dk_io_defs split: option.splits)
  then obtain t where t: "dk_tree E ?l (abs_path ss) = Inr t"
    by (cases "dk_tree E ?l (abs_path ss)") (auto simp: Walk_def copy_entry_def)
  with walk have "run_io (walk (copy_entry E (abs_path ss) (abs_path ds)) (abs_path ss) t) (?l @ [DkWalk (abs_path ss)]) = (Ret None, l')"
    by (simp add: Walk_def)
  from abs_path_walk [OF this assms(4) [OF t] assms(2,3)] t show ?thesis by simp
qed

section \<open>What the scripts find\<close>

definition is_script :: "dk_call \<Rightarrow> bool" where
  "is_script x \<longleftrightarrow> (\<exists>args. x = DkCombined args \<and> hd args = ''bash'')"

definition quiet :: "dk_call \<Rightarrow> bool" where
  "quiet x \<longleftrightarrow> (case x of DkCombined _ \<Rightarrow> False | DkWriteFile _ _ \<Rightarrow> False | _ \<Rightarrow> True)"

lemma emits_walk [emits_intro]:
  "(\<And>p d e. emits P (visit p d e)) \<Longrightarrow> emits P (walk visit p t)"
  "(\<And>p d e. emits P (visit p d e)) \<Longrightarrow> emits P (walk_entries visit p es)"
  by (induction visit p t and visit p es rule: walk_walk_entries.induct) (auto intro!: emits_intro)

lemma quiet_copyFile [emits_intro]: "emits quiet (copyFile E src dst)"
  unfolding copyFile_def dk_io_defs by (intro emits_intro) (simp_all add: quiet_def)








section \<open>The boot script\<close>

lemma replaced_prefix:
  "has_prefix (replace_all old (c # new) s) p \<Longrightarrow> c \<notin> set p \<Longrightarrow> old \<noteq> [] \<Longrightarrow> has_prefix s p"
proof (induction old "c # new" s arbitrary: p rule: replace_all.induct)
  case (2 old c' s)
  then show ?case by (cases p) (auto split: if_splits)
qed (auto split: if_splits)

lemma contains_append: "\<forall>x \<in> set t. x \<noteq> hd p \<Longrightarrow> p \<noteq> [] \<Longrightarrow> contains_str (t @ s) p \<longleftrightarrow> contains_str s p"
  by (induction t) (auto simp: has_prefix_def neq_Nil_conv)

text \<open>A replacement leaves no slot, when what is put in starts with a character that is not in the
  slot and does not hold the one that the slot starts with.\<close>

lemma replace_all_removes:
  assumes "old \<noteq> []" and "c \<notin> set old" and "hd old \<notin> set new" 
  shows "\<not> contains_str (replace_all old (c # new) s) old"
  using assms
proof (induction old "c # new" s rule: replace_all.induct)
  case (1 old)
  then show ?case by (cases old) auto
next
  case (2 old c' s)
  show ?case
  proof (cases "has_prefix (c' # s) old")
    case True
    have "\<forall>x \<in> set (c # new). x \<noteq> hd old" using "2.prems" by (cases old) auto
    note eq = contains_append [OF this "2.prems"(1), of "replace_all old (c # new) (drop (length old) (c' # s))"]
    from 2 True eq show ?thesis by simp
  next
    case False
    have "\<not> has_prefix (c' # replace_all old (c # new) s) old"
    proof
      assume "has_prefix (c' # replace_all old (c # new) s) old"
      then obtain old' where "old = c' # old'" "has_prefix (replace_all old (c # new) s) old'"
        using "2.prems"(1) by (cases old) auto
      with replaced_prefix [of old c new s old'] "2.prems" False show False by auto
    qed
    with 2 False show ?thesis by simp
  qed
qed

definition ipxe_script :: dk_call where
  "ipxe_script = DkCombined [''bash'', ''./build_sign_ipxe.sh'', DownloadPath]"

text \<open>The run of \<open>BuildSignIpxe\<close>, up to the script.\<close>

lemma BuildSignIpxe_script:
  assumes "run_io (BuildSignIpxe E) l = (r, l @ cs)" and "ipxe_script \<in> set cs"
    and "final = (\<lambda>content. replace_all tink_url_slot (cfg_ProvisioningServerURL (current_config E l)) content)"
  obtains xs content zs where "cs = xs @ DkReadFile ''/tmp/chain.ipxe'' #
      (if contains_str content tink_url_slot then DkWriteFile ''/tmp/chain.ipxe'' (final content) # zs else zs)"
    "dk_read_file E (l @ xs) ''/tmp/chain.ipxe'' = Inr content" "\<forall>p s. DkWriteFile p s \<notin> set zs"
proof -
  let ?t = "''/tmp/chain.ipxe''"
  let ?copy = "copyFile E (ScriptPath @ ''/ipxe'' @ ''/'' @ ''chain.ipxe'') ?t"
  obtain r0 l0 where run: "run_io ?copy l = (r0, l0)" by fastforce
  from emitsD [OF quiet_copyFile run] obtain xs where xs: "l0 = l @ xs" "list_all quiet xs" by blast
  then have none: "ipxe_script \<notin> set xs" by (auto simp: list_all_iff quiet_def ipxe_script_def)
  show thesis
  proof (cases "r0 = Ret None \<and> (\<exists>content. dk_read_file E (l @ xs) ?t = Inr content)")
    case False
    with assms(1,2) run xs none show thesis
      by (auto simp: BuildSignIpxe_def GetInfraConfig_def Let_def dk_io_defs ipxe_script_def DownloadPath_def
          split: outcome.splits option.splits sum.splits)
  next
    case True
    then obtain content where content: "r0 = Ret None" "dk_read_file E (l @ xs) ?t = Inr content" by blast
    let ?rest = "or_exit (dk_Chdir E (ScriptPath @ ''/ipxe''))
      (or_exit (dk_run E [''bash'', ''./build_sign_ipxe.sh'', DownloadPath])
        (ret (Some (Inr True :: goerr + bool))))"
    have rest: "emits (\<lambda>x. \<forall>p s. x \<noteq> DkWriteFile p s) ?rest"
      unfolding dk_io_defs by (intro emits_intro) simp_all
    let ?k = "l @ xs @ [DkReadFile ?t]"
    let ?k' = "if contains_str content tink_url_slot then ?k @ [DkWriteFile ?t (final content)] else ?k"
    let ?stop = "contains_str content tink_url_slot \<and> dk_write_file E ?k ?t (final content) \<noteq> None"
    obtain r1 l1 where run1: "run_io ?rest ?k' = (r1, l1)" by fastforce
    from emitsD [OF rest run1] obtain ys where ys: "l1 = ?k' @ ys" "list_all (\<lambda>x. \<forall>p s. x \<noteq> DkWriteFile p s) ys"
      by blast
    have "l @ cs = (if ?stop then ?k' else l1)"
      using assms(1,3) run run1 content xs
      by (simp add: BuildSignIpxe_def GetInfraConfig_def Let_def dk_ReadFile_def dk_WriteFile_def DownloadPath_def
          split: option.splits if_splits)
    then have "cs = xs @ DkReadFile ?t # (if contains_str content tink_url_slot then [DkWriteFile ?t (final content)] else []) @
        (if ?stop then [] else ys)"
      using ys(1) by (auto split: if_splits)
    with content(2) ys(2) show thesis
      by (intro that [of xs content "if ?stop then [] else ys"]) (auto simp: list_all_iff)
  qed
qed

text \<open>
  The script that builds the boot loader never finds the placeholder of the server's address
  in \<open>chain.ipxe\<close>: the file it finds is the copied one, or, if that has the placeholder, the one
  written over it with every placeholder replaced by the address in the configuration.
\<close>

theorem boot_script_names_the_server:
  assumes "run_io (BuildSignIpxe E) l = (r, l @ cs)"
    and "DkCombined [''bash'', ''./build_sign_ipxe.sh'', DownloadPath] \<in> set cs"
    and "cfg_ProvisioningServerURL (current_config E l) = CHR ''h'' # url" and "CHR ''<'' \<notin> set url"
  shows "\<exists>xs content ys. cs = xs @ DkReadFile ''/tmp/chain.ipxe'' # ys \<and>
    dk_read_file E (l @ xs) ''/tmp/chain.ipxe'' = Inr content \<and>
    (let final = replace_all tink_url_slot (cfg_ProvisioningServerURL (current_config E l)) content in
       (\<not> contains_str content tink_url_slot \<and> (\<forall>p s. DkWriteFile p s \<notin> set ys) \<or>
        \<not> contains_str final tink_url_slot \<and> (\<exists>zs. ys = DkWriteFile ''/tmp/chain.ipxe'' final # zs \<and>
          (\<forall>p s. DkWriteFile p s \<notin> set zs))))"
proof -
  let ?final = "\<lambda>content. replace_all tink_url_slot (cfg_ProvisioningServerURL (current_config E l)) content"
  from assms(2) have "ipxe_script \<in> set cs" by (simp add: ipxe_script_def)
  from BuildSignIpxe_script [OF assms(1) this refl] obtain xs content zs where
    cs: "cs = xs @ DkReadFile ''/tmp/chain.ipxe'' #
      (if contains_str content tink_url_slot then DkWriteFile ''/tmp/chain.ipxe'' (?final content) # zs else zs)"
    and content: "dk_read_file E (l @ xs) ''/tmp/chain.ipxe'' = Inr content" "\<forall>p s. DkWriteFile p s \<notin> set zs" .
  have final: "\<not> contains_str (?final content) tink_url_slot"
    using replace_all_removes [of tink_url_slot "CHR ''h''" url content] assms(3,4) by (simp add: tink_url_slot_def)
  show ?thesis
  proof (cases "contains_str content tink_url_slot")
    case True
    with cs content final show ?thesis
      unfolding Let_def
      by (intro exI [of _ xs] exI [of _ content] exI [of _ "DkWriteFile ''/tmp/chain.ipxe'' (?final content) # zs"]) simp
  next
    case False
    with cs content show ?thesis
      unfolding Let_def by (intro exI [of _ xs] exI [of _ content] exI [of _ zs]) simp
  qed
qed

end
