(* ===== verification/DkRuns.thy ===== *)
theory DkRuns
  imports DkThms SampleEnv
begin

text \<open>
  Runs of the whole DKAM process: with and without provisioning of operating systems. The second
  half runs it on concrete parameters.
\<close>

section \<open>The wait group\<close>

text \<open>\<open>never P m\<close>: \<open>m\<close> does not end without exiting, on a history of calls that satisfy \<open>P\<close>.\<close>

definition never :: "('c \<Rightarrow> bool) \<Rightarrow> ('c, 'a option) io \<Rightarrow> bool" where
  "never P m \<longleftrightarrow> (\<forall>l x. list_all P l \<longrightarrow> fst (run_io m l) \<noteq> Ret (Some x))"

named_theorems never_intro

lemma never_exited [never_intro]: "never P exited"
  by (simp add: never_def)

lemma never_bnd [never_intro]:
  assumes "emits P m" and "\<And>x. never P (f x)"
  shows "never P (bnd m f)"
  unfolding never_def
proof (intro allI impI)
  fix l x assume l: "list_all P l"
  obtain r l' where run: "run_io m l = (r, l')" by fastforce
  from emitsD [OF assms(1) run] l have "list_all P l'" by auto
  with run assms(2) show "fst (run_io (bnd m f) l) \<noteq> Ret (Some x)"
    by (cases r) (auto simp: never_def)
qed

lemma never_if [never_intro]: "(b \<Longrightarrow> never P m) \<Longrightarrow> (\<not> b \<Longrightarrow> never P n) \<Longrightarrow> never P (if b then m else n)"
  by simp

lemma never_case_option [never_intro]:
  "(\<And>x. v = Some x \<Longrightarrow> never P (g x)) \<Longrightarrow> (v = None \<Longrightarrow> never P m) \<Longrightarrow>
   never P (case v of None \<Rightarrow> m | Some x \<Rightarrow> g x)"
  by (cases v) auto

lemma never_or_exit [never_intro]: "emits P m \<Longrightarrow> never P n \<Longrightarrow> never P (or_exit m n)"
  unfolding or_exit_def by (intro never_intro)

lemma never_unless_exited [never_intro]:
  "emits P m \<Longrightarrow> (\<And>x. never P (f x)) \<Longrightarrow> never P (unless_exited m f)"
  unfolding unless_exited_def by (intro never_intro)

lemma never_then: "never P m \<Longrightarrow> never P (unless_exited m f)"
  unfolding never_def
proof (intro allI impI)
  fix l x assume "\<forall>l x. list_all P l \<longrightarrow> fst (run_io m l) \<noteq> Ret (Some x)" and "list_all P l"
  then show "fst (run_io (unless_exited m f) l) \<noteq> Ret (Some x)"
    by (cases "run_io m l") (auto split: outcome.split option.split)
qed

lemma never_defer [never_intro]: "never P m \<Longrightarrow> never P (defer_unless_exited m d)"
  unfolding never_def
proof (intro allI impI)
  fix l x assume "\<forall>l x. list_all P l \<longrightarrow> fst (run_io m l) \<noteq> Ret (Some x)" and "list_all P l"
  then show "fst (run_io (defer_unless_exited m d) l) \<noteq> Ret (Some x)"
    by (cases "run_io m l") (auto split: outcome.split option.split prod.split)
qed

definition not_added :: "dk_call \<Rightarrow> bool" where
  "not_added x \<longleftrightarrow> x \<noteq> DkWgAdd"

lemma wg_count_not_added: "list_all not_added l \<Longrightarrow> wg_count l \<le> 0"
proof -
  assume "list_all not_added l"
  then have "filter (\<lambda>c. c = DkWgAdd) l = []" by (auto simp: list_all_iff not_added_def filter_empty_conv)
  then show ?thesis by (simp add: wg_count_def)
qed

lemma emits_copyFile: "emits not_added (copyFile E a b)"
  unfolding copyFile_def dk_io_defs by (intro emits_intro) (simp_all add: not_added_def)

lemma emits_BuildBinaries: "emits not_added (BuildBinaries E)"
proof -
  have ipxe: "emits not_added (BuildSignIpxe E)"
    unfolding BuildSignIpxe_def GetInfraConfig_def Let_def dk_io_defs
    by (intro emits_intro emits_copyFile) (simp_all add: not_added_def)
  have "emits not_added (setupUOSDirectories E)"
    unfolding setupUOSDirectories_def copyDir_def Walk_def copy_entry_def Let_def dk_io_defs
    by (intro emits_intro emits_copyFile) (simp_all add: not_added_def)
  then have uos: "emits not_added (SignMicroOS E)"
    unfolding SignMicroOS_def GetInfraConfig_def verifyWorkingDirectory_def Let_def dk_io_defs
    by (intro emits_intro) (simp_all add: not_added_def)
  show ?thesis
    unfolding BuildBinaries_def mgr_signed_def by (intro emits_intro ipxe uos)
qed

text \<open>Without an addition to the wait group the goroutine that builds panics at its end.\<close>

lemma build_never_ends: "never not_added (build_goroutine E)"
  unfolding never_def
proof (intro allI impI)
  fix l :: "dk_call list" and x :: unit assume l: "list_all not_added l"
  obtain r l' where run: "run_io (BuildBinaries E) l = (r, l')" by fastforce
  from emitsD [OF emits_BuildBinaries run] l have "list_all not_added l'" by auto
  then have "wg_count l' \<le> 0" by (rule wg_count_not_added)
  with run show "fst (run_io (build_goroutine E) l) \<noteq> Ret (Some x)"
    by (cases r) (auto simp: build_goroutine_def wg_Done_def split: option.split)
qed

lemma emits_config_Read: "emits not_added (config_Read E)"
  unfolding config_Read_def updateConfig_def DownloadENManifest_def SetInfraConfig_def
  by (intro emits_intro) (simp_all add: not_added_def)

lemma emits_GetArtifacts: "emits not_added (GetArtifacts E)"
  unfolding GetArtifacts_def DownloadArtifacts_def DownloadMicroOS_def store_uos_def GetInfraConfig_def Let_def dk_io_defs
  by (intro emits_intro) (simp_all add: not_added_def)

lemma emits_SetWatcher: "emits not_added (SetWatcher E)"
  unfolding SetWatcher_def addFileToWatcher_def by (intro emits_intro) (simp_all add: not_added_def)

lemma emits_tracing: "emits not_added (setup_telemetry E fl)"
  unfolding setup_telemetry_def startMetricsServer_def setupTracingIfEnabled_def setupTracing_def by (intro emits_intro) (simp_all add: not_added_def)

lemma never_GetInfraConfig:
  assumes "\<And>k. never P (f (current_config E k))"
  shows "never P (bnd (GetInfraConfig E) f)"
  using assms by (simp add: never_def GetInfraConfig_def)

text \<open>What the configuration in force says when the process comes to ask whether it is to provision
  operating systems.\<close>

definition skipping :: "dk_env \<Rightarrow> dk_flags \<Rightarrow> bool \<Rightarrow> bool" where
  "skipping E fl b \<longleftrightarrow> (\<forall>l1 l2 l3. run_io (SetWatcher E) [] = (Ret (Some ()), l1) \<longrightarrow>
     run_io (config_Read E) l1 = (Ret None, l2) \<longrightarrow> run_io (setup_telemetry E fl) l2 = (Ret (), l3) \<longrightarrow>
     cfg_SkipOSProvisioning (current_config E l3) = b)"

lemma skippingI:
  "(let l1 = snd (run_io (SetWatcher E) []); l2 = snd (run_io (config_Read E) l1);
       l3 = snd (run_io (setup_telemetry E fl) l2)
     in cfg_SkipOSProvisioning (current_config E l3)) = b \<Longrightarrow> skipping E fl b"
  by (auto simp: skipping_def Let_def)

lemma dkam_main_started:
  assumes "run_io (dkam_main E fl early) [] = (Ret (Some ()), l')"
  obtains l1 l2 l3 where "run_io (SetWatcher E) [] = (Ret (Some ()), l1)" "run_io (config_Read E) l1 = (Ret None, l2)"
    "run_io (setup_telemetry E fl) l2 = (Ret (), l3)"
proof -
  obtain r1 l1 where run1: "run_io (SetWatcher E) [] = (r1, l1)" by fastforce
  obtain r2 l2 where run2: "run_io (config_Read E) l1 = (r2, l2)" by fastforce
  obtain r3 l3 where run3: "run_io (setup_telemetry E fl) l2 = (r3, l3)" by fastforce
  note body = dkam_body_def
  from assms have r1: "r1 = Ret (Some ())" using run1 by (cases r1) (auto simp: dkam_main_def split: option.splits)
  from assms have r2: "r2 = Ret None"
    using run1 run2 r1 by (cases r2) (auto simp: dkam_main_def body split: option.splits)
  from assms have r3: "r3 = Ret ()"
    using run1 run2 run3 r1 r2 by (cases r3) (auto simp: dkam_main_def body)
  show thesis using that run1 run2 run3 r1 r2 r3 by blast
qed

text \<open>
  With provisioning of operating systems, the DKAM process does not survive its own build
  when no address of the OAM server is given, or when the build ends before that server is
  started: the goroutine that builds marks a task of the wait group as done that nobody added.
  It exits or panics, whatever the network, the scripts and the file system do.
\<close>

theorem build_needs_the_oam_server:
  assumes "skipping E fl False" and "fl_oamServerAddress fl = '''' \<or> \<not> early"
  shows "result_of (dkam_main E fl early) \<noteq> Ret (Some ())"
proof -
  have serve: "never not_added (build_and_serve E fl early)"
  proof (cases early)
    case True
    with assms(2) show ?thesis
      unfolding build_and_serve_def setupOamServerAndSetReady_def
      by (auto intro!: never_then build_never_ends)
  next
    case False
    then show ?thesis
      unfolding build_and_serve_def by (auto intro!: never_then build_never_ends)
  qed
  show ?thesis
  proof
    assume "result_of (dkam_main E fl early) = Ret (Some ())"
    then obtain l' where run: "run_io (dkam_main E fl early) [] = (Ret (Some ()), l')"
      unfolding result_of_def by (metis prod.collapse)
    then obtain l1 l2 l3 where l: "run_io (SetWatcher E) [] = (Ret (Some ()), l1)"
      "run_io (config_Read E) l1 = (Ret None, l2)" "run_io (setup_telemetry E fl) l2 = (Ret (), l3)"
      by (rule dkam_main_started)
    from emitsD [OF emits_SetWatcher l(1)] emitsD [OF emits_config_Read l(2)] emitsD [OF emits_tracing l(3)]
    have "list_all not_added l3" by auto
    moreover have "never not_added (unless_exited (GetArtifacts E) (\<lambda>_. build_and_serve E fl early))"
      by (intro never_intro emits_GetArtifacts serve)
    ultimately have "fst (run_io (unless_exited (GetArtifacts E) (\<lambda>_. build_and_serve E fl early)) l3) \<noteq> Ret (Some ())"
      by (simp only: never_def) blast
    moreover have "\<not> cfg_SkipOSProvisioning (current_config E l3)"
      using assms(1) l unfolding skipping_def by blast
    ultimately show False
      using run l by (simp add: dkam_main_def dkam_body_def GetInfraConfig_def del: exit_run(2))
        (auto split: outcome.splits option.splits prod.splits)
  qed
qed

section \<open>Without provisioning\<close>

text \<open>Nothing is fetched from the file server and no script is run.\<close>

definition only_curates :: "dk_call \<Rightarrow> bool" where
  "only_curates x \<longleftrightarrow> (case x of DkHttpGet _ \<Rightarrow> False | DkCombined _ \<Rightarrow> False | _ \<Rightarrow> True)"

definition not_ready :: "dk_call \<Rightarrow> bool" where
  "not_ready x \<longleftrightarrow> only_curates x \<and> x \<noteq> DkReady"

lemma CurateVProInstaller_run:
  assumes "run_io (CurateVProInstaller E) l = (Ret None, l')"
  shows "\<exists>s. vpro_script E ((dk_view E l)\<lparr>hv_config := current_config E l\<rparr>) (current_config E l) OS_TYPE_MUTABLE = Ret (Inr s) \<and>
    l' = l @ [DkWriteFile ''/data/Installer'' s, DkWriteFile ''/data/uninstall.sh'' (dk_vpro_uninstall E)]"
proof -
  have paths: "path_Join [PVC, ''Installer''] = ''/data/Installer''" "path_Join [PVC, ''uninstall.sh''] = ''/data/uninstall.sh''"
    by code_simp+
  from assms show ?thesis
    by (auto simp: CurateVProInstaller_def mgr_CurateVProInstaller_def GetInfraConfig_def view_now_def
        CopyVProUninstallScript_def dk_WriteFile_def paths split: outcome.splits sum.splits option.splits)
qed

lemma emits_before_curation:
  "emits not_ready (SetWatcher E)"
  "emits not_ready (setup_telemetry E fl)"
  "emits not_ready (config_Read E)"
  unfolding SetWatcher_def addFileToWatcher_def setup_telemetry_def setupTracingIfEnabled_def setupTracing_def startMetricsServer_def
    config_Read_def updateConfig_def DownloadENManifest_def SetInfraConfig_def
  by (intro emits_intro; simp add: not_ready_def only_curates_def)+

text \<open>
  Without provisioning of operating systems, a run of the DKAM process that ends with its
  signal has written the installer of vPro, rendered for the configuration in force, and the
  script that removes it, before it has announced that it is ready; and it never downloads a
  micro OS or runs a script.
\<close>

theorem skip_mode_serves_vpro_files:
  assumes "run_io (dkam_main E fl early) [] = (Ret (Some ()), l')"
    and "skipping E fl True"
  shows "\<exists>xs s ys. l' = xs @ [DkWriteFile ''/data/Installer'' s, DkWriteFile ''/data/uninstall.sh'' (dk_vpro_uninstall E)] @ ys \<and>
    vpro_script E ((dk_view E xs)\<lparr>hv_config := current_config E xs\<rparr>) (current_config E xs) OS_TYPE_MUTABLE = Ret (Inr s) \<and>
    DkReady \<notin> set xs \<and> list_all only_curates l'"
proof -
  let ?pre = "setup_telemetry E fl"
  obtain l1 l2 l3 where run1: "run_io (SetWatcher E) [] = (Ret (Some ()), l1)"
    and run2: "run_io (config_Read E) l1 = (Ret None, l2)" and run3: "run_io ?pre l2 = (Ret (), l3)"
    using assms(1) by (rule dkam_main_started)
  then have skip: "cfg_SkipOSProvisioning (current_config E l3)" using assms(2) unfolding skipping_def by blast
  obtain r4 l4 where run4: "run_io (CurateVProInstaller E) l3 = (r4, l4)" by fastforce
  from emitsD [OF emits_before_curation(1) run1] emitsD [OF emits_before_curation(3) run2]
    emitsD [OF emits_before_curation(2) run3] have l3: "list_all not_ready l3" by auto
  note body = dkam_body_def
  from assms(1) have r4: "r4 = Ret None"
    using run1 run2 run3 run4 skip by (cases r4) (auto simp: dkam_main_def body GetInfraConfig_def split: option.splits)
  from run4 r4 have "run_io (CurateVProInstaller E) l3 = (Ret None, l4)" by simp
  from CurateVProInstaller_run [OF this] obtain s where s:
    "vpro_script E ((dk_view E l3)\<lparr>hv_config := current_config E l3\<rparr>) (current_config E l3) OS_TYPE_MUTABLE = Ret (Inr s)"
    "l4 = l3 @ [DkWriteFile ''/data/Installer'' s, DkWriteFile ''/data/uninstall.sh'' (dk_vpro_uninstall E)]" by blast
  let ?ys = "(if fl_oamServerAddress fl \<noteq> '''' then [DkWgAdd, DkOamServer (fl_oamServerAddress fl), DkReady] else []) @
      [DkTerminate, DkCloseWatcher]"
  have "l' = l4 @ (if fl_oamServerAddress fl \<noteq> '''' then [DkWgAdd, DkOamServer (fl_oamServerAddress fl), DkReady] else []) @
      [DkTerminate, DkCloseWatcher]"
    using assms(1) run1 run2 run3 run4 skip r4
    by (cases "fl_oamServerAddress fl = ''''")
      (simp_all add: dkam_main_def body GetInfraConfig_def setupOamServerAndSetReady_def wait_for_signal_def)
  moreover from l3 have "list_all only_curates l3" "DkReady \<notin> set l3" by (auto simp: list_all_iff not_ready_def)
  ultimately show ?thesis
    using s by (intro exI [of _ l3] exI [of _ s] exI [of _ ?ys]) (auto simp: only_curates_def)
qed


section \<open>Concrete runs\<close>

definition sample_tree :: fs_tree where
  "sample_tree = FsDir None [FsGood ''config'' FsFile, FsGood ''cpio_build'' (FsDir None [FsGood ''secure_uos.sh'' FsFile])]"

text \<open>Two lines of the configuration template.\<close>

definition sample_pieces :: "piece list" where
  "sample_pieces = [Text ''en_http_proxy='', Slot ''http_proxy'', Text ''; release_svc='', Slot ''release_svc'', Text '';'']"

definition dkam_config :: infra_config where
  "dkam_config = sample_config\<lparr>cfg_EMBImageURL := ''emb/uos.tar.gz'', cfg_ProvisioningServerURL := ''https://prov''\<rparr>"

definition sample_dk_env :: dk_env where
  "sample_dk_env = \<lparr>
     dk_configFile = ''/etc/dkam.yaml'', dk_read_config = (\<lambda>l. None), dk_unmarshal = (\<lambda>l. Inr dkam_config),
     dk_artifacts = (\<lambda>l r t. Inr (Some [''packages''])),
     dk_yaml = (\<lambda>d m. Inr \<lparr>em_Codename = ''emt'', em_Component = ''main'', em_Packages = []\<rparr>),
     dk_reloaded = (\<lambda>l. None),
     dk_url_join = (\<lambda>a b. Inr (a @ ''/'' @ b)), dk_new_request = (\<lambda>u. None), dk_http_get = (\<lambda>l u. Inr 404),
     dk_create = (\<lambda>l p. None), dk_open = (\<lambda>l p. None), dk_copy_body = (\<lambda>l p. None), dk_copy = (\<lambda>l a b. None),
     dk_stat = (\<lambda>l p. StatOk), dk_remove_all = (\<lambda>l p. None), dk_mkdir_all = (\<lambda>l p. None), dk_chdir = (\<lambda>l p. None),
     dk_getwd = (\<lambda>l. Inr ''/tmp/uos/cpio_build''),
     dk_read_file = (\<lambda>l p. Inr (if p = ''config'' then source sample_pieces else ''set tink_url <TINK_STACK_URL>'')),
     dk_write_file = (\<lambda>l p s. None), dk_tree = (\<lambda>l p. Inr sample_tree), dk_combined = (\<lambda>l c. None),
     dk_new_watcher = (\<lambda>l. None), dk_watch = (\<lambda>l p. None), dk_trace_exporter = (\<lambda>l u. (True, None)),
     dk_view = (\<lambda>l. sample_view), dk_vpro_template = ''install'', dk_vpro_uninstall = ''uninstall''\<rparr>"

definition sample_flags :: dk_flags where
  "sample_flags = \<lparr>fl_enableTracing = True, fl_traceURL = ''trace:4318'', fl_enableMetrics = False,
     fl_metricsAddress = '''', fl_oamServerAddress = ''0.0.0.0:2379''\<rparr>"

lemma config_in_force_is_complete_witness:
  "complete_config sample_dk_env (current_config sample_dk_env (calls_of (config_Read sample_dk_env) @ [DkHttpGet ''u'']))"
proof -
  have "result_of (config_Read sample_dk_env) = Ret None" by code_simp
  then have "run_io (config_Read sample_dk_env) [] = (Ret None, calls_of (config_Read sample_dk_env))"
    by (simp add: result_of_def calls_of_def prod_eq_iff)
  then show ?thesis
    by (rule config_in_force_is_complete) (simp_all add: sample_dk_env_def)
qed

lemma copyDir_mirrors_tree_witness:
  "calls_of (copyDir sample_dk_env ''/src'' ''/dst'') = [DkMkdirAll ''/dst'', DkWalk ''/src'', DkMkdirAll ''/dst''] @
     file_calls ''/src/config'' ''/dst/config'' @ [DkMkdirAll ''/dst/cpio_build''] @
     file_calls ''/src/cpio_build/secure_uos.sh'' ''/dst/cpio_build/secure_uos.sh''"
proof -
  have paths: "abs_path [''src''] = ''/src''" "abs_path [''dst''] = ''/dst''" by (simp_all add: abs_path_def)
  have "result_of (copyDir sample_dk_env ''/src'' ''/dst'') = Ret None" by code_simp
  then have run: "run_io (copyDir sample_dk_env (abs_path [''src'']) (abs_path [''dst''])) [] =
      (Ret None, calls_of (copyDir sample_dk_env ''/src'' ''/dst''))"
    by (simp add: result_of_def calls_of_def prod_eq_iff paths)
  have tree: "\<And>k p. dk_tree sample_dk_env k p = Inr sample_tree" by (simp add: sample_dk_env_def)
  have "plain_tree sample_tree" by code_simp
  with copyDir_mirrors_tree [OF run] tree
  have "calls_of (copyDir sample_dk_env ''/src'' ''/dst'') =
      [DkMkdirAll ''/dst'', DkWalk ''/src''] @ tree_calls [''src''] [''dst''] sample_tree"
    by (simp add: paths plain_elem_def)
  then show ?thesis by (simp add: sample_tree_def abs_path_def)
qed

lemma dkam_values_plain:
  "v \<in> set (map snd (config_values dkam_config)) \<Longrightarrow> plain_text v"
proof -
  have "list_all plain_text (map snd (config_values dkam_config))" by code_simp
  then show "v \<in> set (map snd (config_values dkam_config)) \<Longrightarrow> plain_text v" by (simp only: list_all_iff)
qed

text \<open>The environment with its configuration in force from the start.\<close>

definition configured_env :: dk_env where
  "configured_env = sample_dk_env\<lparr>dk_reloaded := \<lambda>l. Some dkam_config\<rparr>"

lemma configured [simp]: "current_config configured_env l = dkam_config"
  by (simp add: configured_env_def current_config_def)




lemma boot_script_names_the_server_witness:
  "DkWriteFile ''/tmp/chain.ipxe'' ''set tink_url https://prov'' \<in> set (calls_of (BuildSignIpxe configured_env))"
proof -
  let ?cs = "calls_of (BuildSignIpxe configured_env)"
  have run: "run_io (BuildSignIpxe configured_env) [] = (result_of (BuildSignIpxe configured_env), [] @ ?cs)"
    by (simp add: result_of_def calls_of_def)
  have script: "DkCombined [''bash'', ''./build_sign_ipxe.sh'', DownloadPath] \<in> set ?cs" by code_simp
  have url: "cfg_ProvisioningServerURL (current_config configured_env []) = CHR ''h'' # ''ttps://prov''"
    by (simp add: dkam_config_def)
  let ?file = "''set tink_url <TINK_STACK_URL>''"
  have chain: "\<And>l. dk_read_file configured_env l ''/tmp/chain.ipxe'' = Inr ?file"
    by (simp add: configured_env_def sample_dk_env_def)
  have found: "contains_str ?file tink_url_slot" by code_simp
  have final: "replace_all tink_url_slot (CHR ''h'' # ''ttps://prov'') ?file = ''set tink_url https://prov''" by code_simp
  have "CHR ''<'' \<notin> set ''ttps://prov''" by simp
  from boot_script_names_the_server [OF run script url this] obtain xs content ys where
    cs: "?cs = xs @ DkReadFile ''/tmp/chain.ipxe'' # ys"
    and content: "dk_read_file configured_env ([] @ xs) ''/tmp/chain.ipxe'' = Inr content"
    and ys: "let final = replace_all tink_url_slot (cfg_ProvisioningServerURL (current_config configured_env [])) content in
       (\<not> contains_str content tink_url_slot \<and> (\<forall>p s. DkWriteFile p s \<notin> set ys) \<or>
        \<not> contains_str final tink_url_slot \<and> (\<exists>zs. ys = DkWriteFile ''/tmp/chain.ipxe'' final # zs \<and>
          (\<forall>p s. DkWriteFile p s \<notin> set zs)))"
    by blast
  have "content = ?file" using content chain by (simp only: sum.inject)
  with ys found have "\<exists>zs. ys = DkWriteFile ''/tmp/chain.ipxe'' ''set tink_url https://prov'' # zs"
    unfolding Let_def url final [symmetric] by blast
  then have "DkWriteFile ''/tmp/chain.ipxe'' ''set tink_url https://prov'' \<in> set ys" by (elim exE) simp
  then show ?thesis unfolding cs set_append Un_iff list.set insert_iff by blast
qed

lemma build_needs_the_oam_server_witness:
  "result_of (dkam_main configured_env (sample_flags\<lparr>fl_oamServerAddress := []\<rparr>) True) \<noteq> Ret (Some ()) \<and>
   DkCrash \<in> set (calls_of (dkam_main configured_env sample_flags False)) \<and>
   result_of (dkam_main configured_env sample_flags True) = Ret (Some ())"
proof (intro conjI)
  have "skipping configured_env (sample_flags\<lparr>fl_oamServerAddress := []\<rparr>) False"
    by (rule skippingI) (simp add: Let_def dkam_config_def sample_config_def)
  then show "result_of (dkam_main configured_env (sample_flags\<lparr>fl_oamServerAddress := []\<rparr>) True) \<noteq> Ret (Some ())"
    by (intro build_needs_the_oam_server) simp_all
qed code_simp+

text \<open>The clean-up of tracing runs before anything that it could trace.\<close>

lemma tracing_ends_at_once:
  "run_io (setupTracingIfEnabled E fl) l = (Ret (), l @
     (if fl_enableTracing fl then DkTraceExporter (fl_traceURL fl) #
        (if fst (dk_trace_exporter E l (fl_traceURL fl)) then [DkTraceCleanup] else []) else []))"
  by (simp add: setupTracingIfEnabled_def setupTracing_def split: prod.split)

definition skipping_env :: dk_env where
  "skipping_env = sample_dk_env\<lparr>dk_unmarshal := \<lambda>l. Inr (dkam_config\<lparr>cfg_SkipOSProvisioning := True\<rparr>)\<rparr>"

lemma skip_mode_serves_vpro_files_witness:
  "\<exists>xs s ys. calls_of (dkam_main skipping_env sample_flags True) =
     xs @ [DkWriteFile ''/data/Installer'' s, DkWriteFile ''/data/uninstall.sh'' ''uninstall''] @ ys"
proof -
  let ?m = "dkam_main skipping_env sample_flags True"
  have "result_of ?m = Ret (Some ())" by code_simp
  then have run: "run_io ?m [] = (Ret (Some ()), calls_of ?m)"
    by (simp add: result_of_def calls_of_def prod_eq_iff)
  have "skipping skipping_env sample_flags True" by (rule skippingI) code_simp
  moreover have "dk_vpro_uninstall skipping_env = ''uninstall''" by (simp add: skipping_env_def sample_dk_env_def)
  ultimately show ?thesis using skip_mode_serves_vpro_files [OF run] by metis
qed


section \<open>The download\<close>

text \<open>
  Neither the status of the response nor an error while it is copied changes the outcome of the
  download: whatever is left in the file goes on to be unpacked and signed.
\<close>

lemma download_is_not_checked:
  assumes "run_io (DownloadMicroOS E) l = (Ret None, l')"
  shows "run_io (DownloadMicroOS (E\<lparr>dk_http_get := \<lambda>k u. map_sum id (\<lambda>_. status) (dk_http_get E k u),
      dk_copy_body := \<lambda>k p. err\<rparr>)) l = (Ret None, l')"
  using assms
  by (auto simp: DownloadMicroOS_def GetInfraConfig_def current_config_def Let_def store_uos_def dk_Create_def
      split: sum.splits option.splits if_splits)

end
