(* ===== verification/GoRegexp.thy ===== *)
theory GoRegexp
  imports Prelude
begin

text \<open>
  The part of Go's regular expressions that the validators use, on texts of one-byte characters:
  classes, sequences, alternatives, options and bounded repetitions, matched against the whole
  text. \<open>matches\<close> is the language of an expression.
\<close>

datatype regexp =
    Cls "char \<Rightarrow> bool"
  | Seq regexp regexp
  | Alt regexp regexp
  | Opt regexp
  | Rep nat nat regexp    \<comment> \<open>from the first to the second number of times\<close>

fun repeated :: "(string \<Rightarrow> bool) \<Rightarrow> nat \<Rightarrow> string \<Rightarrow> bool" where
  "repeated P 0 s \<longleftrightarrow> s = []"
| "repeated P (Suc n) s \<longleftrightarrow> (\<exists>a b. s = a @ b \<and> P a \<and> repeated P n b)"

fun matches :: "regexp \<Rightarrow> string \<Rightarrow> bool" where
  "matches (Cls P) s \<longleftrightarrow> (\<exists>c. s = [c] \<and> P c)"
| "matches (Seq r q) s \<longleftrightarrow> (\<exists>a b. s = a @ b \<and> matches r a \<and> matches q b)"
| "matches (Alt r q) s \<longleftrightarrow> matches r s \<or> matches q s"
| "matches (Opt r) s \<longleftrightarrow> s = [] \<or> matches r s"
| "matches (Rep n m r) s \<longleftrightarrow> (\<exists>k. n \<le> k \<and> k \<le> m \<and> repeated (matches r) k s)"

definition Chr :: "char \<Rightarrow> regexp" where
  "Chr c = Cls (\<lambda>d. d = c)"

definition Times :: "nat \<Rightarrow> regexp \<Rightarrow> regexp" where
  "Times n r = Rep n n r"

section \<open>Facts\<close>

lemma matches_Chr [simp]: "matches (Chr c) s \<longleftrightarrow> s = [c]"
  by (auto simp: Chr_def)

lemma matches_Times [simp]: "matches (Times n r) s \<longleftrightarrow> repeated (matches r) n s"
  by (auto simp: Times_def)

lemma first_class: "(\<exists>a b. s = a @ b \<and> (\<exists>c. a = [c] \<and> P c) \<and> Q b) \<longleftrightarrow> (\<exists>c b. s = c # b \<and> P c \<and> Q b)"
proof safe
  fix c b assume "P c" "Q b"
  then show "\<exists>x xa. c # b = x @ xa \<and> (\<exists>c. x = [c] \<and> P c) \<and> Q xa"
    by (intro exI [of _ "[c]"] exI [of _ b]) simp
qed simp

lemma regroup: "(\<exists>a b. s = a @ b \<and> (\<exists>x y. a = x @ y \<and> P x \<and> Q y) \<and> R b) \<longleftrightarrow>
  (\<exists>x r. s = x @ r \<and> P x \<and> (\<exists>y b. r = y @ b \<and> Q y \<and> R b))"
proof safe
  fix x y b assume "P x" "Q y" "R b"
  then show "\<exists>z r. (x @ y) @ b = z @ r \<and> P z \<and> (\<exists>y b. r = y @ b \<and> Q y \<and> R b)"
    by (intro exI [of _ x] exI [of _ "y @ b"]) auto
next
  fix x y b assume "P x" "Q y" "R b"
  then show "\<exists>a c. x @ y @ b = a @ c \<and> (\<exists>x y. a = x @ y \<and> P x \<and> Q y) \<and> R c"
    by (intro exI [of _ "x @ y"] exI [of _ b]) auto
qed

lemma repeated_class: "repeated (matches (Cls P)) n s \<longleftrightarrow> length s = n \<and> list_all P s"
proof (induction n arbitrary: s)
  case (Suc n)
  have "repeated (matches (Cls P)) (Suc n) s \<longleftrightarrow> (\<exists>c b. s = c # b \<and> P c \<and> (length b = n \<and> list_all P b))"
    unfolding repeated.simps matches.simps(1) Suc by (rule first_class)
  also have "\<dots> \<longleftrightarrow> length s = Suc n \<and> list_all P s" by (cases s) auto
  finally show ?case .
qed auto

lemma matches_class_range: "matches (Rep n m (Cls P)) s \<longleftrightarrow> n \<le> length s \<and> length s \<le> m \<and> list_all P s"
  by (auto simp: repeated_class)

lemma first_three: "(\<exists>a b. s = a @ b \<and> (\<exists>x y c. a = [x, y, c] \<and> P x y c) \<and> Q b) \<longleftrightarrow>
  (\<exists>x y c b. s = x # y # c # b \<and> P x y c \<and> Q b)"
proof safe
  fix x y c b assume "P x y c" "Q b"
  then show "\<exists>a r. x # y # c # b = a @ r \<and> (\<exists>x y c. a = [x, y, c] \<and> P x y c) \<and> Q r"
    by (intro exI [of _ "[x, y, c]"] exI [of _ b]) auto
qed simp

text \<open>Fields with a separator after each but the last are the pieces of a split.\<close>

lemma split_join: "fs \<noteq> [] \<Longrightarrow> \<forall>f \<in> set fs. c \<notin> set f \<Longrightarrow> split_char c (join_with [c] fs) = fs"
proof (induction fs)
  case (Cons f fs)
  then show ?case
    by (cases fs) (auto simp: split_char_sep split_char_no_sep)
qed simp

lemma repeated_fields:
  assumes "\<And>s. P s \<longleftrightarrow> (\<exists>f. s = f @ [c] \<and> F f)"
  shows "(\<exists>a b. s = a @ b \<and> repeated P n a \<and> F b) \<longleftrightarrow>
    (\<exists>fs. length fs = Suc n \<and> list_all F fs \<and> s = join_with [c] fs)"
proof (induction n arbitrary: s)
  case 0
  show ?case by (auto simp: length_Suc_conv)
next
  case (Suc n)
  have "(\<exists>a b. s = a @ b \<and> repeated P (Suc n) a \<and> F b) \<longleftrightarrow>
      (\<exists>f r. s = f @ r \<and> P f \<and> (\<exists>a b. r = a @ b \<and> repeated P n a \<and> F b))"
    unfolding repeated.simps by (rule regroup)
  also have "\<dots> \<longleftrightarrow> (\<exists>f r. s = f @ c # r \<and> F f \<and> (\<exists>a b. r = a @ b \<and> repeated P n a \<and> F b))"
  proof safe
    fix f r a b assume "P f" "repeated P n a" "F b"
    then obtain g where "f = g @ [c]" "F g" using assms by blast
    with \<open>repeated P n a\<close> \<open>F b\<close>
    show "\<exists>h r. f @ a @ b = h @ c # r \<and> F h \<and> (\<exists>a b. r = a @ b \<and> repeated P n a \<and> F b)"
      by (intro exI [of _ g] exI [of _ "a @ b"]) auto
  next
    fix f r a b assume "F f" "repeated P n a" "F b"
    then show "\<exists>h r. f @ c # a @ b = h @ r \<and> P h \<and> (\<exists>a b. r = a @ b \<and> repeated P n a \<and> F b)"
      using assms by (intro exI [of _ "f @ [c]"] exI [of _ "a @ b"]) auto
  qed
  also have "\<dots> \<longleftrightarrow> (\<exists>f fs. s = f @ c # join_with [c] fs \<and> F f \<and> length fs = Suc n \<and> list_all F fs)"
    unfolding Suc by blast
  also have "\<dots> \<longleftrightarrow> (\<exists>fs. length fs = Suc (Suc n) \<and> list_all F fs \<and> s = join_with [c] fs)"
  proof safe
    fix f fs assume "F f" "length fs = Suc n" "list_all F fs"
    then show "\<exists>gs. length gs = Suc (Suc n) \<and> list_all F gs \<and> f @ c # join_with [c] fs = join_with [c] gs"
      by (intro exI [of _ "f # fs"]) (cases fs; simp)
  next
    fix fs assume "length fs = Suc (Suc n)" "list_all F fs"
    then obtain f g gs where "fs = f # g # gs" by (auto simp: length_Suc_conv)
    with \<open>length fs = Suc (Suc n)\<close> \<open>list_all F fs\<close>
    show "\<exists>f fs'. join_with [c] fs = f @ c # join_with [c] fs' \<and> F f \<and> length fs' = Suc n \<and> list_all F fs'"
      by (intro exI [of _ f] exI [of _ "g # gs"]) simp
  qed
  finally show ?case .
qed

lemma matches_fields:
  assumes "\<And>f. matches r f \<Longrightarrow> c \<notin> set f"
  shows "matches (Seq (Times n (Seq r (Chr c))) r) s \<longleftrightarrow>
    length (split_char c s) = Suc n \<and> list_all (matches r) (split_char c s)"
proof -
  have "matches (Seq (Times n (Seq r (Chr c))) r) s \<longleftrightarrow>
      (\<exists>fs. length fs = Suc n \<and> list_all (matches r) fs \<and> s = join_with [c] fs)"
    using repeated_fields [of "matches (Seq r (Chr c))" c "matches r" s n] by simp
  also have "\<dots> \<longleftrightarrow> length (split_char c s) = Suc n \<and> list_all (matches r) (split_char c s)"
  proof safe
    fix fs assume "length fs = Suc n" "list_all (matches r) fs"
    with assms have "split_char c (join_with [c] fs) = fs"
      by (intro split_join) (auto simp: list_all_iff)
    then show "length (split_char c (join_with [c] fs)) = Suc n" "list_all (matches r) (split_char c (join_with [c] fs))"
      using \<open>length fs = Suc n\<close> \<open>list_all (matches r) fs\<close> by simp_all
  next
    assume "length (split_char c s) = Suc n" "list_all (matches r) (split_char c s)"
    then show "\<exists>fs. length fs = Suc n \<and> list_all (matches r) fs \<and> s = join_with [c] fs"
      using join_split_char by metis
  qed
  finally show ?thesis .
qed

text \<open>Reading an expression that starts with a class.\<close>

lemma seqI: "matches r a \<Longrightarrow> matches q b \<Longrightarrow> matches (Seq r q) (a @ b)"
  by auto

lemma matches_class_seq [simp]:
  "matches (Seq (Cls P) r) [] \<longleftrightarrow> False" "matches (Seq (Cls P) r) (c # s) \<longleftrightarrow> P c \<and> matches r s"
  "matches (Seq (Opt (Cls P)) r) s \<longleftrightarrow> matches r s \<or> matches (Seq (Cls P) r) s"
  "matches (Seq (Chr d) r) [] \<longleftrightarrow> False" "matches (Seq (Chr d) r) (c # s) \<longleftrightarrow> c = d \<and> matches r s"
proof -
  show cls: "matches (Seq (Cls P) r) (c # s) \<longleftrightarrow> P c \<and> matches r s" for P c s
    unfolding matches.simps(1,2) by (subst first_class) simp
  show "matches (Seq (Chr d) r) (c # s) \<longleftrightarrow> c = d \<and> matches r s"
    unfolding Chr_def cls by simp
  show "matches (Seq (Opt (Cls P)) r) s \<longleftrightarrow> matches r s \<or> matches (Seq (Cls P) r) s"
  proof
    assume "matches (Seq (Opt (Cls P)) r) s"
    then obtain a b where ab: "s = a @ b" "a = [] \<or> matches (Cls P) a" "matches r b" by auto
    from ab(2) show "matches r s \<or> matches (Seq (Cls P) r) s"
    proof
      assume "matches (Cls P) a"
      from seqI [OF this ab(3)] ab(1) show ?thesis by simp
    qed (simp add: ab)
  next
    assume "matches r s \<or> matches (Seq (Cls P) r) s"
    then show "matches (Seq (Opt (Cls P)) r) s"
    proof
      assume "matches r s"
      then show ?thesis using seqI [of "Opt (Cls P)" "[]" r s] by simp
    next
      assume "matches (Seq (Cls P) r) s"
      then obtain a b where "s = a @ b" "matches (Cls P) a" "matches r b" by auto
      then show ?thesis using seqI [of "Opt (Cls P)" a r b] by simp
    qed
  qed
qed (auto simp: Chr_def)

declare matches.simps(2) [simp del]

end
