(* ===== verification/ValidateThms.thy ===== *)
theory ValidateThms
  imports Validate GoRegexp
begin

text \<open>
  The validators of \<open>onboarding.pb.validate.go\<close> against what generated them: the functions that
  the model has for the patterns decide the regular expressions of the code, and stopping at
  the first error finds the first of all errors.
\<close>

section \<open>The regular expressions\<close>

definition hex_class :: regexp where
  "hex_class = Cls is_hex"

definition uuid_re :: regexp where
  "uuid_re = Seq (Times 8 hex_class) (Seq (Chr CHR ''-'') (Seq (Times 4 hex_class) (Seq (Chr CHR ''-'')
     (Seq (Times 4 hex_class) (Seq (Chr CHR ''-'') (Seq (Times 4 hex_class) (Seq (Chr CHR ''-'') (Times 12 hex_class))))))))"

definition serial_re :: regexp where
  "serial_re = Rep 5 20 (Cls alnum)"

definition mac_re :: regexp where
  "mac_re = Seq (Times 5 (Seq (Times 2 hex_class) (Cls (\<lambda>c. c = CHR ''-'' \<or> c = CHR '':'')))) (Times 2 hex_class)"

definition digits :: "nat \<Rightarrow> nat \<Rightarrow> regexp" where
  "digits lo hi = Cls (\<lambda>c. 48 + lo \<le> of_char c \<and> of_char c \<le> 48 + hi)"

definition ip_field_re :: regexp where
  "ip_field_re = Alt (Seq (Chr CHR ''2'') (Seq (Chr CHR ''5'') (digits 0 5)))
     (Alt (Seq (Chr CHR ''2'') (Seq (digits 0 4) (digits 0 9)))
       (Seq (Opt (digits 0 1)) (Seq (digits 0 9) (Opt (digits 0 9)))))"

definition ip_re :: regexp where
  "ip_re = Seq (Times 3 (Seq ip_field_re (Chr CHR ''.''))) ip_field_re"

lemma matches_hex [simp]: "repeated (matches hex_class) n s \<longleftrightarrow> length s = n \<and> list_all is_hex s"
  unfolding hex_class_def by (rule repeated_class)

lemma serial_decides: "matches serial_re s \<longleftrightarrow> serial_pattern s"
  unfolding serial_re_def serial_pattern_def by (rule matches_class_range)

lemma no_hyphen: "list_all is_hex s \<Longrightarrow> CHR ''-'' \<notin> set s"
  by (auto simp: list_all_iff is_hex_def is_digit_def)

lemma uuid_decides: "matches uuid_re s \<longleftrightarrow> uuid_pattern s"
proof
  assume "matches uuid_re s"
  then obtain a b c d e where
    "s = a @ CHR ''-'' # b @ CHR ''-'' # c @ CHR ''-'' # d @ CHR ''-'' # e"
    and len: "length a = 8" "length b = 4" "length c = 4" "length d = 4" "length e = 12"
    and hex: "list_all is_hex a" "list_all is_hex b" "list_all is_hex c" "list_all is_hex d" "list_all is_hex e"
    unfolding uuid_re_def matches.simps(2) matches_Chr matches_Times matches_hex by (elim exE conjE) simp
  then have "split_char CHR ''-'' s = [a, b, c, d, e]"
    by (simp add: no_hyphen split_char_sep split_char_no_sep)
  with len hex show "uuid_pattern s" by (simp add: uuid_pattern_def)
next
  assume "uuid_pattern s"
  then have m: "map length (split_char CHR ''-'' s) = [8, 4, 4, 4, 12]" and
    h: "list_all (list_all is_hex) (split_char CHR ''-'' s)"
    by (simp_all add: uuid_pattern_def Let_def)
  from m obtain a b c d e where p: "split_char CHR ''-'' s = [a, b, c, d, e]" by (auto simp: map_eq_Cons_conv)
  have "s = a @ ''-'' @ b @ ''-'' @ c @ ''-'' @ d @ ''-'' @ e"
    using join_split_char [of "CHR ''-''" s] unfolding p by simp
  moreover from m h p have "length a = 8 \<and> length b = 4 \<and> length c = 4 \<and> length d = 4 \<and> length e = 12"
    "list_all is_hex a" "list_all is_hex b" "list_all is_hex c" "list_all is_hex d" "list_all is_hex e" by simp_all
  ultimately show "matches uuid_re s"
    unfolding uuid_re_def by (simp only:) (intro seqI; simp)
qed

lemma ip_field_decides: "matches ip_field_re s \<longleftrightarrow> ip_field_pattern s"
proof -
  consider "s = []" | a where "s = [a]" | a b where "s = [a, b]" | a b c where "s = [a, b, c]"
    | a b c d r where "s = a # b # c # d # r"
    by (metis list.exhaust)
  then show ?thesis
  proof cases
    case (4 a b c)
    have num: "(a = CHR ''2'') = (of_char a = (50::nat))" "(b = CHR ''5'') = (of_char b = (53::nat))"
      using of_char_eq_iff [of a "CHR ''2''"] of_char_eq_iff [of b "CHR ''5''"] by auto
    show ?thesis
      unfolding 4 ip_field_re_def ip_field_pattern_def digits_def dec_val_def
      by (simp add: is_digit_def num) arith
  qed (auto simp: ip_field_re_def ip_field_pattern_def digits_def dec_val_def is_digit_def)
qed

lemma ip_decides: "matches ip_re s \<longleftrightarrow> ip_pattern s"
proof -
  have "CHR ''.'' \<notin> set f" if "matches ip_field_re f" for f
    using that unfolding ip_field_decides ip_field_pattern_def by (auto simp: list_all_iff is_digit_def)
  then have "matches ip_re s \<longleftrightarrow> length (split_char CHR ''.'' s) = Suc 3 \<and>
      list_all (matches ip_field_re) (split_char CHR ''.'' s)"
    unfolding ip_re_def by (rule matches_fields)
  moreover have "matches ip_field_re = ip_field_pattern" by (rule ext) (rule ip_field_decides)
  ultimately show ?thesis by (simp add: ip_pattern_def Let_def)
qed

text \<open>Five times two hexadecimal digits and a separator, then two digits.\<close>

fun mac_from :: "nat \<Rightarrow> string \<Rightarrow> bool" where
  "mac_from (Suc n) (x # y # c # s) \<longleftrightarrow> is_hex x \<and> is_hex y \<and> (c = CHR ''-'' \<or> c = CHR '':'') \<and> mac_from n s"
| "mac_from (Suc n) s \<longleftrightarrow> False"
| "mac_from 0 s \<longleftrightarrow> length s = 2 \<and> list_all is_hex s"

lemma mac_from_length: "mac_from n s \<Longrightarrow> length s = 3 * n + 2"
  by (induction n s rule: mac_from.induct) auto

definition mac_at :: "string \<Rightarrow> nat \<Rightarrow> bool" where
  "mac_at s i \<longleftrightarrow> (if i mod 3 = 2 then s ! i \<in> {CHR ''-'', CHR '':''} else is_hex (s ! i))"

lemma mac_from_at: "length s = 3 * n + 2 \<Longrightarrow> mac_from n s \<longleftrightarrow> list_all (mac_at s) [0..<3 * n + 2]"
proof (induction n arbitrary: s)
  case 0
  then obtain x y where "s = [x, y]" by (auto simp: length_Suc_conv numeral_2_eq_2)
  moreover have "[0..<2] = [0, 1::nat]" by (simp add: upt_rec)
  ultimately show ?case by (simp add: mac_at_def)
next
  case (Suc n)
  then have "length s = Suc (Suc (Suc (3 * n + 2)))" by simp
  then obtain x y c t where s: "s = x # y # c # t" and t: "length t = 3 * n + 2"
    unfolding length_Suc_conv by auto
  have "[0..<3 * Suc n + 2] = [0..<3] @ [3..<3 * n + 2 + 3]"
    using upt_add_eq_append [of 0 3 "3 * n + 2"] by (simp add: add.commute)
  moreover have "[0..<3] = [0, 1, 2::nat]" by (simp add: upt_rec)
  ultimately have split: "[0..<3 * Suc n + 2] = [0, 1, 2] @ map (\<lambda>i. i + 3) [0..<3 * n + 2]"
    by (simp only: map_add_upt)
  have "mac_at s (i + 3) = mac_at t i" for i
  proof -
    have "s ! (i + 3) = s ! Suc (Suc (Suc i))" by (rule arg_cong [of _ _ "nth s"]) simp
    then show ?thesis by (simp add: mac_at_def s)
  qed
  then have "list_all (mac_at s) (map (\<lambda>i. i + 3) [0..<3 * n + 2]) = list_all (mac_at t) [0..<3 * n + 2]"
    by (simp only: list.pred_map comp_def)
  moreover have "list_all (mac_at s) [0, 1, 2] \<longleftrightarrow> is_hex x \<and> is_hex y \<and> (c = CHR ''-'' \<or> c = CHR '':'')"
    by (simp add: mac_at_def s)
  ultimately have "list_all (mac_at s) [0..<3 * Suc n + 2] \<longleftrightarrow>
      (is_hex x \<and> is_hex y \<and> (c = CHR ''-'' \<or> c = CHR '':'')) \<and> mac_from n t"
    unfolding split list_all_append Suc.IH [OF t] by blast
  then show ?case unfolding s by simp
qed

lemma mac_from_decides: "mac_from 5 s \<longleftrightarrow> mac_pattern s"
proof (cases "length s = 17")
  case True
  then show ?thesis using mac_from_at [of s 5] unfolding mac_pattern_def mac_at_def by simp
next
  case False
  then show ?thesis using mac_from_length [of 5 s] by (auto simp: mac_pattern_def)
qed

lemma mac_decides: "matches mac_re s \<longleftrightarrow> mac_pattern s"
proof -
  let ?P = "matches (Seq (Times 2 hex_class) (Cls (\<lambda>c. c = CHR ''-'' \<or> c = CHR '':'')))"
  let ?G = "\<lambda>n s. \<exists>a b. s = a @ b \<and> repeated ?P n a \<and> length b = 2 \<and> list_all is_hex b"
  have piece: "?P t \<longleftrightarrow> (\<exists>x y c. t = [x, y, c] \<and> is_hex x \<and> is_hex y \<and> (c = CHR ''-'' \<or> c = CHR '':''))" for t
  proof
    assume "?P t"
    then obtain u c where "t = u @ [c]" "length u = 2" "list_all is_hex u" "c = CHR ''-'' \<or> c = CHR '':''"
      by (auto simp: matches.simps(2))
    then show "\<exists>x y c. t = [x, y, c] \<and> is_hex x \<and> is_hex y \<and> (c = CHR ''-'' \<or> c = CHR '':'')"
      by (auto simp: length_Suc_conv numeral_2_eq_2)
  next
    assume "\<exists>x y c. t = [x, y, c] \<and> is_hex x \<and> is_hex y \<and> (c = CHR ''-'' \<or> c = CHR '':'')"
    then obtain x y c where t: "t = [x, y] @ [c]" "is_hex x" "is_hex y" "c = CHR ''-'' \<or> c = CHR '':''" by auto
    then show "?P t" unfolding t(1) by (intro seqI) simp_all
  qed
  have "?G n s \<longleftrightarrow> mac_from n s" for n s
  proof (induction n arbitrary: s)
    case (Suc n)
    have "?G (Suc n) s \<longleftrightarrow> (\<exists>x r. s = x @ r \<and> ?P x \<and> ?G n r)"
      unfolding repeated.simps by (rule regroup)
    also have "\<dots> \<longleftrightarrow> (\<exists>x r. s = x @ r \<and> ?P x \<and> mac_from n r)" unfolding Suc ..
    also have "\<dots> \<longleftrightarrow> mac_from (Suc n) s"
      unfolding piece first_three by (cases "(Suc n, s)" rule: mac_from.cases) auto
    finally show ?case .
  qed simp
  then show ?thesis
    unfolding mac_re_def matches.simps(2) matches_Times matches_hex by (simp only: mac_from_decides)
qed


section \<open>What is accepted\<close>

definition well_formed_hw :: "hw_data \<Rightarrow> bool" where
  "well_formed_hw hw \<longleftrightarrow> matches uuid_re (hw_Uuid hw) \<and> matches serial_re (hw_Serialnum hw) \<and>
     matches mac_re (hw_MacId hw) \<and> matches ip_re (hw_SutIp hw)"

definition well_formed_req :: "stream_req \<Rightarrow> bool" where
  "well_formed_req m \<longleftrightarrow> matches uuid_re (rq_Uuid m) \<and> matches serial_re (rq_Serialnum m) \<and>
     matches mac_re (rq_MacId m) \<and> matches ip_re (rq_HostIp m)"

lemma first_err_None: "first_err es = None \<longleftrightarrow> es = []"
  by (simp add: first_err_def split: list.split)

text \<open>
  C24. The validators accept the well-formed requests and no others: a stream request, or every
  machine in a \<open>CreateNodes\<close> request, whose UUID, serial number, MAC and IP address match the
  regular expressions of the code, read as languages. The responses are held to the same.
\<close>

theorem accepted_requests_are_well_formed:
  "(OnboardNodeStreamRequest_Validate req = None \<longleftrightarrow> well_formed_req req) \<and>
   (CreateNodesRequest_Validate payload = None \<longleftrightarrow> list_all (list_all well_formed_hw) payload) \<and>
   (CreateNodesResponse_Validate payload = None \<longleftrightarrow> list_all (list_all well_formed_hw) payload)"
proof (intro conjI)
  show "OnboardNodeStreamRequest_Validate req = None \<longleftrightarrow> well_formed_req req"
    by (simp add: OnboardNodeStreamRequest_Validate_def first_err_None OnboardNodeStreamRequest_validate_def validate_ids_ok
        well_formed_req_def uuid_decides serial_decides mac_decides ip_decides)
  show nodes: "CreateNodesRequest_Validate payload = None \<longleftrightarrow> list_all (list_all well_formed_hw) payload"
    by (simp add: CreateNodesRequest_Validate_def first_err_None CreateNodesRequest_ok well_formed_hw_def list_all_iff
        uuid_decides serial_decides mac_decides ip_decides)
  then show "CreateNodesResponse_Validate payload = None \<longleftrightarrow> list_all (list_all well_formed_hw) payload"
    by (simp add: CreateNodesResponse_Validate_def CreateNodesResponse_validate_def CreateNodesRequest_Validate_def
        CreateNodesRequest_validate_def)
qed

section \<open>The first error\<close>

definition brief :: "verr \<Rightarrow> string \<times> string" where
  "brief e = (ve_field e, ve_reason e)"

definition same_first :: "verr list \<Rightarrow> verr list \<Rightarrow> bool" where
  "same_first es fs \<longleftrightarrow> map_option brief (first_err es) = map_option brief (first_err fs)"

lemma same_first_ids: "same_first (validate_ids f False u s m i) (validate_ids f True u s m i)"
  by (simp add: same_first_def validate_ids_first)

lemma same_first_nil: "same_first es fs \<Longrightarrow> es = [] \<longleftrightarrow> fs = []"
  by (auto simp: same_first_def first_err_def split: list.splits)

lemma same_first_embedded:
  "(\<And>m. same_first (V False m) (V True m)) \<Longrightarrow>
   same_first (validate_embedded name False i (map (V False) ms)) (validate_embedded name True i (map (V True) ms))"
proof (induction ms arbitrary: i)
  case (Cons m ms)
  show ?case
  proof (cases "V True m")
    case Nil
    have "V False m = []" using same_first_nil [OF Cons.prems, of m] Nil by simp
    with Nil Cons.IH [OF Cons.prems] show ?thesis by simp
  next
    case (Cons e es)
    then have "V False m \<noteq> []" using same_first_nil [OF Cons.prems, of m] by simp
    then obtain d ds where "V False m = d # ds" by (cases "V False m") auto
    with \<open>V True m = e # es\<close> show ?thesis by (simp add: same_first_def first_err_def Let_def brief_def)
  qed
qed (simp add: same_first_def)

lemma same_first_nodes: "same_first (NodeData_validate False m) (NodeData_validate True m)"
  unfolding NodeData_validate_def
  by (intro same_first_embedded) (simp add: HwData_validate_def same_first_ids)

text \<open>
  C25. \<open>Validate\<close>, which stops at the first violation, reports the field and the reason that
  \<open>ValidateAll\<close> lists first, for every message, and nothing when there is no violation.
\<close>

theorem first_violation_is_reported:
  "map_option brief (OnboardNodeStreamRequest_Validate req) = map_option brief (first_err (OnboardNodeStreamRequest_ValidateAll req)) \<and>
   map_option brief (HwData_Validate hw) = map_option brief (first_err (HwData_ValidateAll hw)) \<and>
   map_option brief (NodeData_Validate nd) = map_option brief (first_err (NodeData_ValidateAll nd)) \<and>
   map_option brief (CreateNodesRequest_Validate payload) = map_option brief (first_err (CreateNodesRequest_ValidateAll payload)) \<and>
   map_option brief (CreateNodesResponse_Validate payload) = map_option brief (first_err (CreateNodesResponse_ValidateAll payload))"
  using same_first_ids same_first_nodes [of nd]
    same_first_embedded [where V = NodeData_validate, OF same_first_nodes, of "''Payload''" 0 payload]
  by (simp add: same_first_def OnboardNodeStreamRequest_Validate_def OnboardNodeStreamRequest_ValidateAll_def
      OnboardNodeStreamRequest_validate_def HwData_Validate_def HwData_ValidateAll_def HwData_validate_def
      NodeData_Validate_def NodeData_ValidateAll_def CreateNodesRequest_Validate_def CreateNodesRequest_ValidateAll_def
      CreateNodesRequest_validate_def CreateNodesResponse_Validate_def CreateNodesResponse_ValidateAll_def
      CreateNodesResponse_validate_def)

text \<open>The text of an error that two messages embed.\<close>

lemma embedded_error_text:
  "map_option CreateNodesRequest_Error (CreateNodesRequest_Validate
     [[\<lparr>hw_Uuid = ''1'', hw_Serialnum = ''ABCDE'', hw_MacId = ''aa:bb:cc:dd:ee:ff'', hw_SutIp = ''10.0.0.1''\<rparr>]]) =
   Some (''invalid CreateNodesRequest.Payload[0]: embedded message failed validation | caused by: '' @
     ''invalid NodeData.Hwdata[0]: embedded message failed validation | caused by: '' @
     ''invalid HwData.Uuid: value must be a valid UUID | caused by: invalid uuid format'')"
  by code_simp

end
