(* ===== verification/OmProcess.thy ===== *)
theory OmProcess
  imports Southbound Controller DkConfig GoEmbed
begin

text \<open>
  The Onboarding Manager process: \<open>onboarding-manager/cmd/onboardingmgr/main.go\<close>,
  \<open>internal/env\<close>, the set-up of the servers (\<open>internal/handlers/southbound\<close>), the constructors of
  their services and of the Inventory client. Reading the configuration and starting the
  controller are the programs of DkConfig and Controller, embedded. What the servers, the control
  loop and the watchers do while the process waits for its signal is modelled elsewhere.
\<close>

section \<open>Calls\<close>

text \<open>The configuration of an Inventory client; the kind of the client is also its handle.\<close>

record inv_client_config =
  icc_Name :: string
  icc_Address :: string
  icc_EnableRegisterRetry :: bool
  icc_AbortOnUnknownClientError :: bool
  icc_Insecure :: bool
  icc_ClientKind :: client
  icc_ResourceKinds :: "res_kind list"
  icc_EnableTracing :: bool
  icc_EnableMetrics :: bool

record onboarding_service =
  svc_invClient :: client
  svc_invClientAPI :: "client option"
  svc_rbac :: "string option"
  svc_authEnabled :: bool

datatype svc_kind = InteractiveOnboarding | NonInteractiveOnboarding

datatype interceptor = TenantInterceptor | MetricsInterceptor

datatype op_call =
    OpDk dk_call | OpOm om_call                  \<comment> \<open>reading the configuration; the controller\<close>
  | OpTraceExporter string | OpTraceCleanup
  | OpInvClient inv_client_config
  | OpSecrets "string list" | OpAuthInit
  | OpListen string | OpRbac string | OpMetricsExporter string
  | OpServe svc_kind string "interceptor list" onboarding_service
  | OpWgAdd | OpOamServer string bool | OpReady
  | OpSignal | OpTerminate | OpStopServer svc_kind | OpStopController | OpCloseInv
  | OpOamDone | OpWgDone

type_synonym 'a op = "(op_call, 'a) io"

text \<open>The configuration is read from the environment \<open>op_dk\<close>, which may be another one each time,
  since the watcher of the file works beside the process.\<close>

record op_env =
  op_lookup_env :: "string \<Rightarrow> string option"
  op_dk :: "op_call list \<Rightarrow> dk_env"
  op_om :: om_env
  op_templates :: "(string \<times> string) list"
  op_trace_exporter :: "op_call list \<Rightarrow> string \<Rightarrow> bool \<times> error"
  op_inv_client :: "op_call list \<Rightarrow> inv_client_config \<Rightarrow> error"
  op_secrets :: "op_call list \<Rightarrow> string list \<Rightarrow> error"
  op_auth_init :: "op_call list \<Rightarrow> error"
  op_listen :: "op_call list \<Rightarrow> string \<Rightarrow> error"
  op_rbac :: "op_call list \<Rightarrow> string \<Rightarrow> error"
  op_oam_done :: "op_call list \<Rightarrow> bool"

definition op_do :: "op_call \<Rightarrow> unit op" where
  "op_do c = call c (\<lambda>_. ())"

fun dk_part :: "op_call \<Rightarrow> dk_call option" where
  "dk_part (OpDk c) = Some c"
| "dk_part _ = None"

fun om_part :: "op_call \<Rightarrow> om_call option" where
  "om_part (OpOm c) = Some c"
| "om_part _ = None"

interpretation dkp: embedding OpDk dk_part
  by unfold_locales (auto elim: dk_part.elims)

interpretation omp: embedding OpOm om_part
  by unfold_locales (auto elim: om_part.elims)

definition as_dk :: "op_env \<Rightarrow> (dk_env \<Rightarrow> 'a dk) \<Rightarrow> 'a op" where
  "as_dk E m = bnd (ask (op_dk E)) (\<lambda>D. embed OpDk dk_part (m D))"

section \<open>Environment variables\<close>

definition getenv :: "op_env \<Rightarrow> string \<Rightarrow> string" where
  "getenv E k = (case op_lookup_env E k of None \<Rightarrow> '''' | Some v \<Rightarrow> v)"

definition MustGetEnv :: "op_env \<Rightarrow> string \<Rightarrow> string option op" where
  "MustGetEnv E key = (case op_lookup_env E key of
     Some v \<Rightarrow> if v \<noteq> '''' then ret (Some v) else exited
   | None \<Rightarrow> exited)"

text \<open>The variables of the package: what they are when the process starts, and what
  \<open>MustEnsureRequired\<close> makes of them.\<close>

definition package_vars :: "op_env \<Rightarrow> om_env" where
  "package_vars E = (op_om E)\<lparr>
     en_dkam_mode := getenv E ''EN_DKAMMODE'',
     en_user_name := getenv E ''EN_USERNAME'',
     en_pass_word := getenv E ''EN_PASSWORD'',
     k8s_namespace := getenv E ''DEFAULT_K8S_NAMESPACE'',
     tinker_action_version := getenv E ''TINKER_VERSION'',
     tinker_artifact_name := getenv E ''TINKER_ARTIFACT_NAME''\<rparr>"

definition MustEnsureRequired :: "op_env \<Rightarrow> om_env option op" where
  "MustEnsureRequired E =
     unless_exited (MustGetEnv E ''TINKER_VERSION'') (\<lambda>v.
     unless_exited (MustGetEnv E ''TINKER_ARTIFACT_NAME'') (\<lambda>a.
     unless_exited (MustGetEnv E ''DEFAULT_K8S_NAMESPACE'') (\<lambda>n.
       ret (Some ((package_vars E)\<lparr>tinker_action_version := v, tinker_artifact_name := a, k8s_namespace := n\<rparr>)))))"

section \<open>The Inventory client\<close>

record inv_options =
  io_InventoryAddress :: string
  io_EnableTracing :: bool
  io_EnableMetrics :: bool
  io_ClientKind :: client

datatype inv_option = WithInventoryAddress string | WithEnableTracing bool | WithEnableMetrics bool
  | WithClientKind client

fun apply_inv_option :: "inv_options \<Rightarrow> inv_option \<Rightarrow> inv_options" where
  "apply_inv_option options (WithInventoryAddress invAddr) = options\<lparr>io_InventoryAddress := invAddr\<rparr>"
| "apply_inv_option options (WithEnableTracing b) = options\<lparr>io_EnableTracing := b\<rparr>"
| "apply_inv_option options (WithEnableMetrics b) = options\<lparr>io_EnableMetrics := b\<rparr>"
| "apply_inv_option options (WithClientKind k) = options\<lparr>io_ClientKind := k\<rparr>"

definition inventory_client_config :: "inv_options \<Rightarrow> inv_client_config" where
  "inventory_client_config options = \<lparr>
     icc_Name = ''OnboardingInventoryClient'',
     icc_Address = io_InventoryAddress options,
     icc_EnableRegisterRetry = False,
     icc_AbortOnUnknownClientError = True,
     icc_Insecure = True,
     icc_ClientKind = io_ClientKind options,
     icc_ResourceKinds = [KIND_INSTANCE, KIND_HOST, KIND_OS],
     icc_EnableTracing = io_EnableTracing options,
     icc_EnableMetrics = io_EnableMetrics options\<rparr>"

definition NewOnboardingInventoryClientWithOptions :: "op_env \<Rightarrow> inv_option list \<Rightarrow> (goerr + client) op" where
  "NewOnboardingInventoryClientWithOptions E opts =
     (let options = foldl apply_inv_option \<lparr>io_InventoryAddress = '''', io_EnableTracing = False,
            io_EnableMetrics = False, io_ClientKind = CliRM\<rparr> opts;
          cfg = inventory_client_config options in
      bnd (call (OpInvClient cfg) (\<lambda>l. op_inv_client E l cfg)) (\<lambda>err. case err of
        Some e \<Rightarrow> ret (Inl e)
      | None \<Rightarrow> ret (Inr (icc_ClientKind cfg))))"

section \<open>The services\<close>

text \<open>The second client of a service is there only when the address of the Inventory is known.\<close>

definition api_client :: "op_env \<Rightarrow> string \<Rightarrow> bool \<Rightarrow> (goerr + client option) op" where
  "api_client E inventoryAdr enableTracing =
     (if inventoryAdr = '''' then ret (Inr None) else
      bnd (NewOnboardingInventoryClientWithOptions E
             [WithInventoryAddress inventoryAdr, WithEnableTracing enableTracing, WithClientKind CliAPI]) (\<lambda>r. case r of
        Inl e \<Rightarrow> ret (Inl (Errorf ''Unable to start onboarding inventory API server client''))
      | Inr c \<Rightarrow> ret (Inr (Some c))))"

definition NewInteractiveOnboardingService ::
  "op_env \<Rightarrow> client option \<Rightarrow> string \<Rightarrow> bool \<Rightarrow> bool \<Rightarrow> string \<Rightarrow> (goerr + onboarding_service) option op" where
  "NewInteractiveOnboardingService E invClient inventoryAdr enableTracing enableAuth rbacRules = (case invClient of
     None \<Rightarrow> ret (Some (Inl (Errorf ''invClient is nil in NewInteractiveOnboardingService'')))
   | Some c \<Rightarrow>
       or_exit (if enableAuth then call (OpRbac rbacRules) (\<lambda>l. op_rbac E l rbacRules) else ret None)
       (bnd (api_client E inventoryAdr enableTracing) (\<lambda>r. case r of
          Inl e \<Rightarrow> ret (Some (Inl e))
        | Inr api \<Rightarrow> ret (Some (Inr \<lparr>svc_invClient = c, svc_invClientAPI = api,
            svc_rbac = (if enableAuth then Some rbacRules else None), svc_authEnabled = enableAuth\<rparr>)))))"

definition NewNonInteractiveOnboardingService ::
  "op_env \<Rightarrow> client option \<Rightarrow> string \<Rightarrow> bool \<Rightarrow> (goerr + onboarding_service) op" where
  "NewNonInteractiveOnboardingService E invClient inventoryAdr enableTracing = (case invClient of
     None \<Rightarrow> ret (Inl (Errorf ''invClient is nil in NonInteractiveOnboardingService''))
   | Some c \<Rightarrow> bnd (api_client E inventoryAdr enableTracing) (\<lambda>r. case r of
       Inl e \<Rightarrow> ret (Inl e)
     | Inr api \<Rightarrow> ret (Inr \<lparr>svc_invClient = c, svc_invClientAPI = api,
         svc_rbac = None, svc_authEnabled = False\<rparr>)))"

section \<open>The servers\<close>

record sb_config =
  sb_ServerAddress :: string
  sb_InventoryAddress :: string
  sb_EnableTracing :: bool
  sb_EnableMetrics :: bool
  sb_MetricsAddress :: string
  sb_EnableAuth :: bool
  sb_RBAC :: string

record sbnio_config =
  nio_ServerAddressNio :: string
  nio_InventoryAddress :: string
  nio_EnableTracing :: bool

record sb_handler =
  sbh_invClient :: "client option"
  sbh_cfg :: sb_config

record sbnio_handler =
  sbn_invClient :: "client option"
  sbn_cfg :: sbnio_config

definition NewSBHandler :: "op_env \<Rightarrow> client option \<Rightarrow> sb_config \<Rightarrow> (goerr + sb_handler) op" where
  "NewSBHandler E invClient cfg =
     bnd (call (OpListen (sb_ServerAddress cfg)) (\<lambda>l. op_listen E l (sb_ServerAddress cfg))) (\<lambda>err. case err of
       Some e \<Rightarrow> ret (Inl e) | None \<Rightarrow> ret (Inr \<lparr>sbh_invClient = invClient, sbh_cfg = cfg\<rparr>))"

definition NewSBNioHandler :: "op_env \<Rightarrow> client option \<Rightarrow> sbnio_config \<Rightarrow> (goerr + sbnio_handler) op" where
  "NewSBNioHandler E invClient cfg =
     bnd (call (OpListen (nio_ServerAddressNio cfg)) (\<lambda>l. op_listen E l (nio_ServerAddressNio cfg))) (\<lambda>err. case err of
       Some e \<Rightarrow> ret (Inl e) | None \<Rightarrow> ret (Inr \<lparr>sbn_invClient = invClient, sbn_cfg = cfg\<rparr>))"

text \<open>\<open>Start\<close> leaves a goroutine behind that serves: the call \<open>OpServe\<close>.\<close>

definition SBHandler_Start :: "op_env \<Rightarrow> sb_handler \<Rightarrow> error option op" where
  "SBHandler_Start E sbh = (let cfg = sbh_cfg sbh in
     unless_exited (NewInteractiveOnboardingService E (sbh_invClient sbh) (sb_InventoryAddress cfg)
         (sb_EnableTracing cfg) (sb_EnableAuth cfg) (sb_RBAC cfg)) (\<lambda>r. case r of
       Inl e \<Rightarrow> ret (Some (Some e))
     | Inr svc \<Rightarrow>
         let unaryInter = [TenantInterceptor] @ (if sb_EnableMetrics cfg then [MetricsInterceptor] else []) in
         bnd (if sb_EnableMetrics cfg then op_do (OpMetricsExporter (sb_MetricsAddress cfg)) else ret ()) (\<lambda>_.
         bnd (op_do (OpServe InteractiveOnboarding (sb_ServerAddress cfg) unaryInter svc)) (\<lambda>_. ret (Some None)))))"

definition SBNioHandler_Start :: "op_env \<Rightarrow> sbnio_handler \<Rightarrow> error op" where
  "SBNioHandler_Start E sbhnio = (let cfg = sbn_cfg sbhnio in
     bnd (NewNonInteractiveOnboardingService E (sbn_invClient sbhnio) (nio_InventoryAddress cfg) (nio_EnableTracing cfg)) (\<lambda>r. case r of
       Inl e \<Rightarrow> ret (Some e)
     | Inr svc \<Rightarrow> bnd (op_do (OpServe NonInteractiveOnboarding (nio_ServerAddressNio cfg) [] svc)) (\<lambda>_. ret None)))"

section \<open>The process\<close>

record om_flags =
  omf_serverAddress :: string
  omf_serverAddressNio :: string
  omf_inventoryAddress :: string
  omf_oamServerAddress :: string
  omf_enableTracing :: bool
  omf_enableMetrics :: bool
  omf_metricsAddress :: string
  omf_traceURL :: string
  omf_enableAuth :: bool
  omf_rbacRules :: string

definition default_om_flags :: om_flags where
  "default_om_flags = \<lparr>omf_serverAddress = ''0.0.0.0:50054'', omf_serverAddressNio = ''0.0.0.0:50055'',
     omf_inventoryAddress = ''localhost:50051'', omf_oamServerAddress = '''', omf_enableTracing = False,
     omf_enableMetrics = False, omf_metricsAddress = ''0.0.0.0:8081'', omf_traceURL = '''',
     omf_enableAuth = True, omf_rbacRules = ''/rego/authz.rego''\<rparr>"

text \<open>Whether there is something to clean up at the end; the error is only logged.\<close>

definition setupTracing :: "op_env \<Rightarrow> string \<Rightarrow> bool op" where
  "setupTracing E traceURL =
     bnd (call (OpTraceExporter traceURL) (\<lambda>l. op_trace_exporter E l traceURL)) (\<lambda>(cleanup, exportErr). ret cleanup)"

definition setupOamServerAndSetReady :: "bool \<Rightarrow> string \<Rightarrow> unit op" where
  "setupOamServerAndSetReady enableTracing oamServerAddress = (if oamServerAddress \<noteq> '''' then
       bnd (op_do OpWgAdd) (\<lambda>_. bnd (op_do (OpOamServer oamServerAddress enableTracing)) (\<lambda>_. op_do OpReady))
     else ret ())"

text \<open>From the Inventory client to the start of the controller.\<close>

definition om_init :: "op_env \<Rightarrow> om_flags \<Rightarrow> om_env \<Rightarrow> client option op" where
  "om_init E fl OE =
     got_or_exit (NewOnboardingInventoryClientWithOptions E [WithInventoryAddress (omf_inventoryAddress fl),
         WithEnableTracing (omf_enableTracing fl), WithEnableMetrics (omf_enableMetrics fl)]) (\<lambda>invClient.
     let secret = getenv E ''ONBOARDING_CREDENTIALS_SECRET_NAME'' in
     if secret = '''' then exited else
     or_exit (call (OpSecrets [secret]) (\<lambda>l. op_secrets E l [secret]))
     (or_exit (call OpAuthInit (op_auth_init E))
     (bnd (as_dk E GetInfraConfig) (\<lambda>c.
      or_exit (embed OpOm om_part (Controller_Start OE (op_templates E) (cfg_SkipOSProvisioning c)))
        (ret (Some invClient))))))"

definition om_interactive :: "op_env \<Rightarrow> om_flags \<Rightarrow> client \<Rightarrow> bool option op" where
  "om_interactive E fl invClient =
     got_or_exit (NewSBHandler E (Some invClient) \<lparr>sb_ServerAddress = omf_serverAddress fl,
         sb_InventoryAddress = omf_inventoryAddress fl, sb_EnableTracing = omf_enableTracing fl,
         sb_EnableMetrics = omf_enableMetrics fl, sb_MetricsAddress = omf_metricsAddress fl,
         sb_EnableAuth = omf_enableAuth fl, sb_RBAC = omf_rbacRules fl\<rparr>) (\<lambda>sbHandler.
     unless_exited (SBHandler_Start E sbHandler) (\<lambda>err. if err \<noteq> None then exited else ret (Some True)))"

definition om_non_interactive :: "op_env \<Rightarrow> om_flags \<Rightarrow> client \<Rightarrow> unit option op" where
  "om_non_interactive E fl invClient =
     got_or_exit (NewSBNioHandler E (Some invClient) \<lparr>nio_ServerAddressNio = omf_serverAddressNio fl,
         nio_InventoryAddress = omf_inventoryAddress fl, nio_EnableTracing = omf_enableTracing fl\<rparr>) (\<lambda>sbnioHandler.
     or_exit (SBNioHandler_Start E sbnioHandler) (ret (Some ())))"

text \<open>The value says whether there is an interactive handler.\<close>

definition om_serve :: "op_env \<Rightarrow> om_flags \<Rightarrow> client \<Rightarrow> bool option op" where
  "om_serve E fl invClient =
     bnd (as_dk E GetInfraConfig) (\<lambda>c.
     unless_exited (if cfg_SkipOSProvisioning c then ret (Some False) else om_interactive E fl invClient) (\<lambda>sb.
     unless_exited (om_non_interactive E fl invClient) (\<lambda>_. ret (Some sb))))"

text \<open>The counter of the wait group. The OAM server may have counted itself down when the main
  goroutine comes to its own \<open>wg.Done\<close>; below zero it panics.\<close>

fun wg_change :: "op_call \<Rightarrow> int" where
  "wg_change OpWgAdd = 1"
| "wg_change OpWgDone = -1"
| "wg_change OpOamDone = -1"
| "wg_change _ = 0"

definition wg_left :: "op_call list \<Rightarrow> int" where
  "wg_left l = sum_list (map wg_change l)"

definition oam_ends :: "op_env \<Rightarrow> om_flags \<Rightarrow> unit op" where
  "oam_ends E fl = bnd (ask (op_oam_done E)) (\<lambda>d.
     if d \<and> omf_oamServerAddress fl \<noteq> '''' then op_do OpOamDone else ret ())"

definition om_shutdown :: "op_env \<Rightarrow> om_flags \<Rightarrow> bool \<Rightarrow> unit option op" where
  "om_shutdown E fl sb =
     bnd (op_do OpTerminate) (\<lambda>_.
     bnd (if sb then op_do (OpStopServer InteractiveOnboarding) else ret ()) (\<lambda>_.
     bnd (op_do (OpStopServer NonInteractiveOnboarding)) (\<lambda>_.
     bnd (op_do OpStopController) (\<lambda>_.
     bnd (op_do OpCloseInv) (\<lambda>_.
     bnd (oam_ends E fl) (\<lambda>_.
     bnd (call OpWgDone wg_left) (\<lambda>n. if n \<le> 0 then panic else ret (Some ()))))))))"

definition om_body :: "op_env \<Rightarrow> om_flags \<Rightarrow> om_env \<Rightarrow> unit option op" where
  "om_body E fl OE =
     unless_exited (om_init E fl OE) (\<lambda>invClient.
     unless_exited (om_serve E fl invClient) (\<lambda>sb.
     bnd (setupOamServerAndSetReady (omf_enableTracing fl) (omf_oamServerAddress fl)) (\<lambda>_.
     bnd (op_do OpSignal) (\<lambda>_. om_shutdown E fl sb))))"

definition om_main :: "op_env \<Rightarrow> om_flags \<Rightarrow> unit option op" where
  "om_main E fl =
     unless_exited (MustEnsureRequired E) (\<lambda>OE.
     or_exit (as_dk E config_Read)
     (bnd (if omf_enableTracing fl then setupTracing E (omf_traceURL fl) else ret False) (\<lambda>cleanup.
      if cleanup then defer_unless_exited (om_body E fl OE) (op_do OpTraceCleanup) else om_body E fl OE)))"

end
