(* ===== verification/OmProcThms.thy ===== *)
theory OmProcThms
  imports SampleEnv DkRuns OmProcess
begin

text \<open>
  Properties of the Onboarding Manager process: the order in which it starts and stops, what it
  needs before it serves, and how it ends.
\<close>

section \<open>The order of the start and of the end\<close>

fun om_stage :: "op_call \<Rightarrow> nat" where
  "om_stage (OpDk c) = 1"
| "om_stage (OpTraceExporter u) = 2"
| "om_stage (OpInvClient cfg) = (if icc_ClientKind cfg = CliRM then 3 else 7)"
| "om_stage (OpSecrets ss) = 4"
| "om_stage OpAuthInit = 5"
| "om_stage (OpOm c) = 6"
| "om_stage (OpListen a) = 7"
| "om_stage (OpRbac r) = 7"
| "om_stage (OpMetricsExporter a) = 7"
| "om_stage (OpServe k a ics s) = 7"
| "om_stage OpWgAdd = 8"
| "om_stage (OpOamServer a t) = 8"
| "om_stage OpReady = 8"
| "om_stage OpSignal = 9"
| "om_stage OpTerminate = 10"
| "om_stage (OpStopServer k) = 11"
| "om_stage OpStopController = 12"
| "om_stage OpCloseInv = 13"
| "om_stage OpOamDone = 14"
| "om_stage OpWgDone = 14"
| "om_stage OpTraceCleanup = 15"

abbreviation stages :: "nat \<Rightarrow> nat \<Rightarrow> 'a op \<Rightarrow> bool" where
  "stages \<equiv> staged om_stage"

lemma emits_op_do [emits_intro]: "P c \<Longrightarrow> emits P (op_do c)"
  unfolding op_do_def by (intro emits_intro)

lemma op_do_run [simp, io_run]: "run_io (op_do c) l = (Ret (), l @ [c])"
  by (simp add: op_do_def)

lemma grows_config: "grows (config_Read D)" "grows (GetInfraConfig D)"
  unfolding config_Read_def updateConfig_def DownloadENManifest_def SetInfraConfig_def GetInfraConfig_def
  by (auto intro!: emits_intro split: option.split list.split)

lemma emits_as_dk: "(\<And>D. grows (m D)) \<Longrightarrow> (\<And>c. P (OpDk c)) \<Longrightarrow> emits P (as_dk E m)"
  unfolding as_dk_def by (intro emits_intro dkp.emits_embed) (auto intro: emits_mono)

lemma emits_config:
  "(\<And>c. P (OpDk c)) \<Longrightarrow> emits P (as_dk E config_Read)" "(\<And>c. P (OpDk c)) \<Longrightarrow> emits P (as_dk E GetInfraConfig)"
  by (rule emits_as_dk, rule grows_config, assumption)+

lemma GetInfraConfig_calls: "emits P (as_dk E GetInfraConfig)"
  unfolding as_dk_def GetInfraConfig_def by (intro emits_intro dkp.emits_embed)

lemma emits_Controller_Start: "(\<And>c. P (OpOm c)) \<Longrightarrow> emits P (embed OpOm om_part (Controller_Start OE ts skip))"
proof (rule omp.emits_embed)
  assume "\<And>c. P (OpOm c)"
  moreover have "grows (Controller_Start OE ts skip)"
    unfolding Controller_Start_def
    by (auto intro!: emits_intro emits_Bootstrap emits_mono [OF emits_reconcileAll])
  ultimately show "emits (\<lambda>d. P (OpOm d)) (Controller_Start OE ts skip)" by (auto intro: emits_mono)
qed

lemma stage_of: "om_stage c = k \<Longrightarrow> stages k k (op_do c)"
  by (rule staged_emits) (intro emits_intro)

lemma emits_inv_client:
  "P (OpInvClient (inventory_client_config (foldl apply_inv_option
      \<lparr>io_InventoryAddress = '''', io_EnableTracing = False, io_EnableMetrics = False, io_ClientKind = CliRM\<rparr> opts))) \<Longrightarrow>
   emits P (NewOnboardingInventoryClientWithOptions E opts)"
  unfolding NewOnboardingInventoryClientWithOptions_def Let_def by (intro emits_intro)

definition serving :: "op_call \<Rightarrow> bool" where
  "serving c \<longleftrightarrow> om_stage c = 7"

lemma emits_api_client: "emits serving (api_client E adr tr)"
  unfolding api_client_def
  by (auto intro!: emits_intro emits_inv_client simp: serving_def inventory_client_config_def)

lemma emits_interactive: "emits serving (om_interactive E fl c)"
  unfolding om_interactive_def NewSBHandler_def SBHandler_Start_def NewInteractiveOnboardingService_def Let_def
  by (auto intro!: emits_intro emits_api_client simp: serving_def)

lemma emits_non_interactive: "emits serving (om_non_interactive E fl c)"
  unfolding om_non_interactive_def NewSBNioHandler_def SBNioHandler_Start_def NewNonInteractiveOnboardingService_def Let_def
  by (auto intro!: emits_intro emits_api_client simp: serving_def)

lemma emits_om_serve: "emits serving (om_serve E fl c)"
  unfolding om_serve_def
  by (auto intro!: emits_intro GetInfraConfig_calls emits_interactive emits_non_interactive)

lemma stages_om_init: "stages 3 6 (om_init E fl OE)"
proof -
  have ctl: "stages 6 6 (bnd (as_dk E GetInfraConfig) (\<lambda>c.
      or_exit (embed OpOm om_part (Controller_Start OE (op_templates E) (cfg_SkipOSProvisioning c))) (ret (Some x))))" for x :: client
    by (rule staged_emits) (intro emits_intro GetInfraConfig_calls emits_Controller_Start, simp)
  have auth: "stages 5 6 (or_exit (call OpAuthInit (op_auth_init E)) (bnd (as_dk E GetInfraConfig) (\<lambda>c.
      or_exit (embed OpOm om_part (Controller_Start OE (op_templates E) (cfg_SkipOSProvisioning c))) (ret (Some x)))))" for x :: client
    by (rule staged_exit_then(2) [OF staged_call ctl]) simp_all
  have secrets: "stages 4 6 (or_exit (call (OpSecrets [t]) (\<lambda>l. op_secrets E l [t]))
     (or_exit (call OpAuthInit (op_auth_init E)) (bnd (as_dk E GetInfraConfig) (\<lambda>c.
      or_exit (embed OpOm om_part (Controller_Start OE (op_templates E) (cfg_SkipOSProvisioning c))) (ret (Some x))))))"
    for x :: client and t
    by (rule staged_exit_then(2) [OF staged_call auth]) simp_all
  have cli: "stages 3 3 (NewOnboardingInventoryClientWithOptions E [WithInventoryAddress adr,
         WithEnableTracing tr, WithEnableMetrics me])" for adr tr me
    by (rule staged_emits) (rule emits_inv_client, simp add: inventory_client_config_def)
  show ?thesis
    unfolding om_init_def Let_def
    by (rule staged_exit_then(3) [OF cli]) (rule staged_cases(1) [OF staged_exited secrets], simp_all)
qed

lemma stages_om_shutdown: "stages 10 14 (om_shutdown E fl sb)"
proof -
  have e: "stages 14 14 (bnd (oam_ends E fl) (\<lambda>_. bnd (call OpWgDone wg_left) (\<lambda>n. if n \<le> 0 then panic else ret (Some ()))))"
    unfolding oam_ends_def by (rule staged_emits) (auto intro!: emits_intro)
  have d: "stages 13 14 (bnd (op_do OpCloseInv) (\<lambda>_. bnd (oam_ends E fl) (\<lambda>_. bnd (call OpWgDone wg_left) (\<lambda>n. if n \<le> 0 then panic else ret (Some ())))))"
    by (rule staged_then [OF stage_of e]) simp_all
  have c: "stages 12 14 (bnd (op_do OpStopController) (\<lambda>_. bnd (op_do OpCloseInv) (\<lambda>_. bnd (oam_ends E fl) (\<lambda>_. bnd (call OpWgDone wg_left) (\<lambda>n. if n \<le> 0 then panic else ret (Some ()))))))"
    by (rule staged_then [OF stage_of d]) simp_all
  have b: "stages 11 14 (bnd (if sb then op_do (OpStopServer InteractiveOnboarding) else ret ()) (\<lambda>_.
     bnd (op_do (OpStopServer NonInteractiveOnboarding)) (\<lambda>_.
     bnd (op_do OpStopController) (\<lambda>_. bnd (op_do OpCloseInv) (\<lambda>_. bnd (oam_ends E fl) (\<lambda>_. bnd (call OpWgDone wg_left) (\<lambda>n. if n \<le> 0 then panic else ret (Some ()))))))))"
    by (rule staged_then [OF _ staged_then [OF stage_of c]]) (auto intro: stage_of staged_ret)
  show ?thesis unfolding om_shutdown_def by (rule staged_then [OF stage_of b]) simp_all
qed

lemma stages_om_body: "stages 3 14 (om_body E fl OE)"
proof -
  have stop: "stages 9 14 (bnd (op_do OpSignal) (\<lambda>_. om_shutdown E fl sb))" for sb
    by (rule staged_then [OF stage_of stages_om_shutdown]) simp_all
  have oam: "stages 8 8 (setupOamServerAndSetReady t a)" for t a
    unfolding setupOamServerAndSetReady_def by (rule staged_emits) (auto intro!: emits_intro)
  have run: "stages 8 14 (bnd (setupOamServerAndSetReady t a) (\<lambda>_. bnd (op_do OpSignal) (\<lambda>_. om_shutdown E fl sb)))" for t a sb
    by (rule staged_then [OF oam stop]) simp_all
  have serve: "stages 7 7 (om_serve E fl c)" for c
    by (rule staged_emits) (rule emits_mono [OF emits_om_serve], simp add: serving_def)
  have rest: "stages 7 14 (unless_exited (om_serve E fl c) (\<lambda>sb.
     bnd (setupOamServerAndSetReady t a) (\<lambda>_. bnd (op_do OpSignal) (\<lambda>_. om_shutdown E fl sb))))" for c t a
    by (rule staged_exit_then(1) [OF serve run]) simp_all
  show ?thesis
    unfolding om_body_def by (rule staged_unless_exited [OF stages_om_init staged_mono [OF rest]]) simp_all
qed

text \<open>
  C37. The manager starts and stops in order, whatever its run: it reads the configuration, sets up
  tracing, connects to the Inventory, initialises secrets and authorization, starts the controller
  and only then serves; after the signal it stops its servers, then the controller, then it closes
  the Inventory client and counts the wait group down; the clean-up of tracing is the very last.
\<close>

theorem manager_starts_and_stops_in_order: "sorted (map om_stage (calls_of (om_main E fl)))"
proof -
  have env: "stages 1 1 (MustEnsureRequired E)"
    by (rule staged_emits) (auto simp: MustEnsureRequired_def MustGetEnv_def intro!: emits_intro)
  have conf: "stages 1 1 (as_dk E config_Read)"
    by (rule staged_emits) (rule emits_config, simp)
  have tr: "stages 2 2 (if omf_enableTracing fl then setupTracing E (omf_traceURL fl) else ret False)"
    by (rule staged_emits) (auto simp: setupTracing_def intro!: emits_intro)
  have body: "stages 3 15 (if b then defer_unless_exited (om_body E fl OE) (op_do OpTraceCleanup) else om_body E fl OE)" for b OE
    using staged_mono [OF stages_om_body order_refl, of 15] staged_mono [OF stage_of, of OpTraceCleanup 15 14 15]
    by (intro staged_cases(1) staged_defer [OF stages_om_body]) simp_all
  have "stages 1 15 (or_exit (as_dk E config_Read) (bnd (if omf_enableTracing fl then setupTracing E (omf_traceURL fl) else ret False)
      (\<lambda>b. if b then defer_unless_exited (om_body E fl OE) (op_do OpTraceCleanup) else om_body E fl OE)))" for OE
    by (rule staged_exit_then(2) [OF conf staged_then [OF tr body]]) simp_all
  then have "stages 1 15 (om_main E fl)"
    unfolding om_main_def by (intro staged_unless_exited [OF env]) simp_all
  from stagedD [OF this, of "[]"] show ?thesis
    unfolding calls_of_def by (metis append_Nil prod.collapse)
qed

section \<open>What it takes to serve\<close>

lemma MustEnsureRequired_run:
  "run_io (MustEnsureRequired E) l = (if op_lookup_env E ''TINKER_VERSION'' \<in> {None, Some ''''} \<or>
      op_lookup_env E ''TINKER_ARTIFACT_NAME'' \<in> {None, Some ''''} \<or>
      op_lookup_env E ''DEFAULT_K8S_NAMESPACE'' \<in> {None, Some ''''} then Ret None else Ret (Some (package_vars E)), l)"
  by (auto simp: MustEnsureRequired_def MustGetEnv_def package_vars_def getenv_def split: option.split)

lemma om_main_body:
  assumes "run_io (om_main E fl) [] = (r, l')" and "c \<in> set l'" and "3 \<le> om_stage c" and "om_stage c \<le> 14"
  obtains OE l1 l2 where "run_io (MustEnsureRequired E) [] = (Ret (Some OE), [])"
    and "\<forall>c \<in> set l1. om_stage c \<le> 2" and "run_io (om_body E fl OE) l1 = (r, l2)"
    and "l' = l2 \<or> l' = l2 @ [OpTraceCleanup]" and "c \<in> set l2"
    and "\<exists>lc ys. run_io (as_dk E config_Read) [] = (Ret None, lc) \<and> l1 = lc @ ys"
proof -
  have "run_io (MustEnsureRequired E) [] \<noteq> (Ret None, [])"
    using assms(1,2) by (auto simp: om_main_def)
  then obtain OE where OE: "run_io (MustEnsureRequired E) [] = (Ret (Some OE), [])"
    by (simp add: MustEnsureRequired_run split: if_splits)
  obtain x lc where conf: "run_io (as_dk E config_Read) [] = (x, lc)" by fastforce
  have "emits (\<lambda>c. om_stage c = 1) (as_dk E config_Read)" by (rule emits_config) simp
  from emitsD [OF this conf] have lc: "\<forall>c \<in> set lc. om_stage c = 1" by (auto simp: list_all_iff)
  with assms(1-3) OE conf have "x = Ret None"
    by (auto simp: om_main_def split: outcome.splits option.splits)
  let ?tr = "if omf_enableTracing fl then setupTracing E (omf_traceURL fl) else ret False"
  obtain y lt where tr: "run_io ?tr lc = (y, lt)" by fastforce
  then have lt: "\<forall>c \<in> set lt. om_stage c \<le> 2" and "\<exists>b. y = Ret b" and ext: "\<exists>ys. lt = lc @ ys"
    using lc by (auto simp: setupTracing_def split: prod.splits if_splits)
  then obtain b where tr: "run_io ?tr lc = (Ret b, lt)" using tr by blast
  obtain y l2 where body: "run_io (om_body E fl OE) lt = (y, l2)" by fastforce
  have "r = y" and l': "l' = l2 \<or> l' = l2 @ [OpTraceCleanup]"
    using assms(1) OE conf \<open>x = Ret None\<close> tr body
    by (auto simp: om_main_def split: if_splits outcome.splits option.splits)
  moreover from l' assms(2,4) have "c \<in> set l2" by auto
  ultimately show thesis using that [OF OE lt] body conf ext \<open>x = Ret None\<close> by blast
qed

lemma om_body_serve:
  assumes "run_io (om_body E fl OE) l = (r, l')" and "\<forall>c \<in> set l. om_stage c \<le> 6" and "c \<in> set l'" and "7 \<le> om_stage c"
  obtains cli l1 where "run_io (om_init E fl OE) l = (Ret (Some cli), l1)" and "\<forall>c \<in> set l1. om_stage c \<le> 6"
    and "run_io (unless_exited (om_serve E fl cli) (\<lambda>sb. bnd (setupOamServerAndSetReady (omf_enableTracing fl)
      (omf_oamServerAddress fl)) (\<lambda>_. bnd (op_do OpSignal) (\<lambda>_. om_shutdown E fl sb)))) l1 = (r, l')"
proof -
  obtain x l1 where init: "run_io (om_init E fl OE) l = (x, l1)" by fastforce
  from stagedD [OF stages_om_init init] assms(2) have early: "\<forall>c \<in> set l1. om_stage c \<le> 6" by auto
  have "l' \<noteq> l1" using early assms(3,4) by fastforce
  then obtain cli where "x = Ret (Some cli)"
    using assms(1) init by (auto simp: om_body_def split: outcome.splits option.splits)
  with assms(1) init early that show thesis by (auto simp: om_body_def)
qed

lemma skips_now_run [simp]:
  "run_io (as_dk E GetInfraConfig) l = (Ret (current_config (op_dk E l) (List.map_filter dk_part l)), l)"
  by (simp add: as_dk_def GetInfraConfig_def embed_def Let_def)

text \<open>Whether the configuration in force after the calls \<open>l\<close> of a run skips provisioning.\<close>

definition skips_at :: "op_env \<Rightarrow> op_call list \<Rightarrow> bool" where
  "skips_at E l = cfg_SkipOSProvisioning (current_config (op_dk E l) (List.map_filter dk_part l))"

text \<open>What the start does, call by call: the client of the Inventory, the secrets, the
  authorization, and the controller in the profile that the configuration has by then.\<close>

definition initialised :: "op_env \<Rightarrow> om_env \<Rightarrow> op_call list \<Rightarrow> op_call list \<Rightarrow> bool" where
  "initialised E OE l l' \<longleftrightarrow> (\<exists>cfg n. n \<noteq> [] \<and> op_inv_client E l cfg = None \<and>
     op_secrets E (l @ [OpInvClient cfg]) [n] = None \<and>
     op_auth_init E (l @ [OpInvClient cfg, OpSecrets [n]]) = None \<and>
     (let lc = l @ [OpInvClient cfg, OpSecrets [n], OpAuthInit] in
      run_io (embed OpOm om_part (Controller_Start OE (op_templates E) (skips_at E lc))) lc = (Ret None, l')))"

lemma om_init_run:
  assumes "run_io (om_init E fl OE) l = (Ret (Some cli), l')"
  shows "cli = CliRM \<and> initialised E OE l l'"
  using assms
  by (auto simp: om_init_def NewOnboardingInventoryClientWithOptions_def inventory_client_config_def Let_def
      initialised_def skips_at_def split: if_splits outcome.splits option.splits prod.splits)

text \<open>The service of a server: the client of the manager, the second one for zero-touch
  provisioning, and for the interactive service the tenant check and the rules.\<close>

fun good_service :: "om_flags \<Rightarrow> svc_kind \<Rightarrow> op_call \<Rightarrow> bool" where
  "good_service fl k (OpServe k' a ics s) \<longleftrightarrow> k' = k \<and> svc_invClient s = CliRM \<and>
     svc_invClientAPI s = (if omf_inventoryAddress fl = '''' then None else Some CliAPI) \<and>
     (if k = InteractiveOnboarding then TenantInterceptor \<in> set ics \<and> svc_authEnabled s = omf_enableAuth fl \<and>
        svc_rbac s = (if omf_enableAuth fl then Some (omf_rbacRules fl) else None)
      else \<not> svc_authEnabled s)"
| "good_service fl k _ \<longleftrightarrow> True"

lemma api_client_run: "run_io (api_client E adr tr) l = (Ret (Inr api), l') \<Longrightarrow>
    api = (if adr = '''' then None else Some CliAPI)"
  by (auto simp: api_client_def NewOnboardingInventoryClientWithOptions_def inventory_client_config_def Let_def
      split: if_splits option.splits)

lemma good_api_client: "emits (good_service fl k) (api_client E adr tr)"
  unfolding api_client_def by (auto intro!: emits_intro emits_inv_client)

lemma good_interactive_start: "emits (good_service fl InteractiveOnboarding)
    (SBHandler_Start E \<lparr>sbh_invClient = Some CliRM, sbh_cfg = \<lparr>sb_ServerAddress = omf_serverAddress fl,
         sb_InventoryAddress = omf_inventoryAddress fl, sb_EnableTracing = t,
         sb_EnableMetrics = m, sb_MetricsAddress = a,
         sb_EnableAuth = omf_enableAuth fl, sb_RBAC = omf_rbacRules fl\<rparr>\<rparr>)"
  unfolding SBHandler_Start_def unless_exited_def Let_def
proof (rule emits_bnd_run, goal_cases)
  case 1
  then show ?case unfolding NewInteractiveOnboardingService_def by (auto intro!: emits_intro good_api_client)
next
  case (2 l r l')
  then have "r = Some (Inr svc) \<Longrightarrow> svc_invClient svc = CliRM \<and> svc_authEnabled svc = omf_enableAuth fl \<and>
      svc_invClientAPI svc = (if omf_inventoryAddress fl = '''' then None else Some CliAPI) \<and>
      svc_rbac svc = (if omf_enableAuth fl then Some (omf_rbacRules fl) else None)" for svc
    by (auto simp: NewInteractiveOnboardingService_def dest!: api_client_run
        split: outcome.splits option.splits sum.splits prod.splits if_splits)
  then show ?case by (auto intro!: emits_intro split: option.split sum.split)
qed

lemma good_interactive: "emits (good_service fl InteractiveOnboarding) (om_interactive E fl CliRM)"
  unfolding om_interactive_def got_or_exit_def
proof (rule emits_bnd_run, goal_cases)
  case 1
  then show ?case unfolding NewSBHandler_def by (auto intro!: emits_intro)
next
  case (2 l r l')
  then show ?case
    by (auto simp: NewSBHandler_def intro!: emits_intro good_interactive_start split: sum.split option.splits)
qed

lemma good_non_interactive: "emits (good_service fl NonInteractiveOnboarding) (om_non_interactive E fl CliRM)"
  unfolding om_non_interactive_def got_or_exit_def
proof (rule emits_bnd_run, goal_cases)
  case 1
  then show ?case unfolding NewSBNioHandler_def by (auto intro!: emits_intro)
next
  case (2 l r l')
  have "emits (good_service fl NonInteractiveOnboarding) (SBNioHandler_Start E \<lparr>sbn_invClient = Some CliRM,
      sbn_cfg = \<lparr>nio_ServerAddressNio = a, nio_InventoryAddress = omf_inventoryAddress fl, nio_EnableTracing = t\<rparr>\<rparr>)" for a t
    unfolding SBNioHandler_Start_def NewNonInteractiveOnboardingService_def Let_def
    by (simp add: emits_bnd_run [OF good_api_client]) (rule emits_bnd_run [OF good_api_client],
      auto intro!: emits_intro dest!: api_client_run split: sum.split)
  then show ?case using 2
    by (auto simp: NewSBNioHandler_def intro!: emits_intro split: sum.split option.splits)
qed

lemma om_serve_good:
  assumes "run_io (om_serve E fl CliRM) l = (r, l')" and "OpServe k a ics s \<in> set l'" and "OpServe k a ics s \<notin> set l"
  shows "good_service fl k (OpServe k a ics s)" and "k = InteractiveOnboarding \<Longrightarrow> \<not> skips_at E l"
proof -
  let ?c = "OpServe k a ics s"
  let ?first = "if skips_at E l then ret (Some False) else om_interactive E fl CliRM"
  have run: "run_io (unless_exited ?first (\<lambda>sb. unless_exited (om_non_interactive E fl CliRM) (\<lambda>_. ret (Some sb)))) l = (r, l')"
    using assms(1) by (simp add: om_serve_def skips_at_def)
  obtain x l1 where one: "run_io ?first l = (x, l1)" by fastforce
  have "emits (good_service fl InteractiveOnboarding) ?first" by (intro emits_if emits_ret good_interactive)
  from emitsD [OF this one] have first: "?c \<in> set l1 \<Longrightarrow> good_service fl InteractiveOnboarding ?c"
    using assms(3) by (auto simp: list_all_iff simp del: good_service.simps)
  obtain y l2 where two: "run_io (om_non_interactive E fl CliRM) l1 = (y, l2)" by fastforce
  from emitsD [OF good_non_interactive two] have second: "?c \<in> set l2 \<Longrightarrow> ?c \<notin> set l1 \<Longrightarrow> good_service fl NonInteractiveOnboarding ?c"
    by (auto simp: list_all_iff simp del: good_service.simps)
  have "l' = l1 \<or> l' = l2" using run one two by (auto split: outcome.splits option.splits)
  then have "?c \<in> set l1 \<or> ?c \<in> set l2" using assms(2) by auto
  then have "good_service fl InteractiveOnboarding ?c \<or> good_service fl NonInteractiveOnboarding ?c"
    using first second by blast
  then show "good_service fl k ?c" by (cases k) (auto split: if_splits)
  show "k = InteractiveOnboarding \<Longrightarrow> \<not> skips_at E l"
    using \<open>?c \<in> set l1 \<or> ?c \<in> set l2\<close> first second one assms(3) by fastforce
qed

text \<open>
  C38. Nodes are served only by a manager that is ready: in the very run that serves them, the
  environment variables were set, then the configuration was read, then the client of the
  Inventory was made, the secrets and the authorization were initialised and the controller with
  the Tinkerbell templates was started, all without error, before the first node was served. Both
  services write through the resource manager's client. The interactive one checks tenants, checks
  the rules when authorization is enabled, and is there only when the configuration in force
  when the servers are started provisions machines.
\<close>

theorem served_by_an_initialised_manager:
  assumes "run_io (om_main E fl) [] = (r, l)" and "OpServe k a ics s \<in> set l"
  shows "\<exists>OE lc xs li ys. run_io (MustEnsureRequired E) [] = (Ret (Some OE), []) \<and> k8s_namespace OE \<noteq> [] \<and>
      run_io (as_dk E config_Read) [] = (Ret None, lc) \<and> initialised E OE (lc @ xs) li \<and>
      l = li @ ys \<and> OpServe k a ics s \<notin> set li \<and>
      good_service fl k (OpServe k a ics s) \<and> (k = InteractiveOnboarding \<longrightarrow> \<not> skips_at E li)"
proof -
  let ?c = "OpServe k a ics s"
  obtain OE l1 l2 where env: "run_io (MustEnsureRequired E) [] = (Ret (Some OE), [])"
    and l1: "\<forall>c \<in> set l1. om_stage c \<le> 2" and body: "run_io (om_body E fl OE) l1 = (r, l2)" "?c \<in> set l2"
    and conf: "\<exists>lc ys. run_io (as_dk E config_Read) [] = (Ret None, lc) \<and> l1 = lc @ ys" and l: "l = l2 \<or> l = l2 @ [OpTraceCleanup]"
    by (rule om_main_body [OF assms]) (simp, simp, rule that)
  from l1 have "\<forall>c \<in> set l1. om_stage c \<le> 6" by force
  from om_body_serve [OF body(1) this body(2)] obtain cli l3 where
    init: "run_io (om_init E fl OE) l1 = (Ret (Some cli), l3)" and l3: "\<forall>c \<in> set l3. om_stage c \<le> 6"
    and run: "run_io (unless_exited (om_serve E fl cli) (\<lambda>sb. bnd (setupOamServerAndSetReady (omf_enableTracing fl)
      (omf_oamServerAddress fl)) (\<lambda>_. bnd (op_do OpSignal) (\<lambda>_. om_shutdown E fl sb)))) l3 = (r, l2)" by auto
  note started = om_init_run [OF init]
  obtain x l4 where serve: "run_io (om_serve E fl CliRM) l3 = (x, l4)" by fastforce
  have late: "emits (\<lambda>c. om_stage c \<noteq> 7) (bnd (setupOamServerAndSetReady (omf_enableTracing fl)
      (omf_oamServerAddress fl)) (\<lambda>_. bnd (op_do OpSignal) (\<lambda>_. om_shutdown E fl sb)))" for sb
    unfolding setupOamServerAndSetReady_def om_shutdown_def oam_ends_def by (auto intro!: emits_intro)
  have "?c \<in> set l4"
  proof (cases "\<exists>sb. x = Ret (Some sb)")
    case True
    with run serve started obtain sb where "run_io (bnd (setupOamServerAndSetReady (omf_enableTracing fl)
      (omf_oamServerAddress fl)) (\<lambda>_. bnd (op_do OpSignal) (\<lambda>_. om_shutdown E fl sb))) l4 = (r, l2)" by auto
    from emitsD [OF late this] body(2) show ?thesis by (fastforce simp: list_all_iff)
  next
    case False
    with run serve started body(2) show ?thesis by (auto split: outcome.splits option.splits)
  qed
  moreover have "?c \<notin> set l3" using l3 by fastforce
  ultimately have good: "good_service fl k ?c" "k = InteractiveOnboarding \<longrightarrow> \<not> skips_at E l3" "?c \<notin> set l3"
    using om_serve_good [OF serve] by blast+
  have "grows (unless_exited (om_serve E fl cli) (\<lambda>sb. bnd (setupOamServerAndSetReady (omf_enableTracing fl)
      (omf_oamServerAddress fl)) (\<lambda>_. bnd (op_do OpSignal) (\<lambda>_. om_shutdown E fl sb))))"
    unfolding setupOamServerAndSetReady_def om_shutdown_def oam_ends_def
    by (auto intro!: emits_intro emits_mono [OF emits_om_serve])
  from growsD [OF this run] l obtain ys where ys: "l = l3 @ ys" by auto
  obtain lc xs where lc: "run_io (as_dk E config_Read) [] = (Ret None, lc)" "l1 = lc @ xs" using conf by blast
  have "k8s_namespace OE \<noteq> ''''"
    using env by (auto simp: MustEnsureRequired_run package_vars_def getenv_def split: if_splits option.splits)
  with env lc started good ys show ?thesis by blast
qed

section \<open>How it ends\<close>

lemma wg_change_early: "\<forall>c \<in> set l. om_stage c \<le> 7 \<Longrightarrow> sum_list (map wg_change l) = 0"
proof (induction l)
  case (Cons c l)
  then show ?case by (cases c) simp_all
qed simp

lemma om_serve_value:
  "run_io (om_serve E fl c) l = (Ret (Some sb), l') \<Longrightarrow> sb \<longleftrightarrow> \<not> skips_at E l"
  by (auto simp: om_serve_def skips_at_def om_interactive_def
      split: if_splits outcome.splits option.splits sum.splits prod.splits)

text \<open>
  C39. A manager that gets its signal stops every server that it has started, the controller and
  its client; then it counts the wait group down instead of waiting for it. Without an OAM server, or when that has counted itself
  down, the counter gets negative and the process ends in a panic.
\<close>

theorem manager_counts_down_what_it_never_added:
  assumes "run_io (om_main E fl) [] = (r, l)" and "OpSignal \<in> set l" and "\<And>l. op_oam_done E l = d"
  shows "r = (if omf_oamServerAddress fl \<noteq> '''' \<and> \<not> d then Ret (Some ()) else Panic) \<and>
    {OpTerminate, OpStopServer NonInteractiveOnboarding, OpStopController, OpCloseInv} \<subseteq> set l \<and>
    (\<forall>k a ics s. OpServe k a ics s \<in> set l \<longrightarrow> OpStopServer k \<in> set l)"
proof -
  obtain OE l1 l2 where l1: "\<forall>c \<in> set l1. om_stage c \<le> 2" and body: "run_io (om_body E fl OE) l1 = (r, l2)" "OpSignal \<in> set l2"
    and l: "l = l2 \<or> l = l2 @ [OpTraceCleanup]"
    by (rule om_main_body [OF assms(1,2)]) (simp, simp, rule that)
  from l1 have "\<forall>c \<in> set l1. om_stage c \<le> 6" by force
  then obtain cli l3 where init: "run_io (om_init E fl OE) l1 = (Ret (Some cli), l3)" and l3: "\<forall>c \<in> set l3. om_stage c \<le> 6"
    and run: "run_io (unless_exited (om_serve E fl cli) (\<lambda>sb. bnd (setupOamServerAndSetReady (omf_enableTracing fl)
      (omf_oamServerAddress fl)) (\<lambda>_. bnd (op_do OpSignal) (\<lambda>_. om_shutdown E fl sb)))) l3 = (r, l2)"
    by (rule om_body_serve [OF body(1) _ body(2)]) (simp, rule that)
  have cli: "cli = CliRM" using om_init_run [OF init] by simp
  obtain x l4 where serve: "run_io (om_serve E fl cli) l3 = (x, l4)" by fastforce
  from emitsD [OF emits_om_serve serve] l3 have early: "\<forall>c \<in> set l4. om_stage c \<le> 7"
    by (fastforce simp: list_all_iff serving_def)
  then have "l2 \<noteq> l4" using body(2) by fastforce
  with run serve obtain sb where "x = Ret (Some sb)" by (auto split: outcome.splits option.splits)
  with run serve have final: "run_io (bnd (setupOamServerAndSetReady (omf_enableTracing fl)
      (omf_oamServerAddress fl)) (\<lambda>_. bnd (op_do OpSignal) (\<lambda>_. om_shutdown E fl sb))) l4 = (r, l2)" by simp
  note steps = setupOamServerAndSetReady_def om_shutdown_def oam_ends_def
  have "r = (if omf_oamServerAddress fl \<noteq> '''' \<and> \<not> d then Ret (Some ()) else Panic)"
    using final by (auto simp: steps assms(3) wg_change_early [OF early] wg_left_def split: if_splits)
  moreover have stopped: "{OpTerminate, OpStopServer NonInteractiveOnboarding, OpStopController, OpCloseInv} \<subseteq> set l2"
    and "sb \<Longrightarrow> OpStopServer InteractiveOnboarding \<in> set l2"
    using final by (auto simp: steps split: if_splits)
  moreover have "OpStopServer k \<in> set l2" if "OpServe k a ics s \<in> set l" for k a ics s
  proof (cases k)
    case InteractiveOnboarding
    have late: "emits (\<lambda>c. om_stage c \<noteq> 7) (bnd (setupOamServerAndSetReady (omf_enableTracing fl)
        (omf_oamServerAddress fl)) (\<lambda>_. bnd (op_do OpSignal) (\<lambda>_. om_shutdown E fl sb)))"
      unfolding steps by (auto intro!: emits_intro)
    have "OpServe k a ics s \<in> set l4"
      using emitsD [OF late final] l that by (fastforce simp: list_all_iff)
    moreover have "OpServe k a ics s \<notin> set l3" using l3 by fastforce
    ultimately have "\<not> skips_at E l3"
      using om_serve_good(2) [OF serve [unfolded cli]] InteractiveOnboarding by blast
    then have sb using om_serve_value serve \<open>x = Ret (Some sb)\<close> by blast
    with InteractiveOnboarding final show ?thesis by (auto simp: steps split: if_splits)
  next
    case NonInteractiveOnboarding
    with stopped show ?thesis by simp
  qed
  ultimately show ?thesis using l by auto
qed

section \<open>A run\<close>

definition sample_op_env :: op_env where
  "sample_op_env = \<lparr>
     op_lookup_env = (\<lambda>k. Some ''value''),
     op_dk = (\<lambda>_. sample_dk_env),
     op_om = sample_env,
     op_templates = [],
     op_trace_exporter = (\<lambda>_ _. (True, None)),
     op_inv_client = (\<lambda>_ _. None),
     op_secrets = (\<lambda>_ _. None),
     op_auth_init = (\<lambda>_. None),
     op_listen = (\<lambda>_ _. None),
     op_rbac = (\<lambda>_ _. None),
     op_oam_done = (\<lambda>_. False)\<rparr>"

definition sample_om_flags :: om_flags where
  "sample_om_flags = default_om_flags\<lparr>omf_oamServerAddress := ''0.0.0.0:2379'', omf_enableTracing := True\<rparr>"

lemma sample_run: "run_io (om_main E fl) [] = (result_of (om_main E fl), calls_of (om_main E fl))"
  by (simp add: result_of_def calls_of_def)

fun is_interactive :: "op_call \<Rightarrow> bool" where
  "is_interactive (OpServe InteractiveOnboarding a ics s) = True"
| "is_interactive _ = False"

lemma served_by_an_initialised_manager_witness:
  "\<exists>a ics s. OpServe InteractiveOnboarding a ics s \<in> set (calls_of (om_main sample_op_env sample_om_flags)) \<and>
     good_service sample_om_flags InteractiveOnboarding (OpServe InteractiveOnboarding a ics s)"
proof -
  have "list_ex is_interactive (calls_of (om_main sample_op_env sample_om_flags))" by code_simp
  then obtain a ics s where "OpServe InteractiveOnboarding a ics s \<in> set (calls_of (om_main sample_op_env sample_om_flags))"
    unfolding list_ex_iff by (metis is_interactive.elims(2))
  with served_by_an_initialised_manager [OF sample_run this] show ?thesis by blast
qed

fun is_signal :: "op_call \<Rightarrow> bool" where
  "is_signal OpSignal = True"
| "is_signal _ = False"

lemma signal_in: "list_ex is_signal l \<Longrightarrow> OpSignal \<in> set l"
  unfolding list_ex_iff by (metis is_signal.elims(2))

lemma manager_counts_down_what_it_never_added_witness:
  "result_of (om_main sample_op_env default_om_flags) = Panic \<and>
   result_of (om_main sample_op_env sample_om_flags) = Ret (Some ())"
proof (intro conjI)
  have oam: "op_oam_done sample_op_env l = False" for l by (simp add: sample_op_env_def)
  have "OpSignal \<in> set (calls_of (om_main sample_op_env default_om_flags))" by (rule signal_in) code_simp
  from manager_counts_down_what_it_never_added [OF sample_run this oam]
  show "result_of (om_main sample_op_env default_om_flags) = Panic" by (simp add: default_om_flags_def)
  have "OpSignal \<in> set (calls_of (om_main sample_op_env sample_om_flags))" by (rule signal_in) code_simp
  from manager_counts_down_what_it_never_added [OF sample_run this oam]
  show "result_of (om_main sample_op_env sample_om_flags) = Ret (Some ())"
    by (simp add: sample_om_flags_def default_om_flags_def)
qed

end
