(* ===== verification/World.thy ===== *)
theory World
  imports SampleEnv
begin

text \<open>
  A world for the Instance reconciler and the onboarding stream: services that remember. The environments of the other
  theories answer a call as they like; here the Inventory and Kubernetes hold one Instance with
  its host and the workflows, a reply is read off what the calls made so far have left there, and a call may
  still fail, before or after it took effect. The rest of the environment (Keycloak, the
  downloads, the libraries) stays arbitrary.
\<close>

section \<open>What the services hold\<close>

text \<open>\<open>w_made\<close> counts the workflows created, \<open>w_succeeded\<close> collects the names of those that
  Tinkerbell has brought to success: both are history, no reply depends on them.\<close>

record world =
  w_inst :: inst
  w_wfs :: "string \<Rightarrow> workflow option"
  w_made :: nat
  w_succeeded :: "string set"

text \<open>An update changes the fields of its mask, and no other.\<close>

fun put_inst_field :: "inst \<Rightarrow> field \<Rightarrow> inst \<Rightarrow> inst" where
  "put_inst_field v F_current_state i = i\<lparr>i_CurrentState := i_CurrentState v\<rparr>"
| "put_inst_field v F_desired_state i = i\<lparr>i_DesiredState := i_DesiredState v\<rparr>"
| "put_inst_field v F_os i = i\<lparr>i_Os := i_Os v\<rparr>"
| "put_inst_field v F_provisioning_status i = i\<lparr>i_ProvisioningStatus := i_ProvisioningStatus v\<rparr>"
| "put_inst_field v F_provisioning_status_indicator i =
     i\<lparr>i_ProvisioningStatusIndicator := i_ProvisioningStatusIndicator v\<rparr>"
| "put_inst_field v F_provisioning_status_timestamp i =
     i\<lparr>i_ProvisioningStatusTimestamp := i_ProvisioningStatusTimestamp v\<rparr>"
| "put_inst_field v F_instance_status i = i\<lparr>i_InstanceStatus := i_InstanceStatus v\<rparr>"
| "put_inst_field v F_instance_status_indicator i =
     i\<lparr>i_InstanceStatusIndicator := i_InstanceStatusIndicator v\<rparr>"
| "put_inst_field v F_instance_status_timestamp i =
     i\<lparr>i_InstanceStatusTimestamp := i_InstanceStatusTimestamp v\<rparr>"
| "put_inst_field v F_instance_status_detail i = i\<lparr>i_InstanceStatusDetail := i_InstanceStatusDetail v\<rparr>"
| "put_inst_field v F_update_status i = i\<lparr>i_UpdateStatus := i_UpdateStatus v\<rparr>"
| "put_inst_field v F_update_status_indicator i =
     i\<lparr>i_UpdateStatusIndicator := i_UpdateStatusIndicator v\<rparr>"
| "put_inst_field v F_update_status_timestamp i =
     i\<lparr>i_UpdateStatusTimestamp := i_UpdateStatusTimestamp v\<rparr>"
| "put_inst_field v F_trusted_attestation_status i =
     i\<lparr>i_TrustedAttestationStatus := i_TrustedAttestationStatus v\<rparr>"
| "put_inst_field v F_trusted_attestation_status_indicator i =
     i\<lparr>i_TrustedAttestationStatusIndicator := i_TrustedAttestationStatusIndicator v\<rparr>"
| "put_inst_field v F_trusted_attestation_status_timestamp i =
     i\<lparr>i_TrustedAttestationStatusTimestamp := i_TrustedAttestationStatusTimestamp v\<rparr>"
| "put_inst_field v _ i = i"

fun put_host_field :: "host \<Rightarrow> field \<Rightarrow> host \<Rightarrow> host" where
  "put_host_field v F_host_status h = h\<lparr>h_HostStatus := h_HostStatus v\<rparr>"
| "put_host_field v F_host_status_indicator h = h\<lparr>h_HostStatusIndicator := h_HostStatusIndicator v\<rparr>"
| "put_host_field v F_host_status_timestamp h = h\<lparr>h_HostStatusTimestamp := h_HostStatusTimestamp v\<rparr>"
| "put_host_field v F_onboarding_status h = h\<lparr>h_OnboardingStatus := h_OnboardingStatus v\<rparr>"
| "put_host_field v F_onboarding_status_indicator h =
     h\<lparr>h_OnboardingStatusIndicator := h_OnboardingStatusIndicator v\<rparr>"
| "put_host_field v F_onboarding_status_timestamp h =
     h\<lparr>h_OnboardingStatusTimestamp := h_OnboardingStatusTimestamp v\<rparr>"
| "put_host_field v F_current_state h = h\<lparr>h_CurrentState := h_CurrentState v\<rparr>"
| "put_host_field v F_desired_state h = h\<lparr>h_DesiredState := h_DesiredState v\<rparr>"
| "put_host_field v F_uuid h = h\<lparr>h_Uuid := h_Uuid v\<rparr>"
| "put_host_field v F_serial_number h = h\<lparr>h_SerialNumber := h_SerialNumber v\<rparr>"
| "put_host_field v F_pxe_mac h = h\<lparr>h_PxeMac := h_PxeMac v\<rparr>"
| "put_host_field v F_bmc_ip h = h\<lparr>h_BmcIp := h_BmcIp v\<rparr>"
| "put_host_field v F_bmc_kind h = h\<lparr>h_BmcKind := h_BmcKind v\<rparr>"
| "put_host_field v F_registration_status h = h\<lparr>h_RegistrationStatus := h_RegistrationStatus v\<rparr>"
| "put_host_field v F_registration_status_indicator h =
     h\<lparr>h_RegistrationStatusIndicator := h_RegistrationStatusIndicator v\<rparr>"
| "put_host_field v F_registration_status_timestamp h =
     h\<lparr>h_RegistrationStatusTimestamp := h_RegistrationStatusTimestamp v\<rparr>"
| "put_host_field v _ h = h"

fun put_resource :: "string \<Rightarrow> field list \<Rightarrow> resource \<Rightarrow> inst \<Rightarrow> inst" where
  "put_resource rid fs (ResInstance v) i =
     (if rid = i_ResourceId i then fold (put_inst_field v) fs i else i)"
| "put_resource rid fs (ResHost v) i = (case i_Host i of
     Some h \<Rightarrow> if rid = h_ResourceId h then i\<lparr>i_Host := Some (fold (put_host_field v) fs h)\<rparr> else i
   | None \<Rightarrow> i)"
| "put_resource rid fs _ i = i"

declare put_resource.simps [simp del]

text \<open>Kubernetes does not replace an object that exists.\<close>

fun take_effect :: "om_call \<Rightarrow> world \<Rightarrow> world" where
  "take_effect (InvUpdate c t rid fs v) w = w\<lparr>w_inst := put_resource rid fs v (w_inst w)\<rparr>"
| "take_effect (K8sCreate (ObjWorkflow x)) w = (case w_wfs w (wf_Name x) of
     Some _ \<Rightarrow> w
   | None \<Rightarrow> w\<lparr>w_wfs := (w_wfs w)(wf_Name x \<mapsto> x), w_made := Suc (w_made w)\<rparr>)"
| "take_effect (K8sDeleteWorkflow ns n) w = w\<lparr>w_wfs := (w_wfs w)(n := None)\<rparr>"
| "take_effect _ w = w"

section \<open>Failing calls\<close>

text \<open>A call works, is refused, or takes effect although the reply is an error (a lost reply).\<close>

datatype fate = Works | Refused goerr | Unanswered goerr

type_synonym fates = "om_call list \<Rightarrow> om_call \<Rightarrow> fate"

fun comes_through :: "fate \<Rightarrow> bool" where
  "comes_through (Refused e) = False"
| "comes_through _ = True"

fun replied :: "fate \<Rightarrow> error \<Rightarrow> error" where
  "replied Works e = e"
| "replied (Refused e') e = Some e'"
| "replied (Unanswered e') e = Some e'"

fun got :: "fate \<Rightarrow> goerr + 'a \<Rightarrow> goerr + 'a" where
  "got Works x = x"
| "got (Refused e) x = Inl e"
| "got (Unanswered e) x = Inl e"

text \<open>The world after the calls \<open>cs\<close>, when \<open>pre\<close> were made before.\<close>

fun after_from :: "fates \<Rightarrow> om_call list \<Rightarrow> world \<Rightarrow> om_call list \<Rightarrow> world" where
  "after_from f pre w [] = w"
| "after_from f pre w (c # cs) =
     after_from f (pre @ [c]) (if comes_through (f pre c) then take_effect c w else w) cs"

definition after :: "fates \<Rightarrow> world \<Rightarrow> om_call list \<Rightarrow> world" where
  "after f w cs = after_from f [] w cs"

text \<open>What the Inventory gives: the Instance and its host, by id; the host also by its UUID or its
  serial number. A stored host refers to its Instance.\<close>

definition stored_host :: "world \<Rightarrow> host option" where
  "stored_host w = map_option (\<lambda>h. h\<lparr>h_Instance := Some \<lparr>ref_ResourceId = i_ResourceId (w_inst w),
     ref_CurrentState = i_CurrentState (w_inst w)\<rparr>\<rparr>) (i_Host (w_inst w))"

definition find_resource :: "world \<Rightarrow> string \<Rightarrow> goerr + resource option" where
  "find_resource w rid =
     (if rid = i_ResourceId (w_inst w) then Inr (Some (ResInstance (w_inst w)))
      else (case stored_host w of
          None \<Rightarrow> Inl (Errorfc NotFound ''no such resource'')
        | Some h \<Rightarrow> if rid = h_ResourceId h then Inr (Some (ResHost h))
            else Inl (Errorfc NotFound ''no such resource'')))"

fun selects :: "inv_filter \<Rightarrow> host \<Rightarrow> bool" where
  "selects NoFilter h = True"
| "selects (FilterUuid u) h = (h_Uuid h = u)"
| "selects (FilterSerialNumber s) h = (h_SerialNumber h = s)"
| "selects (FilterTenantUuid t u) h = (h_TenantId h = t \<and> h_Uuid h = u)"
| "selects _ h = False"

definition list_resources :: "world \<Rightarrow> res_kind \<Rightarrow> inv_filter \<Rightarrow> resource option list" where
  "list_resources w k flt =
     (if k = KIND_HOST then (case stored_host w of
          None \<Rightarrow> [] | Some h \<Rightarrow> if selects flt h then [Some (ResHost h)] else [])
      else if k = KIND_INSTANCE \<and> flt = NoFilter then [Some (ResInstance (w_inst w))]
      else [])"

definition no_such_workflow :: goerr where "no_such_workflow = ForeignErr ''not found'' 404"
definition workflow_exists :: goerr where "workflow_exists = ForeignErr ''already exists'' 409"

definition in_world :: "om_env \<Rightarrow> fates \<Rightarrow> world \<Rightarrow> om_env" where
  "in_world B f w = B\<lparr>
     inv_get := (\<lambda>l c t r. got (f l (InvGet c t r)) (find_resource (after f w l) r)),
     inv_list := (\<lambda>l c k flt. case f l (InvList c k flt) of
        Works \<Rightarrow> (Some (list_resources (after f w l) k flt), None)
      | Refused e \<Rightarrow> (Some [], Some e) | Unanswered e \<Rightarrow> (Some [], Some e)),
     inv_update := (\<lambda>l c t r fs v. replied (f l (InvUpdate c t r fs v)) None),
     k8s_client := (\<lambda>l. replied (f l K8sClient) None),
     k8s_get_workflow := (\<lambda>l ns n. got (f l (K8sGetWorkflow ns n))
        (case w_wfs (after f w l) n of None \<Rightarrow> Inl no_such_workflow | Some x \<Rightarrow> Inr x)),
     k8s_create := (\<lambda>l ob. replied (f l (K8sCreate ob)) (case ob of
        ObjWorkflow x \<Rightarrow> (case w_wfs (after f w l) (wf_Name x) of
          None \<Rightarrow> None | Some _ \<Rightarrow> Some workflow_exists)
      | _ \<Rightarrow> None)),
     k8s_delete_workflow := (\<lambda>l ns n. replied (f l (K8sDeleteWorkflow ns n))
        (case w_wfs (after f w l) n of None \<Rightarrow> Some no_such_workflow | Some _ \<Rightarrow> None))\<rparr>"

text \<open>One reconciliation: its directive and the world it leaves.\<close>

definition reconcile_in :: "om_env \<Rightarrow> fates \<Rightarrow> client \<Rightarrow> string \<Rightarrow> world \<Rightarrow> directive outcome \<times> world" where
  "reconcile_in B f c rid w =
     (case run_io (InstanceReconcile (in_world B f w) c rid) [] of (d, cs) \<Rightarrow> (d, after f w cs))"

text \<open>What the model relies on: the documented classification of the errors, and that the
  masks of the code are accepted, and the validation of a masked message keeps the fields of its
  mask.\<close>

definition sound_masks :: "om_env \<Rightarrow> bool" where
  "sound_masks B \<longleftrightarrow> (\<forall>r fs. fieldmask_new B r fs = None \<and> (\<exists>r'. validate_mask B r fs = Inr r' \<and>
     (\<forall>rid i. put_resource rid fs r' i = put_resource rid fs r i)))"

definition api_laws :: "errlib \<Rightarrow> bool" where
  "api_laws L \<longleftrightarrow> errlib_laws L \<and> k8s_is_not_found L (Some no_such_workflow) \<and>
     k8s_is_already_exists L (Some workflow_exists)"

section \<open>Facts about the world\<close>

lemma after_Nil [simp]: "after f w [] = w"
  by (simp add: after_def)

lemma after_from_snoc:
  "after_from f pre w (cs @ [c]) = (if comes_through (f (pre @ cs) c)
     then take_effect c (after_from f pre w cs) else after_from f pre w cs)"
  by (induction cs arbitrary: pre w) auto

lemma after_snoc [simp]:
  "after f w (l @ [c]) = (if comes_through (f l c) then take_effect c (after f w l) else after f w l)"
  by (simp add: after_def after_from_snoc)

lemma after_single: "after f w [c] = (if comes_through (f [] c) then take_effect c w else w)"
  using after_snoc [of f w "[]"] by simp

lemma after_append: "after f w (l @ cs) = after_from f l (after f w l) cs"
proof -
  have "after_from f pre w' (l @ cs) = after_from f (pre @ l) (after_from f pre w' l) cs" for pre w'
    by (induction l arbitrary: pre w') auto
  then show ?thesis by (simp add: after_def)
qed

lemma in_world_sel [simp]:
  "lib (in_world B f w) = lib B" "validate_message (in_world B f w) = validate_message B"
  "fieldmask_new (in_world B f w) = fieldmask_new B" "validate_mask (in_world B f w) = validate_mask B"
  "k8s_namespace (in_world B f w) = k8s_namespace B" "unix_now (in_world B f w) = unix_now B"
  "parse_json_map (in_world B f w) = parse_json_map B"
  "parse_request_uri_ok (in_world B f w) = parse_request_uri_ok B"
  "tinker_action_version (in_world B f w) = tinker_action_version B"
  "auth_factory (in_world B f w) = auth_factory B" "auth_get (in_world B f w) = auth_get B"
  "auth_create (in_world B f w) = auth_create B" "host_view_at (in_world B f w) = host_view_at B"
  "download_artifacts (in_world B f w) = download_artifacts B" "parse_manifest (in_world B f w) = parse_manifest B"
  "url_parse_ok (in_world B f w) = url_parse_ok B" "new_request_ok (in_world B f w) = new_request_ok B"
  "http_get_header (in_world B f w) = http_get_header B" "quote (in_world B f w) = quote B"
  "concat_values_sorted (in_world B f w) = concat_values_sorted B"
  "tinker_artifact_name (in_world B f w) = tinker_artifact_name B" "en_dkam_mode (in_world B f w) = en_dkam_mode B"
  "check_singular (in_world B f w) = check_singular B" "stream_recv (in_world B f w) = stream_recv B"
  "stream_send (in_world B f w) = stream_send B" "internal_ready (in_world B f w) = internal_ready B"
  "en_user_name (in_world B f w) = en_user_name B" "en_pass_word (in_world B f w) = en_pass_word B"
  by (simp_all add: in_world_def)

lemma in_world_replies:
  "inv_get (in_world B f w) l c t r = got (f l (InvGet c t r)) (find_resource (after f w l) r)"
  "inv_list (in_world B f w) l c k flt = (case f l (InvList c k flt) of
        Works \<Rightarrow> (Some (list_resources (after f w l) k flt), None)
      | Refused e \<Rightarrow> (Some [], Some e) | Unanswered e \<Rightarrow> (Some [], Some e))"
  "inv_update (in_world B f w) l c t r fs v = replied (f l (InvUpdate c t r fs v)) None"
  "k8s_client (in_world B f w) l = replied (f l K8sClient) None"
  "k8s_get_workflow (in_world B f w) l ns n = got (f l (K8sGetWorkflow ns n))
     (case w_wfs (after f w l) n of None \<Rightarrow> Inl no_such_workflow | Some x \<Rightarrow> Inr x)"
  "k8s_create (in_world B f w) l (ObjWorkflow x) = replied (f l (K8sCreate (ObjWorkflow x)))
     (case w_wfs (after f w l) (wf_Name x) of None \<Rightarrow> None | Some _ \<Rightarrow> Some workflow_exists)"
  "k8s_delete_workflow (in_world B f w) l ns n = replied (f l (K8sDeleteWorkflow ns n))
     (case w_wfs (after f w l) n of None \<Rightarrow> Some no_such_workflow | Some _ \<Rightarrow> None)"
  by (simp_all add: in_world_def)

text \<open>What every call a program makes keeps, its run keeps.\<close>

lemma emits_keeps:
  assumes "emits P m" and "run_io m l = (r, l')" and "I (after f w l)"
    and "\<And>c x. P c \<Longrightarrow> I x \<Longrightarrow> I (take_effect c x)"
  shows "I (after f w l')"
proof -
  from emitsD [OF assms(1,2)] obtain cs where cs: "l' = l @ cs" "list_all P cs" by blast
  have "I x \<Longrightarrow> I (after_from f pre x cs)" for pre x
    using cs(2) assms(4) by (induction cs arbitrary: pre x) auto
  with assms(3) show ?thesis by (simp add: cs(1) after_append)
qed

lemma std_api_laws: "api_laws std_errlib"
  by (simp add: api_laws_def no_such_workflow_def workflow_exists_def) (simp add: std_errlib_def)

section \<open>Histories before and after a program\<close>

text \<open>\<open>leads P m Q\<close>: run on a history with \<open>P\<close>, the program ends with an outcome and a history
  related by \<open>Q\<close>. A \<open>P\<close> that reads the world off the history makes this a specification of what
  the program does to the world.\<close>

definition leads :: "('c list \<Rightarrow> bool) \<Rightarrow> ('c, 'a) io \<Rightarrow> ('a outcome \<Rightarrow> 'c list \<Rightarrow> bool) \<Rightarrow> bool" where
  "leads P m Q \<longleftrightarrow> (\<forall>l r l'. P l \<longrightarrow> run_io m l = (r, l') \<longrightarrow> Q r l')"

lemma leadsD: "leads P m Q \<Longrightarrow> P l \<Longrightarrow> run_io m l = (r, l') \<Longrightarrow> Q r l'"
  by (simp add: leads_def)

lemma leads_panic: "(\<And>l. P l \<Longrightarrow> Q Panic l) \<Longrightarrow> leads P panic Q"
  by (simp add: leads_def)

lemma leads_weaken:
  "leads P' m Q' \<Longrightarrow> (\<And>l. P l \<Longrightarrow> P' l) \<Longrightarrow> (\<And>r l. Q' r l \<Longrightarrow> Q r l) \<Longrightarrow> leads P m Q"
  unfolding leads_def by blast

lemma leads_bnd:
  assumes "leads P m R" and "\<And>x. leads (R (Ret x)) (f x) Q" and "\<And>l. R Panic l \<Longrightarrow> Q Panic l"
  shows "leads P (bnd m f) Q"
  using assms unfolding leads_def by (fastforce split: prod.splits outcome.splits)

lemma leads_with_defer:
  assumes "leads P m R"
    and "\<And>r. leads (R r) (d r) (\<lambda>s l. case s of Ret _ \<Rightarrow> Q r l | Panic \<Rightarrow> Q Panic l)"
  shows "leads P (with_defer m d) Q"
  unfolding leads_def
proof (intro allI impI)
  fix l r l' assume "P l" and run: "run_io (with_defer m d) l = (r, l')"
  obtain r1 l1 where m: "run_io m l = (r1, l1)" by fastforce
  obtain s l2 where d: "run_io (d r1) l1 = (s, l2)" by fastforce
  from leadsD [OF assms(2) leadsD [OF assms(1) \<open>P l\<close> m] d] run m d
  show "Q r l'" by (auto split: outcome.splits)
qed

text \<open>An invariant of the history.\<close>

abbreviation keeps :: "('c list \<Rightarrow> bool) \<Rightarrow> ('c, 'a) io \<Rightarrow> bool" where
  "keeps J m \<equiv> leads J m (\<lambda>_. J)"

lemma keeps_emits: "emits P m \<Longrightarrow> (\<And>l c. J l \<Longrightarrow> P c \<Longrightarrow> J (l @ [c])) \<Longrightarrow> keeps J m"
  unfolding leads_def
proof (intro allI impI)
  fix l r l' assume m: "emits P m" and step: "\<And>l c. J l \<Longrightarrow> P c \<Longrightarrow> J (l @ [c])"
    and "J l" and "run_io m l = (r, l')"
  from emitsD [OF m this(4)] obtain cs where cs: "l' = l @ cs" "list_all P cs" by blast
  have "J (l @ cs)" using cs(2) \<open>J l\<close>
  proof (induction cs rule: rev_induct)
    case (snoc c cs)
    with step [of "l @ cs" c] show ?case by simp
  qed simp
  with cs(1) show "J l'" by simp
qed

lemma keeps_bnd_run:
  assumes "keeps J m" and "\<And>l x l'. J l \<Longrightarrow> run_io m l = (Ret x, l') \<Longrightarrow> keeps J (f x)"
  shows "keeps J (bnd m f)"
  unfolding leads_def
proof (intro allI impI)
  fix l r l' assume J: "J l" and run: "run_io (bnd m f) l = (r, l')"
  obtain r1 l1 where m: "run_io m l = (r1, l1)" by fastforce
  note J1 = leadsD [OF assms(1) J m]
  show "J l'"
  proof (cases r1)
    case (Ret x)
    with run m have "run_io (f x) l1 = (r, l')" by simp
    from leadsD [OF assms(2) [OF J m [unfolded Ret]] J1 this] show ?thesis .
  qed (use run m J1 in simp)
qed

end
