(* ===== verification/Evolve.thy ===== *)
theory Evolve
  imports World ProvisioningThms
begin

text \<open>
  How a world with an Instance evolves: the effect of the parts of a reconciliation on the world,
  for every fate of its calls, the invariant of a machine that was not provisioned yet, and
  \<open>evolves\<close>, the worlds that reconciliations, Tinkerbell and other writers lead to.
\<close>

section \<open>The check of a workflow\<close>

lemma check_result:
  assumes "run_io (CheckStatusOrRunProdWorkflow E d i) l = (Ret (i1, err), l')"
  shows "(err \<noteq> None \<and> i1 = i) \<or>
    (\<exists>x. k8s_get_workflow E (l @ [K8sClient]) (k8s_namespace E) (generateWorkflowName (di_GUID d)) = Inr x \<and>
       handleWorkflowStatus E (PopulateInstanceStatusAndCurrentState i INSTANCE_STATE_UNSPECIFIED ProvisioningStatusInProgress)
         x ProvisioningStatusDone ProvisioningStatusFailed = Ret (i1, err))"
  using assms
  by (cases "i_Host i")
    (auto simp: CheckStatusOrRunProdWorkflow_def K8sClientFactory_def getWorkflow_def
      split: if_splits sum.splits prod.splits outcome.splits option.splits)

lemma unfinished_workflow:
  assumes "handleWorkflowStatus E (PopulateInstanceStatusAndCurrentState i INSTANCE_STATE_UNSPECIFIED ProvisioningStatusInProgress)
      x ProvisioningStatusDone ProvisioningStatusFailed = Ret (i1, err)"
    and "wf_State x \<noteq> WF_SUCCESS"
  shows "err \<noteq> None \<and> i_ProvisioningStatusIndicator i1 \<noteq> IND_IDLE"
  using assms by (cases "wf_State x")
    (auto simp: handleWorkflowStatus_def Let_def PopulateInstanceStatusAndCurrentState_def
      PopulateInstanceProvisioningStatus_def ProvisioningStatusInProgress_def)

text \<open>The calls of the check, without and with the creation of the workflow.\<close>

definition new_workflow_of :: "string \<Rightarrow> k8s_obj \<Rightarrow> bool" where
  "new_workflow_of n ob \<longleftrightarrow> (\<exists>x. ob = ObjWorkflow x \<and> wf_Name x = n \<and> wf_State x = WF_EMPTY)"

fun check_call :: "string \<Rightarrow> om_call \<Rightarrow> bool" where
  "check_call n (K8sCreate ob) = new_workflow_of n ob"
| "check_call n x = workflow_call x"

lemma emits_check:
  "emits (check_call (generateWorkflowName (di_GUID d))) (CheckStatusOrRunProdWorkflow E d i)"
  unfolding CheckStatusOrRunProdWorkflow_def runProdWorkflow_def Let_def CreateWorkflowIfNotExists_def
    k8s_Create_def
  by (intro emits_intro) (auto simp: new_workflow_of_def NewWorkflow_def with_instance_keeps)


section \<open>Writes\<close>

lemma keeps_seq: "keeps J m \<Longrightarrow> (\<And>x. keeps J (g x)) \<Longrightarrow> keeps J (bnd m g)"
  by (rule leads_bnd)

text \<open>What an update does to the world: nothing, or what its mask says.\<close>

lemma update_effect:
  assumes "sound_masks B" and "setInventoryResourceAndID r = Inr rid" and "fs \<noteq> []"
    and "run_io (UpdateInvResourceFields (in_world B f w0) c tid (Some r) fs) l = (e, l')"
  shows "after f w0 l' = after f w0 l \<or>
      after f w0 l' = after f w0 l\<lparr>w_inst := put_resource rid fs r (w_inst (after f w0 l))\<rparr>"
    and "(\<And>t v. f l (InvUpdate c t rid fs v) = Works) \<Longrightarrow> e = Ret None \<and>
      after f w0 l' = after f w0 l\<lparr>w_inst := put_resource rid fs r (w_inst (after f w0 l))\<rparr>"
proof -
  from assms(1) obtain r' where r': "validate_mask B r fs = Inr r'" "fieldmask_new B r fs = None"
      "\<And>rid i. put_resource rid fs r' i = put_resource rid fs r i"
    unfolding sound_masks_def by blast
  with assms(2-4) have "l' = l @ [InvUpdate c tid rid fs r']"
    and "e = Ret (replied (f l (InvUpdate c tid rid fs r')) None)"
    by (auto simp: UpdateInvResourceFields_def in_world_replies)
  then show "after f w0 l' = after f w0 l \<or>
      after f w0 l' = after f w0 l\<lparr>w_inst := put_resource rid fs r (w_inst (after f w0 l))\<rparr>"
    and "(\<And>t v. f l (InvUpdate c t rid fs v) = Works) \<Longrightarrow> e = Ret None \<and>
      after f w0 l' = after f w0 l\<lparr>w_inst := put_resource rid fs r (w_inst (after f w0 l))\<rparr>"
    by (simp_all add: r'(3))
qed

lemma keeps_update:
  assumes "sound_masks B" and "setInventoryResourceAndID r = Inr rid" and "fs \<noteq> []"
    and "\<And>x. I x \<Longrightarrow> I (x\<lparr>w_inst := put_resource rid fs r (w_inst x)\<rparr>)"
  shows "keeps (\<lambda>l. I (after f w0 l)) (UpdateInvResourceFields (in_world B f w0) c tid (Some r) fs)"
  unfolding leads_def using update_effect(1) [OF assms(1-3)] assms(4) by metis

text \<open>Properties of the world that no status of the host matters for.\<close>

definition host_status_masks :: "field list set" where
  "host_status_masks = {[F_host_status, F_host_status_indicator, F_host_status_timestamp], onboarding_status_fields}"

definition host_blind :: "(world \<Rightarrow> bool) \<Rightarrow> bool" where
  "host_blind I \<longleftrightarrow> (\<forall>x rid v. \<forall>fs \<in> host_status_masks. I x \<longrightarrow>
     I (x\<lparr>w_inst := put_resource rid fs (ResHost v) (w_inst x)\<rparr>))"

lemma keeps_timestamp: "keeps J (timestamp E)"
  by (simp add: leads_def)

lemma keeps_host_updates:
  assumes "sound_masks B" and "host_blind I"
  shows "keeps (\<lambda>l. I (after f w0 l)) (SetHostStatus (in_world B f w0) c t h s)"
    and "keeps (\<lambda>l. I (after f w0 l)) (SetHostOnboardingStatus (in_world B f w0) c t h s)"
  using assms(2)
  by (auto simp: SetHostStatus_def SetHostOnboardingStatus_def host_blind_def host_status_masks_def
      onboarding_status_fields_def intro!: keeps_seq keeps_timestamp keeps_update assms(1))

text \<open>The Instance after the fields of another one are written back into it.\<close>

definition written_back :: "inst \<Rightarrow> 64 word \<Rightarrow> inst \<Rightarrow> inst" where
  "written_back new t i = (if i_ResourceId new = i_ResourceId i then
     i\<lparr>i_CurrentState := i_CurrentState new, i_ProvisioningStatus := i_ProvisioningStatus new,
       i_ProvisioningStatusIndicator := i_ProvisioningStatusIndicator new,
       i_ProvisioningStatusTimestamp := t, i_Os := i_Os new\<rparr> else i)"

lemma put_written_back:
  "put_resource (i_ResourceId new) update_instance_fields (ResInstance (empty_inst\<lparr>i_ResourceId := i_ResourceId new,
     i_CurrentState := i_CurrentState new, i_ProvisioningStatus := i_ProvisioningStatus new,
     i_ProvisioningStatusIndicator := i_ProvisioningStatusIndicator new,
     i_ProvisioningStatusTimestamp := t, i_Os := i_Os new\<rparr>)) i = written_back new t i"
  by (simp add: put_resource.simps update_instance_fields_def written_back_def)

lemma keeps_write_back:
  assumes "sound_masks B" and "host_blind I"
    and "\<And>x t. I x \<Longrightarrow> I (x\<lparr>w_inst := written_back new t (w_inst x)\<rparr>)"
  shows "keeps (\<lambda>l. I (after f w0 l)) (updateHostInstanceStatusAndCurrentState (in_world B f w0) c old new)"
proof -
  have upd: "keeps (\<lambda>l. I (after f w0 l)) (UpdateInstance (in_world B f w0) c (i_TenantId new) (i_ResourceId new)
      (i_CurrentState new) (slot_provisioning new) (i_Os new))"
    unfolding UpdateInstance_def slot_provisioning_def mk_status_sel
    by (intro keeps_seq keeps_timestamp keeps_update [OF assms(1)])
      (simp, simp add: update_instance_fields_def, simp only: put_written_back assms(3))
  have ret: "keeps J (ret x)" "keeps J (of_outcome r)" for J and x :: 'b and r :: "'d outcome"
    by (simp_all add: leads_def)
  show ?thesis
    unfolding updateHostInstanceStatusAndCurrentState_def Let_def
    by (auto intro!: keeps_seq ret upd keeps_host_updates assms(1,2))
qed


section \<open>Provisioned means provisioned\<close>

definition host_uuid :: "inst \<Rightarrow> string" where
  "host_uuid i = (case i_Host i of None \<Rightarrow> '''' | Some h \<Rightarrow> h_Uuid h)"

lemma device_of_host: "convertInstanceToDeviceInfo E i = Inr d \<Longrightarrow> di_GUID d = host_uuid i"
  by (auto simp: convertInstanceToDeviceInfo_def host_uuid_def empty_host_def Let_def
      split: option.splits sum.splits prod.splits)

lemma put_host_keeps:
  assumes "fs \<in> host_status_masks"
  shows "i_ProvisioningStatusIndicator (put_resource rid fs (ResHost v) i) = i_ProvisioningStatusIndicator i"
    and "host_uuid (put_resource rid fs (ResHost v) i) = host_uuid i"
  using assms
  by (auto simp: put_resource.simps host_uuid_def host_status_masks_def onboarding_status_fields_def split: option.splits)

lemma fold_inst_keeps: "i_Host (fold (put_inst_field v) fs i) = i_Host i"
proof (induction fs arbitrary: i)
  case (Cons x fs)
  then show ?case by (cases x) simp_all
qed simp

lemma put_inst_keeps [simp]:
  "i_Host (put_resource rid fs (ResInstance v) i) = i_Host i"
  "host_uuid (put_resource rid fs (ResInstance v) i) = host_uuid i"
  by (simp_all add: put_resource.simps fold_inst_keeps host_uuid_def)

text \<open>The world of a machine that no workflow has provisioned yet.\<close>

definition unprovisioned :: "string \<Rightarrow> world \<Rightarrow> bool" where
  "unprovisioned u w \<longleftrightarrow> i_ProvisioningStatusIndicator (w_inst w) \<noteq> IND_IDLE \<and> host_uuid (w_inst w) = u \<and>
     (\<forall>x. w_wfs w (generateWorkflowName u) = Some x \<longrightarrow> wf_State x \<noteq> WF_SUCCESS)"

lemma unprovisioned_host_blind: "host_blind (unprovisioned u)"
  by (simp add: host_blind_def unprovisioned_def put_host_keeps)

lemma check_call_keeps:
  "check_call n x \<Longrightarrow> unprovisioned u w \<Longrightarrow> unprovisioned u (take_effect x w)"
  by (cases x) (auto simp: unprovisioned_def new_workflow_of_def split: option.splits k8s_obj.splits if_splits)

lemma get_reply:
  "k8s_get_workflow (in_world B f w0) l ns n = Inr x \<Longrightarrow> w_wfs (after f w0 l) n = Some x"
  by (auto simp: in_world_replies split: option.splits) (cases "f l (K8sGetWorkflow ns n)"; simp)+

text \<open>The calls that write nothing to the Inventory, but for the creation of workflows.\<close>

fun cleaning_call :: "om_call \<Rightarrow> bool" where
  "cleaning_call (K8sDeleteWorkflow ns n) = True"
| "cleaning_call K8sClient = True"
| "cleaning_call (K8sGetWorkflow ns n) = True"
| "cleaning_call (InvGet c t r) = True"
| "cleaning_call _ = False"

lemma cleaning_keeps: "cleaning_call x \<Longrightarrow> unprovisioned u w \<Longrightarrow> unprovisioned u (take_effect x w)"
  by (cases x) (auto simp: unprovisioned_def)

lemma keeps_cleaning:
  "emits cleaning_call m \<Longrightarrow> keeps (\<lambda>l. unprovisioned u (after f w0 l)) m"
  by (erule keeps_emits) (simp add: cleaning_keeps)

lemma write_back_unprovisioned:
  assumes "sound_masks B" and "i_ProvisioningStatusIndicator new \<noteq> IND_IDLE"
  shows "keeps (\<lambda>l. unprovisioned u (after f w0 l)) (updateHostInstanceStatusAndCurrentState (in_world B f w0) c old new)"
  by (rule keeps_write_back [OF assms(1) unprovisioned_host_blind])
    (use assms(2) in \<open>auto simp: unprovisioned_def written_back_def host_uuid_def\<close>)

lemma check_unprovisioned:
  assumes "di_GUID d = u" and "i_ProvisioningStatusIndicator i \<noteq> IND_IDLE"
  shows "leads (\<lambda>l. unprovisioned u (after f w0 l)) (CheckStatusOrRunProdWorkflow (in_world B f w0) d i)
    (\<lambda>r l. unprovisioned u (after f w0 l) \<and> (case r of Panic \<Rightarrow> True
       | Ret (i1, err) \<Rightarrow> err \<noteq> None \<and> i_ProvisioningStatusIndicator i1 \<noteq> IND_IDLE))"
  unfolding leads_def
proof (intro allI impI conjI)
  fix l r l' assume un: "unprovisioned u (after f w0 l)"
    and run: "run_io (CheckStatusOrRunProdWorkflow (in_world B f w0) d i) l = (r, l')"
  have "keeps (\<lambda>l. unprovisioned u (after f w0 l)) (CheckStatusOrRunProdWorkflow (in_world B f w0) d i)"
    by (rule keeps_emits [OF emits_check]) (simp add: check_call_keeps)
  from leadsD [OF this un run] show "unprovisioned u (after f w0 l')" .
  have un1: "unprovisioned u (after f w0 (l @ [K8sClient]))" using un by simp
  show "case r of Panic \<Rightarrow> True | Ret (i1, err) \<Rightarrow> err \<noteq> None \<and> i_ProvisioningStatusIndicator i1 \<noteq> IND_IDLE"
  proof (cases r)
    case (Ret p)
    obtain i1 err where p: "p = (i1, err)" by fastforce
    have "wf_State x \<noteq> WF_SUCCESS" if "k8s_get_workflow (in_world B f w0) (l @ [K8sClient])
        (k8s_namespace B) (generateWorkflowName (di_GUID d)) = Inr x" for x
      using get_reply [OF that] un1 assms(1) by (simp add: unprovisioned_def del: after_snoc)
    with check_result [OF run [unfolded Ret p]] assms(2) show ?thesis
      unfolding Ret p by (auto dest!: unfinished_workflow)
  qed simp
qed

lemma try_unprovisioned:
  assumes "sound_masks B" and "i_ProvisioningStatusIndicator i \<noteq> IND_IDLE" and "host_uuid i = u"
  shows "keeps (\<lambda>l. unprovisioned u (after f w0 l)) (tryProvisionInstance (in_world B f w0) c i)"
proof -
  have ret: "keeps J (ret x)" for J and x :: "inst \<times> error" by (simp add: leads_def)
  let ?R = "\<lambda>r l. unprovisioned u (after f w0 l) \<and> (case r of Panic \<Rightarrow> True
       | Ret (i1, err :: error) \<Rightarrow> i_ProvisioningStatusIndicator (i1 :: inst) \<noteq> IND_IDLE)"
  have check: "leads (\<lambda>l. unprovisioned u (after f w0 l))
      (bnd (CheckStatusOrRunProdWorkflow (in_world B f w0) d i) (\<lambda>(i1, err').
         if err' \<noteq> None then ret (i1, err')
         else ret (PopulateInstanceStatusAndCurrentState i1 INSTANCE_STATE_RUNNING ProvisioningStatusDone, None))) ?R"
    if "di_GUID d = u" for d
    by (rule leads_bnd [OF check_unprovisioned [OF that assms(2)]]) (auto simp: leads_def)
  have failed: "i_ProvisioningStatusIndicator (PopulateInstanceProvisioningStatus j ProvisioningStatusFailed) \<noteq> IND_IDLE" for j
    by (simp add: PopulateInstanceProvisioningStatus_def)
  have wb: "leads (?R r) (updateHostInstanceStatusAndCurrentState (in_world B f w0) c i
        (if b then PopulateInstanceProvisioningStatus (case r of Ret (x, _) \<Rightarrow> x | Panic \<Rightarrow> i) ProvisioningStatusFailed
         else (case r of Ret (x, _) \<Rightarrow> x | Panic \<Rightarrow> i)))
      (\<lambda>s l. case s of Ret _ \<Rightarrow> unprovisioned u (after f w0 l) | Panic \<Rightarrow> unprovisioned u (after f w0 l))" for r b
  proof (cases "case r of Panic \<Rightarrow> True | Ret (i1, err) \<Rightarrow> i_ProvisioningStatusIndicator i1 \<noteq> IND_IDLE")
    case True
    then have "i_ProvisioningStatusIndicator (if b
        then PopulateInstanceProvisioningStatus (case r of Ret (x, _) \<Rightarrow> x | Panic \<Rightarrow> i) ProvisioningStatusFailed
        else (case r of Ret (x, _) \<Rightarrow> x | Panic \<Rightarrow> i)) \<noteq> IND_IDLE"
      using assms(2) failed by (auto split: outcome.splits prod.splits)
    from write_back_unprovisioned [OF assms(1) this] show ?thesis
      by (rule leads_weaken) (auto split: outcome.splits)
  qed (auto simp: leads_def split: outcome.splits)
  show ?thesis
    unfolding tryProvisionInstance_def Let_def
    by (auto intro!: ret leads_with_defer [OF check wb [unfolded Let_def]] simp: device_of_host assms(3) simp del: not_None_eq
        split: option.splits sum.splits)
qed


lemma keeps_or_go_on: "keeps J m \<Longrightarrow> keeps J (or_go_on d m)"
  by (cases d) (simp_all add: leads_def)

lemma keeps_ret: "keeps J (ret x)"
  by (simp add: leads_def)

lemma emits_cleaning:
  "emits cleaning_call (cleanupProvisioningResources E i)"
  "emits cleaning_call (CheckWorkflowExist E d i)"
  by (auto simp: CheckWorkflowExist_def getWorkflow_def K8sClientFactory_def intro!: emits_intro)

lemmas keeps_cleanups = emits_cleaning [THEN keeps_cleaning]

lemma update_statuses_unprovisioned:
  assumes "sound_masks B" and "i_ProvisioningStatusIndicator i \<noteq> IND_IDLE"
  shows "keeps (\<lambda>l. unprovisioned u (after f w0 l)) (updateInstanceStatuses (in_world B f w0) c i)"
proof -
  have "unprovisioned u w \<Longrightarrow> i_ProvisioningStatusIndicator v \<noteq> IND_IDLE \<Longrightarrow>
      unprovisioned u (w\<lparr>w_inst := put_resource rid instance_statuses_fields (ResInstance v) (w_inst w)\<rparr>)" for w rid v
    by (simp add: unprovisioned_def put_resource.simps instance_statuses_fields_def host_uuid_def)
  with assms show ?thesis
    unfolding updateInstanceStatuses_def UpdateInstanceStatuses_def
    by (intro keeps_seq keeps_timestamp keeps_ret keeps_update)
      (simp_all add: instance_statuses_fields_def slot_provisioning_def)
qed

lemma update_state_unprovisioned:
  assumes "sound_masks B"
  shows "keeps (\<lambda>l. unprovisioned u (after f w0 l)) (UpdateInstanceCurrentState (in_world B f w0) c tid v)"
proof -
  have "unprovisioned u w \<Longrightarrow>
      unprovisioned u (w\<lparr>w_inst := put_resource rid [F_current_state] (ResInstance v) (w_inst w)\<rparr>)" for w rid
    by (simp add: unprovisioned_def put_resource.simps host_uuid_def)
  with assms show ?thesis
    unfolding UpdateInstanceCurrentState_def by (intro keeps_update) simp_all
qed

lemma reconcile_unprovisioned:
  assumes "sound_masks B" and "i_ProvisioningStatusIndicator i \<noteq> IND_IDLE" and "host_uuid i = u"
  shows "keeps (\<lambda>l. unprovisioned u (after f w0 l)) (reconcileInstance (in_world B f w0) c i)"
  unfolding reconcileInstance_def
  by (auto intro!: keeps_seq keeps_or_go_on keeps_ret keeps_cleanups
      try_unprovisioned [OF assms] update_state_unprovisioned [OF assms(1)])

lemma deauthorized_unprovisioned:
  assumes "sound_masks B" and "i_ProvisioningStatusIndicator i \<noteq> IND_IDLE"
  shows "keeps (\<lambda>l. unprovisioned u (after f w0 l)) (handleHostDeauthorized (in_world B f w0) c i)"
proof -
  have idle: "i_ProvisioningStatusIndicator (PopulateInstanceIdleStatus i) \<noteq> IND_IDLE"
    by (simp add: PopulateInstanceIdleStatus_def slot_defs status_defs)
  show ?thesis
    unfolding handleHostDeauthorized_def Let_def
    by (auto intro!: keeps_seq keeps_ret keeps_cleanups
        update_statuses_unprovisioned assms idle split: sum.split)
qed

lemma loaded_unprovisioned:
  assumes "sound_masks B" and "i_ProvisioningStatusIndicator i \<noteq> IND_IDLE" and "host_uuid i = u"
  shows "keeps (\<lambda>l. unprovisioned u (after f w0 l)) (reconcile_loaded (in_world B f w0) c i)"
  unfolding reconcile_loaded_def handleMatchingStates_def
  by (auto intro!: keeps_seq keeps_or_go_on keeps_ret deauthorized_unprovisioned reconcile_unprovisioned assms)


lemma emits_get_instance: "emits cleaning_call (GetInstanceResourceByResourceID E c t r)"
  by (auto simp: GetInstanceResourceByResourceID_def get_validated_def getResourceByID_def intro!: emits_intro)

lemma got_instance:
  "run_io (GetInstanceResourceByResourceID (in_world B f w0) c t r) l = (Ret (Inr iopt), l') \<Longrightarrow>
   iopt = None \<or> iopt = Some (w_inst (after f w0 l))"
  by (cases "f l (InvGet c t r)")
    (auto simp: GetInstanceResourceByResourceID_def get_validated_def getResourceByID_def in_world_replies
      find_resource_def split: option.splits if_splits)

lemma InstanceReconcile_unprovisioned:
  assumes "sound_masks B"
  shows "keeps (\<lambda>l. unprovisioned u (after f w0 l)) (InstanceReconcile (in_world B f w0) c rid)"
  unfolding InstanceReconcile_def
proof (rule keeps_seq)
  fix resourceID
  let ?E = "in_world B f w0" and ?J = "\<lambda>l. unprovisioned u (after f w0 l)"
  show "keeps ?J (bnd (GetInstanceResourceByResourceID ?E c (GetTenantID rid) resourceID) (\<lambda>r. case r of
         Inl e \<Rightarrow> or_go_on (HandleInventoryError (lib ?E) (Some e)) panic
       | Inr iopt \<Rightarrow> or_go_on (HandleInventoryError (lib ?E) None) (bnd (deref iopt) (reconcile_loaded ?E c))))"
  proof (rule keeps_bnd_run [OF keeps_cleaning [OF emits_get_instance]])
    fix l x l'
    assume un: "?J l" and run: "run_io (GetInstanceResourceByResourceID ?E c (GetTenantID rid) resourceID) l = (Ret x, l')"
    with loaded_unprovisioned [OF assms, of "w_inst (after f w0 l)"]
    show "keeps ?J (case x of
         Inl e \<Rightarrow> or_go_on (HandleInventoryError (lib ?E) (Some e)) panic
       | Inr iopt \<Rightarrow> or_go_on (HandleInventoryError (lib ?E) None) (bnd (deref iopt) (reconcile_loaded ?E c)))"
      by (auto simp: unprovisioned_def leads_panic dest!: got_instance split: sum.split intro!: keeps_or_go_on)
  qed
qed (simp add: leads_def)

text \<open>How the world evolves: reconciliations with the fates \<open>F\<close> allows, Tinkerbell working on the
  workflows, and others (users, the host resource manager) changing the Instance or its host
  within \<open>C\<close>.\<close>

definition progress :: "string \<Rightarrow> wf_state \<Rightarrow> tink_action list list \<Rightarrow> world \<Rightarrow> world" where
  "progress n s ts w = w\<lparr>
     w_wfs := (w_wfs w)(n := map_option (\<lambda>x. x\<lparr>wf_State := s, wf_Tasks := ts\<rparr>) (w_wfs w n)),
     w_succeeded := (if s = WF_SUCCESS \<and> w_wfs w n \<noteq> None then insert n (w_succeeded w) else w_succeeded w)\<rparr>"

inductive evolves :: "om_env \<Rightarrow> client \<Rightarrow> string \<Rightarrow> (fates \<Rightarrow> bool) \<Rightarrow> (inst \<Rightarrow> inst \<Rightarrow> bool) \<Rightarrow>
    world \<Rightarrow> world \<Rightarrow> bool"
  for B c rid F C w0 where
  start: "evolves B c rid F C w0 w0"
| reconciled: "evolves B c rid F C w0 w \<Longrightarrow> F f \<Longrightarrow> evolves B c rid F C w0 (snd (reconcile_in B f c rid w))"
| progressed: "evolves B c rid F C w0 w \<Longrightarrow> evolves B c rid F C w0 (progress n s ts w)"
| changed: "evolves B c rid F C w0 w \<Longrightarrow> C (w_inst w) i \<Longrightarrow> evolves B c rid F C w0 (w\<lparr>w_inst := i\<rparr>)"

lemma after_succeeded [simp]: "w_succeeded (after f w l) = w_succeeded w"
proof -
  have "w_succeeded (take_effect x v) = w_succeeded v" for x v
    by (induction x v rule: take_effect.induct) (auto split: option.splits)
  then show ?thesis by (induction l rule: rev_induct) auto
qed

lemma reconcile_in_succeeded [simp]: "w_succeeded (snd (reconcile_in B f c rid w)) = w_succeeded w"
  by (simp add: reconcile_in_def split: prod.split)

text \<open>Others do not write the provisioning status, and an Instance keeps its host.\<close>

definition keeps_provisioning :: "inst \<Rightarrow> inst \<Rightarrow> bool" where
  "keeps_provisioning i i' \<longleftrightarrow> host_uuid i' = host_uuid i \<and>
     i_ProvisioningStatusIndicator i' = i_ProvisioningStatusIndicator i"

end
