(* ===== verification/Once.thy ===== *)
theory Once
  imports Evolve
begin

text \<open>
  Worlds whose Inventory takes the writes of the manager: what a write back leaves there, and the
  invariant that one workflow at most is created for an Instance that stays wanted.
\<close>

section \<open>Writes that work\<close>

definition inventory_works :: "fates \<Rightarrow> bool" where
  "inventory_works f \<longleftrightarrow> (\<forall>l c t rid fs v. f l (InvUpdate c t rid fs v) = Works)"

lemma update_works:
  assumes "sound_masks B" and "inventory_works f" and "setInventoryResourceAndID r = Inr rid" and "fs \<noteq> []"
    and "run_io (UpdateInvResourceFields (in_world B f w0) c tid (Some r) fs) l = (e, l')"
  shows "e = Ret None \<and> after f w0 l' = after f w0 l\<lparr>w_inst := put_resource rid fs r (w_inst (after f w0 l))\<rparr>"
  using update_effect(2) [OF assms(1,3-5)] assms(2) by (simp add: inventory_works_def)

definition with_host_status :: "host \<Rightarrow> 64 word \<Rightarrow> host \<Rightarrow> host" where
  "with_host_status v t h = h\<lparr>h_HostStatus := h_HostStatus v, h_HostStatusIndicator := h_HostStatusIndicator v,
     h_HostStatusTimestamp := t\<rparr>"

definition with_onboarding_status :: "host \<Rightarrow> 64 word \<Rightarrow> host \<Rightarrow> host" where
  "with_onboarding_status v t h = h\<lparr>h_OnboardingStatus := h_OnboardingStatus v,
     h_OnboardingStatusIndicator := h_OnboardingStatusIndicator v, h_OnboardingStatusTimestamp := t\<rparr>"

lemma host_status_works:
  assumes "sound_masks B" and "inventory_works f" and "i_Host (w_inst (after f w0 l)) = Some h"
    and "h_ResourceId v = h_ResourceId h"
    and "run_io (SetHostStatus (in_world B f w0) c tid (h_ResourceId v)
      (mk_status (h_HostStatus v) (h_HostStatusIndicator v))) l = (e, l')"
  shows "\<exists>t. e = Ret None \<and> after f w0 l' = after f w0 l\<lparr>w_inst := (w_inst (after f w0 l))\<lparr>i_Host :=
    Some (with_host_status v t h)\<rparr>\<rparr>"
  using assms(3-5) by (auto simp: SetHostStatus_def put_resource.simps with_host_status_def
      dest!: update_works [OF assms(1,2), rotated -1])

lemma onboarding_status_works:
  assumes "sound_masks B" and "inventory_works f" and "i_Host (w_inst (after f w0 l)) = Some h"
    and "h_ResourceId v = h_ResourceId h"
    and "run_io (SetHostOnboardingStatus (in_world B f w0) c tid (h_ResourceId v)
      (mk_status (h_OnboardingStatus v) (h_OnboardingStatusIndicator v))) l = (e, l')"
  shows "\<exists>t. e = Ret None \<and> after f w0 l' = after f w0 l\<lparr>w_inst := (w_inst (after f w0 l))\<lparr>i_Host :=
    Some (with_onboarding_status v t h)\<rparr>\<rparr>"
  using assms(3-5) by (auto simp: SetHostOnboardingStatus_def put_resource.simps with_onboarding_status_def
      onboarding_status_fields_def dest!: update_works [OF assms(1,2), rotated -1])

lemma update_instance_works:
  assumes "sound_masks B" and "inventory_works f"
    and "run_io (UpdateInstance (in_world B f w0) c tid (i_ResourceId new) (i_CurrentState new)
      (slot_provisioning new) (i_Os new)) l = (e, l')"
  shows "\<exists>t. e = Ret None \<and> after f w0 l' = after f w0 l\<lparr>w_inst := written_back new t (w_inst (after f w0 l))\<rparr>"
proof -
  let ?v = "\<lambda>t. ResInstance (empty_inst\<lparr>i_ResourceId := i_ResourceId new, i_CurrentState := i_CurrentState new,
     i_ProvisioningStatus := i_ProvisioningStatus new,
     i_ProvisioningStatusIndicator := i_ProvisioningStatusIndicator new,
     i_ProvisioningStatusTimestamp := t, i_Os := i_Os new\<rparr>)"
  obtain t where "run_io (UpdateInvResourceFields (in_world B f w0) c tid (Some (?v t)) update_instance_fields) l = (e, l')"
    using assms(3) by (auto simp: UpdateInstance_def slot_provisioning_def)
  from update_works [OF assms(1,2) _ _ this, of "i_ResourceId new"] put_written_back [of new t]
  show ?thesis by (auto simp: update_instance_fields_def)
qed

text \<open>A host without its statuses.\<close>

definition bare_host :: "host \<Rightarrow> host" where
  "bare_host h = h\<lparr>h_HostStatus := [], h_HostStatusIndicator := IND_IDLE, h_HostStatusTimestamp := 0,
     h_OnboardingStatus := [], h_OnboardingStatusIndicator := IND_IDLE, h_OnboardingStatusTimestamp := 0\<rparr>"

lemma bare_host_statuses [simp]:
  "bare_host (with_host_status v t h) = bare_host h" "bare_host (with_onboarding_status v t h) = bare_host h"
  by (simp_all add: bare_host_def with_host_status_def with_onboarding_status_def)

lemma bare_hostD:
  assumes "bare_host h = bare_host h'"
  shows "h_ResourceId h = h_ResourceId h'" "h_Uuid h = h_Uuid h'" "h_SerialNumber h = h_SerialNumber h'"
    "h_PxeMac h = h_PxeMac h'" "h_BmcIp h = h_BmcIp h'" "h_UserLvmSize h = h_UserLvmSize h'"
    "h_CurrentState h = h_CurrentState h'" "h_DesiredState h = h_DesiredState h'" "h_Provider h = h_Provider h'"
  using assms by (cases h; cases h'; simp add: bare_host_def)+

lemma run_then_nothing:
  "run_io (if b then bnd m (\<lambda>_. ret ()) else ret ()) l = (e, l') \<Longrightarrow>
     b \<and> (\<exists>r. run_io m l = (r, l') \<and> (r \<noteq> Panic \<longrightarrow> e = Ret ())) \<or> \<not> b \<and> e = Ret () \<and> l' = l"
  by (auto split: if_splits prod.splits outcome.splits)

text \<open>The whole of a write back, when the Inventory takes it.\<close>

lemma write_back_works:
  assumes "sound_masks B" and "inventory_works f"
    and "i_Host (w_inst (after f w0 l)) = Some h" and "i_Host old = Some h" and "i_Host new = Some v"
    and "h_ResourceId v = h_ResourceId h" and "i_Os old \<noteq> None"
    and "run_io (updateHostInstanceStatusAndCurrentState (in_world B f w0) c old new) l = (e, l')"
  shows "e = Ret () \<and> (\<exists>h' t. bare_host h' = bare_host h \<and>
    after f w0 l' = after f w0 l\<lparr>w_inst := written_back new t ((w_inst (after f w0 l))\<lparr>i_Host := Some h'\<rparr>)\<rparr>)"
proof -
  let ?E = "in_world B f w0"
  let ?s1 = "\<not> (h_HostStatusIndicator h = h_HostStatusIndicator v \<and> h_HostStatus h = h_HostStatus v)"
  let ?s2 = "\<not> (h_OnboardingStatusIndicator h = h_OnboardingStatusIndicator v \<and> h_OnboardingStatus h = h_OnboardingStatus v)"
  let ?m1 = "if ?s1 then bnd (SetHostStatus ?E c (h_TenantId v) (h_ResourceId v)
      (mk_status (h_HostStatus v) (h_HostStatusIndicator v))) (\<lambda>_. ret ()) else ret ()"
  let ?m2 = "if ?s2 then bnd (SetHostOnboardingStatus ?E c (h_TenantId v) (h_ResourceId v)
      (mk_status (h_OnboardingStatus v) (h_OnboardingStatusIndicator v))) (\<lambda>_. ret ()) else ret ()"
  let ?m3 = "bnd (UpdateInstance ?E c (i_TenantId new) (i_ResourceId new) (i_CurrentState new)
      (slot_provisioning new) (i_Os new)) (\<lambda>_. ret ())"
  have m: "updateHostInstanceStatusAndCurrentState ?E c old new = bnd ?m1 (\<lambda>_. bnd ?m2 (\<lambda>_. ?m3))"
    using assms(4,5,7) by (simp add: updateHostInstanceStatusAndCurrentState_def os_pointers_differ_def)
  let ?s = "\<lambda>l. after f w0 l" and ?i = "\<lambda>l. w_inst (after f w0 l)"
  obtain r1 l1 where r1: "run_io ?m1 l = (r1, l1)" by fastforce
  have "\<exists>h'. bare_host h' = bare_host h \<and> r1 = Ret () \<and> ?s l1 = ?s l\<lparr>w_inst := (?i l)\<lparr>i_Host := Some h'\<rparr>\<rparr>"
    using run_then_nothing [OF r1]
  proof (elim disjE conjE exE)
    fix r assume "run_io (SetHostStatus ?E c (h_TenantId v) (h_ResourceId v)
        (mk_status (h_HostStatus v) (h_HostStatusIndicator v))) l = (r, l1)"
    from host_status_works [OF assms(1-3,6) this] obtain t where
      t: "r = Ret None" "?s l1 = ?s l\<lparr>w_inst := (?i l)\<lparr>i_Host := Some (with_host_status v t h)\<rparr>\<rparr>" by blast
    assume "r \<noteq> Panic \<longrightarrow> r1 = Ret ()"
    with t show ?thesis by (intro exI [of _ "with_host_status v t h"]) simp
  qed (intro exI [of _ h], use assms(3) in simp)
  then obtain h' where h': "bare_host h' = bare_host h" "r1 = Ret ()"
    "?s l1 = ?s l\<lparr>w_inst := (?i l)\<lparr>i_Host := Some h'\<rparr>\<rparr>" by blast
  have rid: "h_ResourceId v = h_ResourceId h'" "i_Host (?i l1) = Some h'"
    using h' assms(6) bare_hostD(1) [OF h'(1)] by simp_all
  obtain r2 l2 where r2: "run_io ?m2 l1 = (r2, l2)" by fastforce
  have "\<exists>h''. bare_host h'' = bare_host h' \<and> r2 = Ret () \<and>
      ?s l2 = ?s l1\<lparr>w_inst := (?i l1)\<lparr>i_Host := Some h''\<rparr>\<rparr>"
    using run_then_nothing [OF r2]
  proof (elim disjE conjE exE)
    fix r assume "run_io (SetHostOnboardingStatus ?E c (h_TenantId v) (h_ResourceId v)
        (mk_status (h_OnboardingStatus v) (h_OnboardingStatusIndicator v))) l1 = (r, l2)"
    from onboarding_status_works [OF assms(1,2) rid(2,1) this] obtain t where
      t: "r = Ret None" "?s l2 = ?s l1\<lparr>w_inst := (?i l1)\<lparr>i_Host := Some (with_onboarding_status v t h')\<rparr>\<rparr>" by blast
    assume "r \<noteq> Panic \<longrightarrow> r2 = Ret ()"
    with t show ?thesis by (intro exI [of _ "with_onboarding_status v t h'"]) simp
  qed (intro exI [of _ h'], use rid(2) in simp)
  then obtain h'' where h'': "bare_host h'' = bare_host h'" "r2 = Ret ()"
    "?s l2 = ?s l1\<lparr>w_inst := (?i l1)\<lparr>i_Host := Some h''\<rparr>\<rparr>" by blast
  from assms(8) have "run_io ?m3 l2 = (e, l')"
    unfolding m by (simp only: run_bnd r1 r2 h'(2) h''(2) prod.case outcome.case)
  then obtain r where "run_io (UpdateInstance ?E c (i_TenantId new) (i_ResourceId new) (i_CurrentState new)
      (slot_provisioning new) (i_Os new)) l2 = (r, l')" "e = Ret () \<or> r = Panic"
    by (auto split: prod.splits outcome.splits)
  with update_instance_works [OF assms(1,2)] obtain t'' where
    "e = Ret ()" "?s l' = ?s l2\<lparr>w_inst := written_back new t'' (?i l2)\<rparr>"
    by blast
  moreover have "?s l2 = ?s l\<lparr>w_inst := (?i l)\<lparr>i_Host := Some h''\<rparr>\<rparr>"
    unfolding h''(3) h'(3) by simp
  moreover have "bare_host h'' = bare_host h" using h'(1) h''(1) by auto
  ultimately show ?thesis by auto
qed


section \<open>What a check of the workflow does to the world\<close>

definition with_new_workflow :: "string \<Rightarrow> world \<Rightarrow> world \<Rightarrow> bool" where
  "with_new_workflow n w w' \<longleftrightarrow> w_wfs w n = None \<and>
     (\<exists>x. wf_State x = WF_EMPTY \<and> w' = w\<lparr>w_wfs := (w_wfs w)(n \<mapsto> x), w_made := Suc (w_made w)\<rparr>)"

lemma check_effect:
  assumes "di_GUID d = u" and "after f w0 l = w"
    and run: "run_io (CheckStatusOrRunProdWorkflow (in_world B f w0) d i) l = (r, l')"
  shows "after f w0 l' = w \<or> with_new_workflow (generateWorkflowName u) w (after f w0 l')"
proof -
  have "check_call (generateWorkflowName u) x \<Longrightarrow> v = w \<or> with_new_workflow (generateWorkflowName u) w v \<Longrightarrow>
      take_effect x v = w \<or> with_new_workflow (generateWorkflowName u) w (take_effect x v)" for x v
    by (cases x) (auto simp: new_workflow_of_def with_new_workflow_def split: option.splits k8s_obj.splits)
  then show ?thesis
    using emits_keeps [OF emits_check run, of "\<lambda>v. v = w \<or> with_new_workflow (generateWorkflowName u) w v" f w0]
      assms(1,2) by simp
qed

text \<open>A check that gets a workflow from Kubernetes changes nothing.\<close>

lemma check_outcome:
  assumes "di_GUID d = u" and "after f w0 l = w"
    and run: "run_io (CheckStatusOrRunProdWorkflow (in_world B f w0) d i) l = (Ret (i1, err), l')"
  shows "(err \<noteq> None \<and> i1 = i) \<or> (\<exists>x. after f w0 l' = w \<and> w_wfs w (generateWorkflowName u) = Some x \<and>
    handleWorkflowStatus (in_world B f w0) (PopulateInstanceStatusAndCurrentState i INSTANCE_STATE_UNSPECIFIED
      ProvisioningStatusInProgress) x ProvisioningStatusDone ProvisioningStatusFailed = Ret (i1, err))"
proof -
  have "w_wfs w (generateWorkflowName u) = Some x"
    if "k8s_get_workflow (in_world B f w0) (l @ [K8sClient]) (k8s_namespace B) (generateWorkflowName u) = Inr x" for x
    using get_reply [OF that] assms(2) by (auto split: if_splits)
  moreover from this have "after f w0 l' = w"
    if "k8s_get_workflow (in_world B f w0) (l @ [K8sClient]) (k8s_namespace B) (generateWorkflowName u) = Inr x" for x
    using check_effect [OF assms(1,2) run] that by (auto simp: with_new_workflow_def)
  ultimately show ?thesis
    using check_result [OF run] assms(1) by auto
qed

lemma handle_keeps:
  assumes "handleWorkflowStatus E i x s t = Ret (i1, err)"
  shows "i_ResourceId i1 = i_ResourceId i" "i_Os i1 = i_Os i" "i_DesiredState i1 = i_DesiredState i"
    "\<forall>h. i_Host i = Some h \<longrightarrow> (\<exists>h'. i_Host i1 = Some h' \<and> bare_host h' = bare_host h)"
  using assms
  by (auto simp: handleWorkflowStatus_def Let_def PopulateInstanceStatusAndCurrentState_def bare_host_def
      PopulateHostStatus_def PopulateInstanceProvisioningStatus_def
      split: wf_state.splits sum.splits if_splits option.splits outcome.splits)

section \<open>One workflow for one Instance\<close>

text \<open>An Instance that is wanted running, on a host that is not deauthorized.\<close>

definition wanted :: "inst \<Rightarrow> bool" where
  "wanted i \<longleftrightarrow> i_DesiredState i = INSTANCE_STATE_RUNNING \<and> i_Host i \<noteq> None \<and> \<not> host_untrusted i \<and>
     (\<exists>os. i_Os i = Some os \<and> os_Provider os = OS_PROVIDER_KIND_INFRA)"

definition ready :: "inst \<Rightarrow> bool" where
  "ready i \<longleftrightarrow> i_ProvisioningStatusIndicator i = IND_IDLE \<and> i_CurrentState i = INSTANCE_STATE_RUNNING"

text \<open>Nothing was created yet, or one workflow, which is there until the Instance is ready.\<close>

definition made_once :: "string \<Rightarrow> world \<Rightarrow> bool" where
  "made_once u w \<longleftrightarrow> wanted (w_inst w) \<and> host_uuid (w_inst w) = u \<and>
     (w_made w = 0 \<and> w_wfs w (generateWorkflowName u) = None \<or>
      w_made w = 1 \<and> (w_wfs w (generateWorkflowName u) \<noteq> None \<or> ready (w_inst w)))"

lemma wanted_written:
  assumes "wanted i" and "i_Host i = Some h" and "bare_host h' = bare_host h" and "i_Os new = i_Os i"
  shows "wanted (written_back new t (i\<lparr>i_Host := Some h'\<rparr>))"
    and "host_uuid (written_back new t (i\<lparr>i_Host := Some h'\<rparr>)) = host_uuid i"
  using assms(1,2,4) bare_hostD [OF assms(3)]
  by (auto simp: wanted_def written_back_def host_untrusted_def host_uuid_def)

text \<open>The part of an attempt before it is written back.\<close>

definition attempt :: "om_env \<Rightarrow> device_info \<Rightarrow> inst \<Rightarrow> (inst \<times> error) om" where
  "attempt E d i = bnd (CheckStatusOrRunProdWorkflow E d i) (\<lambda>(i1, err').
     if err' \<noteq> None then ret (i1, err')
     else ret (PopulateInstanceStatusAndCurrentState i1 INSTANCE_STATE_RUNNING ProvisioningStatusDone, None))"

lemma tryProvisionInstance_attempt:
  assumes "errlib_laws (lib E)" and "i_Os i = Some os" and "os_Provider os = OS_PROVIDER_KIND_INFRA"
  shows "tryProvisionInstance E c i = (case convertInstanceToDeviceInfo E i of
      Inl e \<Rightarrow> ret (i, Some e)
    | Inr d \<Rightarrow> with_defer (attempt E d i) (\<lambda>r.
        updateHostInstanceStatusAndCurrentState E c i (case r of Ret (x, _) \<Rightarrow> x | Panic \<Rightarrow> i)))"
  using assms by (simp add: tryProvisionInstance_def attempt_def Let_def split: sum.split)

lemma attempt_outcome:
  assumes "di_GUID d = u" and "after f w0 l = w" and "i_Host i = Some h"
    and run: "run_io (attempt (in_world B f w0) d i) l = (r, l')"
  shows "(after f w0 l' = w \<or> with_new_workflow (generateWorkflowName u) w (after f w0 l')) \<and>
    (case r of Panic \<Rightarrow> True | Ret (i1, err) \<Rightarrow> i1 = i \<and> err \<noteq> None \<or>
     after f w0 l' = w \<and> w_wfs w (generateWorkflowName u) \<noteq> None \<and> (err = None \<longrightarrow> ready i1) \<and>
     i_ResourceId i1 = i_ResourceId i \<and> i_Os i1 = i_Os i \<and> (\<exists>h'. i_Host i1 = Some h' \<and> bare_host h' = bare_host h))"
proof -
  obtain r1 l1 where r1: "run_io (CheckStatusOrRunProdWorkflow (in_world B f w0) d i) l = (r1, l1)" by fastforce
  have l1: "l1 = l'" using run r1 by (auto simp: attempt_def split: outcome.splits prod.splits if_splits)
  note eff = check_effect [OF assms(1,2) r1, unfolded l1]
  show ?thesis
  proof (cases r1)
    case Panic
    with run r1 eff show ?thesis by (auto simp: attempt_def)
  next
    case (Ret p)
    obtain i1 err where p: "p = (i1, err)" by fastforce
    have r: "r = Ret (if err \<noteq> None then i1 else
        PopulateInstanceStatusAndCurrentState i1 INSTANCE_STATE_RUNNING ProvisioningStatusDone, err)"
      using run r1 by (auto simp: attempt_def Ret p)
    from check_outcome [OF assms(1,2) r1 [unfolded Ret p l1]] show ?thesis
    proof (elim disjE exE conjE)
      fix x assume x: "after f w0 l' = w" "w_wfs w (generateWorkflowName u) = Some x"
        and h: "handleWorkflowStatus (in_world B f w0) (PopulateInstanceStatusAndCurrentState i INSTANCE_STATE_UNSPECIFIED
          ProvisioningStatusInProgress) x ProvisioningStatusDone ProvisioningStatusFailed = Ret (i1, err)"
      from handle_keeps [OF h] assms(3) x show ?thesis
        by (auto simp: r PopulateInstanceStatusAndCurrentState_def ready_def ProvisioningStatusDone_def)
    qed (use eff r in auto)
  qed
qed

text \<open>What an attempt and its write back leave, once the Inventory takes writes.\<close>

lemma written_once:
  assumes "made_once u w" and "\<not> ready (w_inst w) \<or> w_wfs w (generateWorkflowName u) \<noteq> None"
    and "w1 = w \<or> with_new_workflow (generateWorkflowName u) w w1"
    and "i_Host (w_inst w) = Some h" and "bare_host h' = bare_host h" and "i_Os new = i_Os (w_inst w)"
    and "new = w_inst w \<or> w1 = w \<and> w_wfs w (generateWorkflowName u) \<noteq> None"
  shows "made_once u (w1\<lparr>w_inst := written_back new t ((w_inst w1)\<lparr>i_Host := Some h'\<rparr>)\<rparr>)"
proof -
  have same: "w_inst w1 = w_inst w" using assms(3) by (auto simp: with_new_workflow_def)
  have made: "w_made w1 = 0 \<and> w_wfs w1 (generateWorkflowName u) = None \<or>
      w_made w1 = 1 \<and> w_wfs w1 (generateWorkflowName u) \<noteq> None"
    using assms(1-3) by (auto simp: made_once_def with_new_workflow_def)
  from wanted_written [OF _ assms(4,5,6)] assms(1) made show ?thesis
    by (auto simp: made_once_def same)
qed

lemma try_once:
  assumes "errlib_laws (lib B)" and "sound_masks B" and "inventory_works f" and "made_once u w"
    and "\<not> ready (w_inst w) \<or> w_wfs w (generateWorkflowName u) \<noteq> None" and "after f w0 l = w"
    and "run_io (tryProvisionInstance (in_world B f w0) c (w_inst w)) l = (r, l')"
  shows "made_once u (after f w0 l') \<and>
    (case r of Panic \<Rightarrow> True | Ret (i1, err) \<Rightarrow> err = None \<longrightarrow> ready (w_inst (after f w0 l')) \<and> w_made (after f w0 l') = 1)"
proof -
  let ?i = "w_inst w" and ?E = "in_world B f w0" and ?n = "generateWorkflowName u"
  from assms(4) obtain h os where i: "i_Host ?i = Some h" "i_Os ?i = Some os" "os_Provider os = OS_PROVIDER_KIND_INFRA"
    "host_uuid ?i = u"
    by (auto simp: made_once_def wanted_def)
  have E: "errlib_laws (lib ?E)" using assms(1) by simp
  show ?thesis
  proof (cases "convertInstanceToDeviceInfo ?E ?i")
    case (Inl e)
    with assms(4,6,7) show ?thesis by (auto simp: tryProvisionInstance_attempt [OF E i(2,3)])
  next
    case (Inr d)
    with i(4) have d: "di_GUID d = u" by (auto dest: device_of_host)
    obtain r1 l1 where r1: "run_io (attempt ?E d ?i) l = (r1, l1)" by fastforce
    let ?new = "case r1 of Ret (x, _) \<Rightarrow> x | Panic \<Rightarrow> ?i" and ?w1 = "after f w0 l1"
    obtain e l2 where wb: "run_io (updateHostInstanceStatusAndCurrentState ?E c ?i ?new) l1 = (e, l2)" by fastforce
    have out: "?w1 = w \<or> with_new_workflow ?n w ?w1"
      "?new = ?i \<or> ?w1 = w \<and> w_wfs w ?n \<noteq> None"
      "i_ResourceId ?new = i_ResourceId ?i" "i_Os ?new = i_Os ?i"
      "\<exists>v. i_Host ?new = Some v \<and> bare_host v = bare_host h"
      "r1 = Ret (j, None) \<Longrightarrow> ready ?new \<and> ?w1 = w \<and> w_wfs w ?n \<noteq> None" for j
      using attempt_outcome [OF d assms(6) i(1) r1] i(1) by (auto split: outcome.splits prod.splits)
    from out(1) have same: "w_inst ?w1 = ?i" by (auto simp: with_new_workflow_def)
    from out(5) obtain v where v: "i_Host ?new = Some v" "h_ResourceId v = h_ResourceId h"
      by (auto dest: bare_hostD)
    from write_back_works [OF assms(2,3) _ i(1) v(1,2) _ wb] same i(1,2) obtain h' t where
      e: "e = Ret ()" and h': "bare_host h' = bare_host h"
      and w2: "after f w0 l2 = ?w1\<lparr>w_inst := written_back ?new t (?i\<lparr>i_Host := Some h'\<rparr>)\<rparr>"
      by auto
    have run: "r = r1" "l' = l2"
      using assms(7) r1 wb by (auto simp: tryProvisionInstance_attempt [OF E i(2,3)] Inr e)
    have once: "made_once u (after f w0 l')"
      using written_once [OF assms(4,5) out(1) i(1) h' out(4,2)] by (simp add: run w2 same)
    have "ready (w_inst (after f w0 l')) \<and> w_made (after f w0 l') = 1" if "r1 = Ret (j, None)" for j
      using out(6) [OF that] out(3) assms(4) by (auto simp: run w2 written_back_def ready_def made_once_def)
    with once show ?thesis by (auto simp: run split: outcome.split)
  qed
qed

text \<open>A reconciliation of a wanted Instance: an acknowledgement at once, or an attempt.\<close>

lemma loaded_once:
  assumes "wanted i"
  shows "reconcile_loaded E c i = ret Ack \<or> \<not> ready i \<and> reconcile_loaded E c i = reconcileInstance E c i"
proof -
  have "bnd (bnd m (\<lambda>d. ret (Some d))) (\<lambda>d. or_go_on d n) = m" for m n :: "directive om" by simp
  with assms show ?thesis
    by (auto simp: reconcile_loaded_def wanted_def handleProviderSpecificRM_def handleErrorState_def
        handleHostDeauthorized_def handleMatchingStates_def handleHostOnboarded_def ready_def
        ProvisioningStatusDone_def split: option.splits)
qed

lemma reconcile_once:
  assumes "errlib_laws (lib B)" and "sound_masks B" and "inventory_works f" and "made_once u w"
    and "\<not> ready (w_inst w)" and "after f w0 l = w"
    and "run_io (reconcileInstance (in_world B f w0) c (w_inst w)) l = (r, l')"
  shows "made_once u (after f w0 l')"
proof -
  let ?E = "in_world B f w0"
  let ?J = "\<lambda>v. made_once u v \<and> ready (w_inst v) \<and> w_made v = 1"
  obtain r1 l1 where r1: "run_io (tryProvisionInstance ?E c (w_inst w)) l = (r1, l1)" by fastforce
  note tried = try_once [OF assms(1-4) _ assms(6) r1]
  have desired: "i_DesiredState (w_inst w) = INSTANCE_STATE_RUNNING"
    using assms(4) by (simp add: made_once_def wanted_def)
  have clean: "?J (after f w0 l3)"
    if "?J (after f w0 l1)" "run_io (cleanupProvisioningResources ?E i) l1 = (r3, l3)" for i r3 l3
  proof (rule emits_keeps [OF emits_cleaning(1) that(2), of ?J, OF that(1)])
    show "cleaning_call x \<Longrightarrow> ?J v \<Longrightarrow> ?J (take_effect x v)" for x v
      by (cases x) (auto simp: made_once_def)
  qed
  show ?thesis
  proof (cases r1)
    case Panic
    with tried assms(5,7) r1 desired show ?thesis by (auto simp: reconcileInstance_def)
  next
    case (Ret p)
    obtain i1 err where p: "p = (i1, err)" by fastforce
    obtain r3 l3 where r3: "run_io (cleanupProvisioningResources ?E i1) l1 = (r3, l3)" by fastforce
    have "l' = l1 \<or> err = None \<and> l' = l3"
    proof (cases err)
      case (Some e)
      obtain dir where "HandleProvisioningError (lib B) err = Some dir"
        using HandleProvisioningError_Some [of "lib B" e] Some by auto
      then show ?thesis using assms(7) r1 desired by (auto simp: reconcileInstance_def Ret p)
    qed (use assms(1,7) r1 desired Ret p r3 in \<open>auto simp: reconcileInstance_def split: outcome.splits\<close>)
    with tried assms(5) clean [OF _ r3] show ?thesis by (auto simp: Ret p)
  qed
qed


lemma InstanceReconcile_once:
  assumes "errlib_laws (lib B)" and "sound_masks B" and "inventory_works f" and "made_once u w"
  shows "made_once u (snd (reconcile_in B f c rid w))"
proof -
  let ?E = "in_world B f w"
  have get: "after f w l = w" if "run_io (GetInstanceResourceByResourceID ?E c t r) [] = (x, l)" for t r x l
    using that by (auto simp: after_single GetInstanceResourceByResourceID_def get_validated_def getResourceByID_def
        split: sum.splits option.splits)
  have loaded: "made_once u (after f w l')"
    if "run_io (reconcile_loaded ?E c (w_inst w)) l = (r, l')" "after f w l = w" for l r l'
  proof -
    from assms(4) have "wanted (w_inst w)" by (simp add: made_once_def)
    from loaded_once [OF this, of ?E c] show ?thesis
    proof
      assume "reconcile_loaded ?E c (w_inst w) = ret Ack"
      with that assms(4) show ?thesis by auto
    next
      assume "\<not> ready (w_inst w) \<and> reconcile_loaded ?E c (w_inst w) = reconcileInstance ?E c (w_inst w)"
      with that reconcile_once [OF assms(1-4) _ that(2)] show ?thesis by auto
    qed
  qed
  obtain r l' where run: "run_io (InstanceReconcile ?E c rid) [] = (r, l')" by fastforce
  have "made_once u (after f w l')"
  proof (cases "GetResourceID rid")
    case (Ret resourceID)
    obtain x l where x: "run_io (GetInstanceResourceByResourceID ?E c (GetTenantID rid) resourceID) [] = (x, l)" by fastforce
    from run x Ret get [OF x] assms(1,4) show ?thesis
      by (auto simp: InstanceReconcile_def or_go_on_def dest: loaded dest!: got_instance
          split: outcome.splits sum.splits option.splits)
  qed (use run assms(4) in \<open>simp add: InstanceReconcile_def\<close>)
  with run show ?thesis by (simp add: reconcile_in_def)
qed

text \<open>Others leave the Instance wanted and do not touch its provisioning status; the state may be
  set to running by the host resource manager.\<close>

definition stays_wanted :: "inst \<Rightarrow> inst \<Rightarrow> bool" where
  "stays_wanted i i' \<longleftrightarrow> keeps_provisioning i i' \<and> wanted i' \<and>
     (i_CurrentState i' = i_CurrentState i \<or> i_CurrentState i' = INSTANCE_STATE_RUNNING)"

end
