(* ===== verification/Phases.thy ===== *)
theory Phases
  imports Once
begin

text \<open>
  The life cycle of a managed Instance as a machine of four phases, and what one reconciliation
  does in each of them when nothing fails, or when only the writes to the Inventory fail. The
  locale \<open>lock_step\<close> is the contract of a refinement in which every step of the program is one
  step of an abstract machine.
\<close>

section \<open>Steps of an abstract machine\<close>

locale lock_step =
  fixes good :: "'s \<Rightarrow> bool" and step :: "'s \<Rightarrow> 'a \<times> 's" and abs_of :: "'s \<Rightarrow> 'p" and nxt :: "'p \<Rightarrow> 'p"
    and ans :: "'p \<Rightarrow> 'a"
  assumes step_good: "good s \<Longrightarrow> good (snd (step s))"
    and step_abs: "good s \<Longrightarrow> abs_of (snd (step s)) = nxt (abs_of s)"
    and step_ans: "good s \<Longrightarrow> fst (step s) = ans (abs_of s)"
begin

lemma steps_good: "good s \<Longrightarrow> good (((snd \<circ> step) ^^ k) s)"
  by (induction k) (simp_all add: step_good)

lemma steps_abs: "good s \<Longrightarrow> abs_of (((snd \<circ> step) ^^ k) s) = (nxt ^^ k) (abs_of s)"
  by (induction k) (simp_all add: step_abs steps_good)

lemma steps_ans: "good s \<Longrightarrow> fst (step (((snd \<circ> step) ^^ k) s)) = ans ((nxt ^^ k) (abs_of s))"
  by (simp add: step_ans steps_good steps_abs)

end

section \<open>When nothing fails\<close>

definition works :: fates where
  "works = (\<lambda>l x. Works)"

text \<open>Only writes to the Inventory may fail.\<close>

fun is_write :: "om_call \<Rightarrow> bool" where
  "is_write (InvUpdate c t rid fs v) = True"
| "is_write _ = False"

definition rest_works :: "fates \<Rightarrow> bool" where
  "rest_works f \<longleftrightarrow> (\<forall>l x. \<not> is_write x \<longrightarrow> f l x = Works)"

lemma rest_worksD [simp]: "rest_works f \<Longrightarrow> \<not> is_write x \<Longrightarrow> f l x = Works"
  by (simp add: rest_works_def)

lemma rest_works_works [simp]: "rest_works works"
  by (simp add: rest_works_def works_def)

lemma works_simps [simp]: "works l x = Works" "inventory_works works"
  by (simp_all add: works_def inventory_works_def)

lemma same_credentials [simp]:
  "createENCredentialsIfNotExists (in_world B f w) = createENCredentialsIfNotExists B"
  unfolding fun_eq_iff createENCredentialsIfNotExists_def credentials_for_def in_world_sel by simp

lemma same_inputs [simp]: "GenerateWorkflowInputs (in_world B f w) = GenerateWorkflowInputs B"
  unfolding fun_eq_iff GenerateWorkflowInputs_def cloud_init_options_def getCustomConfigs_def
    getStreamOSToDiskTinkerActionImage_def detectImageFormat_def FetchPlatformBundleScripts_def
    fetch_if_named_def FetchPlatformBundleData_def DownloadPlatformBundle_def
    tinkActionEraseNonRemovableDisk_def tinkActionSecurebootFlagReadImage_def tinkActionWriteFileImage_def
    tinkActionCexecImage_def tinkActionDiskImage_def tinkActionEfibootImage_def tinkActionFdeDmvImage_def
    tinkActionKernelupgradeImage_def tinkActionQemuNbdImage2DiskImage_def action_image_def
    getTinkerActionImage_def in_world_sel by simp

lemma same_device [simp]: "convertInstanceToDeviceInfo (in_world B f w) = convertInstanceToDeviceInfo B"
  unfolding fun_eq_iff convertInstanceToDeviceInfo_def os_location_def IsStandalone_def kernel_metadata_def
    in_world_sel by simp

lemma same_standalone [simp]: "IsStandalone (in_world B f w) = IsStandalone B"
  unfolding fun_eq_iff IsStandalone_def in_world_sel by simp

text \<open>Keycloak has credentials for the machine, and the inputs of its workflow can be made.\<close>

definition supplied :: "om_env \<Rightarrow> device_info \<Rightarrow> inst \<Rightarrow> bool" where
  "supplied B d i \<longleftrightarrow> (\<forall>l. \<exists>a b. fst (run_io (createENCredentialsIfNotExists B (i_TenantId i) d) l) = Ret (Inr (a, b)) \<and>
     (\<forall>l'. \<exists>m. fst (run_io (GenerateWorkflowInputs B (with_instance d i a b)) l') = Ret (Inr m)))"

definition serving :: "om_env \<Rightarrow> bool" where
  "serving B \<longleftrightarrow> api_laws (lib B) \<and> sound_masks B \<and> (\<forall>x. validate_message B (Some x) = None) \<and>
     (\<forall>x. check_singular B [x] = None)"

text \<open>An Instance in the care of the manager: wanted, on an onboarded host of this resource manager,
  with all that its workflow needs.\<close>

definition managed :: "om_env \<Rightarrow> string \<Rightarrow> string \<Rightarrow> inst \<Rightarrow> bool" where
  "managed B rid u i \<longleftrightarrow> wanted i \<and> host_uuid i = u \<and> GetResourceID rid = Ret (i_ResourceId i) \<and>
     (\<exists>h. i_Host i = Some h \<and> h_Provider h = None \<and> h_CurrentState h = HOST_STATE_ONBOARDED) \<and>
     (\<exists>d. convertInstanceToDeviceInfo B i = Inr d \<and> supplied B d i) \<and>
     (if i_ProvisioningStatusIndicator i = IND_IDLE then i_CurrentState i = INSTANCE_STATE_RUNNING
      else i_ProvisioningStatus i \<noteq> ''Provisioned'')"

datatype phase = Waiting | InFlight wf_state | Ready | Broken

definition phase_of :: "string \<Rightarrow> world \<Rightarrow> phase" where
  "phase_of u w =
     (if i_ProvisioningStatusIndicator (w_inst w) = IND_ERROR then Broken
      else if i_ProvisioningStatusIndicator (w_inst w) = IND_IDLE then Ready
      else case w_wfs w (generateWorkflowName u) of None \<Rightarrow> Waiting | Some x \<Rightarrow> InFlight (wf_State x))"

fun next_phase :: "phase \<Rightarrow> phase" where
  "next_phase Waiting = InFlight WF_EMPTY"
| "next_phase (InFlight WF_SUCCESS) = Ready"
| "next_phase (InFlight WF_FAILED) = Broken"
| "next_phase (InFlight WF_TIMEOUT) = Broken"
| "next_phase p = p"

fun answer_in :: "phase \<Rightarrow> directive" where
  "answer_in Waiting = Retry (Some (Errorfr OperationInProgress ''Prod workflow started, waiting for it to complete''))
     minDelay maxDelay"
| "answer_in (InFlight WF_SUCCESS) = Ack"
| "answer_in (InFlight WF_FAILED) = Fail (Some (Errorfc Aborted ''Workflow failed or timed out''))"
| "answer_in (InFlight WF_TIMEOUT) = Fail (Some (Errorfc Aborted ''Workflow failed or timed out''))"
| "answer_in (InFlight (WF_OTHER s)) = Retry (Some (Errorf (''Unknown workflow state '' @ s))) minDelay maxDelay"
| "answer_in (InFlight s) = Retry (Some (Errorfr OperationInProgress '''')) minDelay maxDelay"
| "answer_in Ready = Ack"
| "answer_in Broken = Ack"

text \<open>What an update of statuses leaves as it was.\<close>

lemma device_cong:
  assumes "i_Os i' = i_Os i" and "i_SecurityFeature i' = i_SecurityFeature i" and "i_Host i = Some h"
    and "i_Host i' = Some h'" and "bare_host h' = bare_host h"
  shows "convertInstanceToDeviceInfo B i' = convertInstanceToDeviceInfo B i"
proof -
  have alone: "IsStandalone B i' = IsStandalone B i" by (simp add: IsStandalone_def assms(1))
  show ?thesis
    unfolding convertInstanceToDeviceInfo_def assms(1-4) option.case Let_def bare_hostD [OF assms(5)] alone
    by (rule refl)
qed

lemma with_instance_cong:
  assumes "i_Os i' = i_Os i" and "i_TenantId i' = i_TenantId i" and "i_Localaccount i' = i_Localaccount i"
    and "i_CustomConfig i' = i_CustomConfig i"
  shows "with_instance d i' a b = with_instance d i a b"
  unfolding with_instance_def assms by (rule refl)

lemma managed_written:
  assumes "managed B rid u i" and "i_Host i = Some h" and "bare_host h' = bare_host h" and "i_Os new = i_Os i"
    and "i_ResourceId new = i_ResourceId i"
    and "if i_ProvisioningStatusIndicator new = IND_IDLE then i_CurrentState new = INSTANCE_STATE_RUNNING
      else i_ProvisioningStatus new \<noteq> ''Provisioned''"
  shows "managed B rid u (written_back new t (i\<lparr>i_Host := Some h'\<rparr>))"
proof -
  let ?i = "written_back new t (i\<lparr>i_Host := Some h'\<rparr>)"
  have "convertInstanceToDeviceInfo B ?i = convertInstanceToDeviceInfo B i"
    using assms(2,4) by (intro device_cong [OF _ _ _ _ assms(3)]) (simp_all add: written_back_def)
  moreover have "with_instance d ?i a b = with_instance d i a b" "i_TenantId ?i = i_TenantId i" for d a b
    using assms(4) by (auto simp: written_back_def intro!: with_instance_cong)
  moreover have "wanted ?i" "host_uuid ?i = u"
    using wanted_written [OF _ assms(2,3,4)] assms(1) by (auto simp: managed_def)
  moreover have "i_Host ?i = Some h'" by (simp add: written_back_def)
  ultimately show ?thesis
    using assms(1,2,5,6) bare_hostD [OF assms(3)] by (auto simp: managed_def supplied_def written_back_def)
qed

lemma managed_host:
  assumes "managed B rid u i" and "i_Host i = Some h" and "bare_host h' = bare_host h"
  shows "managed B rid u (i\<lparr>i_Host := Some h'\<rparr>)"
proof -
  have "managed B rid u (written_back i (i_ProvisioningStatusTimestamp i) (i\<lparr>i_Host := Some h'\<rparr>))"
    using assms(1) by (intro managed_written [OF assms]) (auto simp: managed_def)
  moreover have "written_back i (i_ProvisioningStatusTimestamp i) (i\<lparr>i_Host := Some h'\<rparr>) = i\<lparr>i_Host := Some h'\<rparr>"
    by (simp add: written_back_def)
  ultimately show ?thesis by simp
qed

lemma managed_loaded:
  assumes "managed B rid u (w_inst w)" and "errlib_laws (lib E)"
  shows "reconcile_loaded E c (w_inst w) =
    (if phase_of u w = Ready \<or> phase_of u w = Broken then ret Ack else reconcileInstance E c (w_inst w))"
proof -
  have "bnd (bnd m (\<lambda>d. ret (Some d))) (\<lambda>d. or_go_on d n) = m" for m n :: "directive om" by simp
  with assms show ?thesis
    by (auto simp: reconcile_loaded_def managed_def wanted_def handleProviderSpecificRM_def handleErrorState_def
        handleHostDeauthorized_def handleMatchingStates_def handleHostOnboarded_def phase_of_def
        ProvisioningStatusDone_def split: option.splits if_splits)
qed

lemma after_request [simp]: "after f w [request_get c rid] = w"
  by (simp add: request_get_def after_single)

lemma run_serving:
  assumes "serving B" and "rest_works f" and "GetResourceID rid = Ret (i_ResourceId (w_inst w))"
    and "run_io (reconcile_loaded (in_world B f w) c (w_inst w)) [request_get c rid] = (d, l')"
  shows "reconcile_in B f c rid w = (d, after f w l')"
  using assms
  by (simp add: reconcile_in_def InstanceReconcile_def GetInstanceResourceByResourceID_def get_validated_def
      getResourceByID_def in_world_replies serving_def api_laws_def request_get_def find_resource_def)


section \<open>One reconciliation\<close>

lemma cleanup_works:
  assumes "api_laws (lib B)" and "rest_works f"
  shows "\<exists>l'. run_io (cleanupProvisioningResources (in_world B f w0) i) l = (Ret None, l') \<and>
    after f w0 l' = after f w0 l\<lparr>w_wfs := (w_wfs (after f w0 l))(generateWorkflowName (host_uuid i) := None)\<rparr>"
  using assms
  by (auto simp: cleanupProvisioningResources_def DeleteTinkerbellWorkflowIfExists_def DeleteWorkflowIfExists_def
      K8sClientFactory_def in_world_replies api_laws_def host_uuid_def after_append split: option.split)

text \<open>A reconciliation around what the check of the workflow has found.\<close>

lemma reconcile_around:
  assumes "serving B" and "managed B rid u i" and "i_Host i = Some h" and "convertInstanceToDeviceInfo B i = Inr d"
    and "run_io (attempt (in_world B works w0) d i) l = (Ret (i2, err), l1)" and "w_inst (after works w0 l1) = i"
    and "i_ResourceId i2 = i_ResourceId i" and "i_Os i2 = i_Os i" and "i_Host i2 = Some v" and "bare_host v = bare_host h"
  shows "\<exists>l' h' t w1. run_io (reconcileInstance (in_world B works w0) c i) l =
      (Ret (case HandleProvisioningError (lib B) err of Some d \<Rightarrow> d | None \<Rightarrow> Ack), l') \<and> bare_host h' = bare_host h \<and>
    w1 = after works w0 l1\<lparr>w_inst := written_back i2 t (i\<lparr>i_Host := Some h'\<rparr>)\<rparr> \<and>
    after works w0 l' = (if err = None then w1\<lparr>w_wfs := (w_wfs w1)(generateWorkflowName u := None)\<rparr> else w1)"
proof -
  let ?E = "in_world B works w0"
  from assms(1) have L: "errlib_laws (lib ?E)" "sound_masks B" "api_laws (lib B)" by (simp_all add: serving_def api_laws_def)
  from assms(2) obtain os where os: "i_Os i = Some os" "os_Provider os = OS_PROVIDER_KIND_INFRA" and u: "host_uuid i = u"
    and desired: "i_DesiredState i = INSTANCE_STATE_RUNNING"
    by (auto simp: managed_def wanted_def)
  obtain e l2 where wb: "run_io (updateHostInstanceStatusAndCurrentState ?E c i i2) l1 = (e, l2)" by fastforce
  from write_back_works [OF L(2) _ _ assms(3,9) _ _ wb] assms(3,6) os bare_hostD(1) [OF assms(10)]
  obtain h' t where h': "e = Ret ()" "bare_host h' = bare_host h"
    "after works w0 l2 = after works w0 l1\<lparr>w_inst := written_back i2 t (i\<lparr>i_Host := Some h'\<rparr>)\<rparr>"
    by auto
  have tried: "run_io (tryProvisionInstance ?E c i) l = (Ret (i2, err), l2)"
    by (simp add: tryProvisionInstance_attempt [OF L(1) os] assms(4,5) wb h'(1))
  obtain l3 where l3: "run_io (cleanupProvisioningResources ?E i2) l2 = (Ret None, l3)"
    "after works w0 l3 = after works w0 l2\<lparr>w_wfs := (w_wfs (after works w0 l2))(generateWorkflowName (host_uuid i2) := None)\<rparr>"
    using cleanup_works [OF L(3) rest_works_works] by blast
  have u2: "host_uuid i2 = u" using u assms(3,9) bare_hostD(2) [OF assms(10)] by (simp add: host_uuid_def)
  show ?thesis
  proof (cases err)
    case None
    have "run_io (reconcileInstance ?E c i) l = (Ret Ack, l3)"
      using desired L(1) by (simp add: reconcileInstance_def tried None l3(1))
    with h' l3(2) u2 L(1) None show ?thesis by (auto intro!: exI [of _ h'] exI [of _ t])
  next
    case (Some e')
    obtain dir where dir: "HandleProvisioningError (lib B) (Some e') = Some dir"
      using HandleProvisioningError_Some by blast
    then have "run_io (reconcileInstance ?E c i) l = (Ret dir, l2)"
      using desired by (simp add: reconcileInstance_def tried Some)
    with h' dir Some show ?thesis by (auto intro!: exI [of _ h'] exI [of _ t])
  qed
qed


lemma alone_of_device: "convertInstanceToDeviceInfo B i = Inr d \<Longrightarrow> \<exists>b. IsStandalone B i = Inr b"
  by (auto simp: convertInstanceToDeviceInfo_def split: option.splits sum.splits)

lemma check_works:
  assumes "rest_works f" and "w_wfs (after f w0 l) (generateWorkflowName (di_GUID d)) = Some x" and "i_Host i \<noteq> None"
  shows "\<exists>l1. run_io (CheckStatusOrRunProdWorkflow (in_world B f w0) d i) l =
      (handleWorkflowStatus (in_world B f w0) (PopulateInstanceStatusAndCurrentState i INSTANCE_STATE_UNSPECIFIED
        ProvisioningStatusInProgress) x ProvisioningStatusDone ProvisioningStatusFailed, l1) \<and>
    after f w0 l1 = after f w0 l"
  using assms by (auto simp: CheckStatusOrRunProdWorkflow_def K8sClientFactory_def getWorkflow_def in_world_replies after_append)

text \<open>The Instance and the error that a workflow in state \<open>s\<close> leads to.\<close>

definition judged :: "errlib \<Rightarrow> wf_state \<Rightarrow> inst \<Rightarrow> error \<Rightarrow> bool" where
  "judged L s i err \<longleftrightarrow> (err = None \<longleftrightarrow> s = WF_SUCCESS) \<and>
     (case HandleProvisioningError L err of Some d \<Rightarrow> d | None \<Rightarrow> Ack) = answer_in (InFlight s) \<and>
     (case s of WF_SUCCESS \<Rightarrow> ready i
      | WF_FAILED \<Rightarrow> i_ProvisioningStatusIndicator i = IND_ERROR \<and> i_ProvisioningStatus i \<noteq> ''Provisioned''
      | WF_TIMEOUT \<Rightarrow> i_ProvisioningStatusIndicator i = IND_ERROR \<and> i_ProvisioningStatus i \<noteq> ''Provisioned''
      | _ \<Rightarrow> i_ProvisioningStatusIndicator i = IND_IN_PROGRESS \<and> i_ProvisioningStatus i \<noteq> ''Provisioned'')"

lemma in_progress_indicator: "st_Indicator ProvisioningStatusInProgress = IND_IN_PROGRESS"
  by (simp add: ProvisioningStatusInProgress_def)

lemma in_progress_text: "st_Status (NewStatusWithDetails ProvisioningStatusInProgress d) \<noteq> ''Provisioned''"
    and in_progress_text': "st_Status ProvisioningStatusInProgress \<noteq> ''Provisioned''"
    and failed_text: "st_Status (NewStatusWithDetails ProvisioningStatusFailed d) \<noteq> ''Provisioned''"
  by (simp_all add: NewStatusWithDetails_def ProvisioningStatusInProgress_def ProvisioningStatusFailed_def)

text \<open>The status text of an Instance whose workflow \<open>x\<close> has failed.\<close>

definition failure_text :: "workflow \<Rightarrow> string" where
  "failure_text x = st_Status (NewStatusWithDetails ProvisioningStatusFailed (GenerateStatusDetailFromWorkflowState (Some x)))"

lemma attempt_in_flight:
  assumes "errlib_laws (lib B)" and "convertInstanceToDeviceInfo B i = Inr d" and "i_Host i = Some h"
    and "rest_works f" and "w_wfs (after f w0 l) (generateWorkflowName (di_GUID d)) = Some x"
  shows "\<exists>i2 err l1 v. run_io (attempt (in_world B f w0) d i) l = (Ret (i2, err), l1) \<and>
    after f w0 l1 = after f w0 l \<and> i_ResourceId i2 = i_ResourceId i \<and> i_Os i2 = i_Os i \<and>
    i_Host i2 = Some v \<and> bare_host v = bare_host h \<and> judged (lib B) (wf_State x) i2 err \<and>
    (wf_State x \<in> {WF_FAILED, WF_TIMEOUT} \<longrightarrow> i_ProvisioningStatus i2 = failure_text x)"
proof -
  let ?E = "in_world B f w0"
  let ?i0 = "PopulateInstanceStatusAndCurrentState i INSTANCE_STATE_UNSPECIFIED ProvisioningStatusInProgress"
  obtain b where b: "IsStandalone B i = Inr b" using alone_of_device [OF assms(2)] by blast
  have host: "i_Host ?i0 = Some h" using assms(3) by (simp add: PopulateInstanceStatusAndCurrentState_def)
  then have "handleWorkflowStatus ?E ?i0 x ProvisioningStatusDone ProvisioningStatusFailed \<noteq> Panic"
    by (intro handleWorkflowStatus_returns) simp
  then obtain i1 err where h: "handleWorkflowStatus ?E ?i0 x ProvisioningStatusDone ProvisioningStatusFailed = Ret (i1, err)"
    by (cases "handleWorkflowStatus ?E ?i0 x ProvisioningStatusDone ProvisioningStatusFailed") auto
  obtain l1 where l1: "run_io (CheckStatusOrRunProdWorkflow ?E d i) l = (Ret (i1, err), l1)"
    "after f w0 l1 = after f w0 l"
    using check_works [OF assms(4,5), of i B] assms(3) h by auto
  have alone: "IsStandalone B (i\<lparr>i_CurrentState := c, i_ProvisioningStatus := s, i_ProvisioningStatusIndicator := y\<rparr>) = Inr b" for c s y
    using b by (simp add: IsStandalone_def)
  let ?i2 = "fst (after_check (i1, err))"
  have "judged (lib B) (wf_State x) ?i2 err"
    using h assms(1)
    by (cases "wf_State x")
      (auto simp: handleWorkflowStatus_def Let_def PopulateInstanceStatusAndCurrentState_def judged_def alone
        PopulateInstanceProvisioningStatus_def ready_def after_check_def ProvisioningStatusDone_def
        in_progress_text in_progress_text' in_progress_indicator failed_text HandleProvisioningError_def PopulateHostStatus_def split: if_splits outcome.splits option.splits)
  moreover have "wf_State x \<in> {WF_FAILED, WF_TIMEOUT} \<longrightarrow> i_ProvisioningStatus ?i2 = failure_text x"
    using h by (auto simp: handleWorkflowStatus_def Let_def after_check_def failure_text_def
        PopulateInstanceProvisioningStatus_def)
  moreover have "run_io (attempt ?E d i) l = (Ret (?i2, err), l1)"
    by (cases err) (simp_all add: attempt_def l1 after_check_def)
  moreover have "i_ResourceId ?i2 = i_ResourceId i" "i_Os ?i2 = i_Os i"
    "\<exists>v. i_Host ?i2 = Some v \<and> bare_host v = bare_host h"
    using handle_keeps [OF h] host by (auto simp: after_check_def PopulateInstanceStatusAndCurrentState_def)
  ultimately show ?thesis using l1(2) by blast
qed


text \<open>A program that only asks Keycloak and the release service leaves the world as it is.\<close>

fun outside_call :: "om_call \<Rightarrow> bool" where
  "outside_call AuthFactory = True"
| "outside_call (AuthGetCredentials t u) = True"
| "outside_call (AuthCreateCredentials t u) = True"
| "outside_call AuthLogout = True"
| "outside_call (HttpGetHeader u p) = True"
| "outside_call (DownloadArtifacts r t) = True"
| "outside_call (CacheStore k v) = True"
| "outside_call _ = False"

lemma outside_keeps:
  assumes "emits outside_call m" and "run_io m l = (r, l')"
  shows "after f w0 l' = after f w0 l"
proof -
  have "outside_call x \<Longrightarrow> take_effect x v = v" for x v by (cases x) auto
  with emits_keeps [OF assms, of "\<lambda>v. v = after f w0 l" f w0] show ?thesis by simp
qed

lemma emits_outside:
  "emits outside_call (createENCredentialsIfNotExists B t d)" "emits outside_call (GenerateWorkflowInputs B d)"
  by (intro emits_intro; simp)+

lemma attempt_waiting:
  assumes "api_laws (lib B)" and "convertInstanceToDeviceInfo B i = Inr d" and "i_Host i = Some h" and "supplied B d i"
    and "w_wfs (after works w0 l) (generateWorkflowName (di_GUID d)) = None"
  shows "\<exists>l1. run_io (attempt (in_world B works w0) d i) l =
      (Ret (i, Some (Errorfr OperationInProgress ''Prod workflow started, waiting for it to complete'')), l1) \<and>
    with_new_workflow (generateWorkflowName (di_GUID d)) (after works w0 l) (after works w0 l1)"
proof -
  let ?E = "in_world B works w0" and ?n = "generateWorkflowName (di_GUID d)"
  let ?l0 = "l @ [K8sClient, K8sGetWorkflow (k8s_namespace B) ?n]"
  have l0: "after works w0 ?l0 = after works w0 l" by (simp add: after_append)
  from assms(4) obtain a b where ab: "fst (run_io (createENCredentialsIfNotExists B (i_TenantId i) d) ?l0) = Ret (Inr (a, b))"
    and inputs: "\<And>l'. \<exists>m. fst (run_io (GenerateWorkflowInputs B (with_instance d i a b)) l') = Ret (Inr m)"
    unfolding supplied_def by blast
  then obtain l1 where l1: "run_io (createENCredentialsIfNotExists B (i_TenantId i) d) ?l0 = (Ret (Inr (a, b)), l1)"
    by (metis prod.collapse)
  obtain m l2 where l2: "run_io (GenerateWorkflowInputs B (with_instance d i a b)) l1 = (Ret (Inr m), l2)"
    using inputs [of l1] by (metis prod.collapse)
  have world: "after works w0 l2 = after works w0 l"
    using outside_keeps [OF emits_outside(1) l1] outside_keeps [OF emits_outside(2) l2] l0 by metis
  obtain tn where tn: "OSTypeToTemplateName (di_OsType d) = Some tn"
    using assms(2) by (auto simp: convertInstanceToDeviceInfo_def os_location_def Let_def
        split: option.splits sum.splits prod.splits os_type.splits)
  let ?x = "NewWorkflow ?n (k8s_namespace B) DummyHardwareName tn m"
  have run: "run_io (runProdWorkflow ?E d i) ?l0 = (Ret None, l2 @ [K8sCreate (ObjWorkflow ?x)])"
    using l1 l2 assms(5) world
    by (simp add: runProdWorkflow_def Let_def with_instance_keeps tn CreateWorkflowIfNotExists_def k8s_Create_def
        in_world_replies NewWorkflow_def)
  have "run_io (CheckStatusOrRunProdWorkflow ?E d i) l =
      (Ret (i, Some (Errorfr OperationInProgress ''Prod workflow started, waiting for it to complete'')),
       l2 @ [K8sCreate (ObjWorkflow ?x)])"
    using assms(1,3,5) run
    by (simp add: CheckStatusOrRunProdWorkflow_def K8sClientFactory_def getWorkflow_def in_world_replies api_laws_def)
  moreover have "with_new_workflow ?n (after works w0 l) (after works w0 (l2 @ [K8sCreate (ObjWorkflow ?x)]))"
    unfolding with_new_workflow_def
    using assms(5) world by (intro conjI exI [of _ ?x]) (simp_all add: NewWorkflow_def)
  ultimately show ?thesis by (simp add: attempt_def)
qed


section \<open>Refinement of the life cycle\<close>

text \<open>One reconciliation in a phase where something is left to do.\<close>

lemma waiting_step:
  assumes "serving B" and "managed B rid u (w_inst w)" and "phase_of u w = Waiting"
  shows "\<exists>w'. reconcile_in B works c rid w = (Ret (answer_in Waiting), w') \<and> managed B rid u (w_inst w') \<and>
    phase_of u w' = InFlight WF_EMPTY \<and> w_made w' = Suc (w_made w)"
proof -
  let ?i = "w_inst w" and ?n = "generateWorkflowName u" and ?E = "in_world B works w"
  have L: "errlib_laws (lib B)" "api_laws (lib B)" using assms(1) by (simp_all add: serving_def api_laws_def)
  have rid: "GetResourceID rid = Ret (i_ResourceId ?i)" using assms(2) by (simp add: managed_def)
  from assms(2) obtain h d where i: "i_Host ?i = Some h" "convertInstanceToDeviceInfo B ?i = Inr d" "supplied B d ?i"
    "host_uuid ?i = u" by (auto simp: managed_def)
  have n: "generateWorkflowName (di_GUID d) = ?n" using device_of_host [OF i(2)] i(4) by simp
  have none: "w_wfs w ?n = None" and ind: "i_ProvisioningStatusIndicator ?i \<noteq> IND_IDLE"
      "i_ProvisioningStatusIndicator ?i \<noteq> IND_ERROR"
    using assms(3) by (auto simp: phase_of_def split: if_splits option.splits)
  obtain l1 where l1: "run_io (attempt ?E d ?i) [request_get c rid] =
      (Ret (?i, Some (Errorfr OperationInProgress ''Prod workflow started, waiting for it to complete'')), l1)"
    "with_new_workflow ?n w (after works w l1)"
    using attempt_waiting [OF L(2) i(2,1,3), of w "[request_get c rid]"] none by (auto simp: n)
  have same: "w_inst (after works w l1) = ?i" using l1(2) by (auto simp: with_new_workflow_def)
  from reconcile_around [OF assms(1,2) i(1,2) l1(1) same refl refl i(1) refl, of c] L(1) obtain l' h' t where
    run: "run_io (reconcileInstance ?E c ?i) [request_get c rid] = (Ret (answer_in Waiting), l')"
    and h': "bare_host h' = bare_host h"
    and w': "after works w l' = after works w l1\<lparr>w_inst := written_back ?i t (?i\<lparr>i_Host := Some h'\<rparr>)\<rparr>"
    by auto
  have "reconcile_in B works c rid w = (Ret (answer_in Waiting), after works w l')"
    using managed_loaded [OF assms(2), of ?E c] L(1) assms(3) run
    by (intro run_serving [OF assms(1) rest_works_works rid]) simp
  moreover have "managed B rid u (w_inst (after works w l'))"
    unfolding w' using assms(2) by (simp, intro managed_written [OF assms(2) i(1) h']) (auto simp: managed_def)
  moreover have "phase_of u (after works w l') = InFlight WF_EMPTY \<and> w_made (after works w l') = Suc (w_made w)"
    using l1(2) ind by (auto simp: w' phase_of_def with_new_workflow_def written_back_def)
  ultimately show ?thesis by blast
qed

lemma in_flight_step:
  assumes "serving B" and "managed B rid u (w_inst w)" and "phase_of u w = InFlight s"
  shows "\<exists>w'. reconcile_in B works c rid w = (Ret (answer_in (InFlight s)), w') \<and> managed B rid u (w_inst w') \<and>
    phase_of u w' = next_phase (InFlight s) \<and> w_made w' = w_made w \<and>
    (s = WF_SUCCESS \<longrightarrow> ready (w_inst w') \<and> w_wfs w' (generateWorkflowName u) = None) \<and>
    (\<forall>x. w_wfs w (generateWorkflowName u) = Some x \<longrightarrow> s \<in> {WF_FAILED, WF_TIMEOUT} \<longrightarrow>
       i_ProvisioningStatus (w_inst w') = failure_text x)"
proof -
  let ?i = "w_inst w" and ?n = "generateWorkflowName u" and ?E = "in_world B works w"
  have L: "errlib_laws (lib B)" using assms(1) by (simp_all add: serving_def api_laws_def)
  have rid: "GetResourceID rid = Ret (i_ResourceId ?i)" using assms(2) by (simp add: managed_def)
  from assms(2) obtain h d where i: "i_Host ?i = Some h" "convertInstanceToDeviceInfo B ?i = Inr d"
    "host_uuid ?i = u" by (auto simp: managed_def)
  have n: "generateWorkflowName (di_GUID d) = ?n" using device_of_host [OF i(2)] i(3) by simp
  obtain x where x: "w_wfs w ?n = Some x" "wf_State x = s"
    using assms(3) by (auto simp: phase_of_def split: if_splits option.splits)
  obtain i2 err l1 v where l1: "run_io (attempt ?E d ?i) [request_get c rid] = (Ret (i2, err), l1)"
    "after works w l1 = w" and i2: "i_ResourceId i2 = i_ResourceId ?i" "i_Os i2 = i_Os ?i" "i_Host i2 = Some v"
    "bare_host v = bare_host h" and j: "judged (lib B) s i2 err"
    and text_of: "s \<in> {WF_FAILED, WF_TIMEOUT} \<longrightarrow> i_ProvisioningStatus i2 = failure_text x"
    using attempt_in_flight [OF L i(2,1) rest_works_works, of w "[request_get c rid]" x] x by (auto simp: n)
  have same: "w_inst (after works w l1) = ?i" by (simp add: l1(2))
  from reconcile_around [OF assms(1,2) i(1,2) l1(1) same i2, of c] j l1(2) obtain l' h' t where
    run: "run_io (reconcileInstance ?E c ?i) [request_get c rid] = (Ret (answer_in (InFlight s)), l')"
    and h': "bare_host h' = bare_host h"
    and w': "after works w l' = (if s = WF_SUCCESS
        then w\<lparr>w_inst := written_back i2 t (?i\<lparr>i_Host := Some h'\<rparr>), w_wfs := (w_wfs w)(?n := None)\<rparr>
        else w\<lparr>w_inst := written_back i2 t (?i\<lparr>i_Host := Some h'\<rparr>)\<rparr>)"
    by (auto simp: judged_def)
  have "reconcile_in B works c rid w = (Ret (answer_in (InFlight s)), after works w l')"
    using managed_loaded [OF assms(2), of ?E c] L assms(3) run
    by (intro run_serving [OF assms(1) rest_works_works rid]) simp
  moreover have "managed B rid u (written_back i2 t (?i\<lparr>i_Host := Some h'\<rparr>))"
    using j by (intro managed_written [OF assms(2) i(1) h' i2(2,1)])
      (auto simp: judged_def ready_def split: wf_state.splits)
  moreover have "phase_of u (after works w l') = next_phase (InFlight s)" "w_made (after works w l') = w_made w"
    "s = WF_SUCCESS \<Longrightarrow> ready (w_inst (after works w l')) \<and> w_wfs (after works w l') ?n = None"
    using j i2(1) x by (cases s; simp add: w' phase_of_def judged_def ready_def written_back_def)+
  moreover have "s \<in> {WF_FAILED, WF_TIMEOUT} \<Longrightarrow> i_ProvisioningStatus (w_inst (after works w l')) = failure_text x"
    using text_of i2(1) by (auto simp: w' written_back_def)
  ultimately show ?thesis using x(1) by (auto simp: w')
qed

lemma settled_step:
  assumes "serving B" and "managed B rid u (w_inst w)"
    and "phase_of u w = Ready \<or> phase_of u w = Broken"
  shows "reconcile_in B works c rid w = (Ret Ack, w)"
proof -
  have rid: "GetResourceID rid = Ret (i_ResourceId (w_inst w))" using assms(2) by (simp add: managed_def)
  have "run_io (reconcile_loaded (in_world B works w) c (w_inst w)) [request_get c rid] = (Ret Ack, [request_get c rid])"
    using managed_loaded [OF assms(2), of "in_world B works w" c] assms(1,3) by (simp add: serving_def api_laws_def)
  from run_serving [OF assms(1) rest_works_works rid this] show ?thesis by simp
qed


text \<open>The manager works in lock step with the life cycle.\<close>

definition in_care :: "om_env \<Rightarrow> string \<Rightarrow> string \<Rightarrow> world \<Rightarrow> bool" where
  "in_care B rid u w \<longleftrightarrow> serving B \<and> managed B rid u (w_inst w)"

lemma in_care_step:
  assumes "in_care B rid u w"
  shows "in_care B rid u (snd (reconcile_in B works c rid w)) \<and>
    phase_of u (snd (reconcile_in B works c rid w)) = next_phase (phase_of u w) \<and>
    fst (reconcile_in B works c rid w) = Ret (answer_in (phase_of u w))"
proof -
  from assms have r: "serving B" "managed B rid u (w_inst w)" by (simp_all add: in_care_def)
  show ?thesis
  proof (cases "phase_of u w")
    case Waiting
    with waiting_step [OF r Waiting, of c] assms show ?thesis by (auto simp: in_care_def)
  next
    case (InFlight s)
    with in_flight_step [OF r InFlight, of c] assms show ?thesis by (auto simp: in_care_def)
  qed (use settled_step [OF r] assms in auto)
qed

interpretation cycle: lock_step "in_care B rid u" "reconcile_in B works c rid" "phase_of u" next_phase
    "\<lambda>p. Ret (answer_in p)" for B rid u c
  by unfold_locales (simp_all add: in_care_step)

section \<open>Writes that are lost\<close>

definition writes_refused :: "goerr \<Rightarrow> fates" where
  "writes_refused e = (\<lambda>l x. if is_write x then Refused e else Works)"

lemma writes_refused_rest [simp]: "rest_works (writes_refused e)"
  by (simp add: rest_works_def writes_refused_def)

lemma write_back_refused:
  assumes "i_Host old = Some h" and "i_Host new = Some v"
    and "run_io (updateHostInstanceStatusAndCurrentState (in_world B (writes_refused e) w0) c old new) l = (r, l')"
  shows "r = Ret () \<and> after (writes_refused e) w0 l' = after (writes_refused e) w0 l"
proof
  have "returns (updateHostInstanceStatusAndCurrentState (in_world B (writes_refused e) w0) c old new)"
    using assms(1,2) by (intro returns_updateHostInstance) simp_all
  from returnsD [OF this, of l] assms(3) show "r = Ret ()" by auto
  have "emits is_write (updateHostInstanceStatusAndCurrentState (in_world B (writes_refused e) w0) c old new)"
    by (intro emits_updateHostInstance) simp_all
  then have "keeps (\<lambda>l'. after (writes_refused e) w0 l' = after (writes_refused e) w0 l)
      (updateHostInstanceStatusAndCurrentState (in_world B (writes_refused e) w0) c old new)"
    by (rule keeps_emits) (simp add: writes_refused_def)
  from leadsD [OF this refl assms(3)] show "after (writes_refused e) w0 l' = after (writes_refused e) w0 l" .
qed

end
