(* ===== verification/Session.thy ===== *)
theory Session
  imports Phases OnboardingThms
begin

text \<open>
  A session of the onboarding stream in the world of the Instance reconciler: the machine says
  who it is, gets its credentials, and its host becomes onboarded; what follows is the event
  that makes the manager reconcile the Instance.
\<close>

section \<open>Finding the host\<close>

lemma same_secret [simp]: "FetchClientSecret (in_world B f w) = FetchClientSecret B"
  unfolding fun_eq_iff FetchClientSecret_def credentials_for_def in_world_sel by simp

lemma same_validation [simp]: "collect_valid (in_world B f w) xs = collect_valid B xs"
  by (induction xs rule: collect_valid.induct [of _ B]) (auto split: option.split)

lemma list_host_works:
  assumes "serving B" and "stored_host (after works w0 l) = Some h" and "selects flt h"
  shows "run_io (listAndReturnHost (in_world B works w0) CliRM flt) l = (Ret (Inr h), l @ [InvList CliRM KIND_HOST flt])"
  using assms
  by (simp add: listAndReturnHost_def listAllResources_def in_world_replies list_resources_def serving_def)

text \<open>A request of the host: well-formed, with the UUID and the serial number of the Inventory.\<close>

definition request_of :: "stream_req \<Rightarrow> host \<Rightarrow> bool" where
  "request_of req h \<longleftrightarrow> OnboardNodeStreamRequest_Validate req = None \<and> rq_Uuid req \<noteq> [] \<and> rq_Serialnum req \<noteq> [] \<and>
     h_Uuid h = rq_Uuid req \<and> h_SerialNumber h = rq_Serialnum req"

lemma found_host:
  assumes "serving B" and "stored_host (after works w0 l) = Some h" and "request_of req h"
  shows "run_io (getHostResource (in_world B works w0) req) l =
    (Ret (Inr h), l @ [InvList CliRM KIND_HOST (FilterUuid (rq_Uuid req)), InvList CliRM KIND_HOST (FilterSerialNumber (rq_Serialnum req))])"
proof -
  let ?l1 = "l @ [InvList CliRM KIND_HOST (FilterUuid (rq_Uuid req))]"
  have "run_io (listAndReturnHost (in_world B works w0) CliRM (FilterUuid (rq_Uuid req))) l = (Ret (Inr h), ?l1)"
    using assms(3) by (intro list_host_works assms(1,2)) (simp add: request_of_def)
  moreover have "run_io (listAndReturnHost (in_world B works w0) CliRM (FilterSerialNumber (rq_Serialnum req))) ?l1 =
      (Ret (Inr h), ?l1 @ [InvList CliRM KIND_HOST (FilterSerialNumber (rq_Serialnum req))])"
    using assms(2,3) by (intro list_host_works assms(1)) (simp_all add: request_of_def)
  ultimately show ?thesis
    using assms(3)
    by (auto simp: getHostResource_def GetHostResource_def lookup_serial_def match_hosts_def request_of_def Let_def)
qed

section \<open>The session\<close>

text \<open>The Instance after its host has onboarded.\<close>

definition onboarded_host_of :: "stream_req \<Rightarrow> 64 word \<Rightarrow> host \<Rightarrow> host" where
  "onboarded_host_of req t h = h\<lparr>h_CurrentState := HOST_STATE_ONBOARDED, h_BmcIp := rq_HostIp req,
     h_PxeMac := rq_MacId req, h_OnboardingStatus := st_Status OnboardingStatusDone,
     h_OnboardingStatusIndicator := st_Indicator OnboardingStatusDone, h_OnboardingStatusTimestamp := t\<rparr>"

lemma onboarded_write:
  assumes "sound_masks B" and "i_Host (w_inst (after works w0 l)) = Some h" and "hid = h_ResourceId h"
  shows "\<exists>l' t. run_io (UpdateHostCurrentStateNOnboardStatus (in_world B works w0) CliRM tid hid (rq_HostIp req) (rq_MacId req)
      HOST_STATE_ONBOARDED OnboardingStatusDone) l = (Ret None, l') \<and>
    after works w0 l' = after works w0 l\<lparr>w_inst := (w_inst (after works w0 l))\<lparr>i_Host := Some (onboarded_host_of req t h)\<rparr>\<rparr>"
proof -
  obtain e l' where run: "run_io (UpdateHostCurrentStateNOnboardStatus (in_world B works w0) CliRM tid hid (rq_HostIp req)
      (rq_MacId req) HOST_STATE_ONBOARDED OnboardingStatusDone) l = (e, l')" by fastforce
  then show ?thesis
    using assms(2,3)
    by (auto simp: UpdateHostCurrentStateNOnboardStatus_def put_resource.simps onboard_state_fields_def onboarded_host_of_def
        dest!: update_works [OF assms(1) works_simps(2), rotated -1])
qed

text \<open>What the machine, Keycloak and the process bring to a session.\<close>

definition session_ready :: "om_env \<Rightarrow> stream_req \<Rightarrow> host \<Rightarrow> bool" where
  "session_ready B req h \<longleftrightarrow> stream_recv B [] = Inr (Some req) \<and> (\<forall>l r. stream_send B l r = None) \<and>
     (\<forall>l. \<exists>a b. fst (run_io (FetchClientSecret B (h_TenantId h) (h_Uuid h)) l) = Ret (Inr (a, b))) \<and>
     (\<forall>l. internal_ready B l \<and> \<not> cfg_SkipOSProvisioning (hv_config (host_view_at B l)))"

lemma emits_secret: "emits outside_call (FetchClientSecret B t u)"
  by (intro emits_intro) simp_all


text \<open>A whole session: the credentials go out, the host becomes onboarded, and the last call is the
  event for the Instance.\<close>

lemma onboarding_turn:
  assumes "serving B" and "i_Host (w_inst w) = Some h" and "request_of req h" and "session_ready B req h" and "to_onboard h"
  shows "\<exists>l t g. run_io (stream_turn (in_world B works w)) [] = (Ret (Close None (Some g)), l) \<and>
    h_TenantId g = h_TenantId h \<and> h_ResourceId g = h_ResourceId h \<and>
    after works w l = w\<lparr>w_inst := (w_inst w)\<lparr>i_Host := Some (onboarded_host_of req t h)\<rparr>\<rparr>"
proof -
  let ?E = "in_world B works w" and ?l0 = "[StreamRecv]"
  obtain g where g: "stored_host w = Some g" "request_of req g" "to_onboard g" "h_TenantId g = h_TenantId h"
    "h_ResourceId g = h_ResourceId h" "h_Uuid g = h_Uuid h"
    using assms(2,3,5) by (auto simp: stored_host_def request_of_def to_onboard_def)
  have w0: "after works w ?l0 = w" by (simp add: after_single)
  let ?l1 = "?l0 @ [InvList CliRM KIND_HOST (FilterUuid (rq_Uuid req)), InvList CliRM KIND_HOST (FilterSerialNumber (rq_Serialnum req))]"
  have found: "run_io (getHostResource ?E req) ?l0 = (Ret (Inr g), ?l1)"
    using g(1) by (intro found_host assms(1) g(2)) (simp add: w0)
  have w1: "after works w ?l1 = w" by (simp add: after_def)
  obtain a b l2 where secret: "run_io (FetchClientSecret B (h_TenantId g) (h_Uuid g)) ?l1 = (Ret (Inr (a, b)), l2)"
    using assms(4) g(4,6) unfolding session_ready_def by (metis prod.collapse)
  have w2: "after works w (l2 @ [StreamSend r]) = w" for r
    using outside_keeps [OF emits_secret secret, of works w] w1 by simp
  let ?r = "(plain_resp OK [] NODE_STATE_ONBOARDED)\<lparr>rs_ClientId := a, rs_ClientSecret := b, rs_ProjectId := h_TenantId g\<rparr>"
  obtain l3 t where wrote: "run_io (UpdateHostCurrentStateNOnboardStatus ?E CliRM (h_TenantId g) (h_ResourceId g) (rq_HostIp req)
      (rq_MacId req) HOST_STATE_ONBOARDED OnboardingStatusDone) (l2 @ [StreamSend ?r]) = (Ret None, l3)"
    "after works w l3 = w\<lparr>w_inst := (w_inst w)\<lparr>i_Host := Some (onboarded_host_of req t h)\<rparr>\<rparr>"
    using onboarded_write [of B w "l2 @ [StreamSend ?r]" h "h_ResourceId g" "h_TenantId g" req] assms(1,2) g(5)
    unfolding w2 by (auto simp: serving_def)
  have sent: "stream_send B l r = None" for l r using assms(4) by (simp add: session_ready_def)
  have "run_io (handleOnboardedState ?E g req) ?l1 = (Ret None, l3)"
    using secret wrote(1) sent by (simp add: handleOnboardedState_def sendOnboardStreamResponse_def)
  then have "run_io (answer_host ?E req g) ?l1 = (Ret (Close None (Some g)), l3)"
    using g(3) by (simp add: answer_to_onboard)
  then have "run_io (stream_turn ?E) [] = (Ret (Close None (Some g)), l3)"
    using assms(3,4) found
    by (simp add: stream_turn_def receiveFromStream_def session_ready_def handle_request_def sanitize_def request_of_def)
  with wrote(2) g(4,5) show ?thesis by blast
qed

lemma onboarding_session:
  assumes "serving B" and "i_Host (w_inst w) = Some h" and "request_of req h" and "session_ready B req h" and "to_onboard h"
    and "h_ResourceId h \<noteq> i_ResourceId (w_inst w)" and "i_CurrentState (w_inst w) \<noteq> INSTANCE_STATE_RUNNING"
  shows "\<exists>cs t. run_io (OnboardNodeStream (in_world B works w) (Suc n)) [] =
      (Ret (Some None), cs @ [InternalEvent (h_TenantId h) (i_ResourceId (w_inst w))]) \<and>
    after works w (cs @ [InternalEvent (h_TenantId h) (i_ResourceId (w_inst w))]) =
      w\<lparr>w_inst := (w_inst w)\<lparr>i_Host := Some (onboarded_host_of req t h)\<rparr>\<rparr>"
proof -
  let ?E = "in_world B works w" and ?i = "w_inst w"
  obtain l t g where turn: "run_io (stream_turn ?E) [] = (Ret (Close None (Some g)), l)" "h_TenantId g = h_TenantId h"
    "h_ResourceId g = h_ResourceId h" and w1: "after works w l = w\<lparr>w_inst := ?i\<lparr>i_Host := Some (onboarded_host_of req t h)\<rparr>\<rparr>"
    using onboarding_turn [OF assms(1-5)] by blast
  have ready: "internal_ready B l'" "\<not> cfg_SkipOSProvisioning (hv_config (host_view_at B l'))" for l'
    using assms(4) by (simp_all add: session_ready_def)
  have valid: "validate_message B (Some x) = None" for x using assms(1) by (simp add: serving_def)
  have "run_io (startZeroTouch ?E (h_TenantId g) (h_ResourceId g)) l =
      (Ret None, l @ [InvGet CliRM (h_TenantId h) (h_ResourceId h), InternalEvent (h_TenantId h) (i_ResourceId ?i)])"
    using ready assms(6,7)
    by (simp add: startZeroTouch_def GetHostResourceByResourceID_def get_validated_def getResourceByID_def in_world_replies
        find_resource_def w1 stored_host_def onboarded_host_of_def valid turn(2,3) SendInternalEvent_def)
  then have "run_io (OnboardNodeStream ?E (Suc n)) [] = (Ret (Some None),
      (l @ [InvGet CliRM (h_TenantId h) (h_ResourceId h)]) @ [InternalEvent (h_TenantId h) (i_ResourceId ?i)])"
    by (simp add: OnboardNodeStream_def turn(1))
  moreover have "after works w ((l @ [InvGet CliRM (h_TenantId h) (h_ResourceId h)]) @
      [InternalEvent (h_TenantId h) (i_ResourceId ?i)]) = w\<lparr>w_inst := ?i\<lparr>i_Host := Some (onboarded_host_of req t h)\<rparr>\<rparr>"
    by (simp only: after_snoc) (simp add: w1)
  ultimately show ?thesis by blast
qed


section \<open>From onboarding to provisioning\<close>

text \<open>An Instance on a registered host is left alone.\<close>

lemma registered_waits:
  assumes "serving B" and "GetResourceID rid = Ret (i_ResourceId (w_inst w))" and "i_Host (w_inst w) = Some h"
    and "h_CurrentState h = HOST_STATE_REGISTERED" and "h_DesiredState h = HOST_STATE_ONBOARDED"
    and "i_DesiredState (w_inst w) = INSTANCE_STATE_RUNNING" and "i_CurrentState (w_inst w) \<noteq> INSTANCE_STATE_RUNNING"
  shows "reconcile_in B works c rid w = (Ret Ack, w)"
proof -
  have "reconcile_loaded (in_world B works w) c (w_inst w) = ret Ack"
    using assms(3-7)
    by (auto simp: reconcile_loaded_def handleProviderSpecificRM_def handleErrorState_def handleHostDeauthorized_def
        host_untrusted_def handleMatchingStates_def handleHostOnboarded_def)
  then have "run_io (reconcile_loaded (in_world B works w) c (w_inst w)) [request_get c rid] = (Ret Ack, [request_get c rid])"
    by simp
  from run_serving [OF assms(1) rest_works_works assms(2) this] show ?thesis by simp
qed

end
