(* ===== verification/LifecycleThms.thy ===== *)
theory LifecycleThms
  imports Session
begin

text \<open>
  The properties of an Instance over its whole life: what holds of every world that
  reconciliations with any failures lead to, the refinement of the abstract life cycle, how
  provisioning comes to its end, why a failed one stays failed, and what a lost write does.
\<close>

section \<open>A machine and its manager\<close>

text \<open>The machine asks once, and its host, registered before, is onboarded.\<close>

definition life_env :: om_env where
  "life_env = sample_env\<lparr>stream_recv := (\<lambda>l. case l of [] \<Rightarrow> Inr (Some sample_req) | _ \<Rightarrow> Inl (ForeignErr ''EOF'' 0))\<rparr>"

definition machine_inst :: inst where
  "machine_inst = sample_inst\<lparr>i_Host := Some (onboarded_host_of sample_req 0 sample_host)\<rparr>"

lemma sample_credentials:
  "fst (run_io (createENCredentialsIfNotExists life_env t d) l) = Ret (Inr (''id'', ''secret''))"
  by (simp add: createENCredentialsIfNotExists_def credentials_for_def life_env_def sample_env_def)

definition sample_device :: device_info where
  "sample_device = (case convertInstanceToDeviceInfo life_env machine_inst of Inr d \<Rightarrow> d | Inl _ \<Rightarrow> empty_device_info)"

lemma sample_device: "convertInstanceToDeviceInfo life_env machine_inst = Inr sample_device"
  by (simp add: sample_device_def convertInstanceToDeviceInfo_def machine_inst_def sample_inst_def empty_inst_def sample_os_def
      empty_os_def os_location_def IsStandalone_def kernel_metadata_def Let_def life_env_def sample_env_def)


lemma sample_cloud_init: "\<exists>m. GenerateFromInfraConfig sample_view [] sample_config
   (cloud_init_options life_env sample_config (with_instance sample_device machine_inst ''id'' ''secret'')) = Ret (Inr m)"
proof -
  have "case GenerateFromInfraConfig sample_view [] sample_config
     (cloud_init_options life_env sample_config (with_instance sample_device machine_inst ''id'' ''secret''))
     of Ret (Inr m) \<Rightarrow> True | _ \<Rightarrow> False" by code_simp
  then show ?thesis by (auto split: outcome.splits sum.splits)
qed

lemma sample_device_sel: "di_PlatformBundle (with_instance sample_device machine_inst a b) = []"
  "di_OSImageURL (with_instance sample_device machine_inst a b) = ''http://a/image.raw.gz''"
  by (simp_all add: sample_device_def convertInstanceToDeviceInfo_def machine_inst_def sample_inst_def empty_inst_def sample_os_def
      empty_os_def os_location_def IsStandalone_def kernel_metadata_def Let_def life_env_def sample_env_def with_instance_def
      empty_device_info_def)

lemma returns_stream: "returns (getStreamOSToDiskTinkerActionImage E url p v)"
  unfolding getStreamOSToDiskTinkerActionImage_def detectImageFormat_def Let_def by (intro returns_intro)

lemma sample_inputs: "\<exists>m. fst (run_io (GenerateWorkflowInputs life_env
   (with_instance sample_device machine_inst ''id'' ''secret'')) l) = Ret (Inr m)"
proof -
  obtain m where m: "GenerateFromInfraConfig sample_view [] sample_config
   (cloud_init_options life_env sample_config (with_instance sample_device machine_inst ''id'' ''secret'')) = Ret (Inr m)"
    using sample_cloud_init by blast
  have V: "host_view_at life_env l' = sample_view" "hv_config sample_view = sample_config" for l'
    by (simp_all add: life_env_def sample_env_def sample_view_def)
  have fetch: "FetchPlatformBundleScripts life_env [] = ret (Inr \<lparr>pb_CloudInitTemplate = [], pb_InstallerScript = []\<rparr>)"
    by (simp add: FetchPlatformBundleScripts_def)
  obtain s l1 where stream: "run_io (getStreamOSToDiskTinkerActionImage life_env
      (di_OSImageURL (with_instance sample_device machine_inst ''id'' ''secret'')) (cfg_ENProxyHTTP sample_config)
      (di_TinkerVersion (with_instance sample_device machine_inst ''id'' ''secret''))) l = (Ret s, l1)"
    using returnsD [OF returns_stream] by blast
  show ?thesis
    by (simp add: GenerateWorkflowInputs_def Let_def V sample_device_sel(1) fetch m stream)
qed


definition fresh_world :: world where
  "fresh_world = \<lparr>w_inst = machine_inst, w_wfs = Map.empty, w_made = 0, w_succeeded = {}\<rparr>"

definition machine_uuid :: string where
  "machine_uuid = ''00000000-0000-0000-0000-000000000001''"

definition machine_request :: string where
  "machine_request = ''t1_inst-1''"

lemma sample_serving: "serving life_env"
  by (simp add: serving_def std_api_laws sound_masks_def life_env_def) (simp add: sample_env_def)

lemma machine_wanted: "wanted machine_inst" "host_uuid machine_inst = machine_uuid"
  by (simp_all add: wanted_def machine_inst_def onboarded_host_of_def sample_inst_def empty_inst_def sample_host_def empty_host_def
      sample_os_def host_untrusted_def host_uuid_def machine_uuid_def)

lemma machine_request_id: "GetResourceID machine_request = Ret (i_ResourceId machine_inst)"
  by code_simp

lemma machine_managed: "managed life_env machine_request machine_uuid machine_inst"
proof -
  have "supplied life_env sample_device machine_inst"
    using sample_credentials sample_inputs by (auto simp: supplied_def)
  moreover have "\<exists>h. i_Host machine_inst = Some h \<and> h_Provider h = None \<and> h_CurrentState h = HOST_STATE_ONBOARDED"
    by (simp add: machine_inst_def onboarded_host_of_def sample_host_def empty_host_def)
  moreover have "i_ProvisioningStatusIndicator machine_inst = IND_UNSPECIFIED" "i_ProvisioningStatus machine_inst = []"
    by (simp_all add: machine_inst_def sample_inst_def empty_inst_def)
  ultimately show ?thesis
    using machine_wanted sample_device machine_request_id by (simp add: managed_def)
qed


text \<open>The life of the machine: its workflow is created, succeeds, and is reconciled again.\<close>

definition started_world :: world where
  "started_world = snd (reconcile_in life_env works CliRM machine_request fresh_world)"

definition succeeded_world :: world where
  "succeeded_world = progress (generateWorkflowName machine_uuid) WF_SUCCESS [] started_world"

definition provisioned_world :: world where
  "provisioned_world = snd (reconcile_in life_env works CliRM machine_request succeeded_world)"

lemma fresh_phase: "phase_of machine_uuid fresh_world = Waiting"
  by (simp add: phase_of_def fresh_world_def machine_inst_def sample_inst_def empty_inst_def)

lemma fresh_managed: "managed life_env machine_request machine_uuid (w_inst fresh_world)"
  using machine_managed by (simp add: fresh_world_def)

lemma started_world: "managed life_env machine_request machine_uuid (w_inst started_world)"
    "phase_of machine_uuid started_world = InFlight WF_EMPTY"
  using waiting_step [OF sample_serving fresh_managed fresh_phase, of CliRM]
  by (auto simp: started_world_def)

lemma succeeded_world: "managed life_env machine_request machine_uuid (w_inst succeeded_world)"
    "phase_of machine_uuid succeeded_world = InFlight WF_SUCCESS"
  using started_world by (auto simp: succeeded_world_def phase_of_def progress_def split: if_splits option.splits)

lemma provisioned_world: "ready (w_inst provisioned_world)"
  using in_flight_step [OF sample_serving succeeded_world(1) succeeded_world(2), of CliRM]
  by (auto simp: provisioned_world_def)

lemma provisioned_evolves:
  "F works \<Longrightarrow> evolves life_env CliRM machine_request F C fresh_world provisioned_world"
  unfolding provisioned_world_def succeeded_world_def started_world_def by (intro evolves.intros)

section \<open>Whatever fails\<close>

text \<open>
  C5. Whatever fails on the way (any call may be refused or lose its reply), whatever Tinkerbell does
  with the workflows and whatever others write into the Instance, but for the provisioning
  status: an Instance of a machine that was not provisioned before is reported as provisioned
  only after the workflow named after its host has succeeded.
\<close>

theorem provisioned_after_success:
  assumes "sound_masks B" and "evolves B c rid (\<lambda>_. True) keeps_provisioning w0 w"
    and "unprovisioned (host_uuid (w_inst w0)) w0"
    and "i_ProvisioningStatusIndicator (w_inst w) = IND_IDLE"
  shows "generateWorkflowName (host_uuid (w_inst w0)) \<in> w_succeeded w"
proof -
  let ?u = "host_uuid (w_inst w0)"
  from assms(2) have "generateWorkflowName ?u \<in> w_succeeded w \<or> unprovisioned ?u w"
  proof (induction rule: evolves.induct)
    case (reconciled w f)
    have "unprovisioned ?u w \<Longrightarrow> unprovisioned ?u (snd (reconcile_in B f c rid w))"
      using leadsD [OF InstanceReconcile_unprovisioned [OF assms(1), of ?u f w], of "[]"]
      by (auto simp: reconcile_in_def split: prod.split)
    with reconciled.IH show ?case by auto
  next
    case (progressed w n s ts)
    then show ?case by (auto simp: progress_def unprovisioned_def)
  next
    case (changed w i)
    then show ?case by (auto simp: keeps_provisioning_def unprovisioned_def)
  qed (use assms(3) in simp)
  with assms(4) show ?thesis by (auto simp: unprovisioned_def)
qed

lemma provisioned_after_success_witness:
  "generateWorkflowName machine_uuid \<in> w_succeeded provisioned_world"
proof -
  have "unprovisioned (host_uuid (w_inst fresh_world)) fresh_world"
    by (simp add: unprovisioned_def fresh_world_def machine_inst_def sample_inst_def empty_inst_def)
  from provisioned_after_success [OF _ provisioned_evolves this] provisioned_world sample_serving machine_wanted(2)
  show ?thesis by (simp add: serving_def ready_def fresh_world_def)
qed

text \<open>
  C2. A machine is provisioned at most once: as long as the Inventory takes the writes of the
  manager, no more than one workflow is ever created for an Instance that stays wanted, whatever
  else fails (reads, every call to Kubernetes, Keycloak and the downloads, with and without
  effect), however often it is reconciled and whatever becomes of the workflow.
\<close>

theorem provisioned_at_most_once:
  assumes "errlib_laws (lib B)" and "sound_masks B"
    and "evolves B c rid inventory_works stays_wanted w0 w"
    and "wanted (w_inst w0)" and "w_made w0 = 0" and "w_wfs w0 = Map.empty"
  shows "w_made w \<le> 1"
proof -
  let ?u = "host_uuid (w_inst w0)"
  from assms(3) have "made_once ?u w"
  proof (induction rule: evolves.induct)
    case (reconciled w f)
    then show ?case by (intro InstanceReconcile_once assms(1,2))
  next
    case (changed w i)
    then show ?case
      by (auto simp: made_once_def stays_wanted_def keeps_provisioning_def ready_def)
  qed (use assms(4-6) in \<open>auto simp: made_once_def progress_def\<close>)
  then show ?thesis by (auto simp: made_once_def)
qed

lemma provisioned_at_most_once_witness: "w_made provisioned_world \<le> 1"
  using provisioned_at_most_once [OF _ _ provisioned_evolves [of inventory_works]] sample_serving machine_wanted(1)
  by (simp add: serving_def api_laws_def fresh_world_def)

text \<open>
  C40. The reconciliation that finds the workflow of an Instance finished, while the Inventory
  refuses its writes, ignores the errors, deletes the workflow and acknowledges: nothing is
  left that tells of the provisioning, and the next reconciliation creates a second workflow,
  so that the machine is provisioned again.
\<close>

theorem lost_write_provisions_again:
  assumes "serving B" and "managed B rid u (w_inst w)"
    and "phase_of u w = InFlight WF_SUCCESS"
  shows "\<exists>w1 w2. reconcile_in B (writes_refused e) c rid w = (Ret Ack, w1) \<and> w_inst w1 = w_inst w \<and>
    w_wfs w1 (generateWorkflowName u) = None \<and>
    reconcile_in B works c rid w1 = (Ret (answer_in Waiting), w2) \<and>
    phase_of u w2 = InFlight WF_EMPTY \<and> w_made w2 = Suc (w_made w)"
proof -
  let ?i = "w_inst w" and ?n = "generateWorkflowName u" and ?f = "writes_refused e" and ?E = "in_world B (writes_refused e) w"
  have L: "errlib_laws (lib B)" "errlib_laws (lib ?E)" "api_laws (lib B)" using assms(1) by (simp_all add: serving_def api_laws_def)
  have rid: "GetResourceID rid = Ret (i_ResourceId ?i)" using assms(2) by (simp add: managed_def)
  from assms(2) obtain h d os where i: "i_Host ?i = Some h" "convertInstanceToDeviceInfo B ?i = Inr d" "host_uuid ?i = u"
    and os: "i_Os ?i = Some os" "os_Provider os = OS_PROVIDER_KIND_INFRA"
    and desired: "i_DesiredState ?i = INSTANCE_STATE_RUNNING" by (auto simp: managed_def wanted_def)
  have n: "generateWorkflowName (di_GUID d) = ?n" using device_of_host [OF i(2)] i(3) by simp
  obtain x where x: "w_wfs w ?n = Some x" "wf_State x = WF_SUCCESS"
    using assms(3) by (auto simp: phase_of_def split: if_splits option.splits)
  obtain i2 err l1 v where l1: "run_io (attempt ?E d ?i) [request_get c rid] = (Ret (i2, err), l1)"
    "after ?f w l1 = w" and v: "i_Host i2 = Some v" "bare_host v = bare_host h" and "judged (lib B) WF_SUCCESS i2 err"
    using attempt_in_flight [OF L(1) i(2,1) writes_refused_rest, of e w "[request_get c rid]" x] x by (auto simp: n)
  then have err: "err = None" by (simp add: judged_def)
  obtain e2 l2 where wb: "run_io (updateHostInstanceStatusAndCurrentState ?E c ?i i2) l1 = (e2, l2)" by fastforce
  from write_back_refused [OF i(1) v(1) wb] l1(2) have l2: "e2 = Ret ()" "after ?f w l2 = w" by simp_all
  have u2: "host_uuid i2 = u" using i(1,3) v(1) bare_hostD(2) [OF v(2)] by (simp add: host_uuid_def)
  obtain l3 where l3: "run_io (cleanupProvisioningResources ?E i2) l2 = (Ret None, l3)"
    "after ?f w l3 = w\<lparr>w_wfs := (w_wfs w)(?n := None)\<rparr>"
    using cleanup_works [OF L(3) writes_refused_rest, of e w i2 l2] l2(2) u2 by auto
  have "run_io (reconcileInstance ?E c ?i) [request_get c rid] = (Ret Ack, l3)"
    using desired L(1) l1(1) wb l2(1) l3(1) i(2) err
    by (simp add: reconcileInstance_def tryProvisionInstance_attempt [OF L(2) os])
  then have run: "reconcile_in B ?f c rid w = (Ret Ack, after ?f w l3)"
    using managed_loaded [OF assms(2) L(2), of c] assms(3)
    by (intro run_serving [OF assms(1) writes_refused_rest rid]) simp
  have "phase_of u (after ?f w l3) = Waiting" using assms(3) by (auto simp: l3(2) phase_of_def split: if_splits)
  from waiting_step [OF assms(1) _ this, of rid c] assms(2) run l3(2) show ?thesis by auto
qed

lemma lost_write_provisions_again_witness:
  "\<exists>w1 w2. reconcile_in life_env (writes_refused (Errorf ''down'')) CliRM machine_request succeeded_world = (Ret Ack, w1) \<and>
    reconcile_in life_env works CliRM machine_request w1 = (Ret (answer_in Waiting), w2) \<and>
    w_made w2 = Suc (w_made succeeded_world)"
  using lost_write_provisions_again [OF sample_serving succeeded_world(1) succeeded_world(2),
      of "Errorf ''down''" CliRM] by blast


section \<open>When nothing fails\<close>

text \<open>
  C3. As long as nothing fails, the manager works in lock step with the life cycle waiting, in flight,
  ready or broken: after any number of reconciliations of a managed Instance, its phase is the
  one the machine has after as many steps, and every reconciliation ends with the directive of
  the phase it started in.
\<close>

theorem manager_refines_life_cycle:
  assumes "serving B" and "managed B rid u (w_inst w)"
  shows "phase_of u (((snd \<circ> reconcile_in B works c rid) ^^ k) w) = (next_phase ^^ k) (phase_of u w) \<and>
    fst (reconcile_in B works c rid (((snd \<circ> reconcile_in B works c rid) ^^ k) w)) =
      Ret (answer_in ((next_phase ^^ k) (phase_of u w)))"
proof -
  have "in_care B rid u w" using assms by (simp add: in_care_def)
  then show ?thesis by (simp add: cycle.steps_abs cycle.steps_ans)
qed

lemma manager_refines_life_cycle_witness:
  "phase_of machine_uuid (((snd \<circ> reconcile_in life_env works CliRM machine_request) ^^ 2) succeeded_world) = Ready"
  using manager_refines_life_cycle [OF sample_serving succeeded_world(1), where c = CliRM and k = 2]
  by (simp add: succeeded_world(2) numeral_2_eq_2 del: works_simps)

text \<open>Reconciliations, each after Tinkerbell has set the state and the actions of the workflow.\<close>

definition rounds :: "om_env \<Rightarrow> client \<Rightarrow> string \<Rightarrow> string \<Rightarrow> (wf_state \<times> tink_action list list) list \<Rightarrow> world \<Rightarrow> world" where
  "rounds B c rid n rs w = fold (\<lambda>(s, ts) w. snd (reconcile_in B works c rid (progress n s ts w))) rs w"

definition unfinished :: "wf_state \<Rightarrow> bool" where
  "unfinished s \<longleftrightarrow> s \<noteq> WF_SUCCESS \<and> s \<noteq> WF_FAILED \<and> s \<noteq> WF_TIMEOUT"

lemma progress_in_flight:
  assumes "phase_of u w = InFlight s'"
  shows "phase_of u (progress (generateWorkflowName u) s ts w) = InFlight s"
  using assms by (auto simp: phase_of_def progress_def split: if_splits option.splits)

lemma progress_inst [simp]: "w_inst (progress n s ts w) = w_inst w" "w_made (progress n s ts w) = w_made w"
  by (simp_all add: progress_def)

lemma rounds_in_flight:
  assumes "serving B" and "managed B rid u (w_inst w)" and "phase_of u w = InFlight s"
    and "\<forall>(s, ts) \<in> set rs. unfinished s"
  shows "\<exists>s'. managed B rid u (w_inst (rounds B c rid (generateWorkflowName u) rs w)) \<and>
    phase_of u (rounds B c rid (generateWorkflowName u) rs w) = InFlight s' \<and>
    w_made (rounds B c rid (generateWorkflowName u) rs w) = w_made w"
  using assms(2-4)
proof (induction rs arbitrary: w s)
  case (Cons p rs)
  obtain s1 ts where p: "p = (s1, ts)" by fastforce
  let ?w = "progress (generateWorkflowName u) s1 ts w"
  have managed: "managed B rid u (w_inst ?w)" using Cons.prems(1) by simp
  obtain w' where w': "reconcile_in B works c rid ?w = (Ret (answer_in (InFlight s1)), w')" "managed B rid u (w_inst w')"
    "phase_of u w' = next_phase (InFlight s1)" "w_made w' = w_made ?w"
    using in_flight_step [OF assms(1) managed progress_in_flight [OF Cons.prems(2)], of c] by blast
  have "phase_of u w' = InFlight s1" using w'(3) Cons.prems(3) by (cases s1) (auto simp: p unfinished_def)
  from Cons.IH [OF w'(2) this] Cons.prems(3) w'(1,4) show ?case by (simp add: rounds_def p)
qed (simp add: rounds_def)

text \<open>
  C4. Provisioning comes to its end: the first reconciliation of a waiting Instance creates its one
  workflow and is to be retried; whatever states Tinkerbell takes the workflow through and
  however often the Instance is reconciled meanwhile, the first reconciliation after the workflow
  has succeeded acknowledges, leaves the Instance running and provisioned and its workflow
  deleted; and from then on every reconciliation acknowledges and changes nothing.
\<close>

theorem provisioning_converges:
  assumes "serving B" and "managed B rid u (w_inst w)" and "phase_of u w = Waiting"
    and "\<forall>(s, ts) \<in> set rs. unfinished s"
  shows "\<exists>w1 w2. reconcile_in B works c rid w = (Ret (answer_in Waiting), w1) \<and>
    reconcile_in B works c rid (progress (generateWorkflowName u) WF_SUCCESS ts
      (rounds B c rid (generateWorkflowName u) rs w1)) = (Ret Ack, w2) \<and>
    ready (w_inst w2) \<and> w_wfs w2 (generateWorkflowName u) = None \<and> w_made w2 = Suc (w_made w) \<and>
    (\<forall>k. ((snd \<circ> reconcile_in B works c rid) ^^ k) w2 = w2) \<and> fst (reconcile_in B works c rid w2) = Ret Ack"
proof -
  let ?n = "generateWorkflowName u"
  obtain w1 where w1: "reconcile_in B works c rid w = (Ret (answer_in Waiting), w1)" "managed B rid u (w_inst w1)"
    "phase_of u w1 = InFlight WF_EMPTY" "w_made w1 = Suc (w_made w)"
    using waiting_step [OF assms(1-3), of c] by blast
  let ?w = "progress ?n WF_SUCCESS ts (rounds B c rid ?n rs w1)"
  obtain s' where s': "managed B rid u (w_inst ?w)" "phase_of u (rounds B c rid ?n rs w1) = InFlight s'"
    "w_made ?w = Suc (w_made w)"
    using rounds_in_flight [OF assms(1) w1(2,3) assms(4), of c] w1(4) by auto
  obtain w2 where w2: "reconcile_in B works c rid ?w = (Ret Ack, w2)" "managed B rid u (w_inst w2)" "phase_of u w2 = Ready"
    "w_made w2 = w_made ?w" "ready (w_inst w2)" "w_wfs w2 ?n = None"
    using in_flight_step [OF assms(1) s'(1) progress_in_flight [OF s'(2), of WF_SUCCESS ts], of c] by auto
  have settled: "reconcile_in B works c rid w2 = (Ret Ack, w2)"
    using settled_step [OF assms(1) w2(2)] w2(3) by blast
  have "((snd \<circ> reconcile_in B works c rid) ^^ k) w2 = w2" for k
    by (induction k) (simp_all add: settled del: works_simps)
  with w1(1) w2 s'(3) settled show ?thesis by auto
qed

lemma provisioning_converges_witness:
  "\<exists>w1 w2. reconcile_in life_env works CliRM machine_request fresh_world = (Ret (answer_in Waiting), w1) \<and>
    reconcile_in life_env works CliRM machine_request (progress (generateWorkflowName machine_uuid) WF_SUCCESS []
      (rounds life_env CliRM machine_request (generateWorkflowName machine_uuid)
        [(WF_PENDING, []), (WF_RUNNING, [sample_actions])] w1)) = (Ret Ack, w2) \<and> ready (w_inst w2)"
  using provisioning_converges [OF sample_serving fresh_managed fresh_phase,
      of "[(WF_PENDING, []), (WF_RUNNING, [sample_actions])]" CliRM "[]"]
  by (auto simp: unfinished_def simp del: works_simps)


section \<open>When a workflow fails\<close>

text \<open>Other writers that neither repair nor delete an Instance.\<close>

definition leaves_failed :: "inst \<Rightarrow> inst \<Rightarrow> bool" where
  "leaves_failed i i' \<longleftrightarrow> keeps_provisioning i i' \<and> i_ProvisioningStatus i' = i_ProvisioningStatus i \<and>
     i_ResourceId i' = i_ResourceId i \<and> i_DesiredState i' \<noteq> INSTANCE_STATE_DELETED"

lemma failed_loaded:
  assumes "i_ProvisioningStatusIndicator i = IND_ERROR" and "i_DesiredState i \<noteq> INSTANCE_STATE_DELETED"
  shows "reconcile_loaded E c i = ret Ack"
  using assms by (cases "handleProviderSpecificRM i")
    (auto simp: reconcile_loaded_def handleErrorState_def handleProviderSpecificRM_def split: option.splits if_splits)

lemma failed_untouched:
  assumes "i_ProvisioningStatusIndicator (w_inst w) = IND_ERROR" and "i_DesiredState (w_inst w) \<noteq> INSTANCE_STATE_DELETED"
  shows "snd (reconcile_in B f c rid w) = w"
proof -
  let ?E = "in_world B f w" and ?J = "\<lambda>l. after f w l = w"
  have get: "keeps ?J (GetInstanceResourceByResourceID ?E c t r)" for t r
    by (rule keeps_emits [where P = "\<lambda>x. \<exists>c t r. x = InvGet c t r"])
      (auto simp: GetInstanceResourceByResourceID_def get_validated_def getResourceByID_def intro!: emits_intro)
  have "keeps ?J (InstanceReconcile ?E c rid)"
    unfolding InstanceReconcile_def
  proof (rule keeps_seq)
    fix r
    show "keeps ?J (bnd (GetInstanceResourceByResourceID ?E c (GetTenantID rid) r) (\<lambda>r. case r of
           Inl e \<Rightarrow> or_go_on (HandleInventoryError (lib ?E) (Some e)) panic
         | Inr iopt \<Rightarrow> or_go_on (HandleInventoryError (lib ?E) None) (bnd (deref iopt) (reconcile_loaded ?E c))))"
    proof (rule keeps_bnd_run [OF get])
      fix l x l'
      assume "?J l" and run: "run_io (GetInstanceResourceByResourceID ?E c (GetTenantID rid) r) l = (Ret x, l')"
      then have "x = Inr (Some i) \<Longrightarrow> i = w_inst w" for i using got_instance by fastforce
      then show "keeps ?J (case x of
           Inl e \<Rightarrow> or_go_on (HandleInventoryError (lib ?E) (Some e)) panic
         | Inr iopt \<Rightarrow> or_go_on (HandleInventoryError (lib ?E) None) (bnd (deref iopt) (reconcile_loaded ?E c)))"
        using failed_loaded [OF assms]
        by (cases x; cases "projr x") (auto simp: leads_panic keeps_ret intro!: keeps_or_go_on)
    qed
  qed (simp add: leads_def)
  from leadsD [OF this, of "[]"] show ?thesis by (auto simp: reconcile_in_def split: prod.split)
qed

text \<open>
  C16. A failed provisioning is final: when the workflow of a managed Instance has failed or timed
  out, its reconciliation ends with an \<open>Aborted\<close> error, and the Inventory then holds the Instance
  in the failed status, with the detail of the workflow in its text. From then on, however often
  the Instance is reconciled and whatever fails meanwhile, whatever becomes of the workflow, and
  whatever others write as long as they do not touch the provisioning status or ask for the
  deletion: the status stays, no workflow is created, and a reconciliation whose calls work is an
  acknowledgement that changes nothing.
\<close>

theorem failed_provisioning_is_final:
  assumes "serving B" and "managed B rid u (w_inst w)" and "phase_of u w = InFlight (wf_State x)"
    and "w_wfs w (generateWorkflowName u) = Some x" and "wf_State x \<in> {WF_FAILED, WF_TIMEOUT}"
  shows "\<exists>w1. reconcile_in B works c rid w = (Ret (Fail (Some (Errorfc Aborted ''Workflow failed or timed out''))), w1) \<and>
    (\<forall>w2. evolves B c rid (\<lambda>_. True) leaves_failed w1 w2 \<longrightarrow>
       i_ProvisioningStatusIndicator (w_inst w2) = IND_ERROR \<and> i_ProvisioningStatus (w_inst w2) = failure_text x \<and>
       w_made w2 = w_made w \<and> reconcile_in B works c rid w2 = (Ret Ack, w2))"
proof -
  obtain w1 where w1: "reconcile_in B works c rid w = (Ret (answer_in (InFlight (wf_State x))), w1)"
    "managed B rid u (w_inst w1)" "phase_of u w1 = next_phase (InFlight (wf_State x))" "w_made w1 = w_made w"
    "i_ProvisioningStatus (w_inst w1) = failure_text x"
    using in_flight_step [OF assms(1-3), of c] assms(4,5) by blast
  have rid: "GetResourceID rid = Ret (i_ResourceId (w_inst w1))" and run1: "i_DesiredState (w_inst w1) = INSTANCE_STATE_RUNNING"
    using w1(2) by (simp_all add: managed_def wanted_def)
  have ind: "i_ProvisioningStatusIndicator (w_inst w1) = IND_ERROR"
    using w1(3) assms(5) by (auto simp: phase_of_def split: if_splits option.splits)
  have inv: "i_ProvisioningStatusIndicator (w_inst w2) = IND_ERROR \<and> i_ProvisioningStatus (w_inst w2) = failure_text x \<and>
      w_made w2 = w_made w \<and> i_ResourceId (w_inst w2) = i_ResourceId (w_inst w1) \<and>
      i_DesiredState (w_inst w2) \<noteq> INSTANCE_STATE_DELETED"
    if "evolves B c rid (\<lambda>_. True) leaves_failed w1 w2" for w2
    using that
  proof (induction rule: evolves.induct)
    case (reconciled w f)
    then show ?case by (simp add: failed_untouched)
  qed (use w1 ind run1 in \<open>auto simp: progress_def leaves_failed_def keeps_provisioning_def\<close>)
  have "reconcile_in B works c rid w2 = (Ret Ack, w2)" if "evolves B c rid (\<lambda>_. True) leaves_failed w1 w2" for w2
  proof -
    note i = inv [OF that]
    have "run_io (reconcile_loaded (in_world B works w2) c (w_inst w2)) [request_get c rid] = (Ret Ack, [request_get c rid])"
      using i by (simp add: failed_loaded)
    from run_serving [OF assms(1) rest_works_works _ this] i rid show ?thesis by simp
  qed
  moreover have "answer_in (InFlight (wf_State x)) = Fail (Some (Errorfc Aborted ''Workflow failed or timed out''))"
    using assms(5) by auto
  ultimately show ?thesis using w1(1) inv by auto
qed

definition failed_world :: world where
  "failed_world = progress (generateWorkflowName machine_uuid) WF_TIMEOUT [] started_world"

lemma failed_world: "managed life_env machine_request machine_uuid (w_inst failed_world)"
    "phase_of machine_uuid failed_world = InFlight WF_TIMEOUT"
  using started_world by (auto simp: failed_world_def phase_of_def progress_def split: if_splits option.splits)

lemma failed_provisioning_is_final_witness:
  "\<exists>w1 w2. reconcile_in life_env works CliRM machine_request failed_world =
      (Ret (Fail (Some (Errorfc Aborted ''Workflow failed or timed out''))), w1) \<and>
    w2 = snd (reconcile_in life_env (\<lambda>l x. Refused (Errorf ''down'')) CliRM machine_request w1) \<and>
    i_ProvisioningStatusIndicator (w_inst w2) = IND_ERROR \<and> w_made w2 = w_made failed_world"
proof -
  obtain x where x: "w_wfs failed_world (generateWorkflowName machine_uuid) = Some x" "wf_State x = WF_TIMEOUT"
    using failed_world(2) by (auto simp: phase_of_def split: if_splits option.splits)
  obtain w1 where w1: "reconcile_in life_env works CliRM machine_request failed_world =
      (Ret (Fail (Some (Errorfc Aborted ''Workflow failed or timed out''))), w1)"
    "\<And>w2. evolves life_env CliRM machine_request (\<lambda>_. True) leaves_failed w1 w2 \<Longrightarrow>
       i_ProvisioningStatusIndicator (w_inst w2) = IND_ERROR \<and> w_made w2 = w_made failed_world"
    using failed_provisioning_is_final [OF sample_serving failed_world(1) _ x(1), of CliRM] failed_world(2) x(2) by auto
  have "evolves life_env CliRM machine_request (\<lambda>_. True) leaves_failed w1
      (snd (reconcile_in life_env (\<lambda>l x. Refused (Errorf ''down'')) CliRM machine_request w1))"
    by (intro evolves.intros) simp
  with w1 show ?thesis by blast
qed

section \<open>From onboarding to provisioning\<close>

text \<open>
  C6. The two ways into the manager together: an Instance that is wanted running on a host which
  is registered and to be onboarded is left alone by its reconciliations; when the machine then
  asks on the stream, the session ends well with the host onboarded and an event for that
  Instance as its last call, and the reconciliation of the request made from the event creates
  the workflow.
\<close>

theorem onboarding_opens_provisioning:
  assumes "serving B" and "i_Host (w_inst w) = Some h" and "h_CurrentState h = HOST_STATE_REGISTERED"
    and "h_DesiredState h = HOST_STATE_ONBOARDED" and "h_RegistrationStatusIndicator h \<noteq> IND_ERROR"
    and "h_ResourceId h \<noteq> i_ResourceId (w_inst w)" and "i_CurrentState (w_inst w) \<noteq> INSTANCE_STATE_RUNNING"
    and "phase_of u w = Waiting" and "request_of req h" and "session_ready B req h"
    and "\<And>t. managed B (NewReconcilerID (h_TenantId h) (i_ResourceId (w_inst w))) u
      ((w_inst w)\<lparr>i_Host := Some (onboarded_host_of req t h)\<rparr>)"
  shows "reconcile_in B works c (NewReconcilerID (h_TenantId h) (i_ResourceId (w_inst w))) w = (Ret Ack, w) \<and>
    (\<exists>cs w1 w2. run_io (OnboardNodeStream (in_world B works w) (Suc n)) [] =
       (Ret (Some None), cs @ [InternalEvent (h_TenantId h) (i_ResourceId (w_inst w))]) \<and>
     after works w (cs @ [InternalEvent (h_TenantId h) (i_ResourceId (w_inst w))]) = w1 \<and>
     (\<exists>g. i_Host (w_inst w1) = Some g \<and> h_CurrentState g = HOST_STATE_ONBOARDED) \<and>
     reconcile_in B works c (NewReconcilerID (h_TenantId h) (i_ResourceId (w_inst w))) w1 = (Ret (answer_in Waiting), w2) \<and>
     phase_of u w2 = InFlight WF_EMPTY \<and> w_made w2 = Suc (w_made w))"
proof -
  let ?i = "w_inst w" and ?rid = "NewReconcilerID (h_TenantId h) (i_ResourceId (w_inst w))"
  have m: "GetResourceID ?rid = Ret (i_ResourceId ?i)" "i_DesiredState ?i = INSTANCE_STATE_RUNNING"
    using assms(11) [of 0] by (simp_all add: managed_def wanted_def)
  note waits = registered_waits [OF assms(1) m(1) assms(2-4) m(2) assms(7)]
  have on: "to_onboard h" using assms(3-5) by (simp add: to_onboard_def)
  obtain cs t where run: "run_io (OnboardNodeStream (in_world B works w) (Suc n)) [] =
       (Ret (Some None), cs @ [InternalEvent (h_TenantId h) (i_ResourceId ?i)])"
    and w1: "after works w (cs @ [InternalEvent (h_TenantId h) (i_ResourceId ?i)]) =
       w\<lparr>w_inst := ?i\<lparr>i_Host := Some (onboarded_host_of req t h)\<rparr>\<rparr>" (is "_ = ?w1")
    using onboarding_session [OF assms(1,2,9,10) on assms(6,7)] by blast
  have "managed B ?rid u (w_inst ?w1)" "phase_of u ?w1 = Waiting"
    using assms(8,11) by (auto simp: phase_of_def split: if_splits)
  from waiting_step [OF assms(1) this, of c] obtain w2 where
    "reconcile_in B works c ?rid ?w1 = (Ret (answer_in Waiting), w2)" "phase_of u w2 = InFlight WF_EMPTY"
    "w_made w2 = Suc (w_made w)" by auto
  moreover have "\<exists>g. i_Host (w_inst ?w1) = Some g \<and> h_CurrentState g = HOST_STATE_ONBOARDED"
    by (simp add: onboarded_host_of_def)
  ultimately show ?thesis using waits run w1 by blast
qed


definition registered_world :: world where
  "registered_world = fresh_world\<lparr>w_inst := sample_inst\<lparr>i_Host := Some sample_host\<rparr>\<rparr>"

lemma machine_onboarded:
  "managed life_env machine_request machine_uuid (sample_inst\<lparr>i_Host := Some (onboarded_host_of sample_req t sample_host)\<rparr>)"
proof -
  have "bare_host (onboarded_host_of sample_req t sample_host) = bare_host (onboarded_host_of sample_req 0 sample_host)"
    by (simp add: bare_host_def onboarded_host_of_def)
  from managed_host [OF machine_managed _ this] show ?thesis by (simp add: machine_inst_def)
qed

lemma machine_session: "session_ready life_env sample_req sample_host" "request_of sample_req sample_host"
proof -
  have "OnboardNodeStreamRequest_Validate sample_req = None" by code_simp
  then show "request_of sample_req sample_host"
    by (simp add: request_of_def sample_req_def sample_host_def empty_host_def)
  show "session_ready life_env sample_req sample_host"
    by (simp add: session_ready_def life_env_def sample_env_def sample_view_def sample_config_def FetchClientSecret_def
        credentials_for_def)
qed

lemma onboarding_opens_provisioning_witness:
  "\<exists>cs w1 w2. run_io (OnboardNodeStream (in_world life_env works registered_world) 1) [] =
       (Ret (Some None), cs @ [InternalEvent ''t1'' ''inst-1'']) \<and>
     after works registered_world (cs @ [InternalEvent ''t1'' ''inst-1'']) = w1 \<and>
     reconcile_in life_env works CliRM machine_request w1 = (Ret (answer_in Waiting), w2) \<and> w_made w2 = 1"
proof -
  have "phase_of machine_uuid registered_world = Waiting"
    by (simp add: phase_of_def registered_world_def fresh_world_def sample_inst_def empty_inst_def)
  moreover have "w_inst registered_world = sample_inst\<lparr>i_Host := Some sample_host\<rparr>" "w_made registered_world = 0"
    by (simp_all add: registered_world_def fresh_world_def)
  moreover have "h_TenantId sample_host = ''t1''" "i_ResourceId sample_inst = ''inst-1''"
    "NewReconcilerID ''t1'' ''inst-1'' = machine_request" "h_CurrentState sample_host = HOST_STATE_REGISTERED"
    "h_DesiredState sample_host = HOST_STATE_ONBOARDED" "h_RegistrationStatusIndicator sample_host \<noteq> IND_ERROR"
    "h_ResourceId sample_host \<noteq> ''inst-1''" "i_CurrentState sample_inst \<noteq> INSTANCE_STATE_RUNNING"
    by (simp_all add: sample_host_def empty_host_def sample_inst_def empty_inst_def NewReconcilerID_def machine_request_def)
  ultimately show ?thesis
    using onboarding_opens_provisioning [OF sample_serving _ _ _ _ _ _ _ machine_session(2,1), of registered_world
        machine_uuid CliRM 0] machine_onboarded
    by (simp del: works_simps) blast
qed

end
