(* ===== verification/Spec2Isabelle.thy ===== *)
theory Spec2Isabelle
  imports HostThms ProvisioningThms OnboardingThms CurationThms WorkerCmd EnrolmentThms ImageThms DkRuns ValidateThms OmProcThms LifecycleThms
begin

text \<open>
  A verification development for the onboarding software of an edge fleet: what has to hold of
  the code that turns a machine which boots into the discovery OS into a provisioned edge node.

  \<^bold>\<open>The program.\<close> Several programs work together. \<^bold>\<open>Device discovery\<close> (\<open>src/hook-os\<close>) runs on the
  machine, finds out its serial number and address, and asks the manager for credentials. The
  \<^bold>\<open>Onboarding Manager\<close> (\<open>src/onboarding-manager\<close>) is one process with three ways in. Machines
  reach its southbound gRPC services (\<open>internal/handlers/southbound/grpcserver\<close>), either on a
  stream that hands out credentials once the host is wanted onboarded, or with \<open>CreateNodes\<close>. The
  Inventory reaches it through events and a ticker (\<open>internal/handlers/controller\<close>), which the
  controller turns into requests for two reconcilers: one deletes and invalidates hosts, the
  other provisions, deletes and invalidates Instances. Provisioning means a Tinkerbell workflow
  in Kubernetes whose template data, cloud-init and scripts come from \<open>internal/onboarding\<close>,
  \<open>internal/tinkerbell\<close>, \<open>pkg/platformbundle\<close>, \<open>pkg/cloudinit\<close> and from the \<^bold>\<open>curation\<close> code
  of \<open>src/dkam\<close>. The \<^bold>\<open>worker\<close> (\<open>src/tink-worker\<close>) runs on the machine again and executes the
  actions of that workflow in containers, in order, reporting each; some of the \<^bold>\<open>actions\<close> are
  programs of this repository too (\<open>src/tinker-actions\<close>). The \<^bold>\<open>DKAM process\<close> (\<open>src/dkam\<close>) has
  built and signed before what machines boot from: it reads the shared configuration with the
  manifest of the agents, downloads the micro OS and runs the scripts that sign it. All state that lasts is in the
  Inventory, in Kubernetes, in Keycloak and on the disk of the machine.

  \<^bold>\<open>How it is modelled.\<close> Code that talks to a service is an interaction program (theory GoIO):
  it runs on the list of calls made so far, and the reply to a call is a parameter, a function
  of that history. The parameters are records with one field per function of a library, a
  service or the system that the code calls: \<open>om_env\<close> (theory Inventory) for the manager, \<open>tw_env\<close>
  (WorkerApi) for the worker, \<open>dd_env\<close> (DiscoApi) for device discovery, \<open>ta_env\<close> (TaApi) for
  the actions, \<open>dk_env\<close> (DkApi) for DKAM. Errors are values (theory GoErrors), and how the libraries classify them is the
  record \<open>errlib\<close> with the named laws \<open>errlib_laws\<close>, which \<open>std_errlib\<close> satisfies. Code without
  effects is plain functions, of the snapshot \<open>host_view\<close> where it reads the configuration, the
  environment or files. A Go panic is the outcome \<open>Panic\<close>; deferred functions run on it. Pointers
  that may be nil are options, and reading through one that is \<open>None\<close> panics. The goroutines of
  the worker are threads with a schedule (theory GoThread). Two readings of the clock without a
  call between them are equal.

  \<^bold>\<open>Theories\<close>, each with the code it models:
  \<^item> Prelude, GoNet, GoConv, GoPath: the functions on strings, addresses, numbers and file paths
    of Go's library that the code uses.
  \<^item> GoIO: interaction programs; \<open>emits\<close> (all calls a program can make), \<open>emits_on\<close> (the calls of
    runs with some result), \<open>returns\<close> (it cannot panic), \<open>ok_trace\<close> (the calls of a run without
    error); the locale \<open>stop_on_error\<close> of loops that end at the first error, interpreted on the
    loops of HostRec, TinkClient, Controller, WorkerInit and Cexec. GoTrace: calls in an order.
  \<^item> GoErrors, Status (\<open>pkg/status\<close>), Populate (\<open>internal/util\<close>, with the locales \<open>status_slot\<close>
    and \<open>independent_slots\<close> of the setters).
  \<^item> Inventory, InvClient (\<open>internal/invclient\<close>): the resources, the calls, the parameters; the
    client. Its writers are interpretations of the locale \<open>masked_writer\<close>: one update, with a
    fixed field mask, of the resource they are given.
  \<^item> Reconciler, HostRec, InstRec, Controller (\<open>internal/handlers/controller\<close>): request ids and
    directives, the two reconcilers with the gate of the Instances (\<open>provisioning_open\<close>), the control
    loop with the calls that an event stands for (\<open>asked\<close>). The reconciliation queue is a library:
    handing it a request is a call, and \<open>dispatch\<close> is what it runs for one.
  \<^item> Validate (the checks of \<open>onboarding.pb.validate.go\<close> and the texts of their errors), GoRegexp
    (regular expressions and their languages), ValidateThms; Southbound (\<open>grpc_server.go\<close>).
  \<^item> TinkClient, TinkStatus, TemplateData (\<open>internal/tinkerbell\<close>), Bundle (\<open>pkg/platformbundle\<close>),
    Workflow (\<open>internal/onboarding\<close>).
  \<^item> Curation, CloudInit (\<open>dkam/pkg/config\<close>, \<open>dkam/pkg/curation\<close>, \<open>pkg/cloudinit\<close>): firewall
    commands and the variables of the cloud-init template.
  \<^item> WorkerApi, Containerd, Docker, Worker, WorkerInit (\<open>tink-worker/cmd/tink-worker/worker\<close>): the
    two container managers, interpretations \<open>cd\<close> and \<open>dk\<close> of the locale \<open>container_manager\<close> that
    the worker relies on, and the loop over workflow contexts and actions. WorkerMachine is the
    abstract specification: a machine that pulls, creates, starts, waits and reports in order;
    WorkerThms shows that every run of the worker is a run of that machine. WorkerCmd
    (\<open>cmd/root.go\<close>): the command, which reads its configuration and starts the worker.
  \<^item> GoProcess: processes that a fatal error ends, deferred functions, \<open>staged\<close> (the calls of a
    program come in the order of stages). GoEmbed: programs inside larger ones, the locale
    \<open>embedding\<close>, interpreted for the worker in its command and for the configuration and the
    controller in the process of the manager.
  \<^item> OmProcess (\<open>cmd/onboardingmgr/main.go\<close>, \<open>internal/env\<close>, \<open>internal/handlers/southbound\<close>, the
    constructors of services and Inventory clients): the process of the manager, with Controller
    and DkConfig inside; its properties are in OmProcThms.
  \<^item> DiscoApi, Discovery, Enrol (\<open>hook-os/device_discovery\<close>): configuration and kernel arguments,
    serial number and address; the stream client with its backoff, the tokens of Keycloak, the
    interactive login, the program.
  \<^item> TaApi, Drives (\<open>pkg/drive_detection\<close>), WriteFile, Cexec, ImageWrite (the actions \<open>writefile\<close>,
    \<open>cexec\<close>, \<open>image2disk\<close>, \<open>qemu_nbd_image2disk\<close> and \<open>securebootflag\<close>). The locale \<open>sorter\<close> is what
    \<open>sort.Sort\<close> promises, interpreted on the insertion sort that it runs on short lists.
  \<^item> DkApi, DkConfig (\<open>dkam/pkg/config\<close>), DkSigning (\<open>dkam/pkg/download\<close>, \<open>dkam/pkg/signing\<close>),
    DkMain (\<open>dkam/cmd/dkammgr\<close>, \<open>dkam/internal/dkammgr\<close>, \<open>dkam/pkg/script/vpro\<close>): the
    configuration in force, the copy of the build scripts and their placeholders, the process
    with the goroutine that builds. DkTemplate relates replacing placeholders one after the other
    to filling in a template at once.
  \<^item> World, Evolve, Once, Phases, Session: the Instance reconciler and the onboarding stream in a
    world that remembers. World answers the calls from what earlier ones have left in the Inventory and in
    Kubernetes, lets every call fail before or after it took effect, and specifies programs by
    \<open>leads\<close> (the history before and after); Evolve has the worlds that reconciliations, Tinkerbell
    and other writers lead to, Once the invariant of one workflow per Instance, Phases the
    abstract life cycle and the locale \<open>lock_step\<close>, interpreted on the reconciler, Session the
    sessions of the stream that end with an event for the Instance.
  \<^item> SampleEnv, and the ends of the theories of properties: concrete parameters on which the
    witnesses run the model.
  \<^item> HostThms, ProvisioningThms, OnboardingThms, CurationThms, WorkerThms, DiscoveryThms,
    EnrolmentThms (device discovery against the services of the manager), ActionThms, ImageThms,
    DkThms, DkRuns, ValidateThms, OmProcThms, LifecycleThms and this theory: the properties.

  \<^bold>\<open>Bounds.\<close> Loops that may run forever take fuel, and running out of it is a result of its own.
  The stream service of the manager: \<open>stream_service_ends\<close> shows that \<open>k + 1\<close> turns are enough
  when the k-th receive fails. The stream client of device discovery and the retries of the
  actions go on for as long as the service (or the backoff library) says so. The wait for an
  attached block device: \<open>device_wait_ends\<close>. The worker's loop over workflows has no end by
  design, and its properties hold for every fuel. The control loop runs on the list of its select
  outcomes. The tree that DKAM copies is finite. All other loops are structural. Sizes of drives are words of 64 bits; durations are
  computed in 64 bits where they can overflow (the timeout of an action, the intervals of
  \<open>image2disk\<close>); kernel settings are words of 32 bits; other numbers are mathematical integers.

  \<^bold>\<open>Hypotheses.\<close> What a property needs of a parameter is in its statement, e.g. the laws of the
  error library, and in EnrolmentThms the predicate \<open>served\<close>: the replies that device discovery
  gets are those of runs of the manager's service; in DkThms the predicate \<open>sets_config\<close>: the
  watcher of the configuration file sets only what \<open>on_config_change\<close> sets;
  in LifecycleThms \<open>sound_masks\<close>: the update masks of the code are accepted, and validating a
  masked message keeps the fields of the mask, \<open>serving\<close>: besides, the Inventory holds valid
  Instances and Kubernetes classifies its own errors, and \<open>managed\<close>: what an Instance needs to be
  provisioned is there; in EnrolmentThms also \<open>lookup_laws\<close>: the library's checks of a listing
  answer "not found" for an empty one only; for the control loop, an Inventory that answers every listing with the
  same resources and a controller library that accepts every request. \<open>skipping\<close> (DkRuns)
  says which profile the configuration that the run itself has read selects; \<open>skips_at\<close> and \<open>initialised\<close>
  (OmProcThms) are conclusions: what the start of the manager has done by a point of its run.

  \<^bold>\<open>Not modelled.\<close> Log lines, tracing and the progress display; texts of formatted errors beyond
  their constant part; what gRPC, viper, cobra, OPA and the exporters do (parameters); rendering
  of Go templates (a parameter); concurrent runs of two reconcilers (each run sees its services through the history,
  which may answer anything; the worlds of LifecycleThms hold one Instance, with others writing
  between its reconciliations); the actions that are shell scripts. The manifest lists the
  components that are left out.
\<close>

section \<open>The manager as a whole\<close>

text \<open>The ways into the Onboarding Manager.\<close>

datatype entry =
    StartController "(string \<times> string) list" bool
  | ControlLoop "sub_event \<Rightarrow> bool" "sub_event \<Rightarrow> goerr + string \<times> string" bool "select_outcome list"
  | Dispatch bool res_kind string
  | OnboardStream nat
  | CreateNodesCall bool bool "string option" "node_data list"

fun run_entry :: "om_env \<Rightarrow> entry \<Rightarrow> unit om" where
  "run_entry E (StartController ts skip) = bnd (Controller_Start E ts skip) (\<lambda>_. ret ())"
| "run_entry E (ControlLoop v k skip ss) = controlLoop E v k skip ss"
| "run_entry E (Dispatch skip k rid) = bnd (dispatch E skip k rid) (\<lambda>_. ret ())"
| "run_entry E (OnboardStream n) = bnd (OnboardNodeStream E n) (\<lambda>_. ret ())"
| "run_entry E (CreateNodesCall a z t p) = bnd (CreateNodes E a z t p) (\<lambda>_. ret ())"

text \<open>What the manager may do to the Inventory: it updates and deletes through the resource
  manager's client only, never writes a desired state, creates hosts only as onboarded hosts of
  the tenant of the call, and Instances only for zero-touch provisioning.\<close>

fun om_safe :: "om_call \<Rightarrow> bool" where
  "om_safe (InvUpdate c t i fs r) = (c = CliRM \<and> F_desired_state \<notin> set fs)"
| "om_safe (InvDelete c t i) = (c = CliRM)"
| "om_safe (InvCreate c t (ResHost h)) = (c = CliRM \<and> h_TenantId h = t \<and>
     h_CurrentState h = HOST_STATE_ONBOARDED \<and> h_DesiredState h = HOST_STATE_UNSPECIFIED)"
| "om_safe (InvCreate c t (ResInstance i)) = (c = CliAPI \<and> i_TenantId i = t \<and>
     i_DesiredState i = INSTANCE_STATE_RUNNING \<and> i_CurrentState i = INSTANCE_STATE_UNSPECIFIED)"
| "om_safe (InvCreate c t r) = False"
| "om_safe _ = True"

lemma stream_call_safe: "stream_call x \<Longrightarrow> om_safe x"
  by (cases x) (auto simp: stream_masks_def mask_defs)

lemma host_rec_call_safe: "host_rec_call CliRM x \<Longrightarrow> om_safe x"
  by (cases x) (auto simp: host_rec_masks_def mask_defs)

lemma workflow_call_safe: "workflow_call x \<Longrightarrow> om_safe x"
  by (cases x) auto

lemma inst_rec_call_safe: "inst_rec_call CliRM x \<Longrightarrow> om_safe x"
  by (cases x) (auto simp: inst_rec_masks_def mask_defs)

lemma request_ok_safe: "request_ok skip x \<Longrightarrow> om_safe x"
  by (cases x) auto

lemma safe_stream: "emits om_safe (OnboardNodeStream E n)"
proof -
  have loop: "emits om_safe (stream_loop E n)"
  proof (induction n)
    case (Suc n)
    then show ?case
      by (auto intro!: emits_intro emits_mono [OF emits_stream_turn] stream_call_safe split: turn.split)
  qed (simp add: emits_ret)
  show ?thesis
    unfolding OnboardNodeStream_def by (intro emits_intro loop) (auto simp: ztp_instance_def)
qed

lemma safe_bootstrap: "emits om_safe (Controller_Start E ts skip)"
proof -
  have all: "emits om_safe (reconcileAll E skip)"
    by (rule emits_mono [OF emits_reconcileAll]) (rule request_ok_safe)
  show ?thesis
    unfolding Controller_Start_def
    by (intro emits_if_nil emits_if emits_ret emits_Bootstrap all) auto
qed

text \<open>
  C1. Whatever service call, stream, event or reconciliation the manager runs, every call it
  makes is safe: it writes no desired state (those belong to the users), it updates and deletes
  only through the resource manager's client, it creates a host only as an onboarded host of
  the caller's tenant, and an Instance only as one that is to run and that nobody runs yet.
\<close>

theorem om_calls_are_safe: "emits om_safe (run_entry E e)"
proof (cases e)
  case (Dispatch skip k rid)
  have host: "emits om_safe (HostReconcile E CliRM skip rid)"
    by (rule emits_mono [OF emits_HostReconcile]) (rule host_rec_call_safe)
  have inst: "emits om_safe (InstanceReconcile E CliRM rid)"
    by (rule emits_mono [OF emits_InstanceReconcile]) (rule inst_rec_call_safe)
  show ?thesis
    using host inst by (auto simp: Dispatch dispatch_def intro!: emits_bnd emits_ret)
next
  case (ControlLoop v k skip ss)
  then show ?thesis by (auto intro: emits_mono [OF emits_controlLoop] request_ok_safe)
next
  case (StartController ts skip)
  then show ?thesis by (auto intro!: emits_intro safe_bootstrap)
next
  case (OnboardStream n)
  then show ?thesis by (auto intro!: emits_intro safe_stream)
next
  case (CreateNodesCall a z t p)
  then show ?thesis
    by (auto intro!: emits_intro simp: mask_defs onboarded_host_def ztp_instance_def)
qed


section \<open>The controller\<close>

text \<open>
  C21. Under an Inventory that answers every listing with the same resources (\<open>found\<close>) and a
  controller library that accepts every request, the control loop turns what the watcher, the
  internal channel and the ticker deliver into exactly these calls, in that order, up to the stop:
  a valid event becomes one request for its resource when it is about a host that was not deleted
  or an Instance (none in the vPro profile); an internal event becomes one without a filter; a
  tick lists the hosts and the Instances and hands them all over, the hosts first, up to the first
  one that has no controller. No outcome is lost, doubled or reordered.
\<close>

theorem events_become_requests:
  assumes "\<And>l k rid. ctrl_reconcile E l k rid = None" and "\<And>k. resource_from_kind E k = None"
    and "\<And>l k. inv_find_all E l CliRM k = Inr (found k)"
    and "WatcherClosed \<notin> set ss" and "InternalClosed \<notin> set ss"
  shows "run_io (controlLoop E v key skip ss) l =
    (Ret (), l @ concat (map (asked E v key skip found) (takeWhile (\<lambda>s. s \<noteq> select_outcome.Stop) ss)))"
  using assms(4,5)
proof (induction ss arbitrary: l)
  case (Cons s ss)
  then have IH: "\<And>l. run_io (controlLoop E v key skip ss) l =
    (Ret (), l @ concat (map (asked E v key skip found) (takeWhile (\<lambda>s. s \<noteq> select_outcome.Stop) ss)))" by simp
  show ?case
    using Cons.prems run_reconcileAll [of E found skip l v key, OF assms(1-3)]
    by (cases s) (auto simp: IH run_watched [where found = found] run_internal [where v = v and key = key and found = found])
qed simp

definition two_hosts :: "res_kind \<Rightarrow> (string \<times> string) list" where
  "two_hosts k = (if k = KIND_HOST then [(''t1'', ''host-1''), (''t2'', ''host-2'')]
     else if k = KIND_INSTANCE then [(''t1'', ''inst-1'')] else [])"

definition sample_event :: "string \<Rightarrow> event_kind \<Rightarrow> sub_event" where
  "sample_event r k = \<lparr>ev_ResourceId = r, ev_EventKind = k, ev_Resource = None\<rparr>"

lemma events_become_requests_witness:
  "run_io (controlLoop (sample_env\<lparr>inv_find_all := \<lambda>l c k. Inr (two_hosts k)\<rparr>) (\<lambda>_. True)
       (\<lambda>ev. Inr (''t1'', ev_ResourceId ev)) False
       [Watched (sample_event ''host-1'' EVENT_KIND_DELETED), Watched (sample_event ''inst-1'' EVENT_KIND_DELETED),
        Internally ''t2'' ''host-2'', Tick, select_outcome.Stop, Tick]) [] =
   (Ret (), [CtrlReconcile KIND_INSTANCE ''t1_inst-1'', CtrlReconcile KIND_HOST ''t2_host-2'',
      InvFindAll CliRM KIND_HOST, InvFindAll CliRM KIND_INSTANCE,
      CtrlReconcile KIND_HOST ''t1_host-1'', CtrlReconcile KIND_HOST ''t2_host-2'',
      CtrlReconcile KIND_INSTANCE ''t1_inst-1''])"
  by (subst events_become_requests [where found = two_hosts])
    (simp_all add: sample_env_def asked_def request_for_def of_interest_def two_hosts_def
      sample_event_def has_prefix_def map_filter_simps)

text \<open>
  In the vPro profile a full reconciliation ends with an error at the first Instance the
  Inventory returns, and the hosts after it are not reconciled.
\<close>

theorem vpro_reconciliation_stops_at_instance:
  assumes "kind_of_id E r = Inr KIND_INSTANCE"
  shows "run_io (reconcile_ids E True ((t, r) # ids)) l =
    (Ret (Some (FmtErrorf ''unknown resource controller for kind'' None)), l)"
  using assms by (rule vpro_instance_stops)

lemma vpro_reconciliation_stops_at_instance_witness:
  "run_io (reconcile_ids sample_env True [(''t1'', ''inst-1''), (''t1'', ''host-1'')]) [] =
    (Ret (Some (FmtErrorf ''unknown resource controller for kind'' None)), [])"
  by (rule vpro_reconciliation_stops_at_instance) (simp add: sample_env_def has_prefix_def)

end
